(* ===== verification/Prelude.thy ===== *)
theory Prelude
  imports Main "HOL-Library.Word" "HOL-Library.List_Lexorder"
begin

text \<open>
  Shared vocabulary of the development: byte strings and text strings, the exceptions the
  package raises, the result type that makes every raise a value, and the collection of
  inversion rules (\<open>res_simps\<close>) by which a proof reads off what an operation that returned
  must have checked on the way.

  A Python \<open>bytes\<close> value is a list of 8-bit words. A Python \<open>str\<close> is the list of its code
  points (natural numbers), because the code counts and orders code points in some places
  and UTF-8 bytes in others; \<open>lit\<close> turns an ASCII literal into one. Ordering of both is the
  lexicographic order of \<^theory_text>\<open>HOL-Library.List_Lexorder\<close>, which is Python's.
\<close>

type_synonym bytes = "8 word list"
type_synonym pstr = "nat list"

definition lit :: "string \<Rightarrow> pstr" where
  "lit s = map of_char s"

definition zero_bytes :: "nat \<Rightarrow> bytes" where
  "zero_bytes n = replicate n 0"

lemma length_zero_bytes [simp]: "length (zero_bytes n) = n"
  by (simp add: zero_bytes_def)

subsection \<open>Exceptions\<close>

text \<open>
  The exception classes of the standard library that the code raises, with the message
  (the constant part of it, where the source formats a value into it), \<open>OSError\<close> with the
  subclasses the code does not tell apart, the classes of \<open>exceptions.py\<close> and
  \<open>crypto_utils.py\<close>, \<open>Library_error\<close> for whatever a third-party call raises, and \<open>Cancelled\<close> for the \<open>BaseException\<close> with which \<open>trio\<close> ends a task whose time is up.
\<close>

datatype exc =
    Type_error string
  | Value_error string
  | Key_error
  | Index_error
  | Attribute_error
  | Runtime_error string
  | Timeout_error string
  | Os_error
  | Key_generation_error string
  | Library_error string
  | Cancelled
  | Identity_state_precondition_failed
  | Identity_publication_expired
  | Identity_state_unavailable
  | Identity_history_unavailable
  | Provider_already_withdrawn
  | Provider_state_unavailable
  | Provider_state_invalid
  | Provider_state_conflict

text \<open>Which of them an \<open>except ValueError\<close> clause catches.\<close>

fun is_value_error :: "exc \<Rightarrow> bool" where
  "is_value_error (Value_error _) = True"
| "is_value_error (Key_generation_error _) = True"
| "is_value_error Identity_state_precondition_failed = True"
| "is_value_error Identity_publication_expired = True"
| "is_value_error Provider_already_withdrawn = True"
| "is_value_error Provider_state_invalid = True"
| "is_value_error Provider_state_conflict = True"
| "is_value_error _ = False"

subsection \<open>Results\<close>

type_synonym 'a res = "exc + 'a"

named_theorems res_simps "what an operation that returned has checked"

text \<open>Sequencing: the first raise is the result.\<close>

definition bindE :: "'a res \<Rightarrow> ('a \<Rightarrow> 'b res) \<Rightarrow> 'b res" where
  "bindE m f = (case m of Inl e \<Rightarrow> Inl e | Inr x \<Rightarrow> f x)"

text \<open>\<open>try: m except Exception: raise e\<close>.\<close>

definition wrapE :: "'a res \<Rightarrow> exc \<Rightarrow> 'a res" where
  "wrapE m e = (case m of Inl _ \<Rightarrow> Inl e | Inr x \<Rightarrow> Inr x)"

text \<open>\<open>try: m except Exception: h\<close>, the handler a computation of its own.\<close>

definition catchE :: "'a res \<Rightarrow> (exc \<Rightarrow> 'a res) \<Rightarrow> 'a res" where
  "catchE m h = (case m of Inl e \<Rightarrow> h e | Inr x \<Rightarrow> Inr x)"

text \<open>A subscript \<open>d[k]\<close> or an index whose absence raises.\<close>

definition getE :: "exc \<Rightarrow> 'a option \<Rightarrow> 'a res" where
  "getE e m = (case m of None \<Rightarrow> Inl e | Some x \<Rightarrow> Inr x)"

text \<open>A \<open>for\<close> loop that appends one result per element.\<close>

fun mapE :: "('a \<Rightarrow> 'b res) \<Rightarrow> 'a list \<Rightarrow> 'b list res" where
  "mapE f [] = Inr []"
| "mapE f (x # xs) = bindE (f x) (\<lambda>y. bindE (mapE f xs) (\<lambda>ys. Inr (y # ys)))"

definition is_ok :: "'a res \<Rightarrow> bool" where
  "is_ok m = (case m of Inl _ \<Rightarrow> False | Inr _ \<Rightarrow> True)"

lemma bindE_simps [simp]:
  "bindE (Inl e) f = Inl e"
  "bindE (Inr x) f = f x"
  by (simp_all add: bindE_def)

lemma wrapE_simps [simp]:
  "wrapE (Inl e') e = Inl e"
  "wrapE (Inr x) e = Inr x"
  by (simp_all add: wrapE_def)

lemma catchE_simps [simp]:
  "catchE (Inl e) h = h e"
  "catchE (Inr x) h = Inr x"
  by (simp_all add: catchE_def)

lemma getE_simps [simp]:
  "getE e None = Inl e"
  "getE e (Some x) = Inr x"
  by (simp_all add: getE_def)

lemma is_ok_simps [simp]:
  "is_ok (Inl e) = False"
  "is_ok (Inr x) = True"
  by (simp_all add: is_ok_def)

lemma bindE_Inr [res_simps]:
  "(bindE m f = Inr y) = (\<exists>x. m = Inr x \<and> f x = Inr y)"
  by (cases m) simp_all

lemma wrapE_Inr [res_simps]: "(wrapE m e = Inr y) = (m = Inr y)"
  by (cases m) simp_all

lemma getE_Inr [res_simps]: "(getE e m = Inr y) = (m = Some y)"
  by (cases m) simp_all

lemma if_raise_Inr [res_simps]:
  "((if c then Inl e else m) = Inr y) = (\<not> c \<and> m = Inr y)"
  by simp

lemma if_else_raise_Inr [res_simps]:
  "((if c then m else Inl e) = Inr y) = (c \<and> m = Inr y)"
  by simp

lemma bindE_Inl:
  "(bindE m f = Inl e) = (m = Inl e \<or> (\<exists>x. m = Inr x \<and> f x = Inl e))"
  by (cases m) simp_all

lemma bindE_assoc: "bindE (bindE m f) g = bindE m (\<lambda>x. bindE (f x) g)"
  by (cases m) simp_all

lemma is_ok_iff: "is_ok m = (\<exists>x. m = Inr x)"
  by (cases m) simp_all

lemma mapE_length: "mapE f xs = Inr ys \<Longrightarrow> length ys = length xs"
  by (induction xs arbitrary: ys) (auto simp: res_simps)

lemma mapE_Inr_iff:
  "(mapE f xs = Inr ys) = (list_all2 (\<lambda>x y. f x = Inr y) xs ys)"
proof (induction xs arbitrary: ys)
  case Nil
  then show ?case by auto
next
  case (Cons x xs)
  then show ?case by (cases ys) (auto simp: res_simps)
qed

lemma mapE_all_Inr: "(\<And>x. x \<in> set xs \<Longrightarrow> f x = Inr (g x)) \<Longrightarrow> mapE f xs = Inr (map g xs)"
  by (induction xs) auto

lemma mapE_id: "mapE f xs = Inr ys \<Longrightarrow> (\<And>x y. f x = Inr y \<Longrightarrow> h y = x) \<Longrightarrow> map h ys = xs"
  by (induction xs arbitrary: ys) (auto simp: res_simps)

subsection \<open>Sorting and lists\<close>

text \<open>
  Python's \<open>sorted\<close> is a stable sort, as \<open>sort_key\<close> is. A list is \<open>sorted\<close> already exactly
  when sorting returns it, which is how the code tests it.
\<close>

lemma sort_key_fixed: "sort_key f xs = xs \<longleftrightarrow> sorted (map f xs)"
  by (metis sort_key_id_if_sorted sorted_sort_key)

lemma distinct_map_fst_sort_key [simp]:
  "distinct (map g (sort_key f xs)) = distinct (map g xs)"
  by (metis distinct_map distinct_sort set_sort)

lemma map_of_Some_in: "map_of xs k = Some v \<Longrightarrow> k \<in> fst ` set xs"
  by (metis fst_conv image_eqI map_of_SomeD)

end
