(* ===== verification/Py_Values.thy ===== *)
theory Py_Values
  imports Prelude
begin

text \<open>
  The Python values that cross the boundary of the package: what \<open>cbor2.loads\<close> returns,
  and arguments typed \<open>Any\<close>. A dictionary is an association list in insertion order.
  Python compares keys by \<open>==\<close>, so \<open>True\<close>, \<open>1.0\<close> and \<open>1\<close> are one key:
  \<open>PNum i t\<close> is a number that is neither \<open>int\<close> nor \<open>bool\<close> (float, Decimal, Fraction; \<open>t\<close>
  says which) and has the integral value \<open>i\<close>; any other object the code only ever rejects
  is \<open>PObj\<close>. \<open>bytes\<close> and \<open>bytearray\<close> are both \<open>PBytes\<close>: the code converts either with
  \<open>bytes(x)\<close> before it uses the content.
\<close>

datatype pyval =
    PNone
  | PBool bool
  | PInt int
  | PNum int nat
  | PStr pstr
  | PBytes bytes
  | PList "pyval list"
  | PDict "(pyval \<times> pyval) list"
  | PObj nat

type_synonym pydict = "(pyval \<times> pyval) list"

text \<open>The integer a value is equal to under \<open>==\<close>, if any.\<close>

fun num_of :: "pyval \<Rightarrow> int option" where
  "num_of (PBool b) = Some (if b then 1 else 0)"
| "num_of (PInt i) = Some i"
| "num_of (PNum i _) = Some i"
| "num_of _ = None"

definition eq_int :: "pyval \<Rightarrow> int \<Rightarrow> bool" where
  "eq_int v i = (num_of v = Some i)"

text \<open>\<open>set(d) == {k, ...}\<close>, \<open>{k, ...} <= set(d)\<close>, \<open>set(d) <= {k, ...}\<close>, \<open>k in d\<close>, \<open>d.get(k)\<close>.\<close>

definition has_key :: "pydict \<Rightarrow> int \<Rightarrow> bool" where
  "has_key d i = list_ex (\<lambda>(k, _). eq_int k i) d"

definition keys_within :: "pydict \<Rightarrow> int list \<Rightarrow> bool" where
  "keys_within d ks = list_all (\<lambda>(k, _). list_ex (eq_int k) ks) d"

definition keys_include :: "pydict \<Rightarrow> int list \<Rightarrow> bool" where
  "keys_include d ks = list_all (has_key d) ks"

definition keys_are :: "pydict \<Rightarrow> int list \<Rightarrow> bool" where
  "keys_are d ks = (keys_within d ks \<and> keys_include d ks)"

fun dget :: "pydict \<Rightarrow> int \<Rightarrow> pyval option" where
  "dget [] i = None"
| "dget ((k, v) # d) i = (if eq_int k i then Some v else dget d i)"

text \<open>\<open>d[k]\<close>, which raises \<open>KeyError\<close>.\<close>

definition dsub :: "pydict \<Rightarrow> int \<Rightarrow> pyval res" where
  "dsub d i = getE Key_error (dget d i)"

lemma eq_int_simps [simp]:
  "eq_int (PInt i) j = (i = j)"
  "eq_int (PBool b) j = ((if b then 1 else 0) = j)"
  "eq_int (PNum i t) j = (i = j)"
  "\<not> eq_int PNone j"
  "\<not> eq_int (PStr s) j"
  "\<not> eq_int (PBytes bs) j"
  "\<not> eq_int (PList vs) j"
  "\<not> eq_int (PDict d) j"
  "\<not> eq_int (PObj n) j"
  by (simp_all add: eq_int_def)

lemma has_key_simps [simp]:
  "has_key [] i = False"
  "has_key ((k, v) # d) i = (eq_int k i \<or> has_key d i)"
  by (simp_all add: has_key_def)

lemma keys_within_simps [simp]:
  "keys_within [] ks"
  "keys_within ((k, v) # d) ks = (list_ex (eq_int k) ks \<and> keys_within d ks)"
  by (simp_all add: keys_within_def)

lemma keys_include_simps [simp]:
  "keys_include d []"
  "keys_include d (i # is) = (has_key d i \<and> keys_include d is)"
  by (simp_all add: keys_include_def)

lemma has_key_iff: "has_key d i = (\<exists>v. dget d i = Some v)"
  by (induction d) auto

lemma keys_are_get: "keys_are d ks \<Longrightarrow> i \<in> set ks \<Longrightarrow> \<exists>v. dget d i = Some v"
  by (auto simp: keys_are_def keys_include_def list_all_iff has_key_iff)

lemma keys_within_not_get: "keys_within d ks \<Longrightarrow> i \<notin> set ks \<Longrightarrow> dget d i = None"
  by (induction d) (auto simp: list_ex_iff eq_int_def)

lemma keys_are_not_get: "keys_are d ks \<Longrightarrow> i \<notin> set ks \<Longrightarrow> dget d i = None"
  unfolding keys_are_def by (blast intro: keys_within_not_get)

lemma keys_are_same: "keys_are d ks \<Longrightarrow> keys_are d ls \<Longrightarrow> set ks = set ls"
  by (metis keys_are_get keys_are_not_get option.distinct(1) subset_antisym subsetI)

lemma keys_are_Nil: "keys_are [] ks = (ks = [])"
  by (cases ks) (simp_all add: keys_are_def)

lemma dsub_Inr [res_simps]: "(dsub d i = Inr v) = (dget d i = Some v)"
  by (simp add: dsub_def res_simps)

lemma dsub_ok: "dget d i = Some v \<Longrightarrow> dsub d i = Inr v"
  by (simp add: dsub_def)

subsection \<open>Type tests\<close>

fun is_int :: "pyval \<Rightarrow> bool" where
  "is_int (PInt _) = True"
| "is_int (PBool _) = True"
| "is_int _ = False"

fun is_bool :: "pyval \<Rightarrow> bool" where
  "is_bool (PBool _) = True"
| "is_bool _ = False"

fun is_str :: "pyval \<Rightarrow> bool" where
  "is_str (PStr _) = True"
| "is_str _ = False"

fun is_bytes :: "pyval \<Rightarrow> bool" where
  "is_bytes (PBytes _) = True"
| "is_bytes _ = False"

text \<open>The typed content behind an \<open>isinstance\<close> test that raises when it fails.\<close>

fun want_str :: "exc \<Rightarrow> pyval \<Rightarrow> pstr res" where
  "want_str e (PStr s) = Inr s"
| "want_str e _ = Inl e"

fun want_bytes :: "exc \<Rightarrow> pyval \<Rightarrow> bytes res" where
  "want_bytes e (PBytes b) = Inr b"
| "want_bytes e _ = Inl e"

fun want_list :: "exc \<Rightarrow> pyval \<Rightarrow> pyval list res" where
  "want_list e (PList l) = Inr l"
| "want_list e _ = Inl e"

fun want_dict :: "exc \<Rightarrow> pyval \<Rightarrow> pydict res" where
  "want_dict e (PDict d) = Inr d"
| "want_dict e _ = Inl e"

lemma want_Inr [res_simps]:
  "(want_str e v = Inr s) = (v = PStr s)"
  "(want_bytes e v = Inr b) = (v = PBytes b)"
  "(want_list e v = Inr l) = (v = PList l)"
  "(want_dict e v = Inr d) = (v = PDict d)"
  by (cases v; auto)+

text \<open>
  \<open>bytes(x)\<close> on an unchecked value: an integer gives that many zero bytes, an iterable of
  small integers its bytes (a dictionary iterates over its keys), anything else raises.
\<close>

definition byte_item :: "pyval \<Rightarrow> 8 word res" where
  "byte_item v =
     (if \<not> is_int v then Inl (Type_error ''object cannot be interpreted as an integer'')
      else case num_of v of
        Some i \<Rightarrow> if 0 \<le> i \<and> i < 256 then Inr (word_of_int i)
                  else Inl (Value_error ''bytes must be in range(0, 256)'')
      | None \<Rightarrow> Inl (Type_error ''object cannot be interpreted as an integer''))"

fun py_bytes :: "pyval \<Rightarrow> bytes res" where
  "py_bytes (PBytes b) = Inr b"
| "py_bytes (PInt i) = (if i < 0 then Inl (Value_error ''negative count'') else Inr (zero_bytes (nat i)))"
| "py_bytes (PBool b) = Inr (zero_bytes (if b then 1 else 0))"
| "py_bytes (PList l) = mapE byte_item l"
| "py_bytes (PDict d) = mapE byte_item (map fst d)"
| "py_bytes _ = Inl (Type_error ''cannot convert to bytes'')"

end
