(* ===== verification/Py_Text.thy ===== *)
theory Py_Text
  imports Prelude
begin

text \<open>
  What the package uses of Python's text handling: \<open>str.encode("utf-8")\<close>, \<open>bytes.hex\<close>,
  \<open>bytes.fromhex\<close>, \<open>str.split\<close> and its relatives.
\<close>

subsection \<open>UTF-8\<close>

definition b8 :: "nat \<Rightarrow> 8 word" where
  "b8 n = word_of_nat n"

text \<open>A surrogate cannot be encoded: \<open>UnicodeEncodeError\<close>, a subclass of \<open>ValueError\<close>.\<close>

definition utf8_char :: "nat \<Rightarrow> bytes option" where
  "utf8_char c =
     (if c < 0x80 then Some [b8 c]
      else if c < 0x800 then Some [b8 (0xC0 + c div 0x40), b8 (0x80 + c mod 0x40)]
      else if 0xD800 \<le> c \<and> c < 0xE000 then None
      else if c < 0x10000 then
        Some [b8 (0xE0 + c div 0x1000), b8 (0x80 + c div 0x40 mod 0x40), b8 (0x80 + c mod 0x40)]
      else if c < 0x110000 then
        Some [b8 (0xF0 + c div 0x40000), b8 (0x80 + c div 0x1000 mod 0x40),
              b8 (0x80 + c div 0x40 mod 0x40), b8 (0x80 + c mod 0x40)]
      else None)"

fun utf8_opt :: "pstr \<Rightarrow> bytes option" where
  "utf8_opt [] = Some []"
| "utf8_opt (c # cs) =
     (case utf8_char c of None \<Rightarrow> None
      | Some b \<Rightarrow> (case utf8_opt cs of None \<Rightarrow> None | Some bs \<Rightarrow> Some (b @ bs)))"

definition utf8 :: "pstr \<Rightarrow> bytes res" where
  "utf8 s = getE (Value_error ''surrogates not allowed'') (utf8_opt s)"

text \<open>The encoding as a sort key, used only on strings whose encoding has succeeded.\<close>

definition utf8_key :: "pstr \<Rightarrow> bytes" where
  "utf8_key s = (case utf8_opt s of None \<Rightarrow> [] | Some b \<Rightarrow> b)"

lemma utf8_Inr [res_simps]: "(utf8 s = Inr b) = (utf8_opt s = Some b)"
  by (simp add: utf8_def res_simps)

lemma utf8_key_Some: "utf8_opt s = Some b \<Longrightarrow> utf8_key s = b"
  by (simp add: utf8_key_def)

lemma utf8_char_length: "utf8_char c = Some b \<Longrightarrow> 1 \<le> length b \<and> length b \<le> 4"
  by (auto simp: utf8_char_def split: if_splits)

lemma utf8_length: "utf8_opt s = Some b \<Longrightarrow> length s \<le> length b"
proof (induction s arbitrary: b)
  case (Cons c s)
  then show ?case by (fastforce dest: utf8_char_length split: option.splits)
qed simp

lemma utf8_ascii: "\<forall>c \<in> set s. c < 0x80 \<Longrightarrow> utf8_opt s = Some (map b8 s)"
  by (induction s) (auto simp: utf8_char_def)

lemma unat_b8: "n < 256 \<Longrightarrow> unat (b8 n) = n"
  by (simp add: b8_def unat_of_nat take_bit_nat_eq_self)

lemma b8_inject: "m < 256 \<Longrightarrow> n < 256 \<Longrightarrow> b8 m = b8 n \<longleftrightarrow> m = n"
  by (metis unat_b8)

text \<open>
  The encoding is injective: the lead byte gives the length, and the digits base 64 the code point.
\<close>

definition utf8_codes :: "nat \<Rightarrow> nat list" where
  "utf8_codes c =
     (if c < 0x80 then [c]
      else if c < 0x800 then [0xC0 + c div 0x40, 0x80 + c mod 0x40]
      else if c < 0x10000 then [0xE0 + c div 0x1000, 0x80 + c div 0x40 mod 0x40, 0x80 + c mod 0x40]
      else [0xF0 + c div 0x40000, 0x80 + c div 0x1000 mod 0x40, 0x80 + c div 0x40 mod 0x40,
            0x80 + c mod 0x40])"

lemma utf8_char_codes: "utf8_char c = Some b \<Longrightarrow> b = map b8 (utf8_codes c) \<and> c < 0x110000"
  by (auto simp: utf8_char_def utf8_codes_def split: if_splits)

lemma utf8_codes_byte: "c < 0x110000 \<Longrightarrow> n \<in> set (utf8_codes c) \<Longrightarrow> n < 256"
  by (auto simp: utf8_codes_def split: if_splits)

fun utf8_decode :: "nat list \<Rightarrow> nat" where
  "utf8_decode [a] = a"
| "utf8_decode [a, b] = (a - 0xC0) * 0x40 + (b - 0x80)"
| "utf8_decode [a, b, d] = (a - 0xE0) * 0x1000 + (b - 0x80) * 0x40 + (d - 0x80)"
| "utf8_decode [a, b, d, e] =
     (a - 0xF0) * 0x40000 + (b - 0x80) * 0x1000 + (d - 0x80) * 0x40 + (e - 0x80)"
| "utf8_decode _ = 0"

lemma utf8_decode_codes: "utf8_decode (utf8_codes c) = c"
proof -
  have one: "c div 64 * 64 + c mod 64 = c" by (rule div_mult_mod_eq)
  have two: "c div 64 = c div 4096 * 64 + c div 64 mod 64"
    using div_mult2_eq [of c 64 64] div_mult_mod_eq [of "c div 64" 64] by simp
  have three: "c div 4096 = c div 262144 * 64 + c div 4096 mod 64"
    using div_mult2_eq [of c 4096 64] div_mult_mod_eq [of "c div 4096" 64] by simp
  have "c div 4096 * 4096 + c div 64 mod 64 * 64 + c mod 64 = c" using one two by linarith
  moreover have "c div 262144 * 262144 + c div 4096 mod 64 * 4096 + c div 64 mod 64 * 64 + c mod 64 = c"
    using one two three by linarith
  ultimately show ?thesis using one by (simp add: utf8_codes_def)
qed

lemma utf8_codes_inject: "utf8_codes c = utf8_codes d \<Longrightarrow> c = d"
  using utf8_decode_codes by metis

definition utf8_lead_length :: "nat \<Rightarrow> nat" where
  "utf8_lead_length h = (if h < 0x80 then 1 else if h < 0xE0 then 2 else if h < 0xF0 then 3 else 4)"

lemma utf8_codes_length:
  assumes "c < 0x110000"
  shows "length (utf8_codes c) = utf8_lead_length (hd (utf8_codes c))"
proof -
  have "c div 64 < 32" if "c < 2048" using that by (simp add: less_mult_imp_div_less)
  moreover have "c div 4096 < 16" if "c < 65536" using that by (simp add: less_mult_imp_div_less)
  ultimately show ?thesis
    by (cases "c < 2048"; cases "c < 65536") (simp_all add: utf8_codes_def utf8_lead_length_def)
qed

lemma utf8_codes_nonempty [simp]: "utf8_codes c \<noteq> []" by (simp add: utf8_codes_def)

lemma utf8_char_prefix_free:
  assumes "utf8_char c = Some x" "utf8_char d = Some y" "x @ xs = y @ ys"
  shows "c = d \<and> xs = ys"
proof -
  have c: "x = map b8 (utf8_codes c)" "c < 0x110000" and d: "y = map b8 (utf8_codes d)" "d < 0x110000"
    using assms utf8_char_codes by blast+
  have inj: "inj_on b8 {n. n < 256}" by (auto simp: inj_on_def b8_inject)
  have "hd x = hd y" using assms(3) c d by (metis hd_append2 utf8_codes_nonempty map_is_Nil_conv)
  then have "b8 (hd (utf8_codes c)) = b8 (hd (utf8_codes d))" using c d by (simp add: hd_map)
  then have "hd (utf8_codes c) = hd (utf8_codes d)"
    using b8_inject utf8_codes_byte c d by (metis hd_in_set utf8_codes_nonempty)
  then have "length (utf8_codes c) = length (utf8_codes d)"
    using utf8_codes_length c(2) d(2) by metis
  then have "length x = length y" using c d by simp
  with assms(3) have xy: "x = y" "xs = ys" by simp_all
  have "utf8_codes c = utf8_codes d"
  proof (rule map_inj_on [of b8])
    show "map b8 (utf8_codes c) = map b8 (utf8_codes d)" using xy c d by simp
    show "inj_on b8 (set (utf8_codes c) \<union> set (utf8_codes d))"
      using utf8_codes_byte c d by (auto intro: inj_on_subset [OF inj])
  qed
  with utf8_codes_inject c d xy show ?thesis by blast
qed

lemma utf8_opt_inject: "utf8_opt s = Some b \<Longrightarrow> utf8_opt t = Some b \<Longrightarrow> s = t"
proof (induction s arbitrary: t b)
  case Nil
  then show ?case by (cases t) (auto split: option.splits dest!: utf8_char_length)
next
  case (Cons c s)
  then obtain d t' where t: "t = d # t'"
    by (cases t) (auto split: option.splits dest!: utf8_char_length)
  from Cons.prems t obtain x xs y ys where
    "utf8_char c = Some x" "utf8_opt s = Some xs" "utf8_char d = Some y" "utf8_opt t' = Some ys"
    "x @ xs = b" "y @ ys = b" by (auto split: option.splits)
  moreover from this have "c = d \<and> xs = ys" by (intro utf8_char_prefix_free) auto
  ultimately show ?case using Cons.IH t by auto
qed

lemma utf8_key_inj: "inj_on utf8_key {s. utf8_opt s \<noteq> None}"
  by (auto simp: inj_on_def utf8_key_def intro: utf8_opt_inject)

subsection \<open>Hexadecimal\<close>

definition hex_digit :: "nat \<Rightarrow> nat" where
  "hex_digit n = (if n < 10 then 48 + n else 87 + n)"

definition hex_val :: "nat \<Rightarrow> nat option" where
  "hex_val c =
     (if 48 \<le> c \<and> c \<le> 57 then Some (c - 48)
      else if 97 \<le> c \<and> c \<le> 102 then Some (c - 87)
      else if 65 \<le> c \<and> c \<le> 70 then Some (c - 55)
      else None)"

definition is_hex :: "nat \<Rightarrow> bool" where
  "is_hex c = (hex_val c \<noteq> None)"

fun bytes_hex :: "bytes \<Rightarrow> pstr" where
  "bytes_hex [] = []"
| "bytes_hex (b # bs) = hex_digit (unat b div 16) # hex_digit (unat b mod 16) # bytes_hex bs"

text \<open>\<open>bytes.fromhex\<close> skips ASCII whitespace before each pair of digits, never inside one.\<close>

definition ascii_space :: "nat \<Rightarrow> bool" where
  "ascii_space c = (c = 32 \<or> (9 \<le> c \<and> c \<le> 13))"

fun fromhex_opt :: "pstr \<Rightarrow> bytes option" where
  "fromhex_opt [] = Some []"
| "fromhex_opt (c # cs) =
     (if ascii_space c then fromhex_opt cs
      else case cs of [] \<Rightarrow> None
      | d # ds \<Rightarrow>
         (case (hex_val c, hex_val d) of
            (Some h, Some l) \<Rightarrow> map_option (\<lambda>bs. b8 (16 * h + l) # bs) (fromhex_opt ds)
          | _ \<Rightarrow> None))"

definition fromhex :: "pstr \<Rightarrow> bytes res" where
  "fromhex s = getE (Value_error ''non-hexadecimal number found in fromhex() arg'') (fromhex_opt s)"

lemma fromhex_Inr [res_simps]: "(fromhex s = Inr b) = (fromhex_opt s = Some b)"
  by (simp add: fromhex_def res_simps)

lemma hex_val_digit: "n < 16 \<Longrightarrow> hex_val (hex_digit n) = Some n"
  by (auto simp: hex_val_def hex_digit_def)

lemma hex_digit_not_space: "n < 16 \<Longrightarrow> \<not> ascii_space (hex_digit n)"
  by (auto simp: ascii_space_def hex_digit_def)

lemma is_hex_not_space: "is_hex c \<Longrightarrow> \<not> ascii_space c"
  by (auto simp: is_hex_def hex_val_def ascii_space_def split: if_splits)

lemma hex_val_bound: "hex_val c = Some n \<Longrightarrow> n < 16"
  by (auto simp: hex_val_def split: if_splits)

lemma b8_unat: "b8 (unat b) = b"
  by (simp add: b8_def)

theorem fromhex_bytes_hex [simp]: "fromhex_opt (bytes_hex bs) = Some bs"
proof (induction bs)
  case (Cons b bs)
  have lt: "unat b < 256" using unsigned_less [where ?'a = nat, of b] by simp
  then have d: "unat b div 16 < 16" "unat b mod 16 < 16" by auto
  then show ?case
    using Cons by (simp add: hex_digit_not_space hex_val_digit b8_unat)
qed simp

lemma length_bytes_hex [simp]: "length (bytes_hex bs) = 2 * length bs"
  by (induction bs) auto

lemma bytes_hex_all_hex [simp]: "list_all is_hex (bytes_hex bs)"
proof (induction bs)
  case (Cons b bs)
  have "unat b < 256" using unsigned_less [where ?'a = nat, of b] by simp
  then have "unat b div 16 < 16" "unat b mod 16 < 16" by auto
  then show ?case using Cons by (simp add: is_hex_def hex_val_digit)
qed simp

text \<open>A string of hexadecimal digits of even length decodes, to half as many bytes.\<close>

lemma fromhex_all_hex:
  "list_all is_hex s \<Longrightarrow> length s = 2 * n \<Longrightarrow> \<exists>b. fromhex_opt s = Some b \<and> length b = n"
proof (induction s arbitrary: n rule: fromhex_opt.induct)
  case 1
  then show ?case by simp
next
  case (2 c cs)
  from "2.prems" obtain d ds where cs: "cs = d # ds" by (cases cs) auto
  from "2.prems" cs obtain m where n: "n = Suc m" by (cases n) auto
  from "2.prems" cs obtain h l where hl: "hex_val c = Some h" "hex_val d = Some l"
    by (auto simp: is_hex_def)
  have "\<not> ascii_space c" using "2.prems" by (simp add: is_hex_not_space)
  moreover from this "2.IH"(2) [OF _ cs refl hl] "2.prems" cs n
  obtain b where "fromhex_opt ds = Some b" "length b = m" by auto
  ultimately show ?case using cs hl n by simp
qed

subsection \<open>Searching and splitting\<close>

definition starts_with :: "pstr \<Rightarrow> pstr \<Rightarrow> bool" where
  "starts_with p s = (take (length p) s = p)"

text \<open>\<open>s.partition(c)\<close>: before, whether found, after.\<close>

fun partition1 :: "nat \<Rightarrow> pstr \<Rightarrow> pstr \<times> bool \<times> pstr" where
  "partition1 c [] = ([], False, [])"
| "partition1 c (x # xs) =
     (if x = c then ([], True, xs)
      else case partition1 c xs of (a, f, b) \<Rightarrow> (x # a, f, b))"

text \<open>\<open>s.rpartition(c)\<close>: when the separator is absent the whole string is the last part.\<close>

definition rpartition1 :: "nat \<Rightarrow> pstr \<Rightarrow> pstr \<times> bool \<times> pstr" where
  "rpartition1 c s =
     (case partition1 c (rev s) of (a, f, b) \<Rightarrow> (rev b, f, rev a))"

fun split_on :: "nat \<Rightarrow> pstr \<Rightarrow> pstr list" where
  "split_on c [] = [[]]"
| "split_on c (x # xs) =
     (case split_on c xs of
        [] \<Rightarrow> [[x]]
      | w # ws \<Rightarrow> if x = c then [] # w # ws else (x # w) # ws)"

text \<open>\<open>s.partition(sep)\<close> for a separator of several characters.\<close>

fun partition_str :: "pstr \<Rightarrow> pstr \<Rightarrow> pstr \<times> bool \<times> pstr" where
  "partition_str p [] = ([], False, [])"
| "partition_str p (x # xs) =
     (if starts_with p (x # xs) then ([], True, drop (length p) (x # xs))
      else case partition_str p xs of (a, f, b) \<Rightarrow> (x # a, f, b))"

lemma partition1_absent: "c \<notin> set s \<Longrightarrow> partition1 c s = (s, False, [])"
  by (induction s) auto

lemma partition1_at: "c \<notin> set a \<Longrightarrow> partition1 c (a @ c # b) = (a, True, b)"
  by (induction a) auto

lemma partition1_cases:
  obtains (absent) "c \<notin> set s" "partition1 c s = (s, False, [])"
  | (found) a b where "s = a @ c # b" "c \<notin> set a" "partition1 c s = (a, True, b)"
  by (cases "c \<in> set s") (auto simp: partition1_absent partition1_at dest: split_list_first)

lemma split_on_nonempty: "split_on c s \<noteq> []"
  by (cases s) (auto split: list.splits)

end
