(* ===== verification/Ext_Lib.thy ===== *)
theory Ext_Lib
  imports Py_Values Py_Text
begin

text \<open>
  The code that is not in the repository, as one parameter of the model: the CBOR codec of
  \<open>cbor2\<close>, SHA-256, Ed25519 as \<open>libp2p\<close> wraps it, and the one part of \<open>urllib.parse.urlsplit\<close>
  that differs between the Python versions the package supports (the check of a network
  location that holds both brackets: absent in 3.11.0, tightened in later releases). Every
  definition that uses one of them takes the record as its first argument.

  \<^item> \<open>cbor_loads b\<close>: \<open>cbor2.loads(b)\<close>; \<open>cbor_dumps v\<close>: \<open>cbor2.dumps(v, canonical=True)\<close>.
    Either may raise.
  \<^item> \<open>sha256 b\<close>: the digest.
  \<^item> \<open>ed_verify pk msg sig\<close>: the public key is built from its raw bytes, which may raise,
    and \<open>verify(msg, sig)\<close> is called.
  \<^item> \<open>ed_public sk\<close>, \<open>ed_sign sk msg\<close>: the public key of a private key and its signatures;
    a private key is an opaque byte string.
  \<^item> \<open>bracketed_netloc_ok n\<close>: \<open>urlsplit\<close> accepts the network location \<open>n\<close>, which has
    both \<open>[\<close> and \<open>]\<close>.

  The documented behaviour the code relies on is stated as predicates on the record, and each
  theorem that needs one has it as a named hypothesis. Nothing is assumed globally.
\<close>

record ext =
  cbor_loads :: "bytes \<Rightarrow> pyval res"
  cbor_dumps :: "pyval \<Rightarrow> bytes res"
  sha256 :: "bytes \<Rightarrow> bytes"
  ed_verify :: "bytes \<Rightarrow> bytes \<Rightarrow> bytes \<Rightarrow> bool res"
  ed_public :: "bytes \<Rightarrow> bytes res"
  ed_sign :: "bytes \<Rightarrow> bytes \<Rightarrow> bytes"
  bracketed_netloc_ok :: "pstr \<Rightarrow> bool"

text \<open>A digest has 32 bytes.\<close>

definition sha256_length :: "ext \<Rightarrow> bool" where
  "sha256_length X = (\<forall>b. length (sha256 X b) = 32)"

text \<open>No two of the given messages share a digest.\<close>

definition sha256_injective_on :: "ext \<Rightarrow> bytes set \<Rightarrow> bool" where
  "sha256_injective_on X S = (\<forall>a \<in> S. \<forall>b \<in> S. sha256 X a = sha256 X b \<longrightarrow> a = b)"

text \<open>
  Decoding a canonical encoding of \<open>v\<close> gives \<open>v\<close> back and re-encodes to the same bytes:
  what RFC 7049 canonical CBOR promises for a value whose maps are in canonical key order.
\<close>

definition cbor_roundtrips :: "ext \<Rightarrow> pyval \<Rightarrow> bytes \<Rightarrow> bool" where
  "cbor_roundtrips X v b = (cbor_dumps X v = Inr b \<and> cbor_loads X b = Inr v)"

text \<open>
  A value in the form in which \<open>cbor2\<close> returns it: maps keyed by distinct unsigned integers in
  the canonical, increasing order, and otherwise plain integers, strings and lists.
\<close>

fun canonical_key :: "pyval \<Rightarrow> bool" where
  "canonical_key (PInt i) = (0 \<le> i)"
| "canonical_key _ = False"

definition key_before :: "pyval \<times> pyval \<Rightarrow> pyval \<times> pyval \<Rightarrow> bool" where
  "key_before p q = (the (num_of (fst p)) < the (num_of (fst q)))"

fun canonical_value :: "pyval \<Rightarrow> bool" where
  "canonical_value (PList vs) = list_all canonical_value vs"
| "canonical_value (PDict d) =
     (sorted_wrt key_before d \<and> list_all (\<lambda>p. canonical_key (fst p) \<and> canonical_value (snd p)) d)"
| "canonical_value (PNum _ _) = False"
| "canonical_value (PObj _) = False"
| "canonical_value _ = True"

lemma key_before_PInt [simp]: "key_before (PInt i, v) (PInt j, w) = (i < j)"
  by (simp add: key_before_def)

text \<open>If the bytes \<open>b\<close> encode such a value, they decode to it.\<close>

definition cbor_decodes :: "ext \<Rightarrow> bytes \<Rightarrow> bool" where
  "cbor_decodes X b =
     (\<forall>v. canonical_value v \<longrightarrow> cbor_dumps X v = Inr b \<longrightarrow> cbor_loads X b = Inr v)"

text \<open>A private key's signatures verify under its public key.\<close>

definition signing_sound :: "ext \<Rightarrow> bool" where
  "signing_sound X =
     (\<forall>sk pk m. ed_public X sk = Inr pk \<longrightarrow> ed_verify X pk m (ed_sign X sk m) = Inr True)"

definition signature_length :: "ext \<Rightarrow> bool" where
  "signature_length X = (\<forall>sk m. length (ed_sign X sk m) = 64)"

end
