(* ===== verification/Py_Net.thy ===== *)
theory Py_Net
  imports Ext_Lib
begin

text \<open>
  The parts of \<open>ipaddress\<close> and \<open>urllib.parse\<close> that the provider URI check relies on:
  whether \<open>IPv6Address(s)\<close> accepts a string, and \<open>urlsplit\<close> on a string of visible ASCII
  characters without a fragment (the caller has rejected every other string before), as in
  CPython 3.11 to 3.13.
\<close>

subsection \<open>Character classes\<close>

definition is_alpha :: "nat \<Rightarrow> bool" where
  "is_alpha c = ((65 \<le> c \<and> c \<le> 90) \<or> (97 \<le> c \<and> c \<le> 122))"

definition is_digit :: "nat \<Rightarrow> bool" where
  "is_digit c = (48 \<le> c \<and> c \<le> 57)"

definition lower :: "nat \<Rightarrow> nat" where
  "lower c = (if 65 \<le> c \<and> c \<le> 90 then c + 32 else c)"

subsection \<open>IPv4 and IPv6 addresses\<close>

fun dec_val :: "pstr \<Rightarrow> nat" where
  "dec_val [] = 0"
| "dec_val (c # cs) = (c - 48) * 10 ^ length cs + dec_val cs"

definition ipv4_octet :: "pstr \<Rightarrow> bool" where
  "ipv4_octet s =
     (s \<noteq> [] \<and> list_all is_digit s \<and> length s \<le> 3 \<and>
      \<not> (1 < length s \<and> hd s = 48) \<and> dec_val s \<le> 255)"

definition ipv4_valid :: "pstr \<Rightarrow> bool" where
  "ipv4_valid s = (length (split_on 46 s) = 4 \<and> list_all ipv4_octet (split_on 46 s))"

definition ipv6_hextet :: "pstr \<Rightarrow> bool" where
  "ipv6_hextet s = (s \<noteq> [] \<and> list_all is_hex s \<and> length s \<le> 4)"

text \<open>The positions, endpoints aside, at which a part is empty: where \<open>::\<close> stands.\<close>

definition skip_positions :: "pstr list \<Rightarrow> nat list" where
  "skip_positions ps = filter (\<lambda>i. ps ! i = []) [1..<length ps - 1]"

definition ipv6_parts_valid :: "pstr list \<Rightarrow> bool" where
  "ipv6_parts_valid ps =
     (case skip_positions ps of
        [] \<Rightarrow> length ps = 8 \<and> list_all ipv6_hextet ps
      | [k] \<Rightarrow>
          let hi = take k ps; lo = drop (Suc k) ps;
              hi' = (if hd ps = [] then tl hi else hi);
              lo' = (if last ps = [] then butlast lo else lo)
          in (hd ps = [] \<longrightarrow> hi' = []) \<and> (last ps = [] \<longrightarrow> lo' = []) \<and>
             length hi' + length lo' \<le> 7 \<and>
             list_all ipv6_hextet hi' \<and> list_all ipv6_hextet lo'
      | _ \<Rightarrow> False)"

text \<open>An IPv4 suffix counts as two parts; two stand-ins take its place once it is valid.\<close>

definition ipv6_addr_valid :: "pstr \<Rightarrow> bool" where
  "ipv6_addr_valid s =
     (let ps = split_on 58 s in
      s \<noteq> [] \<and> 3 \<le> length ps \<and>
      (if 46 \<in> set (last ps)
       then ipv4_valid (last ps) \<and> length ps + 1 \<le> 9 \<and>
            ipv6_parts_valid (butlast ps @ [[48], [48]])
       else length ps \<le> 9 \<and> ipv6_parts_valid ps))"

definition ipv6_valid :: "pstr \<Rightarrow> bool" where
  "ipv6_valid s =
     (case partition1 37 s of (addr, found, scope) \<Rightarrow>
        47 \<notin> set s \<and> (found \<longrightarrow> scope \<noteq> [] \<and> 37 \<notin> set scope) \<and> ipv6_addr_valid addr)"

subsection \<open>urlsplit\<close>

record split_url =
  u_scheme :: pstr
  u_netloc :: pstr
  u_path :: pstr
  u_query :: pstr

fun span_netloc :: "pstr \<Rightarrow> pstr \<times> pstr" where
  "span_netloc [] = ([], [])"
| "span_netloc (c # cs) =
     (if c \<in> {47, 63, 35} then ([], c # cs)
      else case span_netloc cs of (a, b) \<Rightarrow> (c # a, b))"

text \<open>
  The caller has matched the scheme, so it ends at the first colon; \<open>None\<close> is the
  \<open>ValueError\<close> of a malformed bracketed host.
\<close>

definition urlsplit :: "ext \<Rightarrow> pstr \<Rightarrow> split_url option" where
  "urlsplit X u =
     (case partition1 58 u of (sch, _, rest) \<Rightarrow>
        let (net, tail) = (if starts_with [47, 47] rest then span_netloc (drop 2 rest) else ([], rest));
            (path, _, query) = partition1 63 tail
        in if (91 \<in> set net) \<noteq> (93 \<in> set net) then None
           else if 91 \<in> set net \<and> 93 \<in> set net \<and> \<not> bracketed_netloc_ok X net then None
           else Some \<lparr>u_scheme = map lower sch, u_netloc = net, u_path = path, u_query = query\<rparr>)"

end
