(* ===== verification/Provider_Uri.thy ===== *)
theory Provider_Uri
  imports Py_Net
begin

text \<open>
  The provider URI check of \<open>provider_schema.py\<close> (\<open>_validate_provider_uri\<close>,
  \<open>_validate_uri_authority\<close>, \<open>_valid_uri_component\<close> and their character sets), test by
  test in the source's order.
\<close>

subsection \<open>Character sets\<close>

definition uri_unreserved :: "nat \<Rightarrow> bool" where
  "uri_unreserved c = (is_alpha c \<or> is_digit c \<or> c \<in> {45, 46, 95, 126})"

definition uri_sub_delimiters :: "nat \<Rightarrow> bool" where
  "uri_sub_delimiters c = (c \<in> {33, 36, 38, 39, 40, 41, 42, 43, 44, 59, 61})"

definition uri_pchar :: "nat \<Rightarrow> bool" where
  "uri_pchar c = (uri_unreserved c \<or> uri_sub_delimiters c \<or> c \<in> {58, 64, 37})"

definition uri_allowed :: "nat \<Rightarrow> bool" where
  "uri_allowed c = (uri_pchar c \<or> c \<in> {47, 63, 35, 91, 93})"

definition authority_schemes :: "pstr list" where
  "authority_schemes =
     [[104, 116, 116, 112], [104, 116, 116, 112, 115], [102, 116, 112], [119, 115], [119, 115, 115]]"

text \<open>\<open>_URI_SCHEME_RE\<close> matched in full, \<open>_PORT_RE\<close>, \<open>_BAD_PERCENT_ESCAPE_RE\<close>.\<close>

definition uri_scheme_re :: "pstr \<Rightarrow> bool" where
  "uri_scheme_re s =
     (2 \<le> length s \<and> is_alpha (hd s) \<and> last s = 58 \<and>
      list_all (\<lambda>c. is_alpha c \<or> is_digit c \<or> c \<in> {43, 46, 45}) (butlast (tl s)))"

definition port_re :: "pstr \<Rightarrow> bool" where
  "port_re s = (s \<noteq> [] \<and> list_all is_digit s)"

fun bad_percent_escape :: "pstr \<Rightarrow> bool" where
  "bad_percent_escape [] = False"
| "bad_percent_escape (c # cs) =
     ((c = 37 \<and> \<not> (2 \<le> length cs \<and> list_all is_hex (take 2 cs))) \<or> bad_percent_escape cs)"

text \<open>\<open>[Vv][0-9A-Fa-f]+\.[A-Za-z0-9._~!$&'()*+,;=:-]+\<close>\<close>

definition ipvfuture_re :: "pstr \<Rightarrow> bool" where
  "ipvfuture_re s =
     (case partition1 46 (drop 1 s) of (ver, found, rest) \<Rightarrow>
        take 1 s \<in> {[118], [86]} \<and> found \<and> ver \<noteq> [] \<and> list_all is_hex ver \<and>
        rest \<noteq> [] \<and> list_all (\<lambda>c. uri_unreserved c \<or> uri_sub_delimiters c \<or> c = 58) rest)"

text \<open>\<open>_valid_uri_component\<close>: a percent sign outside the allowed set starts an escape.\<close>

fun valid_uri_component :: "pstr \<Rightarrow> (nat \<Rightarrow> bool) \<Rightarrow> bool" where
  "valid_uri_component [] allowed = True"
| "valid_uri_component (c # cs) allowed =
     ((allowed c \<or> (c = 37 \<and> 2 \<le> length cs \<and> list_all is_hex (take 2 cs)))
      \<and> valid_uri_component cs allowed)"

subsection \<open>Authority\<close>

text \<open>The bracketed IP literal with its optional port, which the code checks in two places.\<close>

definition check_ip_literal :: "pstr \<Rightarrow> unit res" where
  "check_ip_literal host_port =
     (case partition1 93 host_port of (opened, closing, suffix) \<Rightarrow>
        let literal = drop 1 opened in
        if \<not> closing then Inl (Value_error ''provider URI contains an invalid IP literal'')
        else bindE
          (if map lower (take 1 literal) = [118] then
             (if \<not> ipvfuture_re literal
              then Inl (Value_error ''provider URI contains an invalid IP literal'') else Inr ())
           else
             (case partition_str [37, 50, 53] literal of (ipv6_literal, zone_separator, zone) \<Rightarrow>
                if \<not> ipv6_valid ipv6_literal then Inl (Value_error ''AddressValueError'')
                else if zone_separator \<and> \<not> valid_uri_component zone (\<lambda>c. uri_unreserved c \<or> c = 37)
                then Inl (Value_error ''provider URI contains an invalid IPv6 zone'')
                else Inr ()))
          (\<lambda>_. if suffix \<noteq> [] \<and>
                 (take 1 suffix \<noteq> [58] \<or> (drop 1 suffix \<noteq> [] \<and> \<not> port_re (drop 1 suffix)))
               then Inl (Value_error ''provider URI contains an invalid port'')
               else Inr ()))"

definition validate_uri_authority :: "pstr \<Rightarrow> unit res" where
  "validate_uri_authority authority =
     (if 1 < count_list authority 64
      then Inl (Value_error ''provider URI contains an invalid authority'')
      else case rpartition1 64 authority of (userinfo, separator, host_port) \<Rightarrow>
        if separator \<and>
           \<not> valid_uri_component userinfo (\<lambda>c. uri_pchar c \<and> c \<notin> {64, 47, 63, 35})
        then Inl (Value_error ''provider URI contains an invalid userinfo'')
        else if take 1 host_port = [91] then check_ip_literal host_port
        else if 91 \<in> set host_port \<or> 93 \<in> set host_port \<or> 1 < count_list host_port 58
        then Inl (Value_error ''provider URI contains an invalid authority'')
        else case partition1 58 host_port of (host, separator2, port) \<Rightarrow>
          if \<not> valid_uri_component host (\<lambda>c. uri_unreserved c \<or> uri_sub_delimiters c \<or> c = 37)
          then Inl (Value_error ''provider URI contains an invalid registered name'')
          else if separator2 \<and> port \<noteq> [] \<and> \<not> port_re port
          then Inl (Value_error ''provider URI contains an invalid port'')
          else Inr ())"

subsection \<open>The whole URI\<close>

text \<open>The second look at the authority, after \<open>_validate_uri_authority\<close>.\<close>

definition check_authority_tail :: "pstr \<Rightarrow> unit res" where
  "check_authority_tail netloc =
     (let tail = snd (snd (rpartition1 64 netloc)) in
      if take 1 tail = [91] then check_ip_literal tail
      else if 58 \<in> set tail then
        (let port = snd (snd (rpartition1 58 tail)) in
         if port \<noteq> [] \<and> \<not> port_re port
         then Inl (Value_error ''provider URI contains an invalid port'') else Inr ())
      else Inr ())"

text \<open>The body of the \<open>try\<close>: whatever it raises becomes one \<open>ValueError\<close>.\<close>

definition check_uri_parts :: "ext \<Rightarrow> pstr \<Rightarrow> unit res" where
  "check_uri_parts X uri =
     bindE (getE (Value_error ''Invalid IPv6 URL'') (urlsplit X uri)) (\<lambda>parsed.
     let remainder = snd (snd (partition1 58 uri)) in
     bindE
       (if starts_with [47, 47] remainder then validate_uri_authority (u_netloc parsed)
        else if u_scheme parsed \<in> set authority_schemes \<and> remainder = []
        then Inl (Value_error ''provider URI requires an authority'')
        else Inr ()) (\<lambda>_.
     bindE (check_authority_tail (u_netloc parsed)) (\<lambda>_.
     if u_scheme parsed \<in> set authority_schemes \<and> u_netloc parsed \<noteq> [] \<and> 91 \<in> set (u_path parsed)
     then Inl (Value_error ''provider URI contains brackets outside an IP literal'')
     else if u_scheme parsed \<in> set authority_schemes \<and> u_netloc parsed \<noteq> [] \<and>
             u_path parsed \<noteq> [] \<and> take 1 (u_path parsed) \<noteq> [47]
     then Inl (Value_error ''provider URI authority path must begin with a slash'')
     else if \<not> valid_uri_component (u_path parsed) (\<lambda>c. uri_pchar c \<or> c = 47)
     then Inl (Value_error ''provider URI contains invalid path characters'')
     else if \<not> valid_uri_component (u_query parsed) (\<lambda>c. uri_pchar c \<or> c \<in> {47, 63})
     then Inl (Value_error ''provider URI contains invalid query characters'')
     else Inr ())))"

definition validate_provider_uri :: "ext \<Rightarrow> pyval \<Rightarrow> pstr res" where
  "validate_provider_uri X v =
     bindE (want_str (Type_error ''provider URL must be str'') v) (\<lambda>uri.
     if uri = [] then Inl (Value_error ''provider URL must be non-empty'')
     else if list_ex (\<lambda>c. c < 0x21 \<or> 0x7E < c) uri
     then Inl (Value_error ''provider URL must contain only visible ASCII characters'')
     else bindE (utf8 uri) (\<lambda>enc.
     if 2048 < length enc then Inl (Value_error ''provider URL max 2048 bytes'')
     else case partition1 58 uri of (sch, colon, _) \<Rightarrow>
       let scheme_match = sch @ [58] in
       if \<not> colon \<or> \<not> uri_scheme_re scheme_match
       then Inl (Value_error ''provider URL must be an absolute URI with a scheme'')
       else if list_ex (\<lambda>c. \<not> uri_allowed c) uri
       then Inl (Value_error ''provider URL contains characters not allowed in a URI'')
       else if bad_percent_escape uri
       then Inl (Value_error ''provider URL contains an invalid percent escape'')
       else if 35 \<in> set uri
       then Inl (Value_error ''provider URL must not contain a fragment'')
       else if uri = scheme_match then Inr uri
       else bindE (wrapE (check_uri_parts X uri)
                     (Value_error ''provider URL is not a valid absolute URI'')) (\<lambda>_. Inr uri)))"

end
