(* ===== verification/Canonical_Cbor.thy ===== *)
theory Canonical_Cbor
  imports Ext_Lib
begin

text \<open>The canonical-encoding test of \<open>encoding.py\<close>, on top of the codec parameter.\<close>

definition canonical_cbor :: "ext \<Rightarrow> pyval \<Rightarrow> bytes res" where
  "canonical_cbor X v = cbor_dumps X v"

definition is_canonical_cbor :: "ext \<Rightarrow> bytes \<Rightarrow> bool" where
  "is_canonical_cbor X data =
     (case cbor_loads X data of
        Inl _ \<Rightarrow> False
      | Inr decoded \<Rightarrow>
          (case cbor_dumps X decoded of Inl _ \<Rightarrow> False | Inr canonical \<Rightarrow> canonical = data))"

lemma is_canonical_iff:
  "is_canonical_cbor X data = (\<exists>v. cbor_loads X data = Inr v \<and> cbor_dumps X v = Inr data)"
  by (auto simp: is_canonical_cbor_def split: sum.splits)

lemma canonical_roundtrip: "cbor_roundtrips X v b \<Longrightarrow> is_canonical_cbor X b"
  by (auto simp: cbor_roundtrips_def is_canonical_iff)

text \<open>Two values with one canonical encoding are one value, as far as the code can see.\<close>

lemma canonical_unique:
  "is_canonical_cbor X b \<Longrightarrow> cbor_loads X b = Inr v \<Longrightarrow> cbor_dumps X v = Inr b"
  by (auto simp: is_canonical_iff)

end
