(* ===== verification/Provider_Schema.thy ===== *)
theory Provider_Schema
  imports Provider_Uri Canonical_Cbor
begin

text \<open>
  The Provider Record payload of \<open>provider_schema.py\<close>: the endpoint and URL lists, the two
  payload versions (active version 3, withdrawn version 2), their builders and the decoder.
  A payload dictionary is a \<open>pydict\<close>; a decoded payload is a \<open>provider_payload\<close>.
\<close>

subsection \<open>Endpoints and URL lists\<close>

text \<open>One turn of the loop of \<open>_validate_endpoints\<close>, then the loop.\<close>

definition validate_endpoint :: "pyval \<Rightarrow> pstr res" where
  "validate_endpoint v =
     bindE (want_str (Type_error ''endpoint must be str'') v) (\<lambda>e.
     if \<not> starts_with [47] e
     then Inl (Value_error ''endpoint must be multiaddr starting with /'')
     else bindE (utf8 e) (\<lambda>enc.
       if 256 < length enc then Inl (Value_error ''endpoint max 256 bytes'') else Inr e))"

definition validate_endpoints :: "pyval list \<Rightarrow> pstr list res" where
  "validate_endpoints eps =
     (if 32 < length eps then Inl (Value_error ''endpoints max 32'')
      else mapE validate_endpoint eps)"

definition normalize_sorted_endpoints :: "pyval list \<Rightarrow> pstr list res" where
  "normalize_sorted_endpoints eps = bindE (validate_endpoints eps) (\<lambda>out. Inr (sort out))"

definition require_endpoints_sorted :: "pstr list \<Rightarrow> unit res" where
  "require_endpoints_sorted eps =
     (if eps \<noteq> sort eps
      then Inl (Value_error ''endpoints must be lexicographically sorted before signing'')
      else Inr ())"

definition normalize_sorted_provider_urls :: "ext \<Rightarrow> pyval list \<Rightarrow> pstr list res" where
  "normalize_sorted_provider_urls X urls =
     (if \<not> (1 \<le> length urls \<and> length urls \<le> 32)
      then Inl (Value_error ''provider_urls must contain 1 to 32 URLs'')
      else bindE (mapE (validate_provider_uri X) urls) (\<lambda>normalized.
        if \<not> distinct normalized
        then Inl (Value_error ''provider_urls must not contain duplicates'')
        else Inr (sort normalized)))"

subsection \<open>Payloads\<close>

record provider_payload_v3 =
  v3_alg :: pstr
  v3_version :: int
  v3_object_hash :: pstr
  v3_provider_urls :: "pstr list"
  v3_endpoints :: "pstr list"

record provider_withdrawn_payload_v2 =
  v2_alg :: pstr
  v2_version :: int
  v2_object_hash :: pstr
  v2_status :: pstr
  v2_replacement :: "pstr option"

datatype provider_payload =
    Active provider_payload_v3
  | Withdrawn provider_withdrawn_payload_v2

fun is_withdrawn :: "provider_payload \<Rightarrow> bool" where
  "is_withdrawn (Withdrawn _) = True"
| "is_withdrawn (Active _) = False"

fun payload_object_hash :: "provider_payload \<Rightarrow> pstr" where
  "payload_object_hash (Active p) = v3_object_hash p"
| "payload_object_hash (Withdrawn p) = v2_object_hash p"

fun payload_replacement :: "provider_payload \<Rightarrow> pstr option" where
  "payload_replacement (Active _) = None"
| "payload_replacement (Withdrawn p) = v2_replacement p"

definition withdrawn_str :: pstr where
  "withdrawn_str = [119, 105, 116, 104, 100, 114, 97, 119, 110]"

lemma withdrawn_str_lit: "withdrawn_str = lit ''withdrawn''"
  by (simp add: withdrawn_str_def lit_def)

definition validate_object_hash :: "pyval \<Rightarrow> string \<Rightarrow> pstr res" where
  "validate_object_hash v name =
     (case v of
        PStr s \<Rightarrow>
          if length s = 64 \<and> list_all is_hex s then Inr s
          else Inl (Value_error (name @ '' must be exactly 64 hexadecimal characters''))
      | _ \<Rightarrow> Inl (Value_error (name @ '' must be exactly 64 hexadecimal characters'')))"

definition require_alg :: "pyval \<Rightarrow> pstr res" where
  "require_alg v =
     bindE (want_str (Value_error ''alg must be a non-empty string'') v) (\<lambda>alg.
     if alg = [] then Inl (Value_error ''alg must be a non-empty string'') else Inr alg)"

definition build_provider_payload_dict ::
  "ext \<Rightarrow> pyval \<Rightarrow> pyval \<Rightarrow> pyval \<Rightarrow> pyval list \<Rightarrow> pyval list \<Rightarrow> pydict res" where
  "build_provider_payload_dict X version alg object_hash provider_urls endpoints =
     (if version \<noteq> PInt 3 then Inl (Value_error ''active Provider Record version must be 3'')
      else bindE (require_alg alg) (\<lambda>alg.
      bindE (normalize_sorted_endpoints endpoints) (\<lambda>norm_eps.
      bindE (normalize_sorted_provider_urls X provider_urls) (\<lambda>norm_urls.
      bindE (validate_object_hash object_hash ''object_hash'') (\<lambda>object_hash.
      Inr [(PInt 1, PStr alg), (PInt 2, PInt 3), (PInt 3, PStr object_hash),
           (PInt 4, PList (map PStr norm_urls)), (PInt 5, PList (map PStr norm_eps))])))))"

text \<open>
  The branch of the decoder for version 2. The code's test is \<open>version == 2\<close>, so a
  floating-point 2.0 selects it as well.
\<close>

definition decode_withdrawn_payload :: "pydict \<Rightarrow> provider_payload res" where
  "decode_withdrawn_payload payload =
     (if \<not> keys_include payload [1, 2, 3, 4] \<or> \<not> keys_within payload [1, 2, 3, 4, 5]
      then Inl (Value_error ''Provider payload v2 has missing or extra fields'')
      else bindE (dsub payload 1) (\<lambda>alg_raw. bindE (require_alg alg_raw) (\<lambda>alg.
      bindE (dsub payload 3) (\<lambda>hash_raw.
      bindE (validate_object_hash hash_raw ''object_hash'') (\<lambda>object_hash.
      bindE (dsub payload 4) (\<lambda>status.
      if status \<noteq> PStr withdrawn_str
      then Inl (Value_error ''Provider payload v2 status must be withdrawn'')
      else bindE
        (case dget payload 5 of
           None \<Rightarrow> Inr None
         | Some r \<Rightarrow>
             bindE (validate_object_hash r ''replacement_object_hash'') (\<lambda>replacement.
             bindE (fromhex replacement) (\<lambda>rb. bindE (fromhex object_hash) (\<lambda>ob.
             if rb = ob
             then Inl (Value_error ''replacement_object_hash must not reference itself'')
             else Inr (Some replacement)))))
        (\<lambda>replacement. Inr (Withdrawn
           \<lparr>v2_alg = alg, v2_version = 2, v2_object_hash = object_hash,
            v2_status = withdrawn_str, v2_replacement = replacement\<rparr>))))))))"

definition decode_active_payload :: "ext \<Rightarrow> pydict \<Rightarrow> provider_payload res" where
  "decode_active_payload X payload =
     (if \<not> keys_are payload [1, 2, 3, 4, 5]
      then Inl (Value_error ''provider payload keys mismatch'')
      else bindE (dsub payload 2) (\<lambda>version.
      case version of
        PInt n \<Rightarrow>
          if n \<noteq> 3 then Inl (Value_error ''unsupported provider payload version'')
          else bindE (dsub payload 1) (\<lambda>alg_raw. bindE (require_alg alg_raw) (\<lambda>alg.
          bindE (dsub payload 5) (\<lambda>eps_raw.
          bindE (want_list (Value_error ''endpoints must be list[str]'') eps_raw) (\<lambda>eps_list.
          if \<not> list_all is_str eps_list then Inl (Value_error ''endpoints must be list[str]'')
          else bindE (validate_endpoints eps_list) (\<lambda>endpoints.
          bindE (require_endpoints_sorted endpoints) (\<lambda>_.
          bindE (dsub payload 4) (\<lambda>urls_raw.
          bindE (want_list (Value_error ''provider_urls must be list[str]'') urls_raw) (\<lambda>urls_list.
          if \<not> list_all is_str urls_list then Inl (Value_error ''provider_urls must be list[str]'')
          else bindE (normalize_sorted_provider_urls X urls_list) (\<lambda>provider_urls.
          if urls_list \<noteq> map PStr provider_urls
          then Inl (Value_error ''provider_urls must be lexicographically sorted'')
          else bindE (dsub payload 3) (\<lambda>hash_raw.
          bindE (validate_object_hash hash_raw ''object_hash'') (\<lambda>object_hash.
          Inr (Active
            \<lparr>v3_alg = alg, v3_version = n, v3_object_hash = object_hash,
             v3_provider_urls = provider_urls, v3_endpoints = endpoints\<rparr>))))))))))))
      | _ \<Rightarrow> Inl (Value_error ''provider version must be an integer'')))"

definition decode_provider_payload_dict :: "ext \<Rightarrow> pydict \<Rightarrow> provider_payload res" where
  "decode_provider_payload_dict X payload =
     (case dget payload 2 of
        Some version \<Rightarrow>
          if eq_int version 2 \<and> \<not> is_bool version then decode_withdrawn_payload payload
          else decode_active_payload X payload
      | None \<Rightarrow> decode_active_payload X payload)"

definition build_provider_withdrawal_payload_dict ::
  "pyval \<Rightarrow> pyval \<Rightarrow> pyval option \<Rightarrow> pydict res" where
  "build_provider_withdrawal_payload_dict alg object_hash replacement_object_hash =
     bindE (require_alg alg) (\<lambda>alg.
     bindE (validate_object_hash object_hash ''object_hash'') (\<lambda>object_hash.
     let payload = [(PInt 1, PStr alg), (PInt 2, PInt 2), (PInt 3, PStr object_hash),
                    (PInt 4, PStr withdrawn_str)]
     in case replacement_object_hash of
          None \<Rightarrow> Inr payload
        | Some r \<Rightarrow>
            bindE (validate_object_hash r ''replacement_object_hash'') (\<lambda>replacement.
            bindE (fromhex replacement) (\<lambda>rb. bindE (fromhex object_hash) (\<lambda>ob.
            if rb = ob
            then Inl (Value_error ''replacement_object_hash must not reference itself'')
            else Inr (payload @ [(PInt 5, PStr replacement)]))))))"

definition is_provider_withdrawn_payload :: "ext \<Rightarrow> pydict \<Rightarrow> bool res" where
  "is_provider_withdrawn_payload X payload =
     bindE (decode_provider_payload_dict X payload) (\<lambda>p. Inr (is_withdrawn p))"

subsection \<open>Payloads as canonical CBOR\<close>

definition encode_provider_payload ::
  "ext \<Rightarrow> pyval \<Rightarrow> pyval \<Rightarrow> pyval \<Rightarrow> pyval list \<Rightarrow> pyval list \<Rightarrow> bytes res" where
  "encode_provider_payload X version alg object_hash provider_urls endpoints =
     bindE (build_provider_payload_dict X version alg object_hash provider_urls endpoints)
       (\<lambda>d. canonical_cbor X (PDict d))"

definition encode_provider_withdrawal_payload ::
  "ext \<Rightarrow> pyval \<Rightarrow> pyval \<Rightarrow> pyval option \<Rightarrow> bytes res" where
  "encode_provider_withdrawal_payload X alg object_hash replacement =
     bindE (build_provider_withdrawal_payload_dict alg object_hash replacement)
       (\<lambda>d. canonical_cbor X (PDict d))"

definition decode_provider_payload :: "ext \<Rightarrow> bytes \<Rightarrow> provider_payload res" where
  "decode_provider_payload X data =
     (if \<not> is_canonical_cbor X data then Inl (Value_error ''non-canonical or invalid CBOR'')
      else bindE (wrapE (cbor_loads X data) (Value_error ''invalid CBOR'')) (\<lambda>decoded.
      bindE (want_dict (Value_error ''provider payload must be a CBOR map'') decoded)
        (decode_provider_payload_dict X)))"

definition format_get_result ::
  "ext \<Rightarrow> pstr \<Rightarrow> pyval list \<Rightarrow> pyval list \<Rightarrow> (string \<times> pyval) list res" where
  "format_get_result X object_key provider_urls endpoints =
     bindE (normalize_sorted_provider_urls X provider_urls) (\<lambda>urls.
     bindE (normalize_sorted_endpoints endpoints) (\<lambda>eps.
     Inr [(''object_key'', PStr object_key), (''provider_urls'', PList (map PStr urls)),
          (''endpoints'', PList (map PStr eps))]))"

subsection \<open>What the builders and the decoder accept\<close>

definition endpoint_ok :: "pstr \<Rightarrow> bool" where
  "endpoint_ok e = (starts_with [47] e \<and> (\<exists>b. utf8_opt e = Some b \<and> length b \<le> 256))"

definition uri_ok :: "ext \<Rightarrow> pstr \<Rightarrow> bool" where
  "uri_ok X u = (validate_provider_uri X (PStr u) = Inr u)"

definition hash_ok :: "pstr \<Rightarrow> bool" where
  "hash_ok h = (length h = 64 \<and> list_all is_hex h)"

lemma validate_endpoint_Inr [res_simps]:
  "(validate_endpoint v = Inr e) = (v = PStr e \<and> endpoint_ok e)"
  by (auto simp: validate_endpoint_def endpoint_ok_def res_simps not_less)

lemma validate_endpoints_Inr [res_simps]:
  "(validate_endpoints vs = Inr es) =
     (vs = map PStr es \<and> length es \<le> 32 \<and> (\<forall>e \<in> set es. endpoint_ok e))"
proof -
  have "(mapE validate_endpoint vs = Inr es) = (vs = map PStr es \<and> (\<forall>e \<in> set es. endpoint_ok e))"
    by (induction vs arbitrary: es) (auto simp: res_simps Cons_eq_map_conv)
  then show ?thesis by (auto simp: validate_endpoints_def res_simps)
qed

lemma validate_provider_uri_PStr:
  assumes "validate_provider_uri X v = Inr u"
  shows "v = PStr u"
proof -
  obtain uri where "v = PStr uri"
    using assms by (auto simp: validate_provider_uri_def res_simps)
  with assms show ?thesis
    by (auto simp: validate_provider_uri_def res_simps Let_def split: prod.splits if_splits)
qed

lemma validate_provider_uri_Inr [res_simps]:
  "(validate_provider_uri X v = Inr u) = (v = PStr u \<and> uri_ok X u)"
  by (auto simp: uri_ok_def dest: validate_provider_uri_PStr)

lemma normalize_urls_Inr [res_simps]:
  "(normalize_sorted_provider_urls X vs = Inr out) =
     (\<exists>us. vs = map PStr us \<and> 1 \<le> length us \<and> length us \<le> 32 \<and> (\<forall>u \<in> set us. uri_ok X u) \<and>
        distinct us \<and> out = sort us)"
proof -
  have "(mapE (validate_provider_uri X) vs = Inr us) = (vs = map PStr us \<and> (\<forall>u \<in> set us. uri_ok X u))"
    for us by (induction vs arbitrary: us) (auto simp: res_simps Cons_eq_map_conv)
  then show ?thesis by (auto simp: normalize_sorted_provider_urls_def res_simps)
qed

lemma validate_object_hash_Inr [res_simps]:
  "(validate_object_hash v n = Inr h) = (v = PStr h \<and> hash_ok h)"
  by (cases v) (auto simp: validate_object_hash_def hash_ok_def)

lemma require_alg_Inr [res_simps]: "(require_alg v = Inr a) = (v = PStr a \<and> a \<noteq> [])"
  by (auto simp: require_alg_def res_simps)

lemma require_endpoints_sorted_Inr [res_simps]: "(require_endpoints_sorted es = Inr ()) = sorted es"
  using sorted_sort [of es] by (auto simp: require_endpoints_sorted_def sorted_sort_id simp del: sorted_sort)

text \<open>The invariant of a decoded payload.\<close>

definition active_ok :: "ext \<Rightarrow> provider_payload_v3 \<Rightarrow> bool" where
  "active_ok X p =
     (v3_alg p \<noteq> [] \<and> v3_version p = 3 \<and> hash_ok (v3_object_hash p) \<and>
      1 \<le> length (v3_provider_urls p) \<and> length (v3_provider_urls p) \<le> 32 \<and>
      sorted (v3_provider_urls p) \<and> distinct (v3_provider_urls p) \<and>
      (\<forall>u \<in> set (v3_provider_urls p). uri_ok X u) \<and>
      length (v3_endpoints p) \<le> 32 \<and> sorted (v3_endpoints p) \<and>
      (\<forall>e \<in> set (v3_endpoints p). endpoint_ok e))"

definition withdrawn_ok :: "provider_withdrawn_payload_v2 \<Rightarrow> bool" where
  "withdrawn_ok p =
     (v2_alg p \<noteq> [] \<and> v2_version p = 2 \<and> hash_ok (v2_object_hash p) \<and>
      v2_status p = withdrawn_str \<and>
      (case v2_replacement p of
         None \<Rightarrow> True
       | Some r \<Rightarrow> hash_ok r \<and> fromhex_opt r \<noteq> fromhex_opt (v2_object_hash p)))"

definition payload_ok :: "ext \<Rightarrow> provider_payload \<Rightarrow> bool" where
  "payload_ok X p = (case p of Active a \<Rightarrow> active_ok X a | Withdrawn w \<Rightarrow> withdrawn_ok w)"

lemma hash_ok_bytes: "hash_ok h \<Longrightarrow> \<exists>b. fromhex_opt h = Some b \<and> length b = 32"
  by (rule fromhex_all_hex) (auto simp: hash_ok_def)

lemma decode_active_ok:
  assumes "decode_active_payload X d = Inr p"
  shows "\<exists>a. p = Active a \<and> active_ok X a"
proof -
  from assms obtain v where v: "dget d 2 = Some v"
    by (auto simp: decode_active_payload_def res_simps)
  with assms obtain n where "v = PInt n"
    by (cases v) (auto simp: decode_active_payload_def res_simps dsub_ok)
  with assms v show ?thesis
    by (auto simp: decode_active_payload_def res_simps dsub_ok active_ok_def)
qed

lemma decode_withdrawn_ok:
  assumes "decode_withdrawn_payload d = Inr p"
  shows "\<exists>w. p = Withdrawn w \<and> withdrawn_ok w"
  using assms
  by (cases "dget d 5")
    (auto simp: decode_withdrawn_payload_def res_simps dsub_ok withdrawn_ok_def)

lemma decode_payload_ok: "decode_provider_payload_dict X d = Inr p \<Longrightarrow> payload_ok X p"
  by (auto simp: decode_provider_payload_dict_def payload_ok_def
      dest!: decode_active_ok decode_withdrawn_ok split: option.splits if_splits)

subsection \<open>What the builders build, the decoder reads\<close>

lemma decode_built_active:
  assumes "build_provider_payload_dict X v (PStr alg) (PStr h) (map PStr urls) (map PStr eps) = Inr d"
  shows "decode_provider_payload_dict X d =
    Inr (Active \<lparr>v3_alg = alg, v3_version = 3, v3_object_hash = h,
                v3_provider_urls = sort urls, v3_endpoints = sort eps\<rparr>)"
proof -
  have inj: "map PStr xs = map PStr ys \<longleftrightarrow> xs = ys" for xs ys
    by (rule inj_map_eq_map) (simp add: inj_def)
  from assms have d: "d = [(PInt 1, PStr alg), (PInt 2, PInt 3), (PInt 3, PStr h),
      (PInt 4, PList (map PStr (sort urls))), (PInt 5, PList (map PStr (sort eps)))]"
    and ok: "alg \<noteq> []" "hash_ok h" "1 \<le> length urls" "length urls \<le> 32" "distinct urls"
      "\<forall>u \<in> set urls. uri_ok X u" "length eps \<le> 32" "\<forall>e \<in> set eps. endpoint_ok e"
    by (auto simp: build_provider_payload_dict_def normalize_sorted_endpoints_def res_simps inj)
  have "normalize_sorted_provider_urls X (map PStr (sort urls)) = Inr (sort urls)"
    using ok by (simp add: normalize_urls_Inr inj sorted_sort_id)
  moreover have "validate_endpoints (map PStr (sort eps)) = Inr (sort eps)"
    using ok by (simp add: validate_endpoints_Inr)
  moreover have "require_endpoints_sorted (sort eps) = Inr ()"
    by (simp add: require_endpoints_sorted_Inr)
  moreover have "require_alg (PStr alg) = Inr alg" "validate_object_hash (PStr h) n = Inr h" for n
    using ok by (simp_all add: require_alg_Inr validate_object_hash_Inr)
  ultimately show ?thesis
    by (simp add: d decode_provider_payload_dict_def decode_active_payload_def keys_are_def dsub_def
        list_all_iff)
qed

lemma decode_built_withdrawal:
  assumes "build_provider_withdrawal_payload_dict (PStr alg) (PStr h) (map_option PStr r) = Inr d"
  shows "decode_provider_payload_dict X d =
    Inr (Withdrawn \<lparr>v2_alg = alg, v2_version = 2, v2_object_hash = h,
                   v2_status = withdrawn_str, v2_replacement = r\<rparr>)"
proof -
  have ok: "require_alg (PStr alg) = Inr alg" "\<And>n. validate_object_hash (PStr h) n = Inr h"
    using assms by (auto simp: build_provider_withdrawal_payload_dict_def res_simps)
  show ?thesis
  proof (cases r)
    case None
    with assms ok have d: "d = [(PInt 1, PStr alg), (PInt 2, PInt 2), (PInt 3, PStr h),
        (PInt 4, PStr withdrawn_str)]"
      by (simp add: build_provider_withdrawal_payload_dict_def)
    show ?thesis using ok None
      by (simp add: d decode_provider_payload_dict_def decode_withdrawn_payload_def dsub_def)
  next
    case (Some s)
    with assms ok obtain x y where r: "\<And>n. validate_object_hash (PStr s) n = Inr s"
      "fromhex s = Inr x" "fromhex h = Inr y" "x \<noteq> y"
      and d: "d = [(PInt 1, PStr alg), (PInt 2, PInt 2), (PInt 3, PStr h),
        (PInt 4, PStr withdrawn_str), (PInt 5, PStr s)]"
      by (auto simp: build_provider_withdrawal_payload_dict_def Let_def bindE_Inr if_raise_Inr
          validate_object_hash_Inr)
    show ?thesis using ok r Some
      by (simp add: d decode_provider_payload_dict_def decode_withdrawn_payload_def dsub_def)
  qed
qed

lemma built_payload_canonical:
  "build_provider_payload_dict X v alg h urls eps = Inr d \<Longrightarrow> canonical_value (PDict d)"
  "build_provider_withdrawal_payload_dict alg h r = Inr d \<Longrightarrow> canonical_value (PDict d)"
  by (auto simp: build_provider_payload_dict_def build_provider_withdrawal_payload_dict_def
      bindE_Inr if_raise_Inr list_all_iff Let_def split: option.splits if_splits)

end
