(* ===== verification/Encoding.thy ===== *)
theory Encoding
  imports Provider_Schema
begin

text \<open>
  \<open>encoding.py\<close>: the authorization map of version-1 multisignature updates, and the
  SignedUpdate that signatures are made over. A validated authorization map, which the code
  keeps as a dictionary with the keys 1 to 7, is the record \<open>auth_map\<close>; a decoded SignedUpdate
  (keys 1 to 3, or 1 to 4) is the record \<open>signed_update\<close>, whose last field is present exactly
  when key 4 was.
\<close>

subsection \<open>Constants\<close>

definition authorization_scheme_ed25519 :: int where "authorization_scheme_ed25519 = 1"
definition record_kind_identity :: int where "record_kind_identity = 1"
definition record_kind_provider :: int where "record_kind_provider = 2"
definition operation_genesis :: int where "operation_genesis = 1"
definition operation_ordinary_update :: int where "operation_ordinary_update = 2"
definition operation_replace_signers :: int where "operation_replace_signers = 3"
definition operation_upgrade :: int where "operation_upgrade = 4"
definition operation_owner_key_rotation :: int where "operation_owner_key_rotation = 5"

lemmas wire_constants =
  authorization_scheme_ed25519_def record_kind_identity_def record_kind_provider_def
  operation_genesis_def operation_ordinary_update_def operation_replace_signers_def
  operation_upgrade_def operation_owner_key_rotation_def

subsection \<open>Authorization maps\<close>

type_synonym signers = "(pstr \<times> bytes) list"

record auth_map =
  scheme :: int
  record_kind :: int
  operation :: int
  epoch :: int
  threshold :: int
  signer_set :: signers
  predecessor :: bytes

definition require_uint :: "pyval \<Rightarrow> string \<Rightarrow> int res" where
  "require_uint v name =
     (case v of
        PInt i \<Rightarrow> if i < 0 then Inl (Type_error (name @ '' must be a non-negative integer'')) else Inr i
      | _ \<Rightarrow> Inl (Type_error (name @ '' must be a non-negative integer'')))"

text \<open>
  The loop of \<open>_validate_signer_entries\<close>; \<open>seen_ids\<close> and \<open>seen_keys\<close> are the two sets it
  fills, as lists.
\<close>

fun validate_entries_loop ::
  "pyval list \<Rightarrow> pstr list \<Rightarrow> bytes list \<Rightarrow> signers res" where
  "validate_entries_loop [] seen_ids seen_keys = Inr []"
| "validate_entries_loop (entry # entries) seen_ids seen_keys =
     bindE (want_dict (Value_error ''signer entry must be a map with keys {1,2}'') entry) (\<lambda>d.
     if \<not> keys_are d [1, 2] then Inl (Value_error ''signer entry must be a map with keys {1,2}'')
     else bindE (dsub d 1) (\<lambda>id_raw. bindE (dsub d 2) (\<lambda>key_raw.
     bindE (want_str (Value_error ''signer_id must be a non-empty text string'') id_raw) (\<lambda>signer_id.
     if signer_id = [] then Inl (Value_error ''signer_id must be a non-empty text string'')
     else bindE (utf8 signer_id) (\<lambda>enc.
     if 256 < length enc then Inl (Value_error ''signer_id must be at most 256 UTF-8 bytes'')
     else bindE (want_bytes (Type_error ''signer public key must be bytes'') key_raw) (\<lambda>public_key.
     if length public_key \<noteq> 32
     then Inl (Value_error ''signer public key must be exactly 32 bytes'')
     else if signer_id \<in> set seen_ids then Inl (Value_error ''duplicate signer identifier'')
     else if public_key \<in> set seen_keys then Inl (Value_error ''duplicate public key'')
     else bindE (validate_entries_loop entries (signer_id # seen_ids) (public_key # seen_keys))
       (\<lambda>rest. Inr ((signer_id, public_key) # rest))))))))"

definition signer_sort_key :: "pstr \<times> bytes \<Rightarrow> bytes" where
  "signer_sort_key entry = utf8_key (fst entry)"

definition validate_signer_entries :: "pyval \<Rightarrow> bool \<Rightarrow> bool \<Rightarrow> signers res" where
  "validate_signer_entries entries sort_entries require_sorted =
     (case entries of
        PList es \<Rightarrow>
          if es = [] then Inl (Value_error ''signer_set must be a non-empty list'')
          else bindE (validate_entries_loop es [] []) (\<lambda>normalized.
            let ordered = sort_key signer_sort_key normalized in
            if require_sorted \<and> normalized \<noteq> ordered
            then Inl (Value_error ''signer entries must be canonically ordered'')
            else Inr (if sort_entries then ordered else normalized))
      | _ \<Rightarrow> Inl (Value_error ''signer_set must be a non-empty list''))"

definition validate_authorization_map :: "pyval \<Rightarrow> bool \<Rightarrow> auth_map res" where
  "validate_authorization_map authorization sort_signers =
     bindE (want_dict (Type_error ''authorization must be a CBOR map'') authorization) (\<lambda>d.
     if \<not> keys_are d [1, 2, 3, 4, 5, 6, 7]
     then Inl (Value_error ''authorization must contain keys {1,2,3,4,5,6,7}'')
     else bindE (dsub d 1) (\<lambda>v1. bindE (require_uint v1 ''authorization scheme'') (\<lambda>scheme.
     if scheme \<noteq> authorization_scheme_ed25519
     then Inl (Value_error ''unsupported authorization scheme'')
     else bindE (dsub d 2) (\<lambda>v2. bindE (require_uint v2 ''record_kind'') (\<lambda>record_kind.
     if record_kind \<notin> {record_kind_identity, record_kind_provider}
     then Inl (Value_error ''unsupported record_kind'')
     else bindE (dsub d 3) (\<lambda>v3. bindE (require_uint v3 ''operation'') (\<lambda>operation.
     if operation \<notin> {operation_genesis, operation_ordinary_update, operation_replace_signers,
                      operation_upgrade, operation_owner_key_rotation}
     then Inl (Value_error ''unsupported operation'')
     else bindE (dsub d 4) (\<lambda>v4. bindE (require_uint v4 ''epoch'') (\<lambda>epoch.
     bindE (dsub d 5) (\<lambda>v5. bindE (require_uint v5 ''threshold'') (\<lambda>threshold.
     bindE (dsub d 6) (\<lambda>v6.
     bindE (validate_signer_entries v6 sort_signers (\<not> sort_signers)) (\<lambda>signer_set.
     if threshold < 1 \<or> int (length signer_set) < threshold
     then Inl (Value_error ''threshold must be between 1 and the signer-set size'')
     else bindE (dsub d 7) (\<lambda>v7.
     bindE (want_bytes (Type_error ''predecessor_state_hash must be bytes'') v7) (\<lambda>predecessor.
     if length predecessor \<noteq> 32
     then Inl (Value_error ''predecessor_state_hash must be exactly 32 bytes'')
     else Inr \<lparr>scheme = scheme, record_kind = record_kind, operation = operation, epoch = epoch,
               threshold = threshold, signer_set = signer_set, predecessor = predecessor\<rparr>)))))))))))))))"

text \<open>The dictionaries the records stand for.\<close>

definition signer_entry_py :: "pstr \<times> bytes \<Rightarrow> pyval" where
  "signer_entry_py e = PDict [(PInt 1, PStr (fst e)), (PInt 2, PBytes (snd e))]"

definition auth_py :: "auth_map \<Rightarrow> pyval" where
  "auth_py a = PDict
     [(PInt 1, PInt (scheme a)), (PInt 2, PInt (record_kind a)), (PInt 3, PInt (operation a)),
      (PInt 4, PInt (epoch a)), (PInt 5, PInt (threshold a)),
      (PInt 6, PList (map signer_entry_py (signer_set a))), (PInt 7, PBytes (predecessor a))]"

lemma signer_entry_py_pair [simp]:
  "signer_entry_py (sid, k) = PDict [(PInt 1, PStr sid), (PInt 2, PBytes k)]"
  by (simp add: signer_entry_py_def)

subsection \<open>SignedUpdate\<close>

record signed_update =
  su_fields :: pydict
  su_payload :: pydict
  su_seq :: int
  su_auth :: "auth_map option"

fun validate_uint_keys :: "pydict \<Rightarrow> string \<Rightarrow> pydict res" where
  "validate_uint_keys [] name = Inr []"
| "validate_uint_keys ((k, v) # m) name =
     (case k of
        PInt i \<Rightarrow>
          if i < 0 then Inl (Type_error (name @ '' keys must be non-negative ints''))
          else bindE (validate_uint_keys m name) (\<lambda>out. Inr ((PInt i, v) # out))
      | _ \<Rightarrow> Inl (Type_error (name @ '' keys must be non-negative ints'')))"

definition validate_record_kind_binding :: "ext \<Rightarrow> pydict \<Rightarrow> pydict \<Rightarrow> int \<Rightarrow> unit res" where
  "validate_record_kind_binding X record_fields payload kind =
     (if kind = record_kind_identity then
        (if \<not> keys_are record_fields [1, 2] \<or> payload \<noteq> []
         then Inl (Value_error ''record_kind identity does not match SignedUpdate'')
         else bindE (dsub record_fields 1) (\<lambda>v1.
           bindE (want_bytes (Value_error ''identity owner_name must be bytes'') v1) (\<lambda>_.
           bindE (dsub record_fields 2) (\<lambda>v2.
           bindE (want_bytes (Value_error ''identity owner public key must be bytes'') v2) (\<lambda>pk.
           if length pk \<noteq> 32
           then Inl (Value_error ''identity owner public key must be exactly 32 bytes'')
           else Inr ())))))
      else if kind = record_kind_provider then
        (if \<not> keys_are record_fields [1]
         then Inl (Value_error ''record_kind provider does not match SignedUpdate'')
         else bindE (dsub record_fields 1) (\<lambda>v1.
           bindE (want_bytes (Value_error ''provider owner public key must be bytes'') v1) (\<lambda>pk.
           if length pk \<noteq> 32
           then Inl (Value_error ''provider owner public key must be exactly 32 bytes'')
           else bindE (wrapE (decode_provider_payload_dict X payload)
                  (Value_error ''record_kind provider does not match SignedUpdate''))
                (\<lambda>_. Inr ()))))
      else Inl (Value_error ''unsupported record_kind''))"

definition signed_update_py :: "signed_update \<Rightarrow> pyval" where
  "signed_update_py u = PDict
     ([(PInt 1, PDict (su_fields u)), (PInt 2, PDict (su_payload u)), (PInt 3, PInt (su_seq u))] @
      (case su_auth u of None \<Rightarrow> [] | Some a \<Rightarrow> [(PInt 4, auth_py a)]))"

text \<open>The dictionary \<open>encode_signed_update\<close> builds, then its canonical encoding.\<close>

definition make_signed_update ::
  "ext \<Rightarrow> pydict \<Rightarrow> pydict \<Rightarrow> pyval \<Rightarrow> pyval option \<Rightarrow> signed_update res" where
  "make_signed_update X record_fields payload seq authorization =
     bindE (require_uint seq ''seq'') (\<lambda>seq.
     bindE (validate_uint_keys record_fields ''record_fields'') (\<lambda>rf.
     bindE (validate_uint_keys payload ''payload'') (\<lambda>pl.
     case authorization of
       None \<Rightarrow> Inr \<lparr>su_fields = rf, su_payload = pl, su_seq = seq, su_auth = None\<rparr>
     | Some a \<Rightarrow>
         bindE (validate_authorization_map a True) (\<lambda>normalized_auth.
         bindE (validate_record_kind_binding X rf pl (record_kind normalized_auth)) (\<lambda>_.
         Inr \<lparr>su_fields = rf, su_payload = pl, su_seq = seq, su_auth = Some normalized_auth\<rparr>)))))"

definition encode_signed_update ::
  "ext \<Rightarrow> pydict \<Rightarrow> pydict \<Rightarrow> pyval \<Rightarrow> pyval option \<Rightarrow> bytes res" where
  "encode_signed_update X record_fields payload seq authorization =
     bindE (make_signed_update X record_fields payload seq authorization)
       (\<lambda>u. canonical_cbor X (signed_update_py u))"

definition encode_multisignature_signed_update ::
  "ext \<Rightarrow> pydict \<Rightarrow> pydict \<Rightarrow> pyval \<Rightarrow> pyval \<Rightarrow> bytes res" where
  "encode_multisignature_signed_update X record_fields payload seq authorization =
     encode_signed_update X record_fields payload seq (Some authorization)"

definition validate_decoded_signed_update :: "ext \<Rightarrow> pydict \<Rightarrow> signed_update res" where
  "validate_decoded_signed_update X decoded =
     (if \<not> keys_are decoded [1, 2, 3] \<and> \<not> keys_are decoded [1, 2, 3, 4]
      then Inl (Value_error ''SignedUpdate must have keys {1,2,3} or {1,2,3,4}'')
      else bindE (dsub decoded 1) (\<lambda>v1. bindE (dsub decoded 2) (\<lambda>v2.
      bindE (want_dict (Value_error ''record_fields and payload must be CBOR maps'') v1) (\<lambda>rf.
      bindE (want_dict (Value_error ''record_fields and payload must be CBOR maps'') v2) (\<lambda>pl.
      bindE (validate_uint_keys rf ''record_fields'') (\<lambda>_.
      bindE (validate_uint_keys pl ''payload'') (\<lambda>_.
      bindE (dsub decoded 3) (\<lambda>v3. bindE (require_uint v3 ''seq'') (\<lambda>seq.
      case dget decoded 4 of
        None \<Rightarrow> Inr \<lparr>su_fields = rf, su_payload = pl, su_seq = seq, su_auth = None\<rparr>
      | Some v4 \<Rightarrow>
          bindE (validate_authorization_map v4 False) (\<lambda>a.
          bindE (validate_record_kind_binding X rf pl (record_kind a)) (\<lambda>_.
          Inr \<lparr>su_fields = rf, su_payload = pl, su_seq = seq, su_auth = Some a\<rparr>)))))))))))"

definition decode_canonical_signed_update :: "ext \<Rightarrow> bytes \<Rightarrow> signed_update res" where
  "decode_canonical_signed_update X data =
     (if \<not> is_canonical_cbor X data then Inl (Value_error ''non-canonical or invalid CBOR'')
      else bindE (cbor_loads X data) (\<lambda>decoded.
      bindE (want_dict (Value_error ''SignedUpdate must be a CBOR map'') decoded)
        (validate_decoded_signed_update X)))"

text \<open>
  The multisignature decoder also returns the authorization map, which it has found present.
\<close>

definition decode_multisignature_signed_update ::
  "ext \<Rightarrow> bytes \<Rightarrow> (signed_update \<times> auth_map) res" where
  "decode_multisignature_signed_update X data =
     bindE (decode_canonical_signed_update X data) (\<lambda>decoded.
     case su_auth decoded of
       None \<Rightarrow> Inl (Value_error ''multisignature SignedUpdate requires authorization key 4'')
     | Some a \<Rightarrow> Inr (decoded, a))"

subsection \<open>Well-formed signer sets and authorization maps\<close>

definition signer_ok :: "pstr \<times> bytes \<Rightarrow> bool" where
  "signer_ok e =
     (fst e \<noteq> [] \<and> (\<exists>b. utf8_opt (fst e) = Some b \<and> length b \<le> 256) \<and> length (snd e) = 32)"

definition wf_signers :: "signers \<Rightarrow> bool" where
  "wf_signers s =
     (s \<noteq> [] \<and> (\<forall>e \<in> set s. signer_ok e) \<and> distinct (map fst s) \<and> distinct (map snd s))"

definition signers_sorted :: "signers \<Rightarrow> bool" where
  "signers_sorted s = sorted (map signer_sort_key s)"

definition wf_auth :: "auth_map \<Rightarrow> bool" where
  "wf_auth a =
     (scheme a = 1 \<and> record_kind a \<in> {1, 2} \<and> operation a \<in> {1, 2, 3, 4, 5} \<and> 0 \<le> epoch a \<and>
      1 \<le> threshold a \<and> threshold a \<le> int (length (signer_set a)) \<and>
      wf_signers (signer_set a) \<and> signers_sorted (signer_set a) \<and> length (predecessor a) = 32)"

text \<open>What the loop has checked, and that it accepts every list that passes those checks.\<close>

lemma validate_entries_loop_Inr:
  "validate_entries_loop es ids keys = Inr s \<Longrightarrow>
     length s = length es \<and> (\<forall>e \<in> set s. signer_ok e) \<and>
     distinct (map fst s) \<and> distinct (map snd s) \<and>
     set (map fst s) \<inter> set ids = {} \<and> set (map snd s) \<inter> set keys = {}"
proof (induction es arbitrary: ids keys s)
  case Nil
  then show ?case by simp
next
  case (Cons entry entries)
  from Cons.prems obtain d id k b rest where
    e: "entry = PDict d" and kd: "keys_are d [1, 2]" and
    get: "dget d 1 = Some (PStr id)" "dget d 2 = Some (PBytes k)" and
    ok: "id \<noteq> []" "utf8_opt id = Some b" "length b \<le> 256" "length k = 32"
      "id \<notin> set ids" "k \<notin> set keys" and
    rest: "validate_entries_loop entries (id # ids) (k # keys) = Inr rest" and
    s: "s = (id, k) # rest"
    by (auto simp: res_simps not_less)
  from Cons.IH [OF rest] show ?case using s ok by (auto simp: signer_ok_def)
qed

lemma validate_entries_loop_py:
  "(\<forall>e \<in> set s. signer_ok e) \<Longrightarrow> distinct (map fst s) \<Longrightarrow> distinct (map snd s) \<Longrightarrow>
   set (map fst s) \<inter> set ids = {} \<Longrightarrow> set (map snd s) \<inter> set keys = {} \<Longrightarrow>
   validate_entries_loop (map signer_entry_py s) ids keys = Inr s"
proof (induction s arbitrary: ids keys)
  case (Cons e s)
  obtain id k where e: "e = (id, k)" by (cases e)
  from Cons.prems(1) e obtain b where
    "id \<noteq> []" "utf8_opt id = Some b" "length b \<le> 256" "length k = 32"
    by (auto simp: signer_ok_def)
  moreover have "validate_entries_loop (map signer_entry_py s) (id # ids) (k # keys) = Inr s"
    using Cons.prems e by (intro Cons.IH) auto
  moreover have "id \<notin> set ids" "k \<notin> set keys" using Cons.prems e by auto
  ultimately show ?case
    by (simp add: e dsub_def keys_are_def utf8_def)
qed simp

lemma validate_signer_entries_Inr:
  assumes "validate_signer_entries v st rq = Inr s"
  shows "wf_signers s" and "st \<or> rq \<Longrightarrow> signers_sorted s"
proof -
  obtain es n where es: "v = PList es" "es \<noteq> []" and
    loop: "validate_entries_loop es [] [] = Inr n" and
    out: "s = (if st then sort_key signer_sort_key n else n)" and
    req: "rq \<longrightarrow> n = sort_key signer_sort_key n"
    using assms unfolding validate_signer_entries_def
    by (cases v) (auto simp: res_simps Let_def split: if_splits)
  have n: "(\<forall>e \<in> set n. signer_ok e) \<and> distinct (map fst n) \<and> distinct (map snd n) \<and> n \<noteq> []"
    using validate_entries_loop_Inr [OF loop] es(2) by auto
  then show "wf_signers s" using out
    by (auto simp: wf_signers_def dest: arg_cong [where f = length])
  show "st \<or> rq \<Longrightarrow> signers_sorted s"
    using out req unfolding signers_sorted_def by (metis sorted_sort_key)
qed

lemma validate_signer_entries_py:
  assumes "wf_signers s" and "signers_sorted s"
  shows "validate_signer_entries (PList (map signer_entry_py s)) st rq = Inr s"
proof -
  have "sort_key signer_sort_key s = s"
    using assms(2) by (simp add: signers_sorted_def sort_key_fixed)
  moreover have "validate_entries_loop (map signer_entry_py s) [] [] = Inr s"
    using assms(1) by (intro validate_entries_loop_py) (auto simp: wf_signers_def)
  ultimately show ?thesis
    using assms(1) by (auto simp: validate_signer_entries_def wf_signers_def)
qed

lemma require_uint_Inr [res_simps]: "(require_uint v name = Inr i) = (v = PInt i \<and> 0 \<le> i)"
  by (cases v) (auto simp: require_uint_def)

lemma validate_authorization_map_wf:
  assumes "validate_authorization_map v st = Inr a"
  shows "wf_auth a"
proof -
  obtain s v6 where "validate_signer_entries v6 st (\<not> st) = Inr s" and sa: "signer_set a = s"
    and rest: "scheme a = 1 \<and> record_kind a \<in> {1, 2} \<and> operation a \<in> {1, 2, 3, 4, 5} \<and>
      0 \<le> epoch a \<and> 1 \<le> threshold a \<and> threshold a \<le> int (length s) \<and> length (predecessor a) = 32"
    using assms unfolding validate_authorization_map_def
    by (auto simp: res_simps wire_constants not_less)
  then have "wf_signers s" "signers_sorted s"
    using validate_signer_entries_Inr by blast+
  with sa rest show ?thesis by (simp add: wf_auth_def)
qed

lemma validate_authorization_map_py:
  assumes "wf_auth a"
  shows "validate_authorization_map (auth_py a) st = Inr a"
proof -
  have "validate_signer_entries (PList (map signer_entry_py (signer_set a))) st (\<not> st) =
        Inr (signer_set a)"
    using assms by (intro validate_signer_entries_py) (auto simp: wf_auth_def)
  moreover have "scheme a = 1" "0 \<le> epoch a" "1 \<le> threshold a"
    "threshold a \<le> int (length (signer_set a))" "length (predecessor a) = 32"
    using assms by (auto simp: wf_auth_def)
  moreover have "record_kind a = 1 \<or> record_kind a = 2" "0 \<le> record_kind a" "0 \<le> operation a"
    "operation a = 1 \<or> operation a = 2 \<or> operation a = 3 \<or> operation a = 4 \<or> operation a = 5"
    using assms by (auto simp: wf_auth_def)
  ultimately show ?thesis
    by (simp add: validate_authorization_map_def auth_py_def keys_are_def dsub_def
        require_uint_def wire_constants)
qed

subsection \<open>Well-formed SignedUpdates\<close>

definition uint_keys :: "pydict \<Rightarrow> bool" where
  "uint_keys d = list_all (\<lambda>(k, _). case k of PInt i \<Rightarrow> 0 \<le> i | _ \<Rightarrow> False) d"

definition wf_update :: "ext \<Rightarrow> signed_update \<Rightarrow> bool" where
  "wf_update X u =
     (0 \<le> su_seq u \<and> uint_keys (su_fields u) \<and> uint_keys (su_payload u) \<and>
      (case su_auth u of
         None \<Rightarrow> True
       | Some a \<Rightarrow> wf_auth a \<and>
           validate_record_kind_binding X (su_fields u) (su_payload u) (record_kind a) = Inr ()))"

lemma uint_keys_simps [simp]:
  "uint_keys []"
  "uint_keys ((k, v) # d) = ((case k of PInt i \<Rightarrow> 0 \<le> i | _ \<Rightarrow> False) \<and> uint_keys d)"
  by (simp_all add: uint_keys_def)

lemma validate_uint_keys_Inr [res_simps]:
  "(validate_uint_keys d name = Inr d') = (uint_keys d \<and> d' = d)"
proof (induction d name arbitrary: d' rule: validate_uint_keys.induct)
  case (2 k v m name)
  then show ?case
  proof (cases k)
    case (PInt i)
    with "2.IH" [OF PInt] show ?thesis by (auto simp: bindE_Inr)
  qed simp_all
qed auto

lemma make_signed_update_wf:
  assumes "make_signed_update X rf pl seq auth = Inr u"
  shows "wf_update X u"
proof (cases auth)
  case None
  with assms show ?thesis by (auto simp: make_signed_update_def res_simps wf_update_def)
next
  case (Some v)
  with assms obtain a where a: "validate_authorization_map v True = Inr a"
    and "validate_record_kind_binding X rf pl (record_kind a) = Inr ()"
    and "u = \<lparr>su_fields = rf, su_payload = pl, su_seq = su_seq u, su_auth = Some a\<rparr>"
    and "0 \<le> su_seq u" "uint_keys rf" "uint_keys pl"
    by (auto simp: make_signed_update_def res_simps)
  with validate_authorization_map_wf [OF a] show ?thesis
    by (cases u) (simp add: wf_update_def)
qed

lemma validate_decoded_wf:
  assumes "validate_decoded_signed_update X d = Inr u"
  shows "wf_update X u"
proof (cases "dget d 4")
  case None
  with assms show ?thesis
    by (auto simp: validate_decoded_signed_update_def res_simps wf_update_def)
next
  case (Some v)
  with assms obtain a rf pl n where a: "validate_authorization_map v False = Inr a"
    and "validate_record_kind_binding X rf pl (record_kind a) = Inr ()"
    and "u = \<lparr>su_fields = rf, su_payload = pl, su_seq = n, su_auth = Some a\<rparr>"
    and "0 \<le> n" "uint_keys rf" "uint_keys pl"
    by (auto simp: validate_decoded_signed_update_def res_simps)
  with validate_authorization_map_wf [OF a] show ?thesis by (simp add: wf_update_def)
qed

lemma validate_decoded_py:
  assumes "wf_update X u" and "signed_update_py u = PDict d"
  shows "validate_decoded_signed_update X d = Inr u"
proof (cases "su_auth u")
  case None
  with assms show ?thesis
    by (auto simp: signed_update_py_def validate_decoded_signed_update_def keys_are_def dsub_def
        res_simps wf_update_def)
next
  case (Some a)
  with assms(1) have "validate_authorization_map (auth_py a) False = Inr a"
    by (intro validate_authorization_map_py) (simp add: wf_update_def)
  with Some assms show ?thesis
    by (auto simp: signed_update_py_def validate_decoded_signed_update_def keys_are_def dsub_def
        res_simps wf_update_def)
qed

lemma decode_signed_update_wf:
  "decode_canonical_signed_update X b = Inr u \<Longrightarrow> wf_update X u"
  by (auto simp: decode_canonical_signed_update_def res_simps dest: validate_decoded_wf)

lemma decode_multisig_wf:
  assumes "decode_multisignature_signed_update X b = Inr (u, a)"
  shows "wf_update X u" and "su_auth u = Some a" and "wf_auth a"
    and "validate_record_kind_binding X (su_fields u) (su_payload u) (record_kind a) = Inr ()"
proof -
  have dec: "decode_canonical_signed_update X b = Inr u" and au: "su_auth u = Some a"
    using assms by (auto simp: decode_multisignature_signed_update_def res_simps split: option.splits)
  show wf: "wf_update X u" by (rule decode_signed_update_wf [OF dec])
  show "su_auth u = Some a" by (rule au)
  show "wf_auth a"
    and "validate_record_kind_binding X (su_fields u) (su_payload u) (record_kind a) = Inr ()"
    using wf au by (simp_all add: wf_update_def)
qed

lemma decode_encoded_update:
  assumes "wf_update X u" and "cbor_roundtrips X (signed_update_py u) b"
  shows "decode_canonical_signed_update X b = Inr u"
proof -
  obtain d where d: "signed_update_py u = PDict d" by (simp add: signed_update_py_def)
  have "is_canonical_cbor X b" "cbor_loads X b = Inr (PDict d)"
    using assms(2) canonical_roundtrip d by (auto simp: cbor_roundtrips_def)
  with validate_decoded_py [OF assms(1) d] show ?thesis
    by (simp add: decode_canonical_signed_update_def)
qed

text \<open>Distinct authorization maps and updates are distinct values on the wire.\<close>

lemma signer_entry_py_inject: "signer_entry_py d = signer_entry_py e \<longleftrightarrow> d = e"
  by (cases d; cases e) simp

lemma signer_entries_py_inject: "map signer_entry_py s = map signer_entry_py t \<longleftrightarrow> s = t"
  by (rule inj_map_eq_map) (simp add: inj_def signer_entry_py_inject)

lemma auth_py_inject: "auth_py a = auth_py b \<longleftrightarrow> a = b"
  by (cases a; cases b) (auto simp: auth_py_def signer_entries_py_inject)

lemma signed_update_py_inject: "signed_update_py u = signed_update_py v \<longleftrightarrow> u = v"
  by (cases u; cases v)
    (auto simp: signed_update_py_def auth_py_inject split: option.splits)

text \<open>What the record-kind binding pins down.\<close>

lemma binding_identity:
  assumes "validate_record_kind_binding X rf pl 1 = Inr ()"
  shows "\<exists>name pk. dget rf 1 = Some (PBytes name) \<and> dget rf 2 = Some (PBytes pk) \<and>
    length pk = 32 \<and> pl = []"
  using assms by (auto simp: validate_record_kind_binding_def wire_constants res_simps)

lemma binding_provider:
  assumes "validate_record_kind_binding X rf pl 2 = Inr ()"
  shows "\<exists>pk p. dget rf 1 = Some (PBytes pk) \<and> length pk = 32 \<and>
    decode_provider_payload_dict X pl = Inr p \<and> keys_are rf [1]"
  using assms by (auto simp: validate_record_kind_binding_def wire_constants res_simps)

end
