(* ===== verification/Signed_Envelope.thy ===== *)
theory Signed_Envelope
  imports Encoding
begin

text \<open>
  \<open>signed_envelope.py\<close>: the two SignedEnvelope shapes. The legacy envelope carries one
  signature; the version-1 multisignature envelope carries an ordered list of proofs. A proof
  is a pair of an optional signer identifier (\<open>None\<close> is the null identifier that an owner-key
  rotation from a legacy record uses) and a signature.
\<close>

definition multisig_envelope_version :: int where "multisig_envelope_version = 1"

type_synonym proof_entry = "pstr option \<times> bytes"

definition proof_sort_key :: "proof_entry \<Rightarrow> bytes" where
  "proof_sort_key p = (case fst p of None \<Rightarrow> [] | Some signer_id \<Rightarrow> utf8_key signer_id)"

text \<open>The signer identifier of a proof: null, or a non-empty string of at most 256 bytes.\<close>

definition proof_signer_id :: "pyval \<Rightarrow> pstr option res" where
  "proof_signer_id v =
     (case v of
        PNone \<Rightarrow> Inr None
      | PStr s \<Rightarrow>
          if s = [] then Inl (Value_error ''proof signer_id must be a non-empty text string'')
          else bindE (utf8 s) (\<lambda>enc.
            if 256 < length enc
            then Inl (Value_error ''proof signer_id must be at most 256 UTF-8 bytes'')
            else Inr (Some s))
      | _ \<Rightarrow> Inl (Value_error ''proof signer_id must be a non-empty text string''))"

fun validate_proofs_loop :: "pyval list \<Rightarrow> pstr option list \<Rightarrow> proof_entry list res" where
  "validate_proofs_loop [] seen = Inr []"
| "validate_proofs_loop (p # proofs) seen =
     bindE (want_dict (Value_error ''proof must be a map with keys {1,2}'') p) (\<lambda>d.
     if \<not> keys_are d [1, 2] then Inl (Value_error ''proof must be a map with keys {1,2}'')
     else bindE (dsub d 1) (\<lambda>id_raw. bindE (dsub d 2) (\<lambda>sig_raw.
     bindE (proof_signer_id id_raw) (\<lambda>signer_id.
     if signer_id \<in> set seen then Inl (Value_error ''duplicate proof signer identifier'')
     else bindE (want_bytes (Type_error ''proof signature must be bytes'') sig_raw) (\<lambda>signature.
     if length signature \<noteq> 64 then Inl (Value_error ''proof signature must be exactly 64 bytes'')
     else bindE (validate_proofs_loop proofs (signer_id # seen))
       (\<lambda>rest. Inr ((signer_id, signature) # rest)))))))"

definition validate_proofs :: "pyval \<Rightarrow> bool \<Rightarrow> bool \<Rightarrow> proof_entry list res" where
  "validate_proofs proofs sort_proofs require_sorted =
     bindE (want_list (Type_error ''proofs must be a CBOR array'') proofs) (\<lambda>ps.
     bindE (validate_proofs_loop ps []) (\<lambda>normalized.
     let ordered = sort_key proof_sort_key normalized in
     if require_sorted \<and> normalized \<noteq> ordered
     then Inl (Value_error ''proofs must be canonically ordered'')
     else Inr (if sort_proofs then ordered else normalized)))"

record multisignature_envelope =
  env_version :: int
  env_update :: bytes
  env_proofs :: "proof_entry list"

subsection \<open>Legacy envelopes\<close>

definition legacy_envelope_py :: "bytes \<Rightarrow> bytes \<Rightarrow> pyval" where
  "legacy_envelope_py upd sig = PDict [(PInt 1, PBytes upd), (PInt 2, PBytes sig)]"

definition encode_signed_envelope :: "ext \<Rightarrow> bytes \<Rightarrow> bytes \<Rightarrow> bytes res" where
  "encode_signed_envelope X signed_update_bytes signature =
     cbor_dumps X (legacy_envelope_py signed_update_bytes signature)"

text \<open>Whether the embedded bytes decode to a map that holds key 4.\<close>

definition carries_authorization :: "ext \<Rightarrow> bytes \<Rightarrow> bool" where
  "carries_authorization X b =
     (case cbor_loads X b of Inr (PDict d) \<Rightarrow> has_key d 4 | _ \<Rightarrow> False)"

definition decode_signed_envelope :: "ext \<Rightarrow> bytes \<Rightarrow> (bytes \<times> bytes) res" where
  "decode_signed_envelope X envelope_cbor =
     (if \<not> is_canonical_cbor X envelope_cbor
      then Inl (Value_error ''non-canonical or invalid signed envelope'')
      else bindE (cbor_loads X envelope_cbor) (\<lambda>decoded.
      bindE (want_dict (Value_error ''signed envelope must be a CBOR map'') decoded) (\<lambda>d.
      if \<not> keys_are d [1, 2] then Inl (Value_error ''signed envelope must contain keys {1,2}'')
      else bindE (dsub d 1) (\<lambda>v1. bindE (dsub d 2) (\<lambda>v2.
      bindE (want_bytes (Value_error ''signed_update_bytes must be bytes'') v1) (\<lambda>signed_update_bytes.
      bindE (want_bytes (Value_error ''signature must be bytes'') v2) (\<lambda>signature.
      if carries_authorization X signed_update_bytes
      then Inl (Value_error ''legacy envelope cannot carry multisignature SignedUpdate'')
      else Inr (signed_update_bytes, signature))))))))"

subsection \<open>Multisignature envelopes\<close>

definition proof_py :: "proof_entry \<Rightarrow> pyval" where
  "proof_py p =
     PDict [(PInt 1, case fst p of None \<Rightarrow> PNone | Some s \<Rightarrow> PStr s), (PInt 2, PBytes (snd p))]"

definition multisig_envelope_py :: "multisignature_envelope \<Rightarrow> pyval" where
  "multisig_envelope_py e =
     PDict [(PInt 1, PInt (env_version e)), (PInt 2, PBytes (env_update e)),
            (PInt 3, PList (map proof_py (env_proofs e)))]"

definition encode_multisignature_envelope ::
  "ext \<Rightarrow> bytes \<Rightarrow> pyval \<Rightarrow> pyval \<Rightarrow> bool \<Rightarrow> bytes res" where
  "encode_multisignature_envelope X signed_update_bytes proofs version sort_proofs =
     (case version of
        PInt n \<Rightarrow>
          if n \<noteq> multisig_envelope_version
          then Inl (Value_error ''unsupported envelope version'')
          else bindE (decode_multisignature_signed_update X signed_update_bytes) (\<lambda>_.
            bindE (validate_proofs proofs sort_proofs (\<not> sort_proofs)) (\<lambda>normalized.
            cbor_dumps X (multisig_envelope_py
              \<lparr>env_version = n, env_update = signed_update_bytes, env_proofs = normalized\<rparr>)))
      | _ \<Rightarrow> Inl (Type_error ''envelope version must be an integer''))"

definition decode_multisignature_envelope :: "ext \<Rightarrow> bytes \<Rightarrow> multisignature_envelope res" where
  "decode_multisignature_envelope X envelope_cbor =
     (if \<not> is_canonical_cbor X envelope_cbor
      then Inl (Value_error ''non-canonical or invalid multisignature envelope'')
      else bindE (cbor_loads X envelope_cbor) (\<lambda>decoded.
      bindE (want_dict (Value_error ''multisignature envelope must contain keys {1,2,3}'') decoded) (\<lambda>d.
      if \<not> keys_are d [1, 2, 3]
      then Inl (Value_error ''multisignature envelope must contain keys {1,2,3}'')
      else bindE (dsub d 1) (\<lambda>version.
      case version of
        PInt n \<Rightarrow>
          if n \<noteq> multisig_envelope_version then Inl (Value_error ''unsupported envelope version'')
          else bindE (dsub d 2) (\<lambda>v2.
            bindE (want_bytes (Value_error ''signed_update_bytes must be bytes'') v2) (\<lambda>signed_update.
            bindE (decode_multisignature_signed_update X signed_update) (\<lambda>_.
            bindE (dsub d 3) (\<lambda>v3. bindE (validate_proofs v3 False True) (\<lambda>proofs.
            Inr \<lparr>env_version = n, env_update = signed_update, env_proofs = proofs\<rparr>)))))
      | _ \<Rightarrow> Inl (Value_error ''envelope version must be an integer'')))))"

subsection \<open>Well-formed proofs\<close>

definition proof_ok :: "proof_entry \<Rightarrow> bool" where
  "proof_ok p =
     ((case fst p of None \<Rightarrow> True
       | Some s \<Rightarrow> s \<noteq> [] \<and> (\<exists>b. utf8_opt s = Some b \<and> length b \<le> 256)) \<and>
      length (snd p) = 64)"

definition wf_proofs :: "proof_entry list \<Rightarrow> bool" where
  "wf_proofs ps =
     ((\<forall>p \<in> set ps. proof_ok p) \<and> distinct (map fst ps) \<and> sorted (map proof_sort_key ps))"

lemma proof_signer_id_Inr:
  "proof_signer_id v = Inr i \<Longrightarrow>
     (case i of None \<Rightarrow> True | Some s \<Rightarrow> s \<noteq> [] \<and> (\<exists>b. utf8_opt s = Some b \<and> length b \<le> 256))"
  by (cases v) (auto simp: proof_signer_id_def res_simps not_less)

lemma validate_proofs_loop_Inr:
  "validate_proofs_loop ps seen = Inr out \<Longrightarrow>
     length out = length ps \<and> (\<forall>p \<in> set out. proof_ok p) \<and> distinct (map fst out) \<and>
     set (map fst out) \<inter> set seen = {}"
proof (induction ps arbitrary: seen out)
  case Nil
  then show ?case by simp
next
  case (Cons p ps)
  from Cons.prems obtain i sg rest v where
    "proof_signer_id v = Inr i" "i \<notin> set seen" "length sg = 64"
    and rest: "validate_proofs_loop ps (i # seen) = Inr rest" and out: "out = (i, sg) # rest"
    by (auto simp: res_simps)
  with Cons.IH [OF rest] show ?case
    by (auto simp: proof_ok_def dest: proof_signer_id_Inr)
qed

lemma validate_proofs_loop_py:
  "(\<forall>p \<in> set ps. proof_ok p) \<Longrightarrow> distinct (map fst ps) \<Longrightarrow> set (map fst ps) \<inter> set seen = {} \<Longrightarrow>
   validate_proofs_loop (map proof_py ps) seen = Inr ps"
proof (induction ps arbitrary: seen)
  case (Cons p ps)
  obtain i sg where p: "p = (i, sg)" by (cases p)
  have "validate_proofs_loop (map proof_py ps) (i # seen) = Inr ps"
    using Cons.prems p by (intro Cons.IH) auto
  moreover have "proof_signer_id (case i of None \<Rightarrow> PNone | Some s \<Rightarrow> PStr s) = Inr i"
    using Cons.prems p by (auto simp: proof_ok_def proof_signer_id_def utf8_def split: option.splits)
  moreover have "i \<notin> set seen" "length sg = 64" using Cons.prems p by (auto simp: proof_ok_def)
  moreover have "proof_py p =
      PDict [(PInt 1, case i of None \<Rightarrow> PNone | Some s \<Rightarrow> PStr s), (PInt 2, PBytes sg)]"
    by (simp add: p proof_py_def)
  ultimately show ?case by (simp add: p dsub_def keys_are_def)
qed simp

lemma validate_proofs_Inr:
  assumes "validate_proofs v st rq = Inr ps" and "st \<or> rq"
  shows "wf_proofs ps"
proof -
  obtain l n where loop: "validate_proofs_loop l [] = Inr n" and
    out: "ps = (if st then sort_key proof_sort_key n else n)" and
    req: "rq \<longrightarrow> n = sort_key proof_sort_key n"
    using assms(1) unfolding validate_proofs_def
    by (auto simp: res_simps Let_def split: if_splits)
  have "sorted (map proof_sort_key ps)"
    using out req assms(2) by (metis sorted_sort_key)
  then show ?thesis
    using validate_proofs_loop_Inr [OF loop] out by (auto simp: wf_proofs_def)
qed

lemma validate_proofs_py:
  assumes "wf_proofs ps"
  shows "validate_proofs (PList (map proof_py ps)) st rq = Inr ps"
proof -
  have "sort_key proof_sort_key ps = ps"
    using assms by (simp add: wf_proofs_def sort_key_fixed)
  moreover have "validate_proofs_loop (map proof_py ps) [] = Inr ps"
    using assms by (intro validate_proofs_loop_py) (auto simp: wf_proofs_def)
  ultimately show ?thesis by (simp add: validate_proofs_def)
qed

subsection \<open>Round trips and separation of the two shapes\<close>

lemma proof_py_inject: "proof_py p = proof_py q \<longleftrightarrow> p = q"
  by (cases p; cases q) (auto simp: proof_py_def split: option.splits)

lemma multisig_envelope_py_inject: "multisig_envelope_py e = multisig_envelope_py f \<longleftrightarrow> e = f"
proof -
  have "inj proof_py" by (simp add: inj_def proof_py_inject)
  then have "map proof_py s = map proof_py t \<longleftrightarrow> s = t" for s t by (rule inj_map_eq_map)
  then show ?thesis by (cases e; cases f) (auto simp: multisig_envelope_py_def)
qed

lemma shapes_differ:
  "signed_update_py u \<noteq> multisig_envelope_py e"
  "signed_update_py u \<noteq> legacy_envelope_py b s"
  "multisig_envelope_py e \<noteq> legacy_envelope_py b s"
  by (auto simp: signed_update_py_def multisig_envelope_py_def legacy_envelope_py_def)

lemma decode_encoded_multisig_envelope:
  assumes "decode_multisignature_signed_update X upd = Inr ua" and "wf_proofs ps"
    and rt: "cbor_roundtrips X
      (multisig_envelope_py \<lparr>env_version = 1, env_update = upd, env_proofs = ps\<rparr>) b"
  shows "decode_multisignature_envelope X b =
    Inr \<lparr>env_version = 1, env_update = upd, env_proofs = ps\<rparr>"
  using canonical_roundtrip [OF rt] rt assms(1) validate_proofs_py [OF assms(2)]
  by (simp add: decode_multisignature_envelope_def cbor_roundtrips_def multisig_envelope_py_def
      keys_are_def dsub_def multisig_envelope_version_def)

lemma decode_encoded_legacy_envelope:
  assumes "\<not> carries_authorization X upd" and rt: "cbor_roundtrips X (legacy_envelope_py upd sg) b"
  shows "decode_signed_envelope X b = Inr (upd, sg)"
  using canonical_roundtrip [OF rt] rt assms(1)
  by (simp add: decode_signed_envelope_def cbor_roundtrips_def legacy_envelope_py_def
      keys_are_def dsub_def)

lemma decode_multisig_envelope_Inr:
  assumes "decode_multisignature_envelope X b = Inr e"
  obtains d u a where "cbor_loads X b = Inr (PDict d)" "keys_are d [1, 2, 3]"
    "is_canonical_cbor X b" "env_version e = 1"
    "decode_multisignature_signed_update X (env_update e) = Inr (u, a)" "wf_proofs (env_proofs e)"
proof -
  obtain d v where "cbor_loads X b = Inr (PDict d)" "keys_are d [1, 2, 3]"
    "is_canonical_cbor X b" "dget d 1 = Some v"
    using assms by (auto simp: decode_multisignature_envelope_def res_simps)
  with assms show thesis
    by (cases v)
      (auto simp: decode_multisignature_envelope_def res_simps dsub_ok multisig_envelope_version_def
        intro!: that dest: validate_proofs_Inr)
qed

lemma decode_legacy_envelope_Inr:
  assumes "decode_signed_envelope X b = Inr (upd, sg)"
  obtains d where "cbor_loads X b = Inr (PDict d)" "keys_are d [1, 2]" "is_canonical_cbor X b"
    "dget d 1 = Some (PBytes upd)" "dget d 2 = Some (PBytes sg)" "\<not> carries_authorization X upd"
  using assms by (auto simp: decode_signed_envelope_def res_simps)

lemma envelope_keys_exclusive: "keys_are d [1, 2, 3] \<Longrightarrow> \<not> keys_are d [1, 2]"
  using keys_are_get [of d "[1, 2, 3]" 3] keys_are_not_get [of d "[1, 2]" 3] by auto

lemma envelope_shapes_exclusive:
  "decode_multisignature_envelope X b = Inr e \<Longrightarrow> decode_signed_envelope X b \<noteq> Inr p"
  by (cases p) (auto elim!: decode_multisig_envelope_Inr decode_legacy_envelope_Inr
      dest: envelope_keys_exclusive)

text \<open>An update with an authorization map is one the legacy decoder refuses to hold.\<close>

lemma multisig_carries_authorization:
  assumes "decode_multisignature_signed_update X upd = Inr (u, a)"
  shows "carries_authorization X upd"
proof -
  have d: "decode_canonical_signed_update X upd = Inr u" and a: "su_auth u = Some a"
    using assms by (auto simp: decode_multisignature_signed_update_def res_simps split: option.splits)
  from d obtain m where m: "cbor_loads X upd = Inr (PDict m)"
    "validate_decoded_signed_update X m = Inr u"
    by (auto simp: decode_canonical_signed_update_def res_simps)
  show ?thesis
  proof (cases "dget m 4")
    case None
    with m(2) have "su_auth u = None"
      by (auto simp: validate_decoded_signed_update_def res_simps)
    with a show ?thesis by simp
  next
    case (Some v)
    with m(1) show ?thesis by (simp add: carries_authorization_def has_key_iff)
  qed
qed

end
