(* ===== verification/Wire_Codecs.thy ===== *)
theory Wire_Codecs
  imports Signed_Envelope
begin

text \<open>
  The interface the wire formats share: well-formed contents, the value that is written for
  them, and a decoder of canonical bytes. Its two laws give that bytes and digests determine
  contents; the interpretations show that updates, multisignature envelopes and legacy envelopes
  satisfy them.
\<close>

locale wire_codec =
  fixes X :: ext and wf :: "'a \<Rightarrow> bool" and to_py :: "'a \<Rightarrow> pyval" and decode :: "bytes \<Rightarrow> 'a res"
  assumes decode_encoded: "wf x \<Longrightarrow> cbor_roundtrips X (to_py x) b \<Longrightarrow> decode b = Inr x"
    and decoded_wf: "decode b = Inr x \<Longrightarrow> wf x"
begin

lemma bytes_determine:
  assumes "wf x" "wf y" "cbor_roundtrips X (to_py x) b" "cbor_roundtrips X (to_py y) b"
  shows "x = y"
  using decode_encoded [OF assms(1,3)] decode_encoded [OF assms(2,4)] by simp

lemma digest_determines:
  assumes "wf x" "wf y" "cbor_roundtrips X (to_py x) b" "cbor_roundtrips X (to_py y) c"
    and "sha256_injective_on X {b, c}" "sha256 X b = sha256 X c"
  shows "x = y"
proof -
  have "b = c" using assms(5,6) unfolding sha256_injective_on_def by blast
  then show ?thesis using bytes_determine [OF assms(1,2,3)] assms(4) by blast
qed

text \<open>Decoding what was re-encoded from decoded contents changes nothing.\<close>

lemma decode_reencoded:
  assumes "decode b = Inr x" and "cbor_roundtrips X (to_py x) c"
  shows "decode c = decode b"
  using decode_encoded [OF decoded_wf [OF assms(1)] assms(2)] assms(1) by simp

end

interpretation update_codec:
  wire_codec X "wf_update X" signed_update_py "decode_canonical_signed_update X" for X
proof unfold_locales
  show "wf_update X u \<Longrightarrow> cbor_roundtrips X (signed_update_py u) b \<Longrightarrow>
      decode_canonical_signed_update X b = Inr u" for u b
    by (rule decode_encoded_update)
  show "decode_canonical_signed_update X b = Inr u \<Longrightarrow> wf_update X u" for u b
    by (rule decode_signed_update_wf)
qed

definition wf_envelope :: "ext \<Rightarrow> multisignature_envelope \<Rightarrow> bool" where
  "wf_envelope X e =
     (env_version e = 1 \<and> wf_proofs (env_proofs e) \<and>
      is_ok (decode_multisignature_signed_update X (env_update e)))"

interpretation envelope_codec:
  wire_codec X "wf_envelope X" multisig_envelope_py "decode_multisignature_envelope X" for X
proof unfold_locales
  show "decode_multisignature_envelope X b = Inr e"
    if wf: "wf_envelope X e" and rt: "cbor_roundtrips X (multisig_envelope_py e) b" for e b
  proof -
    obtain ua where "decode_multisignature_signed_update X (env_update e) = Inr ua"
      using wf unfolding wf_envelope_def is_ok_iff by blast
    moreover have "e = \<lparr>env_version = 1, env_update = env_update e, env_proofs = env_proofs e\<rparr>"
      using wf by (simp add: wf_envelope_def)
    ultimately show ?thesis
      using decode_encoded_multisig_envelope [of X "env_update e" ua "env_proofs e" b] wf rt
      by (simp add: wf_envelope_def)
  qed
  show "wf_envelope X e" if "decode_multisignature_envelope X b = Inr e" for e b
    by (rule decode_multisig_envelope_Inr [OF that]) (simp add: wf_envelope_def)
qed

end
