(* ===== verification/Verification.thy ===== *)
theory Verification
  imports Signed_Envelope
begin

text \<open>
  \<open>verification.py\<close>: signature checks, the legacy (single-key) update validators with their
  per-key sequence state, and the state machine of multisignature records: genesis, ordinary
  update, signer replacement, upgrade from a legacy record, owner-key rotation, and the replay
  of a whole Identity history. The validators are the definitions of this theory, in the
  source's order; \<open>Transitions\<close> proves what they guarantee.
\<close>

subsection \<open>State\<close>

record seq_state_entry =
  ss_owner :: bytes
  ss_seq :: int

type_synonym seq_state = "bytes \<rightharpoonup> seq_state_entry"

record multisig_state =
  ms_record_key :: bytes
  ms_record_kind :: int
  ms_owner :: bytes
  ms_update :: bytes
  ms_state_hash :: bytes
  ms_epoch :: int
  ms_seq :: int
  ms_threshold :: int
  ms_signers :: signers
  ms_history :: "bytes list option"

text \<open>The tuple \<open>_decode_multisignature_candidate\<close> returns.\<close>

record candidate =
  c_bytes :: bytes
  c_envelope :: multisignature_envelope
  c_update :: signed_update
  c_key :: bytes
  c_auth :: auth_map

abbreviation c_fields :: "candidate \<Rightarrow> pydict" where "c_fields c \<equiv> su_fields (c_update c)"
abbreviation c_payload :: "candidate \<Rightarrow> pydict" where "c_payload c \<equiv> su_payload (c_update c)"
abbreviation c_seq :: "candidate \<Rightarrow> int" where "c_seq c \<equiv> su_seq (c_update c)"
abbreviation c_proofs :: "candidate \<Rightarrow> proof_entry list" where "c_proofs c \<equiv> env_proofs (c_envelope c)"

subsection \<open>Signatures and keys\<close>

definition multisignature_state_hash :: "ext \<Rightarrow> bytes \<Rightarrow> bytes res" where
  "multisignature_state_hash X b =
     bindE (decode_multisignature_signed_update X b) (\<lambda>_. Inr (sha256 X b))"

definition verify_ed25519_signature :: "ext \<Rightarrow> bytes \<Rightarrow> bytes \<Rightarrow> bytes \<Rightarrow> bool res" where
  "verify_ed25519_signature X owner_public_key signed_update_bytes signature =
     ed_verify X owner_public_key (sha256 X signed_update_bytes) signature"

definition make_signed_update_signature :: "ext \<Rightarrow> bytes \<Rightarrow> bytes \<Rightarrow> bytes" where
  "make_signed_update_signature X signed_update_bytes owner_private_key =
     ed_sign X owner_private_key (sha256 X signed_update_bytes)"

definition extract_identity_and_keys :: "ext \<Rightarrow> pydict \<Rightarrow> (bytes \<times> bytes) res" where
  "extract_identity_and_keys X record_fields =
     (case (dget record_fields 1, dget record_fields 2) of
        (Some (PBytes owner_name), Some (PBytes owner_pk)) \<Rightarrow> Inr (sha256 X owner_name, owner_pk)
      | _ \<Rightarrow> Inl (Value_error ''not an identity record''))"

definition extract_provider_and_keys :: "ext \<Rightarrow> pydict \<Rightarrow> pydict \<Rightarrow> (bytes \<times> bytes) res" where
  "extract_provider_and_keys X record_fields payload =
     (case dget record_fields 1 of
        Some (PBytes owner_pk) \<Rightarrow>
          bindE (wrapE (decode_provider_payload_dict X payload)
                  (Value_error ''invalid provider payload'')) (\<lambda>p.
          if length (payload_object_hash p) \<noteq> 64
          then Inl (Value_error ''object_hash must be 64 hex chars'')
          else bindE (wrapE (fromhex (payload_object_hash p))
                  (Value_error ''object_hash must be valid hex''))
                (\<lambda>derived_record_key. Inr (derived_record_key, owner_pk)))
      | _ \<Rightarrow> Inl (Value_error ''not a provider record''))"

definition decode_multisignature_candidate :: "ext \<Rightarrow> bytes \<Rightarrow> candidate res" where
  "decode_multisignature_candidate X envelope_cbor =
     bindE (decode_multisignature_envelope X envelope_cbor) (\<lambda>envelope.
     bindE (decode_multisignature_signed_update X (env_update envelope)) (\<lambda>(u, a).
     bindE
       (if record_kind a = record_kind_identity then extract_identity_and_keys X (su_fields u)
        else if record_kind a = record_kind_provider
        then extract_provider_and_keys X (su_fields u) (su_payload u)
        else Inl (Value_error ''unsupported record kind''))
       (\<lambda>(derived_record_key, _).
     Inr \<lparr>c_bytes = env_update envelope, c_envelope = envelope, c_update = u,
          c_key = derived_record_key, c_auth = a\<rparr>)))"

subsection \<open>Legacy updates\<close>

definition decode_signed_update_strict :: "ext \<Rightarrow> bytes \<Rightarrow> signed_update res" where
  "decode_signed_update_strict X b =
     bindE (decode_canonical_signed_update X b) (\<lambda>u.
     if su_auth u \<noteq> None then Inl (Value_error ''SignedUpdate must have keys {1,2,3}'')
     else if su_seq u < 0 then Inl (Value_error ''SignedUpdate seq must be a non-negative int'')
     else Inr u)"

definition enforce_seq_and_owner_binding ::
  "bytes \<Rightarrow> int \<Rightarrow> bytes \<Rightarrow> seq_state \<Rightarrow> bool \<Rightarrow> seq_state res" where
  "enforce_seq_and_owner_binding record_key seq owner_public_key st update_state_on_success =
     (case st record_key of
        None \<Rightarrow>
          Inr (if update_state_on_success
               then st(record_key \<mapsto> \<lparr>ss_owner = owner_public_key, ss_seq = seq\<rparr>) else st)
      | Some prev \<Rightarrow>
          if seq \<le> ss_seq prev then Inl (Value_error ''seq must be strictly increasing'')
          else if owner_public_key \<noteq> ss_owner prev then Inl (Value_error ''owner collision'')
          else Inr (if update_state_on_success
               then st(record_key \<mapsto> \<lparr>ss_owner = ss_owner prev, ss_seq = seq\<rparr>) else st))"

definition validate_provider_update ::
  "ext \<Rightarrow> bytes \<Rightarrow> bytes \<Rightarrow> bytes \<Rightarrow> seq_state \<Rightarrow> bool \<Rightarrow> (signed_update \<times> seq_state) res" where
  "validate_provider_update X record_key upd signature st update_state =
     bindE (decode_signed_update_strict X upd) (\<lambda>u.
     bindE (extract_provider_and_keys X (su_fields u) (su_payload u)) (\<lambda>(derived_key, owner_pk).
     if derived_key \<noteq> record_key then Inl (Value_error ''lookup-key mismatch'')
     else bindE (verify_ed25519_signature X owner_pk upd signature) (\<lambda>valid.
     if \<not> valid then Inl (Value_error ''wrong signature'')
     else bindE (enforce_seq_and_owner_binding record_key (su_seq u) owner_pk st update_state)
       (\<lambda>st'. Inr (u, st')))))"

definition validate_identity_update ::
  "ext \<Rightarrow> bytes \<Rightarrow> bytes \<Rightarrow> bytes \<Rightarrow> seq_state \<Rightarrow> bool \<Rightarrow> (signed_update \<times> seq_state) res" where
  "validate_identity_update X record_key upd signature st update_state =
     bindE (decode_signed_update_strict X upd) (\<lambda>u.
     bindE (extract_identity_and_keys X (su_fields u)) (\<lambda>(derived_key, owner_pk).
     if derived_key \<noteq> record_key then Inl (Value_error ''lookup-key mismatch'')
     else bindE (verify_ed25519_signature X owner_pk upd signature) (\<lambda>valid.
     if \<not> valid then Inl (Value_error ''wrong signature'')
     else bindE (enforce_seq_and_owner_binding record_key (su_seq u) owner_pk st update_state)
       (\<lambda>st'. Inr (u, st')))))"

text \<open>Identity extraction decides the dispatch; errors after it are not masked.\<close>

definition validate_signed_update_overwrite ::
  "ext \<Rightarrow> bytes \<Rightarrow> bytes \<Rightarrow> bytes \<Rightarrow> seq_state \<Rightarrow> bool \<Rightarrow> (signed_update \<times> seq_state) res" where
  "validate_signed_update_overwrite X record_key upd signature st update_state =
     bindE (decode_signed_update_strict X upd) (\<lambda>u.
     if is_ok (extract_identity_and_keys X (su_fields u))
     then validate_identity_update X record_key upd signature st update_state
     else validate_provider_update X record_key upd signature st update_state)"

subsection \<open>Multisignature states\<close>

definition candidate_state ::
  "ext \<Rightarrow> bytes \<Rightarrow> candidate \<Rightarrow> bytes list option \<Rightarrow> multisig_state res" where
  "candidate_state X record_key c history =
     (let kind = record_kind (c_auth c) in
      bindE (dsub (c_fields c) (if kind = record_kind_identity then 2 else 1)) (\<lambda>owner_raw.
      bindE (py_bytes owner_raw) (\<lambda>owner.
      Inr \<lparr>ms_record_key = record_key, ms_record_kind = kind, ms_owner = owner,
           ms_update = c_bytes c, ms_state_hash = sha256 X (c_bytes c),
           ms_epoch = epoch (c_auth c), ms_seq = c_seq c, ms_threshold = threshold (c_auth c),
           ms_signers = signer_set (c_auth c),
           ms_history = (if kind = record_kind_identity then history else None)\<rparr>)))"

definition append_history :: "multisig_state \<Rightarrow> bytes \<Rightarrow> bytes list option" where
  "append_history current envelope_cbor =
     (case ms_history current of None \<Rightarrow> None | Some h \<Rightarrow> Some (h @ [envelope_cbor]))"

definition require_complete_2_of_3 :: "auth_map \<Rightarrow> unit res" where
  "require_complete_2_of_3 a =
     (if threshold a \<noteq> 2 \<or> length (signer_set a) \<noteq> 3
      then Inl (Value_error ''complete 2-of-3 Signer Set required'') else Inr ())"

definition signer_id_for_public_key :: "auth_map \<Rightarrow> bytes \<Rightarrow> pstr res" where
  "signer_id_for_public_key a public_key =
     (case map fst (filter (\<lambda>e. snd e = public_key) (signer_set a)) of
        [signer_id] \<Rightarrow> Inr signer_id
      | _ \<Rightarrow> Inl (Value_error ''legacy owner must be present in next Signer Set''))"

text \<open>\<open>dict(signer_set)\<close>: the last entry of a key wins.\<close>

definition signer_dict :: "signers \<Rightarrow> pstr option \<Rightarrow> bytes option" where
  "signer_dict s signer_id =
     (case signer_id of None \<Rightarrow> None | Some i \<Rightarrow> map_of (rev s) i)"

fun check_proofs_loop ::
  "ext \<Rightarrow> bytes \<Rightarrow> signers \<Rightarrow> proof_entry list \<Rightarrow> pstr option list \<Rightarrow> pstr option list res" where
  "check_proofs_loop X upd signers [] seen = Inr seen"
| "check_proofs_loop X upd signers ((signer_id, signature) # proofs) seen =
     (if signer_id \<in> set seen then Inl (Value_error ''duplicate proof signer'')
      else case signer_dict signers signer_id of
        None \<Rightarrow> Inl (Value_error ''proof is not from current Signer Set'')
      | Some public_key \<Rightarrow>
          bindE (wrapE (verify_ed25519_signature X public_key upd signature)
                  (Value_error ''invalid proof signature'')) (\<lambda>valid.
          if \<not> valid then Inl (Value_error ''invalid proof signature'')
          else check_proofs_loop X upd signers proofs (signer_id # seen)))"

definition validate_threshold_proofs ::
  "ext \<Rightarrow> bytes \<Rightarrow> multisignature_envelope \<Rightarrow> signers \<Rightarrow> int \<Rightarrow> unit res" where
  "validate_threshold_proofs X upd envelope signers thr =
     (if int (length (env_proofs envelope)) < thr then Inl (Value_error ''insufficient quorum'')
      else bindE (check_proofs_loop X upd signers (env_proofs envelope) []) (\<lambda>seen.
      if int (length seen) < thr then Inl (Value_error ''insufficient quorum'') else Inr ()))"

text \<open>The Provider payload of an accepted state.\<close>

definition state_payload :: "ext \<Rightarrow> multisig_state \<Rightarrow> provider_payload res" where
  "state_payload X current =
     bindE (decode_multisignature_signed_update X (ms_update current))
       (\<lambda>(u, _). decode_provider_payload_dict X (su_payload u))"

definition validate_common_transition ::
  "ext \<Rightarrow> bytes \<Rightarrow> candidate \<Rightarrow> multisig_state \<Rightarrow> unit res" where
  "validate_common_transition X record_key c current =
     (if c_key c \<noteq> record_key \<or> ms_record_key current \<noteq> record_key
      then Inl (Value_error ''lookup-key mismatch'')
      else if record_kind (c_auth c) \<noteq> ms_record_kind current
      then Inl (Value_error ''wrong record kind'')
      else bindE (dsub (c_fields c) (if ms_record_kind current = record_kind_identity then 2 else 1))
        (\<lambda>owner_raw. bindE (py_bytes owner_raw) (\<lambda>owner.
      if owner \<noteq> ms_owner current then Inl (Value_error ''owner binding mismatch'')
      else if c_seq c \<le> ms_seq current then Inl (Value_error ''seq must be strictly increasing'')
      else if predecessor (c_auth c) \<noteq> ms_state_hash current
      then Inl (Value_error ''predecessor state mismatch'')
      else if ms_record_kind current = record_kind_provider then
        bindE (state_payload X current) (\<lambda>current_payload.
        bindE (decode_provider_payload_dict X (c_payload c)) (\<lambda>candidate_payload.
        if is_withdrawn current_payload \<and> is_withdrawn candidate_payload
        then Inl Provider_already_withdrawn else Inr ()))
      else Inr ())))"

subsection \<open>Transitions\<close>

definition validate_multisignature_genesis :: "ext \<Rightarrow> bytes \<Rightarrow> bytes \<Rightarrow> multisig_state res" where
  "validate_multisignature_genesis X record_key envelope_cbor =
     bindE (decode_multisignature_candidate X envelope_cbor) (\<lambda>c.
     if operation (c_auth c) \<noteq> operation_genesis then Inl (Value_error ''expected genesis operation'')
     else if epoch (c_auth c) \<noteq> 1 then Inl (Value_error ''genesis epoch must be 1'')
     else if predecessor (c_auth c) \<noteq> zero_bytes 32
     then Inl (Value_error ''genesis predecessor must be zero'')
     else if c_key c \<noteq> record_key then Inl (Value_error ''lookup-key mismatch'')
     else bindE (require_complete_2_of_3 (c_auth c)) (\<lambda>_.
     bindE (validate_threshold_proofs X (c_bytes c) (c_envelope c) (signer_set (c_auth c))
              (threshold (c_auth c))) (\<lambda>_.
     candidate_state X record_key c (Some [envelope_cbor]))))"

text \<open>One proof by the legacy owner, under the identifier the new Signer Set gives that key.\<close>

definition check_legacy_owner_proof :: "ext \<Rightarrow> candidate \<Rightarrow> bytes \<Rightarrow> unit res" where
  "check_legacy_owner_proof X c owner_public_key =
     (case c_proofs c of
        [p] \<Rightarrow>
          bindE (signer_id_for_public_key (c_auth c) owner_public_key) (\<lambda>expected_signer_id.
          if fst p \<noteq> Some expected_signer_id
          then Inl (Value_error ''legacy owner proof signer_id mismatch'')
          else bindE (wrapE (verify_ed25519_signature X owner_public_key (c_bytes c) (snd p))
                  (Value_error ''invalid legacy owner proof'')) (\<lambda>valid.
          if \<not> valid then Inl (Value_error ''invalid legacy owner proof'') else Inr ()))
      | _ \<Rightarrow> Inl (Value_error ''upgrade requires one legacy owner proof''))"

definition validate_multisignature_envelope :: "ext \<Rightarrow> bytes \<Rightarrow> bytes \<Rightarrow> multisig_state res" where
  "validate_multisignature_envelope X record_key envelope_cbor =
     bindE (decode_multisignature_candidate X envelope_cbor) (\<lambda>c.
     let a = c_auth c; oper = operation a in
     if c_key c \<noteq> record_key then Inl (Value_error ''lookup-key mismatch'')
     else if oper = operation_genesis then validate_multisignature_genesis X record_key envelope_cbor
     else if record_kind a = record_kind_identity \<and>
             oper \<in> {operation_ordinary_update, operation_replace_signers, operation_upgrade}
     then Inl (Value_error ''complete predecessor history is required for Identity state'')
     else if oper = operation_upgrade then
       (if epoch a \<noteq> 1 then Inl (Value_error ''upgrade epoch must be 1'')
        else bindE (require_complete_2_of_3 a) (\<lambda>_.
        if length (c_proofs c) \<noteq> 1
        then Inl (Value_error ''upgrade requires one legacy owner proof'')
        else bindE (dsub (c_fields c) (if record_kind a = record_kind_identity then 2 else 1)) (\<lambda>raw.
        bindE (py_bytes raw) (\<lambda>owner_public_key.
        bindE (check_legacy_owner_proof X c owner_public_key) (\<lambda>_.
        candidate_state X record_key c None)))))
     else if oper = operation_owner_key_rotation
     then Inl (Value_error ''complete predecessor history is required for owner rotation'')
     else if oper \<notin> {operation_ordinary_update, operation_replace_signers}
     then Inl (Value_error ''unsupported multisignature operation'')
     else bindE (validate_threshold_proofs X (c_bytes c) (c_envelope c) (signer_set a) (threshold a))
       (\<lambda>_. candidate_state X record_key c None))"

definition validate_multisignature_ordinary_update ::
  "ext \<Rightarrow> bytes \<Rightarrow> bytes \<Rightarrow> multisig_state \<Rightarrow> multisig_state res" where
  "validate_multisignature_ordinary_update X record_key envelope_cbor current =
     bindE (decode_multisignature_candidate X envelope_cbor) (\<lambda>c.
     if operation (c_auth c) \<noteq> operation_ordinary_update
     then Inl (Value_error ''expected ordinary update operation'')
     else bindE (validate_common_transition X record_key c current) (\<lambda>_.
     bindE
       (if ms_record_kind current = record_kind_provider then
          bindE (decode_multisignature_signed_update X (ms_update current)) (\<lambda>(cu, _).
          bindE (decode_provider_payload_dict X (c_payload c)) (\<lambda>candidate_payload.
          bindE (decode_provider_payload_dict X (su_payload cu)) (\<lambda>current_payload.
          if is_withdrawn current_payload then Inl Provider_already_withdrawn
          else if is_withdrawn candidate_payload
          then validate_threshold_proofs X (c_bytes c) (c_envelope c) (ms_signers current)
                 (ms_threshold current)
          else Inr ())))
        else Inr ()) (\<lambda>_.
     if epoch (c_auth c) \<noteq> ms_epoch current
     then Inl (Value_error ''epoch does not match current state'')
     else if threshold (c_auth c) \<noteq> ms_threshold current
     then Inl (Value_error ''signer set threshold changed during ordinary update'')
     else if signer_set (c_auth c) \<noteq> ms_signers current
     then Inl (Value_error ''signer set must remain unchanged'')
     else bindE (validate_threshold_proofs X (c_bytes c) (c_envelope c) (ms_signers current)
                   (ms_threshold current)) (\<lambda>_.
     candidate_state X record_key c (append_history current envelope_cbor)))))"

definition validate_multisignature_signer_replacement ::
  "ext \<Rightarrow> bytes \<Rightarrow> bytes \<Rightarrow> multisig_state \<Rightarrow> multisig_state res" where
  "validate_multisignature_signer_replacement X record_key envelope_cbor current =
     bindE (decode_multisignature_candidate X envelope_cbor) (\<lambda>c.
     if operation (c_auth c) \<noteq> operation_replace_signers
     then Inl (Value_error ''expected signer replacement operation'')
     else bindE (validate_common_transition X record_key c current) (\<lambda>_.
     if epoch (c_auth c) \<le> ms_epoch current
     then Inl (Value_error ''replacement epoch must increase'')
     else bindE (require_complete_2_of_3 (c_auth c)) (\<lambda>_.
     if signer_set (c_auth c) = ms_signers current
     then Inl (Value_error ''signer replacement must install a new signer set'')
     else bindE (validate_threshold_proofs X (c_bytes c) (c_envelope c) (ms_signers current)
                   (ms_threshold current)) (\<lambda>_.
     candidate_state X record_key c (append_history current envelope_cbor)))))"

subsection \<open>Legacy predecessors\<close>

record legacy_state =
  lg_update :: bytes
  lg_fields :: pydict
  lg_payload :: pydict
  lg_seq :: int
  lg_kind :: int
  lg_owner :: bytes

definition decode_legacy_state :: "ext \<Rightarrow> bytes \<Rightarrow> bytes \<Rightarrow> legacy_state res" where
  "decode_legacy_state X record_key envelope_cbor =
     bindE (decode_signed_envelope X envelope_cbor) (\<lambda>(upd, signature).
     bindE (decode_canonical_signed_update X upd) (\<lambda>u.
     if su_auth u \<noteq> None
     then Inl (Value_error ''legacy owner state must use the legacy SignedUpdate shape'')
     else bindE
       (catchE
         (bindE (extract_identity_and_keys X (su_fields u))
            (\<lambda>(k, pk). Inr (k, pk, record_kind_identity)))
         (\<lambda>e. if is_value_error e
              then bindE (extract_provider_and_keys X (su_fields u) (su_payload u))
                     (\<lambda>(k, pk). Inr (k, pk, record_kind_provider))
              else Inl e)) (\<lambda>(key_from_update, owner_public_key, kind).
     if key_from_update \<noteq> record_key then Inl (Value_error ''legacy lookup-key mismatch'')
     else bindE (wrapE (verify_ed25519_signature X owner_public_key upd signature)
             (Value_error ''invalid legacy owner signature'')) (\<lambda>valid.
     if \<not> valid then Inl (Value_error ''invalid legacy owner signature'')
     else Inr \<lparr>lg_update = upd, lg_fields = su_fields u, lg_payload = su_payload u,
              lg_seq = su_seq u, lg_kind = kind, lg_owner = owner_public_key\<rparr>))))"

definition validate_multisignature_upgrade ::
  "ext \<Rightarrow> bytes \<Rightarrow> bytes \<Rightarrow> bytes \<Rightarrow> multisig_state res" where
  "validate_multisignature_upgrade X record_key envelope_cbor legacy_envelope_cbor =
     bindE (decode_multisignature_candidate X envelope_cbor) (\<lambda>c.
     if operation (c_auth c) \<noteq> operation_upgrade then Inl (Value_error ''expected upgrade operation'')
     else bindE (decode_legacy_state X record_key legacy_envelope_cbor) (\<lambda>lg.
     if c_key c \<noteq> record_key then Inl (Value_error ''lookup-key mismatch'')
     else if record_kind (c_auth c) \<noteq> lg_kind lg then Inl (Value_error ''wrong record kind'')
     else if c_seq c \<le> lg_seq lg then Inl (Value_error ''seq must be strictly increasing'')
     else if epoch (c_auth c) \<noteq> 1 then Inl (Value_error ''upgrade epoch must be 1'')
     else if predecessor (c_auth c) \<noteq> sha256 X (lg_update lg)
     then Inl (Value_error ''predecessor state mismatch'')
     else bindE (require_complete_2_of_3 (c_auth c)) (\<lambda>_.
     let owner_field = (if lg_kind lg = record_kind_identity then 2 else 1) in
     if dget (c_fields c) owner_field \<noteq> dget (lg_fields lg) owner_field
     then Inl (Value_error ''legacy owner binding changed during upgrade'')
     else bindE (check_legacy_owner_proof X c (lg_owner lg)) (\<lambda>_.
     candidate_state X record_key c (Some [legacy_envelope_cbor, envelope_cbor])))))"

subsection \<open>Owner-key rotation\<close>

definition validate_owner_rotation_invariants ::
  "bytes \<Rightarrow> candidate \<Rightarrow> pydict \<Rightarrow> bytes \<Rightarrow> int \<Rightarrow> bytes \<Rightarrow> unit res" where
  "validate_owner_rotation_invariants record_key c pred_fields pred_key pred_seq pred_hash =
     (if operation (c_auth c) \<noteq> operation_owner_key_rotation
      then Inl (Value_error ''expected owner-key-rotation operation'')
      else if record_kind (c_auth c) \<noteq> record_kind_identity
      then Inl (Value_error ''owner-key rotation requires an Identity Record'')
      else bindE (dsub (c_fields c) 1) (\<lambda>cn. bindE (py_bytes cn) (\<lambda>cname.
      bindE (dsub pred_fields 1) (\<lambda>pn. bindE (py_bytes pn) (\<lambda>pname.
      if cname \<noteq> pname then Inl (Value_error ''owner_name bytes mismatch'')
      else bindE (dsub (c_fields c) 2) (\<lambda>ck. bindE (py_bytes ck) (\<lambda>ckey.
      bindE (dsub pred_fields 2) (\<lambda>pk. bindE (py_bytes pk) (\<lambda>pkey.
      if ckey = pkey then Inl (Value_error ''Owner Public Key must change during rotation'')
      else if c_key c \<noteq> record_key \<or> pred_key \<noteq> record_key
      then Inl (Value_error ''lookup-key mismatch'')
      else if c_seq c \<noteq> pred_seq + 1
      then Inl (Value_error ''rotation seq must be exactly predecessor seq plus one'')
      else if predecessor (c_auth c) \<noteq> pred_hash
      then Inl (Value_error ''predecessor state mismatch'')
      else Inr ())))))))))"

definition validate_owner_rotation_from_legacy ::
  "ext \<Rightarrow> bytes \<Rightarrow> bytes \<Rightarrow> bytes \<Rightarrow> multisig_state res" where
  "validate_owner_rotation_from_legacy X record_key envelope_cbor legacy_envelope_cbor =
     bindE (decode_multisignature_candidate X envelope_cbor) (\<lambda>c.
     bindE (decode_legacy_state X record_key legacy_envelope_cbor) (\<lambda>lg.
     if lg_kind lg \<noteq> record_kind_identity
     then Inl (Value_error ''owner-key rotation requires a legacy Identity predecessor'')
     else if \<not> keys_are (lg_fields lg) [1, 2] \<or> lg_payload lg \<noteq> []
     then Inl (Value_error ''legacy predecessor is not an Identity Record'')
     else bindE (validate_owner_rotation_invariants record_key c (lg_fields lg) record_key
                   (lg_seq lg) (sha256 X (lg_update lg))) (\<lambda>_.
     if epoch (c_auth c) \<noteq> 1 then Inl (Value_error ''legacy owner rotation epoch must be 1'')
     else bindE (require_complete_2_of_3 (c_auth c)) (\<lambda>_.
     bindE (dsub (c_fields c) 2) (\<lambda>raw. bindE (py_bytes raw) (\<lambda>candidate_owner.
     if candidate_owner \<notin> set (map snd (signer_set (c_auth c)))
     then Inl (Value_error ''successor Owner Public Key must be in successor Signer Set'')
     else case c_proofs c of
       [p] \<Rightarrow>
         if fst p \<noteq> None
         then Inl (Value_error ''legacy owner rotation proof signer_id must be null'')
         else bindE (wrapE (verify_ed25519_signature X (lg_owner lg) (c_bytes c) (snd p))
                 (Value_error ''invalid legacy owner rotation proof'')) (\<lambda>valid.
           if \<not> valid then Inl (Value_error ''invalid legacy owner rotation proof'')
           else candidate_state X record_key c (Some [legacy_envelope_cbor, envelope_cbor]))
     | _ \<Rightarrow> Inl (Value_error ''legacy owner rotation requires exactly one proof'')))))))"

text \<open>
  \<open>_validate_owner_rotation_from_state\<close> in three parts: the demand for a history that begins
  with a legacy envelope, the optional replay of that history, and the transition itself.
\<close>

definition rotation_requires_legacy_anchor :: "ext \<Rightarrow> multisig_state \<Rightarrow> bytes list res" where
  "rotation_requires_legacy_anchor X current =
     (if ms_record_kind current \<noteq> record_kind_identity
      then Inl (Value_error ''owner-key rotation requires an Identity Record predecessor'')
      else case ms_history current of
        None \<Rightarrow> Inl (Value_error ''complete predecessor history is required for owner rotation'')
      | Some [] \<Rightarrow> Inr []
      | Some (first # rest) \<Rightarrow>
          if is_ok (decode_multisignature_envelope X first)
          then Inl (Value_error ''predecessor history must include a signed legacy anchor'')
          else Inr (first # rest))"

definition rotation_transition ::
  "ext \<Rightarrow> bytes \<Rightarrow> bytes \<Rightarrow> multisig_state \<Rightarrow> bytes list \<Rightarrow> multisig_state res" where
  "rotation_transition X record_key envelope_cbor current history =
     bindE (decode_multisignature_candidate X envelope_cbor) (\<lambda>c.
     bindE (decode_multisignature_signed_update X (ms_update current)) (\<lambda>(pred, _).
     bindE (validate_owner_rotation_invariants record_key c (su_fields pred) (ms_record_key current)
              (ms_seq current) (ms_state_hash current)) (\<lambda>_.
     if epoch (c_auth c) \<noteq> ms_epoch current
     then Inl (Value_error ''rotation epoch must preserve the predecessor epoch'')
     else if threshold (c_auth c) \<noteq> ms_threshold current
     then Inl (Value_error ''rotation threshold must preserve the predecessor threshold'')
     else if signer_set (c_auth c) \<noteq> ms_signers current
     then Inl (Value_error ''rotation must preserve the predecessor Signer Set'')
     else bindE (validate_threshold_proofs X (c_bytes c) (c_envelope c) (ms_signers current)
                   (ms_threshold current)) (\<lambda>_.
     candidate_state X record_key c (Some (history @ [envelope_cbor]))))))"

definition owner_rotation_unverified ::
  "ext \<Rightarrow> bytes \<Rightarrow> bytes \<Rightarrow> multisig_state \<Rightarrow> multisig_state res" where
  "owner_rotation_unverified X record_key envelope_cbor current =
     bindE (rotation_requires_legacy_anchor X current)
       (rotation_transition X record_key envelope_cbor current)"

subsection \<open>Dispatch and history replay\<close>

text \<open>
  \<open>validate_multisignature_update\<close> without its owner-rotation branch. The history replay calls
  the whole function, but only on the other operations; \<open>Transitions\<close> proves that the replay
  below therefore runs the whole function.
\<close>

definition validate_non_rotation_update ::
  "ext \<Rightarrow> bytes \<Rightarrow> bytes \<Rightarrow> multisig_state option \<Rightarrow> bytes option \<Rightarrow> multisig_state res" where
  "validate_non_rotation_update X record_key envelope_cbor current_state legacy_envelope_cbor =
     bindE (decode_multisignature_candidate X envelope_cbor) (\<lambda>c.
     let oper = operation (c_auth c) in
     if oper = operation_genesis then
       (if current_state \<noteq> None \<or> legacy_envelope_cbor \<noteq> None
        then Inl (Value_error ''genesis cannot extend an existing state'')
        else validate_multisignature_genesis X record_key envelope_cbor)
     else if oper = operation_upgrade then
       (case (legacy_envelope_cbor, current_state) of
          (Some legacy, None) \<Rightarrow> validate_multisignature_upgrade X record_key envelope_cbor legacy
        | _ \<Rightarrow> Inl (Value_error
            ''current multisignature state or legacy owner state is required''))
     else case current_state of
       None \<Rightarrow> Inl (Value_error ''current multisignature state is required'')
     | Some current \<Rightarrow>
         if legacy_envelope_cbor \<noteq> None
         then Inl (Value_error ''legacy state is only valid for an upgrade or owner rotation'')
         else if oper = operation_ordinary_update
         then validate_multisignature_ordinary_update X record_key envelope_cbor current
         else if oper = operation_replace_signers
         then validate_multisignature_signer_replacement X record_key envelope_cbor current
         else Inl (Value_error ''unsupported multisignature operation''))"

text \<open>The anchor of a history: a legacy envelope, or the state of a genesis.\<close>

datatype replay = Legacy_anchor bytes | Replayed multisig_state

definition replay_anchor :: "ext \<Rightarrow> bytes \<Rightarrow> bytes \<Rightarrow> replay res" where
  "replay_anchor X record_key first =
     (case decode_multisignature_envelope X first of
        Inl _ \<Rightarrow>
          bindE (decode_legacy_state X record_key first) (\<lambda>lg.
          if lg_kind lg \<noteq> record_kind_identity \<or> \<not> keys_are (lg_fields lg) [1, 2] \<or> lg_payload lg \<noteq> []
          then Inl (Value_error ''history anchor is not a valid legacy Identity Record'')
          else Inr (Legacy_anchor first))
      | Inr envelope \<Rightarrow>
          bindE (decode_multisignature_signed_update X (env_update envelope)) (\<lambda>(_, a).
          if record_kind a \<noteq> record_kind_identity
          then Inl (Value_error ''predecessor history is not an Identity Record'')
          else if operation a \<noteq> operation_genesis
          then Inl (Value_error ''predecessor history must begin at a signed anchor'')
          else bindE (validate_multisignature_genesis X record_key first) (\<lambda>s. Inr (Replayed s))))"

definition replay_step :: "ext \<Rightarrow> bytes \<Rightarrow> replay \<Rightarrow> bytes \<Rightarrow> multisig_state res" where
  "replay_step X record_key r envelope_cbor =
     bindE (decode_multisignature_candidate X envelope_cbor) (\<lambda>c.
     let oper = operation (c_auth c) in
     case r of
       Legacy_anchor legacy \<Rightarrow>
         if oper = operation_upgrade
         then validate_multisignature_upgrade X record_key envelope_cbor legacy
         else if oper = operation_owner_key_rotation
         then validate_owner_rotation_from_legacy X record_key envelope_cbor legacy
         else Inl (Value_error ''legacy anchor must be followed by upgrade or rotation'')
     | Replayed current \<Rightarrow>
         if oper = operation_owner_key_rotation
         then owner_rotation_unverified X record_key envelope_cbor current
         else validate_non_rotation_update X record_key envelope_cbor (Some current) None)"

fun replay_loop :: "ext \<Rightarrow> bytes \<Rightarrow> replay \<Rightarrow> bytes list \<Rightarrow> replay res" where
  "replay_loop X record_key r [] = Inr r"
| "replay_loop X record_key r (envelope_cbor # envelopes) =
     bindE (replay_step X record_key r envelope_cbor)
       (\<lambda>s. replay_loop X record_key (Replayed s) envelopes)"

definition validate_multisignature_history :: "ext \<Rightarrow> bytes \<Rightarrow> bytes list \<Rightarrow> multisig_state res" where
  "validate_multisignature_history X record_key envelopes =
     (case envelopes of
        [] \<Rightarrow> Inl (Value_error ''complete predecessor history is required'')
      | first # rest \<Rightarrow>
          bindE (replay_anchor X record_key first) (\<lambda>anchor.
          bindE (replay_loop X record_key anchor rest) (\<lambda>r.
          case r of
            Legacy_anchor _ \<Rightarrow>
              Inl (Value_error ''predecessor history must include a multisignature state'')
          | Replayed current \<Rightarrow>
              if ms_history current \<noteq> Some envelopes
              then Inl (Value_error ''predecessor history is incomplete or inconsistent'')
              else Inr current)))"

definition validate_owner_rotation_from_state ::
  "ext \<Rightarrow> bytes \<Rightarrow> bytes \<Rightarrow> multisig_state \<Rightarrow> bool \<Rightarrow> multisig_state res" where
  "validate_owner_rotation_from_state X record_key envelope_cbor current verify_history =
     bindE (rotation_requires_legacy_anchor X current) (\<lambda>history.
     bindE
       (if verify_history then
          bindE (validate_multisignature_history X record_key history) (\<lambda>verified.
          if ms_state_hash verified \<noteq> ms_state_hash current \<or> ms_update verified \<noteq> ms_update current
          then Inl (Value_error ''predecessor history does not match current state'')
          else Inr ())
        else Inr ()) (\<lambda>_.
     rotation_transition X record_key envelope_cbor current history))"

definition validate_multisignature_update ::
  "ext \<Rightarrow> bytes \<Rightarrow> bytes \<Rightarrow> multisig_state option \<Rightarrow> bytes option \<Rightarrow> multisig_state res" where
  "validate_multisignature_update X record_key envelope_cbor current_state legacy_envelope_cbor =
     bindE (decode_multisignature_candidate X envelope_cbor) (\<lambda>c.
     if operation (c_auth c) = operation_owner_key_rotation then
       (case current_state of
          None \<Rightarrow>
            (case legacy_envelope_cbor of
               None \<Rightarrow> Inl (Value_error ''verified predecessor state is required for owner-key rotation'')
             | Some legacy \<Rightarrow>
                 validate_owner_rotation_from_legacy X record_key envelope_cbor legacy)
        | Some current \<Rightarrow>
            if legacy_envelope_cbor \<noteq> None
            then Inl (Value_error ''legacy state cannot accompany a multisignature predecessor'')
            else validate_owner_rotation_from_state X record_key envelope_cbor current True)
     else validate_non_rotation_update X record_key envelope_cbor current_state legacy_envelope_cbor)"

end
