(* ===== verification/Samples.thy ===== *)
theory Samples
  imports Verification
begin

text \<open>
  A concrete instance of the library parameter, and small records over it, on which the
  witnesses of the development evaluate. The codec is a table (each sample value has a
  one-byte code), the digest pads its input to 32 bytes, and a signature is the public key
  followed by the digest it signs. The table satisfies the documented behaviour that the
  theorems name as hypotheses, on the samples.
\<close>

definition pad :: "nat \<Rightarrow> bytes \<Rightarrow> bytes" where
  "pad n b = take n (b @ replicate n 0)"

lemma length_pad [simp]: "length (pad n b) = n"
  by (simp add: pad_def)

definition toy_verify :: "bytes \<Rightarrow> bytes \<Rightarrow> bytes \<Rightarrow> bool res" where
  "toy_verify pk msg sg =
     (if length pk \<noteq> 32 then Inl (Library_error ''public key'') else Inr (sg = pad 64 (pk @ msg)))"

definition toy_sign :: "bytes \<Rightarrow> bytes \<Rightarrow> bytes" where
  "toy_sign sk msg = pad 64 (pad 32 sk @ msg)"

definition toy_ext :: "(bytes \<times> pyval) list \<Rightarrow> ext" where
  "toy_ext table =
     \<lparr>cbor_loads = (\<lambda>b. getE (Library_error ''CBORDecodeError'') (map_of table b)),
      cbor_dumps = (\<lambda>v. getE (Library_error ''CBOREncodeError'')
        (map_option fst (find (\<lambda>e. snd e = v) table))),
      sha256 = pad 32, ed_verify = toy_verify, ed_public = (\<lambda>sk. Inr (pad 32 sk)),
      ed_sign = toy_sign, bracketed_netloc_ok = (\<lambda>_. True)\<rparr>"

text \<open>A table without duplicates is a codec that round-trips its entries.\<close>

lemma find_snd:
  "(b, v) \<in> set table \<Longrightarrow> distinct (map snd table) \<Longrightarrow> find (\<lambda>e. snd e = v) table = Some (b, v)"
  by (induction table) (auto simp: rev_image_eqI)

lemma toy_roundtrip:
  assumes "(b, v) \<in> set table" "distinct (map fst table)" "distinct (map snd table)"
  shows "cbor_roundtrips (toy_ext table) v b"
  using assms by (simp add: cbor_roundtrips_def toy_ext_def find_snd map_of_is_SomeI)

lemma toy_codec_decodes:
  assumes "distinct (map fst table)" and "cbor_dumps (toy_ext table) v = Inr e"
  shows "cbor_loads (toy_ext table) e = Inr v"
proof -
  obtain p where "find (\<lambda>e. snd e = v) table = Some p" "e = fst p"
    using assms(2) by (auto simp: toy_ext_def getE_Inr)
  then have "(e, v) \<in> set table" by (auto simp: find_Some_iff)
  with assms(1) show ?thesis by (simp add: toy_ext_def)
qed

lemma toy_signing_sound: "signing_sound (toy_ext table)"
  by (simp add: signing_sound_def toy_ext_def toy_verify_def toy_sign_def)

lemma toy_sha256_length: "sha256_length (toy_ext table)"
  by (simp add: sha256_length_def toy_ext_def)

lemma toy_signature_length: "signature_length (toy_ext table)"
  by (simp add: signature_length_def toy_ext_def toy_sign_def)

subsection \<open>Signers and keys\<close>

definition key :: "nat \<Rightarrow> bytes" where "key n = pad 32 [b8 n]"

definition signers_abc :: signers where
  "signers_abc = [([97], key 1), ([98], key 2), ([99], key 3)]"

definition signers_abd :: signers where
  "signers_abd = [([97], key 1), ([98], key 2), ([100], key 4)]"

definition hash_of :: "nat \<Rightarrow> bytes" where "hash_of n = pad 32 [b8 n]"

definition sample_auth :: "int \<Rightarrow> int \<Rightarrow> int \<Rightarrow> signers \<Rightarrow> bytes \<Rightarrow> auth_map" where
  "sample_auth kind oper ep s pre =
     \<lparr>scheme = 1, record_kind = kind, operation = oper, epoch = ep, threshold = 2,
      signer_set = s, predecessor = pre\<rparr>"

definition sample_proof :: "nat \<Rightarrow> pstr option \<times> nat \<Rightarrow> proof_entry" where
  "sample_proof upd p = (fst p, pad 64 (key (snd p) @ hash_of upd))"

definition sample_envelope :: "nat \<Rightarrow> (pstr option \<times> nat) list \<Rightarrow> pyval" where
  "sample_envelope upd ps =
     multisig_envelope_py
       \<lparr>env_version = 1, env_update = [b8 upd], env_proofs = map (sample_proof upd) ps\<rparr>"

definition legacy_sample_envelope :: "nat \<Rightarrow> nat \<Rightarrow> pyval" where
  "legacy_sample_envelope upd k = legacy_envelope_py [b8 upd] (pad 64 (key k @ hash_of upd))"

subsection \<open>An Identity Record\<close>

definition identity_fields :: "nat \<Rightarrow> pydict" where
  "identity_fields k = [(PInt 1, PBytes [7]), (PInt 2, PBytes (key k))]"

definition identity_key :: bytes where "identity_key = pad 32 [7]"

definition identity_update :: "nat \<Rightarrow> int \<Rightarrow> auth_map option \<Rightarrow> signed_update" where
  "identity_update k seq auth =
     \<lparr>su_fields = identity_fields k, su_payload = [], su_seq = seq, su_auth = auth\<rparr>"

definition sig_a :: "pstr option \<times> nat" where "sig_a = (Some [97], 1)"
definition sig_b :: "pstr option \<times> nat" where "sig_b = (Some [98], 2)"
definition sig_c :: "pstr option \<times> nat" where "sig_c = (Some [99], 3)"
definition sig_d :: "pstr option \<times> nat" where "sig_d = (Some [100], 4)"

definition identity_table :: "(bytes \<times> pyval) list" where
  "identity_table =
     [([10], signed_update_py (identity_update 1 0 None)),
      ([11], legacy_sample_envelope 10 1),
      ([12], signed_update_py (identity_update 1 1 (Some (sample_auth 1 4 1 signers_abc (hash_of 10))))),
      ([13], sample_envelope 12 [sig_a]),
      ([14], signed_update_py (identity_update 1 2 (Some (sample_auth 1 2 1 signers_abc (hash_of 12))))),
      ([15], sample_envelope 14 [sig_a, sig_b]),
      ([16], signed_update_py (identity_update 1 3 (Some (sample_auth 1 3 2 signers_abd (hash_of 14))))),
      ([17], sample_envelope 16 [sig_a, sig_b]),
      ([18], signed_update_py (identity_update 2 4 (Some (sample_auth 1 5 2 signers_abd (hash_of 16))))),
      ([19], sample_envelope 18 [sig_b, sig_d]),
      ([20], signed_update_py (identity_update 2 1 (Some (sample_auth 1 5 1 signers_abc (hash_of 10))))),
      ([21], sample_envelope 20 [(None, 1)]),
      ([22], signed_update_py (identity_update 1 0 (Some (sample_auth 1 1 1 signers_abc (zero_bytes 32))))),
      ([23], sample_envelope 22 [sig_a, sig_b]),
      ([24], signed_update_py (identity_update 1 1 (Some (sample_auth 1 2 1 signers_abc (hash_of 22))))),
      ([25], sample_envelope 24 [sig_a, sig_b]),
      ([26], signed_update_py (identity_update 1 1 None)),
      ([27], legacy_sample_envelope 26 1),
      ([28], sample_envelope 14 [sig_b, sig_c])]"

subsection \<open>A Provider Record\<close>

definition object_hash_str :: "nat \<Rightarrow> pstr" where
  "object_hash_str n = bytes_hex (hash_of n)"

definition provider_fields :: pydict where
  "provider_fields = [(PInt 1, PBytes (key 1))]"

definition active_payload :: "nat \<Rightarrow> pydict" where
  "active_payload n =
     [(PInt 1, PStr [65]), (PInt 2, PInt 3), (PInt 3, PStr (object_hash_str 9)),
      (PInt 4, PList [PStr [97, 58, n]]), (PInt 5, PList [])]"

definition withdrawn_payload :: pydict where
  "withdrawn_payload =
     [(PInt 1, PStr [65]), (PInt 2, PInt 2), (PInt 3, PStr (object_hash_str 9)),
      (PInt 4, PStr withdrawn_str)]"

definition provider_update :: "pydict \<Rightarrow> int \<Rightarrow> auth_map option \<Rightarrow> signed_update" where
  "provider_update payload seq auth =
     \<lparr>su_fields = provider_fields, su_payload = payload, su_seq = seq, su_auth = auth\<rparr>"

definition provider_key :: bytes where "provider_key = hash_of 9"

definition provider_table :: "(bytes \<times> pyval) list" where
  "provider_table =
     [([30], signed_update_py (provider_update (active_payload 98) 0 None)),
      ([31], legacy_sample_envelope 30 1),
      ([32], signed_update_py (provider_update (active_payload 98) 1
          (Some (sample_auth 2 1 1 signers_abc (zero_bytes 32))))),
      ([33], sample_envelope 32 [sig_a, sig_b]),
      ([34], signed_update_py (provider_update withdrawn_payload 2
          (Some (sample_auth 2 2 1 signers_abc (hash_of 32))))),
      ([35], sample_envelope 34 [sig_a, sig_b]),
      ([36], signed_update_py (provider_update (active_payload 99) 2
          (Some (sample_auth 2 2 1 signers_abc (hash_of 32))))),
      ([37], sample_envelope 36 [sig_a, sig_b]),
      ([38], signed_update_py (provider_update withdrawn_payload 1 None)),
      ([39], legacy_sample_envelope 38 1),
      ([40], signed_update_py (provider_update (active_payload 98) 3
          (Some (sample_auth 2 2 1 signers_abc (hash_of 34))))),
      ([41], sample_envelope 40 [sig_a, sig_b]),
      ([44], signed_update_py (provider_update (active_payload 99) 3
          (Some (sample_auth 2 3 2 signers_abd (hash_of 34))))),
      ([45], sample_envelope 44 [sig_a, sig_b]),
      ([42], PDict (active_payload 98)),
      ([43], PDict withdrawn_payload)]"

subsection \<open>Entries of the durable store\<close>

text \<open>
  Metadata and histories of the Identity samples, and a legacy Identity Record that carries a
  payload, with an upgrade of it.
\<close>

definition store_meta :: "int \<Rightarrow> nat \<Rightarrow> pyval" where
  "store_meta seq u = PDict [(PInt 1, PInt seq), (PInt 2, PBytes (hash_of u))]"

definition store_history :: "bytes list \<Rightarrow> pyval" where
  "store_history es = PList (map PBytes es)"

definition padded_update :: signed_update where
  "padded_update = (identity_update 1 0 None)\<lparr>su_payload := [(PInt 9, PInt 9)]\<rparr>"

definition store_table :: "(bytes \<times> pyval) list" where
  "store_table =
     [([50], store_meta 0 10), ([51], store_meta 1 12), ([52], store_meta 2 14),
      ([53], store_history [[11], [13]]), ([54], store_history [[11], [13], [15]]),
      ([55], store_meta 1 20), ([56], store_history [[11], [21]]),
      ([60], signed_update_py padded_update),
      ([61], legacy_sample_envelope 60 1),
      ([62], signed_update_py (identity_update 1 1 (Some (sample_auth 1 4 1 signers_abc (hash_of 60))))),
      ([63], sample_envelope 62 [sig_a])]"

definition sample_ext :: ext where
  "sample_ext = toy_ext (identity_table @ provider_table @ store_table)"


subsection \<open>The table has no duplicates\<close>

lemma b8_eq_simps [simp]: "b8 0 = 0" "b8 1 = 1" "b8 (Suc 0) = 1" "b8 (numeral n) = numeral n"
  by (simp_all add: b8_def)

lemma sample_shape_inject [simp]:
  "(sample_envelope u ps = sample_envelope v qs) =
     ([b8 u] = [b8 v] \<and> map (sample_proof u) ps = map (sample_proof v) qs)"
  "(legacy_sample_envelope u j = legacy_sample_envelope v k) =
     ([b8 u] = [b8 v] \<and> pad 64 (key j @ hash_of u) = pad 64 (key k @ hash_of v))"
  "(signed_update_py x = signed_update_py y) = (x = y)"
  by (simp_all add: sample_envelope_def legacy_sample_envelope_def legacy_envelope_py_def
      multisig_envelope_py_inject signed_update_py_inject)

lemma sample_shapes_differ [simp]:
  "signed_update_py x \<noteq> sample_envelope u ps"
  "signed_update_py x \<noteq> legacy_sample_envelope u k"
  "sample_envelope u ps \<noteq> legacy_sample_envelope v k"
  by (simp_all add: sample_envelope_def legacy_sample_envelope_def shapes_differ)

lemmas sample_shapes_differ' [simp] = sample_shapes_differ [symmetric]

lemma sample_payload_differ [simp]:
  "PDict (active_payload n) \<noteq> signed_update_py x" "PDict withdrawn_payload \<noteq> signed_update_py x"
  "PDict (active_payload n) \<noteq> sample_envelope u ps" "PDict withdrawn_payload \<noteq> sample_envelope u ps"
  "PDict (active_payload n) \<noteq> legacy_sample_envelope u k"
  "PDict withdrawn_payload \<noteq> legacy_sample_envelope u k"
  "active_payload n \<noteq> withdrawn_payload" "identity_fields k \<noteq> provider_fields"
  by (simp_all add: active_payload_def withdrawn_payload_def signed_update_py_def
      sample_envelope_def multisig_envelope_py_def legacy_sample_envelope_def legacy_envelope_py_def
      identity_fields_def provider_fields_def)

lemmas sample_payload_differ' [simp] = sample_payload_differ [symmetric]

lemma active_payload_inject [simp]: "(active_payload m = active_payload n) = (m = n)"
  by (simp add: active_payload_def)

lemma store_entries_differ [simp]:
  "signed_update_py x \<noteq> store_meta n u" "sample_envelope u ps \<noteq> store_meta n v"
  "legacy_sample_envelope u k \<noteq> store_meta n v" "signed_update_py x \<noteq> store_history es"
  "sample_envelope u ps \<noteq> store_history es" "legacy_sample_envelope u k \<noteq> store_history es"
  "store_meta n u \<noteq> store_history es"
  "PDict (active_payload c) \<noteq> store_meta n u" "PDict withdrawn_payload \<noteq> store_meta n u"
  "PDict (active_payload c) \<noteq> store_history es" "PDict withdrawn_payload \<noteq> store_history es"
  "identity_update k n a \<noteq> padded_update" "provider_update p n a \<noteq> padded_update"
  by (simp_all add: store_meta_def store_history_def signed_update_py_def sample_envelope_def
      multisig_envelope_py_def legacy_sample_envelope_def legacy_envelope_py_def active_payload_def
      withdrawn_payload_def padded_update_def identity_update_def provider_update_def
      identity_fields_def provider_fields_def)

lemmas store_entries_differ' [simp] = store_entries_differ [symmetric]

lemma store_entries_inject [simp]:
  "(store_meta m u = store_meta n v) = (m = n \<and> b8 u = b8 v)"
  "(store_history es = store_history fs) = (es = fs)"
  by (auto simp: store_meta_def store_history_def hash_of_def pad_def inj_map_eq_map [of PBytes] inj_def)

lemma sample_table_distinct:
  "distinct (map fst (identity_table @ provider_table @ store_table))"
  "distinct (map snd (identity_table @ provider_table @ store_table))"
  by (simp_all add: identity_table_def provider_table_def store_table_def identity_update_def
      provider_update_def padded_update_def hash_of_def pad_def sample_auth_def sample_proof_def sig_a_def sig_b_def sig_c_def)

lemma sample_roundtrip:
  "(b, v) \<in> set (identity_table @ provider_table @ store_table) \<Longrightarrow> cbor_roundtrips sample_ext v b"
  unfolding sample_ext_def by (rule toy_roundtrip [OF _ sample_table_distinct])

lemma sample_codec_decodes: "cbor_decodes sample_ext b"
  using toy_codec_decodes [OF sample_table_distinct(1)]
  by (simp add: cbor_decodes_def sample_ext_def)

subsection \<open>The samples decode\<close>

lemma key_alt: "key n = b8 n # replicate 31 0"
  by (simp add: key_def pad_def eval_nat_numeral)

lemma key_inject [simp]: "key m = key n \<longleftrightarrow> b8 m = b8 n"
  by (simp add: key_alt)

lemma sample_lengths [simp]: "length (key n) = 32" "length (hash_of n) = 32"
  by (simp_all add: key_def hash_of_def)

lemma hash_of_inject [simp]: "hash_of m = hash_of n \<longleftrightarrow> b8 m = b8 n"
  using key_inject by (simp add: key_def hash_of_def)

lemma sample_signers_ok [simp]:
  "wf_signers signers_abc" "signers_sorted signers_abc" "length signers_abc = 3"
  "wf_signers signers_abd" "signers_sorted signers_abd" "length signers_abd = 3"
  by (simp_all add: signers_abc_def signers_abd_def wf_signers_def signer_ok_def signers_sorted_def
      signer_sort_key_def utf8_key_def utf8_char_def)

lemma sample_auth_ok:
  "kind \<in> {1, 2} \<Longrightarrow> oper \<in> {1, 2, 3, 4, 5} \<Longrightarrow> 0 \<le> ep \<Longrightarrow> s = signers_abc \<or> s = signers_abd \<Longrightarrow>
   length pre = 32 \<Longrightarrow> wf_auth (sample_auth kind oper ep s pre)"
  by (auto simp: wf_auth_def sample_auth_def)

lemma identity_binding_ok: "validate_record_kind_binding X (identity_fields k) [] 1 = Inr ()"
  by (simp add: validate_record_kind_binding_def wire_constants identity_fields_def keys_are_def
      dsub_def)

lemma sample_uri: "validate_provider_uri sample_ext (PStr [97, 58, 98]) = Inr [97, 58, 98]"
  "validate_provider_uri sample_ext (PStr [97, 58, 99]) = Inr [97, 58, 99]"
  by (code_simp, code_simp)

lemma object_hash_str_ok [simp]:
  "length (object_hash_str n) = 64" "list_all is_hex (object_hash_str n)"
  "fromhex_opt (object_hash_str n) = Some (hash_of n)"
  by (simp_all add: object_hash_str_def)

lemma sample_payloads_ok:
  "c = 98 \<or> c = 99 \<Longrightarrow> decode_provider_payload_dict sample_ext (active_payload c) =
     Inr (Active \<lparr>v3_alg = [65], v3_version = 3, v3_object_hash = object_hash_str 9,
                  v3_provider_urls = [[97, 58, c]], v3_endpoints = []\<rparr>)"
  "decode_provider_payload_dict sample_ext withdrawn_payload =
     Inr (Withdrawn \<lparr>v2_alg = [65], v2_version = 2, v2_object_hash = object_hash_str 9,
                     v2_status = withdrawn_str, v2_replacement = None\<rparr>)"
  by (auto simp: decode_provider_payload_dict_def active_payload_def withdrawn_payload_def
      decode_active_payload_def decode_withdrawn_payload_def keys_are_def dsub_def require_alg_def
      validate_endpoints_def require_endpoints_sorted_def normalize_sorted_provider_urls_def
      sample_uri validate_object_hash_def)

lemma provider_binding_ok:
  "p = active_payload 98 \<or> p = active_payload 99 \<or> p = withdrawn_payload \<Longrightarrow>
   validate_record_kind_binding sample_ext provider_fields p 2 = Inr ()"
  by (auto simp: validate_record_kind_binding_def wire_constants provider_fields_def keys_are_def
      dsub_def sample_payloads_ok)

lemma identity_update_ok:
  "0 \<le> seq \<Longrightarrow> (case auth of None \<Rightarrow> True | Some a \<Rightarrow> wf_auth a \<and> record_kind a = 1) \<Longrightarrow>
   wf_update X (identity_update k seq auth)"
  by (auto simp: wf_update_def identity_update_def identity_fields_def [of k] split: option.splits)
    (simp add: identity_binding_ok identity_fields_def [symmetric])

lemma provider_update_ok:
  "0 \<le> seq \<Longrightarrow> p = active_payload 98 \<or> p = active_payload 99 \<or> p = withdrawn_payload \<Longrightarrow>
   (case auth of None \<Rightarrow> True | Some a \<Rightarrow> wf_auth a \<and> record_kind a = 2) \<Longrightarrow>
   wf_update sample_ext (provider_update p seq auth)"
  using provider_binding_ok [of p]
  by (auto simp: wf_update_def provider_update_def provider_fields_def active_payload_def
      withdrawn_payload_def split: option.splits)

lemma sample_update_decodes:
  "([b], signed_update_py u) \<in> set (identity_table @ provider_table @ store_table) \<Longrightarrow> wf_update sample_ext u \<Longrightarrow>
   decode_canonical_signed_update sample_ext [b] = Inr u"
  by (rule decode_encoded_update [OF _ sample_roundtrip])

lemma sample_multisig_decodes:
  "([b], signed_update_py u) \<in> set (identity_table @ provider_table @ store_table) \<Longrightarrow> wf_update sample_ext u \<Longrightarrow>
   su_auth u = Some a \<Longrightarrow> decode_multisignature_signed_update sample_ext [b] = Inr (u, a)"
  by (simp add: decode_multisignature_signed_update_def sample_update_decodes)

lemma sample_digest [simp]: "sha256 sample_ext [b8 n] = hash_of n"
  by (simp add: sample_ext_def toy_ext_def hash_of_def)

lemma sample_digest_numeral [simp]: "sha256 sample_ext [numeral n] = hash_of (numeral n)"
  using sample_digest [of "numeral n"] by simp

definition sample_candidate ::
  "nat \<Rightarrow> signed_update \<Rightarrow> bytes \<Rightarrow> auth_map \<Rightarrow> (pstr option \<times> nat) list \<Rightarrow> candidate" where
  "sample_candidate n u k a ps =
     \<lparr>c_bytes = [b8 n],
      c_envelope = \<lparr>env_version = 1, env_update = [b8 n], env_proofs = map (sample_proof n) ps\<rparr>,
      c_update = u, c_key = k, c_auth = a\<rparr>"

lemma identity_candidate_decodes:
  assumes "([b8 n], signed_update_py (identity_update k seq (Some a)))
             \<in> set (identity_table @ provider_table @ store_table)"
    and "([e], sample_envelope n ps) \<in> set (identity_table @ provider_table @ store_table)"
    and a: "wf_auth a" "record_kind a = 1" and "0 \<le> seq" and "wf_proofs (map (sample_proof n) ps)"
  shows "decode_multisignature_candidate sample_ext [e] =
    Inr (sample_candidate n (identity_update k seq (Some a)) identity_key a ps)"
proof -
  have u: "decode_multisignature_signed_update sample_ext [b8 n] =
      Inr (identity_update k seq (Some a), a)"
    using assms by (intro sample_multisig_decodes identity_update_ok) (auto simp: identity_update_def)
  have "decode_multisignature_envelope sample_ext [e] =
      Inr \<lparr>env_version = 1, env_update = [b8 n], env_proofs = map (sample_proof n) ps\<rparr>"
    using assms sample_roundtrip [OF assms(2)]
    by (intro decode_encoded_multisig_envelope [OF u]) (simp_all add: sample_envelope_def)
  moreover have "extract_identity_and_keys sample_ext (identity_fields k) = Inr (identity_key, key k)"
    by (simp add: extract_identity_and_keys_def identity_fields_def identity_key_def sample_ext_def
        toy_ext_def)
  ultimately show ?thesis
    using u a by (simp add: decode_multisignature_candidate_def sample_candidate_def
        identity_update_def wire_constants)
qed

lemma provider_candidate_decodes:
  assumes "([b8 n], signed_update_py (provider_update p seq (Some a)))
             \<in> set (identity_table @ provider_table @ store_table)"
    and "([e], sample_envelope n ps) \<in> set (identity_table @ provider_table @ store_table)"
    and a: "wf_auth a" "record_kind a = 2" and "0 \<le> seq" and "wf_proofs (map (sample_proof n) ps)"
    and p: "p = active_payload 98 \<or> p = active_payload 99 \<or> p = withdrawn_payload"
  shows "decode_multisignature_candidate sample_ext [e] =
    Inr (sample_candidate n (provider_update p seq (Some a)) provider_key a ps)"
proof -
  have u: "decode_multisignature_signed_update sample_ext [b8 n] =
      Inr (provider_update p seq (Some a), a)"
    using assms by (intro sample_multisig_decodes provider_update_ok) (auto simp: provider_update_def)
  have "decode_multisignature_envelope sample_ext [e] =
      Inr \<lparr>env_version = 1, env_update = [b8 n], env_proofs = map (sample_proof n) ps\<rparr>"
    using assms sample_roundtrip [OF assms(2)]
    by (intro decode_encoded_multisig_envelope [OF u]) (simp_all add: sample_envelope_def)
  moreover have "extract_provider_and_keys sample_ext provider_fields p = Inr (provider_key, key 1)"
    using p by (auto simp: extract_provider_and_keys_def provider_fields_def sample_payloads_ok
        provider_key_def fromhex_def)
  ultimately show ?thesis
    using u a by (simp add: decode_multisignature_candidate_def sample_candidate_def
        provider_update_def wire_constants)
qed

lemma sample_proofs_ok:
  "wf_proofs (map (sample_proof n) [])" "wf_proofs (map (sample_proof n) [sig_a])"
  "wf_proofs (map (sample_proof n) [sig_a, sig_b])" "wf_proofs (map (sample_proof n) [sig_b, sig_d])"
  "wf_proofs (map (sample_proof n) [(None, k)])" "wf_proofs (map (sample_proof n) [sig_b, sig_c])"
  by (simp_all add: wf_proofs_def sample_proof_def sig_a_def sig_b_def sig_c_def sig_d_def proof_ok_def
      proof_sort_key_def utf8_key_def utf8_char_def)

lemma sample_signature_valid [simp]:
  "verify_ed25519_signature sample_ext (key k) [b8 n] (snd (sample_proof n (i, k))) = Inr True"
  by (simp add: verify_ed25519_signature_def sample_proof_def)
    (simp add: sample_ext_def toy_ext_def toy_verify_def)

lemma sample_signature_numeral [simp]:
  "verify_ed25519_signature sample_ext (key k) [numeral n]
     (snd (sample_proof (numeral n) (i, k))) = Inr True"
  using sample_signature_valid [of k "numeral n" i] by simp

lemma legacy_sample_decodes:
  assumes "([b8 n], signed_update_py u) \<in> set (identity_table @ provider_table @ store_table)"
    and "([e], legacy_sample_envelope n k) \<in> set (identity_table @ provider_table @ store_table)"
    and "su_auth u = None"
  shows "decode_signed_envelope sample_ext [e] = Inr ([b8 n], snd (sample_proof n (None, k)))"
proof -
  have "\<not> carries_authorization sample_ext [b8 n]"
    using sample_roundtrip [OF assms(1)] assms(3)
    by (simp add: carries_authorization_def cbor_roundtrips_def signed_update_py_def)
  with sample_roundtrip [OF assms(2)] show ?thesis
    by (intro decode_encoded_legacy_envelope)
      (simp_all add: legacy_sample_envelope_def sample_proof_def)
qed

subsection \<open>A run of the state machine\<close>

definition identity_state :: "nat \<Rightarrow> nat \<Rightarrow> int \<Rightarrow> int \<Rightarrow> signers \<Rightarrow> bytes list \<Rightarrow> multisig_state" where
  "identity_state n k seq ep s h =
     \<lparr>ms_record_key = identity_key, ms_record_kind = 1, ms_owner = key k, ms_update = [b8 n],
      ms_state_hash = hash_of n, ms_epoch = ep, ms_seq = seq, ms_threshold = 2, ms_signers = s,
      ms_history = Some h\<rparr>"

definition provider_state :: "nat \<Rightarrow> int \<Rightarrow> multisig_state" where
  "provider_state n seq =
     \<lparr>ms_record_key = provider_key, ms_record_kind = 2, ms_owner = key 1, ms_update = [b8 n],
      ms_state_hash = hash_of n, ms_epoch = 1, ms_seq = seq, ms_threshold = 2,
      ms_signers = signers_abc, ms_history = None\<rparr>"

lemma legacy_identity_decodes:
  "decode_legacy_state sample_ext identity_key [11] = Inr
     \<lparr>lg_update = [10], lg_fields = identity_fields 1, lg_payload = [], lg_seq = 0, lg_kind = 1,
      lg_owner = key 1\<rparr>"
proof -
  have "decode_signed_envelope sample_ext [11] = Inr ([b8 10], snd (sample_proof 10 (None, 1)))"
    by (rule legacy_sample_decodes [where u = "identity_update 1 0 None"])
      (simp_all add: identity_table_def identity_update_def)
  moreover have "decode_canonical_signed_update sample_ext [10] = Inr (identity_update 1 0 None)"
    by (rule sample_update_decodes) (simp_all add: identity_table_def identity_update_ok)
  moreover have "extract_identity_and_keys sample_ext (identity_fields 1) = Inr (identity_key, key 1)"
    by (simp add: extract_identity_and_keys_def identity_fields_def identity_key_def sample_ext_def
        toy_ext_def)
  ultimately show ?thesis
    using sample_signature_valid [of 1 10 None]
    by (simp add: decode_legacy_state_def identity_update_def wire_constants)
qed

lemma sample_candidates:
  "decode_multisignature_candidate sample_ext [13] = Inr (sample_candidate 12
     (identity_update 1 1 (Some (sample_auth 1 4 1 signers_abc (hash_of 10)))) identity_key
     (sample_auth 1 4 1 signers_abc (hash_of 10)) [sig_a])"
  "decode_multisignature_candidate sample_ext [15] = Inr (sample_candidate 14
     (identity_update 1 2 (Some (sample_auth 1 2 1 signers_abc (hash_of 12)))) identity_key
     (sample_auth 1 2 1 signers_abc (hash_of 12)) [sig_a, sig_b])"
  "decode_multisignature_candidate sample_ext [17] = Inr (sample_candidate 16
     (identity_update 1 3 (Some (sample_auth 1 3 2 signers_abd (hash_of 14)))) identity_key
     (sample_auth 1 3 2 signers_abd (hash_of 14)) [sig_a, sig_b])"
  "decode_multisignature_candidate sample_ext [19] = Inr (sample_candidate 18
     (identity_update 2 4 (Some (sample_auth 1 5 2 signers_abd (hash_of 16)))) identity_key
     (sample_auth 1 5 2 signers_abd (hash_of 16)) [sig_b, sig_d])"
  "decode_multisignature_candidate sample_ext [21] = Inr (sample_candidate 20
     (identity_update 2 1 (Some (sample_auth 1 5 1 signers_abc (hash_of 10)))) identity_key
     (sample_auth 1 5 1 signers_abc (hash_of 10)) [(None, 1)])"
  "decode_multisignature_candidate sample_ext [23] = Inr (sample_candidate 22
     (identity_update 1 0 (Some (sample_auth 1 1 1 signers_abc (zero_bytes 32)))) identity_key
     (sample_auth 1 1 1 signers_abc (zero_bytes 32)) [sig_a, sig_b])"
  "decode_multisignature_candidate sample_ext [25] = Inr (sample_candidate 24
     (identity_update 1 1 (Some (sample_auth 1 2 1 signers_abc (hash_of 22)))) identity_key
     (sample_auth 1 2 1 signers_abc (hash_of 22)) [sig_a, sig_b])"
  "decode_multisignature_candidate sample_ext [28] = Inr (sample_candidate 14
     (identity_update 1 2 (Some (sample_auth 1 2 1 signers_abc (hash_of 12)))) identity_key
     (sample_auth 1 2 1 signers_abc (hash_of 12)) [sig_b, sig_c])"
  by (-, (rule identity_candidate_decodes;
       (simp add: identity_table_def sample_proofs_ok [simplified] sample_auth_ok)?;
       (simp add: sample_auth_def)?)+)

lemma sample_provider_candidates:
  "decode_multisignature_candidate sample_ext [33] = Inr (sample_candidate 32
     (provider_update (active_payload 98) 1 (Some (sample_auth 2 1 1 signers_abc (zero_bytes 32)))) provider_key
     (sample_auth 2 1 1 signers_abc (zero_bytes 32)) [sig_a, sig_b])"
  "decode_multisignature_candidate sample_ext [35] = Inr (sample_candidate 34
     (provider_update withdrawn_payload 2 (Some (sample_auth 2 2 1 signers_abc (hash_of 32)))) provider_key
     (sample_auth 2 2 1 signers_abc (hash_of 32)) [sig_a, sig_b])"
  "decode_multisignature_candidate sample_ext [37] = Inr (sample_candidate 36
     (provider_update (active_payload 99) 2 (Some (sample_auth 2 2 1 signers_abc (hash_of 32)))) provider_key
     (sample_auth 2 2 1 signers_abc (hash_of 32)) [sig_a, sig_b])"
  "decode_multisignature_candidate sample_ext [41] = Inr (sample_candidate 40
     (provider_update (active_payload 98) 3 (Some (sample_auth 2 2 1 signers_abc (hash_of 34)))) provider_key
     (sample_auth 2 2 1 signers_abc (hash_of 34)) [sig_a, sig_b])"
  "decode_multisignature_candidate sample_ext [45] = Inr (sample_candidate 44
     (provider_update (active_payload 99) 3 (Some (sample_auth 2 3 2 signers_abd (hash_of 34)))) provider_key
     (sample_auth 2 3 2 signers_abd (hash_of 34)) [sig_a, sig_b])"
  by (-, (rule provider_candidate_decodes;
       (simp add: provider_table_def sample_proofs_ok [simplified] sample_auth_ok)?;
       (simp add: sample_auth_def)?)+)

lemma sample_updates_of_states:
  "decode_multisignature_signed_update sample_ext [12] = Inr
     (identity_update 1 1 (Some (sample_auth 1 4 1 signers_abc (hash_of 10))),
      sample_auth 1 4 1 signers_abc (hash_of 10))"
  "decode_multisignature_signed_update sample_ext [16] = Inr
     (identity_update 1 3 (Some (sample_auth 1 3 2 signers_abd (hash_of 14))),
      sample_auth 1 3 2 signers_abd (hash_of 14))"
  "decode_multisignature_signed_update sample_ext [32] = Inr
     (provider_update (active_payload 98) 1 (Some (sample_auth 2 1 1 signers_abc (zero_bytes 32))),
      sample_auth 2 1 1 signers_abc (zero_bytes 32))"
  "decode_multisignature_signed_update sample_ext [34] = Inr
     (provider_update withdrawn_payload 2 (Some (sample_auth 2 2 1 signers_abc (hash_of 32))),
      sample_auth 2 2 1 signers_abc (hash_of 32))"
  by (-, (rule sample_multisig_decodes, simp add: identity_table_def provider_table_def;
       (rule identity_update_ok | rule provider_update_ok)?;
       (simp add: sample_auth_ok)?; (simp add: sample_auth_def identity_update_def provider_update_def)?)+)

lemmas sample_defs = sample_candidate_def sample_auth_def identity_update_def provider_update_def
  wire_constants identity_state_def provider_state_def

lemma sample_quorum:
  "validate_threshold_proofs sample_ext [b8 n]
     \<lparr>env_version = 1, env_update = [b8 n], env_proofs = map (sample_proof n) [sig_a, sig_b]\<rparr>
     signers_abc 2 = Inr ()"
  "validate_threshold_proofs sample_ext [b8 n]
     \<lparr>env_version = 1, env_update = [b8 n], env_proofs = map (sample_proof n) [sig_b, sig_d]\<rparr>
     signers_abd 2 = Inr ()"
  "validate_threshold_proofs sample_ext [b8 n]
     \<lparr>env_version = 1, env_update = [b8 n], env_proofs = map (sample_proof n) [sig_b, sig_c]\<rparr>
     signers_abc 2 = Inr ()"
  using sample_signature_valid [of 3 n "Some [99]"] sample_signature_valid [of 1 n "Some [97]"] sample_signature_valid [of 2 n "Some [98]"]
    sample_signature_valid [of 4 n "Some [100]"]
  by (simp_all add: validate_threshold_proofs_def sample_proof_def sig_a_def sig_b_def sig_c_def
      sig_d_def signer_dict_def signers_abc_def signers_abd_def)

lemma identity_fields_get [simp]:
  "dget (identity_fields k) 1 = Some (PBytes [7])" "dget (identity_fields k) 2 = Some (PBytes (key k))"
  "keys_are (identity_fields k) [1, 2]" "dget provider_fields 1 = Some (PBytes (key 1))"
  by (simp_all add: identity_fields_def provider_fields_def keys_are_def)

lemma sample_genesis:
  "validate_multisignature_genesis sample_ext identity_key [23] =
     Inr (identity_state 22 1 0 1 signers_abc [[23]])"
  using sample_quorum(1) [of 22] sample_digest [of 22]
  by (simp add: validate_multisignature_genesis_def sample_candidates sample_defs
      require_complete_2_of_3_def candidate_state_def dsub_def)

lemma sample_upgrade:
  "validate_multisignature_upgrade sample_ext identity_key [13] [11] =
     Inr (identity_state 12 1 1 1 signers_abc [[11], [13]])"
  using sample_signature_valid [of 1 12 "Some [97]"] sample_digest [of 10] sample_digest [of 12]
  by (simp add: validate_multisignature_upgrade_def sample_candidates sample_defs
      legacy_identity_decodes require_complete_2_of_3_def candidate_state_def dsub_def
      check_legacy_owner_proof_def signer_id_for_public_key_def signers_abc_def sample_proof_def
      sig_a_def)

lemma sample_ordinary_update:
  "validate_multisignature_ordinary_update sample_ext identity_key [15]
     (identity_state 12 1 1 1 signers_abc [[11], [13]]) =
     Inr (identity_state 14 1 2 1 signers_abc [[11], [13], [15]])"
  "validate_multisignature_ordinary_update sample_ext identity_key [28]
     (identity_state 12 1 1 1 signers_abc [[11], [13]]) =
     Inr (identity_state 14 1 2 1 signers_abc [[11], [13], [28]])"
  using sample_quorum(1,3) [of 14] sample_digest [of 14]
  by (simp_all add: validate_multisignature_ordinary_update_def validate_common_transition_def
      sample_candidates sample_defs candidate_state_def dsub_def append_history_def)

lemma sample_replacement:
  "validate_multisignature_signer_replacement sample_ext identity_key [17]
     (identity_state 14 1 2 1 signers_abc [[11], [13], [15]]) =
     Inr (identity_state 16 1 3 2 signers_abd [[11], [13], [15], [17]])"
  using sample_quorum(1) [of 16] sample_digest [of 16]
  by (simp add: validate_multisignature_signer_replacement_def validate_common_transition_def
      sample_candidates sample_defs candidate_state_def dsub_def append_history_def
      require_complete_2_of_3_def) (simp add: signers_abc_def signers_abd_def)

lemma sample_rotation_transition:
  "rotation_transition sample_ext identity_key [19]
     (identity_state 16 1 3 2 signers_abd [[11], [13], [15], [17]]) [[11], [13], [15], [17]] =
     Inr (identity_state 18 2 4 2 signers_abd [[11], [13], [15], [17], [19]])"
  using sample_quorum(2) [of 18] sample_digest [of 18]
  by (simp add: rotation_transition_def validate_owner_rotation_invariants_def sample_candidates
      sample_updates_of_states sample_defs candidate_state_def dsub_def)

lemma sample_rotation_from_legacy:
  "validate_owner_rotation_from_legacy sample_ext identity_key [21] [11] =
     Inr (identity_state 20 2 1 1 signers_abc [[11], [21]])"
  using sample_signature_valid [of 1 20 None] sample_digest [of 10] sample_digest [of 20]
  by (simp add: validate_owner_rotation_from_legacy_def validate_owner_rotation_invariants_def
      sample_candidates legacy_identity_decodes sample_defs candidate_state_def dsub_def
      require_complete_2_of_3_def sample_proof_def) (simp add: signers_abc_def)

lemma sample_legacy_not_multisig: "\<exists>e. decode_multisignature_envelope sample_ext [11] = Inl e"
proof -
  have "decode_signed_envelope sample_ext [11] = Inr ([b8 10], snd (sample_proof 10 (None, 1)))"
    by (rule legacy_sample_decodes [where u = "identity_update 1 0 None"])
      (simp_all add: identity_table_def identity_update_def)
  then show ?thesis
    by (cases "decode_multisignature_envelope sample_ext [11]")
      (auto dest: envelope_shapes_exclusive)
qed

lemma sample_anchor: "replay_anchor sample_ext identity_key [11] = Inr (Legacy_anchor [11])"
  using sample_legacy_not_multisig
  by (auto simp: replay_anchor_def legacy_identity_decodes wire_constants)

lemma sample_history:
  "validate_multisignature_history sample_ext identity_key [[11], [13], [15], [17]] =
     Inr (identity_state 16 1 3 2 signers_abd [[11], [13], [15], [17]])"
  "validate_multisignature_history sample_ext identity_key [[11], [13], [15], [17], [19]] =
     Inr (identity_state 18 2 4 2 signers_abd [[11], [13], [15], [17], [19]])"
  "validate_multisignature_history sample_ext identity_key [[11], [13], [15]] =
     Inr (identity_state 14 1 2 1 signers_abc [[11], [13], [15]])"
  "validate_multisignature_history sample_ext identity_key [[11], [13], [28]] =
     Inr (identity_state 14 1 2 1 signers_abc [[11], [13], [28]])"
proof -
  have anchor: "rotation_requires_legacy_anchor sample_ext
      (identity_state 16 1 3 2 signers_abd [[11], [13], [15], [17]]) = Inr [[11], [13], [15], [17]]"
    using sample_legacy_not_multisig
    by (auto simp: rotation_requires_legacy_anchor_def sample_defs)
  have step: "replay_step sample_ext identity_key (Legacy_anchor [11]) [13] =
      Inr (identity_state 12 1 1 1 signers_abc [[11], [13]])"
    "replay_step sample_ext identity_key
      (Replayed (identity_state 12 1 1 1 signers_abc [[11], [13]])) [15] =
      Inr (identity_state 14 1 2 1 signers_abc [[11], [13], [15]])"
    "replay_step sample_ext identity_key
      (Replayed (identity_state 12 1 1 1 signers_abc [[11], [13]])) [28] =
      Inr (identity_state 14 1 2 1 signers_abc [[11], [13], [28]])"
    "replay_step sample_ext identity_key
      (Replayed (identity_state 14 1 2 1 signers_abc [[11], [13], [15]])) [17] =
      Inr (identity_state 16 1 3 2 signers_abd [[11], [13], [15], [17]])"
    "replay_step sample_ext identity_key
      (Replayed (identity_state 16 1 3 2 signers_abd [[11], [13], [15], [17]])) [19] =
      Inr (identity_state 18 2 4 2 signers_abd [[11], [13], [15], [17], [19]])"
    by (simp_all add: replay_step_def validate_non_rotation_update_def sample_candidates
        sample_upgrade sample_ordinary_update sample_replacement owner_rotation_unverified_def
        anchor sample_rotation_transition del: One_nat_def)
      (simp_all add: sample_candidate_def sample_auth_def wire_constants sample_upgrade
        sample_ordinary_update sample_replacement anchor sample_rotation_transition
        del: One_nat_def)
  then show
    "validate_multisignature_history sample_ext identity_key [[11], [13], [15], [17]] =
     Inr (identity_state 16 1 3 2 signers_abd [[11], [13], [15], [17]])"
    "validate_multisignature_history sample_ext identity_key [[11], [13], [15], [17], [19]] =
     Inr (identity_state 18 2 4 2 signers_abd [[11], [13], [15], [17], [19]])"
    "validate_multisignature_history sample_ext identity_key [[11], [13], [15]] =
     Inr (identity_state 14 1 2 1 signers_abc [[11], [13], [15]])"
    "validate_multisignature_history sample_ext identity_key [[11], [13], [28]] =
     Inr (identity_state 14 1 2 1 signers_abc [[11], [13], [28]])"
    by (simp_all add: validate_multisignature_history_def sample_anchor)
      (simp_all add: identity_state_def)
qed

lemma sample_rotation:
  "validate_multisignature_update sample_ext identity_key [19]
     (Some (identity_state 16 1 3 2 signers_abd [[11], [13], [15], [17]])) None =
     Inr (identity_state 18 2 4 2 signers_abd [[11], [13], [15], [17], [19]])"
  using sample_legacy_not_multisig sample_history(1) sample_rotation_transition
  by (auto simp: validate_multisignature_update_def sample_candidates
      validate_owner_rotation_from_state_def rotation_requires_legacy_anchor_def sample_defs)

lemma sample_update:
  "validate_multisignature_update sample_ext identity_key [15]
     (Some (identity_state 12 1 1 1 signers_abc [[11], [13]])) None =
     Inr (identity_state 14 1 2 1 signers_abc [[11], [13], [15]])"
  "validate_multisignature_update sample_ext identity_key [17]
     (Some (identity_state 14 1 2 1 signers_abc [[11], [13], [15]])) None =
     Inr (identity_state 16 1 3 2 signers_abd [[11], [13], [15], [17]])"
  by (simp_all add: validate_multisignature_update_def validate_non_rotation_update_def
      sample_candidates del: One_nat_def)
    (simp_all add: sample_candidate_def sample_auth_def wire_constants sample_ordinary_update
      sample_replacement del: One_nat_def)

lemma sample_provider_genesis:
  "validate_multisignature_envelope sample_ext provider_key [33] = Inr (provider_state 32 1)"
  "validate_multisignature_update sample_ext provider_key [33] None None = Inr (provider_state 32 1)"
  using sample_quorum(1) [of 32] sample_digest [of 32]
  by (simp_all add: validate_multisignature_envelope_def validate_multisignature_genesis_def
      validate_multisignature_update_def validate_non_rotation_update_def
      sample_provider_candidates sample_defs require_complete_2_of_3_def candidate_state_def dsub_def)

lemma sample_provider_withdrawal:
  "validate_multisignature_update sample_ext provider_key [35] (Some (provider_state 32 1)) None =
     Inr (provider_state 34 2)"
  using sample_quorum(1) [of 34] sample_digest [of 34]
  by (simp add: validate_multisignature_ordinary_update_def validate_common_transition_def
      validate_multisignature_update_def validate_non_rotation_update_def state_payload_def
      sample_provider_candidates sample_updates_of_states sample_payloads_ok
      sample_defs candidate_state_def dsub_def append_history_def)

lemma sample_withdrawn_is_final:
  "validate_multisignature_update sample_ext provider_key [41] (Some (provider_state 34 2)) None =
     Inl Provider_already_withdrawn"
  by (simp add: validate_multisignature_ordinary_update_def validate_common_transition_def
      validate_multisignature_update_def validate_non_rotation_update_def state_payload_def
      sample_provider_candidates sample_updates_of_states sample_payloads_ok
      sample_defs candidate_state_def dsub_def append_history_def)

lemma sample_reactivation:
  "validate_multisignature_update sample_ext provider_key [45] (Some (provider_state 34 2)) None =
     Inr ((provider_state 44 3)\<lparr>ms_epoch := 2, ms_signers := signers_abd\<rparr>)"
  using sample_quorum(1) [of 44] sample_digest [of 44]
  by (simp add: validate_multisignature_signer_replacement_def validate_common_transition_def
      validate_multisignature_update_def validate_non_rotation_update_def state_payload_def
      sample_provider_candidates sample_updates_of_states sample_payloads_ok
      sample_defs candidate_state_def dsub_def append_history_def require_complete_2_of_3_def)
    (simp add: signers_abc_def signers_abd_def)

end
