(* ===== verification/Codec_Properties.thy ===== *)
theory Codec_Properties
  imports Wire_Codecs Samples "HOL-Library.Multiset"
begin

text \<open>
  The properties of the wire formats: Provider payloads and their URIs
  (\<open>provider_schema.py\<close>), SignedUpdates and authorization maps (\<open>encoding.py\<close>), and the two
  envelope shapes (\<open>signed_envelope.py\<close>).
\<close>

subsection \<open>Provider payloads\<close>

text \<open>
  Every accepted provider URI is the given string, a non-empty ASCII text of at most 2048
  visible characters with a scheme, without a fragment and without a broken percent escape.
\<close>
lemma provider_uri_bounds:
  assumes "validate_provider_uri X v = Inr u"
  shows "v = PStr u \<and> u \<noteq> [] \<and> length u \<le> 2048 \<and> (\<forall>c \<in> set u. 33 \<le> c \<and> c \<le> 126) \<and>
    35 \<notin> set u \<and> 58 \<in> set u \<and> is_alpha (hd u) \<and> \<not> bad_percent_escape u"
proof -
  have v: "v = PStr u" by (rule validate_provider_uri_PStr [OF assms])
  obtain sch colon rest where part: "partition1 58 u = (sch, colon, rest)"
    by (cases "partition1 58 u") auto
  have checks: "u \<noteq> []" "\<not> list_ex (\<lambda>c. c < 0x21 \<or> 0x7E < c) u"
    "\<not> bad_percent_escape u" "35 \<notin> set u" "colon" "uri_scheme_re (sch @ [58])"
    "\<exists>b. utf8_opt u = Some b \<and> length b \<le> 2048"
    using assms v part
    by (auto simp: validate_provider_uri_def res_simps Let_def not_less split: if_splits)
  then have "length u \<le> 2048" using utf8_length by fastforce
  moreover have "58 \<in> set u \<and> u = sch @ 58 # rest"
    using checks(5) part by (cases rule: partition1_cases [of 58 u]) auto
  moreover from this checks(6) have "is_alpha (hd u)"
    by (cases sch) (auto simp: uri_scheme_re_def)
  ultimately show ?thesis using v checks by (auto simp: list_ex_iff not_less not_le)
qed

lemma provider_uri_bounds_witness: "is_alpha (hd [97, 58, 98]) \<and> 58 \<in> set [97 :: nat, 58, 98]"
  using provider_uri_bounds [OF sample_uri(1)] by simp

text \<open>
  Every payload the decoder accepts satisfies the schema. An active one has a non-empty
  algorithm name, version 3, an object hash of 64 hexadecimal digits, 1 to 32 distinct valid
  URLs and at most 32 valid endpoints, both in sorted order. A withdrawn one has a status
  \<open>withdrawn\<close> and, if it names a replacement, a well-formed one that denotes another object.
\<close>
lemma decoded_payload_satisfies_schema:
  assumes "decode_provider_payload_dict X d = Inr p"
  shows "payload_ok X p"
  using assms by (rule decode_payload_ok)

lemma decoded_payload_satisfies_schema_witness:
  "uri_ok sample_ext [97, 58, 98] \<and> hash_ok (object_hash_str 9)"
  using decoded_payload_satisfies_schema [OF sample_payloads_ok(1), of 98]
  by (simp add: payload_ok_def active_ok_def)

text \<open>
  What the active builder builds, the decoder reads back: the algorithm, the object hash,
  the endpoints and URLs given, each list sorted.
\<close>
lemma active_payload_roundtrip:
  assumes "build_provider_payload_dict X v (PStr alg) (PStr h) (map PStr urls) (map PStr eps) = Inr d"
  shows "decode_provider_payload_dict X d =
    Inr (Active \<lparr>v3_alg = alg, v3_version = 3, v3_object_hash = h,
                v3_provider_urls = sort urls, v3_endpoints = sort eps\<rparr>)"
  using assms by (rule decode_built_active)

lemma active_payload_roundtrip_witness:
  "\<exists>d. build_provider_payload_dict sample_ext (PInt 3) (PStr [65]) (PStr (object_hash_str 9))
      (map PStr [[97, 58, 99], [97, 58, 98]]) (map PStr []) = Inr d \<and>
     decode_provider_payload_dict sample_ext d =
       Inr (Active \<lparr>v3_alg = [65], v3_version = 3, v3_object_hash = object_hash_str 9,
                   v3_provider_urls = [[97, 58, 98], [97, 58, 99]], v3_endpoints = []\<rparr>)"
proof -
  have "\<exists>d. build_provider_payload_dict sample_ext (PInt 3) (PStr [65]) (PStr (object_hash_str 9))
      (map PStr [[97, 58, 99], [97, 58, 98]]) (map PStr []) = Inr d"
    by (simp add: build_provider_payload_dict_def require_alg_def normalize_sorted_endpoints_def
        validate_endpoints_def normalize_sorted_provider_urls_def sample_uri validate_object_hash_def)
  then show ?thesis using active_payload_roundtrip by fastforce
qed

text \<open>
  What the withdrawal builder builds, the decoder reads back as a tombstone with the same
  algorithm, object hash and optional replacement.
\<close>
lemma withdrawal_payload_roundtrip:
  assumes "build_provider_withdrawal_payload_dict (PStr alg) (PStr h) (map_option PStr r) = Inr d"
  shows "decode_provider_payload_dict X d =
    Inr (Withdrawn \<lparr>v2_alg = alg, v2_version = 2, v2_object_hash = h,
                   v2_status = withdrawn_str, v2_replacement = r\<rparr>)"
  using assms by (rule decode_built_withdrawal)

lemma withdrawal_payload_roundtrip_witness:
  "decode_provider_payload_dict sample_ext
     [(PInt 1, PStr [65]), (PInt 2, PInt 2), (PInt 3, PStr (object_hash_str 9)),
      (PInt 4, PStr withdrawn_str), (PInt 5, PStr (object_hash_str 8))] =
   Inr (Withdrawn \<lparr>v2_alg = [65], v2_version = 2, v2_object_hash = object_hash_str 9,
                  v2_status = withdrawn_str, v2_replacement = Some (object_hash_str 8)\<rparr>)"
proof -
  have "build_provider_withdrawal_payload_dict (PStr [65]) (PStr (object_hash_str 9))
      (map_option PStr (Some (object_hash_str 8))) =
    Inr [(PInt 1, PStr [65]), (PInt 2, PInt 2), (PInt 3, PStr (object_hash_str 9)),
      (PInt 4, PStr withdrawn_str), (PInt 5, PStr (object_hash_str 8))]"
    by (simp add: build_provider_withdrawal_payload_dict_def require_alg_def
        validate_object_hash_def fromhex_def)
  then show ?thesis by (rule withdrawal_payload_roundtrip)
qed

subsection \<open>SignedUpdates\<close>

text \<open>
  What the two kinds of record are on the wire, field by field. The maps hold the keys below and no
  others.
\<close>

definition identity_record :: "pydict \<Rightarrow> pydict \<Rightarrow> bool" where
  "identity_record rf pl =
     (fst ` set rf = {PInt 1, PInt 2} \<and> pl = [] \<and>
      (\<exists>name owner. dget rf 1 = Some (PBytes name) \<and> dget rf 2 = Some (PBytes owner) \<and>
         length owner = 32))"

definition absolute_uri :: "pstr \<Rightarrow> bool" where
  "absolute_uri u =
     (u \<noteq> [] \<and> length u \<le> 2048 \<and> (\<forall>c \<in> set u. 33 \<le> c \<and> c \<le> 126) \<and>
      35 \<notin> set u \<and> 58 \<in> set u \<and> is_alpha (hd u) \<and> \<not> bad_percent_escape u)"

definition active_record :: "pydict \<Rightarrow> bool" where
  "active_record d =
     (fst ` set d = PInt ` {1, 2, 3, 4, 5} \<and>
      (\<exists>alg hash urls eps. dget d 1 = Some (PStr alg) \<and> alg \<noteq> [] \<and> dget d 2 = Some (PInt 3) \<and>
         dget d 3 = Some (PStr hash) \<and> length hash = 64 \<and> list_all is_hex hash \<and>
         dget d 4 = Some (PList (map PStr urls)) \<and> urls \<noteq> [] \<and> length urls \<le> 32 \<and>
         sorted urls \<and> distinct urls \<and> list_all absolute_uri urls \<and>
         dget d 5 = Some (PList (map PStr eps)) \<and> length eps \<le> 32 \<and> sorted eps \<and>
         list_all (\<lambda>e. hd e = 47 \<and> e \<noteq> [] \<and> length e \<le> 256) eps))"

text \<open>The version of a withdrawn payload is compared by Python's equality.\<close>

definition withdrawn_record :: "pydict \<Rightarrow> bool" where
  "withdrawn_record d =
     (PInt ` {1, 2, 3, 4} \<subseteq> fst ` set d \<and> fst ` set d \<subseteq> PInt ` {1, 2, 3, 4, 5} \<and>
      (\<exists>alg version hash. dget d 1 = Some (PStr alg) \<and> alg \<noteq> [] \<and>
         dget d 2 = Some version \<and> eq_int version 2 \<and> \<not> is_bool version \<and>
         dget d 3 = Some (PStr hash) \<and> length hash = 64 \<and> list_all is_hex hash \<and>
         dget d 4 = Some (PStr (lit ''withdrawn'')) \<and>
         (\<forall>v. dget d 5 = Some v \<longrightarrow> (\<exists>other. v = PStr other \<and> length other = 64 \<and>
            list_all is_hex other \<and> fromhex_opt other \<noteq> fromhex_opt hash))))"

definition provider_record :: "pydict \<Rightarrow> pydict \<Rightarrow> bool" where
  "provider_record rf pl =
     (fst ` set rf = {PInt 1} \<and>
      (\<exists>owner. dget rf 1 = Some (PBytes owner) \<and> length owner = 32) \<and>
      (active_record pl \<or> withdrawn_record pl))"

lemma uint_keys_within:
  assumes "uint_keys d" and "keys_within d ks"
  shows "fst ` set d \<subseteq> PInt ` set ks"
proof -
  have "k \<in> PInt ` set ks" if "(k, v) \<in> set d" for k v
    using assms that
    by (cases k) (fastforce simp: uint_keys_def keys_within_def list_all_iff list_ex_iff eq_int_def)+
  then show ?thesis by auto
qed

lemma uint_keys_include: "uint_keys d \<Longrightarrow> keys_include d ks \<Longrightarrow> PInt ` set ks \<subseteq> fst ` set d"
proof -
  have "PInt i \<in> fst ` set d" if "uint_keys d" "dget d i = Some v" for i v
    using that by (induction d) (auto split: pyval.splits if_splits)
  then show "uint_keys d \<Longrightarrow> keys_include d ks \<Longrightarrow> PInt ` set ks \<subseteq> fst ` set d"
    by (fastforce simp: keys_include_def list_all_iff has_key_iff)
qed

lemma uint_keys_are: "uint_keys d \<Longrightarrow> keys_are d ks \<Longrightarrow> fst ` set d = PInt ` set ks"
  by (simp add: keys_are_def uint_keys_within uint_keys_include subset_antisym)

lemma uri_ok_absolute: "uri_ok X u \<Longrightarrow> absolute_uri u"
  using provider_uri_bounds [of X "PStr u" u] by (simp add: uri_ok_def absolute_uri_def)

lemma endpoint_ok_shape: "endpoint_ok e \<Longrightarrow> hd e = 47 \<and> e \<noteq> [] \<and> length e \<le> 256"
proof -
  assume ok: "endpoint_ok e"
  then obtain b where "utf8_opt e = Some b" "length b \<le> 256" by (auto simp: endpoint_ok_def)
  with utf8_length [of e b] have "length e \<le> 256" by simp
  with ok show ?thesis by (cases e) (auto simp: endpoint_ok_def starts_with_def)
qed

lemma decoded_active_fields:
  assumes "decode_active_payload X d = Inr (Active a)"
  shows "keys_are d [1, 2, 3, 4, 5]" and "dget d 1 = Some (PStr (v3_alg a))"
    and "dget d 2 = Some (PInt (v3_version a))" and "dget d 3 = Some (PStr (v3_object_hash a))"
    and "dget d 4 = Some (PList (map PStr (v3_provider_urls a)))"
    and "dget d 5 = Some (PList (map PStr (v3_endpoints a)))"
proof -
  from assms obtain v where v: "dget d 2 = Some v"
    by (auto simp: decode_active_payload_def bindE_Inr if_raise_Inr dsub_Inr)
  with assms obtain n where n: "v = PInt n"
    by (cases v) (auto simp: decode_active_payload_def bindE_Inr if_raise_Inr dsub_ok)
  note * = assms [unfolded decode_active_payload_def bindE_Inr if_raise_Inr dsub_ok [OF v] n]
  show "keys_are d [1, 2, 3, 4, 5]" using * by simp
  show "dget d 1 = Some (PStr (v3_alg a))" using * by (auto simp: bindE_Inr if_raise_Inr dsub_Inr require_alg_Inr)
  show "dget d 2 = Some (PInt (v3_version a))" using * v n by (auto simp: bindE_Inr if_raise_Inr)
  show "dget d 3 = Some (PStr (v3_object_hash a))"
    using * by (auto simp: bindE_Inr if_raise_Inr dsub_Inr validate_object_hash_Inr)
  show "dget d 4 = Some (PList (map PStr (v3_provider_urls a)))"
    using * by (auto simp: bindE_Inr if_raise_Inr res_simps)
  show "dget d 5 = Some (PList (map PStr (v3_endpoints a)))"
    using * by (auto simp: res_simps)
qed

lemma decoded_active_record:
  assumes "decode_active_payload X d = Inr p" and "uint_keys d"
  shows "active_record d"
proof -
  obtain a where p: "p = Active a" "active_ok X a" using decode_active_ok [OF assms(1)] by blast
  note got = decoded_active_fields [OF assms(1) [unfolded p(1)]]
  have keys: "fst ` set d = PInt ` {1, 2, 3, 4, 5}"
    using uint_keys_are [OF assms(2) got(1)] by simp
  have ok: "v3_alg a \<noteq> []" "v3_version a = 3" "length (v3_object_hash a) = 64"
    "list_all is_hex (v3_object_hash a)"
    "v3_provider_urls a \<noteq> []" "length (v3_provider_urls a) \<le> 32" "sorted (v3_provider_urls a)"
    "distinct (v3_provider_urls a)" "list_all absolute_uri (v3_provider_urls a)"
    "length (v3_endpoints a) \<le> 32" "sorted (v3_endpoints a)"
    "list_all (\<lambda>e. hd e = 47 \<and> e \<noteq> [] \<and> length e \<le> 256) (v3_endpoints a)"
    using p(2) by (auto simp: active_ok_def hash_ok_def list_all_iff uri_ok_absolute endpoint_ok_shape)
  show ?thesis
    unfolding active_record_def
    by (intro conjI exI [of _ "v3_alg a"] exI [of _ "v3_object_hash a"] exI [of _ "v3_provider_urls a"]
        exI [of _ "v3_endpoints a"] keys ok got(2,4-6)) (use got(3) ok(2) in simp)
qed

lemma decoded_withdrawn_record:
  assumes "decode_withdrawn_payload d = Inr p" and "uint_keys d"
    and "dget d 2 = Some version" and "eq_int version 2 \<and> \<not> is_bool version"
  shows "withdrawn_record d"
proof -
  have "keys_include d [1, 2, 3, 4]" "keys_within d [1, 2, 3, 4, 5]"
    using assms(1) by (auto simp: decode_withdrawn_payload_def if_raise_Inr)
  with uint_keys_include [OF assms(2)] uint_keys_within [OF assms(2)]
  have keys: "PInt ` {1, 2, 3, 4} \<subseteq> fst ` set d" "fst ` set d \<subseteq> PInt ` {1, 2, 3, 4, 5}"
    by fastforce+
  obtain alg hash where get: "dget d 1 = Some (PStr alg)" "alg \<noteq> []" "dget d 3 = Some (PStr hash)"
    "hash_ok hash" "dget d 4 = Some (PStr withdrawn_str)"
    and five: "\<forall>v. dget d 5 = Some v \<longrightarrow> (\<exists>other. v = PStr other \<and> hash_ok other \<and>
        fromhex_opt other \<noteq> fromhex_opt hash)"
    using assms(1) by (cases "dget d 5") (auto simp: decode_withdrawn_payload_def res_simps dsub_ok)
  show ?thesis
    unfolding withdrawn_record_def
    using keys get five assms(3,4) by (fastforce simp: hash_ok_def withdrawn_str_lit)
qed

lemma decoded_payload_record:
  assumes "decode_provider_payload_dict X d = Inr p" and "uint_keys d"
  shows "active_record d \<or> withdrawn_record d"
  using assms
  by (auto simp: decode_provider_payload_dict_def split: option.splits if_splits
      dest: decoded_active_record decoded_withdrawn_record)

lemma wf_update_record:
  assumes "wf_update X u" and "su_auth u = Some a"
  shows "(record_kind a = 1 \<and> identity_record (su_fields u) (su_payload u)) \<or>
    (record_kind a = 2 \<and> provider_record (su_fields u) (su_payload u))"
proof -
  have keys: "uint_keys (su_fields u)" "uint_keys (su_payload u)" and auth: "wf_auth a"
    and bind: "validate_record_kind_binding X (su_fields u) (su_payload u) (record_kind a) = Inr ()"
    using assms by (simp_all add: wf_update_def)
  from auth consider "record_kind a = 1" | "record_kind a = 2" by (auto simp: wf_auth_def)
  then show ?thesis
  proof cases
    case 1
    with bind have "keys_are (su_fields u) [1, 2]"
      by (simp add: validate_record_kind_binding_def wire_constants if_raise_Inr)
    with 1 binding_identity [of X "su_fields u" "su_payload u"] bind uint_keys_are [OF keys(1)] show ?thesis
      by (fastforce simp: identity_record_def)
  next
    case 2
    with binding_provider [of X "su_fields u" "su_payload u"] bind uint_keys_are [OF keys(1)]
      decoded_payload_record [OF _ keys(2)] show ?thesis
      by (fastforce simp: provider_record_def)
  qed
qed

text \<open>
  C38: every SignedUpdate the decoder accepts is well formed: its Seq and the keys of its two
  maps are non-negative integers, and its authorization map, if present, has scheme 1, a known
  kind and operation, a threshold between 1 and the size of its Signer Set, a 32-byte
  predecessor, and a Signer Set of distinct identifiers and distinct 32-byte keys in canonical
  order. If it declares an Identity Record, its fields are a name and a 32-byte owner key and it has no
  payload; if a Provider Record, its one field is a 32-byte owner key, and its payload has all the
  fields of an active record (with 1 to 32 distinct sorted URLs and at most 32 sorted endpoints) or of
  a withdrawn one (with an optional replacement that is another object). It is also the canonical
  encoding of what it decodes to.
\<close>
theorem decoded_update_well_formed:
  assumes "decode_canonical_signed_update X b = Inr u"
  shows "0 \<le> su_seq u \<and> uint_keys (su_fields u) \<and> uint_keys (su_payload u) \<and>
    (\<forall>a. su_auth u = Some a \<longrightarrow> wf_auth a \<and>
       (record_kind a = 1 \<and> identity_record (su_fields u) (su_payload u) \<or>
        record_kind a = 2 \<and> provider_record (su_fields u) (su_payload u))) \<and>
    (\<exists>v. cbor_loads X b = Inr v \<and> cbor_dumps X v = Inr b)"
proof -
  have wf: "wf_update X u" by (rule decode_signed_update_wf [OF assms])
  then have "0 \<le> su_seq u \<and> uint_keys (su_fields u) \<and> uint_keys (su_payload u) \<and>
      (\<forall>a. su_auth u = Some a \<longrightarrow> wf_auth a)" by (auto simp: wf_update_def)
  moreover have "\<exists>v. cbor_loads X b = Inr v \<and> cbor_dumps X v = Inr b"
    using assms by (auto simp: decode_canonical_signed_update_def if_raise_Inr is_canonical_iff)
  ultimately show ?thesis using wf_update_record [OF wf] by blast
qed

theorem decoded_update_well_formed_witness:
  "wf_auth (sample_auth 1 4 1 signers_abc (hash_of 10)) \<and> identity_record (identity_fields 1) []"
proof -
  have d: "decode_canonical_signed_update sample_ext [12] =
      Inr (identity_update 1 1 (Some (sample_auth 1 4 1 signers_abc (hash_of 10))))"
    using sample_updates_of_states(1)
    by (auto simp: decode_multisignature_signed_update_def bindE_Inr split: option.splits)
  show ?thesis
    using decoded_update_well_formed [OF d] by (simp add: identity_update_def sample_auth_def)
qed

text \<open>
  What the encoder encodes, the decoder reads back: the same record fields, payload and
  Seq, and the authorization map with its Signer Set put in canonical order, provided the codec
  decodes the bytes to the value that was encoded.
\<close>
lemma signed_update_roundtrip:
  assumes "make_signed_update X rf pl seq auth = Inr u"
    and "encode_signed_update X rf pl seq auth = Inr b"
    and "cbor_loads X b = Inr (signed_update_py u)"
  shows "decode_canonical_signed_update X b = Inr u"
proof (rule decode_encoded_update [OF make_signed_update_wf [OF assms(1)]])
  show "cbor_roundtrips X (signed_update_py u) b"
    using assms by (simp add: cbor_roundtrips_def encode_signed_update_def canonical_cbor_def)
qed

lemma signed_update_roundtrip_witness:
  "encode_signed_update sample_ext (identity_fields 1) [] (PInt 0) None = Inr [10] \<and>
   decode_canonical_signed_update sample_ext [10] = Inr (identity_update 1 0 None)"
proof -
  have m: "make_signed_update sample_ext (identity_fields 1) [] (PInt 0) None =
      Inr (identity_update 1 0 None)"
    by (simp add: make_signed_update_def require_uint_def identity_fields_def identity_update_def)
  have rt: "cbor_roundtrips sample_ext (signed_update_py (identity_update 1 0 None)) [10]"
    by (rule sample_roundtrip) (simp add: identity_table_def)
  then have e: "encode_signed_update sample_ext (identity_fields 1) [] (PInt 0) None = Inr [10]"
    using m by (simp add: encode_signed_update_def canonical_cbor_def cbor_roundtrips_def)
  with signed_update_roundtrip [OF m e] rt show ?thesis by (simp add: cbor_roundtrips_def)
qed

text \<open>
  A digest determines the update it was computed from, and so does a signature over it: two
  well-formed updates whose canonical encodings have the same SHA-256 digest are equal, as long
  as these encodings do not collide.
\<close>
lemma digest_determines_update:
  assumes "wf_update X u" and "wf_update X v"
    and "cbor_roundtrips X (signed_update_py u) b" and "cbor_roundtrips X (signed_update_py v) c"
    and "sha256_injective_on X {b, c}" and "sha256 X b = sha256 X c"
  shows "u = v"
  using assms by (rule update_codec.digest_determines)

lemma digest_determines_update_witness:
  "identity_update 1 0 None = identity_update 1 0 None \<and> wf_update sample_ext (identity_update 1 0 None)"
proof -
  have wf: "wf_update sample_ext (identity_update 1 0 None)" by (simp add: identity_update_ok)
  have rt: "cbor_roundtrips sample_ext (signed_update_py (identity_update 1 0 None)) [10]"
    by (rule sample_roundtrip) (simp add: identity_table_def)
  have "sha256_injective_on sample_ext {[10], [10]}" by (simp add: sha256_injective_on_def)
  from digest_determines_update [OF wf wf rt rt this refl] wf show ?thesis by blast
qed

text \<open>
  The top-level keys of a SignedUpdate are compared by Python's equality. Replacing any key
  by a value equal to it, such as \<open>True\<close> or \<open>1.0\<close> for 1, changes nothing in the result, so one
  update has several accepted encodings.
\<close>
lemma update_key_aliases:
  assumes "list_all2 (\<lambda>p q. num_of (fst p) = num_of (fst q) \<and> snd p = snd q) d d'"
  shows "validate_decoded_signed_update X d = validate_decoded_signed_update X d'"
proof -
  have get: "dget d = dget d'"
    using assms by (induction rule: list_all2_induct) (auto simp: eq_int_def fun_eq_iff)
  have "keys_within d ks = keys_within d' ks" for ks
    using assms by (induction rule: list_all2_induct) (auto simp: eq_int_def list_ex_iff)
  moreover have "has_key d = has_key d'" by (simp add: fun_eq_iff has_key_iff get)
  ultimately have "keys_are d ks = keys_are d' ks" for ks
    by (simp add: keys_are_def keys_include_def)
  then show ?thesis by (simp add: validate_decoded_signed_update_def dsub_def get)
qed

lemma update_key_aliases_witness:
  "validate_decoded_signed_update sample_ext
     [(PBool True, PDict (identity_fields 1)), (PNum 2 0, PDict []), (PInt 3, PInt 0)] =
   Inr (identity_update 1 0 None)"
proof -
  have "validate_decoded_signed_update sample_ext
      [(PInt 1, PDict (identity_fields 1)), (PInt 2, PDict []), (PInt 3, PInt 0)] =
      Inr (identity_update 1 0 None)"
    by (rule validate_decoded_py)
      (simp_all add: identity_update_ok, simp add: signed_update_py_def identity_update_def)
  then show ?thesis
    by (subst update_key_aliases
        [where d' = "[(PInt 1, PDict (identity_fields 1)), (PInt 2, PDict []), (PInt 3, PInt 0)]"])
      simp_all
qed

subsection \<open>Envelopes\<close>

text \<open>
  The two envelope shapes never overlap. No byte string is accepted by both decoders, and an
  update accepted inside a legacy envelope is not accepted as a multisignature update, so a
  multisignature update cannot be smuggled in with one signature.
\<close>
lemma envelope_shapes_disjoint:
  assumes "decode_signed_envelope X b = Inr (upd, sg)"
  shows "\<not> is_ok (decode_multisignature_envelope X b) \<and>
    \<not> is_ok (decode_multisignature_signed_update X upd)"
proof -
  have "\<not> is_ok (decode_multisignature_envelope X b)"
    using assms by (auto simp: is_ok_iff dest: envelope_shapes_exclusive)
  moreover have "\<not> is_ok (decode_multisignature_signed_update X upd)"
  proof
    assume "is_ok (decode_multisignature_signed_update X upd)"
    then obtain u a where "decode_multisignature_signed_update X upd = Inr (u, a)"
      by (auto simp: is_ok_iff)
    then have "carries_authorization X upd" by (rule multisig_carries_authorization)
    with assms show False by (auto elim: decode_legacy_envelope_Inr)
  qed
  ultimately show ?thesis ..
qed

lemma envelope_shapes_disjoint_witness:
  "\<not> is_ok (decode_multisignature_envelope sample_ext [11]) \<and>
   \<not> is_ok (decode_multisignature_signed_update sample_ext [10])"
proof -
  have "decode_signed_envelope sample_ext [11] = Inr ([b8 10], snd (sample_proof 10 (None, 1)))"
    by (rule legacy_sample_decodes [where u = "identity_update 1 0 None"])
      (simp_all add: identity_table_def identity_update_def)
  from envelope_shapes_disjoint [OF this] show ?thesis by simp
qed

end
