(* ===== verification/Legacy_Updates.thy ===== *)
theory Legacy_Updates
  imports Samples
begin

text \<open>
  The legacy validators with their per-record sequence state (\<open>validate_provider_update\<close>,
  \<open>validate_identity_update\<close>, \<open>validate_signed_update_overwrite\<close>): acceptance needs the owner's
  signature, and over a run of accepted updates the owner is constant and Seq increases.
\<close>

lemma enforce_seq_Inr:
  "(enforce_seq_and_owner_binding rk n owner st upd = Inr st') =
     ((\<forall>prev. st rk = Some prev \<longrightarrow> ss_seq prev < n \<and> ss_owner prev = owner) \<and>
      st' = (if upd then st(rk \<mapsto> \<lparr>ss_owner = owner, ss_seq = n\<rparr>) else st))"
  by (cases "st rk") (auto simp: enforce_seq_and_owner_binding_def not_le)

text \<open>Both validators have one shape; the overwrite validator is one of them.\<close>

definition owner_signed ::
  "ext \<Rightarrow> bytes \<Rightarrow> signed_update \<Rightarrow> bytes \<Rightarrow> bytes \<Rightarrow> bytes \<Rightarrow> bool" where
  "owner_signed X rk u owner upd sg =
     (decode_signed_update_strict X upd = Inr u \<and>
      (extract_identity_and_keys X (su_fields u) = Inr (rk, owner) \<or>
       extract_provider_and_keys X (su_fields u) (su_payload u) = Inr (rk, owner)) \<and>
      ed_verify X owner (sha256 X upd) sg = Inr True)"

lemma validate_provider_update_Inr:
  "(validate_provider_update X rk upd sg st b = Inr (u, st')) =
     (\<exists>owner. decode_signed_update_strict X upd = Inr u \<and>
        extract_provider_and_keys X (su_fields u) (su_payload u) = Inr (rk, owner) \<and>
        ed_verify X owner (sha256 X upd) sg = Inr True \<and>
        enforce_seq_and_owner_binding rk (su_seq u) owner st b = Inr st')"
  by (auto simp: validate_provider_update_def verify_ed25519_signature_def bindE_Inr if_raise_Inr)

lemma validate_identity_update_Inr:
  "(validate_identity_update X rk upd sg st b = Inr (u, st')) =
     (\<exists>owner. decode_signed_update_strict X upd = Inr u \<and>
        extract_identity_and_keys X (su_fields u) = Inr (rk, owner) \<and>
        ed_verify X owner (sha256 X upd) sg = Inr True \<and>
        enforce_seq_and_owner_binding rk (su_seq u) owner st b = Inr st')"
  by (auto simp: validate_identity_update_def verify_ed25519_signature_def bindE_Inr if_raise_Inr)

lemma overwrite_Inr:
  assumes "validate_signed_update_overwrite X rk upd sg st b = Inr (u, st')"
  obtains owner where "owner_signed X rk u owner upd sg"
    "enforce_seq_and_owner_binding rk (su_seq u) owner st b = Inr st'"
  using assms
  by (auto simp: validate_signed_update_overwrite_def bindE_Inr owner_signed_def
      validate_identity_update_Inr validate_provider_update_Inr split: if_splits)

text \<open>A run: updates of one record, offered one after the other, all accepted.\<close>

fun accept_all ::
  "ext \<Rightarrow> bytes \<Rightarrow> (bytes \<times> bytes) list \<Rightarrow> seq_state \<Rightarrow> (int list \<times> seq_state) res" where
  "accept_all X rk [] st = Inr ([], st)"
| "accept_all X rk ((upd, sg) # us) st =
     bindE (validate_signed_update_overwrite X rk upd sg st True) (\<lambda>(u, st').
     bindE (accept_all X rk us st') (\<lambda>(ns, st''). Inr (su_seq u # ns, st'')))"

lemma accept_all_run:
  "accept_all X rk us st = Inr (ns, st') \<Longrightarrow>
     sorted_wrt (<) ns \<and> (\<forall>prev. st rk = Some prev \<longrightarrow> (\<forall>n \<in> set ns. ss_seq prev < n)) \<and>
     (us \<noteq> [] \<longrightarrow> (\<exists>owner. st' rk = Some \<lparr>ss_owner = owner, ss_seq = last ns\<rparr> \<and>
        (\<forall>prev. st rk = Some prev \<longrightarrow> ss_owner prev = owner) \<and>
        (\<forall>(upd, sg) \<in> set us. ed_verify X owner (sha256 X upd) sg = Inr True))) \<and>
     (\<forall>k. k \<noteq> rk \<longrightarrow> st' k = st k) \<and> length ns = length us"
proof (induction us arbitrary: st ns)
  case Nil
  then show ?case by simp
next
  case (Cons p us)
  obtain upd sg where p: "p = (upd, sg)" by (cases p)
  from Cons.prems p obtain u st1 ns1 where
    v: "validate_signed_update_overwrite X rk upd sg st True = Inr (u, st1)" and
    r: "accept_all X rk us st1 = Inr (ns1, st')" and ns: "ns = su_seq u # ns1"
    by (auto simp: bindE_Inr)
  from v obtain owner where o: "ed_verify X owner (sha256 X upd) sg = Inr True"
    and prev: "\<forall>prev. st rk = Some prev \<longrightarrow> ss_seq prev < su_seq u \<and> ss_owner prev = owner"
    and st1: "st1 = st(rk \<mapsto> \<lparr>ss_owner = owner, ss_seq = su_seq u\<rparr>)"
    by (auto elim!: overwrite_Inr simp: owner_signed_def enforce_seq_Inr)
  note ih = Cons.IH [OF r]
  have "ns1 = [] \<longleftrightarrow> us = []" using ih by auto
  moreover have "\<forall>n \<in> set ns1. su_seq u < n" using ih st1 by simp
  ultimately show ?case
    using ih st1 o prev r by (cases us) (auto simp: p ns)
qed

text \<open>
  C8: over any run of accepted legacy updates of one record, the owner never changes, every
  update's digest carries a valid signature by that owner, the sequence numbers strictly
  increase from what the state held before, and no other record's entry is touched.
\<close>
theorem legacy_run_one_owner:
  assumes "accept_all X rk us st = Inr (ns, st')" and "us \<noteq> []"
  shows "sorted_wrt (<) ns \<and> (\<forall>prev. st rk = Some prev \<longrightarrow> ss_seq prev < hd ns) \<and>
    (\<exists>owner. st' = st(rk \<mapsto> \<lparr>ss_owner = owner, ss_seq = last ns\<rparr>) \<and>
       (\<forall>prev. st rk = Some prev \<longrightarrow> ss_owner prev = owner) \<and>
       (\<forall>(upd, sg) \<in> set us. ed_verify X owner (sha256 X upd) sg = Inr True))"
proof -
  note run = accept_all_run [OF assms(1)]
  then have "ns \<noteq> []" using assms(2) by auto
  then have "hd ns \<in> set ns" by simp
  then show ?thesis using run assms(2) by (fastforce simp: fun_eq_iff)
qed

lemma sample_legacy_update:
  "validate_signed_update_overwrite sample_ext identity_key [10]
     (snd (sample_proof 10 (None, 1))) st True =
     bindE (enforce_seq_and_owner_binding identity_key 0 (key 1) st True)
       (\<lambda>st'. Inr (identity_update 1 0 None, st'))"
  "validate_signed_update_overwrite sample_ext identity_key [26]
     (snd (sample_proof 26 (None, 1))) st True =
     bindE (enforce_seq_and_owner_binding identity_key 1 (key 1) st True)
       (\<lambda>st'. Inr (identity_update 1 1 None, st'))"
proof -
  have d: "decode_canonical_signed_update sample_ext [10] = Inr (identity_update 1 0 None)"
    "decode_canonical_signed_update sample_ext [26] = Inr (identity_update 1 1 None)"
    by (rule sample_update_decodes; simp add: identity_table_def identity_update_ok)+
  have x: "extract_identity_and_keys sample_ext (identity_fields 1) = Inr (identity_key, key 1)"
    by (simp add: extract_identity_and_keys_def identity_fields_def identity_key_def sample_ext_def
        toy_ext_def)
  note defs = validate_signed_update_overwrite_def validate_identity_update_def
    decode_signed_update_strict_def
  show "validate_signed_update_overwrite sample_ext identity_key [10]
     (snd (sample_proof 10 (None, 1))) st True =
     bindE (enforce_seq_and_owner_binding identity_key 0 (key 1) st True)
       (\<lambda>st'. Inr (identity_update 1 0 None, st'))"
    "validate_signed_update_overwrite sample_ext identity_key [26]
     (snd (sample_proof 26 (None, 1))) st True =
     bindE (enforce_seq_and_owner_binding identity_key 1 (key 1) st True)
       (\<lambda>st'. Inr (identity_update 1 1 None, st'))"
    using d x by (simp_all add: defs identity_update_def)
qed

theorem legacy_run_one_owner_witness:
  "sorted_wrt (<) [0 :: int, 1] \<and>
   accept_all sample_ext identity_key
     [([10], snd (sample_proof 10 (None, 1))), ([26], snd (sample_proof 26 (None, 1)))]
     Map.empty = Inr ([0, 1], [identity_key \<mapsto> \<lparr>ss_owner = key 1, ss_seq = 1\<rparr>])"
proof -
  have run: "accept_all sample_ext identity_key
     [([10], snd (sample_proof 10 (None, 1))), ([26], snd (sample_proof 26 (None, 1)))]
     Map.empty = Inr ([0, 1], [identity_key \<mapsto> \<lparr>ss_owner = key 1, ss_seq = 1\<rparr>])"
    by (simp add: sample_legacy_update [simplified] enforce_seq_and_owner_binding_def identity_update_def)
  with legacy_run_one_owner [OF run] show ?thesis by simp
qed

end
