(* ===== verification/Transitions.thy ===== *)
theory Transitions
  imports Verification
begin

text \<open>
  What the validators of \<open>Verification\<close> guarantee: the meaning of a quorum, the invariant of an
  accepted state, the step relation that specifies the transitions of a multisignature record,
  and the replay of an Identity history as a run of that relation.
\<close>

subsection \<open>Quorums\<close>

text \<open>
  The declarative reading of \<open>_validate_threshold_proofs\<close>: no signer twice, every proof from
  a member and valid over the digest of the update, and at least \<open>thr\<close> of them.
\<close>

definition proof_valid :: "ext \<Rightarrow> bytes \<Rightarrow> signers \<Rightarrow> proof_entry \<Rightarrow> bool" where
  "proof_valid X upd s p =
     (case signer_dict s (fst p) of
        None \<Rightarrow> False
      | Some pk \<Rightarrow> verify_ed25519_signature X pk upd (snd p) = Inr True)"

definition quorum :: "ext \<Rightarrow> bytes \<Rightarrow> signers \<Rightarrow> int \<Rightarrow> proof_entry list \<Rightarrow> bool" where
  "quorum X upd s thr ps =
     (thr \<le> int (length ps) \<and> distinct (map fst ps) \<and> list_all (proof_valid X upd s) ps)"

lemma check_proofs_loop_Inr:
  "(check_proofs_loop X upd s ps seen = Inr out) =
     (distinct (map fst ps) \<and> set (map fst ps) \<inter> set seen = {} \<and>
      list_all (proof_valid X upd s) ps \<and> out = rev (map fst ps) @ seen)"
proof (induction ps arbitrary: seen)
  case Nil
  then show ?case by auto
next
  case (Cons p ps)
  obtain i sg where p: "p = (i, sg)" by (cases p)
  show ?case
  proof (cases "signer_dict s i")
    case None
    then show ?thesis by (simp add: p proof_valid_def)
  next
    case (Some pk)
    then show ?thesis using Cons.IH [of "i # seen"]
      by (cases "verify_ed25519_signature X pk upd sg") (auto simp: p proof_valid_def)
  qed
qed

lemma validate_threshold_proofs_iff [res_simps]:
  "(validate_threshold_proofs X upd e s thr = Inr ()) = quorum X upd s thr (env_proofs e)"
proof -
  have "(\<exists>out. check_proofs_loop X upd s (env_proofs e) [] = Inr out \<and>
      \<not> int (length out) < thr) = (distinct (map fst (env_proofs e)) \<and>
      list_all (proof_valid X upd s) (env_proofs e) \<and> thr \<le> int (length (env_proofs e)))"
    by (auto simp: check_proofs_loop_Inr)
  then show ?thesis
    unfolding validate_threshold_proofs_def quorum_def
    by (auto simp: bindE_Inr check_proofs_loop_Inr split: if_splits)
qed

lemma signer_dict_in: "signer_dict s i = Some pk \<Longrightarrow> \<exists>sid. i = Some sid \<and> (sid, pk) \<in> set s"
  by (auto simp: signer_dict_def dest: map_of_SomeD split: option.splits)

lemma signer_dict_distinct_keys:
  assumes "distinct (map snd s)" "signer_dict s i = Some pk" "signer_dict s j = Some pk"
  shows "i = j"
proof -
  obtain a b where "i = Some a" "j = Some b" "(a, pk) \<in> set s" "(b, pk) \<in> set s"
    using assms(2,3) by (auto dest!: signer_dict_in)
  moreover from this assms(1) have "a = b" by (fastforce simp: distinct_map inj_on_def)
  ultimately show ?thesis by simp
qed

text \<open>A quorum of a well-formed set is that many distinct keys of the set, each of which signed.\<close>

lemma quorum_keys:
  assumes q: "quorum X upd s thr ps" and wf: "wf_signers s"
  shows "\<exists>K \<subseteq> set (map snd s). thr \<le> int (card K) \<and>
    (\<forall>pk \<in> K. \<exists>sg. ed_verify X pk (sha256 X upd) sg = Inr True)"
proof -
  define f where "f i = the (signer_dict s i)" for i
  let ?I = "set (map fst ps)"
  have ok: "signer_dict s (fst p) = Some (f (fst p)) \<and>
      verify_ed25519_signature X (f (fst p)) upd (snd p) = Inr True" if "p \<in> set ps" for p
    using that q by (auto simp: quorum_def list_all_iff proof_valid_def f_def split: option.splits)
  have "distinct (map snd s)" using wf by (simp add: wf_signers_def)
  moreover have "signer_dict s i = Some (f i)" if "i \<in> ?I" for i using that ok by auto
  ultimately have "inj_on f ?I" unfolding inj_on_def by (metis signer_dict_distinct_keys)
  then have "card (f ` ?I) = length ps"
    using q by (simp add: quorum_def card_image distinct_card del: set_map)
  moreover have "f ` ?I \<subseteq> set (map snd s)"
    using ok by (fastforce dest!: signer_dict_in simp: rev_image_eqI)
  moreover have "\<exists>sg. ed_verify X pk (sha256 X upd) sg = Inr True" if "pk \<in> f ` ?I" for pk
    using that ok by (auto simp: verify_ed25519_signature_def)
  ultimately show ?thesis using q by (auto simp: quorum_def intro!: exI [of _ "f ` ?I"])
qed

subsection \<open>Candidates and accepted states\<close>

text \<open>The field of the record that holds the owner's public key.\<close>

abbreviation owner_field :: "int \<Rightarrow> int" where
  "owner_field kind \<equiv> if kind = record_kind_identity then 2 else 1"

definition record_binding :: "ext \<Rightarrow> bytes \<Rightarrow> int \<Rightarrow> signed_update \<Rightarrow> bytes \<Rightarrow> bool" where
  "record_binding X rk kind u owner =
     (dget (su_fields u) (owner_field kind) = Some (PBytes owner) \<and> length owner = 32 \<and>
      (if kind = record_kind_identity then
         su_payload u = [] \<and> (\<exists>name. dget (su_fields u) 1 = Some (PBytes name) \<and> rk = sha256 X name)
       else
         kind = record_kind_provider \<and>
         (\<exists>p. decode_provider_payload_dict X (su_payload u) = Inr p \<and>
              fromhex_opt (payload_object_hash p) = Some rk)))"

text \<open>The invariant of a state: it is what its own canonical bytes say.\<close>

definition wf_state :: "ext \<Rightarrow> multisig_state \<Rightarrow> bool" where
  "wf_state X s =
     (\<exists>u a. decode_multisignature_signed_update X (ms_update s) = Inr (u, a) \<and>
        ms_record_kind s = record_kind a \<and> ms_epoch s = epoch a \<and> ms_threshold s = threshold a \<and>
        ms_signers s = signer_set a \<and> ms_seq s = su_seq u \<and>
        ms_state_hash s = sha256 X (ms_update s) \<and>
        record_binding X (ms_record_key s) (record_kind a) u (ms_owner s) \<and>
        (record_kind a = record_kind_provider \<longrightarrow> ms_history s = None))"

lemma extract_identity_Inr [res_simps]:
  "(extract_identity_and_keys X f = Inr (k, pk)) =
     (\<exists>name. dget f 1 = Some (PBytes name) \<and> dget f 2 = Some (PBytes pk) \<and> k = sha256 X name)"
  by (auto simp: extract_identity_and_keys_def split: option.splits pyval.splits)

lemma extract_provider_Inr [res_simps]:
  "(extract_provider_and_keys X f pl = Inr (k, pk)) =
     (dget f 1 = Some (PBytes pk) \<and> (\<exists>p. decode_provider_payload_dict X pl = Inr p \<and>
        length (payload_object_hash p) = 64 \<and> fromhex_opt (payload_object_hash p) = Some k))"
  by (auto simp: extract_provider_and_keys_def res_simps split: option.splits pyval.splits)

lemma candidate_Inr:
  assumes "decode_multisignature_candidate X b = Inr c"
  shows "decode_multisignature_envelope X b = Inr (c_envelope c)"
    and "c_bytes c = env_update (c_envelope c)"
    and "decode_multisignature_signed_update X (c_bytes c) = Inr (c_update c, c_auth c)"
    and "\<exists>owner. record_binding X (c_key c) (record_kind (c_auth c)) (c_update c) owner"
proof -
  obtain e u a k pk where e: "decode_multisignature_envelope X b = Inr e"
    and u: "decode_multisignature_signed_update X (env_update e) = Inr (u, a)"
    and c: "c = \<lparr>c_bytes = env_update e, c_envelope = e, c_update = u, c_key = k, c_auth = a\<rparr>"
    and x: "(if record_kind a = record_kind_identity then extract_identity_and_keys X (su_fields u)
        else if record_kind a = record_kind_provider
        then extract_provider_and_keys X (su_fields u) (su_payload u)
        else Inl (Value_error ''unsupported record kind'')) = Inr (k, pk)"
    using assms by (auto simp: decode_multisignature_candidate_def bindE_Inr)
  show "decode_multisignature_envelope X b = Inr (c_envelope c)" "c_bytes c = env_update (c_envelope c)"
    "decode_multisignature_signed_update X (c_bytes c) = Inr (c_update c, c_auth c)"
    using e u c by simp_all
  have bind: "validate_record_kind_binding X (su_fields u) (su_payload u) (record_kind a) = Inr ()"
    by (rule decode_multisig_wf [OF u])
  show "\<exists>owner. record_binding X (c_key c) (record_kind (c_auth c)) (c_update c) owner"
    using bind x unfolding record_binding_def c
    by (cases "record_kind a = 1"; cases "record_kind a = 2")
      (auto simp: wire_constants res_simps dest!: binding_identity binding_provider)
qed

definition c_owner :: "candidate \<Rightarrow> bytes" where
  "c_owner c =
     (case dget (c_fields c) (owner_field (record_kind (c_auth c))) of
        Some (PBytes owner) \<Rightarrow> owner | _ \<Rightarrow> [])"

definition state_of ::
  "ext \<Rightarrow> bytes \<Rightarrow> candidate \<Rightarrow> bytes list option \<Rightarrow> multisig_state" where
  "state_of X rk c history =
     \<lparr>ms_record_key = rk, ms_record_kind = record_kind (c_auth c), ms_owner = c_owner c,
      ms_update = c_bytes c, ms_state_hash = sha256 X (c_bytes c), ms_epoch = epoch (c_auth c),
      ms_seq = c_seq c, ms_threshold = threshold (c_auth c), ms_signers = signer_set (c_auth c),
      ms_history = (if record_kind (c_auth c) = record_kind_identity then history else None)\<rparr>"

lemma candidate_binding:
  assumes "decode_multisignature_candidate X b = Inr c"
  shows "record_binding X (c_key c) (record_kind (c_auth c)) (c_update c) (c_owner c)"
    and "dget (c_fields c) (owner_field (record_kind (c_auth c))) = Some (PBytes (c_owner c))"
  using candidate_Inr(4) [OF assms] by (auto simp: record_binding_def c_owner_def)

lemma candidate_state_eq:
  assumes "decode_multisignature_candidate X b = Inr c"
  shows "candidate_state X rk c h = Inr (state_of X rk c h)"
  using candidate_binding(2) [OF assms]
  by (simp add: candidate_state_def state_of_def dsub_def Let_def)

lemma state_of_wf:
  assumes "decode_multisignature_candidate X b = Inr c" and "c_key c = rk"
  shows "wf_state X (state_of X rk c h)"
  using candidate_Inr(3) [OF assms(1)] candidate_binding(1) [OF assms(1)] assms(2)
  by (auto simp: wf_state_def state_of_def wire_constants)

subsection \<open>Transitions as a step relation\<close>

text \<open>
  What every transition from a state demands of its candidate
  (\<open>_validate_common_transition\<close>): the same record, kind and owner, a larger Seq, and the
  digest of the state it extends; two withdrawals never follow each other.
\<close>

definition extends_state :: "ext \<Rightarrow> bytes \<Rightarrow> candidate \<Rightarrow> multisig_state \<Rightarrow> bool" where
  "extends_state X rk c s =
     (c_key c = rk \<and> ms_record_key s = rk \<and> record_kind (c_auth c) = ms_record_kind s \<and>
      c_owner c = ms_owner s \<and> ms_seq s < c_seq c \<and> predecessor (c_auth c) = ms_state_hash s \<and>
      (ms_record_kind s = record_kind_provider \<longrightarrow>
         (\<exists>p q. state_payload X s = Inr p \<and> decode_provider_payload_dict X (c_payload c) = Inr q \<and>
            \<not> (is_withdrawn p \<and> is_withdrawn q))))"

lemma validate_common_transition_iff:
  assumes "decode_multisignature_candidate X b = Inr c"
  shows "(validate_common_transition X rk c s = Inr ()) = extends_state X rk c s"
  using candidate_binding(2) [OF assms]
  by (cases "record_kind (c_auth c) = ms_record_kind s")
    (auto simp: validate_common_transition_def extends_state_def bindE_Inr dsub_def not_le)

text \<open>What an owner-key rotation demands instead (\<open>_validate_owner_rotation_invariants\<close>).\<close>

definition rotates_state :: "ext \<Rightarrow> bytes \<Rightarrow> candidate \<Rightarrow> multisig_state \<Rightarrow> bool" where
  "rotates_state X rk c s =
     (c_key c = rk \<and> ms_record_key s = rk \<and> record_kind (c_auth c) = record_kind_identity \<and>
      (\<exists>u a. decode_multisignature_signed_update X (ms_update s) = Inr (u, a) \<and>
         dget (c_fields c) 1 = dget (su_fields u) 1) \<and>
      c_owner c \<noteq> ms_owner s \<and> c_seq c = ms_seq s + 1 \<and>
      predecessor (c_auth c) = ms_state_hash s)"

lemma rotation_invariants_iff:
  assumes c: "decode_multisignature_candidate X b = Inr c" and wf: "wf_state X s"
    and kind: "ms_record_kind s = record_kind_identity"
    and op: "operation (c_auth c) = operation_owner_key_rotation"
    and u: "decode_multisignature_signed_update X (ms_update s) = Inr (u, a)"
  shows "(validate_owner_rotation_invariants rk c (su_fields u) (ms_record_key s) (ms_seq s)
      (ms_state_hash s) = Inr ()) = rotates_state X rk c s"
proof -
  obtain name where pred: "dget (su_fields u) 1 = Some (PBytes name)"
    "dget (su_fields u) 2 = Some (PBytes (ms_owner s))"
    using wf kind u by (auto simp: wf_state_def record_binding_def)
  then show ?thesis
    using op u candidate_binding [OF c]
    by (cases "record_kind (c_auth c) = record_kind_identity")
      (auto simp: validate_owner_rotation_invariants_def rotates_state_def record_binding_def
        bindE_Inr if_raise_Inr dsub_def getE_Inr)
qed

inductive msig_step ::
  "ext \<Rightarrow> bytes \<Rightarrow> multisig_state \<Rightarrow> bytes \<Rightarrow> multisig_state \<Rightarrow> bool" for X rk where
  ordinary:
    "\<lbrakk>decode_multisignature_candidate X b = Inr c; operation (c_auth c) = operation_ordinary_update;
      extends_state X rk c s;
      ms_record_kind s = record_kind_provider \<Longrightarrow> \<exists>p. state_payload X s = Inr p \<and> \<not> is_withdrawn p;
      epoch (c_auth c) = ms_epoch s; threshold (c_auth c) = ms_threshold s;
      signer_set (c_auth c) = ms_signers s;
      quorum X (c_bytes c) (ms_signers s) (ms_threshold s) (c_proofs c)\<rbrakk> \<Longrightarrow>
     msig_step X rk s b (state_of X rk c (append_history s b))"
| replace:
    "\<lbrakk>decode_multisignature_candidate X b = Inr c; operation (c_auth c) = operation_replace_signers;
      extends_state X rk c s; ms_epoch s < epoch (c_auth c);
      threshold (c_auth c) = 2; length (signer_set (c_auth c)) = 3;
      signer_set (c_auth c) \<noteq> ms_signers s;
      quorum X (c_bytes c) (ms_signers s) (ms_threshold s) (c_proofs c)\<rbrakk> \<Longrightarrow>
     msig_step X rk s b (state_of X rk c (append_history s b))"
| rotate:
    "\<lbrakk>decode_multisignature_candidate X b = Inr c; operation (c_auth c) = operation_owner_key_rotation;
      rotation_requires_legacy_anchor X s = Inr h;
      rotates_state X rk c s;
      epoch (c_auth c) = ms_epoch s; threshold (c_auth c) = ms_threshold s;
      signer_set (c_auth c) = ms_signers s;
      quorum X (c_bytes c) (ms_signers s) (ms_threshold s) (c_proofs c)\<rbrakk> \<Longrightarrow>
     msig_step X rk s b (state_of X rk c (Some (h @ [b])))"

inductive_cases msig_stepE: "msig_step X rk s b s'"

lemma ordinary_update_Inr:
  assumes c: "decode_multisignature_candidate X b = Inr c"
  shows "(validate_multisignature_ordinary_update X rk b s = Inr s') =
    (operation (c_auth c) = operation_ordinary_update \<and> extends_state X rk c s \<and>
     (ms_record_kind s = record_kind_provider \<longrightarrow>
        (\<exists>p. state_payload X s = Inr p \<and> \<not> is_withdrawn p)) \<and>
     epoch (c_auth c) = ms_epoch s \<and> threshold (c_auth c) = ms_threshold s \<and>
     signer_set (c_auth c) = ms_signers s \<and>
     quorum X (c_bytes c) (ms_signers s) (ms_threshold s) (c_proofs c) \<and>
     s' = state_of X rk c (append_history s b))"
  (is "?L = ?R")
proof
  assume ?L
  then show ?R
    by (auto simp: validate_multisignature_ordinary_update_def c bindE_Inr if_raise_Inr
        validate_common_transition_iff [OF c] validate_threshold_proofs_iff
        candidate_state_eq [OF c] state_payload_def split: if_splits)
next
  assume r: ?R
  then have "validate_threshold_proofs X (c_bytes c) (c_envelope c) (ms_signers s)
      (ms_threshold s) = Inr ()"
    "validate_common_transition X rk c s = Inr ()"
    by (simp_all add: validate_common_transition_iff [OF c] validate_threshold_proofs_iff)
  with r show ?L
    by (auto simp: validate_multisignature_ordinary_update_def c bindE_Inr
        candidate_state_eq [OF c] state_payload_def extends_state_def)
qed

lemma replacement_Inr:
  assumes c: "decode_multisignature_candidate X b = Inr c"
  shows "(validate_multisignature_signer_replacement X rk b s = Inr s') =
    (operation (c_auth c) = operation_replace_signers \<and> extends_state X rk c s \<and>
     ms_epoch s < epoch (c_auth c) \<and> threshold (c_auth c) = 2 \<and>
     length (signer_set (c_auth c)) = 3 \<and> signer_set (c_auth c) \<noteq> ms_signers s \<and>
     quorum X (c_bytes c) (ms_signers s) (ms_threshold s) (c_proofs c) \<and>
     s' = state_of X rk c (append_history s b))"
  by (auto simp: validate_multisignature_signer_replacement_def c bindE_Inr if_raise_Inr
      validate_common_transition_iff [OF c] validate_threshold_proofs_iff
      candidate_state_eq [OF c] require_complete_2_of_3_def)

lemma rotation_transition_Inr:
  assumes c: "decode_multisignature_candidate X b = Inr c"
  shows "(rotation_transition X rk b s h = Inr s') =
    (\<exists>u a. decode_multisignature_signed_update X (ms_update s) = Inr (u, a) \<and>
       validate_owner_rotation_invariants rk c (su_fields u) (ms_record_key s) (ms_seq s)
         (ms_state_hash s) = Inr () \<and>
       epoch (c_auth c) = ms_epoch s \<and> threshold (c_auth c) = ms_threshold s \<and>
       signer_set (c_auth c) = ms_signers s \<and>
       quorum X (c_bytes c) (ms_signers s) (ms_threshold s) (c_proofs c) \<and>
       s' = state_of X rk c (Some (h @ [b])))"
  by (auto simp: rotation_transition_def c bindE_Inr if_raise_Inr validate_threshold_proofs_iff
      candidate_state_eq [OF c])

lemma rotation_step_iff:
  assumes c: "decode_multisignature_candidate X b = Inr c" and wf: "wf_state X s"
    and op: "operation (c_auth c) = operation_owner_key_rotation"
  shows "(owner_rotation_unverified X rk b s = Inr s') = msig_step X rk s b s'"
proof
  assume "owner_rotation_unverified X rk b s = Inr s'"
  then obtain h where h: "rotation_requires_legacy_anchor X s = Inr h"
    and t: "rotation_transition X rk b s h = Inr s'"
    by (auto simp: owner_rotation_unverified_def bindE_Inr)
  from h have "ms_record_kind s = record_kind_identity"
    by (simp add: rotation_requires_legacy_anchor_def split: if_splits)
  with t show "msig_step X rk s b s'"
    by (auto simp: rotation_transition_Inr [OF c] rotation_invariants_iff [OF c wf _ op]
        intro: msig_step.rotate [OF c op h])
next
  assume "msig_step X rk s b s'"
  then obtain h where h: "rotation_requires_legacy_anchor X s = Inr h"
    and r: "rotates_state X rk c s"
      "epoch (c_auth c) = ms_epoch s" "threshold (c_auth c) = ms_threshold s"
      "signer_set (c_auth c) = ms_signers s"
      "quorum X (c_bytes c) (ms_signers s) (ms_threshold s) (c_proofs c)"
      "s' = state_of X rk c (Some (h @ [b]))"
    using c op by (auto simp: wire_constants elim!: msig_stepE)
  from h have kind: "ms_record_kind s = record_kind_identity"
    by (simp add: rotation_requires_legacy_anchor_def split: if_splits)
  obtain u a where u: "decode_multisignature_signed_update X (ms_update s) = Inr (u, a)"
    using wf by (auto simp: wf_state_def)
  with r show "owner_rotation_unverified X rk b s = Inr s'"
    by (simp add: owner_rotation_unverified_def h rotation_transition_Inr [OF c]
        rotation_invariants_iff [OF c wf kind op u])
qed

lemma non_rotation_step_iff:
  assumes c: "decode_multisignature_candidate X b = Inr c"
    and op: "operation (c_auth c) \<noteq> operation_owner_key_rotation"
  shows "(validate_non_rotation_update X rk b (Some s) None = Inr s') = msig_step X rk s b s'"
proof
  assume "validate_non_rotation_update X rk b (Some s) None = Inr s'"
  then show "msig_step X rk s b s'"
    by (auto simp: validate_non_rotation_update_def c Let_def ordinary_update_Inr [OF c]
        replacement_Inr [OF c] split: if_splits option.splits
        intro: msig_step.ordinary [OF c] msig_step.replace [OF c])
next
  assume "msig_step X rk s b s'"
  then show "validate_non_rotation_update X rk b (Some s) None = Inr s'"
    by (cases rule: msig_step.cases)
      (use c op in \<open>auto simp: validate_non_rotation_update_def Let_def ordinary_update_Inr
        replacement_Inr wire_constants\<close>)
qed

lemma replay_step_iff:
  assumes "wf_state X s"
  shows "(replay_step X rk (Replayed s) b = Inr s') = msig_step X rk s b s'"
proof (cases "decode_multisignature_candidate X b")
  case (Inl e)
  then show ?thesis by (auto simp: replay_step_def elim: msig_stepE)
next
  case (Inr c)
  then show ?thesis
    using rotation_step_iff [OF Inr assms] non_rotation_step_iff [OF Inr]
    by (simp add: replay_step_def Let_def)
qed

text \<open>
  The dispatcher on a state: one step, and for a rotation the replay of the state's history.
\<close>

definition history_confirms :: "ext \<Rightarrow> bytes \<Rightarrow> multisig_state \<Rightarrow> bool" where
  "history_confirms X rk s =
     (\<exists>h v. ms_history s = Some h \<and> validate_multisignature_history X rk h = Inr v \<and>
        ms_state_hash v = ms_state_hash s \<and> ms_update v = ms_update s)"

definition is_rotation :: "ext \<Rightarrow> bytes \<Rightarrow> bool" where
  "is_rotation X b =
     (case decode_multisignature_candidate X b of
        Inl _ \<Rightarrow> False | Inr c \<Rightarrow> operation (c_auth c) = operation_owner_key_rotation)"

lemma rotation_requires_legacy_anchor_history:
  "rotation_requires_legacy_anchor X s = Inr h \<Longrightarrow> ms_history s = Some h"
  by (auto simp: rotation_requires_legacy_anchor_def split: if_splits option.splits list.splits)

lemma update_from_state_iff:
  assumes wf: "wf_state X s"
  shows "(validate_multisignature_update X rk b (Some s) None = Inr s') =
    (msig_step X rk s b s' \<and> (is_rotation X b \<longrightarrow> history_confirms X rk s))"
proof (cases "decode_multisignature_candidate X b")
  case (Inl e)
  then show ?thesis
    by (auto simp: validate_multisignature_update_def elim: msig_stepE)
next
  case (Inr c)
  show ?thesis
  proof (cases "operation (c_auth c) = operation_owner_key_rotation")
    case False
    then show ?thesis
      by (simp add: validate_multisignature_update_def is_rotation_def Inr
          non_rotation_step_iff [OF Inr])
  next
    case True
    have "(validate_multisignature_update X rk b (Some s) None = Inr s') =
        (owner_rotation_unverified X rk b s = Inr s' \<and> history_confirms X rk s)"
    proof (cases "rotation_requires_legacy_anchor X s")
      case (Inl e)
      then show ?thesis using True
        by (simp add: validate_multisignature_update_def Inr
            validate_owner_rotation_from_state_def owner_rotation_unverified_def)
    next
      case (Inr h)
      then show ?thesis using True rotation_requires_legacy_anchor_history [OF Inr]
        by (auto simp: validate_multisignature_update_def \<open>decode_multisignature_candidate X b = Inr c\<close>
            validate_owner_rotation_from_state_def owner_rotation_unverified_def
            history_confirms_def bindE_Inr)
    qed
    then show ?thesis
      using True rotation_step_iff [OF Inr wf True] by (simp add: is_rotation_def Inr)
  qed
qed

subsection \<open>What a step preserves and changes\<close>

lemma msig_step_facts:
  assumes "msig_step X rk s b s'"
  shows "wf_state X s'" and "ms_record_key s = rk" and "ms_record_key s' = rk"
    and "ms_seq s < ms_seq s'"
    and "\<exists>c. decode_multisignature_candidate X b = Inr c \<and> ms_update s' = c_bytes c \<and>
           predecessor (c_auth c) = ms_state_hash s \<and>
           quorum X (c_bytes c) (ms_signers s) (ms_threshold s) (c_proofs c)"
  using assms
  by (cases; fastforce simp: extends_state_def rotates_state_def state_of_def intro: state_of_wf)+

lemma msig_step_kind:
  assumes "msig_step X rk s b s'"
  shows "ms_record_kind s' = ms_record_kind s"
  using assms
  by (cases) (auto simp: extends_state_def rotates_state_def state_of_def
      rotation_requires_legacy_anchor_def split: if_splits)

lemma msig_step_history:
  assumes "msig_step X rk s b s'" and "ms_record_kind s = record_kind_identity"
    and "ms_history s = Some h"
  shows "ms_history s' = Some (h @ [b])"
  using assms
  by (cases) (auto simp: extends_state_def rotates_state_def state_of_def append_history_def
      dest: rotation_requires_legacy_anchor_history)

text \<open>The owner changes in a rotation and in nothing else; a rotation changes nothing else.\<close>

lemma msig_step_owner:
  assumes "msig_step X rk s b s'"
  shows "is_rotation X b \<Longrightarrow> ms_owner s' \<noteq> ms_owner s \<and> ms_seq s' = ms_seq s + 1 \<and>
           ms_signers s' = ms_signers s \<and> ms_threshold s' = ms_threshold s \<and> ms_epoch s' = ms_epoch s"
    and "\<not> is_rotation X b \<Longrightarrow> ms_owner s' = ms_owner s"
  using assms
  by (cases; simp add: is_rotation_def wire_constants extends_state_def rotates_state_def
      state_of_def)+

text \<open>Epochs never decrease, and a new Signer Set comes with a new epoch and 2-of-3.\<close>

lemma msig_step_epoch:
  assumes "msig_step X rk s b s'"
  shows "ms_epoch s \<le> ms_epoch s'"
    and "ms_epoch s = ms_epoch s' \<Longrightarrow> ms_signers s' = ms_signers s \<and> ms_threshold s' = ms_threshold s"
    and "ms_epoch s < ms_epoch s' \<Longrightarrow>
      ms_signers s' \<noteq> ms_signers s \<and> length (ms_signers s') = 3 \<and> ms_threshold s' = 2 \<and>
      ms_owner s' = ms_owner s"
  using assms by (cases; auto simp: extends_state_def state_of_def)+

subsection \<open>Histories\<close>

inductive accepted_history :: "ext \<Rightarrow> bytes \<Rightarrow> bytes list \<Rightarrow> multisig_state \<Rightarrow> bool" for X rk where
  genesis:
    "\<lbrakk>validate_multisignature_genesis X rk b = Inr s; ms_record_kind s = record_kind_identity\<rbrakk> \<Longrightarrow>
     accepted_history X rk [b] s"
| upgrade:
    "\<lbrakk>replay_anchor X rk l = Inr (Legacy_anchor l);
      validate_multisignature_upgrade X rk b l = Inr s\<rbrakk> \<Longrightarrow> accepted_history X rk [l, b] s"
| rotation:
    "\<lbrakk>replay_anchor X rk l = Inr (Legacy_anchor l);
      validate_owner_rotation_from_legacy X rk b l = Inr s\<rbrakk> \<Longrightarrow> accepted_history X rk [l, b] s"
| step:
    "\<lbrakk>accepted_history X rk h s; msig_step X rk s b s'\<rbrakk> \<Longrightarrow> accepted_history X rk (h @ [b]) s'"

lemma genesis_Inr:
  assumes c: "decode_multisignature_candidate X b = Inr c"
  shows "(validate_multisignature_genesis X rk b = Inr s) =
    (operation (c_auth c) = operation_genesis \<and> epoch (c_auth c) = 1 \<and>
     predecessor (c_auth c) = zero_bytes 32 \<and> c_key c = rk \<and> threshold (c_auth c) = 2 \<and>
     length (signer_set (c_auth c)) = 3 \<and>
     quorum X (c_bytes c) (signer_set (c_auth c)) 2 (c_proofs c) \<and>
     s = state_of X rk c (Some [b]))"
  by (auto simp: validate_multisignature_genesis_def c bindE_Inr if_raise_Inr
      validate_threshold_proofs_iff candidate_state_eq [OF c] require_complete_2_of_3_def)

lemma genesis_candidate:
  "validate_multisignature_genesis X rk b = Inr s \<Longrightarrow>
     \<exists>c. decode_multisignature_candidate X b = Inr c"
  by (auto simp: validate_multisignature_genesis_def bindE_Inr)

lemma legacy_state_Inr:
  assumes "decode_legacy_state X rk l = Inr lg"
  obtains u sg where "decode_signed_envelope X l = Inr (lg_update lg, sg)"
    "decode_canonical_signed_update X (lg_update lg) = Inr u" "su_auth u = None"
    "lg_fields lg = su_fields u" "lg_payload lg = su_payload u" "lg_seq lg = su_seq u"
    "verify_ed25519_signature X (lg_owner lg) (lg_update lg) sg = Inr True"
    "lg_kind lg = record_kind_identity \<and>
       extract_identity_and_keys X (su_fields u) = Inr (rk, lg_owner lg) \<or>
     lg_kind lg = record_kind_provider \<and>
       extract_provider_and_keys X (su_fields u) (su_payload u) = Inr (rk, lg_owner lg)"
proof -
  from assms obtain upd sg u where u: "decode_signed_envelope X l = Inr (upd, sg)"
    "decode_canonical_signed_update X upd = Inr u"
    by (auto simp: decode_legacy_state_def bindE_Inr)
  show thesis
  proof (cases "extract_identity_and_keys X (su_fields u)")
    case (Inl e)
    then show ?thesis using assms u
      by (auto simp: decode_legacy_state_def bindE_Inr if_raise_Inr if_else_raise_Inr wrapE_Inr
          intro!: that [of sg u])
  next
    case (Inr kp)
    then show ?thesis using assms u
      by (cases kp) (auto simp: decode_legacy_state_def bindE_Inr if_raise_Inr wrapE_Inr
          intro!: that [of sg u])
  qed
qed

lemma upgrade_Inr:
  assumes "validate_multisignature_upgrade X rk b l = Inr s"
  obtains c lg where "decode_multisignature_candidate X b = Inr c" "decode_legacy_state X rk l = Inr lg"
    "operation (c_auth c) = operation_upgrade" "c_key c = rk" "record_kind (c_auth c) = lg_kind lg"
    "lg_seq lg < c_seq c" "epoch (c_auth c) = 1" "predecessor (c_auth c) = sha256 X (lg_update lg)"
    "threshold (c_auth c) = 2" "length (signer_set (c_auth c)) = 3"
    "dget (c_fields c) (owner_field (lg_kind lg)) = dget (lg_fields lg) (owner_field (lg_kind lg))"
    "check_legacy_owner_proof X c (lg_owner lg) = Inr ()"
    "s = state_of X rk c (Some [l, b])"
proof -
  from assms obtain c where c: "decode_multisignature_candidate X b = Inr c"
    by (auto simp: validate_multisignature_upgrade_def bindE_Inr)
  with assms show thesis
    by (auto simp: validate_multisignature_upgrade_def bindE_Inr if_raise_Inr Let_def
        require_complete_2_of_3_def candidate_state_eq [OF c] not_le intro!: that)
qed

lemma legacy_rotation_Inr:
  assumes "validate_owner_rotation_from_legacy X rk b l = Inr s"
  obtains c lg sg where "decode_multisignature_candidate X b = Inr c"
    "decode_legacy_state X rk l = Inr lg" "lg_kind lg = record_kind_identity"
    "validate_owner_rotation_invariants rk c (lg_fields lg) rk (lg_seq lg)
       (sha256 X (lg_update lg)) = Inr ()"
    "epoch (c_auth c) = 1" "threshold (c_auth c) = 2" "length (signer_set (c_auth c)) = 3"
    "c_owner c \<in> set (map snd (signer_set (c_auth c)))"
    "c_proofs c = [(None, sg)]" "verify_ed25519_signature X (lg_owner lg) (c_bytes c) sg = Inr True"
    "s = state_of X rk c (Some [l, b])"
proof -
  from assms obtain c where c: "decode_multisignature_candidate X b = Inr c"
    by (auto simp: validate_owner_rotation_from_legacy_def bindE_Inr)
  from assms obtain lg where lg: "decode_legacy_state X rk l = Inr lg"
    by (auto simp: validate_owner_rotation_from_legacy_def bindE_Inr)
  have kind: "record_kind (c_auth c) = record_kind_identity"
    using assms c lg by (auto simp: validate_owner_rotation_from_legacy_def bindE_Inr
        validate_owner_rotation_invariants_def split: if_splits)
  then have "dget (c_fields c) 2 = Some (PBytes (c_owner c))"
    using candidate_binding(2) [OF c] by simp
  with assms c lg show thesis
    by (auto simp: validate_owner_rotation_from_legacy_def bindE_Inr if_raise_Inr dsub_def
        require_complete_2_of_3_def candidate_state_eq [OF c] wrapE_Inr
        split: list.splits intro!: that rev_image_eqI)
qed

text \<open>The anchor of a replay.\<close>

lemma replay_anchor_legacy:
  assumes "replay_anchor X rk l = Inr (Legacy_anchor l')"
  obtains lg where "l' = l" "decode_legacy_state X rk l = Inr lg"
    "lg_kind lg = record_kind_identity" "keys_are (lg_fields lg) [1, 2]" "lg_payload lg = []"
    "\<not> is_ok (decode_multisignature_envelope X l)"
  using assms by (cases "decode_multisignature_envelope X l")
    (auto simp: replay_anchor_def bindE_Inr if_raise_Inr)

lemma replay_anchor_genesis:
  "(replay_anchor X rk b = Inr (Replayed s)) =
     (validate_multisignature_genesis X rk b = Inr s \<and> ms_record_kind s = record_kind_identity)"
  (is "?L = ?R")
proof
  assume l: ?L
  then obtain e u a where "decode_multisignature_envelope X b = Inr e"
    "decode_multisignature_signed_update X (env_update e) = Inr (u, a)"
    and kind: "record_kind a = record_kind_identity"
    and g: "validate_multisignature_genesis X rk b = Inr s"
    by (auto simp: replay_anchor_def bindE_Inr if_raise_Inr split: sum.splits)
  moreover from g obtain c where c: "decode_multisignature_candidate X b = Inr c"
    using genesis_candidate by blast
  ultimately have "c_auth c = a" using candidate_Inr [OF c] by simp
  with kind g show ?R by (simp add: genesis_Inr [OF c] state_of_def)
next
  assume r: ?R
  then obtain c where c: "decode_multisignature_candidate X b = Inr c"
    using genesis_candidate by blast
  with r show ?L
    using candidate_Inr [OF c]
    by (auto simp: replay_anchor_def bindE_Inr if_raise_Inr genesis_Inr [OF c] state_of_def)
qed

lemma accepted_history_facts:
  assumes "accepted_history X rk h s"
  shows "wf_state X s \<and> ms_record_key s = rk \<and> ms_record_kind s = record_kind_identity \<and>
    ms_history s = Some h"
  using assms
proof induction
  case (genesis b s)
  then obtain c where c: "decode_multisignature_candidate X b = Inr c"
    using genesis_candidate by blast
  with genesis have s: "s = state_of X rk c (Some [b])" "c_key c = rk"
    "record_kind (c_auth c) = record_kind_identity"
    by (simp_all add: genesis_Inr [OF c] state_of_def)
  then show ?case using state_of_wf [OF c s(2)] by (simp add: state_of_def)
next
  case (upgrade l b s)
  then show ?case
    by (elim upgrade_Inr replay_anchor_legacy)
      (auto simp: state_of_wf, auto simp: state_of_def)
next
  case (rotation l b s)
  then show ?case
    by (elim legacy_rotation_Inr)
      (auto simp: validate_owner_rotation_invariants_def bindE_Inr if_raise_Inr intro!: state_of_wf,
       auto simp: state_of_def)
next
  case (step h s b s')
  then show ?case
    using msig_step_facts(1,3) [OF step.hyps(2)] msig_step_kind [OF step.hyps(2)]
      msig_step_history [OF step.hyps(2)] by auto
qed

lemma replay_loop_append:
  "replay_loop X rk r (es @ [e]) =
     bindE (replay_loop X rk r es) (\<lambda>r'. bindE (replay_step X rk r' e) (\<lambda>s. Inr (Replayed s)))"
  by (induction es arbitrary: r) (simp_all add: bindE_assoc)

lemma replay_loop_legacy:
  "replay_loop X rk r es = Inr (Legacy_anchor l) \<Longrightarrow> es = [] \<and> r = Legacy_anchor l"
  by (induction es rule: rev_induct) (auto simp: replay_loop_append bindE_Inr)

lemma legacy_step_Inr:
  assumes "replay_step X rk (Legacy_anchor l) b = Inr s"
  shows "validate_multisignature_upgrade X rk b l = Inr s \<or>
    validate_owner_rotation_from_legacy X rk b l = Inr s"
  using assms by (auto simp: replay_step_def bindE_Inr Let_def split: if_splits)

lemma legacy_step_upgrade:
  assumes "validate_multisignature_upgrade X rk b l = Inr s"
  shows "replay_step X rk (Legacy_anchor l) b = Inr s"
  using assms by (rule upgrade_Inr) (use assms in \<open>simp add: replay_step_def\<close>)

lemma legacy_step_rotation:
  assumes "validate_owner_rotation_from_legacy X rk b l = Inr s"
  shows "replay_step X rk (Legacy_anchor l) b = Inr s"
proof -
  obtain c where "decode_multisignature_candidate X b = Inr c"
    "operation (c_auth c) = operation_owner_key_rotation"
    using assms by (rule legacy_rotation_Inr)
      (auto simp: validate_owner_rotation_invariants_def bindE_Inr if_raise_Inr)
  with assms show ?thesis by (simp add: replay_step_def wire_constants)
qed

lemma replay_sound:
  assumes "replay_anchor X rk first = Inr r"
  shows "replay_loop X rk r es = Inr (Replayed s) \<Longrightarrow> accepted_history X rk (first # es) s"
proof (induction es arbitrary: s rule: rev_induct)
  case Nil
  with assms show ?case by (auto simp: replay_anchor_genesis intro: accepted_history.genesis)
next
  case (snoc e es)
  then obtain r' where r': "replay_loop X rk r es = Inr r'" and s: "replay_step X rk r' e = Inr s"
    by (auto simp: replay_loop_append bindE_Inr)
  show ?case
  proof (cases r')
    case (Legacy_anchor l)
    with r' assms have "es = []" and a: "replay_anchor X rk first = Inr (Legacy_anchor l)"
      by (auto dest: replay_loop_legacy)
    moreover from a have "l = first" by (rule replay_anchor_legacy)
    ultimately show ?thesis
      using legacy_step_Inr s Legacy_anchor accepted_history.upgrade accepted_history.rotation
      by fastforce
  next
    case (Replayed s0)
    with snoc.IH r' have acc: "accepted_history X rk (first # es) s0" by simp
    then have "msig_step X rk s0 e s"
      using s Replayed replay_step_iff accepted_history_facts by blast
    with acc show ?thesis using accepted_history.step by fastforce
  qed
qed

lemma replay_complete:
  assumes "accepted_history X rk h s"
  shows "\<exists>first es r. h = first # es \<and> replay_anchor X rk first = Inr r \<and>
    replay_loop X rk r es = Inr (Replayed s)"
  using assms
proof induction
  case (genesis b s)
  then show ?case by (auto simp: replay_anchor_genesis intro!: exI [of _ "Replayed s"])
next
  case (upgrade l b s)
  then show ?case by (auto simp: legacy_step_upgrade)
next
  case (rotation l b s)
  then show ?case by (auto simp: legacy_step_rotation)
next
  case (step h s b s')
  then obtain first es r where "h = first # es" "replay_anchor X rk first = Inr r"
    "replay_loop X rk r es = Inr (Replayed s)" by blast
  moreover have "replay_step X rk (Replayed s) b = Inr s'"
    using step accepted_history_facts replay_step_iff by blast
  ultimately show ?case by (auto simp: replay_loop_append)
qed

lemma history_iff:
  "(validate_multisignature_history X rk h = Inr s) = accepted_history X rk h s"
proof
  assume v: "validate_multisignature_history X rk h = Inr s"
  show "accepted_history X rk h s"
  proof (cases h)
    case Nil
    with v show ?thesis by (simp add: validate_multisignature_history_def)
  next
    case (Cons first es)
    with v obtain anchor r where r: "replay_anchor X rk first = Inr anchor"
      "replay_loop X rk anchor es = Inr r"
      by (auto simp: validate_multisignature_history_def bindE_Inr)
    with v Cons have "r = Replayed s"
      by (cases r) (auto simp: validate_multisignature_history_def split: if_splits)
    with r Cons show ?thesis by (auto intro: replay_sound)
  qed
next
  assume a: "accepted_history X rk h s"
  then obtain first es r where "h = first # es" "replay_anchor X rk first = Inr r"
    "replay_loop X rk r es = Inr (Replayed s)" using replay_complete by blast
  with accepted_history_facts [OF a] show "validate_multisignature_history X rk h = Inr s"
    by (simp add: validate_multisignature_history_def)
qed

end
