(* ===== verification/Histories.thy ===== *)
theory Histories
  imports Transitions
begin

text \<open>
  Accepted Identity histories as chains of envelopes: each envelope names the digest of the one
  before it, sequence numbers increase along the chain, replaying a longer history is replaying
  the shorter one and taking one step, and the head determines the whole chain.
\<close>

definition envelope_update :: "ext \<Rightarrow> bytes \<Rightarrow> bytes" where
  "envelope_update X e =
     (case decode_multisignature_envelope X e of
        Inr env \<Rightarrow> env_update env
      | Inl _ \<Rightarrow> (case decode_signed_envelope X e of Inr (upd, _) \<Rightarrow> upd | Inl _ \<Rightarrow> []))"

definition envelope_seq :: "ext \<Rightarrow> bytes \<Rightarrow> int" where
  "envelope_seq X e =
     (case decode_canonical_signed_update X (envelope_update X e) of
        Inr u \<Rightarrow> su_seq u | Inl _ \<Rightarrow> -1)"

definition names_predecessor :: "ext \<Rightarrow> bytes \<Rightarrow> bytes \<Rightarrow> bool" where
  "names_predecessor X e e' =
     (case decode_multisignature_candidate X e' of
        Inl _ \<Rightarrow> False
      | Inr c \<Rightarrow> predecessor (c_auth c) = sha256 X (envelope_update X e))"

lemma multisig_decodes_canonically:
  "decode_multisignature_signed_update X b = Inr (u, a) \<Longrightarrow> decode_canonical_signed_update X b = Inr u"
  by (auto simp: decode_multisignature_signed_update_def bindE_Inr split: option.splits)

lemma candidate_envelope:
  assumes "decode_multisignature_candidate X b = Inr c"
  shows "envelope_update X b = c_bytes c" and "envelope_seq X b = c_seq c"
  using candidate_Inr(1-3) [OF assms]
  by (simp_all add: envelope_update_def envelope_seq_def multisig_decodes_canonically)

lemma legacy_envelope:
  assumes "decode_legacy_state X rk l = Inr lg"
  shows "envelope_update X l = lg_update lg" and "envelope_seq X l = lg_seq lg"
    and "\<exists>u. decode_canonical_signed_update X (envelope_update X l) = Inr u \<and> su_auth u = None"
proof -
  obtain u sg where e: "decode_signed_envelope X l = Inr (lg_update lg, sg)"
    and u: "decode_canonical_signed_update X (lg_update lg) = Inr u" "su_auth u = None"
    "lg_seq lg = su_seq u"
    using legacy_state_Inr [OF assms] by blast
  have "\<exists>x. decode_multisignature_envelope X l = Inl x"
    using e envelope_shapes_exclusive by (cases "decode_multisignature_envelope X l") force+
  with e show upd: "envelope_update X l = lg_update lg" by (auto simp: envelope_update_def)
  with u show "envelope_seq X l = lg_seq lg"
    "\<exists>u. decode_canonical_signed_update X (envelope_update X l) = Inr u \<and> su_auth u = None"
    by (simp_all add: envelope_seq_def)
qed

lemma rotation_invariants_facts:
  assumes "validate_owner_rotation_invariants rk c pf pk n ph = Inr ()"
  shows "operation (c_auth c) = operation_owner_key_rotation"
    and "record_kind (c_auth c) = record_kind_identity" and "c_key c = rk"
    and "c_seq c = n + 1" and "predecessor (c_auth c) = ph"
  using assms by (auto simp: validate_owner_rotation_invariants_def bindE_Inr if_raise_Inr)

text \<open>The two ways a chain grows: from a legacy anchor, and from an accepted state.\<close>

lemma accepted_history_head:
  assumes "accepted_history X rk h s"
  shows "h \<noteq> [] \<and> envelope_update X (last h) = ms_update s \<and> envelope_seq X (last h) = ms_seq s"
  using assms
proof cases
  case (genesis b)
  then obtain c where c: "decode_multisignature_candidate X b = Inr c" using genesis_candidate by blast
  with genesis show ?thesis by (simp add: genesis_Inr [OF c] state_of_def candidate_envelope [OF c])
next
  case (upgrade l b)
  then show ?thesis by (elim upgrade_Inr) (simp add: candidate_envelope state_of_def)
next
  case (rotation l b)
  then show ?thesis by (elim legacy_rotation_Inr) (simp add: candidate_envelope state_of_def)
next
  case (step h' s0 b)
  have "envelope_update X b = ms_update s \<and> envelope_seq X b = ms_seq s"
    using step(3) by cases (simp_all add: candidate_envelope state_of_def)
  with step show ?thesis by simp
qed

lemma msig_step_link:
  assumes "msig_step X rk s b s'" "accepted_history X rk h s"
  shows "names_predecessor X (last h) b" and "envelope_seq X (last h) < envelope_seq X b"
proof -
  have "ms_state_hash s = sha256 X (ms_update s)"
    using accepted_history_facts [OF assms(2)] by (auto simp: wf_state_def)
  with msig_step_facts [OF assms(1)] accepted_history_head [OF assms(2)]
  show "names_predecessor X (last h) b" by (auto simp: names_predecessor_def)
  show "envelope_seq X (last h) < envelope_seq X b"
    using accepted_history_head [OF assms(2)] accepted_history_head [OF accepted_history.step [OF assms(2,1)]]
      msig_step_facts(4) [OF assms(1)] by simp
qed

lemma legacy_link:
  assumes "replay_anchor X rk l = Inr (Legacy_anchor l)"
    and "validate_multisignature_upgrade X rk b l = Inr s \<or>
         validate_owner_rotation_from_legacy X rk b l = Inr s"
  shows "names_predecessor X l b" and "envelope_seq X l < envelope_seq X b"
proof -
  have "names_predecessor X l b \<and> envelope_seq X l < envelope_seq X b"
    using assms(2)
  proof
    assume "validate_multisignature_upgrade X rk b l = Inr s"
    then show ?thesis
      by (rule upgrade_Inr) (simp add: names_predecessor_def legacy_envelope candidate_envelope)
  next
    assume "validate_owner_rotation_from_legacy X rk b l = Inr s"
    then show ?thesis
      by (rule legacy_rotation_Inr)
        (auto simp: names_predecessor_def legacy_envelope candidate_envelope
          dest: rotation_invariants_facts(4,5))
  qed
  then show "names_predecessor X l b" "envelope_seq X l < envelope_seq X b" by simp_all
qed

lemma history_linked:
  assumes "accepted_history X rk h s"
  shows "successively (names_predecessor X) h \<and>
    successively (\<lambda>e e'. envelope_seq X e < envelope_seq X e') h"
  using assms
proof induction
  case (step h s b s')
  then show ?case
    using msig_step_link [OF step.hyps(2,1)] accepted_history_head [OF step.hyps(1)]
    by (simp add: successively_append_iff)
qed (auto dest: legacy_link)

lemma successively_less_sorted:
  fixes f :: "'a \<Rightarrow> int"
  shows "successively (\<lambda>x y. f x < f y) xs \<Longrightarrow> sorted_wrt (<) (map f xs)"
  by (induction xs rule: induct_list012) (auto simp: order.strict_trans)

subsection \<open>Growing a history is taking a step\<close>

lemma history_snoc_cases:
  assumes "accepted_history X rk (h @ [b]) s'"
  obtains (first) "h = []"
  | (anchored) l where "h = [l]" "replay_anchor X rk l = Inr (Legacy_anchor l)"
  | (grown) s where "accepted_history X rk h s" "msig_step X rk s b s'"
  using assms by cases auto

lemma history_extend_iff:
  assumes "accepted_history X rk h s"
  shows "accepted_history X rk (h @ [b]) s' =
    (validate_multisignature_update X rk b (Some s) None = Inr s')"
proof -
  note facts = accepted_history_facts [OF assms]
  have confirms: "history_confirms X rk s"
    using facts assms by (auto simp: history_confirms_def history_iff)
  have "accepted_history X rk (h @ [b]) s' = msig_step X rk s b s'"
  proof
    assume "accepted_history X rk (h @ [b]) s'"
    then show "msig_step X rk s b s'"
    proof (cases rule: history_snoc_cases)
      case first
      with accepted_history_head [OF assms] show ?thesis by simp
    next
      case (anchored l)
      with assms have "validate_multisignature_genesis X rk l = Inr s"
        by cases (auto dest: accepted_history_head)
      then obtain c where "decode_multisignature_candidate X l = Inr c"
        using genesis_candidate by blast
      with anchored(2) show ?thesis
        by (auto dest!: candidate_Inr(1) elim!: replay_anchor_legacy)
    next
      case (grown s0)
      then have "s0 = s" using assms by (simp add: history_iff [symmetric])
      with grown show ?thesis by simp
    qed
  next
    assume "msig_step X rk s b s'"
    with assms show "accepted_history X rk (h @ [b]) s'" by (rule accepted_history.step)
  qed
  with facts confirms show ?thesis by (simp add: update_from_state_iff)
qed

subsection \<open>The head determines the chain\<close>

definition replayed_prefix :: "ext \<Rightarrow> bytes \<Rightarrow> bytes list \<Rightarrow> bool" where
  "replayed_prefix X rk h =
     ((\<exists>s. accepted_history X rk h s) \<or>
      (\<exists>l. h = [l] \<and> replay_anchor X rk l = Inr (Legacy_anchor l)))"

text \<open>What the update at the head of a prefix says about the prefix.\<close>

definition update_auth :: "ext \<Rightarrow> bytes \<Rightarrow> auth_map option" where
  "update_auth X upd =
     (case decode_canonical_signed_update X upd of Inr u \<Rightarrow> su_auth u | Inl _ \<Rightarrow> None)"

lemma candidate_update_auth:
  assumes "decode_multisignature_candidate X b = Inr c"
  shows "update_auth X (envelope_update X b) = Some (c_auth c)"
proof -
  have d: "decode_multisignature_signed_update X (c_bytes c) = Inr (c_update c, c_auth c)"
    by (rule candidate_Inr(3) [OF assms])
  show ?thesis
    using multisig_decodes_canonically [OF d] decode_multisig_wf(2) [OF d]
    by (simp add: update_auth_def candidate_envelope [OF assms])
qed

lemma linked_update_auth:
  "names_predecessor X l b \<Longrightarrow> \<exists>a. update_auth X (envelope_update X b) = Some a \<and>
     predecessor a = sha256 X (envelope_update X l)"
  by (auto simp: names_predecessor_def candidate_update_auth split: sum.splits)

lemma replayed_prefix_cases:
  assumes "replayed_prefix X rk h"
  obtains (legacy) l where "h = [l]" "update_auth X (envelope_update X l) = None"
  | (genesis) b a where "h = [b]" "update_auth X (envelope_update X b) = Some a"
      "operation a = operation_genesis"
  | (linked) h' b a where "h = h' @ [b]" "replayed_prefix X rk h'" "h' \<noteq> []"
      "update_auth X (envelope_update X b) = Some a" "operation a \<noteq> operation_genesis"
      "predecessor a = sha256 X (envelope_update X (last h'))"
proof (cases "\<exists>s. accepted_history X rk h s")
  case False
  with assms obtain l where l: "h = [l]" "replay_anchor X rk l = Inr (Legacy_anchor l)"
    by (auto simp: replayed_prefix_def)
  then obtain lg where "decode_legacy_state X rk l = Inr lg" by (auto elim: replay_anchor_legacy)
  with l(1) show thesis using legacy_envelope(3) legacy by (fastforce simp: update_auth_def)
next
  case True
  then obtain s where "accepted_history X rk h s" ..
  then show thesis
  proof cases
    case (genesis b)
    then obtain c where c: "decode_multisignature_candidate X b = Inr c"
      using genesis_candidate by blast
    show thesis using genesis candidate_update_auth [OF c]
      by (intro that(2)) (auto simp: genesis_Inr [OF c])
  next
    case (upgrade l b)
    then obtain c where c: "decode_multisignature_candidate X b = Inr c"
      "operation (c_auth c) = operation_upgrade" by (auto elim: upgrade_Inr)
    with upgrade candidate_update_auth [OF c(1)] linked_update_auth [OF legacy_link(1), of X rk l b s]
    show thesis
      by (intro that(3) [of "[l]" b]) (auto simp: replayed_prefix_def wire_constants)
  next
    case (rotation l b)
    then obtain c where c: "decode_multisignature_candidate X b = Inr c"
      "operation (c_auth c) = operation_owner_key_rotation"
      by (auto elim!: legacy_rotation_Inr dest: rotation_invariants_facts(1))
    with rotation candidate_update_auth [OF c(1)] linked_update_auth [OF legacy_link(1), of X rk l b s]
    show thesis
      by (intro that(3) [of "[l]" b]) (auto simp: replayed_prefix_def wire_constants)
  next
    case (step h0 s0 b)
    obtain c where c: "decode_multisignature_candidate X b = Inr c"
      "operation (c_auth c) \<noteq> operation_genesis"
      using step(3) by cases (auto simp: wire_constants)
    with step candidate_update_auth [OF c(1)] linked_update_auth [OF msig_step_link(1) [OF step(3,2)]]
    show thesis
      by (intro that(3) [of h0 b])
        (auto simp: replayed_prefix_def dest: accepted_history_head)
  qed
qed

lemma prefix_determined:
  assumes "sha256_injective_on X S"
  shows "replayed_prefix X rk h \<Longrightarrow> replayed_prefix X rk h' \<Longrightarrow>
    envelope_update X ` (set h \<union> set h') \<subseteq> S \<Longrightarrow>
    envelope_update X (last h) = envelope_update X (last h') \<Longrightarrow>
    map (envelope_update X) h = map (envelope_update X) h'"
proof (induction h arbitrary: h' rule: rev_induct)
  case Nil
  then show ?case by (auto elim: replayed_prefix_cases)
next
  case (snoc b hs)
  note outer = snoc
  from outer(2) show ?case
  proof (cases rule: replayed_prefix_cases)
    case (legacy l)
    with outer(5) show ?thesis by (cases rule: replayed_prefix_cases [OF outer(3)]) auto
  next
    case (genesis b' a)
    with outer(5) show ?thesis by (cases rule: replayed_prefix_cases [OF outer(3)]) auto
  next
    case (linked h0 b0 a)
    note l = linked
    from outer(3) show ?thesis
    proof (cases rule: replayed_prefix_cases)
      case (linked h1 b1 a1)
      with l outer(5) have "sha256 X (envelope_update X (last h0)) = sha256 X (envelope_update X (last h1))"
        by auto
      moreover have "envelope_update X (last h0) \<in> S" "envelope_update X (last h1) \<in> S"
        using outer(4) l linked by auto
      ultimately have "envelope_update X (last h0) = envelope_update X (last h1)"
        using assms by (auto simp: sha256_injective_on_def)
      then have "map (envelope_update X) h0 = map (envelope_update X) h1"
        using outer(1) [of h1] outer(4) l linked by auto
      with l linked outer(5) show ?thesis by auto
    qed (use l outer(5) in auto)
  qed
qed

end
