(* ===== verification/Record_Properties.thy ===== *)
theory Record_Properties
  imports Histories Samples
begin

text \<open>
  The properties of the record state machine of \<open>verification.py\<close>, each with a witness on the
  sample records where it has hypotheses.
\<close>

lemma wf_state_signers: "wf_state X s \<Longrightarrow> wf_signers (ms_signers s)"
  by (auto simp: wf_state_def wf_auth_def dest: decode_multisig_wf(3))

lemma sample_states_wf:
  "wf_state sample_ext (identity_state 12 1 1 1 signers_abc [[11], [13]])"
  "wf_state sample_ext (identity_state 14 1 2 1 signers_abc [[11], [13], [15]])"
  "wf_state sample_ext (identity_state 16 1 3 2 signers_abd [[11], [13], [15], [17]])"
  "accepted_history sample_ext identity_key [[11], [13], [15], [17]]
     (identity_state 16 1 3 2 signers_abd [[11], [13], [15], [17]])"
proof -
  show acc: "accepted_history sample_ext identity_key [[11], [13], [15], [17]]
     (identity_state 16 1 3 2 signers_abd [[11], [13], [15], [17]])"
    using sample_history(1) by (simp add: history_iff)
  have one: "accepted_history sample_ext identity_key [[11], [13]]
      (identity_state 12 1 1 1 signers_abc [[11], [13]])"
    by (rule accepted_history.upgrade [OF sample_anchor sample_upgrade])
  then have two: "accepted_history sample_ext identity_key ([[11], [13]] @ [[15]])
      (identity_state 14 1 2 1 signers_abc [[11], [13], [15]])"
    using sample_update(1) by (simp only: history_extend_iff)
  show "wf_state sample_ext (identity_state 12 1 1 1 signers_abc [[11], [13]])"
    "wf_state sample_ext (identity_state 14 1 2 1 signers_abc [[11], [13], [15]])"
    "wf_state sample_ext (identity_state 16 1 3 2 signers_abd [[11], [13], [15], [17]])"
    using accepted_history_facts [OF one] accepted_history_facts [OF two]
      accepted_history_facts [OF acc] by blast+
qed

lemma sample_provider_wf:
  "wf_state sample_ext (provider_state 32 1)" "wf_state sample_ext (provider_state 34 2)"
proof -
  obtain c where c: "decode_multisignature_candidate sample_ext [33] = Inr c"
    using sample_provider_candidates(1) by blast
  have "validate_multisignature_genesis sample_ext provider_key [33] = Inr (provider_state 32 1)"
    using sample_provider_genesis(1) sample_provider_candidates(1)
    by (simp add: validate_multisignature_envelope_def sample_defs split: if_splits)
  with c show w: "wf_state sample_ext (provider_state 32 1)"
    using state_of_wf [OF c] by (simp add: genesis_Inr [OF c])
  show "wf_state sample_ext (provider_state 34 2)"
    using sample_provider_withdrawal update_from_state_iff [OF w] msig_step_facts(1) by blast
qed

text \<open>
  C1: the dispatcher \<open>validate_multisignature_update\<close>, on a state that is what its own bytes
  say, accepts an envelope exactly when the step relation \<open>msig_step\<close> allows it, with the
  same successor, except that an owner-key rotation is also replayed: the history of the state
  must validate to that very state.
\<close>
theorem update_is_step:
  assumes "wf_state X s"
  shows "(validate_multisignature_update X rk b (Some s) None = Inr s') =
    (msig_step X rk s b s' \<and>
     (is_rotation X b \<longrightarrow>
        (\<exists>h v. ms_history s = Some h \<and> validate_multisignature_history X rk h = Inr v \<and>
           ms_state_hash v = ms_state_hash s \<and> ms_update v = ms_update s)))"
  using update_from_state_iff [OF assms] by (simp add: history_confirms_def)

theorem update_is_step_witness:
  "msig_step sample_ext identity_key (identity_state 12 1 1 1 signers_abc [[11], [13]]) [15]
     (identity_state 14 1 2 1 signers_abc [[11], [13], [15]])"
  using update_is_step [OF sample_states_wf(1), of identity_key "[15]"] sample_update(1) by blast

text \<open>
  C2: the replay of a complete Identity history (\<open>validate_multisignature_history\<close>) accepts
  exactly the runs of the state machine: a genesis, or a legacy anchor followed by an upgrade
  or by a rotation that the legacy owner signed, and then one step per envelope. The final
  comparison of the replayed history with the argument never fails.
\<close>
theorem history_is_run:
  "(validate_multisignature_history X rk h = Inr s) = accepted_history X rk h s"
  by (rule history_iff)

text \<open>
  Incremental acceptance and full replay agree. When a history has been accepted with
  state \<open>s\<close>, the history extended by one envelope is accepted with state \<open>s'\<close> exactly when
  the dispatcher takes \<open>s\<close> to \<open>s'\<close> on that envelope.
\<close>
lemma history_extends:
  assumes "validate_multisignature_history X rk h = Inr s"
  shows "(validate_multisignature_history X rk (h @ [b]) = Inr s') =
    (validate_multisignature_update X rk b (Some s) None = Inr s')"
  using assms by (simp add: history_iff history_extend_iff)

lemma history_extends_witness:
  "validate_multisignature_history sample_ext identity_key ([[11], [13], [15], [17]] @ [[19]]) =
     Inr (identity_state 18 2 4 2 signers_abd [[11], [13], [15], [17], [19]])"
  using history_extends [OF sample_history(1), of "[19]"] sample_rotation by blast

text \<open>
  An accepted history is a hash chain. Every envelope after the first names the digest of
  the update before it as its predecessor state, sequence numbers strictly increase, and the
  accepted state is the head: its update, its Seq and its history are the last envelope's
  update and Seq and the whole list.
\<close>
lemma history_is_hash_chain:
  assumes "validate_multisignature_history X rk h = Inr s"
  shows "successively (names_predecessor X) h \<and> sorted_wrt (<) (map (envelope_seq X) h) \<and>
    h \<noteq> [] \<and> envelope_update X (last h) = ms_update s \<and> envelope_seq X (last h) = ms_seq s \<and>
    ms_history s = Some h \<and> ms_record_key s = rk \<and> wf_state X s"
  using assms history_linked accepted_history_head accepted_history_facts
  by (simp add: history_iff successively_less_sorted)

lemma history_is_hash_chain_witness:
  "successively (names_predecessor sample_ext) [[11], [13], [15], [17]] \<and>
   sorted_wrt (<) (map (envelope_seq sample_ext) [[11], [13], [15], [17]])"
  using history_is_hash_chain [OF sample_history(1)] by blast

text \<open>
  C5: the head determines the history. Two accepted histories of one record whose states have
  the same state hash consist of the same signed updates, in the same order, as long as the
  digest is injective on the updates involved.
\<close>
theorem head_determines_history:
  assumes "validate_multisignature_history X rk h = Inr s"
    and "validate_multisignature_history X rk h' = Inr s'"
    and "ms_state_hash s = ms_state_hash s'"
    and "sha256_injective_on X (envelope_update X ` (set h \<union> set h'))"
  shows "map (envelope_update X) h = map (envelope_update X) h'"
proof (rule prefix_determined [OF assms(4), where rk = rk])
  have acc: "accepted_history X rk h s" "accepted_history X rk h' s'"
    using assms(1,2) by (simp_all add: history_iff)
  then show "replayed_prefix X rk h" "replayed_prefix X rk h'" by (auto simp: replayed_prefix_def)
  note heads = acc [THEN accepted_history_head]
  have "ms_state_hash s = sha256 X (ms_update s)" "ms_state_hash s' = sha256 X (ms_update s')"
    using acc [THEN accepted_history_facts] by (auto simp: wf_state_def)
  with heads assms(3) have
    "sha256 X (envelope_update X (last h)) = sha256 X (envelope_update X (last h'))"
    by simp
  with heads assms(4) show "envelope_update X (last h) = envelope_update X (last h')"
    unfolding sha256_injective_on_def by (meson UnCI image_eqI last_in_set)
qed simp

theorem head_determines_history_witness:
  "[[11 :: 8 word], [13], [15]] \<noteq> [[11], [13], [28]] \<and>
   map (envelope_update sample_ext) [[11], [13], [15]] =
   map (envelope_update sample_ext) [[11], [13], [28]]"
proof -
  have upd: "envelope_update sample_ext [11] = [10]" "envelope_update sample_ext [13] = [12]"
    "envelope_update sample_ext [15] = [14]" "envelope_update sample_ext [28] = [14]"
    using legacy_envelope(1) [OF legacy_identity_decodes]
    by (simp_all add: candidate_envelope(1) [OF sample_candidates(1)]
        candidate_envelope(1) [OF sample_candidates(2)]
        candidate_envelope(1) [OF sample_candidates(8)]) (simp_all add: sample_candidate_def)
  have "sha256_injective_on sample_ext
      (envelope_update sample_ext ` (set [[11], [13], [15]] \<union> set [[11], [13], [28]]))"
    by (simp add: upd sha256_injective_on_def)
  then show ?thesis
    using head_determines_history [OF sample_history(3,4)] by (simp add: identity_state_def)
qed

text \<open>
  C3: no update of a multisignature record is accepted without the authority of the state it
  extends. At least as many distinct keys of the current Signer Set as the current threshold
  have each signed the digest of the accepted update.
\<close>
theorem update_needs_current_quorum:
  assumes "wf_state X s" and "validate_multisignature_update X rk b (Some s) None = Inr s'"
  shows "\<exists>K \<subseteq> set (map snd (ms_signers s)). ms_threshold s \<le> int (card K) \<and>
    (\<forall>pk \<in> K. \<exists>sg. ed_verify X pk (sha256 X (ms_update s')) sg = Inr True)"
proof -
  have "msig_step X rk s b s'" using assms by (simp add: update_from_state_iff)
  then show ?thesis
    using msig_step_facts(5) quorum_keys wf_state_signers [OF assms(1)] by metis
qed

theorem update_needs_current_quorum_witness:
  "\<exists>K \<subseteq> {key 1, key 2, key 3}. 2 \<le> int (card K) \<and>
    (\<forall>pk \<in> K. \<exists>sg. ed_verify sample_ext pk (hash_of 16) sg = Inr True)"
  using update_needs_current_quorum [OF sample_states_wf(2) sample_update(2)]
  by (simp add: identity_state_def signers_abc_def)

text \<open>
  C4: what every accepted update of a multisignature record preserves. The successor is again
  the state its own bytes describe; it has the same key and kind, a larger Seq and an epoch
  that did not decrease; while the epoch stays the Signer Set and threshold stay; the owner
  changes exactly in an owner-key rotation, whose Seq is the successor of the old one.
\<close>
theorem update_preserves_record:
  assumes "wf_state X s" and "validate_multisignature_update X rk b (Some s) None = Inr s'"
  shows "wf_state X s' \<and> ms_record_key s' = ms_record_key s \<and>
    ms_record_kind s' = ms_record_kind s \<and> ms_seq s < ms_seq s' \<and> ms_epoch s \<le> ms_epoch s' \<and>
    (ms_epoch s' = ms_epoch s \<longrightarrow> ms_signers s' = ms_signers s \<and> ms_threshold s' = ms_threshold s) \<and>
    (ms_owner s' \<noteq> ms_owner s \<longleftrightarrow> is_rotation X b) \<and>
    (is_rotation X b \<longrightarrow> ms_seq s' = ms_seq s + 1 \<and> ms_epoch s' = ms_epoch s)"
proof -
  have step: "msig_step X rk s b s'" using assms by (simp add: update_from_state_iff)
  then show ?thesis
    using msig_step_facts(1-4) [OF step] msig_step_kind [OF step] msig_step_epoch(1,2) [OF step]
      msig_step_owner [OF step] by auto
qed

theorem update_preserves_record_witness:
  "is_rotation sample_ext [19] \<and>
   wf_state sample_ext (identity_state 18 2 4 2 signers_abd [[11], [13], [15], [17], [19]])"
  using update_preserves_record [OF sample_states_wf(3) sample_rotation]
  by (simp add: identity_state_def)

text \<open>
  A new Signer Set is always installed by the old one. When an accepted update changes the
  Signer Set, it raises the epoch, keeps the owner, and installs a complete 2-of-3 set.
\<close>
lemma signer_replacement_shape:
  assumes "wf_state X s" and "validate_multisignature_update X rk b (Some s) None = Inr s'"
    and "ms_signers s' \<noteq> ms_signers s"
  shows "ms_epoch s < ms_epoch s' \<and> ms_owner s' = ms_owner s \<and> ms_threshold s' = 2 \<and>
    length (ms_signers s') = 3 \<and> wf_signers (ms_signers s')"
proof -
  have step: "msig_step X rk s b s'" using assms by (simp add: update_from_state_iff)
  then have "ms_epoch s < ms_epoch s'"
    using assms(3) msig_step_epoch(1,2) by (metis order_le_less)
  then show ?thesis
    using msig_step_epoch(3) [OF step] wf_state_signers [OF msig_step_facts(1) [OF step]] by simp
qed

lemma signer_replacement_shape_witness:
  "ms_epoch (identity_state 14 1 2 1 signers_abc [[11], [13], [15]]) <
   ms_epoch (identity_state 16 1 3 2 signers_abd [[11], [13], [15], [17]])"
  using signer_replacement_shape [OF sample_states_wf(2) sample_update(2)]
  by (simp add: identity_state_def signers_abc_def signers_abd_def)

text \<open>
  C6: an ordinary update never leaves a withdrawn Provider state, not even towards an active
  payload. The only accepted update of a withdrawn state is a signer replacement, to an active
  payload.
\<close>
theorem withdrawn_left_only_by_replacement:
  assumes "wf_state X s" and "ms_record_kind s = record_kind_provider"
    and "state_payload X s = Inr p" and "is_withdrawn p"
    and "validate_multisignature_update X rk b (Some s) None = Inr s'"
  shows "ms_epoch s < ms_epoch s' \<and> ms_signers s' \<noteq> ms_signers s \<and>
    (\<exists>q. state_payload X s' = Inr q \<and> \<not> is_withdrawn q)"
proof -
  have "msig_step X rk s b s'" using assms by (simp add: update_from_state_iff)
  then show ?thesis
  proof cases
    case (replace c)
    then show ?thesis
      using assms(2-4) candidate_Inr(3) [OF replace(2)]
      by (auto simp: extends_state_def state_of_def state_payload_def)
  next
    case (rotate c h)
    then show ?thesis using assms(2)
      by (simp add: rotation_requires_legacy_anchor_def wire_constants)
  qed (use assms in auto)
qed

theorem withdrawn_left_only_by_replacement_witness:
  "\<exists>q. state_payload sample_ext ((provider_state 44 3)\<lparr>ms_epoch := 2, ms_signers := signers_abd\<rparr>) =
     Inr q \<and> \<not> is_withdrawn q"
proof -
  have "state_payload sample_ext (provider_state 34 2) =
      decode_provider_payload_dict sample_ext withdrawn_payload"
    by (simp add: state_payload_def provider_state_def sample_updates_of_states provider_update_def)
  then show ?thesis
    using withdrawn_left_only_by_replacement
      [OF sample_provider_wf(2) _ _ _ sample_reactivation]
    by (simp add: sample_payloads_ok) (simp add: provider_state_def wire_constants)
qed

text \<open>
  A genesis is accepted exactly when it is the record's own 2-of-3 constitution: the genesis
  operation at epoch 1 with the zero predecessor, for the key it derives, with a set of three
  signers, a threshold of two, and valid proofs by at least two of them. The state it installs
  is the one its bytes describe.
\<close>
lemma genesis_is_self_authorized:
  "(validate_multisignature_genesis X rk b = Inr s) =
    (\<exists>c. decode_multisignature_candidate X b = Inr c \<and> operation (c_auth c) = 1 \<and>
       epoch (c_auth c) = 1 \<and> predecessor (c_auth c) = zero_bytes 32 \<and> c_key c = rk \<and>
       threshold (c_auth c) = 2 \<and> length (signer_set (c_auth c)) = 3 \<and>
       quorum X (c_bytes c) (signer_set (c_auth c)) 2 (c_proofs c) \<and>
       s = state_of X rk c (Some [b]))"
proof (cases "decode_multisignature_candidate X b")
  case (Inl e)
  then show ?thesis by (simp add: validate_multisignature_genesis_def)
next
  case (Inr c)
  then show ?thesis by (simp add: genesis_Inr [OF Inr] operation_genesis_def)
qed

text \<open>
  C7: an upgrade carries a legacy record over to multisignature without changing hands. The
  legacy envelope verifies under its own owner key; the new state keeps that key as the owner,
  has a larger Seq, names the legacy update's digest, and starts a complete 2-of-3 set that
  contains the owner; and the same owner key signed the upgrade.
\<close>
theorem upgrade_keeps_owner:
  assumes "validate_multisignature_upgrade X rk b l = Inr s"
  shows "\<exists>lg sg. decode_legacy_state X rk l = Inr lg \<and> ms_owner s = lg_owner lg \<and>
    ms_record_kind s = lg_kind lg \<and> lg_seq lg < ms_seq s \<and> ms_epoch s = 1 \<and>
    ms_threshold s = 2 \<and> length (ms_signers s) = 3 \<and> lg_owner lg \<in> set (map snd (ms_signers s)) \<and>
    names_predecessor X l b \<and> ed_verify X (lg_owner lg) (sha256 X (ms_update s)) sg = Inr True \<and>
    wf_state X s \<and> ms_record_key s = rk"
  using assms
proof (rule upgrade_Inr)
  fix c lg
  assume c: "decode_multisignature_candidate X b = Inr c" "c_key c = rk"
    and lg: "decode_legacy_state X rk l = Inr lg" "lg_seq lg < c_seq c"
    and kind: "record_kind (c_auth c) = lg_kind lg"
    and auth: "epoch (c_auth c) = 1" "predecessor (c_auth c) = sha256 X (lg_update lg)"
      "threshold (c_auth c) = 2" "length (signer_set (c_auth c)) = 3"
    and fields: "dget (c_fields c) (owner_field (lg_kind lg)) =
      dget (lg_fields lg) (owner_field (lg_kind lg))"
    and proof_ok: "check_legacy_owner_proof X c (lg_owner lg) = Inr ()"
    and s: "s = state_of X rk c (Some [l, b])"
  have "dget (lg_fields lg) (owner_field (lg_kind lg)) = Some (PBytes (lg_owner lg))"
    using lg(1) by (rule legacy_state_Inr)
      (auto simp: extract_identity_Inr extract_provider_Inr wire_constants)
  then have owner: "c_owner c = lg_owner lg"
    using candidate_binding(2) [OF c(1)] kind fields by simp
  obtain p where p: "c_proofs c = [p]"
    using proof_ok by (auto simp: check_legacy_owner_proof_def split: list.splits)
  then have signed: "verify_ed25519_signature X (lg_owner lg) (c_bytes c) (snd p) = Inr True"
    and "\<exists>i. signer_id_for_public_key (c_auth c) (lg_owner lg) = Inr i"
    using proof_ok by (auto simp: check_legacy_owner_proof_def bindE_Inr if_raise_Inr wrapE_Inr)
  then have "filter (\<lambda>e. snd e = lg_owner lg) (signer_set (c_auth c)) \<noteq> []"
    by (auto simp: signer_id_for_public_key_def)
  then have "lg_owner lg \<in> set (map snd (signer_set (c_auth c)))"
    by (auto simp: filter_empty_conv intro: rev_image_eqI)
  moreover have "names_predecessor X l b"
    using auth(2) by (simp add: names_predecessor_def c(1) legacy_envelope(1) [OF lg(1)])
  moreover have "wf_state X s" using state_of_wf [OF c] by (simp add: s)
  ultimately show ?thesis
    using lg kind auth owner signed
    by (auto simp: s state_of_def verify_ed25519_signature_def)
qed

theorem upgrade_keeps_owner_witness:
  "names_predecessor sample_ext [11] [13] \<and>
   wf_state sample_ext (identity_state 12 1 1 1 signers_abc [[11], [13]])"
  using upgrade_keeps_owner [OF sample_upgrade] by blast

text \<open>
  The first owner-key rotation of a legacy Identity is the legacy owner's own act. The new
  state keeps the name (hence the key) and takes exactly the next Seq; the new owner differs
  from the old one and is in the new 2-of-3 set; and the update's digest carries exactly one
  proof, anonymous and valid under the old owner's key.
\<close>
lemma legacy_rotation_by_old_owner:
  assumes "validate_owner_rotation_from_legacy X rk b l = Inr s"
  shows "\<exists>lg. decode_legacy_state X rk l = Inr lg \<and> lg_kind lg = record_kind_identity \<and>
    ms_owner s \<noteq> lg_owner lg \<and> ms_owner s \<in> set (map snd (ms_signers s)) \<and>
    ms_seq s = lg_seq lg + 1 \<and> ms_epoch s = 1 \<and> ms_threshold s = 2 \<and> length (ms_signers s) = 3 \<and>
    names_predecessor X l b \<and>
    (\<exists>sg. ed_verify X (lg_owner lg) (sha256 X (ms_update s)) sg = Inr True) \<and>
    wf_state X s \<and> ms_record_key s = rk"
  using assms
proof (rule legacy_rotation_Inr)
  fix c lg sg
  assume c: "decode_multisignature_candidate X b = Inr c"
    and lg: "decode_legacy_state X rk l = Inr lg" "lg_kind lg = record_kind_identity"
    and inv: "validate_owner_rotation_invariants rk c (lg_fields lg) rk (lg_seq lg)
       (sha256 X (lg_update lg)) = Inr ()"
    and auth: "epoch (c_auth c) = 1" "threshold (c_auth c) = 2" "length (signer_set (c_auth c)) = 3"
      "c_owner c \<in> set (map snd (signer_set (c_auth c)))"
    and sg: "verify_ed25519_signature X (lg_owner lg) (c_bytes c) sg = Inr True"
    and s: "s = state_of X rk c (Some [l, b])"
  note facts = rotation_invariants_facts [OF inv]
  have "dget (lg_fields lg) 2 = Some (PBytes (lg_owner lg))"
    using lg by (auto elim!: legacy_state_Inr simp: extract_identity_Inr wire_constants)
  moreover have "dget (c_fields c) 2 = Some (PBytes (c_owner c))"
    using candidate_binding(2) [OF c] facts(2) by simp
  ultimately have "c_owner c \<noteq> lg_owner lg"
    using inv by (auto simp: validate_owner_rotation_invariants_def bindE_Inr if_raise_Inr dsub_def
        getE_Inr)
  moreover have "names_predecessor X l b"
    using facts(5) by (simp add: names_predecessor_def c legacy_envelope(1) [OF lg(1)])
  moreover have "wf_state X s" using state_of_wf [OF c facts(3)] by (simp add: s)
  ultimately show ?thesis
    using lg auth sg facts by (auto simp: s state_of_def verify_ed25519_signature_def)
qed

lemma legacy_rotation_by_old_owner_witness:
  "names_predecessor sample_ext [11] [21] \<and>
   wf_state sample_ext (identity_state 20 2 1 1 signers_abc [[11], [21]])"
  using legacy_rotation_by_old_owner [OF sample_rotation_from_legacy] by blast

text \<open>
  Without its history, no Identity envelope is accepted except a genesis; every other
  envelope accepted on its own is a Provider's, carries no history, and is signed by a quorum of
  the Signer Set it declares itself or, for an upgrade, by its owner.
\<close>
lemma lone_envelope:
  assumes "validate_multisignature_envelope X rk b = Inr s"
  shows "validate_multisignature_genesis X rk b = Inr s \<or>
    (ms_record_kind s = record_kind_provider \<and> ms_history s = None \<and> wf_state X s \<and>
     ms_record_key s = rk \<and>
     ((\<exists>ps. quorum X (ms_update s) (ms_signers s) (ms_threshold s) ps) \<or>
      (\<exists>sg. ed_verify X (ms_owner s) (sha256 X (ms_update s)) sg = Inr True)))"
proof -
  from assms obtain c where c: "decode_multisignature_candidate X b = Inr c"
    by (auto simp: validate_multisignature_envelope_def bindE_Inr)
  have key: "c_key c = rk"
    using assms c by (auto simp: validate_multisignature_envelope_def Let_def split: if_splits)
  show ?thesis
  proof (cases "operation (c_auth c) = operation_genesis")
    case True
    then show ?thesis using assms c by (simp add: validate_multisignature_envelope_def key)
  next
    case False
    then have not_id: "record_kind (c_auth c) \<noteq> record_kind_identity"
      using assms c key
      by (auto simp: validate_multisignature_envelope_def Let_def wire_constants split: if_splits)
    then have kind: "record_kind (c_auth c) = record_kind_provider"
      using candidate_binding(1) [OF c] by (simp add: record_binding_def)
    have owner: "dget (c_fields c) 1 = Some (PBytes (c_owner c))"
      using candidate_binding(2) [OF c] not_id by simp
    have "s = state_of X rk c None \<and>
      (quorum X (c_bytes c) (signer_set (c_auth c)) (threshold (c_auth c)) (c_proofs c) \<or>
       check_legacy_owner_proof X c (c_owner c) = Inr ())"
      using assms False not_id owner
      by (auto simp: validate_multisignature_envelope_def Let_def c key bindE_Inr if_raise_Inr
          candidate_state_eq [OF c] validate_threshold_proofs_iff dsub_def split: if_splits)
    moreover have "\<exists>sg. verify_ed25519_signature X (c_owner c) (c_bytes c) sg = Inr True"
      if "check_legacy_owner_proof X c (c_owner c) = Inr ()"
      using that by (auto simp: check_legacy_owner_proof_def bindE_Inr if_raise_Inr wrapE_Inr
          split: list.splits)
    ultimately show ?thesis
      using state_of_wf [OF c key, of None] kind
      by (auto simp: state_of_def verify_ed25519_signature_def wire_constants)
  qed
qed

lemma lone_envelope_witness:
  "validate_multisignature_genesis sample_ext provider_key [33] = Inr (provider_state 32 1) \<or>
   wf_state sample_ext (provider_state 32 1)"
  using lone_envelope [OF sample_provider_genesis(1)] by blast

end
