(* ===== verification/Record_Validator.thy ===== *)
theory Record_Validator
  imports Verification
begin

text \<open>
  \<open>record_validator.py\<close>: the stateless validator the registry and the DHT adapter call. It picks
  the legacy or the multisignature path by the shape of the envelope, rebuilds the current state
  from the existing envelope or from a supplied predecessor chain, and packages the result.
\<close>

definition is_multisignature_envelope :: "ext \<Rightarrow> bytes \<Rightarrow> bool" where
  "is_multisignature_envelope X envelope_cbor =
     (case cbor_loads X envelope_cbor of Inr (PDict d) \<Rightarrow> keys_are d [1, 2, 3] | _ \<Rightarrow> False)"

subsection \<open>Results\<close>

record authorization_metadata =
  am_version :: int
  am_operation :: int
  am_epoch :: int
  am_threshold :: int
  am_signers :: signers
  am_predecessor :: bytes
  am_state_hash :: bytes

record provider_withdrawn_result =
  pw_object_hash :: pstr
  pw_seq :: int
  pw_replacement :: "pstr option"
  pw_authorization :: "authorization_metadata option"
  pw_predecessor :: "bytes option"

record provider_record_result =
  pr_payload :: provider_payload_v3
  pr_seq :: int
  pr_authorization :: authorization_metadata

record identity_record_result =
  ir_record_key :: bytes
  ir_object_key_hex :: pstr
  ir_owner :: bytes
  ir_owner_name_hex :: pstr
  ir_seq :: int
  ir_authorization :: authorization_metadata

record provider_overwrite_result =
  po_record_key :: bytes
  po_object_hash_hex :: pstr
  po_owner :: bytes
  po_seq :: int
  po_authorization :: "authorization_metadata option"
  po_state :: "multisig_state option"

record identity_overwrite_result =
  io_record_key :: bytes
  io_object_key_hex :: pstr
  io_owner :: bytes
  io_owner_name_hex :: pstr
  io_seq :: int
  io_authorization :: "authorization_metadata option"
  io_state :: "multisig_state option"

text \<open>The unions the methods are annotated to return.\<close>

datatype provider_overwrite =
    Overwritten provider_overwrite_result
  | Withdrawal provider_withdrawn_result

datatype provider_get =
    Got_payload provider_payload_v3
  | Got_withdrawn provider_withdrawn_result
  | Got_record provider_record_result

datatype identity_get =
    Got_legacy_identity identity_overwrite_result
  | Got_identity identity_record_result

definition metadata_from_state :: "ext \<Rightarrow> multisig_state \<Rightarrow> authorization_metadata res" where
  "metadata_from_state X s =
     bindE (decode_multisignature_signed_update X (ms_update s)) (\<lambda>(_, a).
     Inr \<lparr>am_version = 1, am_operation = operation a, am_epoch = epoch a,
          am_threshold = threshold a, am_signers = ms_signers s,
          am_predecessor = predecessor a, am_state_hash = ms_state_hash s\<rparr>)"

definition metadata_to_dict :: "authorization_metadata \<Rightarrow> pyval" where
  "metadata_to_dict m = PDict
     [(PStr (lit ''version''), PInt (am_version m)),
      (PStr (lit ''operation''), PInt (am_operation m)),
      (PStr (lit ''epoch''), PInt (am_epoch m)),
      (PStr (lit ''threshold''), PInt (am_threshold m)),
      (PStr (lit ''signer_set''), PList (map (\<lambda>(signer_id, public_key). PDict
         [(PStr (lit ''signer_id''), PStr signer_id),
          (PStr (lit ''public_key''), PStr (bytes_hex public_key))]) (am_signers m))),
      (PStr (lit ''predecessor_state_hash''), PStr (bytes_hex (am_predecessor m))),
      (PStr (lit ''state_hash''), PStr (bytes_hex (am_state_hash m)))]"

definition withdrawn_to_dict :: "provider_withdrawn_result \<Rightarrow> pyval" where
  "withdrawn_to_dict r = PDict
     ([(PStr (lit ''status''), PStr withdrawn_str),
       (PStr (lit ''object_key''), PStr (pw_object_hash r)),
       (PStr (lit ''seq''), PInt (pw_seq r))] @
      (case pw_replacement r of None \<Rightarrow> []
       | Some h \<Rightarrow> [(PStr (lit ''replacement_object_key''), PStr h)]) @
      (case pw_authorization r of None \<Rightarrow> []
       | Some m \<Rightarrow> [(PStr (lit ''authorization''), metadata_to_dict m)]))"

definition provider_record_to_dict :: "provider_record_result \<Rightarrow> pyval" where
  "provider_record_to_dict r = PDict
     [(PStr (lit ''object_key''), PStr (v3_object_hash (pr_payload r))),
      (PStr (lit ''object_hash''), PStr (v3_object_hash (pr_payload r))),
      (PStr (lit ''alg''), PStr (v3_alg (pr_payload r))),
      (PStr (lit ''version''), PInt (v3_version (pr_payload r))),
      (PStr (lit ''provider_urls''), PList (map PStr (v3_provider_urls (pr_payload r)))),
      (PStr (lit ''endpoints''), PList (map PStr (v3_endpoints (pr_payload r)))),
      (PStr (lit ''seq''), PInt (pr_seq r)),
      (PStr (lit ''authorization''), metadata_to_dict (pr_authorization r))]"

definition identity_record_to_dict :: "identity_record_result \<Rightarrow> pyval" where
  "identity_record_to_dict r = PDict
     [(PStr (lit ''object_key''), PStr (ir_object_key_hex r)),
      (PStr (lit ''owner_name''), PStr (ir_owner_name_hex r)),
      (PStr (lit ''owner_public_key''), PStr (bytes_hex (ir_owner r))),
      (PStr (lit ''seq''), PInt (ir_seq r)),
      (PStr (lit ''authorization''), metadata_to_dict (ir_authorization r))]"

subsection \<open>The state an existing record stands for\<close>

text \<open>
  \<open>_extract_provider_prev_seq_state\<close> and \<open>_extract_identity_prev_seq_state\<close>: the owner field and
  Seq of the existing envelope, unverified; anything unreadable counts as no record.
\<close>

definition extract_prev_seq_state :: "ext \<Rightarrow> int \<Rightarrow> bytes \<Rightarrow> seq_state_entry option" where
  "extract_prev_seq_state X owner_fld existing =
     (case bindE (decode_signed_envelope X existing) (\<lambda>(upd, _).
             decode_canonical_signed_update X upd) of
        Inl _ \<Rightarrow> None
      | Inr u \<Rightarrow>
          (case dget (su_fields u) owner_fld of
             Some (PBytes owner) \<Rightarrow> Some \<lparr>ss_owner = owner, ss_seq = su_seq u\<rparr>
           | _ \<Rightarrow> None))"

definition extract_provider_prev_seq_state :: "ext \<Rightarrow> bytes \<Rightarrow> seq_state_entry option" where
  "extract_provider_prev_seq_state X existing = extract_prev_seq_state X 1 existing"

definition extract_identity_prev_seq_state :: "ext \<Rightarrow> bytes \<Rightarrow> seq_state_entry option" where
  "extract_identity_prev_seq_state X existing = extract_prev_seq_state X 2 existing"

definition require_history_ending_at :: "bytes list option \<Rightarrow> bytes \<Rightarrow> unit res" where
  "require_history_ending_at predecessor_chain envelope_cbor =
     (case predecessor_chain of
        None \<Rightarrow> Inl (Value_error ''predecessor history does not end at'')
      | Some chain \<Rightarrow>
          if chain = [] \<or> last chain \<noteq> envelope_cbor
          then Inl (Value_error ''predecessor history does not end at'') else Inr ())"

text \<open>\<open>bytes(d[k])\<close>.\<close>

definition field_bytes :: "pydict \<Rightarrow> int \<Rightarrow> bytes res" where
  "field_bytes d k = bindE (dsub d k) py_bytes"

text \<open>What a withdrawal demands of a legacy envelope it is offered against.\<close>

definition check_legacy_withdrawal_predecessor :: "ext \<Rightarrow> signed_update \<Rightarrow> bytes \<Rightarrow> unit res" where
  "check_legacy_withdrawal_predecessor X candidate_update existing =
     bindE (decode_signed_envelope X existing) (\<lambda>(existing_update_bytes, existing_signature).
     bindE (decode_canonical_signed_update X existing_update_bytes) (\<lambda>existing_update.
     bindE (decode_provider_payload_dict X (su_payload existing_update)) (\<lambda>existing_payload.
     bindE (field_bytes (su_fields existing_update) 1) (\<lambda>existing_owner.
     bindE (field_bytes (su_fields candidate_update) 1) (\<lambda>candidate_owner.
     bindE (verify_ed25519_signature X existing_owner existing_update_bytes existing_signature) (\<lambda>valid.
     if \<not> valid then Inl (Value_error ''invalid active predecessor signature'')
     else if existing_owner \<noteq> candidate_owner then Inl (Value_error ''owner collision'')
     else if is_withdrawn existing_payload then Inl Provider_already_withdrawn
     else Inr ()))))))"

text \<open>
  The first half of \<open>_validate_multisignature_transition\<close>: the current multisignature state,
  or the legacy envelope, that the candidate extends.
\<close>

definition transition_context ::
  "ext \<Rightarrow> bytes \<Rightarrow> signed_update \<Rightarrow> auth_map \<Rightarrow> provider_payload option \<Rightarrow> bytes option \<Rightarrow>
   bytes list option \<Rightarrow> (multisig_state option \<times> bytes option) res" where
  "transition_context X record_key cu ca cpayload existing predecessor_chain =
     (case existing of
        None \<Rightarrow> Inr (None, None)
      | Some ex \<Rightarrow>
          if is_multisignature_envelope X ex then
            (case predecessor_chain of
               Some chain \<Rightarrow>
                 bindE (require_history_ending_at predecessor_chain ex) (\<lambda>_.
                 bindE (validate_multisignature_history X record_key chain) (\<lambda>s.
                 Inr (Some s, None)))
             | None \<Rightarrow>
                 if operation ca = operation_owner_key_rotation
                 then Inl (Value_error ''complete predecessor history is required for owner rotation'')
                 else bindE (validate_multisignature_envelope X record_key ex) (\<lambda>s.
                   if record_kind ca = record_kind_identity \<and> ms_history s = None
                   then Inl (Value_error
                     ''complete predecessor history is required for Identity state'')
                   else Inr (Some s, None)))
          else bindE
            (case cpayload of
               Some (Withdrawn _) \<Rightarrow> check_legacy_withdrawal_predecessor X cu ex
             | _ \<Rightarrow> Inr ()) (\<lambda>_. Inr (None, Some ex)))"

definition validate_multisignature_transition ::
  "ext \<Rightarrow> bytes \<Rightarrow> bytes \<Rightarrow> bytes option \<Rightarrow> bytes list option \<Rightarrow> multisig_state res" where
  "validate_multisignature_transition X record_key envelope_cbor existing predecessor_chain =
     bindE (decode_multisignature_envelope X envelope_cbor) (\<lambda>candidate.
     bindE (decode_multisignature_signed_update X (env_update candidate)) (\<lambda>(cu, ca).
     bindE
       (if record_kind ca = record_kind_provider
        then bindE (decode_provider_payload_dict X (su_payload cu)) (\<lambda>p.
          if is_withdrawn p \<and> existing = None
          then Inl (Value_error ''a Provider withdrawal requires an active predecessor state'')
          else Inr (Some p))
        else Inr None) (\<lambda>cpayload.
     bindE (transition_context X record_key cu ca cpayload existing predecessor_chain)
       (\<lambda>(current_state, legacy).
     bindE (validate_multisignature_update X record_key envelope_cbor current_state legacy) (\<lambda>s.
     case cpayload of
       Some (Withdrawn _) \<Rightarrow>
         (case current_state of
            None \<Rightarrow> Inl (Value_error ''a Provider withdrawal requires a valid active predecessor'')
          | Some current \<Rightarrow>
              if ms_record_kind current \<noteq> record_kind_provider
              then Inl (Value_error ''a Provider withdrawal requires a valid active predecessor'')
              else bindE (state_payload X current) (\<lambda>p.
                if is_withdrawn p then Inl Provider_already_withdrawn else Inr s))
     | _ \<Rightarrow> Inr s)))))"

subsection \<open>Overwrites\<close>

text \<open>The multisignature branch of \<open>validate_provider_overwrite\<close>.\<close>

definition provider_overwrite_multisig ::
  "ext \<Rightarrow> bytes \<Rightarrow> bytes \<Rightarrow> bytes option \<Rightarrow> provider_overwrite res" where
  "provider_overwrite_multisig X record_key envelope_cbor existing =
     bindE (validate_multisignature_transition X record_key envelope_cbor existing None) (\<lambda>s.
     bindE (decode_multisignature_signed_update X (ms_update s)) (\<lambda>(u, _).
     bindE (decode_provider_payload_dict X (su_payload u)) (\<lambda>payload.
     bindE (dsub (su_fields u) 1) (\<lambda>owner_raw.
     if is_withdrawn payload then
       (case existing of
          None \<Rightarrow> Inl (Value_error ''a Provider withdrawal requires an active predecessor state'')
        | Some ex \<Rightarrow>
            bindE (decode_multisignature_envelope X ex) (\<lambda>ex_envelope.
            bindE (decode_multisignature_signed_update X (env_update ex_envelope)) (\<lambda>(current, _).
            bindE (decode_provider_payload_dict X (su_payload current)) (\<lambda>current_payload.
            if is_withdrawn current_payload then Inl Provider_already_withdrawn
            else bindE (field_bytes (su_fields current) 1) (\<lambda>current_owner.
            bindE (py_bytes owner_raw) (\<lambda>proposed_owner.
            if current_owner \<noteq> proposed_owner then Inl (Value_error ''owner binding mismatch'')
            else if su_seq u \<le> su_seq current
            then Inl (Value_error ''seq must be strictly increasing'')
            else bindE (metadata_from_state X s) (\<lambda>m.
            Inr (Withdrawal \<lparr>pw_object_hash = payload_object_hash payload, pw_seq = su_seq u,
                 pw_replacement = payload_replacement payload, pw_authorization = Some m,
                 pw_predecessor = Some ex\<rparr>))))))))
     else bindE (py_bytes owner_raw) (\<lambda>owner.
       bindE (metadata_from_state X s) (\<lambda>m.
       Inr (Overwritten \<lparr>po_record_key = record_key, po_object_hash_hex = payload_object_hash payload,
            po_owner = owner, po_seq = su_seq u, po_authorization = Some m,
            po_state = Some s\<rparr>)))))))"

text \<open>The checks of a legacy tombstone against the record it withdraws.\<close>

definition check_legacy_tombstone ::
  "ext \<Rightarrow> bytes \<Rightarrow> bytes \<Rightarrow> int \<Rightarrow> pstr \<Rightarrow> bytes \<Rightarrow> unit res" where
  "check_legacy_tombstone X record_key owner seq object_hash ex =
     bindE
       (if is_multisignature_envelope X ex then
          bindE (validate_multisignature_envelope X record_key ex) (\<lambda>existing_state.
          if ms_owner existing_state \<noteq> owner then Inl (Value_error ''owner binding mismatch'')
          else bindE (state_payload X existing_state) (\<lambda>p.
          if is_withdrawn p then Inl Provider_already_withdrawn
          else if seq \<le> ms_seq existing_state
          then Inl (Value_error ''seq must be strictly increasing'') else Inr ()))
        else
          bindE (decode_signed_envelope X ex) (\<lambda>(existing_bytes, existing_signature).
          bindE (decode_canonical_signed_update X existing_bytes) (\<lambda>existing_update.
          bindE (field_bytes (su_fields existing_update) 1) (\<lambda>existing_owner.
          bindE (verify_ed25519_signature X existing_owner existing_bytes existing_signature) (\<lambda>valid.
          if \<not> valid \<or> existing_owner \<noteq> owner
          then Inl (Value_error ''invalid or mismatched active predecessor owner'')
          else bindE (decode_provider_payload_dict X (su_payload existing_update)) (\<lambda>p.
          if is_withdrawn p then Inl Provider_already_withdrawn
          else if payload_object_hash p \<noteq> object_hash
          then Inl (Value_error ''active predecessor Object Hash does not match'')
          else if seq \<le> su_seq existing_update
          then Inl (Value_error ''seq must be strictly increasing'') else Inr ()))))))
       (\<lambda>_. bindE (fromhex object_hash) (\<lambda>k.
       if k \<noteq> record_key then Inl (Value_error ''lookup-key mismatch'') else Inr ()))"

definition seq_state_of :: "bytes \<Rightarrow> seq_state_entry option \<Rightarrow> seq_state" where
  "seq_state_of record_key prev =
     (case prev of None \<Rightarrow> Map.empty | Some p \<Rightarrow> [record_key \<mapsto> p])"

definition provider_overwrite_legacy ::
  "ext \<Rightarrow> bytes \<Rightarrow> bytes \<Rightarrow> bytes option \<Rightarrow> provider_overwrite res" where
  "provider_overwrite_legacy X record_key envelope_cbor existing =
     (if existing \<noteq> None \<and> is_multisignature_envelope X (the existing)
      then Inl (Value_error ''legacy writes are rejected after multisignature upgrade'')
      else
        let prev = (case existing of None \<Rightarrow> None | Some ex \<Rightarrow> extract_provider_prev_seq_state X ex) in
        bindE (decode_signed_envelope X envelope_cbor) (\<lambda>(upd, signature).
        bindE (validate_signed_update_overwrite X record_key upd signature
                 (seq_state_of record_key prev) False) (\<lambda>_.
        bindE (decode_canonical_signed_update X upd) (\<lambda>u.
        bindE (getE (Value_error ''unrecognized provider record_fields'') (dget (su_fields u) 1))
          (\<lambda>owner_raw.
        bindE (want_bytes (Value_error ''provider owner_public_key must be bytes'') owner_raw) (\<lambda>owner.
        bindE (decode_provider_payload_dict X (su_payload u)) (\<lambda>payload.
        if is_withdrawn payload then
          (case existing of
             None \<Rightarrow> Inl (Value_error ''a Provider withdrawal requires an active predecessor state'')
           | Some ex \<Rightarrow>
               bindE (check_legacy_tombstone X record_key owner (su_seq u)
                        (payload_object_hash payload) ex) (\<lambda>_.
               Inr (Withdrawal \<lparr>pw_object_hash = payload_object_hash payload, pw_seq = su_seq u,
                    pw_replacement = payload_replacement payload, pw_authorization = None,
                    pw_predecessor = Some ex\<rparr>)))
        else Inr (Overwritten \<lparr>po_record_key = record_key,
               po_object_hash_hex = payload_object_hash payload, po_owner = owner,
               po_seq = su_seq u, po_authorization = None, po_state = None\<rparr>))))))))"

definition validate_provider_overwrite ::
  "ext \<Rightarrow> bytes \<Rightarrow> bytes \<Rightarrow> bytes option \<Rightarrow> provider_overwrite res" where
  "validate_provider_overwrite X record_key envelope_cbor existing =
     (if is_multisignature_envelope X envelope_cbor
      then provider_overwrite_multisig X record_key envelope_cbor existing
      else provider_overwrite_legacy X record_key envelope_cbor existing)"

text \<open>The two fields of an Identity update that has just been validated.\<close>

definition identity_owner_fields :: "signed_update \<Rightarrow> (bytes \<times> bytes) res" where
  "identity_owner_fields u =
     (case (dget (su_fields u) 1, dget (su_fields u) 2) of
        (Some (PBytes name), Some (PBytes pk)) \<Rightarrow> Inr (name, pk)
      | (Some (PBytes name), _) \<Rightarrow> Inl (Value_error ''identity owner_public_key must be bytes'')
      | _ \<Rightarrow> Inl (Value_error ''identity owner_name must be bytes''))"

definition legacy_identity_result :: "bytes \<Rightarrow> signed_update \<Rightarrow> identity_overwrite_result res" where
  "legacy_identity_result record_key u =
     bindE (identity_owner_fields u) (\<lambda>(name, pk).
     Inr \<lparr>io_record_key = record_key, io_object_key_hex = bytes_hex record_key, io_owner = pk,
          io_owner_name_hex = bytes_hex name, io_seq = su_seq u, io_authorization = None,
          io_state = None\<rparr>)"

definition validate_identity_overwrite ::
  "ext \<Rightarrow> bytes \<Rightarrow> bytes \<Rightarrow> bytes option \<Rightarrow> bytes list option \<Rightarrow> identity_overwrite_result res" where
  "validate_identity_overwrite X record_key envelope_cbor existing predecessor_chain =
     (if is_multisignature_envelope X envelope_cbor then
        bindE (validate_multisignature_transition X record_key envelope_cbor existing
                 predecessor_chain) (\<lambda>s.
        bindE (decode_multisignature_signed_update X (ms_update s)) (\<lambda>(u, _).
        bindE (dsub (su_fields u) 1) (\<lambda>name_raw. bindE (dsub (su_fields u) 2) (\<lambda>pk_raw.
        bindE (py_bytes pk_raw) (\<lambda>pk. bindE (py_bytes name_raw) (\<lambda>name.
        bindE (metadata_from_state X s) (\<lambda>m.
        Inr \<lparr>io_record_key = record_key, io_object_key_hex = bytes_hex record_key, io_owner = pk,
             io_owner_name_hex = bytes_hex name, io_seq = su_seq u, io_authorization = Some m,
             io_state = Some s\<rparr>)))))))
      else if existing \<noteq> None \<and> is_multisignature_envelope X (the existing)
      then Inl (Value_error ''legacy writes are rejected after multisignature upgrade'')
      else
        let prev = (case existing of None \<Rightarrow> None | Some ex \<Rightarrow> extract_identity_prev_seq_state X ex) in
        bindE (decode_signed_envelope X envelope_cbor) (\<lambda>(upd, signature).
        bindE (validate_signed_update_overwrite X record_key upd signature
                 (seq_state_of record_key prev) False) (\<lambda>_.
        bindE (decode_canonical_signed_update X upd) (legacy_identity_result record_key))))"

subsection \<open>Reads\<close>

definition validate_legacy_provider_withdrawal ::
  "ext \<Rightarrow> bytes \<Rightarrow> bytes \<Rightarrow> bytes option \<Rightarrow> provider_withdrawn_result res" where
  "validate_legacy_provider_withdrawal X record_key envelope_cbor existing =
     bindE (decode_signed_envelope X envelope_cbor) (\<lambda>(upd, signature).
     bindE (validate_signed_update_overwrite X record_key upd signature Map.empty False) (\<lambda>_.
     bindE (decode_canonical_signed_update X upd) (\<lambda>u.
     bindE (decode_provider_payload_dict X (su_payload u)) (\<lambda>decoded.
     if \<not> is_withdrawn decoded then Inl (Value_error ''expected a Provider v2 tombstone'')
     else case existing of
       None \<Rightarrow> Inl (Value_error ''withdrawal lookup requires its validated active predecessor'')
     | Some ex \<Rightarrow>
         bindE (decode_signed_envelope X ex) (\<lambda>(ex_bytes, ex_signature).
         bindE (decode_canonical_signed_update X ex_bytes) (\<lambda>ex_update.
         if \<not> has_key (su_fields ex_update) 1
         then Inl (Value_error ''invalid active Provider predecessor'')
         else bindE (field_bytes (su_fields ex_update) 1) (\<lambda>ex_owner.
         bindE (field_bytes (su_fields u) 1) (\<lambda>tombstone_owner.
         bindE (decode_provider_payload_dict X (su_payload ex_update)) (\<lambda>ex_payload.
         if is_withdrawn ex_payload then Inl Provider_already_withdrawn
         else if ex_owner \<noteq> tombstone_owner
         then Inl (Value_error ''withdrawal owner does not match active predecessor'')
         else bindE (verify_ed25519_signature X ex_owner ex_bytes ex_signature) (\<lambda>valid.
         if \<not> valid then Inl (Value_error ''invalid active predecessor signature'')
         else if payload_object_hash ex_payload \<noteq> payload_object_hash decoded
         then Inl (Value_error ''active predecessor Object Hash does not match'')
         else bindE (fromhex (payload_object_hash decoded)) (\<lambda>k.
         if k \<noteq> record_key then Inl (Value_error ''lookup-key mismatch'')
         else if su_seq u \<le> su_seq ex_update
         then Inl (Value_error ''seq must be strictly increasing'')
         else Inr \<lparr>pw_object_hash = payload_object_hash decoded, pw_seq = su_seq u,
              pw_replacement = payload_replacement decoded, pw_authorization = None,
              pw_predecessor = existing\<rparr>))))))))))) "

definition validate_provider_get ::
  "ext \<Rightarrow> bytes \<Rightarrow> bytes \<Rightarrow> bytes option \<Rightarrow> provider_get res" where
  "validate_provider_get X record_key envelope_cbor existing =
     (if is_multisignature_envelope X envelope_cbor then
        bindE (decode_multisignature_envelope X envelope_cbor) (\<lambda>envelope.
        bindE (decode_multisignature_signed_update X (env_update envelope)) (\<lambda>(u, _).
        bindE (decode_provider_payload_dict X (su_payload u)) (\<lambda>payload.
        case payload of
          Withdrawn w \<Rightarrow>
            if existing = None
            then Inl (Value_error ''withdrawn Provider result requires a verified predecessor'')
            else bindE (validate_multisignature_transition X record_key envelope_cbor existing None)
              (\<lambda>s. bindE (metadata_from_state X s) (\<lambda>m.
              Inr (Got_withdrawn \<lparr>pw_object_hash = v2_object_hash w, pw_seq = su_seq u,
                   pw_replacement = v2_replacement w, pw_authorization = Some m,
                   pw_predecessor = existing\<rparr>)))
        | Active a \<Rightarrow>
            bindE (validate_multisignature_envelope X record_key envelope_cbor) (\<lambda>s.
            bindE (metadata_from_state X s) (\<lambda>m.
            Inr (Got_record \<lparr>pr_payload = a, pr_seq = su_seq u, pr_authorization = m\<rparr>))))))
      else
        bindE (decode_signed_envelope X envelope_cbor) (\<lambda>(upd, signature).
        bindE (decode_canonical_signed_update X upd) (\<lambda>u.
        bindE (decode_provider_payload_dict X (su_payload u)) (\<lambda>payload.
        case payload of
          Withdrawn w \<Rightarrow>
            if existing = None
            then Inl (Value_error ''withdrawn Provider result requires a verified predecessor'')
            else bindE (validate_legacy_provider_withdrawal X record_key envelope_cbor existing)
              (\<lambda>r. Inr (Got_withdrawn r))
        | Active a \<Rightarrow>
            bindE (validate_signed_update_overwrite X record_key upd signature Map.empty False)
              (\<lambda>_. Inr (Got_payload a))))))"

definition validate_identity_get ::
  "ext \<Rightarrow> bytes \<Rightarrow> bytes \<Rightarrow> bytes list option \<Rightarrow> identity_get res" where
  "validate_identity_get X record_key envelope_cbor predecessor_chain =
     (if is_multisignature_envelope X envelope_cbor then
        bindE
          (case predecessor_chain of
             Some chain \<Rightarrow>
               bindE (require_history_ending_at predecessor_chain envelope_cbor) (\<lambda>_.
               validate_multisignature_history X record_key chain)
           | None \<Rightarrow> validate_multisignature_envelope X record_key envelope_cbor) (\<lambda>s.
        if ms_record_kind s \<noteq> record_kind_identity then Inl (Value_error ''expected an Identity Record'')
        else if ms_history s = None
        then Inl (Value_error ''complete predecessor history is required for Identity state'')
        else bindE (decode_multisignature_signed_update X (ms_update s)) (\<lambda>(u, _).
        bindE (field_bytes (su_fields u) 2) (\<lambda>pk. bindE (field_bytes (su_fields u) 1) (\<lambda>name.
        bindE (metadata_from_state X s) (\<lambda>m.
        Inr (Got_identity \<lparr>ir_record_key = record_key, ir_object_key_hex = bytes_hex record_key,
             ir_owner = pk, ir_owner_name_hex = bytes_hex name, ir_seq = su_seq u,
             ir_authorization = m\<rparr>))))))
      else
        bindE (decode_signed_envelope X envelope_cbor) (\<lambda>(upd, signature).
        bindE (validate_signed_update_overwrite X record_key upd signature Map.empty False) (\<lambda>_.
        bindE (decode_canonical_signed_update X upd) (\<lambda>u.
        bindE (legacy_identity_result record_key u) (\<lambda>r. Inr (Got_legacy_identity r))))))"


subsection \<open>Helpers without a caller\<close>

text \<open>
  Four private methods of \<open>RecordValidator\<close> that nothing in the repository calls. The proofs of a
  tombstone are counted without looking for a signer that signed twice.
\<close>

fun verify_tombstone_proofs :: "ext \<Rightarrow> bytes \<Rightarrow> signers \<Rightarrow> proof_entry list \<Rightarrow> unit res" where
  "verify_tombstone_proofs X upd signers [] = Inr ()"
| "verify_tombstone_proofs X upd signers ((signer_id, signature) # proofs) =
     bindE (case signer_dict signers signer_id of
         None \<Rightarrow> Inr False
       | Some public_key \<Rightarrow> verify_ed25519_signature X public_key upd signature) (\<lambda>valid.
     if \<not> valid then Inl (Value_error ''invalid withdrawal proof'')
     else verify_tombstone_proofs X upd signers proofs)"

definition verify_provider_tombstone_signatures :: "ext \<Rightarrow> bytes \<Rightarrow> auth_map \<Rightarrow> unit res" where
  "verify_provider_tombstone_signatures X envelope_cbor a =
     bindE (decode_multisignature_envelope X envelope_cbor) (\<lambda>envelope.
     if record_kind a \<noteq> record_kind_provider
     then Inl (Value_error ''expected a Provider Record withdrawal'')
     else if int (length (env_proofs envelope)) < threshold a
     then Inl (Value_error ''insufficient quorum'')
     else verify_tombstone_proofs X (env_update envelope) (signer_set a) (env_proofs envelope))"

definition metadata_from_signed_update ::
  "ext \<Rightarrow> signed_update \<Rightarrow> auth_map \<Rightarrow> authorization_metadata res" where
  "metadata_from_signed_update X u a =
     bindE (canonical_cbor X (signed_update_py u)) (\<lambda>encoded.
     Inr \<lparr>am_version = scheme a, am_operation = operation a, am_epoch = epoch a,
          am_threshold = threshold a, am_signers = signer_set a,
          am_predecessor = predecessor a, am_state_hash = sha256 X encoded\<rparr>)"

definition metadata_from_envelope :: "ext \<Rightarrow> bytes \<Rightarrow> authorization_metadata res" where
  "metadata_from_envelope X envelope_cbor =
     bindE (decode_multisignature_envelope X envelope_cbor) (\<lambda>envelope.
     bindE (decode_multisignature_signed_update X (env_update envelope)) (\<lambda>(u, a).
     metadata_from_signed_update X u a))"

definition provider_payload_from_envelope :: "ext \<Rightarrow> bytes \<Rightarrow> pydict res" where
  "provider_payload_from_envelope X envelope_cbor =
     bindE
       (if is_multisignature_envelope X envelope_cbor
        then bindE (decode_multisignature_envelope X envelope_cbor) (\<lambda>envelope. Inr (env_update envelope))
        else bindE (decode_signed_envelope X envelope_cbor) (\<lambda>(upd, _). Inr upd)) (\<lambda>upd.
     bindE (decode_canonical_signed_update X upd) (\<lambda>u. Inr (su_payload u)))"

end
