(* ===== verification/Validator_Properties.thy ===== *)
theory Validator_Properties
  imports Record_Validator Histories Samples
begin

text \<open>
  The properties of the stateless validator of \<open>record_validator.py\<close>: no way back from the
  multisignature format, withdrawals only of active records, and Identity overwrites as
  extensions of an accepted history.
\<close>

fun overwrite_seq :: "provider_overwrite \<Rightarrow> int" where
  "overwrite_seq (Overwritten r) = po_seq r"
| "overwrite_seq (Withdrawal r) = pw_seq r"

fun overwrite_hash :: "provider_overwrite \<Rightarrow> pstr" where
  "overwrite_hash (Overwritten r) = po_object_hash_hex r"
| "overwrite_hash (Withdrawal r) = pw_object_hash r"

lemma decoded_is_multisig:
  "decode_multisignature_envelope X b = Inr e \<Longrightarrow> is_multisignature_envelope X b"
  by (auto elim!: decode_multisig_envelope_Inr simp: is_multisignature_envelope_def)

lemma metadata_of_wf:
  assumes "decode_multisignature_signed_update X (ms_update s) = Inr (u, a)"
  shows "metadata_from_state X s = Inr \<lparr>am_version = 1, am_operation = operation a, am_epoch = epoch a,
    am_threshold = threshold a, am_signers = ms_signers s, am_predecessor = predecessor a,
    am_state_hash = ms_state_hash s\<rparr>"
  using assms by (simp add: metadata_from_state_def)

text \<open>The two halves of a transition.\<close>

lemma transition_Inr:
  assumes "validate_multisignature_transition X rk b existing chain = Inr s"
  obtains e cu ca p cur legacy where "decode_multisignature_envelope X b = Inr e"
    "decode_multisignature_signed_update X (env_update e) = Inr (cu, ca)"
    "record_kind ca = record_kind_provider \<Longrightarrow>
       \<exists>q. p = Some q \<and> decode_provider_payload_dict X (su_payload cu) = Inr q"
    "record_kind ca \<noteq> record_kind_provider \<Longrightarrow> p = None"
    "transition_context X rk cu ca p existing chain = Inr (cur, legacy)"
    "validate_multisignature_update X rk b cur legacy = Inr s"
    "\<And>w. p = Some (Withdrawn w) \<Longrightarrow> \<exists>c q. cur = Some c \<and> ms_record_kind c = record_kind_provider \<and>
       state_payload X c = Inr q \<and> \<not> is_withdrawn q"
proof -
  from assms obtain e cu ca where e: "decode_multisignature_envelope X b = Inr e"
    and u: "decode_multisignature_signed_update X (env_update e) = Inr (cu, ca)"
    by (auto simp: validate_multisignature_transition_def bindE_Inr)
  from assms e u obtain p where
    p: "(if record_kind ca = record_kind_provider
        then bindE (decode_provider_payload_dict X (su_payload cu)) (\<lambda>p.
          if is_withdrawn p \<and> existing = None
          then Inl (Value_error ''a Provider withdrawal requires an active predecessor state'')
          else Inr (Some p))
        else Inr None) = Inr p"
    by (auto simp: validate_multisignature_transition_def bindE_Inr)
  with assms e u obtain cur legacy where
    ctx: "transition_context X rk cu ca p existing chain = Inr (cur, legacy)"
    by (auto simp: validate_multisignature_transition_def bindE_Inr)
  have rest: "validate_multisignature_update X rk b cur legacy = Inr s \<and>
      (case p of Some (Withdrawn w) \<Rightarrow> \<exists>c q. cur = Some c \<and>
         ms_record_kind c = record_kind_provider \<and> state_payload X c = Inr q \<and> \<not> is_withdrawn q
       | _ \<Rightarrow> True)"
  proof (cases p)
    case None
    with assms e u p ctx show ?thesis
      by (auto simp: validate_multisignature_transition_def bindE_Inr)
  next
    case (Some q)
    with assms e u p ctx show ?thesis
      by (cases q; cases cur)
        (auto simp: validate_multisignature_transition_def bindE_Inr if_raise_Inr)
  qed
  then have upd: "validate_multisignature_update X rk b cur legacy = Inr s"
    and w: "\<And>w. p = Some (Withdrawn w) \<Longrightarrow> \<exists>c q. cur = Some c \<and>
      ms_record_kind c = record_kind_provider \<and> state_payload X c = Inr q \<and> \<not> is_withdrawn q"
    by auto
  show thesis
    by (rule that [OF e u _ _ ctx upd w]) (use p in \<open>auto simp: bindE_Inr if_raise_Inr\<close>)
qed

lemma lone_wf:
  assumes "validate_multisignature_envelope X rk b = Inr s"
  shows "wf_state X s" and "ms_record_key s = rk"
    and "\<exists>c. decode_multisignature_candidate X b = Inr c \<and> ms_update s = c_bytes c"
    and "ms_record_kind s = record_kind_identity \<Longrightarrow>
      validate_multisignature_genesis X rk b = Inr s \<and> ms_history s = Some [b]"
proof -
  from assms obtain c where c: "decode_multisignature_candidate X b = Inr c"
    by (auto simp: validate_multisignature_envelope_def bindE_Inr)
  have key: "c_key c = rk"
    using assms c by (auto simp: validate_multisignature_envelope_def Let_def split: if_splits)
  have s: "\<exists>h. s = state_of X rk c h"
    using assms
    by (auto simp: validate_multisignature_envelope_def Let_def c key bindE_Inr if_raise_Inr
        candidate_state_eq [OF c] genesis_Inr [OF c] split: if_splits)
  then show "wf_state X s" "ms_record_key s = rk"
    "\<exists>c. decode_multisignature_candidate X b = Inr c \<and> ms_update s = c_bytes c"
    using state_of_wf [OF c key] c by (auto simp: state_of_def)
  assume "ms_record_kind s = record_kind_identity"
  with s have "record_kind (c_auth c) = record_kind_identity" by (auto simp: state_of_def)
  then show "validate_multisignature_genesis X rk b = Inr s \<and> ms_history s = Some [b]"
    using assms c key
    by (auto simp: validate_multisignature_envelope_def Let_def genesis_Inr [OF c] state_of_def
        wire_constants split: if_splits)
qed

text \<open>
  C12: once a record is multisignature there is no way back. Over an existing envelope of the
  multisignature shape both overwrite validators refuse every envelope of the legacy shape,
  whatever it is signed with.
\<close>
theorem no_downgrade:
  assumes "is_multisignature_envelope X ex" and "\<not> is_multisignature_envelope X b"
  shows "\<not> is_ok (validate_provider_overwrite X rk b (Some ex)) \<and>
    \<not> is_ok (validate_identity_overwrite X rk b (Some ex) chain)"
  using assms
  by (simp add: validate_provider_overwrite_def validate_identity_overwrite_def
      provider_overwrite_legacy_def)

theorem no_downgrade_witness:
  "\<not> is_ok (validate_identity_overwrite sample_ext identity_key [27] (Some [13]) None)"
proof -
  have "cbor_loads sample_ext [13] = Inr (sample_envelope 12 [sig_a])"
    "cbor_loads sample_ext [27] = Inr (legacy_sample_envelope 26 1)"
    using sample_roundtrip [of "[13]" "sample_envelope 12 [sig_a]"]
      sample_roundtrip [of "[27]" "legacy_sample_envelope 26 1"]
    by (simp_all add: identity_table_def cbor_roundtrips_def)
  then have "is_multisignature_envelope sample_ext [13]" "\<not> is_multisignature_envelope sample_ext [27]"
    by (simp_all add: is_multisignature_envelope_def sample_envelope_def multisig_envelope_py_def
        legacy_sample_envelope_def legacy_envelope_py_def keys_are_def)
  from no_downgrade [OF this] show ?thesis by simp
qed

text \<open>The context of a transition over an envelope of the multisignature shape.\<close>

lemma context_multisig:
  assumes "transition_context X rk cu ca p (Some ex) chain = Inr (cur, legacy)"
    and "is_multisignature_envelope X ex"
  obtains c where "cur = Some c" "legacy = None"
    "case chain of
       Some h \<Rightarrow> h \<noteq> [] \<and> last h = ex \<and> accepted_history X rk h c
     | None \<Rightarrow> validate_multisignature_envelope X rk ex = Inr c \<and>
         (record_kind ca = record_kind_identity \<longrightarrow> ms_history c \<noteq> None)"
  using assms
  by (cases chain) (auto simp: transition_context_def bindE_Inr if_raise_Inr history_iff
      require_history_ending_at_def split: if_splits)

lemma context_legacy:
  assumes "transition_context X rk cu ca p (Some ex) chain = Inr (cur, legacy)"
    and "\<not> is_multisignature_envelope X ex"
  shows "cur = None \<and> legacy = Some ex"
  using assms by (auto simp: transition_context_def bindE_Inr)

text \<open>
  C9: a Provider overwrite over an existing multisignature envelope is one step of the state
  machine from the state that envelope declares. The result reports the state it reached: its
  Seq is larger than the existing one, and the record keeps its owner.
\<close>
theorem provider_overwrite_is_step:
  assumes "validate_provider_overwrite X rk b (Some ex) = Inr r"
    and "is_multisignature_envelope X ex"
  shows "\<exists>s s'. validate_multisignature_envelope X rk ex = Inr s \<and> msig_step X rk s b s' \<and>
    overwrite_seq r = ms_seq s' \<and> ms_seq s < overwrite_seq r \<and> ms_owner s' = ms_owner s \<and>
    ms_record_kind s' = record_kind_provider"
proof -
  have "is_multisignature_envelope X b"
    using assms by (auto simp: validate_provider_overwrite_def provider_overwrite_legacy_def
        split: if_splits)
  with assms(1) obtain s' u a where
    t: "validate_multisignature_transition X rk b (Some ex) None = Inr s'"
    and u: "decode_multisignature_signed_update X (ms_update s') = Inr (u, a)"
    and pl: "\<exists>q. decode_provider_payload_dict X (su_payload u) = Inr q"
    and seq: "overwrite_seq r = su_seq u"
    by (fastforce simp: validate_provider_overwrite_def provider_overwrite_multisig_def bindE_Inr
        if_raise_Inr split: if_splits)
  from t obtain cu ca p cur legacy e where
    e: "decode_multisignature_envelope X b = Inr e"
      "decode_multisignature_signed_update X (env_update e) = Inr (cu, ca)"
    and ctx: "transition_context X rk cu ca p (Some ex) None = Inr (cur, legacy)"
    and upd: "validate_multisignature_update X rk b cur legacy = Inr s'"
    by (rule transition_Inr)
  from ctx assms(2) obtain s where s: "cur = Some s" "legacy = None"
    "validate_multisignature_envelope X rk ex = Inr s"
    and h: "record_kind ca = record_kind_identity \<longrightarrow> ms_history s \<noteq> None"
    by (elim context_multisig) auto
  have step: "msig_step X rk s b s'" and rot: "is_rotation X b \<longrightarrow> history_confirms X rk s"
    using upd s update_from_state_iff [OF lone_wf(1) [OF s(3)]] by auto
  have wf: "wf_state X s'" by (rule msig_step_facts(1) [OF step])
  then have kind: "ms_record_kind s' = record_kind a" and seq': "ms_seq s' = su_seq u"
    and bind: "record_binding X (ms_record_key s') (record_kind a) u (ms_owner s')"
    using u by (auto simp: wf_state_def)
  have "su_payload u = [] \<Longrightarrow> False"
    using pl by (auto simp: decode_provider_payload_dict_def decode_active_payload_def keys_are_Nil)
  then have prov: "ms_record_kind s' = record_kind_provider"
    using bind kind by (auto simp: record_binding_def split: if_splits)
  then have "\<not> is_rotation X b"
    using msig_step_kind [OF step] step
    by (auto simp: is_rotation_def wire_constants rotation_requires_legacy_anchor_def
        elim!: msig_stepE split: sum.splits)
  then have "ms_owner s' = ms_owner s" by (rule msig_step_owner(2) [OF step])
  with s step prov msig_step_facts(4) [OF step] show ?thesis by (auto simp: seq seq')
qed

lemma sample_is_multisig:
  "is_multisignature_envelope sample_ext [33]" "is_multisignature_envelope sample_ext [35]"
  "is_multisignature_envelope sample_ext [13]" "is_multisignature_envelope sample_ext [15]"
  by (rule decoded_is_multisig [OF candidate_Inr(1) [OF sample_provider_candidates(1)]],
      rule decoded_is_multisig [OF candidate_Inr(1) [OF sample_provider_candidates(2)]],
      rule decoded_is_multisig [OF candidate_Inr(1) [OF sample_candidates(1)]],
      rule decoded_is_multisig [OF candidate_Inr(1) [OF sample_candidates(2)]])

lemma sample_envelopes:
  "decode_multisignature_envelope sample_ext [33] = Inr \<lparr>env_version = 1, env_update = [32],
     env_proofs = map (sample_proof 32) [sig_a, sig_b]\<rparr>"
  "decode_multisignature_envelope sample_ext [35] = Inr \<lparr>env_version = 1, env_update = [34],
     env_proofs = map (sample_proof 34) [sig_a, sig_b]\<rparr>"
  using candidate_Inr(1) [OF sample_provider_candidates(1)]
    candidate_Inr(1) [OF sample_provider_candidates(2)]
  by (simp_all add: sample_candidate_def)

lemma sample_withdrawal_overwrite:
  "\<exists>w. validate_provider_overwrite sample_ext provider_key [35] (Some [33]) = Inr (Withdrawal w) \<and>
     pw_seq w = 2"
proof -
  have active: "state_payload sample_ext (provider_state 32 1) =
      Inr (Active \<lparr>v3_alg = [65], v3_version = 3, v3_object_hash = object_hash_str 9,
                  v3_provider_urls = [[97, 58, 98]], v3_endpoints = []\<rparr>)"
    by (simp add: state_payload_def provider_state_def sample_updates_of_states provider_update_def
        sample_payloads_ok)
  have "validate_multisignature_transition sample_ext provider_key [35] (Some [33]) None =
      Inr (provider_state 34 2)"
    by (simp add: validate_multisignature_transition_def sample_envelopes sample_updates_of_states
        provider_update_def sample_payloads_ok transition_context_def sample_is_multisig
        sample_provider_genesis sample_provider_withdrawal active del: One_nat_def)
      (simp add: sample_auth_def wire_constants sample_provider_genesis sample_provider_withdrawal
        active provider_state_def)
  then show ?thesis
    by (simp add: validate_provider_overwrite_def sample_is_multisig provider_overwrite_multisig_def
        provider_state_def sample_updates_of_states provider_update_def sample_payloads_ok
        sample_envelopes dsub_def field_bytes_def metadata_from_state_def)
qed

theorem provider_overwrite_is_step_witness:
  "\<exists>s s'. validate_multisignature_envelope sample_ext provider_key [33] = Inr s \<and>
     msig_step sample_ext provider_key s [35] s' \<and> ms_seq s < 2"
proof -
  obtain w where "validate_provider_overwrite sample_ext provider_key [35] (Some [33]) =
      Inr (Withdrawal w)" "pw_seq w = 2"
    using sample_withdrawal_overwrite by blast
  with provider_overwrite_is_step [OF this(1) sample_is_multisig(1)] show ?thesis by auto
qed

lemma withdrawal_predecessor:
  assumes "validate_provider_overwrite X rk b existing = Inr (Withdrawal w)"
  shows "\<exists>ex u p. existing = Some ex \<and> pw_predecessor w = Some ex \<and>
    (is_multisignature_envelope X ex \<longleftrightarrow> is_multisignature_envelope X b) \<and>
    decode_canonical_signed_update X (envelope_update X ex) = Inr u \<and>
    decode_provider_payload_dict X (su_payload u) = Inr (Active p) \<and> su_seq u < pw_seq w"
proof (cases "is_multisignature_envelope X b")
  case True
  with assms have "provider_overwrite_multisig X rk b existing = Inr (Withdrawal w)"
    by (simp add: validate_provider_overwrite_def)
  then obtain ex e u a p where ex: "existing = Some ex" "pw_predecessor w = Some ex"
    and e: "decode_multisignature_envelope X ex = Inr e"
    and u: "decode_multisignature_signed_update X (env_update e) = Inr (u, a)"
    and p: "decode_provider_payload_dict X (su_payload u) = Inr p" "\<not> is_withdrawn p"
    and lt: "su_seq u < pw_seq w"
    by (cases existing)
      (fastforce simp: provider_overwrite_multisig_def bindE_Inr if_raise_Inr split: if_splits)+
  obtain q where "p = Active q" using p(2) by (cases p) auto
  moreover have "decode_canonical_signed_update X (envelope_update X ex) = Inr u"
    using e multisig_decodes_canonically [OF u] by (simp add: envelope_update_def)
  ultimately show ?thesis using ex p lt decoded_is_multisig [OF e] True by blast
next
  case False
  with assms have l: "provider_overwrite_legacy X rk b existing = Inr (Withdrawal w)"
    by (simp add: validate_provider_overwrite_def)
  then obtain ex owner where ex: "existing = Some ex" "pw_predecessor w = Some ex"
    and shape: "\<not> is_multisignature_envelope X ex"
    and chk: "check_legacy_tombstone X rk owner (pw_seq w) (pw_object_hash w) ex = Inr ()"
    by (cases existing) (auto simp: provider_overwrite_legacy_def bindE_Inr if_raise_Inr Let_def
        split: if_splits)
  then obtain eb sg u p where e: "decode_signed_envelope X ex = Inr (eb, sg)"
    and u: "decode_canonical_signed_update X eb = Inr u"
    and p: "decode_provider_payload_dict X (su_payload u) = Inr p" "\<not> is_withdrawn p"
    and lt: "su_seq u < pw_seq w"
    by (auto simp: check_legacy_tombstone_def bindE_Inr if_raise_Inr not_le)
  have "\<exists>x. decode_multisignature_envelope X ex = Inl x"
    using shape decoded_is_multisig by (cases "decode_multisignature_envelope X ex") auto
  with e have "envelope_update X ex = eb" by (auto simp: envelope_update_def)
  moreover obtain q where "p = Active q" using p(2) by (cases p) auto
  ultimately show ?thesis using ex u p lt shape False by blast
qed

text \<open>
  C10: a Provider withdrawal is accepted only against an active record. The overwrite validator
  returns a withdrawal only when there is an existing envelope, of the same shape as the new one,
  whose update is an active payload with a smaller Seq; that envelope is reported as the
  predecessor.
\<close>
theorem withdrawal_needs_active_predecessor:
  assumes "validate_provider_overwrite X rk b existing = Inr (Withdrawal w)"
  shows "\<exists>ex u p. existing = Some ex \<and> pw_predecessor w = Some ex \<and>
    (is_multisignature_envelope X ex \<longleftrightarrow> is_multisignature_envelope X b) \<and>
    decode_canonical_signed_update X (envelope_update X ex) = Inr u \<and>
    decode_provider_payload_dict X (su_payload u) = Inr (Active p) \<and> su_seq u < pw_seq w"
  using assms by (rule withdrawal_predecessor)

theorem withdrawal_needs_active_predecessor_witness:
  "\<exists>u p. decode_canonical_signed_update sample_ext (envelope_update sample_ext [33]) = Inr u \<and>
     decode_provider_payload_dict sample_ext (su_payload u) = Inr (Active p) \<and> su_seq u < 2"
proof -
  obtain w where "validate_provider_overwrite sample_ext provider_key [35] (Some [33]) =
      Inr (Withdrawal w)" "pw_seq w = 2"
    using sample_withdrawal_overwrite by blast
  with withdrawal_needs_active_predecessor [OF this(1)] show ?thesis by auto
qed

lemma provider_binding_no_identity_key:
  assumes "decode_multisignature_signed_update X upd = Inr (u, a)"
    and "record_kind a = record_kind_provider"
  shows "dget (su_fields u) 2 = None"
  using decode_multisig_wf(4) [OF assms(1)] assms(2)
  by (auto simp: wire_constants dest!: binding_provider intro: keys_are_not_get)

lemma overwrite_extends_history:
  assumes "validate_identity_overwrite X rk b (Some ex) chain = Inr r"
    and "is_multisignature_envelope X ex"
  shows "\<exists>h s. accepted_history X rk (h @ [b]) s \<and> h \<noteq> [] \<and> last h = ex \<and>
    (case chain of Some c \<Rightarrow> h = c | None \<Rightarrow> h = [ex]) \<and>
    io_state r = Some s \<and> io_record_key r = rk \<and> io_owner r = ms_owner s \<and> io_seq r = ms_seq s"
proof -
  from assms obtain s u a pk_raw name_raw where
    t: "validate_multisignature_transition X rk b (Some ex) chain = Inr s"
    and u: "decode_multisignature_signed_update X (ms_update s) = Inr (u, a)"
    and pk: "dget (su_fields u) 2 = Some pk_raw" "py_bytes pk_raw = Inr (io_owner r)"
    and r: "io_state r = Some s" "io_record_key r = rk" "io_seq r = su_seq u"
    by (fastforce simp: validate_identity_overwrite_def bindE_Inr if_raise_Inr dsub_Inr
        split: if_splits)
  from t obtain cu ca p cur legacy where
    ctx: "transition_context X rk cu ca p (Some ex) chain = Inr (cur, legacy)"
    and upd: "validate_multisignature_update X rk b cur legacy = Inr s"
    by (rule transition_Inr)
  from ctx assms(2) obtain c where c: "cur = Some c" "legacy = None"
    and from_chain: "case chain of
       Some h \<Rightarrow> h \<noteq> [] \<and> last h = ex \<and> accepted_history X rk h c
     | None \<Rightarrow> validate_multisignature_envelope X rk ex = Inr c"
    by (rule context_multisig) (auto split: option.splits)
  have "wf_state X c"
    using from_chain lone_wf(1) accepted_history_facts by (auto split: option.splits)
  then have step: "msig_step X rk c b s" using upd c update_from_state_iff by blast
  have "record_kind a \<noteq> record_kind_provider"
    using provider_binding_no_identity_key [OF u] pk(1) by auto
  moreover have "wf_state X s" by (rule msig_step_facts(1) [OF step])
  ultimately have ident: "ms_record_kind s = record_kind_identity" "ms_seq s = su_seq u"
    "dget (su_fields u) 2 = Some (PBytes (ms_owner s))"
    using u by (auto simp: wf_state_def record_binding_def split: if_splits)
  have "\<exists>h. accepted_history X rk h c \<and> h \<noteq> [] \<and> last h = ex \<and>
      (case chain of Some c \<Rightarrow> h = c | None \<Rightarrow> h = [ex])"
  proof (cases chain)
    case None
    then have "validate_multisignature_genesis X rk ex = Inr c"
      "ms_record_kind c = record_kind_identity"
      using from_chain lone_wf(4) ident(1) msig_step_kind [OF step] by auto
    then show ?thesis using None accepted_history.genesis by fastforce
  qed (use from_chain in auto)
  then show ?thesis
    using r pk ident accepted_history.step [OF _ step] by fastforce
qed

text \<open>
  C11: an Identity overwrite over an existing multisignature envelope extends an accepted history
  that ends in that envelope: the supplied predecessor chain, or, without a chain, the
  existing envelope alone, which must then be a genesis. The extended history is accepted too,
  with the state, key, owner and Seq that the result reports.
\<close>
theorem identity_overwrite_extends_history:
  assumes "validate_identity_overwrite X rk b (Some ex) chain = Inr r"
    and "is_multisignature_envelope X ex"
  shows "\<exists>h s. accepted_history X rk (h @ [b]) s \<and> h \<noteq> [] \<and> last h = ex \<and>
    (case chain of Some c \<Rightarrow> h = c | None \<Rightarrow> h = [ex]) \<and>
    io_state r = Some s \<and> io_record_key r = rk \<and> io_owner r = ms_owner s \<and> io_seq r = ms_seq s"
  using assms by (rule overwrite_extends_history)

theorem identity_overwrite_extends_history_witness:
  "\<exists>r. validate_identity_overwrite sample_ext identity_key [15] (Some [13]) (Some [[11], [13]]) =
     Inr r \<and> io_seq r = 2 \<and> (\<exists>s. accepted_history sample_ext identity_key [[11], [13], [15]] s)"
proof -
  have acc: "accepted_history sample_ext identity_key [[11], [13]]
      (identity_state 12 1 1 1 signers_abc [[11], [13]])"
    by (rule accepted_history.upgrade [OF sample_anchor sample_upgrade])
  have u14: "decode_multisignature_signed_update sample_ext [14] =
      Inr (identity_update 1 2 (Some (sample_auth 1 2 1 signers_abc (hash_of 12))),
        sample_auth 1 2 1 signers_abc (hash_of 12))"
    and e15: "\<exists>ps. decode_multisignature_envelope sample_ext [15] =
      Inr \<lparr>env_version = 1, env_update = [14], env_proofs = ps\<rparr>"
    using candidate_Inr [OF sample_candidates(2)] by (simp_all add: sample_candidate_def)
  have "validate_multisignature_transition sample_ext identity_key [15] (Some [13])
      (Some [[11], [13]]) = Inr (identity_state 14 1 2 1 signers_abc [[11], [13], [15]])"
    using e15 acc sample_update(1)
    by (auto simp: validate_multisignature_transition_def u14 transition_context_def
        sample_is_multisig require_history_ending_at_def history_iff [symmetric]
        sample_auth_def wire_constants)
  then obtain r where r: "validate_identity_overwrite sample_ext identity_key [15] (Some [13])
      (Some [[11], [13]]) = Inr r" "io_seq r = 2"
    by (simp add: validate_identity_overwrite_def sample_is_multisig identity_state_def u14
        identity_update_def dsub_def metadata_from_state_def)
  with identity_overwrite_extends_history [OF r(1) sample_is_multisig(3)] show ?thesis by auto
qed

lemma head_reported:
  assumes "validate_identity_get X rk b (Some chain) = Inr (Got_identity r)"
  shows "\<exists>s. accepted_history X rk chain s \<and> chain \<noteq> [] \<and> last chain = b \<and>
    ir_record_key r = rk \<and> ir_owner r = ms_owner s \<and> ir_seq r = ms_seq s \<and>
    am_epoch (ir_authorization r) = ms_epoch s \<and> am_threshold (ir_authorization r) = ms_threshold s \<and>
    am_signers (ir_authorization r) = ms_signers s \<and>
    am_state_hash (ir_authorization r) = sha256 X (envelope_update X b)"
proof -
  from assms obtain s u a m where chain: "chain \<noteq> []" "last chain = b"
    and acc: "accepted_history X rk chain s"
    and u: "decode_multisignature_signed_update X (ms_update s) = Inr (u, a)"
    and pk: "field_bytes (su_fields u) 2 = Inr (ir_owner r)"
    and m: "metadata_from_state X s = Inr (ir_authorization r)"
    and r: "ir_record_key r = rk" "ir_seq r = su_seq u"
    by (fastforce simp: validate_identity_get_def require_history_ending_at_def bindE_Inr
        if_raise_Inr history_iff split: if_splits)
  note facts = accepted_history_facts [OF acc] accepted_history_head [OF acc]
  then have "dget (su_fields u) 2 = Some (PBytes (ms_owner s))" "ms_seq s = su_seq u"
    "ms_epoch s = epoch a" "ms_threshold s = threshold a" "ms_state_hash s = sha256 X (ms_update s)"
    using u by (auto simp: wf_state_def record_binding_def)
  moreover have "ir_authorization r = \<lparr>am_version = 1, am_operation = operation a,
      am_epoch = epoch a, am_threshold = threshold a, am_signers = ms_signers s,
      am_predecessor = predecessor a, am_state_hash = ms_state_hash s\<rparr>"
    using m metadata_of_wf [OF u] by simp
  ultimately show ?thesis
    using facts acc chain r pk by (intro exI [of _ s]) (auto simp: field_bytes_def dsub_def)
qed

text \<open>
  What an Identity read with its predecessor chain reports is the head of an accepted
  history: a read succeeds with a record only if the chain is an accepted history that ends in
  the envelope read, and the owner, the Seq and the authorization it reports are those of the
  accepted state.
\<close>
lemma identity_get_reports_head:
  assumes "validate_identity_get X rk b (Some chain) = Inr (Got_identity r)"
  shows "\<exists>s. accepted_history X rk chain s \<and> chain \<noteq> [] \<and> last chain = b \<and>
    ir_record_key r = rk \<and> ir_owner r = ms_owner s \<and> ir_seq r = ms_seq s \<and>
    am_epoch (ir_authorization r) = ms_epoch s \<and> am_threshold (ir_authorization r) = ms_threshold s \<and>
    am_signers (ir_authorization r) = ms_signers s \<and>
    am_state_hash (ir_authorization r) = sha256 X (envelope_update X b)"
  using assms by (rule head_reported)

lemma identity_get_reports_head_witness:
  "\<exists>r s. validate_identity_get sample_ext identity_key [13] (Some [[11], [13]]) =
     Inr (Got_identity r) \<and> ir_seq r = 1 \<and> accepted_history sample_ext identity_key [[11], [13]] s"
proof -
  have acc: "validate_multisignature_history sample_ext identity_key [[11], [13]] =
      Inr (identity_state 12 1 1 1 signers_abc [[11], [13]])"
    using accepted_history.upgrade [OF sample_anchor sample_upgrade] by (simp add: history_iff)
  then obtain r where r: "validate_identity_get sample_ext identity_key [13] (Some [[11], [13]]) =
      Inr (Got_identity r)" "ir_seq r = 1"
    by (simp add: validate_identity_get_def sample_is_multisig require_history_ending_at_def)
      (simp add: identity_state_def sample_updates_of_states field_bytes_def dsub_def
        identity_update_def metadata_from_state_def wire_constants)
  with identity_get_reports_head [OF r(1)] show ?thesis by blast
qed

end
