(* ===== verification/Storage_Backend.thy ===== *)
theory Storage_Backend
  imports Prelude
begin

text \<open>
  The contract of \<open>storage_backend.py\<close>'s \<open>put_if_newer\<close> as the DHT adapter relies on it: a store
  of contents under keys, each with a sequence number, whose conditional write installs only
  strictly newer contents and touches no other key. The laws are stated for the states that
  satisfy \<open>ok\<close>.
\<close>

locale newest_store =
  fixes ok :: "'s \<Rightarrow> bool"
    and seq_of :: "'s \<Rightarrow> 'k \<Rightarrow> int option"
    and content :: "'s \<Rightarrow> 'k \<Rightarrow> 'v option"
    and install_newer :: "'s \<Rightarrow> 'k \<Rightarrow> int \<Rightarrow> 'h \<Rightarrow> 'v \<Rightarrow> bool \<times> 's"
  assumes installed: "ok s \<Longrightarrow> install_newer s k n h v = (True, s') \<Longrightarrow>
      ok s' \<and> seq_of s' k = Some n \<and> content s' k = Some v \<and>
      (\<forall>m. seq_of s k = Some m \<longrightarrow> m < n) \<and>
      (\<forall>k'. k' \<noteq> k \<longrightarrow> seq_of s' k' = seq_of s k' \<and> content s' k' = content s k')"
    and refused: "install_newer s k n h v = (False, s') \<Longrightarrow> s' = s"
    and absent: "ok s \<Longrightarrow> content s k = None \<Longrightarrow> seq_of s k = None"

text \<open>A run: conditional writes of any keys, in any order, accepted or refused.\<close>

fun run_puts ::
  "('s \<Rightarrow> 'k \<Rightarrow> int \<Rightarrow> 'h \<Rightarrow> 'v \<Rightarrow> bool \<times> 's) \<Rightarrow> 's \<Rightarrow> ('k \<times> int \<times> 'h \<times> 'v) list \<Rightarrow> 's" where
  "run_puts put s [] = s"
| "run_puts put s ((k, n, h, v) # ops) = run_puts put (snd (put s k n h v)) ops"

context newest_store
begin

lemma step_cases:
  assumes "ok s"
  obtains (kept) "snd (install_newer s k n h v) = s"
  | (new) s' where "install_newer s k n h v = (True, s')" "ok s'"
      "seq_of s' k = Some n" "content s' k = Some v" "\<forall>m. seq_of s k = Some m \<longrightarrow> m < n"
      "\<forall>k'. k' \<noteq> k \<longrightarrow> seq_of s' k' = seq_of s k' \<and> content s' k' = content s k'"
proof (cases "install_newer s k n h v")
  case (Pair b s')
  then show thesis
  proof (cases b)
    case True
    with Pair installed [OF assms, of k n h v s'] show thesis by (intro new) auto
  next
    case False
    with Pair refused [of s k n h v s'] show thesis by (intro kept) simp
  qed
qed

lemma run_ok: "ok s \<Longrightarrow> ok (run_puts install_newer s ops)"
proof (induction ops arbitrary: s)
  case (Cons op ops)
  obtain k n h v where op: "op = (k, n, h, v)" by (cases op)
  from \<open>ok s\<close> have "ok (snd (install_newer s k n h v))"
    by (rule step_cases [where k = k and n = n and h = h and v = v]) (use \<open>ok s\<close> in auto)
  with Cons.IH op show ?case by simp
qed simp

text \<open>Sequence numbers never decrease, and a content is replaced only with its number.\<close>

lemma run_monotone:
  "ok s \<Longrightarrow> seq_of s k = Some m \<Longrightarrow>
     \<exists>m'. seq_of (run_puts install_newer s ops) k = Some m' \<and> m \<le> m' \<and>
       (m' = m \<longrightarrow> content (run_puts install_newer s ops) k = content s k)"
proof (induction ops arbitrary: s m)
  case (Cons op ops)
  obtain j n h v where op: "op = (j, n, h, v)" by (cases op)
  from Cons.prems(1) show ?case
  proof (cases rule: step_cases [where k = j and n = n and h = h and v = v])
    case kept
    with Cons.IH [OF Cons.prems] op show ?thesis by simp
  next
    case (new s')
    then obtain m1 where m1: "seq_of s' k = Some m1" "m \<le> m1" "m1 = m \<longrightarrow> content s' k = content s k"
      using Cons.prems(2) by (cases "k = j") auto
    obtain m' where "seq_of (run_puts install_newer s' ops) k = Some m'" "m1 \<le> m'"
      "m' = m1 \<longrightarrow> content (run_puts install_newer s' ops) k = content s' k"
      using Cons.IH [OF new(2) m1(1)] by blast
    with m1 op new(1) show ?thesis by auto
  qed
qed simp

end

end
