(* ===== verification/Durable_Store.thy ===== *)
theory Durable_Store
  imports Signed_Envelope Storage_Backend
begin

text \<open>
  \<open>durable_store.py\<close>: the LMDB-backed store of envelopes, with one named database per record
  kind and one for the metadata of accepted records, and its interface \<open>storage_backend.py\<close>.

  LMDB itself is the parameter \<open>L\<close>, a record of the three calls the code makes inside a
  transaction; \<open>'db\<close> is the content of the environment. A call that raises aborts the
  transaction, so every operation below returns a result together with the content it leaves,
  and the content is the old one when the result is an exception. \<open>open_subdir\<close> chooses between a
  directory and a file on disk; \<open>Dht_Lifecycle\<close> has the opening and closing of the environment.
\<close>

datatype dbi = Provider_db | Identity_db | Accepted_db
datatype kind = Provider_kind | Identity_kind

record 'db lmdb =
  txn_get :: "'db \<Rightarrow> dbi \<Rightarrow> bytes \<Rightarrow> bytes option res"
  txn_put :: "'db \<Rightarrow> dbi \<Rightarrow> bytes \<Rightarrow> bytes \<Rightarrow> 'db res"
  txn_delete :: "'db \<Rightarrow> dbi \<Rightarrow> bytes \<Rightarrow> 'db res"

text \<open>
  Documented behaviour of LMDB: a put or delete that returns changes exactly its own key.
\<close>

definition lmdb_laws :: "'db lmdb \<Rightarrow> bool" where
  "lmdb_laws L =
     ((\<forall>d n k v d'. txn_put L d n k v = Inr d' \<longrightarrow>
         txn_get L d' n k = Inr (Some v) \<and>
         (\<forall>n' k'. (n', k') \<noteq> (n, k) \<longrightarrow> txn_get L d' n' k' = txn_get L d n' k')) \<and>
      (\<forall>d n k d'. txn_delete L d n k = Inr d' \<longrightarrow>
         txn_get L d' n k = Inr None \<and>
         (\<forall>n' k'. (n', k') \<noteq> (n, k) \<longrightarrow> txn_get L d' n' k' = txn_get L d n' k')))"

text \<open>Whether the path names a directory (LMDB's \<open>subdir\<close>) or a database file.\<close>

definition open_subdir :: "bool \<Rightarrow> bool \<Rightarrow> string \<Rightarrow> bool" where
  "open_subdir path_exists path_is_dir suffix =
     (if path_exists then path_is_dir else suffix \<noteq> ''.lmdb'')"

definition kind_db :: "kind \<Rightarrow> dbi" where
  "kind_db k = (case k of Provider_kind \<Rightarrow> Provider_db | Identity_kind \<Rightarrow> Identity_db)"

definition ascii_bytes :: "string \<Rightarrow> bytes" where
  "ascii_bytes s = map of_char s"

definition kind_ascii :: "kind \<Rightarrow> bytes" where
  "kind_ascii k =
     ascii_bytes (case k of Provider_kind \<Rightarrow> ''provider'' | Identity_kind \<Rightarrow> ''identity'')"

text \<open>
  The separator is the bytes literal \<open>b"\\x00"\<close> of the source with its backslash doubled: four
  characters, a backslash, \<open>x\<close> and two zeros.
\<close>

definition metadata_separator :: bytes where
  "metadata_separator = [92, 120, 48, 48]"

definition metadata_key :: "kind \<Rightarrow> bytes \<Rightarrow> bytes" where
  "metadata_key kind k = kind_ascii kind @ metadata_separator @ k"

definition history_key :: "kind \<Rightarrow> bytes \<Rightarrow> bytes" where
  "history_key kind k = ascii_bytes ''history:'' @ metadata_key kind k"

subsection \<open>Reading\<close>

definition store_put ::
  "'db lmdb \<Rightarrow> 'db \<Rightarrow> kind \<Rightarrow> bytes \<Rightarrow> bytes \<Rightarrow> unit res \<times> 'db" where
  "store_put L db kind k v =
     (case txn_put L db (kind_db kind) k v of Inl e \<Rightarrow> (Inl e, db) | Inr db' \<Rightarrow> (Inr (), db'))"

definition store_get :: "'db lmdb \<Rightarrow> 'db \<Rightarrow> kind \<Rightarrow> bytes \<Rightarrow> bytes option res" where
  "store_get L db kind k = txn_get L db (kind_db kind) k"

text \<open>\<open>v[i]\<close> on a decoded value: a dictionary by key, a list or byte string by position.\<close>

definition py_item :: "pyval \<Rightarrow> nat \<Rightarrow> pyval option" where
  "py_item v i =
     (case v of
        PDict d \<Rightarrow> dget d (int i)
      | PList l \<Rightarrow> if i < length l then Some (l ! i) else None
      | PBytes b \<Rightarrow> if i < length b then Some (PInt (uint (b ! i))) else None
      | PStr s \<Rightarrow> if i < length s then Some (PStr [s ! i]) else None
      | _ \<Rightarrow> None)"

definition seq_of_update :: "ext \<Rightarrow> pyval \<Rightarrow> int option" where
  "seq_of_update X embedded =
     (case embedded of
        PBytes b \<Rightarrow>
          (case cbor_loads X b of
             Inl _ \<Rightarrow> None
           | Inr u \<Rightarrow>
               (case py_item u 3 of
                  Some (PInt n) \<Rightarrow> if n < 0 then None else Some n
                | _ \<Rightarrow> None))
      | _ \<Rightarrow> None)"

definition extract_seq :: "ext \<Rightarrow> bytes \<Rightarrow> int option" where
  "extract_seq X value =
     (case cbor_loads X value of
        Inr (PDict d) \<Rightarrow>
          if keys_are d [1, 2] then Option.bind (dget d 1) (seq_of_update X)
          else if keys_are d [1, 2, 3] then Option.bind (dget d 2) (seq_of_update X)
          else None
      | _ \<Rightarrow> None)"

definition decode_history :: "ext \<Rightarrow> bytes \<Rightarrow> bytes list option" where
  "decode_history X encoded =
     (case cbor_loads X encoded of
        Inr history \<Rightarrow>
          (if cbor_dumps X history \<noteq> Inr encoded then None
           else case history of
             PList items \<Rightarrow>
               if items = [] \<or> \<not> list_all is_bytes items then None
               else (case mapE (want_bytes (Type_error '''')) items of
                       Inl _ \<Rightarrow> None | Inr bs \<Rightarrow> Some bs)
           | _ \<Rightarrow> None)
      | _ \<Rightarrow> None)"

definition store_get_history ::
  "ext \<Rightarrow> 'db lmdb \<Rightarrow> 'db \<Rightarrow> kind \<Rightarrow> bytes \<Rightarrow> bytes list option res" where
  "store_get_history X L db kind k =
     bindE (txn_get L db Accepted_db (history_key kind k)) (\<lambda>encoded.
     Inr (Option.bind encoded (decode_history X)))"

subsection \<open>The conditional write\<close>

text \<open>The Seq in an accepted-metadata entry: keys 1 and 2, an integer that is not a bool.\<close>

definition metadata_seq :: "ext \<Rightarrow> bytes \<Rightarrow> int option" where
  "metadata_seq X encoded =
     (case cbor_loads X encoded of
        Inr (PDict d) \<Rightarrow>
          if keys_are d [1, 2] then (case dget d 1 of Some (PInt n) \<Rightarrow> Some n | _ \<Rightarrow> None) else None
      | _ \<Rightarrow> None)"

text \<open>The Seq of the record stored now: from its metadata, else from the record itself.\<close>

definition current_seq :: "ext \<Rightarrow> bytes \<Rightarrow> bytes option \<Rightarrow> int option" where
  "current_seq X current current_metadata =
     (case Option.bind current_metadata (metadata_seq X) of
        Some n \<Rightarrow> Some n
      | None \<Rightarrow> extract_seq X current)"

definition may_install :: "ext \<Rightarrow> int \<Rightarrow> bytes option \<Rightarrow> bytes option \<Rightarrow> bool" where
  "may_install X seq current current_metadata =
     (case current of
        Some c \<Rightarrow>
          (case current_seq X c current_metadata of None \<Rightarrow> False | Some n \<Rightarrow> n < seq)
      | None \<Rightarrow> current_metadata = None)"

definition check_put_arguments ::
  "pyval \<Rightarrow> pyval \<Rightarrow> pyval \<Rightarrow> pyval option \<Rightarrow> (int \<times> bytes \<times> bytes \<times> bytes list option) res" where
  "check_put_arguments seq value state_hash history =
     (case seq of
        PInt n \<Rightarrow>
          if n < 0 then Inl (Value_error ''seq must be a non-negative integer'')
          else bindE (want_bytes (Type_error ''value must be bytes'') value) (\<lambda>v.
          bindE (want_bytes (Value_error ''state_hash must be exactly 32 bytes'') state_hash) (\<lambda>h.
          if length h \<noteq> 32 then Inl (Value_error ''state_hash must be exactly 32 bytes'')
          else case history of
            None \<Rightarrow> Inr (n, v, h, None)
          | Some (PList items) \<Rightarrow>
              if items = [] then Inl (Value_error ''history must be a non-empty sequence of byte envelopes'')
              else bindE (mapE (want_bytes (Value_error
                     ''history must be a non-empty sequence of byte envelopes'')) items) (\<lambda>bs.
                   Inr (n, v, h, Some bs))
          | Some _ \<Rightarrow> Inl (Value_error ''history must be a non-empty sequence of byte envelopes'')))
      | _ \<Rightarrow> Inl (Value_error ''seq must be a non-negative integer''))"

definition accepted_metadata :: "int \<Rightarrow> bytes \<Rightarrow> pyval" where
  "accepted_metadata seq state_hash = PDict [(PInt 1, PInt seq), (PInt 2, PBytes state_hash)]"

text \<open>The three writes of an installation, in one transaction.\<close>

definition install ::
  "'db lmdb \<Rightarrow> 'db \<Rightarrow> kind \<Rightarrow> bytes \<Rightarrow> bytes \<Rightarrow> bytes \<Rightarrow> bytes option \<Rightarrow> 'db res" where
  "install L db kind k v metadata encoded_history =
     bindE (txn_put L db (kind_db kind) k v) (\<lambda>db1.
     bindE (txn_put L db1 Accepted_db (metadata_key kind k) metadata) (\<lambda>db2.
     case encoded_history of
       None \<Rightarrow> txn_delete L db2 Accepted_db (history_key kind k)
     | Some h \<Rightarrow> txn_put L db2 Accepted_db (history_key kind k) h))"

definition put_if_newer_txn ::
  "ext \<Rightarrow> 'db lmdb \<Rightarrow> 'db \<Rightarrow> kind \<Rightarrow> bytes \<Rightarrow> pyval \<Rightarrow> pyval \<Rightarrow> pyval \<Rightarrow> pyval option \<Rightarrow>
   (bool \<times> 'db) res" where
  "put_if_newer_txn X L db kind k value seq state_hash history =
     bindE (check_put_arguments seq value state_hash history) (\<lambda>(n, v, h, hist).
     bindE (cbor_dumps X (accepted_metadata n h)) (\<lambda>metadata.
     bindE
       (case hist of
          None \<Rightarrow> Inr None
        | Some bs \<Rightarrow> bindE (cbor_dumps X (PList (map PBytes bs))) (\<lambda>e. Inr (Some e)))
       (\<lambda>encoded_history.
     bindE (txn_get L db (kind_db kind) k) (\<lambda>current.
     bindE (txn_get L db Accepted_db (metadata_key kind k)) (\<lambda>current_metadata.
     if \<not> may_install X n current current_metadata then Inr (False, db)
     else bindE (install L db kind k v metadata encoded_history) (\<lambda>db'. Inr (True, db')))))))"

definition put_if_newer ::
  "ext \<Rightarrow> 'db lmdb \<Rightarrow> 'db \<Rightarrow> kind \<Rightarrow> bytes \<Rightarrow> pyval \<Rightarrow> pyval \<Rightarrow> pyval \<Rightarrow> pyval option \<Rightarrow>
   bool res \<times> 'db" where
  "put_if_newer X L db kind k value seq state_hash history =
     (case put_if_newer_txn X L db kind k value seq state_hash history of
        Inl e \<Rightarrow> (Inl e, db)
      | Inr (installed, db') \<Rightarrow> (Inr installed, db'))"

subsection \<open>Keys of the metadata database never collide\<close>

lemma kind_ascii_inject: "kind_ascii k = kind_ascii k' \<longleftrightarrow> k = k'"
  by (cases k; cases k') (simp_all add: kind_ascii_def ascii_bytes_def)

lemma length_kind_ascii [simp]: "length (kind_ascii k) = 8"
  by (cases k) (simp_all add: kind_ascii_def ascii_bytes_def)

lemma metadata_key_inject [simp]: "metadata_key k b = metadata_key k' b' \<longleftrightarrow> k = k' \<and> b = b'"
  by (auto simp: metadata_key_def append_eq_append_conv kind_ascii_inject)

lemma history_key_inject [simp]: "history_key k b = history_key k' b' \<longleftrightarrow> k = k' \<and> b = b'"
  by (simp add: history_key_def)

lemma metadata_not_history [simp]: "metadata_key k b \<noteq> history_key k' b'"
  by (cases k) (simp_all add: metadata_key_def history_key_def kind_ascii_def ascii_bytes_def)

lemmas metadata_not_history' [simp] = metadata_not_history [symmetric]

subsection \<open>What the conditional write does\<close>

text \<open>The codec decodes what the store encodes.\<close>

definition store_codec :: "ext \<Rightarrow> bool" where
  "store_codec X =
     ((\<forall>n h e. cbor_dumps X (accepted_metadata n h) = Inr e \<longrightarrow>
         cbor_loads X e = Inr (accepted_metadata n h)) \<and>
      (\<forall>bs e. cbor_dumps X (PList (map PBytes bs)) = Inr e \<longrightarrow>
         cbor_loads X e = Inr (PList (map PBytes bs))))"

definition stored_seq :: "ext \<Rightarrow> 'db lmdb \<Rightarrow> 'db \<Rightarrow> kind \<Rightarrow> bytes \<Rightarrow> int option" where
  "stored_seq X L db kind k =
     (case (txn_get L db (kind_db kind) k, txn_get L db Accepted_db (metadata_key kind k)) of
        (Inr (Some current), Inr metadata) \<Rightarrow> current_seq X current metadata
      | _ \<Rightarrow> None)"

lemma kind_db_inject [simp]: "kind_db k = kind_db k' \<longleftrightarrow> k = k'" "kind_db k \<noteq> Accepted_db"
  "Accepted_db \<noteq> kind_db k"
  by (cases k; cases k'; simp add: kind_db_def)+

lemma put_law:
  "lmdb_laws L \<Longrightarrow> txn_put L d n k v = Inr d' \<Longrightarrow>
     txn_get L d' n' k' = (if (n', k') = (n, k) then Inr (Some v) else txn_get L d n' k')"
  by (auto simp: lmdb_laws_def)

lemma delete_law:
  "lmdb_laws L \<Longrightarrow> txn_delete L d n k = Inr d' \<Longrightarrow>
     txn_get L d' n' k' = (if (n', k') = (n, k) then Inr None else txn_get L d n' k')"
  by (auto simp: lmdb_laws_def)

lemma install_gets:
  assumes "lmdb_laws L" and "install L db kind k v metadata encoded = Inr db'"
  shows "txn_get L db' n j =
    (if (n, j) = (kind_db kind, k) then Inr (Some v)
     else if (n, j) = (Accepted_db, metadata_key kind k) then Inr (Some metadata)
     else if (n, j) = (Accepted_db, history_key kind k) then Inr encoded
     else txn_get L db n j)"
  using assms(2)
  by (cases encoded)
    (auto simp: install_def bindE_Inr put_law [OF assms(1)] delete_law [OF assms(1)])

lemma mapE_want_bytes: "mapE (want_bytes e) (map PBytes bs) = Inr bs"
  by (induction bs) auto

lemma list_all_is_bytes [simp]: "list_all is_bytes (map PBytes bs)"
  by (induction bs) auto

lemma decode_encoded_history:
  assumes "store_codec X" and "cbor_dumps X (PList (map PBytes bs)) = Inr e" and "bs \<noteq> []"
  shows "decode_history X e = Some bs"
  using assms by (auto simp: store_codec_def decode_history_def mapE_want_bytes)

lemma check_put_arguments_PBytes:
  "check_put_arguments (PInt n) (PBytes v) (PBytes h) (map_option (\<lambda>bs. PList (map PBytes bs)) hist) =
     Inr (m, v', h', hist') \<longleftrightarrow>
   0 \<le> n \<and> length h = 32 \<and> hist \<noteq> Some [] \<and> m = n \<and> v' = v \<and> h' = h \<and> hist' = hist"
  by (cases hist) (auto simp: check_put_arguments_def if_raise_Inr bindE_Inr mapE_want_bytes)

lemma put_if_newer_obtain:
  assumes "put_if_newer X L db kind k (PBytes v) (PInt n) (PBytes h)
      (map_option (\<lambda>bs. PList (map PBytes bs)) hist) = (Inr True, db')"
  obtains metadata encoded current cm where "0 \<le> n" "hist \<noteq> Some []"
    "cbor_dumps X (accepted_metadata n h) = Inr metadata"
    "case hist of None \<Rightarrow> encoded = None
      | Some bs \<Rightarrow> \<exists>e. encoded = Some e \<and> cbor_dumps X (PList (map PBytes bs)) = Inr e"
    "txn_get L db (kind_db kind) k = Inr current"
    "txn_get L db Accepted_db (metadata_key kind k) = Inr cm" "may_install X n current cm"
    "install L db kind k v metadata encoded = Inr db'"
proof -
  from assms have txn: "put_if_newer_txn X L db kind k (PBytes v) (PInt n) (PBytes h)
      (map_option (\<lambda>bs. PList (map PBytes bs)) hist) = Inr (True, db')"
    by (simp add: put_if_newer_def split: sum.splits prod.splits)
  then obtain metadata encoded current cm where
    "0 \<le> n" "hist \<noteq> Some []" "cbor_dumps X (accepted_metadata n h) = Inr metadata"
    and enc: "(case hist of None \<Rightarrow> Inr None
        | Some bs \<Rightarrow> bindE (cbor_dumps X (PList (map PBytes bs))) (\<lambda>e. Inr (Some e))) = Inr encoded"
    and "txn_get L db (kind_db kind) k = Inr current"
    "txn_get L db Accepted_db (metadata_key kind k) = Inr cm"
    and rest: "(if \<not> may_install X n current cm then Inr (False, db)
      else bindE (install L db kind k v metadata encoded) (\<lambda>db'. Inr (True, db'))) = Inr (True, db')"
    unfolding put_if_newer_txn_def bindE_Inr
    by (elim exE conjE) (simp split: prod.splits add: bindE_Inr check_put_arguments_PBytes,
        elim exE conjE, blast)
  moreover have "may_install X n current cm" "install L db kind k v metadata encoded = Inr db'"
    using rest by (auto simp: bindE_Inr split: if_splits)
  ultimately show thesis using enc by (intro that) (auto simp: bindE_Inr split: option.splits)
qed

text \<open>The outcome of an installation, for the arguments the adapter passes.\<close>

lemma put_if_newer_True:
  assumes laws: "lmdb_laws L" "store_codec X"
    and put: "put_if_newer X L db kind k (PBytes v) (PInt n) (PBytes h)
      (map_option (\<lambda>bs. PList (map PBytes bs)) hist) = (Inr True, db')"
  shows "stored_seq X L db' kind k = Some n" and "store_get L db' kind k = Inr (Some v)"
    and "store_get_history X L db' kind k = Inr hist"
    and "0 \<le> n" and "\<And>m. stored_seq X L db kind k = Some m \<Longrightarrow> m < n"
    and "\<And>kind' k'. (kind', k') \<noteq> (kind, k) \<Longrightarrow> stored_seq X L db' kind' k' = stored_seq X L db kind' k' \<and>
      store_get L db' kind' k' = store_get L db kind' k' \<and>
      store_get_history X L db' kind' k' = store_get_history X L db kind' k'"
proof -
  from put obtain metadata encoded current cm where
    n: "0 \<le> n" and hist: "hist \<noteq> Some []" and
    metadata: "cbor_dumps X (accepted_metadata n h) = Inr metadata" and
    encoded: "case hist of None \<Rightarrow> encoded = None
      | Some bs \<Rightarrow> \<exists>e. encoded = Some e \<and> cbor_dumps X (PList (map PBytes bs)) = Inr e" and
    current: "txn_get L db (kind_db kind) k = Inr current"
      "txn_get L db Accepted_db (metadata_key kind k) = Inr cm" "may_install X n current cm" and
    inst: "install L db kind k v metadata encoded = Inr db'"
    by (rule put_if_newer_obtain)
  note gets = install_gets [OF laws(1) inst]
  have "metadata_seq X metadata = Some n"
    using laws(2) metadata
    by (simp add: store_codec_def metadata_seq_def accepted_metadata_def keys_are_def)
  then show "stored_seq X L db' kind k = Some n"
    by (simp add: stored_seq_def gets current_seq_def)
  show "store_get L db' kind k = Inr (Some v)" by (simp add: store_get_def gets)
  show "store_get_history X L db' kind k = Inr hist"
    using encoded hist decode_encoded_history [OF laws(2)]
    by (cases hist) (auto simp: store_get_history_def gets)
  show "0 \<le> n" by (rule n)
  show "m < n" if "stored_seq X L db kind k = Some m" for m
    using that current by (auto simp: stored_seq_def may_install_def split: option.splits)
  show "stored_seq X L db' kind' k' = stored_seq X L db kind' k' \<and>
      store_get L db' kind' k' = store_get L db kind' k' \<and>
      store_get_history X L db' kind' k' = store_get_history X L db kind' k'"
    if "(kind', k') \<noteq> (kind, k)" for kind' k'
  proof -
    have "txn_get L db' (kind_db kind') k' = txn_get L db (kind_db kind') k'"
      "txn_get L db' Accepted_db (metadata_key kind' k') = txn_get L db Accepted_db (metadata_key kind' k')"
      "txn_get L db' Accepted_db (history_key kind' k') = txn_get L db Accepted_db (history_key kind' k')"
      using that by (auto simp: gets)
    then show ?thesis by (simp add: stored_seq_def store_get_def store_get_history_def)
  qed
qed

lemma put_if_newer_not_True:
  assumes "put_if_newer X L db kind k value seq state_hash history = (r, db')" and "r \<noteq> Inr True"
  shows "db' = db"
  using assms
  by (auto simp: put_if_newer_def put_if_newer_txn_def bindE_def split: sum.splits prod.splits if_splits)

subsection \<open>The store implements the interface\<close>

text \<open>A state of the interface is the content together with the two parameters it depends on.\<close>

definition lmdb_ok :: "ext \<times> 'db lmdb \<times> 'db \<Rightarrow> bool" where
  "lmdb_ok s = (case s of (X, L, _) \<Rightarrow> lmdb_laws L \<and> store_codec X)"

definition lmdb_seq_of :: "ext \<times> 'db lmdb \<times> 'db \<Rightarrow> kind \<times> bytes \<Rightarrow> int option" where
  "lmdb_seq_of s kk = (case (s, kk) of ((X, L, db), (kind, k)) \<Rightarrow> stored_seq X L db kind k)"

definition lmdb_content ::
  "ext \<times> 'db lmdb \<times> 'db \<Rightarrow> kind \<times> bytes \<Rightarrow> (bytes \<times> bytes list option) option" where
  "lmdb_content s kk =
     (case (s, kk) of ((X, L, db), (kind, k)) \<Rightarrow>
        (case (store_get L db kind k, store_get_history X L db kind k) of
           (Inr (Some v), Inr hist) \<Rightarrow> Some (v, hist)
         | (Inr (Some v), Inl _) \<Rightarrow> Some (v, None)
         | _ \<Rightarrow> None))"

definition lmdb_install ::
  "ext \<times> 'db lmdb \<times> 'db \<Rightarrow> kind \<times> bytes \<Rightarrow> int \<Rightarrow> bytes \<Rightarrow> bytes \<times> bytes list option \<Rightarrow>
   bool \<times> (ext \<times> 'db lmdb \<times> 'db)" where
  "lmdb_install s kk n h vh =
     (case (s, kk, vh) of ((X, L, db), (kind, k), (v, hist)) \<Rightarrow>
        (case put_if_newer X L db kind k (PBytes v) (PInt n) (PBytes h)
                (map_option (\<lambda>bs. PList (map PBytes bs)) hist) of
           (r, db') \<Rightarrow> (r = Inr True, (X, L, db'))))"

lemma lmdb_installed:
  assumes "lmdb_ok s" and "lmdb_install s kk n h vh = (True, s')"
  shows "lmdb_ok s' \<and> lmdb_seq_of s' kk = Some n \<and> lmdb_content s' kk = Some vh \<and>
    (\<forall>m. lmdb_seq_of s kk = Some m \<longrightarrow> m < n) \<and>
    (\<forall>k'. k' \<noteq> kk \<longrightarrow> lmdb_seq_of s' k' = lmdb_seq_of s k' \<and> lmdb_content s' k' = lmdb_content s k')"
proof -
  obtain X L db where s: "s = (X, L, db)" by (cases s)
  obtain kind k where kk: "kk = (kind, k)" by (cases kk)
  obtain v hist where vh: "vh = (v, hist)" by (cases vh)
  obtain r db' where put: "put_if_newer X L db kind k (PBytes v) (PInt n) (PBytes h)
      (map_option (\<lambda>bs. PList (map PBytes bs)) hist) = (r, db')" by fastforce
  have laws: "lmdb_laws L" "store_codec X" and r: "r = Inr True" and s': "s' = (X, L, db')"
    using assms put by (auto simp: lmdb_ok_def lmdb_install_def s kk vh)
  note eff = put_if_newer_True [OF laws put [unfolded r]]
  show ?thesis
    using laws eff(1-3,5) eff(6) [THEN conjunct1] eff(6) [THEN conjunct2, THEN conjunct1]
      eff(6) [THEN conjunct2, THEN conjunct2]
    by (simp add: lmdb_ok_def lmdb_seq_of_def lmdb_content_def s s' kk vh
        cong: sum.case_cong option.case_cong)
qed

lemma lmdb_refused:
  assumes "lmdb_install s kk n h vh = (False, s')"
  shows "s' = s"
  using assms
  by (auto simp: lmdb_install_def dest: put_if_newer_not_True split: prod.splits)

lemma lmdb_absent:
  assumes "lmdb_content s kk = None"
  shows "lmdb_seq_of s kk = None"
  using assms
  by (auto simp: lmdb_content_def lmdb_seq_of_def stored_seq_def store_get_def
      split: sum.splits option.splits prod.splits)

interpretation durable: newest_store lmdb_ok lmdb_seq_of lmdb_content lmdb_install
  by unfold_locales (erule (1) lmdb_installed, erule lmdb_refused, erule lmdb_absent)

end
