(* ===== verification/Store_Properties.thy ===== *)
theory Store_Properties
  imports Durable_Store Samples
begin

text \<open>
  The properties of the durable store, with a witness on a store whose content is a function and
  a codec that knows the two metadata entries and the history the witness writes.
\<close>

type_synonym map_db = "dbi \<Rightarrow> bytes \<Rightarrow> bytes option"

definition map_lmdb :: "map_db lmdb" where
  "map_lmdb =
     \<lparr>txn_get = (\<lambda>d n k. Inr (d n k)),
      txn_put = (\<lambda>d n k v. Inr (d(n := (d n)(k := Some v)))),
      txn_delete = (\<lambda>d n k. Inr (d(n := (d n)(k := None))))\<rparr>"

lemma map_lmdb_laws: "lmdb_laws map_lmdb"
  by (auto simp: lmdb_laws_def map_lmdb_def)

lemma toy_store_codec: "distinct (map fst table) \<Longrightarrow> store_codec (toy_ext table)"
  by (simp add: store_codec_def toy_codec_decodes)

definition store_ext :: ext where
  "store_ext = toy_ext
     [([1], accepted_metadata 4 (hash_of 7)), ([2], accepted_metadata 5 (hash_of 8)),
      ([3], PList [PBytes [70], PBytes [80]])]"

lemma store_ext_codec: "store_codec store_ext"
  unfolding store_ext_def by (rule toy_store_codec) simp

definition db0 :: map_db where "db0 = (\<lambda>_ _. None)"

text \<open>
  \<open>put_if_newer\<close> is an atomic conditional write. It either installs the envelope, with its
  Seq and its history, over nothing or over a strictly older record, and leaves the records of
  all other keys and of the other kind as they were; or it reports refusal or raises, and the
  whole content is as it was.
\<close>
lemma put_if_newer_atomic:
  assumes "lmdb_laws L" and "store_codec X"
    and "put_if_newer X L db kind k (PBytes v) (PInt n) (PBytes h)
      (map_option (\<lambda>bs. PList (map PBytes bs)) hist) = (r, db')"
  shows "(r \<noteq> Inr True \<and> db' = db) \<or>
    (r = Inr True \<and> store_get L db' kind k = Inr (Some v) \<and>
     store_get_history X L db' kind k = Inr hist \<and> stored_seq X L db' kind k = Some n \<and> 0 \<le> n \<and>
     (\<forall>m. stored_seq X L db kind k = Some m \<longrightarrow> m < n) \<and>
     (\<forall>kind' k'. (kind', k') \<noteq> (kind, k) \<longrightarrow>
        store_get L db' kind' k' = store_get L db kind' k' \<and>
        store_get_history X L db' kind' k' = store_get_history X L db kind' k'))"
proof (cases "r = Inr True")
  case True
  note eff = put_if_newer_True [OF assms(1,2) assms(3) [unfolded True]]
  show ?thesis
    using True eff(1-5) eff(6) by blast
next
  case False
  then show ?thesis using put_if_newer_not_True [OF assms(3)] by blast
qed

lemma sample_put:
  "\<exists>db1. put_if_newer store_ext map_lmdb db0 Identity_kind [9] (PBytes [70]) (PInt 4)
     (PBytes (hash_of 7)) (map_option (\<lambda>bs. PList (map PBytes bs)) None) = (Inr True, db1)"
  by (simp add: put_if_newer_def put_if_newer_txn_def check_put_arguments_def store_ext_def
      toy_ext_def map_lmdb_def install_def may_install_def db0_def)

lemma put_if_newer_atomic_witness:
  "\<exists>db1. put_if_newer store_ext map_lmdb db0 Identity_kind [9] (PBytes [70]) (PInt 4)
     (PBytes (hash_of 7)) None = (Inr True, db1) \<and>
     store_get map_lmdb db1 Identity_kind [9] = Inr (Some [70]) \<and>
     stored_seq store_ext map_lmdb db1 Identity_kind [9] = Some 4"
proof -
  obtain db1 where put: "put_if_newer store_ext map_lmdb db0 Identity_kind [9] (PBytes [70]) (PInt 4)
     (PBytes (hash_of 7)) (map_option (\<lambda>bs. PList (map PBytes bs)) None) = (Inr True, db1)"
    using sample_put by blast
  from put_if_newer_atomic [OF map_lmdb_laws store_ext_codec put] put show ?thesis by auto
qed

text \<open>
  C36: whatever conditional writes follow, of any keys and kinds and whether accepted or not, the
  Seq stored for a record never decreases, and while it stays the same, so do the stored
  envelope and its history.
\<close>
theorem store_never_goes_back:
  assumes "lmdb_laws L" and "store_codec X" and "stored_seq X L db kind k = Some m"
  shows "\<exists>db' m'. run_puts lmdb_install (X, L, db) ops = (X, L, db') \<and>
    stored_seq X L db' kind k = Some m' \<and> m \<le> m' \<and>
    (m' = m \<longrightarrow> lmdb_content (X, L, db') (kind, k) = lmdb_content (X, L, db) (kind, k))"
proof -
  have "\<exists>db'. run_puts lmdb_install (X, L, db) ops = (X, L, db')"
  proof (induction ops arbitrary: db)
    case (Cons op ops)
    obtain kk n h v where "op = (kk, n, h, v)" by (cases op)
    moreover have "\<exists>db1. snd (lmdb_install (X, L, db) kk n h v) = (X, L, db1)"
      by (cases kk; cases v) (auto simp: lmdb_install_def split: prod.splits)
    ultimately show ?case using Cons.IH by fastforce
  qed simp
  moreover have "\<exists>m'. lmdb_seq_of (run_puts lmdb_install (X, L, db) ops) (kind, k) = Some m' \<and>
      m \<le> m' \<and> (m' = m \<longrightarrow> lmdb_content (run_puts lmdb_install (X, L, db) ops) (kind, k) =
        lmdb_content (X, L, db) (kind, k))"
    using assms by (intro durable.run_monotone) (simp_all add: lmdb_ok_def lmdb_seq_of_def)
  ultimately show ?thesis by (auto simp: lmdb_seq_of_def)
qed

theorem store_never_goes_back_witness:
  "\<exists>db1. stored_seq store_ext map_lmdb db1 Identity_kind [9] = Some 4 \<and>
     (\<exists>m' \<ge> 4. \<exists>db'. run_puts lmdb_install (store_ext, map_lmdb, db1)
        [((Identity_kind, [9]), 5, hash_of 8, ([80], Some [[70], [80]])),
         ((Provider_kind, [9]), 4, hash_of 7, ([70], None))] = (store_ext, map_lmdb, db') \<and>
        stored_seq store_ext map_lmdb db' Identity_kind [9] = Some m')"
proof -
  obtain db1 where put: "put_if_newer store_ext map_lmdb db0 Identity_kind [9] (PBytes [70]) (PInt 4)
     (PBytes (hash_of 7)) (map_option (\<lambda>bs. PList (map PBytes bs)) None) = (Inr True, db1)"
    using sample_put by blast
  have "stored_seq store_ext map_lmdb db1 Identity_kind [9] = Some 4"
    by (rule put_if_newer_True(1) [OF map_lmdb_laws store_ext_codec put])
  with store_never_goes_back [OF map_lmdb_laws store_ext_codec this] show ?thesis by blast
qed

text \<open>
  An unconditional \<open>put\<close> does not tell the conditional write what it stored. The metadata of
  the record stays, so the Seq that the next \<open>put_if_newer\<close> compares with is the one accepted
  before, whatever the Seq of the value written in between.
\<close>
lemma unconditional_put_keeps_seq:
  assumes "lmdb_laws L" and "store_put L db kind k v = (Inr (), db')"
    and "txn_get L db Accepted_db (metadata_key kind k) = Inr (Some m)" and "metadata_seq X m = Some n"
  shows "store_get L db' kind k = Inr (Some v) \<and> stored_seq X L db' kind k = Some n"
proof -
  have put: "txn_put L db (kind_db kind) k v = Inr db'"
    using assms(2) by (auto simp: store_put_def split: sum.splits)
  have "kind_db kind \<noteq> Accepted_db" by (cases kind) (simp_all add: kind_db_def)
  then have "txn_get L db' Accepted_db (metadata_key kind k) = Inr (Some m)"
    using put assms(1,3) by (auto simp: lmdb_laws_def)
  moreover have "txn_get L db' (kind_db kind) k = Inr (Some v)"
    using put assms(1) by (auto simp: lmdb_laws_def)
  ultimately show ?thesis
    using assms(4) by (simp add: store_get_def stored_seq_def current_seq_def)
qed

lemma unconditional_put_keeps_seq_witness:
  "\<exists>db. stored_seq store_ext map_lmdb db Identity_kind [9] = Some 4 \<and>
     store_get map_lmdb db Identity_kind [9] = Inr (Some [99])"
proof -
  let ?db = "db0(Accepted_db := [metadata_key Identity_kind [9] \<mapsto> [1]])"
  have put: "store_put map_lmdb ?db Identity_kind [9] [99] =
      (Inr (), ?db(Identity_db := [[9] \<mapsto> [99]]))"
    by (simp add: store_put_def map_lmdb_def kind_db_def db0_def)
  have "txn_get map_lmdb ?db Accepted_db (metadata_key Identity_kind [9]) = Inr (Some [1])"
    by (simp add: map_lmdb_def)
  moreover have "metadata_seq store_ext [1] = Some 4"
    by (simp add: metadata_seq_def store_ext_def toy_ext_def accepted_metadata_def keys_are_def)
  ultimately show ?thesis
    using unconditional_put_keeps_seq [OF map_lmdb_laws put] by blast
qed

end
