(* ===== verification/Multisig_Bundle.thy ===== *)
theory Multisig_Bundle
  imports Verification
begin

text \<open>
  \<open>multisig_bundle.py\<close>: the local object signers pass around. A bundle is the canonical bytes of
  one update with the detached proofs collected so far; it can be drafted, signed, merged with
  a proof, serialised and restored, and finalised once its quorum is complete. The properties of
  a bundle that the source computes from the bytes on every use are computed here the same way.
\<close>

record msig_proof =
  mp_update :: bytes
  mp_signer_id :: pstr
  mp_signature :: bytes

record msig_bundle =
  b_update :: bytes
  b_proofs :: "msig_proof list"

text \<open>
  \<open>MultisignatureProof(...)\<close>. The identifier is any value on the way in: a restored envelope may
  hold a null identifier.
\<close>

definition make_proof :: "pyval \<Rightarrow> pyval \<Rightarrow> pyval \<Rightarrow> msig_proof res" where
  "make_proof upd signer_id signature =
     bindE (want_bytes (Type_error ''signed_update_bytes must be bytes'') upd) (\<lambda>u.
     bindE (want_str (Value_error ''proof signer_id must be a non-empty text string'') signer_id) (\<lambda>i.
     if i = [] then Inl (Value_error ''proof signer_id must be a non-empty text string'')
     else bindE (want_bytes (Type_error ''proof signature must be bytes'') signature) (\<lambda>sg.
     Inr \<lparr>mp_update = u, mp_signer_id = i, mp_signature = sg\<rparr>)))"

text \<open>\<open>to_wire\<close>: the proof as the dictionary an envelope holds.\<close>

definition proof_to_wire :: "msig_proof \<Rightarrow> pyval" where
  "proof_to_wire p = PDict [(PInt 1, PStr (mp_signer_id p)), (PInt 2, PBytes (mp_signature p))]"

definition bundle_proof_key :: "msig_proof \<Rightarrow> bytes" where
  "bundle_proof_key p = utf8_key (mp_signer_id p)"

text \<open>
  \<open>MultisignatureBundle(...)\<close>: the update must decode, and the proofs are sorted by the UTF-8
  encoding of their identifiers, which must exist.
\<close>

definition make_bundle :: "ext \<Rightarrow> bytes \<Rightarrow> msig_proof list \<Rightarrow> msig_bundle res" where
  "make_bundle X upd proofs =
     bindE (decode_multisignature_signed_update X upd) (\<lambda>_.
     bindE (mapE (\<lambda>p. utf8 (mp_signer_id p)) proofs) (\<lambda>_.
     Inr \<lparr>b_update = upd, b_proofs = sort_key bundle_proof_key proofs\<rparr>))"

definition bundle_signed_update :: "ext \<Rightarrow> msig_bundle \<Rightarrow> (signed_update \<times> auth_map) res" where
  "bundle_signed_update X b = decode_multisignature_signed_update X (b_update b)"

definition bundle_authorization :: "ext \<Rightarrow> msig_bundle \<Rightarrow> auth_map res" where
  "bundle_authorization X b = bindE (bundle_signed_update X b) (\<lambda>(_, a). Inr a)"

definition bundle_signer_set :: "ext \<Rightarrow> msig_bundle \<Rightarrow> signers res" where
  "bundle_signer_set X b = bindE (bundle_authorization X b) (\<lambda>a. Inr (signer_set a))"

definition bundle_to_cbor :: "ext \<Rightarrow> msig_bundle \<Rightarrow> bytes res" where
  "bundle_to_cbor X b =
     encode_multisignature_envelope X (b_update b) (PList (map proof_to_wire (b_proofs b)))
       (PInt multisig_envelope_version) True"

definition bundle_from_cbor :: "ext \<Rightarrow> bytes \<Rightarrow> msig_bundle res" where
  "bundle_from_cbor X bundle_cbor =
     bindE (decode_multisignature_envelope X bundle_cbor) (\<lambda>envelope.
     bindE (mapE (\<lambda>p. make_proof (PBytes (env_update envelope))
                       (case fst p of None \<Rightarrow> PNone | Some i \<Rightarrow> PStr i) (PBytes (snd p)))
             (env_proofs envelope)) (\<lambda>proofs.
     make_bundle X (env_update envelope) proofs))"

subsection \<open>Drafting\<close>

definition authorization_dict ::
  "int \<Rightarrow> int \<Rightarrow> int \<Rightarrow> int \<Rightarrow> pyval list \<Rightarrow> bytes \<Rightarrow> pyval" where
  "authorization_dict kind oper ep thr signer_entries pre = PDict
     [(PInt 1, PInt 1), (PInt 2, PInt kind), (PInt 3, PInt oper), (PInt 4, PInt ep),
      (PInt 5, PInt thr), (PInt 6, PList signer_entries), (PInt 7, PBytes pre)]"

definition draft_bundle ::
  "ext \<Rightarrow> int \<Rightarrow> pydict \<Rightarrow> pydict \<Rightarrow> pyval \<Rightarrow> pyval list \<Rightarrow> int \<Rightarrow> int \<Rightarrow> bytes \<Rightarrow> int \<Rightarrow> msig_bundle res" where
  "draft_bundle X kind record_fields payload seq signer_entries thr ep pre oper =
     bindE (encode_multisignature_signed_update X record_fields payload seq
              (authorization_dict kind oper ep thr signer_entries pre)) (\<lambda>upd.
     make_bundle X upd [])"

definition draft_identity_bundle ::
  "ext \<Rightarrow> pyval \<Rightarrow> pyval \<Rightarrow> pyval \<Rightarrow> pyval list \<Rightarrow> int \<Rightarrow> int \<Rightarrow> bytes \<Rightarrow> int \<Rightarrow> msig_bundle res" where
  "draft_identity_bundle X owner_name owner_public_key seq signer_entries thr ep pre oper =
     draft_bundle X record_kind_identity [(PInt 1, owner_name), (PInt 2, owner_public_key)] []
       seq signer_entries thr ep pre oper"

definition draft_provider_bundle ::
  "ext \<Rightarrow> pyval \<Rightarrow> pyval list \<Rightarrow> pyval list \<Rightarrow> pyval \<Rightarrow> pyval \<Rightarrow> pyval list \<Rightarrow> int \<Rightarrow> int \<Rightarrow> bytes \<Rightarrow>
   int \<Rightarrow> pyval \<Rightarrow> msig_bundle res" where
  "draft_provider_bundle X object_hash provider_urls endpoints owner_public_key seq signer_entries
     thr ep pre oper alg =
     bindE (build_provider_payload_dict X (PInt 3) alg object_hash provider_urls endpoints) (\<lambda>payload.
     draft_bundle X record_kind_provider [(PInt 1, owner_public_key)] payload seq signer_entries
       thr ep pre oper)"

definition draft_provider_withdrawal_bundle ::
  "ext \<Rightarrow> pyval \<Rightarrow> pyval \<Rightarrow> pyval \<Rightarrow> pyval list \<Rightarrow> pyval option \<Rightarrow> int \<Rightarrow> int \<Rightarrow> bytes \<Rightarrow> pyval \<Rightarrow>
   msig_bundle res" where
  "draft_provider_withdrawal_bundle X object_hash owner_public_key seq signer_entries replacement
     thr ep pre alg =
     bindE (build_provider_withdrawal_payload_dict alg object_hash replacement) (\<lambda>payload.
     draft_bundle X record_kind_provider [(PInt 1, owner_public_key)] payload seq signer_entries
       thr ep pre operation_ordinary_update)"

subsection \<open>Signing and merging\<close>

definition public_key_bytes :: "ext \<Rightarrow> bytes \<Rightarrow> bytes res" where
  "public_key_bytes X private_key =
     wrapE (ed_public X private_key)
       (Type_error ''signer_private_key must be one local Ed25519 private key'')"

definition sign_bundle :: "ext \<Rightarrow> msig_bundle \<Rightarrow> bytes \<Rightarrow> msig_proof res" where
  "sign_bundle X b private_key =
     bindE (public_key_bytes X private_key) (\<lambda>public_key.
     bindE (bundle_signer_set X b) (\<lambda>members.
     case find (\<lambda>e. snd e = public_key) members of
       None \<Rightarrow> Inl (Value_error ''signer is not a member of the bundle Signer Set'')
     | Some (signer_id, _) \<Rightarrow>
         make_proof (PBytes (b_update b)) (PStr signer_id)
           (PBytes (make_signed_update_signature X (b_update b) private_key))))"

definition validate_bundle_proof :: "ext \<Rightarrow> msig_bundle \<Rightarrow> msig_proof \<Rightarrow> unit res" where
  "validate_bundle_proof X b p =
     (if mp_update p \<noteq> b_update b
      then Inl (Value_error ''proof is not bound to the exact bundle SignedUpdate'')
      else bindE (bundle_signer_set X b) (\<lambda>members.
      case signer_dict members (Some (mp_signer_id p)) of
        None \<Rightarrow> Inl (Value_error ''proof signer is not a member of the bundle Signer Set'')
      | Some expected_public_key \<Rightarrow>
          if length (mp_signature p) \<noteq> 64 then Inl (Value_error ''proof signature is malformed'')
          else bindE (wrapE (verify_ed25519_signature X expected_public_key (b_update b)
                               (mp_signature p)) (Value_error ''proof signature is invalid'')) (\<lambda>valid.
          if \<not> valid then Inl (Value_error ''proof signature is invalid'') else Inr ())))"

definition merge_proof :: "ext \<Rightarrow> msig_bundle \<Rightarrow> msig_proof \<Rightarrow> msig_bundle res" where
  "merge_proof X b p =
     (if list_ex (\<lambda>q. mp_signer_id q = mp_signer_id p) (b_proofs b)
      then Inl (Value_error ''duplicate proof signer'')
      else bindE (validate_bundle_proof X b p) (\<lambda>_.
      make_bundle X (b_update b) (b_proofs b @ [p])))"

fun merge_proofs :: "ext \<Rightarrow> msig_bundle \<Rightarrow> msig_proof list \<Rightarrow> msig_bundle res" where
  "merge_proofs X b [] = Inr b"
| "merge_proofs X b (p # proofs) = bindE (merge_proof X b p) (\<lambda>b'. merge_proofs X b' proofs)"

subsection \<open>Finalising\<close>

fun finalize_loop :: "ext \<Rightarrow> msig_bundle \<Rightarrow> msig_proof list \<Rightarrow> pstr list \<Rightarrow> pstr list res" where
  "finalize_loop X b [] seen = Inr seen"
| "finalize_loop X b (p # proofs) seen =
     (if mp_signer_id p \<in> set seen then Inl (Value_error ''duplicate proof signer'')
      else bindE (validate_bundle_proof X b p) (\<lambda>_.
      finalize_loop X b proofs (mp_signer_id p # seen)))"

definition finalize_bundle :: "ext \<Rightarrow> msig_bundle \<Rightarrow> bytes res" where
  "finalize_bundle X b =
     bindE (finalize_loop X b (b_proofs b) []) (\<lambda>seen.
     bindE (bundle_signed_update X b) (\<lambda>(u, a).
     bindE
       (if operation a = operation_upgrade then
          (if length seen \<noteq> 1 then Inl (Value_error ''upgrade requires one legacy owner proof'')
           else bindE (dsub (su_fields u) (if record_kind a = record_kind_identity then 2 else 1))
             (\<lambda>raw. bindE (py_bytes raw) (\<lambda>owner_public_key.
             case b_proofs b of
               [] \<Rightarrow> Inl Index_error
             | p # _ \<Rightarrow>
                 if signer_dict (signer_set a) (Some (mp_signer_id p)) \<noteq> Some owner_public_key
                 then Inl (Value_error ''upgrade proof must be from the legacy owner'') else Inr ())))
        else if int (length seen) < threshold a then Inl (Value_error ''threshold not met'')
        else Inr ()) (\<lambda>_.
     bundle_to_cbor X b)))"

end
