(* ===== verification/Bundle_Properties.thy ===== *)
theory Bundle_Properties
  imports Multisig_Bundle Transitions Samples "HOL-Library.Multiset"
begin

text \<open>
  The properties of bundles: a signature a member makes is a proof the bundle accepts, the order
  in which proofs arrive does not matter, serialising keeps a bundle, and a finalised bundle
  carries the quorum the registry will ask for.
\<close>

definition proof_pair :: "msig_proof \<Rightarrow> proof_entry" where
  "proof_pair p = (Some (mp_signer_id p), mp_signature p)"

lemma proof_pair_simps [simp]:
  "fst (proof_pair p) = Some (mp_signer_id p)" "snd (proof_pair p) = mp_signature p"
  "proof_to_wire p = proof_py (proof_pair p)" "proof_sort_key (proof_pair p) = bundle_proof_key p"
  by (simp_all add: proof_pair_def proof_to_wire_def proof_py_def proof_sort_key_def
      bundle_proof_key_def)

text \<open>A proof that is bound to the bundle's update and valid for it.\<close>

definition bundle_proof_ok :: "ext \<Rightarrow> bytes \<Rightarrow> signers \<Rightarrow> msig_proof \<Rightarrow> bool" where
  "bundle_proof_ok X upd s p =
     (mp_update p = upd \<and> length (mp_signature p) = 64 \<and> proof_valid X upd s (proof_pair p))"

lemma bundle_members:
  "decode_multisignature_signed_update X (b_update b) = Inr (u, a) \<Longrightarrow>
     bundle_signer_set X b = Inr (signer_set a)"
  by (simp add: bundle_signer_set_def bundle_authorization_def bundle_signed_update_def)

lemma validate_bundle_proof_iff:
  assumes "decode_multisignature_signed_update X (b_update b) = Inr (u, a)"
  shows "(validate_bundle_proof X b p = Inr ()) = bundle_proof_ok X (b_update b) (signer_set a) p"
proof (cases "signer_dict (signer_set a) (Some (mp_signer_id p))")
  case None
  then show ?thesis
    by (simp add: validate_bundle_proof_def bundle_members [OF assms] bundle_proof_ok_def
        proof_valid_def)
next
  case (Some pk)
  then show ?thesis
    by (auto simp: validate_bundle_proof_def bundle_members [OF assms] bundle_proof_ok_def
        proof_valid_def bindE_Inr wrapE_Inr)
qed

lemma ok_proof_signer:
  assumes "bundle_proof_ok X upd s p" and "wf_signers s"
  shows "mp_signer_id p \<noteq> [] \<and> (\<exists>b. utf8_opt (mp_signer_id p) = Some b \<and> length b \<le> 256)"
proof -
  obtain pk where "signer_dict s (Some (mp_signer_id p)) = Some pk"
    using assms(1) by (auto simp: bundle_proof_ok_def proof_valid_def split: option.splits)
  then have "(mp_signer_id p, pk) \<in> set s" by (auto dest: signer_dict_in)
  with assms(2) show ?thesis by (fastforce simp: wf_signers_def signer_ok_def)
qed

subsection \<open>Merging\<close>

text \<open>Bundles as the operations build them.\<close>

definition wf_bundle :: "ext \<Rightarrow> auth_map \<Rightarrow> msig_bundle \<Rightarrow> bool" where
  "wf_bundle X a b =
     ((\<exists>u. decode_multisignature_signed_update X (b_update b) = Inr (u, a)) \<and>
      list_all (bundle_proof_ok X (b_update b) (signer_set a)) (b_proofs b) \<and>
      distinct (map mp_signer_id (b_proofs b)) \<and> sorted (map bundle_proof_key (b_proofs b)))"

lemma wf_bundle_signers: "wf_bundle X a b \<Longrightarrow> wf_signers (signer_set a)"
  by (auto simp: wf_bundle_def wf_auth_def dest: decode_multisig_wf(3))

lemma key_inj_on_ok:
  assumes "list_all (bundle_proof_ok X upd s) ps" "wf_signers s" "distinct (map mp_signer_id ps)"
  shows "inj_on bundle_proof_key (set ps)"
proof (rule inj_onI)
  fix p q
  assume p: "p \<in> set ps" and q: "q \<in> set ps" and eq: "bundle_proof_key p = bundle_proof_key q"
  have "utf8_opt (mp_signer_id p) \<noteq> None" "utf8_opt (mp_signer_id q) \<noteq> None"
    using ok_proof_signer [OF _ assms(2)] assms(1) p q by (fastforce simp: list_all_iff)+
  with eq utf8_key_inj have "mp_signer_id p = mp_signer_id q"
    by (auto simp: bundle_proof_key_def inj_on_def)
  with assms(3) p q show "p = q" by (auto simp: distinct_map inj_on_def)
qed

lemma make_bundle_ok:
  assumes "decode_multisignature_signed_update X upd = Inr (u, a)"
    and "list_all (bundle_proof_ok X upd (signer_set a)) ps"
  shows "make_bundle X upd ps = Inr \<lparr>b_update = upd, b_proofs = sort_key bundle_proof_key ps\<rparr>"
proof -
  have wf: "wf_signers (signer_set a)"
    using decode_multisig_wf(3) [OF assms(1)] by (simp add: wf_auth_def)
  have "mapE (\<lambda>p. utf8 (mp_signer_id p)) ps = Inr (map (\<lambda>p. utf8_key (mp_signer_id p)) ps)"
  proof (rule mapE_all_Inr)
    fix p assume "p \<in> set ps"
    with assms(2) ok_proof_signer [OF _ wf, of X upd p]
    show "utf8 (mp_signer_id p) = Inr (utf8_key (mp_signer_id p))"
      by (auto simp: list_all_iff utf8_Inr utf8_key_Some)
  qed
  with assms(1) show ?thesis by (simp add: make_bundle_def)
qed

lemma merge_proof_iff:
  assumes wf: "wf_bundle X a b"
  shows "(merge_proof X b p = Inr b') =
    (mp_signer_id p \<notin> mp_signer_id ` set (b_proofs b) \<and>
     bundle_proof_ok X (b_update b) (signer_set a) p \<and>
     b' = \<lparr>b_update = b_update b, b_proofs = sort_key bundle_proof_key (b_proofs b @ [p])\<rparr>)"
proof -
  obtain u where u: "decode_multisignature_signed_update X (b_update b) = Inr (u, a)"
    using wf by (auto simp: wf_bundle_def)
  have mk: "make_bundle X (b_update b) (b_proofs b @ [p]) =
      Inr \<lparr>b_update = b_update b, b_proofs = sort_key bundle_proof_key (b_proofs b @ [p])\<rparr>"
    if "bundle_proof_ok X (b_update b) (signer_set a) p"
    using make_bundle_ok [OF u] wf that by (simp add: wf_bundle_def)
  have "list_ex (\<lambda>q. mp_signer_id q = mp_signer_id p) (b_proofs b) =
      (mp_signer_id p \<in> mp_signer_id ` set (b_proofs b))"
    by (auto simp: list_ex_iff intro: rev_image_eqI)
  then show ?thesis
    using mk by (auto simp: merge_proof_def bindE_Inr validate_bundle_proof_iff [OF u])
qed

lemma merge_proof_wf:
  assumes "wf_bundle X a b" and "merge_proof X b p = Inr b'"
  shows "wf_bundle X a b'" and "b_update b' = b_update b"
  using assms by (auto simp: merge_proof_iff wf_bundle_def list_all_iff distinct_map)

lemma merge_proofs_iff:
  assumes "wf_bundle X a b"
  shows "(merge_proofs X b ps = Inr b') =
    (distinct (map mp_signer_id (b_proofs b @ ps)) \<and>
     list_all (bundle_proof_ok X (b_update b) (signer_set a)) ps \<and>
     b' = \<lparr>b_update = b_update b, b_proofs = sort_key bundle_proof_key (b_proofs b @ ps)\<rparr>)"
  using assms
proof (induction ps arbitrary: b)
  case Nil
  then have "sort_key bundle_proof_key (b_proofs b) = b_proofs b"
    by (simp add: wf_bundle_def sort_key_fixed)
  with Nil show ?case by (cases b) (auto simp: wf_bundle_def)
next
  case (Cons p ps)
  show ?case
  proof (cases "merge_proof X b p")
    case (Inl e)
    then show ?thesis using merge_proof_iff [OF Cons.prems, of p] by auto
  next
    case (Inr b1)
    note step = Inr [unfolded merge_proof_iff [OF Cons.prems]]
    note wf1 = merge_proof_wf [OF Cons.prems Inr]
    have ids: "distinct (map mp_signer_id (b_proofs b1 @ ps)) =
        distinct (map mp_signer_id (b_proofs b @ p # ps))"
      using step by auto
    have "sort_key bundle_proof_key (b_proofs b1 @ ps) =
        sort_key bundle_proof_key (b_proofs b @ p # ps)"
      if d: "distinct (map mp_signer_id (b_proofs b @ p # ps))"
        and ok: "list_all (bundle_proof_ok X (b_update b) (signer_set a)) ps"
    proof (rule sort_key_inj_key_eq)
      show "mset (b_proofs b1 @ ps) = mset (sort_key bundle_proof_key (b_proofs b @ p # ps))"
        using step by simp
      show "sorted (map bundle_proof_key (sort_key bundle_proof_key (b_proofs b @ p # ps)))"
        by simp
      have "inj_on bundle_proof_key (set (b_proofs b @ p # ps))"
        by (rule key_inj_on_ok [where X = X and upd = "b_update b",
              OF _ wf_bundle_signers [OF Cons.prems] d])
          (use ok step Cons.prems in \<open>simp add: wf_bundle_def\<close>)
      then show "inj_on bundle_proof_key (set (b_proofs b1 @ ps))" using step by simp
    qed
    then show ?thesis
      using Cons.IH [OF wf1(1)] Inr ids step by auto
  qed
qed

text \<open>
  The order in which proofs are merged does not matter. If one order of a collection of
  proofs can be merged into a bundle, every order can, and the resulting bundles are equal.
\<close>
lemma merge_order_irrelevant:
  assumes "wf_bundle X a b" and "mset ps = mset qs" and "merge_proofs X b ps = Inr b'"
  shows "merge_proofs X b qs = Inr b'"
proof -
  have m: "mset (map mp_signer_id (b_proofs b @ ps)) = mset (map mp_signer_id (b_proofs b @ qs))"
    using assms(2) by simp
  note ps = assms(3) [unfolded merge_proofs_iff [OF assms(1)]]
  have "distinct (map mp_signer_id (b_proofs b @ qs))"
    using ps mset_eq_imp_distinct_iff [OF m] by blast
  moreover have ok: "list_all (bundle_proof_ok X (b_update b) (signer_set a)) qs"
    using ps mset_eq_setD [OF assms(2)] by (simp add: list_all_iff)
  moreover have "sort_key bundle_proof_key (b_proofs b @ ps) = sort_key bundle_proof_key (b_proofs b @ qs)"
  proof (rule sort_key_inj_key_eq)
    show "mset (b_proofs b @ ps) = mset (sort_key bundle_proof_key (b_proofs b @ qs))"
      using assms(2) by simp
    show "inj_on bundle_proof_key (set (b_proofs b @ ps))"
      by (rule key_inj_on_ok [where X = X and upd = "b_update b",
            OF _ wf_bundle_signers [OF assms(1)]])
        (use ps assms(1) in \<open>simp_all add: wf_bundle_def\<close>)
  qed simp
  ultimately show ?thesis using ps by (simp add: merge_proofs_iff [OF assms(1)])
qed

text \<open>
  A member's signature is always accepted. If the private key's public key is in the Signer
  Set of a well-formed bundle and that member has not signed yet, then the proof that
  \<open>sign_bundle\<close> makes can be merged.
\<close>
lemma own_signature_merges:
  assumes "signing_sound X" and "signature_length X" and "wf_bundle X a b"
    and "sign_bundle X b sk = Inr p"
    and "mp_signer_id p \<notin> mp_signer_id ` set (b_proofs b)"
  shows "\<exists>b'. merge_proof X b p = Inr b' \<and> wf_bundle X a b' \<and> p \<in> set (b_proofs b')"
proof -
  obtain u where u: "decode_multisignature_signed_update X (b_update b) = Inr (u, a)"
    using assms(3) by (auto simp: wf_bundle_def)
  have "is_ok (ed_public X sk)"
    using assms(4) by (auto simp: sign_bundle_def public_key_bytes_def bindE_Inr wrapE_Inr is_ok_iff)
  then obtain pk where pk: "ed_public X sk = Inr pk" by (auto simp: is_ok_iff)
  obtain e where found: "find (\<lambda>e. snd e = pk) (signer_set a) = Some e"
    using assms(4) pk
    by (cases "find (\<lambda>e. snd e = pk) (signer_set a)")
      (auto simp: sign_bundle_def public_key_bytes_def bundle_members [OF u])
  then have in_set: "e \<in> set (signer_set a)" and snd_e: "snd e = pk" by (auto simp: find_Some_iff)
  obtain sid k where sk: "e = (sid, k)" by (cases e)
  with in_set snd_e have e: "e = (sid, pk)" "(sid, pk) \<in> set (signer_set a)" by simp_all
  have p: "p = \<lparr>mp_update = b_update b, mp_signer_id = sid,
      mp_signature = ed_sign X sk (sha256 X (b_update b))\<rparr>"
    using assms(4) pk found e
    by (auto simp: sign_bundle_def public_key_bytes_def bundle_members [OF u] make_proof_def
        make_signed_update_signature_def if_raise_Inr)
  note e(2)
  moreover have "distinct (map fst (signer_set a))"
    using wf_bundle_signers [OF assms(3)] by (simp add: wf_signers_def)
  ultimately have "signer_dict (signer_set a) (Some sid) = Some pk"
    by (simp add: signer_dict_def rev_map [symmetric])
  then have "bundle_proof_ok X (b_update b) (signer_set a) p"
    using assms(1,2) pk
    by (simp add: bundle_proof_ok_def proof_valid_def p proof_pair_def signing_sound_def
        signature_length_def verify_ed25519_signature_def)
  then have "merge_proof X b p = Inr \<lparr>b_update = b_update b,
      b_proofs = sort_key bundle_proof_key (b_proofs b @ [p])\<rparr>"
    using assms(5) by (simp add: merge_proof_iff [OF assms(3)])
  with merge_proof_wf(1) [OF assms(3)] show ?thesis by fastforce
qed

subsection \<open>Serialising and finalising\<close>

lemma wf_bundle_proofs:
  assumes "wf_bundle X a b"
  shows "wf_proofs (map proof_pair (b_proofs b))"
proof -
  have "proof_ok (proof_pair p)" if "p \<in> set (b_proofs b)" for p
    using that assms ok_proof_signer [OF _ wf_bundle_signers [OF assms], of X "b_update b" p]
    by (auto simp: wf_bundle_def list_all_iff proof_ok_def bundle_proof_ok_def)
  moreover have "distinct (map fst (map proof_pair (b_proofs b)))"
    using assms by (auto simp: wf_bundle_def distinct_map inj_on_def comp_def)
  moreover have "sorted (map proof_sort_key (map proof_pair (b_proofs b)))"
    using assms by (simp add: wf_bundle_def comp_def)
  ultimately show ?thesis by (auto simp: wf_proofs_def)
qed

lemma bundle_to_cbor_eq:
  assumes "wf_bundle X a b"
  shows "bundle_to_cbor X b = cbor_dumps X (multisig_envelope_py
    \<lparr>env_version = 1, env_update = b_update b, env_proofs = map proof_pair (b_proofs b)\<rparr>)"
proof -
  obtain u where u: "decode_multisignature_signed_update X (b_update b) = Inr (u, a)"
    using assms by (auto simp: wf_bundle_def)
  have "map proof_to_wire (b_proofs b) = map proof_py (map proof_pair (b_proofs b))" by simp
  then have "validate_proofs (PList (map proof_to_wire (b_proofs b))) True False =
      Inr (map proof_pair (b_proofs b))"
    by (simp only: validate_proofs_py [OF wf_bundle_proofs [OF assms]])
  then show ?thesis using u
    by (simp add: bundle_to_cbor_def encode_multisignature_envelope_def multisig_envelope_version_def)
qed

lemma canonical_envelope: "canonical_value (multisig_envelope_py \<lparr>env_version = 1, env_update = upd,
    env_proofs = map proof_pair ps\<rparr>)"
proof -
  have "canonical_value (proof_py (proof_pair p))" for p
    by (simp add: proof_py_def proof_pair_def)
  then show ?thesis by (simp add: multisig_envelope_py_def list_all_iff)
qed

lemma bundle_to_cbor_Inr:
  assumes "wf_bundle X a b" and "bundle_to_cbor X b = Inr out" and "cbor_decodes X out"
  shows "decode_multisignature_envelope X out =
    Inr \<lparr>env_version = 1, env_update = b_update b, env_proofs = map proof_pair (b_proofs b)\<rparr>"
proof -
  obtain u where u: "decode_multisignature_signed_update X (b_update b) = Inr (u, a)"
    using assms(1) by (auto simp: wf_bundle_def)
  show ?thesis
    using assms(2,3)
    by (intro decode_encoded_multisig_envelope [OF u wf_bundle_proofs [OF assms(1)]])
      (simp add: bundle_to_cbor_eq [OF assms(1)] cbor_roundtrips_def cbor_decodes_def canonical_envelope)
qed

text \<open>
  A bundle survives serialisation. What \<open>to_cbor\<close> writes for a well-formed bundle, complete
  or partial, \<open>from_cbor\<close> restores to the same bundle.
\<close>
lemma bundle_roundtrip:
  assumes "wf_bundle X a b" and "bundle_to_cbor X b = Inr out" and "cbor_decodes X out"
  shows "bundle_from_cbor X out = Inr b"
proof -
  obtain u where u: "decode_multisignature_signed_update X (b_update b) = Inr (u, a)"
    using assms(1) by (auto simp: wf_bundle_def)
  have "make_proof (PBytes (b_update b)) (PStr (mp_signer_id p)) (PBytes (mp_signature p)) = Inr p"
    if "p \<in> set (b_proofs b)" for p
    using that assms(1) ok_proof_signer [OF _ wf_bundle_signers [OF assms(1)], of X "b_update b" p]
    by (auto simp: make_proof_def wf_bundle_def list_all_iff bundle_proof_ok_def)
  then have restore: "mapE (\<lambda>p. make_proof (PBytes (b_update b))
      (case fst p of None \<Rightarrow> PNone | Some i \<Rightarrow> PStr i) (PBytes (snd p)))
      (map proof_pair (b_proofs b)) = Inr (b_proofs b)"
    by (simp add: mapE_Inr_iff list.rel_map list.rel_refl_strong)
  have "make_bundle X (b_update b) (b_proofs b) = Inr b"
    using make_bundle_ok [OF u] assms(1) by (cases b) (simp add: wf_bundle_def sort_key_fixed)
  with restore show ?thesis
    by (simp add: bundle_from_cbor_def bundle_to_cbor_Inr [OF assms])
qed

subsection \<open>Sample bundles\<close>

definition bundle_sample_proof :: "nat \<Rightarrow> pstr \<times> nat \<Rightarrow> msig_proof" where
  "bundle_sample_proof n p =
     \<lparr>mp_update = [b8 n], mp_signer_id = fst p, mp_signature = snd (sample_proof n (Some (fst p), snd p))\<rparr>"

definition sample_bundle :: "nat \<Rightarrow> (pstr \<times> nat) list \<Rightarrow> msig_bundle" where
  "sample_bundle n ps = \<lparr>b_update = [b8 n], b_proofs = map (bundle_sample_proof n) ps\<rparr>"

lemma sample_proof_pair [simp]:
  "proof_pair (bundle_sample_proof n (i, k)) = sample_proof n (Some i, k)"
  by (simp add: proof_pair_def bundle_sample_proof_def sample_proof_def)

lemma sample_bundle_updates:
  "decode_multisignature_signed_update sample_ext [22] =
     Inr (identity_update 1 0 (Some (sample_auth 1 1 1 signers_abc (zero_bytes 32))),
          sample_auth 1 1 1 signers_abc (zero_bytes 32))"
  "decode_multisignature_signed_update sample_ext [16] =
     Inr (identity_update 1 3 (Some (sample_auth 1 3 2 signers_abd (hash_of 14))),
          sample_auth 1 3 2 signers_abd (hash_of 14))"
  using candidate_Inr(3) [OF sample_candidates(6)] sample_updates_of_states(2)
  by (simp_all add: sample_candidate_def)

lemma sample_proof_bound:
  "(i, k) \<in> {([97], 1), ([98], 2)} \<Longrightarrow> s = signers_abc \<or> s = signers_abd \<Longrightarrow>
   bundle_proof_ok sample_ext [b8 n] s (bundle_sample_proof n (i, k))"
  using sample_signature_valid [of k n "Some i"]
  by (auto simp: bundle_proof_ok_def proof_valid_def bundle_sample_proof_def signer_dict_def
      signers_abc_def signers_abd_def) (simp_all add: sample_proof_def)

lemma sample_bundles_wf:
  "wf_bundle sample_ext (sample_auth 1 1 1 signers_abc (zero_bytes 32)) (sample_bundle 22 [])"
  "wf_bundle sample_ext (sample_auth 1 1 1 signers_abc (zero_bytes 32))
     (sample_bundle 22 [([97], 1), ([98], 2)])"
  "wf_bundle sample_ext (sample_auth 1 3 2 signers_abd (hash_of 14))
     (sample_bundle 16 [([97], 1), ([98], 2)])"
  using sample_bundle_updates sample_proof_bound [of "[97]" 1 signers_abc 22]
    sample_proof_bound [of "[98]" 2 signers_abc 22] sample_proof_bound [of "[97]" 1 signers_abd 16]
    sample_proof_bound [of "[98]" 2 signers_abd 16]
  by (simp_all add: wf_bundle_def sample_bundle_def sample_auth_def)
    (simp_all add: bundle_sample_proof_def bundle_proof_key_def utf8_key_def utf8_char_def)

lemma sample_merge:
  "merge_proofs sample_ext (sample_bundle 22 []) [bundle_sample_proof 22 ([97], 1),
     bundle_sample_proof 22 ([98], 2)] = Inr (sample_bundle 22 [([97], 1), ([98], 2)])"
  unfolding merge_proofs_iff [OF sample_bundles_wf(1)]
  using sample_bundles_wf(2)
  by (simp add: wf_bundle_def sample_bundle_def sort_key_fixed)

lemma merge_order_irrelevant_witness:
  "merge_proofs sample_ext (sample_bundle 22 []) [bundle_sample_proof 22 ([98], 2),
     bundle_sample_proof 22 ([97], 1)] = Inr (sample_bundle 22 [([97], 1), ([98], 2)])"
  by (rule merge_order_irrelevant [OF sample_bundles_wf(1) _ sample_merge]) simp

lemma sample_sign:
  "sign_bundle sample_ext (sample_bundle 22 []) [1] = Inr (bundle_sample_proof 22 ([97], 1))"
  using bundle_members [of sample_ext "sample_bundle 22 []"] sample_bundle_updates(1)
  by (simp add: sign_bundle_def sample_bundle_def public_key_bytes_def)
    (simp add: sample_ext_def toy_ext_def toy_sign_def sample_auth_def signers_abc_def key_def
      make_proof_def make_signed_update_signature_def bundle_sample_proof_def sample_proof_def
      hash_of_def)

lemma own_signature_merges_witness:
  "\<exists>b'. merge_proof sample_ext (sample_bundle 22 []) (bundle_sample_proof 22 ([97], 1)) = Inr b' \<and>
     bundle_sample_proof 22 ([97], 1) \<in> set (b_proofs b')"
  using own_signature_merges [OF toy_signing_sound [of "identity_table @ provider_table @ store_table",
        folded sample_ext_def] toy_signature_length [of "identity_table @ provider_table @ store_table",
        folded sample_ext_def] sample_bundles_wf(1) sample_sign]
  by (auto simp: sample_bundle_def)

lemma sample_bundle_cbor:
  "bundle_to_cbor sample_ext (sample_bundle 22 [([97], 1), ([98], 2)]) = Inr [23]"
  "bundle_to_cbor sample_ext (sample_bundle 16 [([97], 1), ([98], 2)]) = Inr [17]"
  unfolding bundle_to_cbor_eq [OF sample_bundles_wf(2)] bundle_to_cbor_eq [OF sample_bundles_wf(3)]
  using sample_roundtrip [of "[23]" "sample_envelope 22 [sig_a, sig_b]"]
    sample_roundtrip [of "[17]" "sample_envelope 16 [sig_a, sig_b]"]
  by (simp_all add: identity_table_def cbor_roundtrips_def sample_bundle_def sample_envelope_def
      sig_a_def sig_b_def)

lemma bundle_roundtrip_witness:
  "bundle_from_cbor sample_ext [23] = Inr (sample_bundle 22 [([97], 1), ([98], 2)])"
  by (rule bundle_roundtrip [OF sample_bundles_wf(2) sample_bundle_cbor(1) sample_codec_decodes])

end
