(* ===== verification/Bundle_Finalization.thy ===== *)
theory Bundle_Finalization
  imports Bundle_Properties Record_Properties
begin

text \<open>
  What \<open>finalize_bundle\<close> promises. It checks proofs against the Signer Set of the update itself;
  the registry checks them against the Signer Set of the state the update extends. The two agree
  for a genesis, an ordinary update and a rotation; the last property states what their
  difference means for a signer replacement.
\<close>

lemma finalize_loop_Inr:
  assumes "decode_multisignature_signed_update X (b_update b) = Inr (u, a)"
  shows "(finalize_loop X b ps seen = Inr out) =
    (distinct (map mp_signer_id ps) \<and> set (map mp_signer_id ps) \<inter> set seen = {} \<and>
     list_all (bundle_proof_ok X (b_update b) (signer_set a)) ps \<and>
     out = rev (map mp_signer_id ps) @ seen)"
proof (induction ps arbitrary: seen)
  case (Cons p ps)
  show ?case
    using Cons.IH [of "mp_signer_id p # seen"]
    by (auto simp: bindE_Inr validate_bundle_proof_iff [OF assms])
qed auto

lemma make_bundle_Inr:
  assumes "make_bundle X upd ps = Inr b"
  shows "b_update b = upd" and "sorted (map bundle_proof_key (b_proofs b))"
    and "\<exists>u a. decode_multisignature_signed_update X upd = Inr (u, a)"
  using assms by (auto simp: make_bundle_def bindE_Inr)

lemma finalize_Inr:
  assumes "make_bundle X upd ps = Inr b" and "finalize_bundle X b = Inr out"
  obtains u a where "decode_multisignature_signed_update X upd = Inr (u, a)" "wf_bundle X a b"
    "bundle_to_cbor X b = Inr out"
    "operation a \<noteq> operation_upgrade \<Longrightarrow> threshold a \<le> int (length (b_proofs b))"
    "operation a = operation_upgrade \<Longrightarrow> length (b_proofs b) = 1"
proof -
  note mk = make_bundle_Inr [OF assms(1)]
  obtain u a where u: "decode_multisignature_signed_update X (b_update b) = Inr (u, a)"
    using mk by auto
  obtain seen where seen: "finalize_loop X b (b_proofs b) [] = Inr seen"
    using assms(2) by (auto simp: finalize_bundle_def bindE_Inr)
  note loop = seen [unfolded finalize_loop_Inr [OF u]]
  have "wf_bundle X a b" using loop u mk by (auto simp: wf_bundle_def)
  moreover have "length seen = length (b_proofs b)" using loop by simp
  ultimately show thesis
    using assms(2) u mk seen
    by (intro that [of u a])
      (auto simp: finalize_bundle_def bindE_Inr bundle_signed_update_def split: if_splits)
qed

lemma wf_bundle_quorum:
  assumes "wf_bundle X a b" and "thr \<le> int (length (b_proofs b))"
  shows "quorum X (b_update b) (signer_set a) thr (map proof_pair (b_proofs b))"
  using assms wf_bundle_proofs [OF assms(1)]
  by (auto simp: quorum_def wf_proofs_def wf_bundle_def list_all_iff bundle_proof_ok_def)

lemma candidate_exists:
  assumes "decode_multisignature_envelope X out = Inr e"
    and u: "decode_multisignature_signed_update X (env_update e) = Inr (u, a)"
  shows "\<exists>k. decode_multisignature_candidate X out =
    Inr \<lparr>c_bytes = env_update e, c_envelope = e, c_update = u, c_key = k, c_auth = a\<rparr>"
proof -
  have bind: "validate_record_kind_binding X (su_fields u) (su_payload u) (record_kind a) = Inr ()"
    by (rule decode_multisig_wf(4) [OF u])
  have "record_kind a = 1 \<or> record_kind a = 2"
    using decode_multisig_wf(3) [OF u] by (auto simp: wf_auth_def)
  then show ?thesis
  proof
    assume one: "record_kind a = 1"
    obtain name pk where "dget (su_fields u) 1 = Some (PBytes name)"
      "dget (su_fields u) 2 = Some (PBytes pk)"
      using bind binding_identity one by metis
    then have "extract_identity_and_keys X (su_fields u) = Inr (sha256 X name, pk)"
      by (simp add: extract_identity_Inr)
    then show ?thesis using assms one
      by (simp add: decode_multisignature_candidate_def wire_constants)
  next
    assume two: "record_kind a = 2"
    obtain pk p where pk: "dget (su_fields u) 1 = Some (PBytes pk)"
      and p: "decode_provider_payload_dict X (su_payload u) = Inr p"
      using bind binding_provider two by metis
    have h: "hash_ok (payload_object_hash p)"
      using decode_payload_ok [OF p]
      by (cases p) (auto simp: payload_ok_def active_ok_def withdrawn_ok_def)
    then obtain k where "fromhex_opt (payload_object_hash p) = Some k" using hash_ok_bytes by blast
    then have "extract_provider_and_keys X (su_fields u) (su_payload u) = Inr (k, pk)"
      using pk p h by (simp add: extract_provider_Inr hash_ok_def)
    then show ?thesis using assms two
      by (simp add: decode_multisignature_candidate_def wire_constants)
  qed
qed

text \<open>
  A finalised genesis is what the registry accepts: if a bundle made from a genesis update
  (epoch 1, zero predecessor, threshold 2, three signers) can be finalised, the emitted envelope
  passes genesis validation for the record key the update derives, and installs that update.
\<close>

lemma finalize_genesis:
  assumes "make_bundle X upd ps = Inr b" and "finalize_bundle X b = Inr out" and "cbor_decodes X out"
    and "decode_multisignature_signed_update X upd = Inr (u, a)"
    and "operation a = operation_genesis" and "epoch a = 1" and "predecessor a = zero_bytes 32"
    and "threshold a = 2" and "length (signer_set a) = 3"
  shows "\<exists>rk s. validate_multisignature_genesis X rk out = Inr s \<and> ms_update s = upd \<and>
    ms_signers s = signer_set a \<and> wf_state X s"
proof -
  obtain wf: "wf_bundle X a b" and out: "bundle_to_cbor X b = Inr out"
    and n: "2 \<le> int (length (b_proofs b))"
    using finalize_Inr [OF assms(1,2)] assms(4,5,8) by (auto simp: wire_constants)
  let ?e = "\<lparr>env_version = 1, env_update = b_update b, env_proofs = map proof_pair (b_proofs b)\<rparr>"
  have u: "decode_multisignature_signed_update X (env_update ?e) = Inr (u, a)"
    using assms(4) make_bundle_Inr(1) [OF assms(1)] by simp
  obtain k where c: "decode_multisignature_candidate X out =
      Inr \<lparr>c_bytes = env_update ?e, c_envelope = ?e, c_update = u, c_key = k, c_auth = a\<rparr>"
    using candidate_exists [OF bundle_to_cbor_Inr [OF wf out assms(3)] u] by blast
  let ?c = "\<lparr>c_bytes = env_update ?e, c_envelope = ?e, c_update = u, c_key = k, c_auth = a\<rparr>"
  have "validate_multisignature_genesis X k out = Inr (state_of X k ?c (Some [out]))"
    using assms(5-9) wf_bundle_quorum [OF wf n] by (simp add: genesis_Inr [OF c])
  moreover have "wf_state X (state_of X k ?c (Some [out]))" by (rule state_of_wf [OF c]) simp
  ultimately show ?thesis
    using make_bundle_Inr(1) [OF assms(1)] by (fastforce simp: state_of_def)
qed

text \<open>
  C37: a signer replacement that went through a bundle keeps all but one of the signers. The
  bundle takes proofs of the new Signer Set only and the registry those of the current one, so
  if a finalised replacement is accepted, at least as many identifiers as the current threshold
  are in both sets.
\<close>
theorem bundle_replacement_retains_signers:
  assumes "make_bundle X upd ps = Inr b" and "finalize_bundle X b = Inr out" and "cbor_decodes X out"
    and "decode_multisignature_signed_update X upd = Inr (u, a)"
    and "operation a = operation_replace_signers"
    and "wf_state X s" and "validate_multisignature_update X rk out (Some s) None = Inr s'"
  shows "ms_threshold s \<le> int (card (fst ` set (ms_signers s) \<inter> fst ` set (ms_signers s')))"
proof -
  obtain wf: "wf_bundle X a b" and out: "bundle_to_cbor X b = Inr out"
    using finalize_Inr [OF assms(1,2)] assms(4) by auto
  let ?e = "\<lparr>env_version = 1, env_update = b_update b, env_proofs = map proof_pair (b_proofs b)\<rparr>"
  have u: "decode_multisignature_signed_update X (env_update ?e) = Inr (u, a)"
    using assms(4) make_bundle_Inr(1) [OF assms(1)] by simp
  obtain k where c: "decode_multisignature_candidate X out =
      Inr \<lparr>c_bytes = env_update ?e, c_envelope = ?e, c_update = u, c_key = k, c_auth = a\<rparr>"
    using candidate_exists [OF bundle_to_cbor_Inr [OF wf out assms(3)] u] by blast
  have "msig_step X rk s out s'" using assms(6,7) by (simp add: update_from_state_iff)
  then have q: "quorum X (b_update b) (ms_signers s) (ms_threshold s) (map proof_pair (b_proofs b))"
    and s': "ms_signers s' = signer_set a"
    using c assms(5) by (auto elim!: msig_stepE simp: wire_constants state_of_def)
  have ids: "mp_signer_id p \<in> fst ` set (ms_signers s) \<inter> fst ` set (ms_signers s')"
    if "p \<in> set (b_proofs b)" for p
  proof -
    have "proof_valid X (b_update b) (signer_set a) (proof_pair p)"
      and "proof_valid X (b_update b) (ms_signers s) (proof_pair p)"
      using that wf q by (auto simp: wf_bundle_def list_all_iff bundle_proof_ok_def quorum_def)
    then show ?thesis unfolding s'
      by (fastforce simp: proof_valid_def dest: signer_dict_in split: option.splits
          intro: rev_image_eqI)
  qed
  have "distinct (map mp_signer_id (b_proofs b))" using wf by (simp add: wf_bundle_def)
  then have "length (b_proofs b) = card (mp_signer_id ` set (b_proofs b))"
    using distinct_card by fastforce
  also have "\<dots> \<le> card (fst ` set (ms_signers s) \<inter> fst ` set (ms_signers s'))"
    using ids by (intro card_mono) auto
  finally show ?thesis using q by (simp add: quorum_def)
qed

subsection \<open>Witnesses\<close>

lemma sample_make_bundle:
  "make_bundle sample_ext [22] (b_proofs (sample_bundle 22 [([97], 1), ([98], 2)])) =
     Inr (sample_bundle 22 [([97], 1), ([98], 2)])"
  "make_bundle sample_ext [16] (b_proofs (sample_bundle 16 [([97], 1), ([98], 2)])) =
     Inr (sample_bundle 16 [([97], 1), ([98], 2)])"
  using make_bundle_ok [OF sample_bundle_updates(1)] make_bundle_ok [OF sample_bundle_updates(2)]
    sample_bundles_wf(2,3)
  by (simp_all add: wf_bundle_def sample_bundle_def sort_key_fixed)

lemma sample_finalize:
  "finalize_bundle sample_ext (sample_bundle 22 [([97], 1), ([98], 2)]) = Inr [23]"
  "finalize_bundle sample_ext (sample_bundle 16 [([97], 1), ([98], 2)]) = Inr [17]"
proof -
  have u: "decode_multisignature_signed_update sample_ext (b_update (sample_bundle 22 ps)) =
      Inr (identity_update 1 0 (Some (sample_auth 1 1 1 signers_abc (zero_bytes 32))),
          sample_auth 1 1 1 signers_abc (zero_bytes 32))"
    "decode_multisignature_signed_update sample_ext (b_update (sample_bundle 16 ps)) =
      Inr (identity_update 1 3 (Some (sample_auth 1 3 2 signers_abd (hash_of 14))),
          sample_auth 1 3 2 signers_abd (hash_of 14))" for ps
    using sample_bundle_updates by (simp_all add: sample_bundle_def)
  have loop: "finalize_loop sample_ext (sample_bundle n ps) (b_proofs (sample_bundle n ps)) [] =
      Inr (rev (map mp_signer_id (b_proofs (sample_bundle n ps))))"
    if "wf_bundle sample_ext a (sample_bundle n ps)" for n ps a
    using that finalize_loop_Inr [of sample_ext "sample_bundle n ps"] by (auto simp: wf_bundle_def)
  show "finalize_bundle sample_ext (sample_bundle 22 [([97], 1), ([98], 2)]) = Inr [23]"
    using loop [OF sample_bundles_wf(2)] sample_bundle_cbor(1) u(1)
    by (simp add: finalize_bundle_def bundle_signed_update_def wire_constants)
      (simp add: sample_auth_def sample_bundle_def)
  show "finalize_bundle sample_ext (sample_bundle 16 [([97], 1), ([98], 2)]) = Inr [17]"
    using loop [OF sample_bundles_wf(3)] sample_bundle_cbor(2) u(2)
    by (simp add: finalize_bundle_def bundle_signed_update_def wire_constants)
      (simp add: sample_auth_def sample_bundle_def)
qed

theorem bundle_replacement_retains_signers_witness:
  "2 \<le> int (card (fst ` set signers_abc \<inter> fst ` set signers_abd))"
  using bundle_replacement_retains_signers [OF sample_make_bundle(2) sample_finalize(2)
      sample_codec_decodes sample_bundle_updates(2) _ sample_states_wf(2) sample_update(2)]
  by (simp add: identity_state_def sample_auth_def wire_constants)

end
