(* ===== verification/Envelope_Builder.thy ===== *)
theory Envelope_Builder
  imports Verification
begin

text \<open>
  \<open>envelope_builder.py\<close>: the legacy envelopes a single owner key produces. The argument
  \<open>load_keypair\<close> is \<open>load_ed25519_keypair_from_privkey_pem_path\<close>, which returns the private key
  and its public key's bytes; \<open>Key_Files\<close> has its definition, and the command line passes it.
\<close>

definition parse_hex_bytes :: "pstr \<Rightarrow> string \<Rightarrow> bytes res" where
  "parse_hex_bytes value name = wrapE (fromhex value) (Value_error (name @ '' must be valid hex''))"

text \<open>The last two steps of each builder: sign the update, and wrap it.\<close>

definition sign_and_wrap :: "ext \<Rightarrow> bytes \<Rightarrow> bytes \<Rightarrow> bytes res" where
  "sign_and_wrap X signed_update_bytes owner_priv =
     encode_signed_envelope X signed_update_bytes
       (make_signed_update_signature X signed_update_bytes owner_priv)"

definition build_provider_envelope ::
  "ext \<Rightarrow> (pstr \<Rightarrow> (bytes \<times> bytes) res) \<Rightarrow> pyval \<Rightarrow> pyval list \<Rightarrow> pstr \<Rightarrow> int \<Rightarrow> pyval list \<Rightarrow> pyval \<Rightarrow>
   bytes res" where
  "build_provider_envelope X load_keypair object_hash provider_urls path seq endpoints alg =
     bindE (load_keypair path) (\<lambda>(owner_priv, owner_pub).
     bindE (build_provider_payload_dict X (PInt 3) alg object_hash provider_urls endpoints) (\<lambda>payload.
     bindE (encode_signed_update X [(PInt 1, PBytes owner_pub)] payload (PInt seq) None) (\<lambda>upd.
     sign_and_wrap X upd owner_priv)))"

definition build_provider_withdrawal_envelope ::
  "ext \<Rightarrow> (pstr \<Rightarrow> (bytes \<times> bytes) res) \<Rightarrow> pyval \<Rightarrow> pstr \<Rightarrow> pyval \<Rightarrow> pyval option \<Rightarrow> pyval \<Rightarrow>
   bytes res" where
  "build_provider_withdrawal_envelope X load_keypair object_hash path seq replacement alg =
     bindE (load_keypair path) (\<lambda>(owner_priv, owner_pub).
     bindE (build_provider_withdrawal_payload_dict alg object_hash replacement) (\<lambda>payload.
     bindE (encode_signed_update X [(PInt 1, PBytes owner_pub)] payload seq None) (\<lambda>upd.
     sign_and_wrap X upd owner_priv)))"

definition build_identity_envelope ::
  "ext \<Rightarrow> (pstr \<Rightarrow> (bytes \<times> bytes) res) \<Rightarrow> pstr \<Rightarrow> pstr \<Rightarrow> int \<Rightarrow> bytes res" where
  "build_identity_envelope X load_keypair owner_name_hex path seq =
     bindE (load_keypair path) (\<lambda>(owner_priv, owner_pub).
     bindE (parse_hex_bytes owner_name_hex ''owner_name'') (\<lambda>owner_name.
     bindE (encode_signed_update X [(PInt 1, PBytes owner_name), (PInt 2, PBytes owner_pub)] []
              (PInt seq) None) (\<lambda>upd.
     sign_and_wrap X upd owner_priv)))"

end
