(* ===== verification/Builder_Properties.thy ===== *)
theory Builder_Properties
  imports Envelope_Builder Legacy_Updates Transitions
begin

text \<open>
  The builders and the legacy validators agree: an envelope a builder returns is one the
  validator accepts, for the record key it was built for and under the signer's key.
\<close>

text \<open>The loader returned a key pair.\<close>

definition key_pair_ok :: "ext \<Rightarrow> (pstr \<Rightarrow> (bytes \<times> bytes) res) \<Rightarrow> pstr \<Rightarrow> bytes \<Rightarrow> bool" where
  "key_pair_ok X load_keypair path pk =
     (\<exists>sk. load_keypair path = Inr (sk, pk) \<and> ed_public X sk = Inr pk)"

text \<open>The record's sequence state admits an update with this owner and Seq.\<close>

definition admits :: "seq_state \<Rightarrow> bytes \<Rightarrow> bytes \<Rightarrow> int \<Rightarrow> bool" where
  "admits st rk owner n = (\<forall>prev. st rk = Some prev \<longrightarrow> ss_seq prev < n \<and> ss_owner prev = owner)"

lemma canonical_legacy_update:
  "canonical_value (PDict rf) \<Longrightarrow> canonical_value (PDict pl) \<Longrightarrow>
   canonical_value (signed_update_py \<lparr>su_fields = rf, su_payload = pl, su_seq = n, su_auth = None\<rparr>)"
  by (simp add: signed_update_py_def)

text \<open>The common part: a signed and wrapped update decodes to itself, and its signature verifies.\<close>

lemma wrapped_update:
  assumes sound: "signing_sound X" and pk: "ed_public X sk = Inr pk"
    and codec: "\<And>b. cbor_decodes X b"
    and upd: "encode_signed_update X rf pl (PInt n) None = Inr upd"
    and env: "sign_and_wrap X upd sk = Inr env"
    and canon: "canonical_value (PDict rf)" "canonical_value (PDict pl)"
  shows "0 \<le> n"
    and "decode_canonical_signed_update X upd =
      Inr \<lparr>su_fields = rf, su_payload = pl, su_seq = n, su_auth = None\<rparr>"
    and "\<exists>sg. decode_signed_envelope X env = Inr (upd, sg) \<and> ed_verify X pk (sha256 X upd) sg = Inr True"
proof -
  let ?u = "\<lparr>su_fields = rf, su_payload = pl, su_seq = n, su_auth = None\<rparr>"
  have "make_signed_update X rf pl (PInt n) None = Inr ?u" and ok: "0 \<le> n" "uint_keys rf" "uint_keys pl"
    using upd by (auto simp: encode_signed_update_def make_signed_update_def bindE_Inr res_simps)
  then have dump: "cbor_dumps X (signed_update_py ?u) = Inr upd"
    using upd by (simp add: encode_signed_update_def canonical_cbor_def)
  have rt: "cbor_roundtrips X (signed_update_py ?u) upd"
    using dump codec [of upd] canonical_legacy_update [OF canon, of n]
    by (simp add: cbor_roundtrips_def cbor_decodes_def)
  show "0 \<le> n" by (rule ok)
  show "decode_canonical_signed_update X upd = Inr ?u"
    using ok by (intro decode_encoded_update [OF _ rt]) (simp add: wf_update_def)
  let ?sg = "make_signed_update_signature X upd sk"
  have "cbor_roundtrips X (legacy_envelope_py upd ?sg) env"
    using env codec [of env]
    by (simp add: sign_and_wrap_def encode_signed_envelope_def cbor_roundtrips_def cbor_decodes_def
        legacy_envelope_py_def)
  moreover have "\<not> carries_authorization X upd"
    using rt by (simp add: carries_authorization_def cbor_roundtrips_def signed_update_py_def)
  ultimately have "decode_signed_envelope X env = Inr (upd, ?sg)"
    by (intro decode_encoded_legacy_envelope)
  moreover have "ed_verify X pk (sha256 X upd) ?sg = Inr True"
    using sound pk by (simp add: signing_sound_def make_signed_update_signature_def)
  ultimately show "\<exists>sg. decode_signed_envelope X env = Inr (upd, sg) \<and>
      ed_verify X pk (sha256 X upd) sg = Inr True" by blast
qed

lemma enforce_admits:
  "admits st rk owner n \<Longrightarrow>
   enforce_seq_and_owner_binding rk n owner st True = Inr (st(rk \<mapsto> \<lparr>ss_owner = owner, ss_seq = n\<rparr>))"
  by (simp add: enforce_seq_Inr admits_def)

lemma built_identity:
  assumes "signing_sound X" and "\<And>b. cbor_decodes X b" and "key_pair_ok X load_keypair path pk"
    and "build_identity_envelope X load_keypair name path n = Inr env"
    and "fromhex_opt name = Some owner_name" and "admits st (sha256 X owner_name) pk n"
  shows "\<exists>upd sg u. decode_signed_envelope X env = Inr (upd, sg) \<and>
    validate_signed_update_overwrite X (sha256 X owner_name) upd sg st True =
      Inr (u, st(sha256 X owner_name \<mapsto> \<lparr>ss_owner = pk, ss_seq = n\<rparr>))"
proof -
  obtain sk where sk: "load_keypair path = Inr (sk, pk)" "ed_public X sk = Inr pk"
    using assms(3) by (auto simp: key_pair_ok_def)
  then obtain upd where
    upd: "encode_signed_update X [(PInt 1, PBytes owner_name), (PInt 2, PBytes pk)] [] (PInt n) None = Inr upd"
    and env: "sign_and_wrap X upd sk = Inr env"
    using assms(4,5)
    by (auto simp: build_identity_envelope_def parse_hex_bytes_def fromhex_def bindE_Inr)
  note w = wrapped_update [OF assms(1) sk(2) assms(2) upd env, simplified]
  from w(3) obtain sg where "decode_signed_envelope X env = Inr (upd, sg)"
    "ed_verify X pk (sha256 X upd) sg = Inr True" by blast
  moreover have "extract_identity_and_keys X [(PInt 1, PBytes owner_name), (PInt 2, PBytes pk)] =
      Inr (sha256 X owner_name, pk)"
    by (simp add: extract_identity_Inr)
  ultimately show ?thesis
    using w(1,2) enforce_admits [OF assms(6)]
    by (auto simp: validate_signed_update_overwrite_def validate_identity_update_def
        decode_signed_update_strict_def verify_ed25519_signature_def)
qed

text \<open>
  An active Provider envelope the builder returns is valid for the record of its object hash,
  and the payload it publishes is the one asked for, with its lists sorted.
\<close>
lemma built_provider_accepted:
  assumes "signing_sound X" and "\<And>b. cbor_decodes X b" and "key_pair_ok X load_keypair path pk"
    and "build_provider_envelope X load_keypair (PStr h) (map PStr urls) path n (map PStr eps) (PStr alg) = Inr env"
    and "fromhex_opt h = Some rk" and "admits st rk pk n"
  shows "\<exists>upd sg u. decode_signed_envelope X env = Inr (upd, sg) \<and>
    validate_signed_update_overwrite X rk upd sg st True =
      Inr (u, st(rk \<mapsto> \<lparr>ss_owner = pk, ss_seq = n\<rparr>)) \<and>
    decode_provider_payload_dict X (su_payload u) =
      Inr (Active \<lparr>v3_alg = alg, v3_version = 3, v3_object_hash = h,
                  v3_provider_urls = sort urls, v3_endpoints = sort eps\<rparr>)"
proof -
  obtain sk where sk: "load_keypair path = Inr (sk, pk)" "ed_public X sk = Inr pk"
    using assms(3) by (auto simp: key_pair_ok_def)
  then obtain d upd where
    d: "build_provider_payload_dict X (PInt 3) (PStr alg) (PStr h) (map PStr urls) (map PStr eps) = Inr d"
    and upd: "encode_signed_update X [(PInt 1, PBytes pk)] d (PInt n) None = Inr upd"
    and env: "sign_and_wrap X upd sk = Inr env"
    using assms(4) by (auto simp: build_provider_envelope_def bindE_Inr)
  note payload = decode_built_active [OF d]
  have canon: "canonical_value (PDict d)" using built_payload_canonical(1) [OF d] .
  have n: "0 \<le> n"
    by (rule wrapped_update(1) [OF assms(1) sk(2) assms(2) upd env _ canon]) simp
  have dec: "decode_canonical_signed_update X upd =
      Inr \<lparr>su_fields = [(PInt 1, PBytes pk)], su_payload = d, su_seq = n, su_auth = None\<rparr>"
    by (rule wrapped_update(2) [OF assms(1) sk(2) assms(2) upd env _ canon]) simp
  have "\<exists>sg. decode_signed_envelope X env = Inr (upd, sg) \<and> ed_verify X pk (sha256 X upd) sg = Inr True"
    by (rule wrapped_update(3) [OF assms(1) sk(2) assms(2) upd env _ canon]) simp
  then obtain sg where sg: "decode_signed_envelope X env = Inr (upd, sg)"
    "ed_verify X pk (sha256 X upd) sg = Inr True" by blast
  have "hash_ok h" using decode_payload_ok [OF payload] by (simp add: payload_ok_def active_ok_def)
  then have "extract_provider_and_keys X [(PInt 1, PBytes pk)] d = Inr (rk, pk)"
    using payload assms(5) by (simp add: extract_provider_Inr hash_ok_def)
  moreover have "\<not> is_ok (extract_identity_and_keys X [(PInt 1, PBytes pk)])"
    by (simp add: extract_identity_and_keys_def is_ok_def)
  ultimately show ?thesis
    using n dec sg payload enforce_admits [OF assms(6)]
    by (auto simp: validate_signed_update_overwrite_def validate_provider_update_def
        decode_signed_update_strict_def verify_ed25519_signature_def)
qed

subsection \<open>Witnesses\<close>

definition sample_loader :: "pstr \<Rightarrow> (bytes \<times> bytes) res" where
  "sample_loader path = Inr ([1], key 1)"

lemma sample_key_pair: "key_pair_ok sample_ext sample_loader path (key 1)"
  by (simp add: key_pair_ok_def sample_loader_def sample_ext_def toy_ext_def key_def)

lemma sample_sound: "signing_sound sample_ext"
  by (simp add: sample_ext_def toy_signing_sound)

lemma sample_legacy_dumps:
  "cbor_dumps sample_ext (signed_update_py (identity_update 1 0 None)) = Inr [10]"
  "cbor_dumps sample_ext (legacy_sample_envelope 10 1) = Inr [11]"
  "cbor_dumps sample_ext (signed_update_py (provider_update (active_payload 98) 0 None)) = Inr [30]"
  "cbor_dumps sample_ext (legacy_sample_envelope 30 1) = Inr [31]"
  using sample_roundtrip [of "[10]" "signed_update_py (identity_update 1 0 None)"]
    sample_roundtrip [of "[11]" "legacy_sample_envelope 10 1"]
    sample_roundtrip [of "[30]" "signed_update_py (provider_update (active_payload 98) 0 None)"]
    sample_roundtrip [of "[31]" "legacy_sample_envelope 30 1"]
  by (simp_all add: identity_table_def provider_table_def cbor_roundtrips_def)

lemma sample_sign_and_wrap:
  "sign_and_wrap sample_ext [10] [1] = Inr [11]" "sign_and_wrap sample_ext [30] [1] = Inr [31]"
  using sample_legacy_dumps(2,4)
  by (simp_all add: sign_and_wrap_def encode_signed_envelope_def make_signed_update_signature_def
      legacy_sample_envelope_def)
    (simp_all add: sample_ext_def toy_ext_def toy_sign_def hash_of_def key_def)

lemma sample_built:
  "build_identity_envelope sample_ext sample_loader [48, 55] [] 0 = Inr [11]"
  "build_provider_envelope sample_ext sample_loader (PStr (object_hash_str 9))
     (map PStr [[97, 58, 98]]) [] 0 (map PStr []) (PStr [65]) = Inr [31]"
proof -
  have "fromhex [48, 55] = Inr [7]" by code_simp
  then show "build_identity_envelope sample_ext sample_loader [48, 55] [] 0 = Inr [11]"
    using sample_legacy_dumps(1) sample_sign_and_wrap(1)
    by (simp add: build_identity_envelope_def sample_loader_def parse_hex_bytes_def
        encode_signed_update_def make_signed_update_def require_uint_def canonical_cbor_def
        identity_update_def identity_fields_def)
  have "build_provider_payload_dict sample_ext (PInt 3) (PStr [65]) (PStr (object_hash_str 9))
      [PStr [97, 58, 98]] [] = Inr (active_payload 98)"
    by (simp add: build_provider_payload_dict_def require_alg_def normalize_sorted_endpoints_def
        validate_endpoints_def normalize_sorted_provider_urls_def sample_uri
        validate_object_hash_def active_payload_def)
  then show "build_provider_envelope sample_ext sample_loader (PStr (object_hash_str 9))
     (map PStr [[97, 58, 98]]) [] 0 (map PStr []) (PStr [65]) = Inr [31]"
    using sample_legacy_dumps(3) sample_sign_and_wrap(2)
    by (simp add: build_provider_envelope_def sample_loader_def encode_signed_update_def
        make_signed_update_def require_uint_def canonical_cbor_def provider_update_def provider_fields_def)
      (simp add: active_payload_def)
qed

lemma built_provider_accepted_witness:
  "\<exists>upd sg u. decode_signed_envelope sample_ext [31] = Inr (upd, sg) \<and>
    validate_signed_update_overwrite sample_ext provider_key upd sg Map.empty True =
      Inr (u, [provider_key \<mapsto> \<lparr>ss_owner = key 1, ss_seq = 0\<rparr>])"
proof -
  have "admits Map.empty (hash_of 9) (key 1) 0" by (simp add: admits_def)
  from built_provider_accepted [OF sample_sound sample_codec_decodes sample_key_pair
      sample_built(2) object_hash_str_ok(3) this]
  show ?thesis by (fastforce simp: provider_key_def)
qed

end
