(* ===== verification/Actions.thy ===== *)
theory Actions
  imports Prelude
begin

text \<open>
  Asynchronous operations as functions of the state. An operation awaits one call at a time, so
  it is a function from the state of the node and the network behind it to its result and the
  state it leaves; an exception leaves the state as the calls so far made it. What other tasks
  do while a call is awaited is part of that call's effect on the state.
\<close>

type_synonym ('d, 'a) act = "'d \<Rightarrow> 'a res \<times> 'd"

definition pureA :: "'a res \<Rightarrow> ('d, 'a) act" where
  "pureA r = (\<lambda>d. (r, d))"

text \<open>A computation that reads the state.\<close>

definition readA :: "('d \<Rightarrow> 'a res) \<Rightarrow> ('d, 'a) act" where
  "readA f = (\<lambda>d. (f d, d))"

definition bindA :: "('d, 'a) act \<Rightarrow> ('a \<Rightarrow> ('d, 'b) act) \<Rightarrow> ('d, 'b) act" where
  "bindA m f = (\<lambda>d. case m d of (Inl e, d') \<Rightarrow> (Inl e, d') | (Inr x, d') \<Rightarrow> f x d')"

text \<open>
  \<open>try: m except Exception as e: h\<close>. \<open>trio.Cancelled\<close> is a \<open>BaseException\<close>, which such a clause
  does not catch.
\<close>

definition tryA :: "('d, 'a) act \<Rightarrow> (exc \<Rightarrow> ('d, 'a) act) \<Rightarrow> ('d, 'a) act" where
  "tryA m h = (\<lambda>d. case m d of
     (Inl e, d') \<Rightarrow> if e = Cancelled then (Inl e, d') else h e d'
   | (Inr x, d') \<Rightarrow> (Inr x, d'))"

text \<open>\<open>try: m except Exception as e: raise h e\<close>.\<close>

definition mapexcA :: "('d, 'a) act \<Rightarrow> (exc \<Rightarrow> exc) \<Rightarrow> ('d, 'a) act" where
  "mapexcA m h = tryA m (\<lambda>e. pureA (Inl (h e)))"

text \<open>\<open>try: m finally: c\<close>: \<open>c\<close> runs however \<open>m\<close> ends, and what it raises replaces the result.\<close>

definition finallyA :: "('d, 'a) act \<Rightarrow> ('d, unit) act \<Rightarrow> ('d, 'a) act" where
  "finallyA m c = (\<lambda>d. case m d of (r, d1) \<Rightarrow>
     (case c d1 of (Inl e, d2) \<Rightarrow> (Inl e, d2) | (Inr _, d2) \<Rightarrow> (r, d2)))"

lemma pureA_apply [simp]: "pureA r d = (r, d)"
  by (simp add: pureA_def)

lemma readA_apply [simp]: "readA f d = (f d, d)"
  by (simp add: readA_def)

lemma bindA_simps [simp]:
  "bindA (pureA (Inr x)) f = f x"
  "bindA (pureA (Inl e)) f = pureA (Inl e)"
  "bindA (\<lambda>d. (Inl e, g d)) f = (\<lambda>d. (Inl e, g d))"
  by (simp_all add: bindA_def pureA_def)

lemma bindA_cases:
  "bindA m f d = (case m d of (Inl e, d') \<Rightarrow> (Inl e, d') | (Inr x, d') \<Rightarrow> f x d')"
  by (simp add: bindA_def)

lemma tryA_cases:
  "tryA m h d = (case m d of
     (Inl e, d') \<Rightarrow> if e = Cancelled then (Inl e, d') else h e d'
   | (Inr x, d') \<Rightarrow> (Inr x, d'))"
  by (simp add: tryA_def)

lemma finallyA_cases:
  "finallyA m c d = (case m d of (r, d1) \<Rightarrow>
     (case c d1 of (Inl e, d2) \<Rightarrow> (Inl e, d2) | (Inr _, d2) \<Rightarrow> (r, d2)))"
  by (simp add: finallyA_def)

lemma mapexcA_cases:
  "mapexcA m h d = (case m d of
     (Inl e, d') \<Rightarrow> (Inl (if e = Cancelled then e else h e), d')
   | (Inr x, d') \<Rightarrow> (Inr x, d'))"
  by (simp add: mapexcA_def tryA_def split: prod.split sum.split)

lemma bindA_Inr [res_simps]:
  "(bindA m f d = (Inr y, d')) = (\<exists>x d1. m d = (Inr x, d1) \<and> f x d1 = (Inr y, d'))"
  by (auto simp: bindA_def split: prod.splits sum.splits)

lemma bindA_assoc: "bindA (bindA m f) g = bindA m (\<lambda>x. bindA (f x) g)"
  by (auto simp: bindA_def split: prod.splits sum.splits)

subsection \<open>What every operation keeps\<close>

text \<open>
  \<open>keeps R m\<close>: however the operation ends, the state it leaves is related by \<open>R\<close> to the state it
  started from. For a reflexive and transitive \<open>R\<close> (an invariant that is preserved, a counter
  that only grows) an operation keeps \<open>R\<close> when its parts do.
\<close>

definition keeps :: "('d \<Rightarrow> 'd \<Rightarrow> bool) \<Rightarrow> ('d, 'a) act \<Rightarrow> bool" where
  "keeps R m = (\<forall>d. R d (snd (m d)))"

lemma keepsD: "keeps R m \<Longrightarrow> m d = (r, d') \<Longrightarrow> R d d'"
  by (metis keeps_def snd_conv)

locale state_order =
  fixes R :: "'d \<Rightarrow> 'd \<Rightarrow> bool"
  assumes same: "R d d" and chain: "R a b \<Longrightarrow> R b c \<Longrightarrow> R a c"
begin

lemma keeps_pureA: "keeps R (pureA r)"
  by (simp add: keeps_def same)

lemma keeps_Pair: "keeps R (Pair r)"
  by (simp add: keeps_def same)

lemma keeps_readA: "keeps R (readA f)"
  by (simp add: keeps_def same)

lemma keeps_bindA_known:
  assumes "keeps R m" and "\<And>x d d'. m d = (Inr x, d') \<Longrightarrow> keeps R (f x)"
  shows "keeps R (bindA m f)"
  unfolding keeps_def
proof
  fix d
  obtain r d1 where m: "m d = (r, d1)" by fastforce
  with assms(1) have R: "R d d1" by (rule keepsD)
  show "R d (snd (bindA m f d))"
  proof (cases r)
    case (Inr x)
    with m assms(2) have "R d1 (snd (f x d1))" by (metis keeps_def)
    with R m Inr show ?thesis by (simp add: bindA_def chain)
  qed (simp add: bindA_def m R)
qed

lemma keeps_bindA: "keeps R m \<Longrightarrow> (\<And>x. keeps R (f x)) \<Longrightarrow> keeps R (bindA m f)"
  by (rule keeps_bindA_known)

lemma keeps_bind_pure: "(\<And>x. r = Inr x \<Longrightarrow> keeps R (f x)) \<Longrightarrow> keeps R (bindA (pureA r) f)"
  by (cases r) (simp_all add: keeps_pureA)

lemma keeps_tryA:
  assumes "keeps R m" and "\<And>e. keeps R (h e)"
  shows "keeps R (tryA m h)"
  unfolding keeps_def
proof
  fix d
  obtain r d1 where m: "m d = (r, d1)" by fastforce
  with assms(1) have R: "R d d1" by (rule keepsD)
  moreover have "R d1 (snd (h e d1))" for e using assms(2) by (simp add: keeps_def)
  ultimately show "R d (snd (tryA m h d))"
    by (cases r) (auto simp: tryA_def m intro: chain)
qed

lemma keeps_finallyA:
  assumes "keeps R m" and "keeps R c"
  shows "keeps R (finallyA m c)"
  using assms unfolding keeps_def finallyA_def
  by (auto split: prod.split sum.split) (metis chain snd_conv)+

text \<open>An operation chosen by the state it runs from.\<close>

lemma keeps_state_if: "keeps R m \<Longrightarrow> keeps R n \<Longrightarrow> keeps R (\<lambda>d. if b d then m d else n d)"
  by (simp add: keeps_def)

lemma keeps_state_arg: "(\<And>x. keeps R (f x)) \<Longrightarrow> keeps R (\<lambda>d. f (g d) d)"
  by (simp add: keeps_def)

lemma keeps_if: "(c \<Longrightarrow> keeps R m) \<Longrightarrow> (\<not> c \<Longrightarrow> keeps R n) \<Longrightarrow> keeps R (if c then m else n)"
  by simp

lemma keeps_option:
  "(x = None \<Longrightarrow> keeps R m) \<Longrightarrow> (\<And>y. x = Some y \<Longrightarrow> keeps R (f y)) \<Longrightarrow>
     keeps R (case x of None \<Rightarrow> m | Some y \<Rightarrow> f y)"
  by (cases x) simp_all

lemma keeps_sum:
  "(\<And>e. x = Inl e \<Longrightarrow> keeps R (h e)) \<Longrightarrow> (\<And>y. x = Inr y \<Longrightarrow> keeps R (f y)) \<Longrightarrow>
     keeps R (case x of Inl e \<Rightarrow> h e | Inr y \<Rightarrow> f y)"
  by (cases x) simp_all

lemmas keeps_intros = keeps_pureA keeps_Pair keeps_readA keeps_bind_pure keeps_bindA keeps_tryA keeps_if
  keeps_option keeps_sum

end

subsection \<open>Triples\<close>

text \<open>
  \<open>ensures P m Q\<close>: from a state with \<open>P\<close>, the operation ends with a result and a state in \<open>Q\<close>. The
  rule for \<open>bindA\<close> hands the value on to the rest and an exception to the end.
\<close>

definition ensures :: "('d \<Rightarrow> bool) \<Rightarrow> ('d, 'a) act \<Rightarrow> ('a res \<Rightarrow> 'd \<Rightarrow> bool) \<Rightarrow> bool" where
  "ensures P m Q = (\<forall>d r d'. P d \<longrightarrow> m d = (r, d') \<longrightarrow> Q r d')"

lemma ensuresD: "ensures P m Q \<Longrightarrow> P d \<Longrightarrow> m d = (r, d') \<Longrightarrow> Q r d'"
  by (simp add: ensures_def)

lemma ensures_bindA:
  assumes "ensures P m R" and "\<And>x. ensures (R (Inr x)) (f x) Q"
    and "\<And>e d. R (Inl e) d \<Longrightarrow> Q (Inl e) d"
  shows "ensures P (bindA m f) Q"
  using assms unfolding ensures_def
  by (auto simp: bindA_def split: prod.splits sum.splits)

lemma ensures_tryA:
  assumes "ensures P m R" and "\<And>e. e \<noteq> Cancelled \<Longrightarrow> ensures (R (Inl e)) (h e) Q"
    and "\<And>x d. R (Inr x) d \<Longrightarrow> Q (Inr x) d" and "\<And>d. R (Inl Cancelled) d \<Longrightarrow> Q (Inl Cancelled) d"
  shows "ensures P (tryA m h) Q"
  using assms unfolding ensures_def
  by (auto simp: tryA_def split: prod.splits sum.splits if_splits)

lemma ensures_finallyA:
  assumes "ensures P m R" and "\<And>r. ensures (R r) c (\<lambda>q d. case q of Inl e \<Rightarrow> Q (Inl e) d | Inr _ \<Rightarrow> Q r d)"
  shows "ensures P (finallyA m c) Q"
  using assms unfolding ensures_def finallyA_def
  by (fastforce split: prod.splits sum.splits)

lemma ensures_pureA: "(\<And>d. P d \<Longrightarrow> Q r d) \<Longrightarrow> ensures P (pureA r) Q"
  by (simp add: ensures_def)

lemma ensures_reraise:
  assumes "ensures P m (\<lambda>_. P')" and "\<And>e d. P' d \<Longrightarrow> Q (Inl e) d"
  shows "ensures P (bindA m (\<lambda>_. pureA (Inl e))) Q"
  by (rule ensures_bindA [OF assms(1)]) (auto intro: ensures_pureA assms(2))

lemma ensures_weaken:
  "ensures P' m Q' \<Longrightarrow> (\<And>d. P d \<Longrightarrow> P' d) \<Longrightarrow> (\<And>r d. Q' r d \<Longrightarrow> Q r d) \<Longrightarrow> ensures P m Q"
  unfolding ensures_def by blast

text \<open>A call that always returns.\<close>

lemma ensures_bind_ok:
  assumes "ensures P m (\<lambda>_. P')" and "\<And>d. is_ok (fst (m d))" and "\<And>x. ensures P' (f x) Q"
  shows "ensures P (bindA m f) Q"
proof -
  have "is_ok r" if "m d = (r, d')" for d r d' using assms(2) [of d] that by simp
  then show ?thesis
    using assms(1,3) unfolding ensures_def by (fastforce simp: bindA_def split: prod.splits sum.splits)
qed

end
