(* ===== verification/Registry_Service.thy ===== *)
theory Registry_Service
  imports Actions Record_Validator Envelope_Builder
begin

text \<open>
  \<open>registry_service.py\<close>: the operations an application calls. The service holds nothing but a
  \<open>RegistryDHT\<close>, a protocol class; its operations are the fields of \<open>registry_dht\<close>, each a
  function of the state of the network and node behind it, of type \<open>'d\<close>, that returns the result
  and the state after the call. The service awaits one call at a time, so its own operations are
  functions of the same shape, and an exception leaves the state as the calls so far made it.
\<close>

record 'd registry_dht =
  get_signed_provider_envelope :: "pstr \<Rightarrow> int \<Rightarrow> ('d, bytes option) act"
  put_signed_provider_record :: "pstr \<Rightarrow> bytes \<Rightarrow> ('d, unit) act"
  get_signed_provider_record :: "pstr \<Rightarrow> int \<Rightarrow> ('d, provider_get option) act"
  put_signed_identity_record :: "pstr \<Rightarrow> bytes \<Rightarrow> ('d, unit) act"
  put_signed_identity_record_if_current ::
    "pstr \<Rightarrow> bytes \<Rightarrow> bytes \<Rightarrow> int \<Rightarrow> ('d, unit) act"
  get_signed_identity_record :: "pstr \<Rightarrow> int \<Rightarrow> ('d, identity_get option) act"
  dht_identity_envelope :: "pstr \<Rightarrow> int \<Rightarrow> ('d, bytes option) act"
  dht_identity_envelope_by_hash :: "pstr \<Rightarrow> bytes \<Rightarrow> ('d, bytes option) act"
  dht_confirm_rotation :: "pstr \<Rightarrow> bytes \<Rightarrow> ('d, identity_record_result option) act"

text \<open>\<open>_derive_identity_object_hash_from_owner_name_hex\<close>.\<close>

definition derive_identity_object_hash :: "ext \<Rightarrow> pstr \<Rightarrow> pstr res" where
  "derive_identity_object_hash X owner_name_hex =
     bindE (parse_hex_bytes owner_name_hex ''owner_name'') (\<lambda>owner_name.
     Inr (bytes_hex (sha256 X owner_name)))"

subsection \<open>Provider Records\<close>

definition put_provider_envelope :: "'d registry_dht \<Rightarrow> pstr \<Rightarrow> bytes \<Rightarrow> ('d, unit) act" where
  "put_provider_envelope D object_hash envelope_cbor =
     put_signed_provider_record D object_hash envelope_cbor"

definition put_provider_multisig :: "'d registry_dht \<Rightarrow> pstr \<Rightarrow> bytes \<Rightarrow> ('d, unit) act" where
  "put_provider_multisig D object_hash envelope_cbor =
     put_provider_envelope D object_hash envelope_cbor"

text \<open>Arguments that default to \<open>None\<close> are options.\<close>

definition put_provider ::
  "ext \<Rightarrow> (pstr \<Rightarrow> (bytes \<times> bytes) res) \<Rightarrow> 'd registry_dht \<Rightarrow> pstr \<Rightarrow> pyval list option \<Rightarrow>
   pstr option \<Rightarrow> int option \<Rightarrow> pyval list option \<Rightarrow> pyval \<Rightarrow> bytes option \<Rightarrow> ('d, unit) act" where
  "put_provider X load_keypair D object_hash urls path seq endpoints alg envelope =
     (case envelope of
        Some envelope_cbor \<Rightarrow>
          if urls \<noteq> None \<or> path \<noteq> None \<or> seq \<noteq> None \<or> endpoints \<noteq> None
          then pureA (Inl (Value_error
            ''envelope_cbor cannot be combined with legacy provider signing arguments''))
          else put_provider_envelope D object_hash envelope_cbor
      | None \<Rightarrow>
          (case (urls, path, seq, endpoints) of
             (Some us, Some p, Some n, Some eps) \<Rightarrow>
               bindA (pureA (build_provider_envelope X load_keypair (PStr object_hash) us p n eps alg))
                 (\<lambda>env. put_signed_provider_record D object_hash env)
           | _ \<Rightarrow> pureA (Inl (Type_error
               ''legacy provider put requires provider_urls, owner_privkey_pem_path, seq, and endpoints''))))"

definition withdrawal_candidate ::
  "ext \<Rightarrow> (pstr \<Rightarrow> (bytes \<times> bytes) res) \<Rightarrow> pstr \<Rightarrow> pstr option \<Rightarrow> int option \<Rightarrow> pstr option \<Rightarrow>
   bytes option \<Rightarrow> bytes res" where
  "withdrawal_candidate X load_keypair object_hash path seq replacement envelope =
     (case envelope of
        Some envelope_cbor \<Rightarrow>
          if path \<noteq> None \<or> seq \<noteq> None \<or> replacement \<noteq> None
          then Inl (Value_error ''finalized withdrawal cannot be combined with legacy signing arguments'')
          else Inr envelope_cbor
      | None \<Rightarrow>
          (case (path, seq) of
             (Some p, Some n) \<Rightarrow>
               build_provider_withdrawal_envelope X load_keypair (PStr object_hash) p (PInt n)
                 (map_option PStr replacement) (PStr (lit ''Ed25519''))
           | _ \<Rightarrow> Inl (Type_error ''legacy withdrawal requires owner_privkey_pem_path and seq'')))"

text \<open>The checks between the read of the current record and the publication.\<close>

definition check_withdrawal :: "ext \<Rightarrow> pstr \<Rightarrow> bytes \<Rightarrow> bytes \<Rightarrow> unit res" where
  "check_withdrawal X object_hash candidate current_envelope =
     bindE (wrapE (bindE (fromhex object_hash) (\<lambda>rk. validate_provider_get X rk current_envelope None))
              Provider_state_invalid) (\<lambda>current.
     case current of
       Got_withdrawn _ \<Rightarrow> Inl Provider_already_withdrawn
     | _ \<Rightarrow>
         (case bindE (fromhex object_hash)
                 (\<lambda>rk. validate_provider_overwrite X rk candidate (Some current_envelope)) of
            Inl Provider_already_withdrawn \<Rightarrow> Inl Provider_already_withdrawn
          | Inl _ \<Rightarrow> Inl (Value_error ''withdrawal envelope is invalid for the selected Provider state'')
          | Inr (Withdrawal _) \<Rightarrow> Inr ()
          | Inr _ \<Rightarrow> Inl (Value_error ''withdrawal envelope does not contain a Provider tombstone'')))"

definition withdraw_provider ::
  "ext \<Rightarrow> (pstr \<Rightarrow> (bytes \<times> bytes) res) \<Rightarrow> 'd registry_dht \<Rightarrow> pstr \<Rightarrow> pstr option \<Rightarrow> int option \<Rightarrow>
   pstr option \<Rightarrow> bytes option \<Rightarrow> ('d, unit) act" where
  "withdraw_provider X load_keypair D object_hash path seq replacement envelope =
     bindA (pureA (withdrawal_candidate X load_keypair object_hash path seq replacement envelope))
       (\<lambda>candidate.
     bindA (mapexcA (get_signed_provider_envelope D object_hash 0)
         (\<lambda>e. if e = Provider_state_conflict then e else Provider_state_unavailable)) (\<lambda>current.
     case current of
       None \<Rightarrow> pureA (Inl Provider_state_unavailable)
     | Some current_envelope \<Rightarrow>
         bindA (pureA (check_withdrawal X object_hash candidate current_envelope)) (\<lambda>_.
         put_signed_provider_record D object_hash candidate)))"

definition get_provider :: "'d registry_dht \<Rightarrow> pstr \<Rightarrow> int \<Rightarrow> ('d, provider_get option) act" where
  "get_provider D object_hash quorum = get_signed_provider_record D object_hash quorum"

subsection \<open>Identity Records\<close>

definition put_identity_envelope ::
  "ext \<Rightarrow> 'd registry_dht \<Rightarrow> pstr \<Rightarrow> bytes \<Rightarrow> ('d, unit) act" where
  "put_identity_envelope X D owner_name_hex envelope_cbor =
     bindA (pureA (derive_identity_object_hash X owner_name_hex))
       (\<lambda>object_key_hex. put_signed_identity_record D object_key_hex envelope_cbor)"

definition put_identity_multisig ::
  "ext \<Rightarrow> 'd registry_dht \<Rightarrow> pstr \<Rightarrow> bytes \<Rightarrow> ('d, unit) act" where
  "put_identity_multisig X D owner_name_hex envelope_cbor =
     put_identity_envelope X D owner_name_hex envelope_cbor"

definition put_identity ::
  "ext \<Rightarrow> (pstr \<Rightarrow> (bytes \<times> bytes) res) \<Rightarrow> 'd registry_dht \<Rightarrow> pstr \<Rightarrow> pstr option \<Rightarrow> int option \<Rightarrow>
   bytes option \<Rightarrow> ('d, unit) act" where
  "put_identity X load_keypair D owner_name_hex path seq envelope =
     (case envelope of
        Some envelope_cbor \<Rightarrow>
          if path \<noteq> None \<or> seq \<noteq> None
          then pureA (Inl (Value_error
            ''envelope_cbor cannot be combined with legacy identity signing arguments''))
          else put_identity_envelope X D owner_name_hex envelope_cbor
      | None \<Rightarrow>
          (case (path, seq) of
             (Some p, Some n) \<Rightarrow>
               bindA (pureA (derive_identity_object_hash X owner_name_hex)) (\<lambda>object_key_hex.
               bindA (pureA (build_identity_envelope X load_keypair owner_name_hex p n)) (\<lambda>env.
               put_signed_identity_record D object_key_hex env))
           | _ \<Rightarrow> pureA (Inl (Type_error
               ''legacy identity put requires owner_privkey_pem_path and seq''))))"

definition put_identity_envelope_if_current ::
  "ext \<Rightarrow> 'd registry_dht \<Rightarrow> pstr \<Rightarrow> bytes \<Rightarrow> pyval \<Rightarrow> int \<Rightarrow> ('d, unit) act" where
  "put_identity_envelope_if_current X D owner_name_hex envelope_cbor expected_state_hash expires_at =
     (case expected_state_hash of
        PNone \<Rightarrow> pureA (Inl Identity_state_precondition_failed)
      | PBytes h \<Rightarrow>
          if length h \<noteq> 32
          then pureA (Inl (Value_error ''expected_state_hash must be exactly 32 bytes''))
          else bindA (pureA (derive_identity_object_hash X owner_name_hex)) (\<lambda>object_key_hex.
            put_signed_identity_record_if_current D object_key_hex envelope_cbor h expires_at)
      | _ \<Rightarrow> pureA (Inl (Value_error ''expected_state_hash must be exactly 32 bytes'')))"

definition get_identity ::
  "ext \<Rightarrow> 'd registry_dht \<Rightarrow> pstr \<Rightarrow> int \<Rightarrow> ('d, identity_get option) act" where
  "get_identity X D owner_name_hex quorum =
     bindA (pureA (derive_identity_object_hash X owner_name_hex))
       (\<lambda>object_key_hex. get_signed_identity_record D object_key_hex quorum)"

definition get_identity_envelope ::
  "ext \<Rightarrow> 'd registry_dht \<Rightarrow> pstr \<Rightarrow> int \<Rightarrow> ('d, bytes option) act" where
  "get_identity_envelope X D owner_name_hex quorum =
     bindA (pureA (derive_identity_object_hash X owner_name_hex))
       (\<lambda>object_key_hex. dht_identity_envelope D object_key_hex quorum)"

definition get_identity_envelope_by_hash ::
  "ext \<Rightarrow> 'd registry_dht \<Rightarrow> pstr \<Rightarrow> bytes \<Rightarrow> ('d, bytes option) act" where
  "get_identity_envelope_by_hash X D owner_name_hex state_hash =
     bindA (pureA (derive_identity_object_hash X owner_name_hex))
       (\<lambda>object_key_hex. dht_identity_envelope_by_hash D object_key_hex state_hash)"

definition confirm_identity_owner_key_rotation ::
  "'d registry_dht \<Rightarrow> pstr \<Rightarrow> bytes \<Rightarrow> ('d, identity_record_result option) act" where
  "confirm_identity_owner_key_rotation D owner_name_hex expected_envelope_cbor =
     dht_confirm_rotation D owner_name_hex expected_envelope_cbor"

end
