(* ===== verification/Service_Properties.thy ===== *)
theory Service_Properties
  imports Registry_Service Validator_Properties Builder_Properties
begin

text \<open>
  The properties of the service: what it publishes has been validated first, for the key it is
  published under, and what a withdrawal of a withdrawn record does.
\<close>

lemma check_withdrawal_Inr:
  assumes "check_withdrawal X h cand ex = Inr ()"
  obtains rk w g where "fromhex_opt h = Some rk" "validate_provider_get X rk ex None = Inr g"
    "validate_provider_overwrite X rk cand (Some ex) = Inr (Withdrawal w)"
proof -
  obtain rk g where rk: "fromhex h = Inr rk" and g: "validate_provider_get X rk ex None = Inr g"
    using assms by (auto simp: check_withdrawal_def bindE_Inr wrapE_Inr)
  have "\<exists>w. validate_provider_overwrite X rk cand (Some ex) = Inr (Withdrawal w)"
    using assms
    by (auto simp: check_withdrawal_def rk g split: provider_get.splits sum.splits exc.splits
        provider_overwrite.splits)
  moreover have "fromhex_opt h = Some rk" using rk by (simp add: fromhex_Inr)
  ultimately show thesis using g that by blast
qed

text \<open>The two ways a withdrawal ends: before the publication, or with its result.\<close>

lemma withdraw_run:
  assumes "withdraw_provider X load_keypair D h path seq replacement envelope d = (r, d')"
  shows "((\<exists>e. r = Inl e) \<and> (d' = d \<or> d' = snd (get_signed_provider_envelope D h 0 d))) \<or>
    (\<exists>cand ex d1. get_signed_provider_envelope D h 0 d = (Inr (Some ex), d1) \<and>
       check_withdrawal X h cand ex = Inr () \<and> put_signed_provider_record D h cand d1 = (r, d'))"
proof (cases "withdrawal_candidate X load_keypair h path seq replacement envelope")
  case (Inl e)
  then show ?thesis using assms by (auto simp: withdraw_provider_def)
next
  case (Inr cand)
  obtain g d1 where get: "get_signed_provider_envelope D h 0 d = (g, d1)" by fastforce
  note run = assms [unfolded withdraw_provider_def Inr bindA_simps bindA_cases mapexcA_cases get]
  show ?thesis
  proof (cases "\<exists>ex. g = Inr (Some ex)")
    case False
    then show ?thesis using run get by (cases g) (auto split: option.splits)
  next
    case True
    then obtain ex where "g = Inr (Some ex)" by blast
    show ?thesis
    proof (cases "check_withdrawal X h cand ex")
      case (Inl e)
      then show ?thesis using run get \<open>g = Inr (Some ex)\<close> by (auto simp: Inl)
    next
      case (Inr x)
      then show ?thesis using run get \<open>g = Inr (Some ex)\<close> by auto
    qed
  qed
qed

text \<open>
  C32: a withdrawal publishes only what it validated. Either it raises, having done at most the
  read of the current record; or the read found an envelope with an active payload, the
  candidate is a valid withdrawal of exactly that envelope with a larger Seq, and the candidate
  is what the final call publishes.
\<close>
theorem withdraw_publishes_validated:
  assumes "withdraw_provider X load_keypair D h path seq replacement envelope d = (r, d')"
  shows "((\<exists>e. r = Inl e) \<and> (d' = d \<or> d' = snd (get_signed_provider_envelope D h 0 d))) \<or>
    (\<exists>cand ex d1 rk w u p. get_signed_provider_envelope D h 0 d = (Inr (Some ex), d1) \<and>
       fromhex_opt h = Some rk \<and>
       validate_provider_overwrite X rk cand (Some ex) = Inr (Withdrawal w) \<and>
       decode_canonical_signed_update X (envelope_update X ex) = Inr u \<and>
       decode_provider_payload_dict X (su_payload u) = Inr (Active p) \<and> su_seq u < pw_seq w \<and>
       put_signed_provider_record D h cand d1 = (r, d'))"
  using withdraw_run [OF assms]
proof
  assume "\<exists>cand ex d1. get_signed_provider_envelope D h 0 d = (Inr (Some ex), d1) \<and>
    check_withdrawal X h cand ex = Inr () \<and> put_signed_provider_record D h cand d1 = (r, d')"
  then obtain cand ex d1 where get: "get_signed_provider_envelope D h 0 d = (Inr (Some ex), d1)"
    and chk: "check_withdrawal X h cand ex = Inr ()"
    and put: "put_signed_provider_record D h cand d1 = (r, d')" by blast
  obtain rk w where rk: "fromhex_opt h = Some rk"
    and w: "validate_provider_overwrite X rk cand (Some ex) = Inr (Withdrawal w)"
    using check_withdrawal_Inr [OF chk] by metis
  from withdrawal_predecessor [OF w] show ?thesis using get rk w put by auto
qed blast

text \<open>
  Withdrawing a record whose current envelope is already a tombstone raises
  \<open>ProviderStateInvalid\<close> and publishes nothing: the service validates the current envelope on its
  own, and a tombstone on its own is never valid. Its test for an already withdrawn record is
  not reached.
\<close>
lemma repeated_withdrawal_is_invalid:
  assumes "get_signed_provider_envelope D h 0 d = (Inr (Some ex), d1)"
    and "decode_canonical_signed_update X (envelope_update X ex) = Inr u"
    and "decode_provider_payload_dict X (su_payload u) = Inr (Withdrawn w)"
    and "withdrawal_candidate X load_keypair h path seq replacement envelope = Inr cand"
  shows "withdraw_provider X load_keypair D h path seq replacement envelope d =
    (Inl Provider_state_invalid, d1)"
proof -
  have "\<exists>e. validate_provider_get X rk ex None = Inl e" for rk
  proof (cases "is_multisignature_envelope X ex")
    case True
    show ?thesis
    proof (cases "decode_multisignature_envelope X ex")
      case (Inl e)
      then show ?thesis using True by (simp add: validate_provider_get_def)
    next
      case (Inr e)
      then show ?thesis
        using True assms(2,3) multisig_decodes_canonically
        by (cases "decode_multisignature_signed_update X (env_update e)")
          (auto simp: validate_provider_get_def envelope_update_def
            dest!: multisig_decodes_canonically)
    qed
  next
    case False
    have not_multi: "\<exists>x. decode_multisignature_envelope X ex = Inl x"
      using False decoded_is_multisig by (cases "decode_multisignature_envelope X ex") auto
    then show ?thesis
      using False assms(2,3)
      by (cases "decode_signed_envelope X ex")
        (auto simp: validate_provider_get_def envelope_update_def)
  qed
  then have "check_withdrawal X h cand ex = Inl Provider_state_invalid"
  proof (cases "fromhex h")
    case (Inr rk)
    obtain e where "validate_provider_get X rk ex None = Inl e"
      using \<open>\<And>rk. \<exists>e. validate_provider_get X rk ex None = Inl e\<close> by blast
    then show ?thesis by (simp add: check_withdrawal_def Inr)
  qed (simp add: check_withdrawal_def)
  then show ?thesis
    using assms(1,4) by (simp add: withdraw_provider_def bindA_cases mapexcA_cases)
qed

text \<open>
  What a legacy \<open>put_identity\<close> publishes is valid for the record it publishes it under. It
  builds one envelope and hands it to the DHT under the hexadecimal digest of the owner name;
  the validator accepts that envelope for that record from any state that admits the owner and
  Seq.
\<close>
lemma put_identity_publishes_valid:
  assumes "signing_sound X" and "\<And>b. cbor_decodes X b" and "key_pair_ok X load_keypair path pk"
    and "put_identity X load_keypair D name (Some path) (Some n) None d = (Inr (), d')"
  shows "\<exists>owner_name env upd sg. fromhex_opt name = Some owner_name \<and>
    put_signed_identity_record D (bytes_hex (sha256 X owner_name)) env d = (Inr (), d') \<and>
    decode_signed_envelope X env = Inr (upd, sg) \<and>
    (\<forall>st. admits st (sha256 X owner_name) pk n \<longrightarrow>
       (\<exists>u. validate_signed_update_overwrite X (sha256 X owner_name) upd sg st True =
         Inr (u, st(sha256 X owner_name \<mapsto> \<lparr>ss_owner = pk, ss_seq = n\<rparr>))))"
proof -
  obtain owner_name where name: "fromhex_opt name = Some owner_name"
    using assms(4)
    by (cases "fromhex_opt name")
      (auto simp: put_identity_def derive_identity_object_hash_def parse_hex_bytes_def fromhex_def)
  then obtain env where built: "build_identity_envelope X load_keypair name path n = Inr env"
    and put: "put_signed_identity_record D (bytes_hex (sha256 X owner_name)) env d = (Inr (), d')"
    using assms(4)
    by (cases "build_identity_envelope X load_keypair name path n")
      (auto simp: put_identity_def derive_identity_object_hash_def parse_hex_bytes_def fromhex_def)
  have "\<exists>upd sg u. decode_signed_envelope X env = Inr (upd, sg) \<and>
      validate_signed_update_overwrite X (sha256 X owner_name) upd sg st True =
        Inr (u, st(sha256 X owner_name \<mapsto> \<lparr>ss_owner = pk, ss_seq = n\<rparr>))"
    if "admits st (sha256 X owner_name) pk n" for st
    by (rule built_identity [OF assms(1-3) built name that])
  note accepted = this
  have "admits Map.empty (sha256 X owner_name) pk n" by (simp add: admits_def)
  then obtain upd sg where dec: "decode_signed_envelope X env = Inr (upd, sg)"
    using accepted by blast
  have "\<exists>u. validate_signed_update_overwrite X (sha256 X owner_name) upd sg st True =
      Inr (u, st(sha256 X owner_name \<mapsto> \<lparr>ss_owner = pk, ss_seq = n\<rparr>))"
    if "admits st (sha256 X owner_name) pk n" for st
    using accepted [OF that] by (auto simp: dec)
  with name put dec show ?thesis by blast
qed

subsection \<open>Witnesses\<close>

text \<open>A network that is a table of published envelopes.\<close>

definition table_dht :: "((pstr \<Rightarrow> bytes option)) registry_dht" where
  "table_dht =
     \<lparr>get_signed_provider_envelope = (\<lambda>h q d. (Inr (d h), d)),
      put_signed_provider_record = (\<lambda>h e d. (Inr (), d(h \<mapsto> e))),
      get_signed_provider_record = (\<lambda>h q d. (Inr None, d)),
      put_signed_identity_record = (\<lambda>h e d. (Inr (), d(h \<mapsto> e))),
      put_signed_identity_record_if_current = (\<lambda>h e s t d. (Inr (), d(h \<mapsto> e))),
      get_signed_identity_record = (\<lambda>h q d. (Inr None, d)),
      dht_identity_envelope = (\<lambda>h q d. (Inr (d h), d)),
      dht_identity_envelope_by_hash = (\<lambda>h s d. (Inr (d h), d)),
      dht_confirm_rotation = (\<lambda>h e d. (Inr None, d))\<rparr>"

lemma sample_get_active: "\<exists>g. validate_provider_get sample_ext provider_key [33] None = Inr (Got_record g)"
  by (simp add: validate_provider_get_def sample_is_multisig sample_envelopes sample_updates_of_states
      provider_update_def sample_payloads_ok sample_provider_genesis metadata_from_state_def
      provider_state_def)

lemma sample_withdraw:
  "withdraw_provider sample_ext sample_loader table_dht (object_hash_str 9) None None None (Some [35])
     [object_hash_str 9 \<mapsto> [33]] = (Inr (), [object_hash_str 9 \<mapsto> [35]])"
proof -
  obtain g w where "validate_provider_get sample_ext (hash_of 9) [33] None = Inr (Got_record g)"
    "validate_provider_overwrite sample_ext (hash_of 9) [35] (Some [33]) = Inr (Withdrawal w)"
    using sample_get_active sample_withdrawal_overwrite by (auto simp: provider_key_def)
  then have "check_withdrawal sample_ext (object_hash_str 9) [35] [33] = Inr ()"
    by (simp add: check_withdrawal_def fromhex_def)
  then show ?thesis
    by (simp add: withdraw_provider_def withdrawal_candidate_def table_dht_def bindA_cases mapexcA_cases)
qed

theorem withdraw_publishes_validated_witness:
  "\<exists>w. validate_provider_overwrite sample_ext (hash_of 9) [35] (Some [33]) = Inr (Withdrawal w)"
  using withdraw_publishes_validated [OF sample_withdraw]
  by (auto simp: table_dht_def fun_upd_eqD dest!: fun_upd_eqD)

lemma repeated_withdrawal_is_invalid_witness:
  "withdraw_provider sample_ext sample_loader table_dht (object_hash_str 9) None None None (Some [35])
     [object_hash_str 9 \<mapsto> [35]] = (Inl Provider_state_invalid, [object_hash_str 9 \<mapsto> [35]])"
proof (rule repeated_withdrawal_is_invalid)
  show "get_signed_provider_envelope table_dht (object_hash_str 9) 0 [object_hash_str 9 \<mapsto> [35]] =
      (Inr (Some [35]), [object_hash_str 9 \<mapsto> [35]])"
    by (simp add: table_dht_def)
  show "decode_canonical_signed_update sample_ext (envelope_update sample_ext [35]) =
      Inr (provider_update withdrawn_payload 2 (Some (sample_auth 2 2 1 signers_abc (hash_of 32))))"
    using multisig_decodes_canonically [OF sample_updates_of_states(4)]
    by (simp add: envelope_update_def sample_envelopes)
qed (simp_all add: provider_update_def sample_payloads_ok withdrawal_candidate_def)

lemma put_identity_publishes_valid_witness:
  "\<exists>env. [bytes_hex (hash_of 7) \<mapsto> env] = [bytes_hex (hash_of 7) \<mapsto> [11 :: 8 word]] \<and>
     (\<exists>upd sg. decode_signed_envelope sample_ext env = Inr (upd, sg))"
proof -
  have name: "fromhex_opt [48, 55] = Some [7]" by code_simp
  have "put_identity sample_ext sample_loader table_dht [48, 55] (Some []) (Some 0) None Map.empty =
      (Inr (), [bytes_hex (hash_of 7) \<mapsto> [11]])"
    by (simp add: put_identity_def derive_identity_object_hash_def parse_hex_bytes_def fromhex_def
        name sample_built(1) table_dht_def del: fromhex_opt.simps)
  from put_identity_publishes_valid [OF sample_sound sample_codec_decodes sample_key_pair this]
  show ?thesis by (auto simp: table_dht_def name simp del: fromhex_opt.simps)
qed

end
