(* ===== verification/Py_Utf8.thy ===== *)
theory Py_Utf8
  imports Py_Text
begin

text \<open>
  \<open>bytes.decode("utf-8")\<close>. The lead byte says how many bytes belong to the next code point; the
  strict decoder accepts them exactly when they are the encoding of the code point they spell, so
  that overlong forms, surrogates and values above \<open>0x10FFFF\<close> are refused.
\<close>

function utf8_string :: "bytes \<Rightarrow> pstr option" where
  "utf8_string [] = Some []"
| "utf8_string (b # bs) =
     (let n = utf8_lead_length (unat b);
          chunk = take n (b # bs);
          c = utf8_decode (map unat chunk) in
      if utf8_char c \<noteq> Some chunk then None
      else map_option (\<lambda>cs. c # cs) (utf8_string (drop n (b # bs))))"
  by pat_completeness auto
termination
  by (relation "measure length") (simp_all add: utf8_lead_length_def)

declare utf8_string.simps(2) [simp del]

definition utf8_text :: "bytes \<Rightarrow> pstr res" where
  "utf8_text b = getE (Value_error ''invalid utf-8'') (utf8_string b)"

lemma utf8_text_Inr [res_simps]: "(utf8_text b = Inr s) = (utf8_string b = Some s)"
  by (simp add: utf8_text_def res_simps)

lemma utf8_string_sound: "utf8_string b = Some s \<Longrightarrow> utf8_opt s = Some b"
proof (induction b arbitrary: s rule: utf8_string.induct)
  case (2 b bs)
  let ?n = "utf8_lead_length (unat b)"
  let ?c = "utf8_decode (map unat (take ?n (b # bs)))"
  from "2.prems" obtain cs where c: "utf8_char ?c = Some (take ?n (b # bs))"
    and cs: "utf8_string (drop ?n (b # bs)) = Some cs" and s: "s = ?c # cs"
    by (auto simp: utf8_string.simps(2) Let_def split: if_splits)
  with "2.IH" [OF refl refl refl] show ?case by (simp del: take_Cons drop_Cons)
qed simp

lemma utf8_char_chunk:
  assumes "utf8_char c = Some x"
  shows "x \<noteq> [] \<and> utf8_lead_length (unat (hd x)) = length x \<and> utf8_decode (map unat x) = c"
proof -
  have x: "x = map b8 (utf8_codes c)" and c: "c < 0x110000"
    using utf8_char_codes [OF assms] by simp_all
  have u: "map unat x = utf8_codes c"
    using utf8_codes_byte [OF c] unat_b8 by (simp add: x map_idI)
  have "unat (hd x) = hd (utf8_codes c)"
    using u x by (metis hd_map map_is_Nil_conv utf8_codes_nonempty)
  with u x show ?thesis
    using utf8_codes_length [OF c] by (simp add: utf8_decode_codes)
qed

lemma utf8_string_complete: "utf8_opt s = Some b \<Longrightarrow> utf8_string b = Some s"
proof (induction s arbitrary: b)
  case (Cons c s)
  then obtain x bs where x: "utf8_char c = Some x" and bs: "utf8_opt s = Some bs" "b = x @ bs"
    by (auto split: option.splits)
  from utf8_char_chunk [OF x] obtain y ys where y: "x = y # ys"
    and len: "utf8_lead_length (unat y) = length x" and dec: "utf8_decode (map unat x) = c"
    by (cases x) auto
  have "take (length x) (y # (ys @ bs)) = x" "drop (length x) (y # (ys @ bs)) = bs"
    by (simp_all add: y)
  then show ?case
    using Cons.IH [OF bs(1)] x dec
    by (simp add: bs(2) y utf8_string.simps(2) Let_def len [unfolded y] del: take_Cons drop_Cons)
qed simp

lemma utf8_string_iff: "(utf8_string b = Some s) = (utf8_opt s = Some b)"
  using utf8_string_sound utf8_string_complete by blast

end
