(* ===== verification/Dht_Heads.thy ===== *)
theory Dht_Heads
  imports Py_Utf8 Record_Validator Durable_Store
begin

text \<open>
  The stateless half of \<open>dht/libp2p_dht.py\<close>: what the adapter reads off an envelope before it is
  validated (Seq, digest of the update, predecessor digest), how it picks the newer of the DHT's
  and the durable store's envelope, the DHT keys, and the value validator it registers with the
  DHT, \<open>_RegistryDHTValueValidator\<close>, as far as it does not look at the node.
\<close>

subsection \<open>Reading an envelope\<close>

definition envelope_update_bytes :: "ext \<Rightarrow> bytes \<Rightarrow> bytes res" where
  "envelope_update_bytes X envelope_cbor =
     bindE (cbor_loads X envelope_cbor) (\<lambda>decoded.
     bindE (want_dict (Value_error ''accepted envelope must be a CBOR map'') decoded) (\<lambda>d.
     bindE
       (if keys_are d [1, 2] then dsub d 1
        else if keys_are d [1, 2, 3] then dsub d 2
        else Inl (Value_error ''accepted envelope has an unsupported shape'')) (\<lambda>upd.
     want_bytes (Type_error ''accepted envelope SignedUpdate must be bytes'') upd)))"

text \<open>\<open>v[i]\<close> with what it raises.\<close>

definition py_subscript :: "pyval \<Rightarrow> nat \<Rightarrow> pyval res" where
  "py_subscript v i =
     getE (case v of PDict _ \<Rightarrow> Key_error | PList _ \<Rightarrow> Index_error | PBytes _ \<Rightarrow> Index_error
           | PStr _ \<Rightarrow> Index_error | _ \<Rightarrow> Type_error ''object is not subscriptable'')
       (py_item v i)"

definition head_seq :: "ext \<Rightarrow> bytes \<Rightarrow> int res" where
  "head_seq X envelope_cbor =
     bindE (envelope_update_bytes X envelope_cbor) (\<lambda>upd.
     bindE (cbor_loads X upd) (\<lambda>signed_update.
     bindE (py_subscript signed_update 3) (\<lambda>seq.
     case seq of
       PInt n \<Rightarrow> if n < 0 then Inl (Value_error ''accepted envelope seq must be a non-negative integer'')
                 else Inr n
     | _ \<Rightarrow> Inl (Value_error ''accepted envelope seq must be a non-negative integer''))))"

definition is_multisignature_head :: "ext \<Rightarrow> bytes option \<Rightarrow> bool" where
  "is_multisignature_head X envelope_cbor =
     (case envelope_cbor of
        None \<Rightarrow> False
      | Some e \<Rightarrow> (case cbor_loads X e of Inr (PDict d) \<Rightarrow> keys_are d [1, 2, 3] | _ \<Rightarrow> False))"

definition is_provider_withdrawal_head :: "ext \<Rightarrow> bytes option \<Rightarrow> bool" where
  "is_provider_withdrawal_head X envelope_cbor =
     (case envelope_cbor of
        None \<Rightarrow> False
      | Some e \<Rightarrow>
          (case bindE
                  (if is_multisignature_head X (Some e)
                   then bindE (decode_multisignature_envelope X e) (\<lambda>env. Inr (env_update env))
                   else bindE (decode_signed_envelope X e) (\<lambda>(upd, _). Inr upd)) (\<lambda>upd.
                bindE (decode_canonical_signed_update X upd) (\<lambda>u.
                bindE (decode_provider_payload_dict X (su_payload u)) (\<lambda>p.
                Inr (is_withdrawn p)))) of
             Inl _ \<Rightarrow> False
           | Inr w \<Rightarrow> w))"

text \<open>The digest of the state the envelope replaces; none for a genesis or a legacy envelope.\<close>

definition identity_predecessor_hash :: "ext \<Rightarrow> bytes \<Rightarrow> bytes option res" where
  "identity_predecessor_hash X envelope_cbor =
     bindE (envelope_update_bytes X envelope_cbor) (\<lambda>upd.
     bindE (decode_canonical_signed_update X upd) (\<lambda>u.
     case su_auth u of
       None \<Rightarrow> Inr None
     | Some a \<Rightarrow>
         if operation a = operation_genesis then Inr None
         else if length (predecessor a) \<noteq> 32
         then Inl (Value_error ''Identity predecessor state hash must be 32 bytes'')
         else Inr (Some (predecessor a))))"

definition select_newest_envelope ::
  "ext \<Rightarrow> bytes option \<Rightarrow> bytes option \<Rightarrow> bytes option res" where
  "select_newest_envelope X first second =
     (case (first, second) of
        (None, _) \<Rightarrow> Inr second
      | (Some _, None) \<Rightarrow> Inr first
      | (Some a, Some b) \<Rightarrow>
          if a = b then Inr first
          else (case (head_seq X a, head_seq X b) of
             (Inl _, _) \<Rightarrow> Inr second
           | (Inr _, Inl _) \<Rightarrow> Inr first
           | (Inr m, Inr n) \<Rightarrow>
               if m = n then
                 bindE (envelope_update_bytes X a) (\<lambda>u. bindE (envelope_update_bytes X b) (\<lambda>v.
                 if u = v then Inr second
                 else Inl (Value_error ''conflicting accepted envelopes at equal seq'')))
               else Inr (if n < m then first else second)))"

subsection \<open>Keys\<close>

definition kind_text :: "kind \<Rightarrow> pstr" where
  "kind_text k = lit (case k of Provider_kind \<Rightarrow> ''provider'' | Identity_kind \<Rightarrow> ''identity'')"

definition kad_key :: "kind \<Rightarrow> pstr \<Rightarrow> pstr" where
  "kad_key kind object_hash = lit ''/decent-registry/'' @ kind_text kind @ lit ''/'' @ object_hash"

definition history_prefix :: bytes where
  "history_prefix = ascii_bytes ''/decent-registry/history/''"

definition identity_history_kad_key :: "pstr \<Rightarrow> bytes \<Rightarrow> bytes res" where
  "identity_history_kad_key object_key_hex state_hash =
     bindE (wrapE (fromhex object_key_hex) (Value_error ''identity object key must be valid hex''))
       (\<lambda>object_key.
     if length object_key \<noteq> 32 then Inl (Value_error ''identity object key must be 32 bytes'')
     else if length state_hash \<noteq> 32 then Inl (Value_error ''state_hash must be 32 bytes'')
     else Inr (history_prefix @ object_key @ state_hash))"

definition parse_key :: "pstr \<Rightarrow> (kind \<times> bytes) res" where
  "parse_key key =
     (case split_on 47 key of
        [p0, p1, p2, p3] \<Rightarrow>
          if p0 \<noteq> [] \<or> p1 \<noteq> lit ''decent-registry'' \<or>
             p2 \<noteq> kind_text Identity_kind \<and> p2 \<noteq> kind_text Provider_kind
          then Inl (Value_error ''invalid Registry DHT key'')
          else bindE (wrapE (fromhex p3) (Value_error ''invalid Registry DHT key hash'')) (\<lambda>rk.
            if length rk \<noteq> 32 then Inl (Value_error ''Registry DHT key hash must be 32 bytes'')
            else Inr (if p2 = kind_text Identity_kind then Identity_kind else Provider_kind, rk))
      | _ \<Rightarrow> Inl (Value_error ''invalid Registry DHT key''))"

definition parse_identity_history_key :: "bytes \<Rightarrow> (bytes \<times> bytes) res" where
  "parse_identity_history_key key =
     (let n = length history_prefix in
      if length key \<noteq> n + 64 \<or> take n key \<noteq> history_prefix
      then Inl (Value_error ''invalid Registry Identity history key'')
      else Inr (take 32 (drop n key), drop (n + 32) key))"

text \<open>\<open>key.decode("utf-8")\<close> and \<open>_parse_key\<close> in one \<open>try\<close>: what the value-store hooks do.\<close>

definition registry_key :: "bytes \<Rightarrow> (pstr \<times> kind \<times> bytes) option" where
  "registry_key key =
     (case bindE (utf8_text key) (\<lambda>s. bindE (parse_key s) (\<lambda>kr. Inr (s, kr))) of
        Inl _ \<Rightarrow> None | Inr k \<Rightarrow> Some k)"

subsection \<open>Histories\<close>

definition history_ending_at :: "bytes list option \<Rightarrow> bytes option \<Rightarrow> bytes list option" where
  "history_ending_at history value =
     (case (history, value) of
        (Some h, Some v) \<Rightarrow> if h \<noteq> [] \<and> last h = v then Some h else None
      | _ \<Rightarrow> None)"

definition history_to_current ::
  "bytes list option \<Rightarrow> bytes option \<Rightarrow> bytes option \<Rightarrow> bytes list option" where
  "history_to_current history local_value current_value =
     (case current_value of
        None \<Rightarrow> None
      | Some cur \<Rightarrow>
          if history_ending_at history current_value \<noteq> None then history
          else (case local_value of
             None \<Rightarrow> None
           | Some loc \<Rightarrow>
               if loc = cur then None
               else (case history of
                  Some h \<Rightarrow> if h = [] \<or> last h \<noteq> loc then None else Some (h @ [cur])
                | None \<Rightarrow> Some [loc, cur])))"

subsection \<open>The value validator\<close>

text \<open>The record fields name the record the key stands for.\<close>

definition check_metadata_key ::
  "ext \<Rightarrow> kind \<Rightarrow> bytes \<Rightarrow> signed_update \<Rightarrow> unit res" where
  "check_metadata_key X kind record_key u =
     (case kind of
        Identity_kind \<Rightarrow>
          (case dget (su_fields u) 1 of
             Some (PBytes owner_name) \<Rightarrow>
               if sha256 X owner_name \<noteq> record_key
               then Inl (Value_error ''Registry Identity key does not match owner name'')
               else if (case su_auth u of None \<Rightarrow> False | Some a \<Rightarrow> record_kind a \<noteq> record_kind_identity)
               then Inl (Value_error ''Registry Identity key has a different record kind'')
               else Inr ()
           | _ \<Rightarrow> Inl (Value_error ''Registry Identity owner name must be bytes''))
      | Provider_kind \<Rightarrow>
          bindE (decode_provider_payload_dict X (su_payload u)) (\<lambda>payload.
          bindE (fromhex (payload_object_hash payload)) (\<lambda>k.
          if k \<noteq> record_key
          then Inl (Value_error ''Registry Provider key does not match object hash'')
          else if (case su_auth u of None \<Rightarrow> False | Some a \<Rightarrow> record_kind a \<noteq> record_kind_provider)
          then Inl (Value_error ''Registry Provider key has a different record kind'')
          else Inr ())))"

definition value_metadata :: "ext \<Rightarrow> pstr \<Rightarrow> bytes \<Rightarrow> (int \<times> bytes) res" where
  "value_metadata X key value =
     bindE (parse_key key) (\<lambda>(kind, record_key).
     bindE (wrapE (cbor_loads X value) (Value_error ''invalid Registry DHT envelope'')) (\<lambda>decoded.
     bindE (want_dict (Value_error ''Registry DHT envelope must be a CBOR map'') decoded) (\<lambda>d.
     bindE
       (if keys_are d [1, 2] then bindE (decode_signed_envelope X value) (\<lambda>(upd, _). Inr upd)
        else if keys_are d [1, 2, 3]
        then bindE (decode_multisignature_envelope X value) (\<lambda>env. Inr (env_update env))
        else Inl (Value_error ''unsupported Registry DHT envelope'')) (\<lambda>upd.
     bindE (decode_canonical_signed_update X upd) (\<lambda>u.
     bindE (check_metadata_key X kind record_key u) (\<lambda>_.
     Inr (su_seq u, sha256 X upd)))))))"

text \<open>The loop of \<open>select\<close>: \<open>i\<close> is the index of the next value.\<close>

fun select_loop ::
  "ext \<Rightarrow> pstr \<Rightarrow> nat \<Rightarrow> nat \<times> int \<times> bytes \<Rightarrow> bytes list \<Rightarrow> nat res" where
  "select_loop X key i (best_index, best_seq, best_state_hash) [] = Inr best_index"
| "select_loop X key i (best_index, best_seq, best_state_hash) (value # values) =
     bindE (value_metadata X key value) (\<lambda>(seq, state_hash).
     if best_seq < seq then select_loop X key (Suc i) (i, seq, state_hash) values
     else if seq = best_seq \<and> state_hash \<noteq> best_state_hash
     then Inl (Value_error ''conflicting Registry states at equal sequence'')
     else select_loop X key (Suc i) (best_index, best_seq, best_state_hash) values)"

definition select_value :: "ext \<Rightarrow> pstr \<Rightarrow> bytes list \<Rightarrow> nat res" where
  "select_value X key values =
     (case values of
        [] \<Rightarrow> Inl (Value_error ''cannot select from an empty Registry value list'')
      | v # vs \<Rightarrow>
          bindE (value_metadata X key v) (\<lambda>(seq, state_hash).
          select_loop X key 1 (0, seq, state_hash) vs))"

end
