(* ===== verification/Dht_Acceptance.thy ===== *)
theory Dht_Acceptance
  imports Dht_Heads Actions
begin

text \<open>
  The node of \<open>dht/libp2p_dht.py\<close>: its durable store, the in-memory value store of the DHT, and
  the hooks by which every value another peer stores at this node is validated and, when it is
  accepted, made durable.

  \<open>libp2p\<close> is not in the repository: the value store's own methods and the network calls are the
  parameter \<open>A\<close>. A network call acts on the whole node, because other tasks (the hooks below
  among them) run while it is awaited. The context variables \<open>_local_dht_write\<close> and
  \<open>_local_identity_write_context\<close> belong to the task that set them; they are the arguments
  \<open>local_write\<close> and \<open>pending\<close>.
\<close>

subsection \<open>The node\<close>

text \<open>\<open>StorageBackend\<close>: two of its methods are looked up with \<open>getattr\<close> and may be absent.\<close>

record 'db backend =
  sb_get :: "'db \<Rightarrow> kind \<Rightarrow> bytes \<Rightarrow> bytes option res"
  sb_put :: "'db \<Rightarrow> kind \<Rightarrow> bytes \<Rightarrow> bytes \<Rightarrow> unit res \<times> 'db"
  sb_get_history :: "('db \<Rightarrow> kind \<Rightarrow> bytes \<Rightarrow> bytes list option res) option"
  sb_put_if_newer ::
    "('db \<Rightarrow> kind \<Rightarrow> bytes \<Rightarrow> bytes \<Rightarrow> int \<Rightarrow> bytes \<Rightarrow> bytes list option \<Rightarrow> bool res \<times> 'db) option"

text \<open>The store of \<open>durable_store.py\<close> as a backend.\<close>

definition lmdb_backend :: "ext \<Rightarrow> 'db lmdb \<Rightarrow> 'db backend" where
  "lmdb_backend X L =
     \<lparr>sb_get = store_get L, sb_put = store_put L,
      sb_get_history = Some (store_get_history X L),
      sb_put_if_newer = Some (\<lambda>db kind k v n h hist.
        put_if_newer X L db kind k (PBytes v) (PInt n) (PBytes h)
          (map_option (\<lambda>bs. PList (map PBytes bs)) hist))\<rparr>"

record ('db, 'v, 'n) node =
  nd_db :: 'db
  nd_values :: 'v
  nd_server :: bool
  nd_bootstrap :: "pstr list"
  nd_net :: 'n

text \<open>The task-local context of an Identity publication: key, envelope, predecessor, history.\<close>

type_synonym write_context = "bytes \<times> bytes \<times> bytes option \<times> bytes list option"

text \<open>
  \<open>vs_get\<close>, \<open>vs_put\<close>, \<open>vs_put_record\<close>: the value store's methods before the hooks are installed
  (the value of a record is what the code uses of it, and the validity period it is stored with
  is passed through; \<open>put_record\<close> may be missing).
  \<open>net_get_value\<close>, \<open>net_put_value\<close>: \<open>KadDHT.get_value\<close> and \<open>put_value\<close>, the latter in the task's
  write context. \<open>net_same_peer\<close>: whether a configured address parses and names this host.
  \<open>net_from_peer\<close>: a direct GET_VALUE to a configured peer, over the node's own host; the value of
  the record it returns, if any. \<open>net_fresh_from_peer\<close>: the same over a client started for the
  purpose. \<open>net_reader\<close>: the configured \<open>RemoteIdentityEnvelopeReader\<close>, if any. \<open>net_time\<close>:
  \<open>int(time.time())\<close>.
\<close>

record ('db, 'v, 'n) adapter =
  ad_store :: "'db backend option"
  vs_get :: "bytes \<Rightarrow> ('v, bytes option) act"
  vs_put :: "bytes \<Rightarrow> bytes \<Rightarrow> ('v, unit) act"
  vs_put_record :: "(bytes \<Rightarrow> bytes \<Rightarrow> ('v, unit) act) option"
  net_get_value :: "pstr \<Rightarrow> int \<Rightarrow> (('db, 'v, 'n) node, bytes option) act"
  net_put_value :: "pstr \<Rightarrow> bytes \<Rightarrow> write_context option \<Rightarrow> (('db, 'v, 'n) node, unit) act"
  net_same_peer :: "pstr \<Rightarrow> bool res"
  net_from_peer :: "pstr \<Rightarrow> bytes \<Rightarrow> (('db, 'v, 'n) node, pyval) act"
  net_fresh_from_peer :: "pstr \<Rightarrow> bytes \<Rightarrow> (('db, 'v, 'n) node, pyval) act"
  net_reader :: "(pstr \<Rightarrow> (('db, 'v, 'n) node, pyval) act) option"
  net_time :: "('db, 'v, 'n) node \<Rightarrow> int"

definition on_values :: "('v, 'a) act \<Rightarrow> (('db, 'v, 'n) node, 'a) act" where
  "on_values m = (\<lambda>d. case m (nd_values d) of (r, v) \<Rightarrow> (r, d\<lparr>nd_values := v\<rparr>))"

definition on_db :: "('db, 'a) act \<Rightarrow> (('db, 'v, 'n) node, 'a) act" where
  "on_db m = (\<lambda>d. case m (nd_db d) of (r, db) \<Rightarrow> (r, d\<lparr>nd_db := db\<rparr>))"

subsection \<open>The durable store\<close>

definition durable_get ::
  "('db, 'v, 'n) adapter \<Rightarrow> kind \<Rightarrow> bytes \<Rightarrow> (('db, 'v, 'n) node, bytes option) act" where
  "durable_get A kind k =
     (case ad_store A of
        None \<Rightarrow> pureA (Inr None)
      | Some B \<Rightarrow> readA (\<lambda>d. sb_get B (nd_db d) kind k))"

definition durable_history ::
  "('db, 'v, 'n) adapter \<Rightarrow> kind \<Rightarrow> bytes \<Rightarrow> (('db, 'v, 'n) node, bytes list option) act" where
  "durable_history A kind k =
     (case ad_store A of
        None \<Rightarrow> pureA (Inr None)
      | Some B \<Rightarrow>
          (case sb_get_history B of
             None \<Rightarrow> pureA (Inr None)
           | Some get_history \<Rightarrow> readA (\<lambda>d. get_history (nd_db d) kind k)))"

text \<open>What \<open>getattr\<close> finds on a validation result: Seq, authorization, and its state's history.\<close>

record result_view =
  rv_seq :: "int option"
  rv_authorization :: "authorization_metadata option"
  rv_history :: "bytes list option"

definition view_identity_overwrite :: "identity_overwrite_result \<Rightarrow> result_view" where
  "view_identity_overwrite r =
     \<lparr>rv_seq = Some (io_seq r), rv_authorization = io_authorization r,
      rv_history = Option.bind (io_state r) ms_history\<rparr>"

fun view_provider_overwrite :: "provider_overwrite \<Rightarrow> result_view" where
  "view_provider_overwrite (Overwritten r) =
     \<lparr>rv_seq = Some (po_seq r), rv_authorization = po_authorization r,
      rv_history = Option.bind (po_state r) ms_history\<rparr>"
| "view_provider_overwrite (Withdrawal r) =
     \<lparr>rv_seq = Some (pw_seq r), rv_authorization = pw_authorization r, rv_history = None\<rparr>"

fun view_provider_get :: "provider_get \<Rightarrow> result_view" where
  "view_provider_get (Got_payload p) =
     \<lparr>rv_seq = None, rv_authorization = None, rv_history = None\<rparr>"
| "view_provider_get (Got_withdrawn r) =
     \<lparr>rv_seq = Some (pw_seq r), rv_authorization = pw_authorization r, rv_history = None\<rparr>"
| "view_provider_get (Got_record r) =
     \<lparr>rv_seq = Some (pr_seq r), rv_authorization = Some (pr_authorization r), rv_history = None\<rparr>"

fun view_identity_get :: "identity_get \<Rightarrow> result_view" where
  "view_identity_get (Got_legacy_identity r) = view_identity_overwrite r"
| "view_identity_get (Got_identity r) =
     \<lparr>rv_seq = Some (ir_seq r), rv_authorization = Some (ir_authorization r), rv_history = None\<rparr>"

definition result_seq_and_state_hash :: "ext \<Rightarrow> result_view \<Rightarrow> bytes \<Rightarrow> (int \<times> bytes) res" where
  "result_seq_and_state_hash X r envelope_cbor =
     bindE (case rv_seq r of None \<Rightarrow> head_seq X envelope_cbor | Some n \<Rightarrow> Inr n) (\<lambda>seq.
     case rv_authorization r of
       Some m \<Rightarrow> Inr (seq, am_state_hash m)
     | None \<Rightarrow> bindE (envelope_update_bytes X envelope_cbor) (\<lambda>upd. Inr (seq, sha256 X upd)))"

definition require_durable_identity_history ::
  "('db, 'v, 'n) adapter \<Rightarrow> result_view \<Rightarrow> unit res" where
  "require_durable_identity_history A r =
     (if map_option am_operation (rv_authorization r) = Some operation_owner_key_rotation \<and>
         (case ad_store A of
            None \<Rightarrow> True | Some B \<Rightarrow> sb_get_history B = None \<or> sb_put_if_newer B = None)
      then Inl (Value_error ''owner-key rotation requires durable predecessor history'')
      else Inr ())"

definition durable_install ::
  "ext \<Rightarrow> ('db, 'v, 'n) adapter \<Rightarrow> kind \<Rightarrow> bytes \<Rightarrow> bytes \<Rightarrow> result_view \<Rightarrow> bytes list option \<Rightarrow>
   (('db, 'v, 'n) node, unit) act" where
  "durable_install X A kind k v r history =
     bindA (pureA (if kind = Identity_kind then require_durable_identity_history A r else Inr ()))
       (\<lambda>_.
     case ad_store A of
       None \<Rightarrow> pureA (Inr ())
     | Some B \<Rightarrow>
         bindA (durable_get A kind k) (\<lambda>cur.
         if cur = Some v then pureA (Inr ())
         else bindA (pureA (result_seq_and_state_hash X r v)) (\<lambda>(seq, state_hash).
           case sb_put_if_newer B of
             None \<Rightarrow> on_db (\<lambda>db. sb_put B db kind k v)
           | Some put_newer \<Rightarrow>
               bindA (on_db (\<lambda>db. put_newer db kind k v seq state_hash
                   (if kind = Identity_kind then rv_history r else history))) (\<lambda>installed.
               if installed then pureA (Inr ())
               else bindA (durable_get A kind k) (\<lambda>cur.
                 pureA (if cur = Some v then Inr ()
                   else Inl (Value_error ''stale or conflicting accepted state'')))))))"

definition durable_cache ::
  "ext \<Rightarrow> ('db, 'v, 'n) adapter \<Rightarrow> kind \<Rightarrow> bytes \<Rightarrow> bytes \<Rightarrow> result_view \<Rightarrow> bytes list option \<Rightarrow>
   (('db, 'v, 'n) node, unit) act" where
  "durable_cache X A kind k v r history =
     (case ad_store A of
        None \<Rightarrow> pureA (Inr ())
      | Some B \<Rightarrow>
          bindA (pureA (result_seq_and_state_hash X r v)) (\<lambda>(seq, state_hash).
          case sb_put_if_newer B of
            None \<Rightarrow> on_db (\<lambda>db. sb_put B db kind k v)
          | Some put_newer \<Rightarrow>
              bindA (on_db (\<lambda>db. put_newer db kind k v seq state_hash history))
                (\<lambda>_. pureA (Inr ()))))"

text \<open>The envelope of the locally retained, valid history whose update has the given digest.\<close>

fun find_by_hash :: "ext \<Rightarrow> bytes \<Rightarrow> bytes list \<Rightarrow> bytes option" where
  "find_by_hash X state_hash [] = None"
| "find_by_hash X state_hash (e # es) =
     (case envelope_update_bytes X e of
        Inl _ \<Rightarrow> None
      | Inr upd \<Rightarrow> if sha256 X upd = state_hash then Some e else find_by_hash X state_hash es)"

definition durable_envelope_by_hash ::
  "ext \<Rightarrow> ('db, 'v, 'n) adapter \<Rightarrow> pstr \<Rightarrow> bytes \<Rightarrow> (('db, 'v, 'n) node, bytes option) act" where
  "durable_envelope_by_hash X A object_key_hex state_hash =
     (if length state_hash \<noteq> 32 then pureA (Inl (Value_error ''state_hash must be 32 bytes''))
      else bindA (pureA (fromhex object_key_hex)) (\<lambda>record_key.
        bindA (durable_get A Identity_kind record_key) (\<lambda>current.
        case current of
          None \<Rightarrow> pureA (Inr None)
        | Some cur \<Rightarrow>
            bindA (durable_history A Identity_kind record_key) (\<lambda>history.
            let predecessor_chain = history_ending_at history current in
            case validate_identity_get X record_key cur predecessor_chain of
              Inl _ \<Rightarrow> pureA (Inr None)
            | Inr _ \<Rightarrow>
                pureA (Inr (find_by_hash X state_hash
                  (case predecessor_chain of Some h \<Rightarrow> h | None \<Rightarrow> [cur])))))))"

subsection \<open>The hook on reads of the value store\<close>

text \<open>Serve the durable envelope, refreshing the in-memory value when it differs.\<close>

definition serve_durable ::
  "('db, 'v, 'n) adapter \<Rightarrow> bytes \<Rightarrow> bytes \<Rightarrow> (('db, 'v, 'n) node, bytes option) act" where
  "serve_durable A key envelope =
     bindA (on_values (vs_get A key)) (\<lambda>cached.
     if cached = Some envelope then pureA (Inr cached)
     else bindA (on_values (vs_put A key envelope)) (\<lambda>_. on_values (vs_get A key)))"

definition hooked_get ::
  "ext \<Rightarrow> ('db, 'v, 'n) adapter \<Rightarrow> bytes \<Rightarrow> (('db, 'v, 'n) node, bytes option) act" where
  "hooked_get X A key =
     (case parse_identity_history_key key of
        Inr (object_key, state_hash) \<Rightarrow>
          bindA (durable_envelope_by_hash X A (bytes_hex object_key) state_hash) (\<lambda>envelope.
          case envelope of None \<Rightarrow> pureA (Inr None) | Some e \<Rightarrow> serve_durable A key e)
      | Inl _ \<Rightarrow>
          (case registry_key key of
             None \<Rightarrow> on_values (vs_get A key)
           | Some (_, Provider_kind, _) \<Rightarrow> on_values (vs_get A key)
           | Some (_, Identity_kind, record_key) \<Rightarrow>
               bindA (durable_get A Identity_kind record_key) (\<lambda>envelope.
               case envelope of
                 None \<Rightarrow> on_values (vs_get A key)
               | Some e \<Rightarrow>
                   bindA (durable_history A Identity_kind record_key) (\<lambda>history.
                   case validate_identity_get X record_key e (history_ending_at history envelope) of
                     Inl _ \<Rightarrow> pureA (Inr None)
                   | Inr _ \<Rightarrow> serve_durable A key e))))"

subsection \<open>Accepting a value\<close>

datatype accepted_result =
    Accepted_identity identity_overwrite_result
  | Accepted_provider provider_overwrite

fun view_accepted :: "accepted_result \<Rightarrow> result_view" where
  "view_accepted (Accepted_identity r) = view_identity_overwrite r"
| "view_accepted (Accepted_provider r) = view_provider_overwrite r"

definition use_accepted_state :: "ext \<Rightarrow> bytes option \<Rightarrow> bytes option \<Rightarrow> bytes option \<Rightarrow> bool" where
  "use_accepted_state X envelope raw_dht raw_local =
     (is_multisignature_head X envelope \<or> is_multisignature_head X raw_dht \<or>
      is_multisignature_head X raw_local \<or> is_provider_withdrawal_head X envelope \<or>
      is_provider_withdrawal_head X raw_dht \<or> is_provider_withdrawal_head X raw_local)"

text \<open>A server without a store refuses every Identity value that needs a history.\<close>

definition server_history_guard ::
  "ext \<Rightarrow> ('db, 'v, 'n) adapter \<Rightarrow> bytes \<Rightarrow> ('db, 'v, 'n) node \<Rightarrow> unit res" where
  "server_history_guard X A envelope_cbor d =
     (if nd_server d \<and> ad_store A = None \<and> is_multisignature_head X (Some envelope_cbor)
      then bindE (identity_predecessor_hash X envelope_cbor) (\<lambda>p.
        if p \<noteq> None then Inl Identity_history_unavailable else Inr ())
      else Inr ())"

definition validate_dht_record ::
  "ext \<Rightarrow> ('db, 'v, 'n) adapter \<Rightarrow> write_context option \<Rightarrow> pstr \<Rightarrow> bytes \<Rightarrow>
   (('db, 'v, 'n) node, accepted_result option) act" where
  "validate_dht_record X A pending key envelope_cbor =
     bindA (pureA (parse_key key)) (\<lambda>(kind, record_key).
     bindA (readA (\<lambda>d. if kind = Identity_kind then server_history_guard X A envelope_cbor d
                        else Inr ())) (\<lambda>_.
     bindA (pureA (utf8 key)) (\<lambda>raw_key.
     bindA (hooked_get X A raw_key) (\<lambda>raw_dht.
     bindA (durable_get A kind record_key) (\<lambda>raw_local.
     bindA (pureA (if kind = Identity_kind \<or>
                      use_accepted_state X (Some envelope_cbor) raw_dht raw_local
                   then select_newest_envelope X raw_dht raw_local else Inr raw_dht))
       (\<lambda>raw_existing.
     if raw_existing = Some envelope_cbor then pureA (Inr None)
     else case kind of
       Identity_kind \<Rightarrow>
         (case pending of
            Some (pending_key, pending_envelope, existing, chain) \<Rightarrow>
              if pending_key = record_key \<and> pending_envelope = envelope_cbor
              then pureA (bindE (validate_identity_overwrite X record_key envelope_cbor existing chain)
                     (\<lambda>r. Inr (Some (Accepted_identity r))))
              else bindA (durable_history A kind record_key) (\<lambda>history.
                pureA (bindE (validate_identity_overwrite X record_key envelope_cbor raw_existing
                       (history_ending_at history raw_existing))
                     (\<lambda>r. Inr (Some (Accepted_identity r)))))
          | None \<Rightarrow> bindA (durable_history A kind record_key) (\<lambda>history.
                pureA (bindE (validate_identity_overwrite X record_key envelope_cbor raw_existing
                       (history_ending_at history raw_existing))
                     (\<lambda>r. Inr (Some (Accepted_identity r))))))
     | Provider_kind \<Rightarrow>
         pureA (bindE (validate_provider_overwrite X record_key envelope_cbor raw_existing)
           (\<lambda>r. Inr (Some (Accepted_provider r))))))))))"

text \<open>\<open>_RegistryDHTValueValidator.validate\<close>.\<close>

definition validate_value ::
  "ext \<Rightarrow> ('db, 'v, 'n) adapter \<Rightarrow> write_context option \<Rightarrow> pstr \<Rightarrow> bytes \<Rightarrow>
   (('db, 'v, 'n) node, unit) act" where
  "validate_value X A pending key value =
     bindA (pureA (value_metadata X key value)) (\<lambda>_.
     bindA (validate_dht_record X A pending key value) (\<lambda>_. pureA (Inr ())))"

definition prepare_durable_acceptance ::
  "ext \<Rightarrow> ('db, 'v, 'n) adapter \<Rightarrow> bool \<Rightarrow> write_context option \<Rightarrow> bytes \<Rightarrow> bytes \<Rightarrow>
   (('db, 'v, 'n) node, (kind \<times> bytes \<times> bytes \<times> accepted_result) option) act" where
  "prepare_durable_acceptance X A local_write pending key value =
     (if local_write \<or> ad_store A = None then pureA (Inr None)
      else case registry_key key of
        None \<Rightarrow> pureA (Inr None)
      | Some (kad, kind, record_key) \<Rightarrow>
          bindA (validate_dht_record X A pending kad value) (\<lambda>result.
          pureA (Inr (map_option (\<lambda>r. (kind, record_key, value, r)) result))))"

text \<open>The history an accepted tombstone is stored with.\<close>

definition tombstone_history ::
  "('db, 'v, 'n) adapter \<Rightarrow> bytes \<Rightarrow> bytes \<Rightarrow> provider_withdrawn_result \<Rightarrow>
   (('db, 'v, 'n) node, bytes list option) act" where
  "tombstone_history A record_key envelope w =
     (case pw_predecessor w of
        None \<Rightarrow> pureA (Inl (Value_error ''Provider tombstone acceptance requires predecessor evidence''))
      | Some prior \<Rightarrow>
          bindA (durable_history A Provider_kind record_key) (\<lambda>previous.
          pureA (Inr (Some (case history_ending_at previous (Some prior) of
              Some h \<Rightarrow> h @ [envelope] | None \<Rightarrow> [prior, envelope])))))"

definition commit_durable_acceptance ::
  "ext \<Rightarrow> ('db, 'v, 'n) adapter \<Rightarrow> (kind \<times> bytes \<times> bytes \<times> accepted_result) option \<Rightarrow>
   (('db, 'v, 'n) node, unit) act" where
  "commit_durable_acceptance X A accepted =
     (case (accepted, ad_store A) of
        (Some (kind, record_key, envelope, result), Some B) \<Rightarrow>
          bindA (durable_get A kind record_key) (\<lambda>cur.
          if cur = Some envelope then pureA (Inr ())
          else case (kind, result) of
            (Provider_kind, Accepted_provider (Withdrawal w)) \<Rightarrow>
              bindA (tombstone_history A record_key envelope w) (\<lambda>history.
              durable_install X A kind record_key envelope (view_accepted result) history)
          | _ \<Rightarrow>
              if kind = Identity_kind \<or> is_multisignature_head X (Some envelope)
              then durable_install X A kind record_key envelope (view_accepted result) None
              else on_db (\<lambda>db. sb_put B db kind record_key envelope))
      | _ \<Rightarrow> pureA (Inr ()))"

text \<open>The two write hooks. They differ in the method of the value store they wrap.\<close>

definition hooked_put ::
  "ext \<Rightarrow> ('db, 'v, 'n) adapter \<Rightarrow> bool \<Rightarrow> write_context option \<Rightarrow> bytes \<Rightarrow> bytes \<Rightarrow>
   (('db, 'v, 'n) node, unit) act" where
  "hooked_put X A local_write pending key value =
     bindA (prepare_durable_acceptance X A local_write pending key value) (\<lambda>accepted.
     bindA (on_values (vs_put A key value)) (\<lambda>_.
     commit_durable_acceptance X A accepted))"

definition hooked_put_record ::
  "ext \<Rightarrow> ('db, 'v, 'n) adapter \<Rightarrow> (bytes \<Rightarrow> bytes \<Rightarrow> ('v, unit) act) \<Rightarrow> bool \<Rightarrow>
   write_context option \<Rightarrow> bytes \<Rightarrow> bytes \<Rightarrow> (('db, 'v, 'n) node, unit) act" where
  "hooked_put_record X A put_record local_write pending key value =
     bindA (prepare_durable_acceptance X A local_write pending key value) (\<lambda>accepted.
     bindA (on_values (put_record key value)) (\<lambda>_.
     commit_durable_acceptance X A accepted))"

end
