(* ===== verification/Dht_Adapter.thy ===== *)
theory Dht_Adapter
  imports Dht_Acceptance
begin

text \<open>
  The client half of \<open>dht/libp2p_dht.py\<close>: the operations of \<open>Libp2pKadDHT\<close> that the registry
  service calls, from the read of the current head to the publication and the durable write. The
  lock \<open>_accepted_lock\<close> serialises these operations with each other, not with the hooks of
  \<open>Dht_Acceptance\<close>, which run while a network call is awaited.
\<close>

definition publish_dht_value ::
  "('db, 'v, 'n) adapter \<Rightarrow> pstr \<Rightarrow> bytes \<Rightarrow> write_context option \<Rightarrow> (('db, 'v, 'n) node, unit) act" where
  "publish_dht_value A key value context = net_put_value A key value context"

definition read_dht_value ::
  "('db, 'v, 'n) adapter \<Rightarrow> pstr \<Rightarrow> int \<Rightarrow> (('db, 'v, 'n) node, bytes option) act" where
  "read_dht_value A key quorum = tryA (net_get_value A key quorum) (\<lambda>_. pureA (Inr None))"

subsection \<open>Reading from configured peers\<close>

text \<open>The bytes of a record, from a call whose exceptions skip the peer.\<close>

definition peer_bytes :: "('d, pyval) act \<Rightarrow> ('d, bytes option) act" where
  "peer_bytes m =
     bindA (tryA m (\<lambda>_. pureA (Inr PNone))) (\<lambda>v.
     pureA (Inr (case v of PBytes b \<Rightarrow> Some b | _ \<Rightarrow> None)))"

fun fresh_peers_loop ::
  "('db, 'v, 'n) adapter \<Rightarrow> bytes \<Rightarrow> pstr list \<Rightarrow> (('db, 'v, 'n) node, bytes option) act" where
  "fresh_peers_loop A key [] = pureA (Inr None)"
| "fresh_peers_loop A key (peer # peers) =
     (case net_same_peer A peer of
        Inl _ \<Rightarrow> fresh_peers_loop A key peers
      | Inr same \<Rightarrow>
          if same then fresh_peers_loop A key peers
          else bindA (peer_bytes (net_fresh_from_peer A peer key)) (\<lambda>envelope.
            case envelope of
              None \<Rightarrow> fresh_peers_loop A key peers
            | Some e \<Rightarrow> pureA (Inr (Some e))))"

definition read_remote_identity_envelope ::
  "('db, 'v, 'n) adapter \<Rightarrow> pstr \<Rightarrow> (('db, 'v, 'n) node, bytes option) act" where
  "read_remote_identity_envelope A object_key_hex =
     bindA (pureA (wrapE (fromhex object_key_hex)
       (Value_error ''identity object key must be valid hex''))) (\<lambda>record_key.
     if length record_key \<noteq> 32
     then pureA (Inl (Value_error ''identity object key must be 32 bytes''))
     else case net_reader A of
       Some reader \<Rightarrow> peer_bytes (reader (bytes_hex record_key))
     | None \<Rightarrow>
         bindA (readA (\<lambda>d. Inr (nd_bootstrap d))) (\<lambda>peers.
         fresh_peers_loop A (utf8_key (kad_key Identity_kind (bytes_hex record_key))) peers))"

fun by_hash_loop ::
  "ext \<Rightarrow> ('db, 'v, 'n) adapter \<Rightarrow> bytes \<Rightarrow> bytes \<Rightarrow> pstr list \<Rightarrow>
   (('db, 'v, 'n) node, bytes option) act" where
  "by_hash_loop X A key state_hash [] = pureA (Inr None)"
| "by_hash_loop X A key state_hash (peer # peers) =
     (case net_same_peer A peer of
        Inl _ \<Rightarrow> by_hash_loop X A key state_hash peers
      | Inr same \<Rightarrow>
          if same then by_hash_loop X A key state_hash peers
          else bindA (peer_bytes (net_from_peer A peer key)) (\<lambda>candidate.
            case candidate of
              None \<Rightarrow> by_hash_loop X A key state_hash peers
            | Some envelope \<Rightarrow>
                (case envelope_update_bytes X envelope of
                   Inl _ \<Rightarrow> by_hash_loop X A key state_hash peers
                 | Inr upd \<Rightarrow>
                     if sha256 X upd = state_hash then pureA (Inr (Some envelope))
                     else by_hash_loop X A key state_hash peers)))"

definition read_remote_identity_envelope_by_hash ::
  "ext \<Rightarrow> ('db, 'v, 'n) adapter \<Rightarrow> pstr \<Rightarrow> bytes \<Rightarrow> (('db, 'v, 'n) node, bytes option) act" where
  "read_remote_identity_envelope_by_hash X A object_key_hex state_hash =
     bindA (readA (\<lambda>d. Inr (nd_bootstrap d))) (\<lambda>peers.
     if peers = [] then pureA (Inr None)
     else bindA (pureA (identity_history_kad_key object_key_hex state_hash)) (\<lambda>key.
       by_hash_loop X A key state_hash peers))"

subsection \<open>Walking back to the anchor\<close>

definition max_history_entries :: nat where "max_history_entries = 256"
definition max_history_bytes :: nat where "max_history_bytes = 4 * 1024 * 1024"

text \<open>
  The loop of \<open>_read_remote_identity_predecessor_chain\<close>. \<open>chain\<close> is the part walked so far in
  forward order (the code collects it backwards and reverses it at the end), \<open>seen\<close> its state
  hashes, \<open>total_bytes\<close> their length. The 15-second scope around the loop ends it at an awaited call, which
  then raises \<open>Cancelled\<close>. Every turn that goes on has made the chain longer, and the loop stops
  at 256 entries.
\<close>

function walk_chain ::
  "ext \<Rightarrow> ('db, 'v, 'n) adapter \<Rightarrow> pstr \<Rightarrow> bytes list \<Rightarrow> bytes list \<Rightarrow> nat \<Rightarrow> bytes \<Rightarrow>
   ('db, 'v, 'n) node \<Rightarrow> bytes list option res \<times> ('db, 'v, 'n) node" where
  "walk_chain X A object_key_hex chain seen total_bytes envelope d =
     (case bindE (envelope_update_bytes X envelope) (\<lambda>upd.
           bindE (identity_predecessor_hash X envelope) (\<lambda>p. Inr (sha256 X upd, p))) of
        Inl _ \<Rightarrow> (Inr None, d)
      | Inr (state_hash, predecessor_hash) \<Rightarrow>
          if state_hash \<in> set seen then (Inr None, d)
          else if length chain \<ge> max_history_entries then (Inr None, d)
          else if total_bytes + length envelope > max_history_bytes then (Inr None, d)
          else (case predecessor_hash of
            None \<Rightarrow> (Inr (Some (envelope # chain)), d)
          | Some ph \<Rightarrow>
              if Suc (length chain) \<ge> max_history_entries then (Inr None, d)
              else (case read_remote_identity_envelope_by_hash X A object_key_hex ph d of
                (Inl e, d') \<Rightarrow> (if e = Cancelled then Inr None else Inl e, d')
              | (Inr None, d') \<Rightarrow> (Inr None, d')
              | (Inr (Some p), d') \<Rightarrow>
                  walk_chain X A object_key_hex (envelope # chain) (state_hash # seen)
                    (total_bytes + length envelope) p d')))"
  by pat_completeness auto
termination
  by (relation "measure (\<lambda>(X, A, k, chain, seen, n, e, d). max_history_entries - length chain)")
    (auto simp: not_le)

declare walk_chain.simps [simp del]

definition read_remote_identity_predecessor_chain ::
  "ext \<Rightarrow> ('db, 'v, 'n) adapter \<Rightarrow> pstr \<Rightarrow> bytes \<Rightarrow> (('db, 'v, 'n) node, bytes list option) act" where
  "read_remote_identity_predecessor_chain X A object_key_hex current_envelope =
     walk_chain X A object_key_hex [] [] 0 current_envelope"

subsection \<open>Publishing an Identity Record\<close>

text \<open>
  \<open>cond\<close>: the expected state hash and the expiry of a conditional publication; \<open>None\<close> for an
  unconditional one. The heads read are the DHT's, the durable one and the newer of the two.
\<close>

definition read_identity_heads ::
  "ext \<Rightarrow> ('db, 'v, 'n) adapter \<Rightarrow> (bytes \<times> int) option \<Rightarrow> pstr \<Rightarrow> bytes \<Rightarrow>
   (('db, 'v, 'n) node, bytes option \<times> bytes option \<times> bytes option) act" where
  "read_identity_heads X A cond object_key_hex record_key =
     bindA
       (if cond \<noteq> None
        then mapexcA (net_get_value A (kad_key Identity_kind object_key_hex) 0)
               (\<lambda>_. Identity_state_unavailable)
        else bindA (read_dht_value A (kad_key Identity_kind object_key_hex) 0) (\<lambda>raw_dht.
             bindA (readA (\<lambda>d. Inr (nd_bootstrap d))) (\<lambda>peers.
             if raw_dht = None \<and> peers \<noteq> []
             then read_remote_identity_envelope A object_key_hex
             else pureA (Inr raw_dht)))) (\<lambda>raw_dht.
     bindA (durable_get A Identity_kind record_key) (\<lambda>raw_local.
     bindA (pureA (wrapE (select_newest_envelope X raw_dht raw_local)
         (if cond \<noteq> None then Identity_state_precondition_failed
          else Value_error ''conflicting current Identity state''))) (\<lambda>raw_existing.
     pureA (Inr (raw_dht, raw_local, raw_existing)))))"

definition check_expected_state ::
  "ext \<Rightarrow> (bytes \<times> int) option \<Rightarrow> bytes option \<Rightarrow> unit res" where
  "check_expected_state X cond raw_existing =
     (case cond of
        None \<Rightarrow> Inr ()
      | Some (expected, _) \<Rightarrow>
          bindE (wrapE (case raw_existing of
              None \<Rightarrow> Inr None
            | Some e \<Rightarrow> bindE (envelope_update_bytes X e) (\<lambda>upd. Inr (Some (sha256 X upd))))
            Identity_state_precondition_failed) (\<lambda>actual.
          if actual \<noteq> Some expected then Inl Identity_state_precondition_failed else Inr ()))"

definition check_deadline ::
  "('db, 'v, 'n) adapter \<Rightarrow> (bytes \<times> int) option \<Rightarrow> (('db, 'v, 'n) node, unit) act" where
  "check_deadline A cond =
     readA (\<lambda>d. case cond of
        None \<Rightarrow> Inr ()
      | Some (_, expires_at) \<Rightarrow>
          if expires_at \<le> net_time A d then Inl Identity_publication_expired else Inr ())"

definition put_legacy_identity ::
  "ext \<Rightarrow> ('db, 'v, 'n) adapter \<Rightarrow> (bytes \<times> int) option \<Rightarrow> pstr \<Rightarrow> bytes \<Rightarrow> bytes \<Rightarrow>
   bytes option \<Rightarrow> (('db, 'v, 'n) node, unit) act" where
  "put_legacy_identity X A cond object_key_hex record_key envelope_cbor raw_existing =
     bindA (pureA (validate_identity_overwrite X record_key envelope_cbor raw_existing None))
       (\<lambda>result.
     bindA (check_deadline A cond) (\<lambda>_.
     bindA (publish_dht_value A (kad_key Identity_kind object_key_hex) envelope_cbor
         (Some (record_key, envelope_cbor, raw_existing, None))) (\<lambda>_.
     durable_install X A Identity_kind record_key envelope_cbor
       (view_identity_overwrite result) None)))"

text \<open>The predecessor chain: retained locally, or walked from peers, or not to be had.\<close>

definition identity_predecessor_chain ::
  "ext \<Rightarrow> ('db, 'v, 'n) adapter \<Rightarrow> pstr \<Rightarrow> bytes \<Rightarrow> bytes option \<Rightarrow>
   (('db, 'v, 'n) node, bytes list option) act" where
  "identity_predecessor_chain X A object_key_hex record_key raw_existing =
     bindA (durable_history A Identity_kind record_key) (\<lambda>history.
     case (history_ending_at history raw_existing, raw_existing) of
       (None, Some ex) \<Rightarrow>
         bindA (read_remote_identity_predecessor_chain X A object_key_hex ex) (\<lambda>chain.
         if chain = None \<and> (\<exists>p. identity_predecessor_hash X ex = Inr (Some p))
         then pureA (Inl Identity_history_unavailable)
         else pureA (Inr chain))
     | (chain, _) \<Rightarrow> pureA (Inr chain))"

definition put_accepted_identity ::
  "ext \<Rightarrow> ('db, 'v, 'n) adapter \<Rightarrow> (bytes \<times> int) option \<Rightarrow> pstr \<Rightarrow> bytes \<Rightarrow> bytes \<Rightarrow>
   bytes option \<Rightarrow> (('db, 'v, 'n) node, unit) act" where
  "put_accepted_identity X A cond object_key_hex record_key envelope_cbor raw_existing =
     (let multi = is_multisignature_head X (Some envelope_cbor);
          key = kad_key Identity_kind object_key_hex in
      bindA (identity_predecessor_chain X A object_key_hex record_key raw_existing) (\<lambda>chain.
      bindA (pureA (validate_identity_overwrite X record_key envelope_cbor raw_existing chain))
        (\<lambda>result.
      let context = Some (record_key, envelope_cbor, raw_existing, chain);
          view = view_identity_overwrite result;
          install = durable_install X A Identity_kind record_key envelope_cbor view None in
      bindA (pureA (if cond \<noteq> None \<and> multi then require_durable_identity_history A view else Inr ()))
        (\<lambda>_.
      bindA (check_deadline A cond) (\<lambda>_.
      if cond \<noteq> None then
        bindA (publish_dht_value A key envelope_cbor context) (\<lambda>_.
        if multi then install else pureA (Inr ()))
      else
        bindA (if multi \<and> ad_store A \<noteq> None then install else pureA (Inr ())) (\<lambda>_.
        publish_dht_value A key envelope_cbor context))))))"

definition put_identity_record ::
  "ext \<Rightarrow> ('db, 'v, 'n) adapter \<Rightarrow> (bytes \<times> int) option \<Rightarrow> pstr \<Rightarrow> bytes \<Rightarrow>
   (('db, 'v, 'n) node, unit) act" where
  "put_identity_record X A cond object_key_hex envelope_cbor =
     bindA (pureA (fromhex object_key_hex)) (\<lambda>record_key.
     bindA (read_identity_heads X A cond object_key_hex record_key)
       (\<lambda>(raw_dht, raw_local, raw_existing).
     bindA (pureA (check_expected_state X cond raw_existing)) (\<lambda>_.
     bindA (readA (server_history_guard X A envelope_cbor)) (\<lambda>_.
     if is_multisignature_head X (Some envelope_cbor) \<or> is_multisignature_head X raw_dht \<or>
        is_multisignature_head X raw_local
     then put_accepted_identity X A cond object_key_hex record_key envelope_cbor raw_existing
     else put_legacy_identity X A cond object_key_hex record_key envelope_cbor raw_existing))))"

definition dht_put_identity_record ::
  "ext \<Rightarrow> ('db, 'v, 'n) adapter \<Rightarrow> pstr \<Rightarrow> bytes \<Rightarrow> (('db, 'v, 'n) node, unit) act" where
  "dht_put_identity_record X A object_key_hex envelope_cbor =
     put_identity_record X A None object_key_hex envelope_cbor"

definition dht_put_identity_if_current ::
  "ext \<Rightarrow> ('db, 'v, 'n) adapter \<Rightarrow> pstr \<Rightarrow> bytes \<Rightarrow> pyval \<Rightarrow> pyval \<Rightarrow>
   (('db, 'v, 'n) node, unit) act" where
  "dht_put_identity_if_current X A object_key_hex envelope_cbor expected_state_hash expires_at =
     (case expected_state_hash of
        PNone \<Rightarrow> pureA (Inl Identity_state_precondition_failed)
      | PBytes h \<Rightarrow>
          if length h \<noteq> 32
          then pureA (Inl (Value_error ''expected_state_hash must be exactly 32 bytes''))
          else (case expires_at of
            PInt t \<Rightarrow> put_identity_record X A (Some (h, t)) object_key_hex envelope_cbor
          | _ \<Rightarrow> pureA (Inl (Value_error ''expires_at must be an integer Unix timestamp'')))
      | _ \<Rightarrow> pureA (Inl (Value_error ''expected_state_hash must be exactly 32 bytes'')))"

subsection \<open>Reading an Identity Record\<close>

definition dht_confirm_owner_key_rotation ::
  "ext \<Rightarrow> ('db, 'v, 'n) adapter \<Rightarrow> pstr \<Rightarrow> pyval \<Rightarrow>
   (('db, 'v, 'n) node, identity_record_result option) act" where
  "dht_confirm_owner_key_rotation X A owner_name_hex expected_envelope_cbor =
     bindA (pureA (wrapE (fromhex owner_name_hex) (Value_error ''owner_name must be valid hex'')))
       (\<lambda>owner_name.
     bindA (pureA (want_bytes (Type_error ''expected Identity SignedEnvelope must be bytes'')
       expected_envelope_cbor)) (\<lambda>expected_envelope.
     let record_key = sha256 X owner_name in
     bindA (read_remote_identity_envelope A (bytes_hex record_key)) (\<lambda>remote_envelope.
     if remote_envelope \<noteq> Some expected_envelope then pureA (Inr None)
     else bindA (durable_history A Identity_kind record_key) (\<lambda>history.
       bindA (durable_get A Identity_kind record_key) (\<lambda>local_value.
       case history_to_current history local_value remote_envelope of
         None \<Rightarrow> pureA (Inr None)
       | Some chain \<Rightarrow>
           (case validate_identity_get X record_key expected_envelope (Some chain) of
              Inr (Got_identity result) \<Rightarrow>
                if ir_owner_name_hex result \<noteq> bytes_hex owner_name \<or>
                   am_operation (ir_authorization result) \<noteq> operation_owner_key_rotation
                then pureA (Inr None)
                else bindA (durable_cache X A Identity_kind record_key expected_envelope
                       (view_identity_get (Got_identity result)) (Some chain)) (\<lambda>_.
                     pureA (Inr (Some result)))
            | _ \<Rightarrow> pureA (Inr None)))))))"

text \<open>What a read does when the locally known chain does not validate the head.\<close>

definition validate_with_remote_chain ::
  "ext \<Rightarrow> ('db, 'v, 'n) adapter \<Rightarrow> pstr \<Rightarrow> bytes \<Rightarrow> bytes \<Rightarrow>
   (('db, 'v, 'n) node, (identity_get \<times> bytes list option) option) act" where
  "validate_with_remote_chain X A object_key_hex record_key cur =
     bindA (read_remote_identity_predecessor_chain X A object_key_hex cur) (\<lambda>chain.
     case chain of
       None \<Rightarrow>
         (case identity_predecessor_hash X cur of
            Inr (Some _) \<Rightarrow> pureA (Inl Identity_history_unavailable)
          | _ \<Rightarrow> pureA (Inr None))
     | Some _ \<Rightarrow>
         (case validate_identity_get X record_key cur chain of
            Inl _ \<Rightarrow> pureA (Inl Identity_history_unavailable)
          | Inr result \<Rightarrow> pureA (Inr (Some (result, chain)))))"

definition validate_identity_head ::
  "ext \<Rightarrow> ('db, 'v, 'n) adapter \<Rightarrow> pstr \<Rightarrow> bytes \<Rightarrow> bytes \<Rightarrow> bytes list option \<Rightarrow>
   (('db, 'v, 'n) node, (identity_get \<times> bytes list option) option) act" where
  "validate_identity_head X A object_key_hex record_key cur chain =
     (case validate_identity_get X record_key cur chain of
        Inr result \<Rightarrow> pureA (Inr (Some (result, chain)))
      | Inl _ \<Rightarrow> validate_with_remote_chain X A object_key_hex record_key cur)"

text \<open>The rest of a read: validate the head with its chain and cache what came from the DHT.\<close>

definition finish_identity_read ::
  "ext \<Rightarrow> ('db, 'v, 'n) adapter \<Rightarrow> pstr \<Rightarrow> bytes \<Rightarrow> bytes option \<Rightarrow> bytes \<Rightarrow>
   bytes list option \<Rightarrow> (('db, 'v, 'n) node, (bytes \<times> identity_get) option) act" where
  "finish_identity_read X A object_key_hex record_key raw_dht cur chain =
     bindA (validate_identity_head X A object_key_hex record_key cur chain) (\<lambda>validated.
     case validated of
       None \<Rightarrow> pureA (Inr None)
     | Some (result, used_chain) \<Rightarrow>
         bindA (if raw_dht = Some cur
           then durable_cache X A Identity_kind record_key cur (view_identity_get result) used_chain
           else pureA (Inr ())) (\<lambda>_.
         pureA (Inr (Some (cur, result)))))"

definition get_validated_identity_envelope ::
  "ext \<Rightarrow> ('db, 'v, 'n) adapter \<Rightarrow> pstr \<Rightarrow> int \<Rightarrow>
   (('db, 'v, 'n) node, (bytes \<times> identity_get) option) act" where
  "get_validated_identity_envelope X A object_key_hex quorum =
     bindA (pureA (fromhex object_key_hex)) (\<lambda>record_key.
     bindA (read_dht_value A (kad_key Identity_kind object_key_hex) quorum) (\<lambda>raw_value.
     bindA (readA (\<lambda>d. Inr (nd_bootstrap d))) (\<lambda>peers.
     bindA (if raw_value = None \<and> peers \<noteq> [] then read_remote_identity_envelope A object_key_hex
            else pureA (Inr raw_value)) (\<lambda>raw_dht.
     bindA (durable_get A Identity_kind record_key) (\<lambda>raw_local.
     case select_newest_envelope X raw_dht raw_local of
       Inl _ \<Rightarrow> pureA (Inr None)
     | Inr None \<Rightarrow> pureA (Inr None)
     | Inr (Some cur) \<Rightarrow>
         bindA (durable_history A Identity_kind record_key) (\<lambda>history.
         finish_identity_read X A object_key_hex record_key raw_dht cur
           (history_to_current history raw_local (Some cur))))))))"

definition dht_get_identity_envelope ::
  "ext \<Rightarrow> ('db, 'v, 'n) adapter \<Rightarrow> pstr \<Rightarrow> int \<Rightarrow> (('db, 'v, 'n) node, bytes option) act" where
  "dht_get_identity_envelope X A object_key_hex quorum =
     bindA (get_validated_identity_envelope X A object_key_hex quorum) (\<lambda>accepted.
     pureA (Inr (map_option fst accepted)))"

definition dht_get_identity_by_hash ::
  "ext \<Rightarrow> ('db, 'v, 'n) adapter \<Rightarrow> pstr \<Rightarrow> bytes \<Rightarrow> (('db, 'v, 'n) node, bytes option) act" where
  "dht_get_identity_by_hash X A object_key_hex state_hash =
     bindA (pureA (fromhex object_key_hex)) (\<lambda>k.
     if length k \<noteq> 32 then pureA (Inl (Value_error ''identity object key must be 32 bytes''))
     else durable_envelope_by_hash X A object_key_hex state_hash)"

text \<open>
  The dictionary returned for a legacy record has the four fields of the result below, with the
  key as the caller wrote it.
\<close>

definition dht_get_identity_record ::
  "ext \<Rightarrow> ('db, 'v, 'n) adapter \<Rightarrow> pstr \<Rightarrow> int \<Rightarrow>
   (('db, 'v, 'n) node, identity_get option) act" where
  "dht_get_identity_record X A object_key_hex quorum =
     bindA (get_validated_identity_envelope X A object_key_hex quorum) (\<lambda>accepted.
     pureA (Inr (case accepted of
         None \<Rightarrow> None
       | Some (_, Got_identity r) \<Rightarrow> Some (Got_identity r)
       | Some (_, Got_legacy_identity r) \<Rightarrow>
           Some (Got_legacy_identity (r\<lparr>io_object_key_hex := object_key_hex\<rparr>)))))"

subsection \<open>Provider Records\<close>

text \<open>
  The branch of \<open>put_signed_provider_record\<close> without accepted state: neither the new envelope
  nor a current one is a multisignature or a withdrawal envelope. The code's tests for a
  withdrawal in this branch repeat the condition that excludes it; they are kept as written.
\<close>

definition legacy_withdrawal_guard ::
  "ext \<Rightarrow> ('db, 'v, 'n) adapter \<Rightarrow> bytes \<Rightarrow> bytes option \<Rightarrow> bytes option \<Rightarrow> unit res" where
  "legacy_withdrawal_guard X A envelope_cbor raw_dht raw_local =
     (if is_provider_withdrawal_head X (Some envelope_cbor) \<and> ad_store A \<noteq> None then
        (if raw_local = None \<or> raw_dht = None then Inl Provider_state_unavailable
         else bindE (wrapE (select_newest_envelope X raw_dht raw_local) Provider_state_conflict)
           (\<lambda>_. Inr ()))
      else Inr ())"

definition legacy_withdrawal_result_guard ::
  "ext \<Rightarrow> provider_overwrite \<Rightarrow> bytes option \<Rightarrow> unit res" where
  "legacy_withdrawal_result_guard X result raw_dht =
     (case result of
        Overwritten _ \<Rightarrow> Inr ()
      | Withdrawal _ \<Rightarrow>
          (case raw_dht of
             None \<Rightarrow> Inl Provider_state_unavailable
           | Some ex \<Rightarrow>
               bindE (decode_signed_envelope X ex) (\<lambda>(upd, _).
               bindE (decode_canonical_signed_update X upd) (\<lambda>u.
               bindE (decode_provider_payload_dict X (su_payload u)) (\<lambda>p.
               if is_withdrawn p then Inl Provider_already_withdrawn else Inr ())))))"

definition put_legacy_provider ::
  "ext \<Rightarrow> ('db, 'v, 'n) adapter \<Rightarrow> pstr \<Rightarrow> bytes \<Rightarrow> bytes \<Rightarrow> bytes option \<Rightarrow> bytes option \<Rightarrow>
   (('db, 'v, 'n) node, unit) act" where
  "put_legacy_provider X A key record_key envelope_cbor raw_dht raw_local =
     bindA (pureA (legacy_withdrawal_guard X A envelope_cbor raw_dht raw_local)) (\<lambda>_.
     bindA (pureA (validate_provider_overwrite X record_key envelope_cbor raw_dht)) (\<lambda>result.
     bindA (pureA (legacy_withdrawal_result_guard X result raw_dht)) (\<lambda>_.
     bindA (publish_dht_value A key envelope_cbor None) (\<lambda>_.
     case ad_store A of
       None \<Rightarrow> pureA (Inr ())
     | Some B \<Rightarrow>
         (case result of
            Withdrawal _ \<Rightarrow>
              durable_install X A Provider_kind record_key envelope_cbor
                (view_provider_overwrite result)
                (case raw_dht of None \<Rightarrow> None | Some ex \<Rightarrow> Some [ex, envelope_cbor])
          | Overwritten _ \<Rightarrow> on_db (\<lambda>db. sb_put B db Provider_kind record_key envelope_cbor))))))"

text \<open>The history a withdrawal is stored with: the predecessor's, cut at the predecessor.\<close>

definition withdrawal_history :: "bytes list option \<Rightarrow> bytes \<Rightarrow> bytes \<Rightarrow> bytes list" where
  "withdrawal_history predecessor_history raw_existing envelope_cbor =
     (let h = (case history_ending_at predecessor_history (Some raw_existing) of
                 Some h \<Rightarrow> h | None \<Rightarrow> [raw_existing]) in
      takeWhile (\<lambda>e. e \<noteq> raw_existing) h @ [raw_existing, envelope_cbor])"

definition put_accepted_provider ::
  "ext \<Rightarrow> ('db, 'v, 'n) adapter \<Rightarrow> pstr \<Rightarrow> bytes \<Rightarrow> bytes \<Rightarrow> bytes option \<Rightarrow> bytes option \<Rightarrow>
   (('db, 'v, 'n) node, unit) act" where
  "put_accepted_provider X A key record_key envelope_cbor raw_dht raw_local =
     bindA (pureA (select_newest_envelope X raw_dht raw_local)) (\<lambda>raw_existing.
     bindA (pureA (validate_provider_overwrite X record_key envelope_cbor raw_existing)) (\<lambda>result.
     case (result, raw_existing) of
       (Withdrawal _, None) \<Rightarrow>
         pureA (Inl (Value_error ''a Provider withdrawal requires an active predecessor state''))
     | (Withdrawal _, Some ex) \<Rightarrow>
         bindA (durable_history A Provider_kind record_key) (\<lambda>predecessor_history.
         bindA (if ad_store A \<noteq> None \<and> raw_local \<noteq> None
             then bindA (durable_get A Provider_kind record_key) (\<lambda>local_head.
               pureA (if local_head \<noteq> raw_existing then Inl Provider_state_conflict else Inr ()))
             else pureA (Inr ())) (\<lambda>_.
         bindA (durable_install X A Provider_kind record_key envelope_cbor
             (view_provider_overwrite result)
             (Some (withdrawal_history predecessor_history ex envelope_cbor))) (\<lambda>_.
         publish_dht_value A key envelope_cbor None)))
     | (Overwritten _, _) \<Rightarrow>
         bindA (if is_multisignature_head X (Some envelope_cbor)
             then durable_install X A Provider_kind record_key envelope_cbor
               (view_provider_overwrite result) None
             else pureA (Inr ())) (\<lambda>_.
         publish_dht_value A key envelope_cbor None)))"

definition dht_put_provider_record ::
  "ext \<Rightarrow> ('db, 'v, 'n) adapter \<Rightarrow> pstr \<Rightarrow> bytes \<Rightarrow> (('db, 'v, 'n) node, unit) act" where
  "dht_put_provider_record X A object_hash envelope_cbor =
     bindA (pureA (fromhex object_hash)) (\<lambda>record_key.
     let key = kad_key Provider_kind object_hash in
     bindA (read_dht_value A key 0) (\<lambda>raw_dht.
     bindA (durable_get A Provider_kind record_key) (\<lambda>raw_local.
     if use_accepted_state X (Some envelope_cbor) raw_dht raw_local
     then put_accepted_provider X A key record_key envelope_cbor raw_dht raw_local
     else put_legacy_provider X A key record_key envelope_cbor raw_dht raw_local)))"

definition dht_get_provider_envelope ::
  "ext \<Rightarrow> ('db, 'v, 'n) adapter \<Rightarrow> pstr \<Rightarrow> int \<Rightarrow> (('db, 'v, 'n) node, bytes option) act" where
  "dht_get_provider_envelope X A object_hash quorum =
     bindA (pureA (wrapE (fromhex object_hash) (Value_error ''object_hash must be valid hex'')))
       (\<lambda>record_key.
     if length record_key \<noteq> 32
     then pureA (Inl (Value_error ''object_hash must be 64 hex characters''))
     else bindA (read_dht_value A (kad_key Provider_kind (bytes_hex record_key)) quorum) (\<lambda>raw_dht.
       bindA (durable_get A Provider_kind record_key) (\<lambda>raw_local.
       pureA (wrapE (select_newest_envelope X raw_dht raw_local) Provider_state_conflict))))"

text \<open>The predecessor of a tombstone that is read back: \<open>Inr None\<close> when there is none to be had.\<close>

definition tombstone_predecessor ::
  "('db, 'v, 'n) adapter \<Rightarrow> bytes \<Rightarrow> bytes \<Rightarrow> bytes option \<Rightarrow>
   (('db, 'v, 'n) node, bytes option) act" where
  "tombstone_predecessor A record_key cur raw_local =
     (case raw_local of
        None \<Rightarrow> pureA (Inr None)
      | Some loc \<Rightarrow>
          if loc = cur then
            bindA (durable_history A Provider_kind record_key) (\<lambda>history.
            pureA (Inr (case history of
                Some h \<Rightarrow> if length h < 2 \<or> last h \<noteq> cur then None else Some (h ! (length h - 2))
              | None \<Rightarrow> None)))
          else pureA (Inr (Some loc)))"

definition read_provider_result ::
  "ext \<Rightarrow> ('db, 'v, 'n) adapter \<Rightarrow> bytes \<Rightarrow> bytes \<Rightarrow> bytes option \<Rightarrow>
   (('db, 'v, 'n) node, provider_get option) act" where
  "read_provider_result X A record_key cur raw_local =
     bindA (pureA (if is_multisignature_head X (Some cur)
         then bindE (decode_multisignature_envelope X cur) (\<lambda>env. Inr (env_update env))
         else bindE (decode_signed_envelope X cur) (\<lambda>(upd, _). Inr upd))) (\<lambda>upd.
     bindA (pureA (decode_canonical_signed_update X upd)) (\<lambda>u.
     bindA (pureA (decode_provider_payload_dict X (su_payload u))) (\<lambda>payload.
     if is_withdrawn payload then
       bindA (tombstone_predecessor A record_key cur raw_local) (\<lambda>predecessor.
       if predecessor = None then pureA (Inr None)
       else pureA (bindE (validate_provider_get X record_key cur predecessor) (\<lambda>r. Inr (Some r))))
     else pureA (bindE (validate_provider_get X record_key cur None) (\<lambda>r. Inr (Some r))))))"

definition dht_get_provider_record ::
  "ext \<Rightarrow> ('db, 'v, 'n) adapter \<Rightarrow> pstr \<Rightarrow> int \<Rightarrow>
   (('db, 'v, 'n) node, provider_get option) act" where
  "dht_get_provider_record X A object_hash quorum =
     bindA (pureA (fromhex object_hash)) (\<lambda>record_key.
     bindA (read_dht_value A (kad_key Provider_kind object_hash) quorum) (\<lambda>raw_dht.
     bindA (durable_get A Provider_kind record_key) (\<lambda>raw_local.
     bindA (pureA (wrapE (select_newest_envelope X raw_dht raw_local) Provider_state_conflict))
       (\<lambda>raw_current.
     case raw_current of
       None \<Rightarrow> pureA (Inr None)
     | Some cur \<Rightarrow>
         bindA (tryA (read_provider_result X A record_key cur raw_local) (\<lambda>_. pureA (Inr None)))
           (\<lambda>read.
         case read of
           None \<Rightarrow> pureA (Inr None)
         | Some result \<Rightarrow>
             bindA (if raw_dht = Some cur then
                 bindA (case result of
                     Got_withdrawn _ \<Rightarrow> durable_history A Provider_kind record_key
                   | _ \<Rightarrow> pureA (Inr None)) (\<lambda>history.
                 durable_cache X A Provider_kind record_key cur (view_provider_get result) history)
               else pureA (Inr ())) (\<lambda>_.
             pureA (Inr (Some result))))))))"

end
