(* ===== verification/Dht_Safety.thy ===== *)
theory Dht_Safety
  imports Dht_Adapter Validator_Properties
begin

text \<open>
  What the node's durable store holds, whatever arrives and in whatever order: every Identity
  envelope in it has passed the validator together with the history stored beside it, and the
  Seq stored for an Identity Record never decreases. Both are kept by every hook and every
  client operation, also when other tasks write to the store while a network call is awaited.
\<close>

subsection \<open>What the validator has established about an envelope\<close>

definition legacy_valid :: "ext \<Rightarrow> bytes \<Rightarrow> bytes \<Rightarrow> bool" where
  "legacy_valid X rk v =
     (\<exists>upd sg r. decode_signed_envelope X v = Inr (upd, sg) \<and>
        validate_signed_update_overwrite X rk upd sg Map.empty False = Inr r)"

text \<open>
  The history stored with a multisignature envelope: an accepted history that ends in it, or the
  envelope after the legacy envelope it upgrades.
\<close>

definition retained_history :: "ext \<Rightarrow> bytes \<Rightarrow> bytes \<Rightarrow> bytes list \<Rightarrow> bool" where
  "retained_history X rk v h =
     (h \<noteq> [] \<and> last h = v \<and>
      ((\<exists>s. accepted_history X rk h s) \<or>
       (\<exists>l s. h = [l, v] \<and> validate_multisignature_upgrade X rk v l = Inr s)))"

definition identity_entry_ok :: "ext \<Rightarrow> bytes \<Rightarrow> bytes \<Rightarrow> bytes list option \<Rightarrow> bool" where
  "identity_entry_ok X rk v hist =
     (if is_multisignature_envelope X v
      then \<exists>h. retained_history X rk v h \<and> (hist = Some h \<or> hist = None \<and> h = [v])
      else legacy_valid X rk v)"

lemma retained_accepted:
  "accepted_history X rk h s \<Longrightarrow> last h = v \<Longrightarrow> retained_history X rk v h"
  using accepted_history_head by (fastforce simp: retained_history_def)

lemma enforce_empty: "enforce_seq_and_owner_binding rk n pk Map.empty False = Inr Map.empty"
  by (simp add: enforce_seq_and_owner_binding_def)

lemma identity_any_state:
  assumes "validate_identity_update X rk upd sg st False = Inr r"
  shows "\<exists>r. validate_identity_update X rk upd sg Map.empty False = Inr r"
proof -
  from assms obtain u k pk where "decode_signed_update_strict X upd = Inr u"
    "extract_identity_and_keys X (su_fields u) = Inr (k, pk)" "k = rk"
    "verify_ed25519_signature X pk upd sg = Inr True"
    unfolding validate_identity_update_def bindE_Inr if_raise_Inr split_paired_Ex prod.case by auto
  then show ?thesis by (simp add: validate_identity_update_def enforce_empty)
qed

lemma provider_any_state:
  assumes "validate_provider_update X rk upd sg st False = Inr r"
  shows "\<exists>r. validate_provider_update X rk upd sg Map.empty False = Inr r"
proof -
  from assms obtain u k pk where "decode_signed_update_strict X upd = Inr u"
    "extract_provider_and_keys X (su_fields u) (su_payload u) = Inr (k, pk)" "k = rk"
    "verify_ed25519_signature X pk upd sg = Inr True"
    unfolding validate_provider_update_def bindE_Inr if_raise_Inr split_paired_Ex prod.case by auto
  then show ?thesis by (simp add: validate_provider_update_def enforce_empty)
qed

lemma overwrite_any_state:
  assumes "validate_signed_update_overwrite X rk upd sg st False = Inr r"
  shows "\<exists>r. validate_signed_update_overwrite X rk upd sg Map.empty False = Inr r"
proof -
  from assms obtain u where u: "decode_signed_update_strict X upd = Inr u"
    by (auto simp: validate_signed_update_overwrite_def bindE_Inr)
  with assms identity_any_state [of X rk upd sg st r] provider_any_state [of X rk upd sg st r]
  show ?thesis by (simp add: validate_signed_update_overwrite_def split: if_splits)
qed

lemma legacy_overwrite_valid:
  assumes "validate_identity_overwrite X rk b existing chain = Inr r"
    and "\<not> is_multisignature_envelope X b"
  shows "legacy_valid X rk b"
proof -
  from assms obtain prev upd sg x where "decode_signed_envelope X b = Inr (upd, sg)"
    "validate_signed_update_overwrite X rk upd sg (seq_state_of rk prev) False = Inr x"
    by (auto simp: validate_identity_overwrite_def Let_def bindE_Inr if_raise_Inr)
  then show ?thesis using overwrite_any_state by (auto simp: legacy_valid_def)
qed

text \<open>A multisignature envelope over nothing is a genesis; over a legacy one, an upgrade or rotation.\<close>

lemma identity_state_kind:
  assumes "decode_multisignature_signed_update X (ms_update s) = Inr (u, a)"
    and "dget (su_fields u) 2 = Some v"
  shows "record_kind a = record_kind_identity"
proof -
  have "record_kind a \<noteq> record_kind_provider"
    using provider_binding_no_identity_key [OF assms(1)] assms(2) by auto
  then show ?thesis using decode_multisig_wf(3) [OF assms(1)]
    by (simp add: wf_auth_def wire_constants)
qed

lemma update_from_nothing:
  assumes "validate_multisignature_update X rk b None None = Inr s"
  shows "validate_multisignature_genesis X rk b = Inr s"
  using assms
  by (auto simp: validate_multisignature_update_def validate_non_rotation_update_def Let_def bindE_Inr
      split: if_splits)

lemma update_from_legacy:
  assumes "validate_multisignature_update X rk b None (Some l) = Inr s"
  shows "validate_multisignature_upgrade X rk b l = Inr s \<or>
    validate_owner_rotation_from_legacy X rk b l = Inr s"
  using assms
  by (auto simp: validate_multisignature_update_def validate_non_rotation_update_def Let_def bindE_Inr
      split: if_splits)

lemma rotation_anchor:
  assumes "validate_owner_rotation_from_legacy X rk b l = Inr s"
  shows "replay_anchor X rk l = Inr (Legacy_anchor l)"
proof -
  obtain c where "decode_multisignature_candidate X b = Inr c" using assms
    by (auto simp: validate_owner_rotation_from_legacy_def bindE_Inr)
  with assms obtain lg where lg: "decode_legacy_state X rk l = Inr lg"
    "lg_kind lg = record_kind_identity" "keys_are (lg_fields lg) [1, 2]" "lg_payload lg = []"
    by (auto simp: validate_owner_rotation_from_legacy_def bindE_Inr if_raise_Inr)
  obtain u sg where "decode_signed_envelope X l = Inr (lg_update lg, sg)"
    using legacy_state_Inr [OF lg(1)] by blast
  then obtain x where "decode_multisignature_envelope X l = Inl x"
    using envelope_shapes_exclusive by (cases "decode_multisignature_envelope X l") force+
  then show ?thesis using lg by (simp add: replay_anchor_def)
qed

lemma genesis_wf:
  assumes "validate_multisignature_genesis X rk b = Inr s"
  shows "wf_state X s"
proof -
  obtain c where c: "decode_multisignature_candidate X b = Inr c"
    using genesis_candidate [OF assms] by blast
  with assms show ?thesis by (simp add: genesis_Inr [OF c] state_of_wf)
qed

lemma upgrade_wf: "validate_multisignature_upgrade X rk b l = Inr s \<Longrightarrow> wf_state X s"
  by (erule upgrade_Inr) (simp only: state_of_wf)

lemma rotation_wf: "validate_owner_rotation_from_legacy X rk b l = Inr s \<Longrightarrow> wf_state X s"
  by (erule legacy_rotation_Inr, drule rotation_invariants_facts(3)) (simp only: state_of_wf)

lemma transition_cases:
  assumes "validate_multisignature_transition X rk b existing chain = Inr s"
  obtains (genesis) "existing = None" "validate_multisignature_genesis X rk b = Inr s"
  | (step) ex c where "existing = Some ex" "is_multisignature_envelope X ex" "msig_step X rk c b s"
  | (upgrade) ex where "existing = Some ex" "\<not> is_multisignature_envelope X ex"
      "validate_multisignature_upgrade X rk b ex = Inr s"
  | (rotation) ex where "existing = Some ex" "\<not> is_multisignature_envelope X ex"
      "validate_owner_rotation_from_legacy X rk b ex = Inr s"
proof -
  from assms obtain cu ca p cur legacy e where
    ctx: "transition_context X rk cu ca p existing chain = Inr (cur, legacy)"
    and upd: "validate_multisignature_update X rk b cur legacy = Inr s"
    by (rule transition_Inr)
  show thesis
  proof (cases existing)
    case None
    then show thesis
      using ctx upd update_from_nothing by (intro that(1)) (auto simp: transition_context_def)
  next
    case (Some ex)
    show thesis
    proof (cases "is_multisignature_envelope X ex")
      case True
      with ctx [unfolded Some] obtain c where c: "cur = Some c" "legacy = None"
        "case chain of Some h \<Rightarrow> h \<noteq> [] \<and> last h = ex \<and> accepted_history X rk h c
         | None \<Rightarrow> validate_multisignature_envelope X rk ex = Inr c"
        by (rule context_multisig) (auto split: option.splits)
      then have "wf_state X c" using lone_wf(1) accepted_history_facts by (auto split: option.splits)
      then show thesis using that(2) Some True upd c update_from_state_iff by blast
    next
      case False
      then have "cur = None \<and> legacy = Some ex" using ctx Some context_legacy by blast
      then show thesis using that(3,4) Some False upd update_from_legacy [of X rk b ex s] by blast
    qed
  qed
qed

lemma transition_wf: "validate_multisignature_transition X rk b existing chain = Inr s \<Longrightarrow> wf_state X s"
  by (erule transition_cases) (auto intro: genesis_wf msig_step_facts(1) upgrade_wf rotation_wf)

lemma identity_overwrite_Inr:
  assumes "validate_identity_overwrite X rk b existing chain = Inr r"
    and "is_multisignature_envelope X b"
  obtains s where "validate_multisignature_transition X rk b existing chain = Inr s"
    "io_state r = Some s" "io_seq r = ms_seq s" "ms_record_kind s = record_kind_identity" "wf_state X s"
proof -
  from assms obtain s u a pk_raw where
    t: "validate_multisignature_transition X rk b existing chain = Inr s"
    and u: "decode_multisignature_signed_update X (ms_update s) = Inr (u, a)"
    and pk: "dget (su_fields u) 2 = Some pk_raw"
    and r: "io_state r = Some s" "io_seq r = su_seq u"
    by (fastforce simp: validate_identity_overwrite_def bindE_Inr if_raise_Inr dsub_Inr
        split: if_splits)
  have wf: "wf_state X s" using t by (rule transition_wf)
  then have "ms_record_kind s = record_kind a" "ms_seq s = su_seq u"
    using u by (auto simp: wf_state_def)
  then show thesis using that t r wf identity_state_kind [OF u pk] by simp
qed

text \<open>Whatever an overwrite accepts may be stored with the history it reports.\<close>

lemma overwrite_entry_ok:
  assumes "validate_identity_overwrite X rk b existing chain = Inr r"
  shows "identity_entry_ok X rk b (rv_history (view_identity_overwrite r))"
proof (cases "is_multisignature_envelope X b")
  case False
  then show ?thesis using legacy_overwrite_valid [OF assms] by (simp add: identity_entry_ok_def)
next
  case True
  from assms True obtain s where
    t: "validate_multisignature_transition X rk b existing chain = Inr s"
    and s: "io_state r = Some s" "ms_record_kind s = record_kind_identity"
    by (rule identity_overwrite_Inr)
  from t have "\<exists>h. retained_history X rk b h \<and> ms_history s = Some h"
  proof (cases rule: transition_cases)
    case genesis
    then have "accepted_history X rk [b] s" using s(2) by (intro accepted_history.genesis)
    then show ?thesis using retained_accepted accepted_history_facts by fastforce
  next
    case (step ex)
    with assms True obtain h s' where "accepted_history X rk (h @ [b]) s'" "io_state r = Some s'"
      using overwrite_extends_history by blast
    with s(1) show ?thesis using retained_accepted accepted_history_facts by fastforce
  next
    case (upgrade ex)
    from upgrade(3) have "ms_history s = Some [ex, b]"
      by (rule upgrade_Inr) (use s(2) in \<open>simp add: state_of_def\<close>)
    with upgrade show ?thesis by (auto simp: retained_history_def)
  next
    case (rotation ex)
    then have "accepted_history X rk [ex, b] s"
      using rotation_anchor accepted_history.rotation by blast
    then show ?thesis using retained_accepted accepted_history_facts by fastforce
  qed
  then show ?thesis using s(1) True by (auto simp: identity_entry_ok_def view_identity_overwrite_def)
qed

text \<open>Whatever a read accepts may be stored with the chain it was read with.\<close>

lemma get_entry_ok:
  assumes "validate_identity_get X rk b chain = Inr g"
  shows "identity_entry_ok X rk b chain"
proof (cases "is_multisignature_envelope X b")
  case False
  then show ?thesis using assms
    by (auto simp: validate_identity_get_def bindE_Inr identity_entry_ok_def legacy_valid_def)
next
  case True
  show ?thesis
  proof (cases chain)
    case None
    with assms True obtain s where "validate_multisignature_envelope X rk b = Inr s"
      "ms_record_kind s = record_kind_identity"
      by (auto simp: validate_identity_get_def bindE_Inr if_raise_Inr)
    then have "accepted_history X rk [b] s" using lone_wf(4) accepted_history.genesis by blast
    with True None show ?thesis using retained_accepted by (fastforce simp: identity_entry_ok_def)
  next
    case (Some h)
    with assms True have "\<exists>s. accepted_history X rk h s \<and> last h = b"
      by (auto simp: validate_identity_get_def bindE_Inr require_history_ending_at_def history_iff
          split: if_splits)
    with True Some show ?thesis using retained_accepted by (fastforce simp: identity_entry_ok_def)
  qed
qed

end
