(* ===== verification/Upgrade_Gap.thy ===== *)
theory Upgrade_Gap
  imports Dht_Safety
begin

text \<open>
  Where the upgrade of a legacy Identity Record and the replay of its history disagree: the
  upgrade compares only the owner key of the legacy record, the replay also demands that the
  legacy record have no payload and no further fields. A legacy record with a payload is accepted,
  and so is its upgrade, but the history the upgrade leaves behind is not an accepted one.
\<close>

lemma not_an_anchor:
  assumes "decode_legacy_state X rk l = Inr lg" and "\<not> (keys_are (lg_fields lg) [1, 2] \<and> lg_payload lg = [])"
  shows "replay_anchor X rk l \<noteq> Inr (Legacy_anchor l')"
  using assms by (auto elim!: replay_anchor_legacy)

lemma legacy_not_candidate:
  assumes "decode_legacy_state X rk l = Inr lg"
  shows "decode_multisignature_candidate X l \<noteq> Inr c"
proof
  assume c: "decode_multisignature_candidate X l = Inr c"
  obtain u sg where "decode_signed_envelope X l = Inr (lg_update lg, sg)"
    using legacy_state_Inr [OF assms] by blast
  with candidate_Inr(1) [OF c] envelope_shapes_exclusive show False by blast
qed

lemma legacy_not_multisig_shape:
  assumes "decode_legacy_state X rk l = Inr lg"
  shows "\<not> is_multisignature_envelope X l"
proof
  obtain u sg where "decode_signed_envelope X l = Inr (lg_update lg, sg)"
    using legacy_state_Inr [OF assms] by blast
  moreover assume "is_multisignature_envelope X l"
  ultimately show False
    using envelope_keys_exclusive
    by (auto simp: is_multisignature_envelope_def elim!: decode_legacy_envelope_Inr
        split: sum.splits pyval.splits)
qed

lemma padded_history_refused:
  assumes "decode_legacy_state X rk l = Inr lg" and "\<not> (keys_are (lg_fields lg) [1, 2] \<and> lg_payload lg = [])"
  shows "\<not> accepted_history X rk [l, b] s"
proof
  assume "accepted_history X rk [l, b] s"
  then show False
  proof cases
    case (step h s0 b')
    then have "accepted_history X rk [l] s0" by simp
    then show False
    proof cases
      case genesis
      then show False using genesis_candidate legacy_not_candidate [OF assms(1)] by fastforce
    next
      case (step h' s1 b1)
      then show False using accepted_history_head by fastforce
    qed
  qed (use not_an_anchor [OF assms] in auto)
qed

text \<open>
  C31: an accepted upgrade can lock a record. When the legacy Identity Record that an upgrade
  replaces carries a payload or fields beyond the two of an Identity, the overwrite validator
  accepts the upgrade and reports the two envelopes as its history; but no read accepts the new
  head with that history or on its own, and no further envelope is accepted over it.
\<close>
theorem padded_upgrade_locks_record:
  assumes "validate_identity_overwrite X rk b (Some l) chain = Inr r"
    and "is_multisignature_envelope X b" and "decode_legacy_state X rk l = Inr lg"
    and "\<not> (keys_are (lg_fields lg) [1, 2] \<and> lg_payload lg = [])"
  shows "Option.bind (io_state r) ms_history = Some [l, b] \<and>
    \<not> is_ok (validate_identity_get X rk b (Some [l, b])) \<and>
    \<not> is_ok (validate_identity_get X rk b None) \<and>
    (\<forall>b'. \<not> is_ok (validate_identity_overwrite X rk b' (Some b) (Some [l, b])))"
proof (intro conjI allI)
  have "\<not> is_multisignature_envelope X l" by (rule legacy_not_multisig_shape [OF assms(3)])
  then have legacy: "\<And>cu ca p cur k. transition_context X rk cu ca p (Some l) chain = Inr (cur, k) \<Longrightarrow>
      cur = None \<and> k = Some l"
    using context_legacy by blast
  from assms(1,2) obtain s where t: "validate_multisignature_transition X rk b (Some l) chain = Inr s"
    and s: "io_state r = Some s" "ms_record_kind s = record_kind_identity"
    by (rule identity_overwrite_Inr)
  from t obtain cu ca p cur k where "transition_context X rk cu ca p (Some l) chain = Inr (cur, k)"
    and "validate_multisignature_update X rk b cur k = Inr s"
    by (rule transition_Inr)
  with legacy have "validate_multisignature_update X rk b None (Some l) = Inr s" by blast
  then have upgrade: "validate_multisignature_upgrade X rk b l = Inr s"
    using update_from_legacy rotation_anchor not_an_anchor [OF assms(3,4)] by blast
  then obtain c where c: "decode_multisignature_candidate X b = Inr c"
    "operation (c_auth c) = operation_upgrade" by (auto elim: upgrade_Inr)
  show "Option.bind (io_state r) ms_history = Some [l, b]"
    using upgrade by (rule upgrade_Inr) (use s in \<open>simp add: state_of_def\<close>)
  show "\<not> is_ok (validate_identity_get X rk b (Some [l, b]))"
    using padded_history_refused [OF assms(3,4)] assms(2)
    by (auto simp: is_ok_iff validate_identity_get_def bindE_Inr history_iff)
  show "\<not> is_ok (validate_identity_get X rk b None)"
    using assms(2) lone_wf(4) [of X rk b] genesis_Inr [OF c(1)] c(2)
    by (auto simp: is_ok_iff validate_identity_get_def bindE_Inr if_raise_Inr wire_constants)
  show "\<not> is_ok (validate_identity_overwrite X rk b' (Some b) (Some [l, b]))" for b'
  proof
    assume "is_ok (validate_identity_overwrite X rk b' (Some b) (Some [l, b]))"
    then obtain r' where "validate_identity_overwrite X rk b' (Some b) (Some [l, b]) = Inr r'"
      by (auto simp: is_ok_iff)
    from overwrite_extends_history [OF this assms(2)]
    obtain s' where "accepted_history X rk ([l, b] @ [b']) s'" by auto
    then show False
      by (cases rule: history_snoc_cases) (use padded_history_refused [OF assms(3,4)] in auto)
  qed
qed

lemma padded_legacy_decodes:
  "decode_legacy_state sample_ext identity_key [61] = Inr
     \<lparr>lg_update = [60], lg_fields = identity_fields 1, lg_payload = [(PInt 9, PInt 9)], lg_seq = 0,
      lg_kind = 1, lg_owner = key 1\<rparr>"
proof -
  have "decode_signed_envelope sample_ext [61] = Inr ([b8 60], snd (sample_proof 60 (None, 1)))"
    by (rule legacy_sample_decodes [where u = padded_update])
      (simp_all add: store_table_def padded_update_def identity_update_def)
  moreover have "decode_canonical_signed_update sample_ext [60] = Inr padded_update"
    by (rule sample_update_decodes)
      (simp_all add: store_table_def padded_update_def wf_update_def identity_update_def
        identity_fields_def)
  moreover have "extract_identity_and_keys sample_ext (identity_fields 1) = Inr (identity_key, key 1)"
    by (simp add: extract_identity_and_keys_def identity_fields_def identity_key_def sample_ext_def
        toy_ext_def)
  ultimately show ?thesis
    using sample_signature_valid [of 1 60 None]
    by (simp add: decode_legacy_state_def padded_update_def identity_update_def wire_constants)
qed

theorem padded_upgrade_locks_record_witness:
  "\<exists>r. validate_identity_overwrite sample_ext identity_key [63] (Some [61]) None = Inr r \<and>
     Option.bind (io_state r) ms_history = Some [[61], [63]] \<and>
     \<not> is_ok (validate_identity_get sample_ext identity_key [63] (Some [[61], [63]]))"
proof -
  let ?u = "identity_update 1 1 (Some (sample_auth 1 4 1 signers_abc (hash_of 60)))"
  have c: "decode_multisignature_candidate sample_ext [63] = Inr (sample_candidate 62 ?u identity_key
      (sample_auth 1 4 1 signers_abc (hash_of 60)) [sig_a])"
    by (rule identity_candidate_decodes)
      (simp_all add: store_table_def sample_proofs_ok [simplified] sample_auth_ok, simp add: sample_auth_def)
  have e: "\<exists>ps. decode_multisignature_envelope sample_ext [63] =
      Inr \<lparr>env_version = 1, env_update = [62], env_proofs = ps\<rparr>"
    and u: "decode_multisignature_signed_update sample_ext [62] =
      Inr (?u, sample_auth 1 4 1 signers_abc (hash_of 60))"
    using candidate_Inr [OF c] by (simp_all add: sample_candidate_def)
  have up: "validate_multisignature_upgrade sample_ext identity_key [63] [61] =
      Inr (identity_state 62 1 1 1 signers_abc [[61], [63]])"
    using sample_signature_valid [of 1 62 "Some [97]"] sample_digest [of 60] sample_digest [of 62]
    by (simp add: validate_multisignature_upgrade_def c sample_defs padded_legacy_decodes
        require_complete_2_of_3_def candidate_state_def dsub_def check_legacy_owner_proof_def
        signer_id_for_public_key_def signers_abc_def sample_proof_def sig_a_def)
  have multi: "is_multisignature_envelope sample_ext [63]"
    "\<not> is_multisignature_envelope sample_ext [61]"
    using decoded_is_multisig candidate_Inr(1) [OF c] legacy_not_multisig_shape [OF padded_legacy_decodes]
    by blast+
  have "validate_multisignature_update sample_ext identity_key [63] None (Some [61]) =
      Inr (identity_state 62 1 1 1 signers_abc [[61], [63]])"
    by (simp add: validate_multisignature_update_def validate_non_rotation_update_def c up
        sample_candidate_def sample_auth_def wire_constants)
  then have "validate_multisignature_transition sample_ext identity_key [63] (Some [61]) None =
      Inr (identity_state 62 1 1 1 signers_abc [[61], [63]])"
    using e by (auto simp: validate_multisignature_transition_def u transition_context_def multi
        sample_auth_def wire_constants)
  then obtain r where r: "validate_identity_overwrite sample_ext identity_key [63] (Some [61]) None = Inr r"
    by (simp add: validate_identity_overwrite_def multi identity_state_def u identity_update_def
        dsub_def metadata_from_state_def)
  show ?thesis
    using padded_upgrade_locks_record [OF r multi(1) padded_legacy_decodes] r by simp
qed

end
