(* ===== verification/Dht_Head_Properties.thy ===== *)
theory Dht_Head_Properties
  imports Dht_Heads Transitions Samples
begin

text \<open>
  The properties of the stateless half of the DHT adapter: its keys, its choice of a head among
  two or many envelopes.
\<close>

subsection \<open>Keys\<close>

lemma hex_val_no_slash: "hex_val c = Some n \<Longrightarrow> c \<noteq> 47"
  by (auto simp: hex_val_def)

lemma hex_no_slash: "fromhex_opt s = Some b \<Longrightarrow> 47 \<notin> set s"
proof (induction s arbitrary: b rule: length_induct)
  case (1 s)
  show ?case
  proof (cases s)
    case (Cons c cs)
    show ?thesis
    proof (cases "ascii_space c")
      case True
      then have "fromhex_opt cs = Some b" "c \<noteq> 47" using 1 Cons by (auto simp: ascii_space_def)
      then show ?thesis using 1 Cons by auto
    next
      case False
      then obtain d ds h l bs where "cs = d # ds" "hex_val c = Some h" "hex_val d = Some l"
        "fromhex_opt ds = Some bs"
        using 1(2) Cons by (auto split: list.splits option.splits)
      then show ?thesis using 1(1) Cons by (auto dest: hex_val_no_slash)
    qed
  qed simp
qed

lemma split_on_absent: "c \<notin> set s \<Longrightarrow> split_on c s = [s]"
  by (induction s) auto

lemma split_on_append: "c \<notin> set a \<Longrightarrow> split_on c (a @ c # b) = a # split_on c b"
  using split_on_nonempty [of c b] by (induction a) (auto split: list.split)

text \<open>The key an operation writes under is read back by the validator as the record it is for.\<close>

lemma parse_kad_key:
  assumes "fromhex_opt h = Some rk" and "length rk = 32"
  shows "parse_key (kad_key kind h) = Inr (kind, rk)"
proof -
  have "kad_key kind h = [] @ 47 # lit ''decent-registry'' @ 47 # kind_text kind @ 47 # h"
    by (simp add: kad_key_def lit_def)
  moreover have "47 \<notin> set (lit ''decent-registry'')" "47 \<notin> set (kind_text kind)"
    by (auto simp: lit_def kind_text_def split: kind.split)
  ultimately have "split_on 47 (kad_key kind h) =
      [[], lit ''decent-registry'', kind_text kind, h]"
    by (simp add: split_on_append split_on_absent hex_no_slash [OF assms(1)])
  moreover have "kind_text Provider_kind \<noteq> kind_text Identity_kind"
    by (simp add: kind_text_def lit_def)
  ultimately show ?thesis
    using assms by (cases kind) (simp_all add: parse_key_def fromhex_def)
qed

text \<open>
  DHT keys round-trip. The key an operation publishes under parses back to the kind and the
  record key it was made for, whatever the case and spacing of the hexadecimal text; the
  content-addressed key of a historical envelope parses back to its record key and state hash.
\<close>
lemma dht_keys_roundtrip:
  assumes "fromhex_opt h = Some rk" and "length rk = 32" and "length state_hash = 32"
  shows "parse_key (kad_key kind h) = Inr (kind, rk) \<and>
    (\<exists>k. identity_history_kad_key h state_hash = Inr k \<and>
       parse_identity_history_key k = Inr (rk, state_hash))"
  using parse_kad_key [OF assms(1,2)] assms
  by (simp add: identity_history_kad_key_def fromhex_def parse_identity_history_key_def Let_def)

lemma dht_keys_roundtrip_witness:
  "parse_key (kad_key Identity_kind (bytes_hex (hash_of 7))) = Inr (Identity_kind, hash_of 7)"
  using dht_keys_roundtrip [of "bytes_hex (hash_of 7)" "hash_of 7" "hash_of 10" Identity_kind] by simp

subsection \<open>Two heads\<close>

text \<open>
  Of the DHT's head and the durable one the newer is taken. When both have a Seq, the
  choice is one of the two and has the larger Seq; with equal Seq it is made only if both carry the
  same update, and then it is the durable one; otherwise it raises.
\<close>
lemma newest_head_selected:
  assumes "head_seq X a = Inr m" and "head_seq X b = Inr n"
  shows "select_newest_envelope X (Some a) (Some b) =
    (if a = b \<or> n < m then Inr (Some a)
     else if m < n \<or> envelope_update_bytes X a = envelope_update_bytes X b then Inr (Some b)
     else Inl (Value_error ''conflicting accepted envelopes at equal seq''))"
  using assms by (auto simp: select_newest_envelope_def head_seq_def bindE_Inr)

subsection \<open>Many values\<close>

text \<open>\<open>i\<close> is the first of the values with the largest Seq, and no other state has that Seq.\<close>

definition first_head :: "ext \<Rightarrow> pstr \<Rightarrow> bytes list \<Rightarrow> nat \<Rightarrow> int \<Rightarrow> bytes \<Rightarrow> bool" where
  "first_head X k vs i n h =
     (i < length vs \<and> value_metadata X k (vs ! i) = Inr (n, h) \<and>
      (\<forall>v \<in> set vs. \<exists>m g. value_metadata X k v = Inr (m, g) \<and> m \<le> n \<and> (m = n \<longrightarrow> g = h)) \<and>
      (\<forall>v \<in> set (take i vs). \<exists>m g. value_metadata X k v = Inr (m, g) \<and> m < n))"

lemma first_head_newer:
  assumes "first_head X k vs i n h" and "value_metadata X k v = Inr (m, g)" and "n < m"
  shows "first_head X k (vs @ [v]) (length vs) m g"
  using assms by (fastforce simp: first_head_def)

lemma first_head_older:
  assumes "first_head X k vs i n h" and "value_metadata X k v = Inr (m, g)" and "m \<le> n"
    and "m = n \<longrightarrow> g = h"
  shows "first_head X k (vs @ [v]) i n h"
  using assms by (auto simp: first_head_def nth_append)

lemma select_loop_head:
  "first_head X k ps i n h \<Longrightarrow> select_loop X k (length ps) (i, n, h) vs = Inr r \<Longrightarrow>
     \<exists>m g. first_head X k (ps @ vs) r m g"
proof (induction vs arbitrary: ps i n h)
  case (Cons v vs)
  from Cons.prems(2) obtain m g where v: "value_metadata X k v = Inr (m, g)"
    by (auto simp: bindE_Inr)
  show ?case
  proof (cases "n < m")
    case True
    then show ?thesis
      using Cons.IH [OF first_head_newer [OF Cons.prems(1) v]] Cons.prems(2) v by simp
  next
    case False
    then have le: "m \<le> n" by simp
    have loop: "select_loop X k (length (ps @ [v])) (i, n, h) vs = Inr r" and "m = n \<longrightarrow> g = h"
      using Cons.prems(2) v False by (auto split: if_splits)
    then show ?thesis using Cons.IH [OF first_head_older [OF Cons.prems(1) v le]] by simp
  qed
qed auto

text \<open>
  \<open>select\<close> picks the current head. The index it returns is that of the first value with the
  largest Seq, every value it was given is a well-formed envelope for the key, and no value has
  that Seq with a different state.
\<close>
lemma select_picks_first_head:
  assumes "select_value X k vs = Inr i"
  shows "\<exists>n h. first_head X k vs i n h"
proof (cases vs)
  case (Cons v ws)
  with assms obtain n h where v: "value_metadata X k v = Inr (n, h)"
    and loop: "select_loop X k (length [v]) (0, n, h) ws = Inr i"
    by (auto simp: select_value_def bindE_Inr)
  have "first_head X k [v] 0 n h" using v by (simp add: first_head_def)
  from select_loop_head [OF this loop] Cons show ?thesis by simp
qed (use assms in \<open>simp add: select_value_def\<close>)

text \<open>
  Whether \<open>select\<close> raises depends on the order in which the DHT delivers the values. Two
  states that conflict at a Seq below the head's make it raise when they come first, and do not
  when the head does.
\<close>
lemma select_depends_on_order:
  assumes "value_metadata X k c = Inr (n, h)" and "value_metadata X k a = Inr (m, g)"
    and "value_metadata X k b = Inr (m, g')" and "m < n" and "g \<noteq> g'"
  shows "\<not> is_ok (select_value X k [a, b, c]) \<and> select_value X k [c, a, b] = Inr 0"
  using assms by (simp add: select_value_def)

subsection \<open>Witnesses\<close>

lemma sample_loads:
  "cbor_loads sample_ext [11] = Inr (legacy_sample_envelope 10 1)"
  "cbor_loads sample_ext [13] = Inr (sample_envelope 12 [sig_a])"
  "cbor_loads sample_ext [15] = Inr (sample_envelope 14 [sig_a, sig_b])"
  "cbor_loads sample_ext [27] = Inr (legacy_sample_envelope 26 1)"
  "cbor_loads sample_ext [10] = Inr (signed_update_py (identity_update 1 0 None))"
  "cbor_loads sample_ext [12] = Inr (signed_update_py (identity_update 1 1
     (Some (sample_auth 1 4 1 signers_abc (hash_of 10)))))"
  "cbor_loads sample_ext [14] = Inr (signed_update_py (identity_update 1 2
     (Some (sample_auth 1 2 1 signers_abc (hash_of 12)))))"
  "cbor_loads sample_ext [26] = Inr (signed_update_py (identity_update 1 1 None))"
proof -
  have "cbor_loads sample_ext b = Inr v" if "(b, v) \<in> set identity_table" for b v
    using sample_roundtrip [of b v] that by (simp add: cbor_roundtrips_def)
  note loads = this
  show "cbor_loads sample_ext [11] = Inr (legacy_sample_envelope 10 1)"
    "cbor_loads sample_ext [13] = Inr (sample_envelope 12 [sig_a])"
    "cbor_loads sample_ext [15] = Inr (sample_envelope 14 [sig_a, sig_b])"
    "cbor_loads sample_ext [27] = Inr (legacy_sample_envelope 26 1)"
    "cbor_loads sample_ext [10] = Inr (signed_update_py (identity_update 1 0 None))"
    "cbor_loads sample_ext [12] = Inr (signed_update_py (identity_update 1 1
       (Some (sample_auth 1 4 1 signers_abc (hash_of 10)))))"
    "cbor_loads sample_ext [14] = Inr (signed_update_py (identity_update 1 2
       (Some (sample_auth 1 2 1 signers_abc (hash_of 12)))))"
    "cbor_loads sample_ext [26] = Inr (signed_update_py (identity_update 1 1 None))"
    by (rule loads, simp add: identity_table_def)+
qed

lemma sample_envelope_keys:
  "\<exists>d. sample_envelope u ps = PDict d \<and> keys_are d [1, 2, 3] \<and> \<not> keys_are d [1, 2] \<and>
     dget d 2 = Some (PBytes [b8 u])"
  "\<exists>d. legacy_sample_envelope u k = PDict d \<and> keys_are d [1, 2] \<and> \<not> keys_are d [1, 2, 3] \<and>
     dget d 1 = Some (PBytes [b8 u])"
  by (simp_all add: sample_envelope_def multisig_envelope_py_def legacy_sample_envelope_def
      legacy_envelope_py_def keys_are_def)

lemma sample_heads:
  "envelope_update_bytes sample_ext [11] = Inr [10]" "envelope_update_bytes sample_ext [13] = Inr [12]"
  "envelope_update_bytes sample_ext [15] = Inr [14]" "envelope_update_bytes sample_ext [27] = Inr [26]"
  "head_seq sample_ext [11] = Inr 0" "head_seq sample_ext [13] = Inr 1"
  "head_seq sample_ext [15] = Inr 2" "head_seq sample_ext [27] = Inr 1"
proof -
  show heads: "envelope_update_bytes sample_ext [11] = Inr [10]"
    "envelope_update_bytes sample_ext [13] = Inr [12]"
    "envelope_update_bytes sample_ext [15] = Inr [14]"
    "envelope_update_bytes sample_ext [27] = Inr [26]"
    by (simp_all add: envelope_update_bytes_def sample_loads sample_envelope_def
        multisig_envelope_py_def legacy_sample_envelope_def legacy_envelope_py_def keys_are_def dsub_def)
  show "head_seq sample_ext [11] = Inr 0" "head_seq sample_ext [13] = Inr 1"
    "head_seq sample_ext [15] = Inr 2" "head_seq sample_ext [27] = Inr 1"
    by (simp_all add: head_seq_def heads sample_loads signed_update_py_def identity_update_def
        py_subscript_def py_item_def)
qed

lemma sample_auth_kind [simp]: "record_kind (sample_auth kind oper ep s pre) = kind"
  by (simp add: sample_auth_def)

lemma sample_decoded_updates:
  "decode_canonical_signed_update sample_ext [10] = Inr (identity_update 1 0 None)"
  "decode_canonical_signed_update sample_ext [12] = Inr (identity_update 1 1
     (Some (sample_auth 1 4 1 signers_abc (hash_of 10))))"
  "decode_canonical_signed_update sample_ext [14] = Inr (identity_update 1 2
     (Some (sample_auth 1 2 1 signers_abc (hash_of 12))))"
  "decode_canonical_signed_update sample_ext [26] = Inr (identity_update 1 1 None)"
  by (rule sample_update_decodes, simp add: identity_table_def,
      rule identity_update_ok, simp, simp add: sample_auth_ok)+

lemma newest_head_selected_witness:
  "select_newest_envelope sample_ext (Some [11]) (Some [13]) = Inr (Some [13]) \<and>
   \<not> is_ok (select_newest_envelope sample_ext (Some [13]) (Some [27]))"
  using newest_head_selected [OF sample_heads(5,6)] newest_head_selected [OF sample_heads(6,8)]
  by (simp add: sample_heads)

text \<open>The sample key of the Identity Record.\<close>

definition sample_dht_key :: pstr where
  "sample_dht_key = kad_key Identity_kind (bytes_hex identity_key)"

lemma identity_key_length [simp]: "length identity_key = 32"
  by (simp add: identity_key_def)

lemma sample_dht_key_parses [simp]: "parse_key sample_dht_key = Inr (Identity_kind, identity_key)"
  by (simp add: sample_dht_key_def parse_kad_key)

lemma owner_digest: "hash_of 7 = identity_key"
  by (simp add: hash_of_def identity_key_def)

lemma sample_metadata:
  "value_metadata sample_ext sample_dht_key [13] = Inr (1, hash_of 12)"
  "value_metadata sample_ext sample_dht_key [15] = Inr (2, hash_of 14)"
  "value_metadata sample_ext sample_dht_key [27] = Inr (1, hash_of 26)"
proof -
  obtain ps qs where e: "decode_multisignature_envelope sample_ext [13] =
      Inr \<lparr>env_version = 1, env_update = [12], env_proofs = ps\<rparr>"
    "decode_multisignature_envelope sample_ext [15] =
      Inr \<lparr>env_version = 1, env_update = [14], env_proofs = qs\<rparr>"
    using candidate_Inr(1) [OF sample_candidates(1)] candidate_Inr(1) [OF sample_candidates(2)]
    by (simp add: sample_candidate_def)
  have l: "\<exists>sg. decode_signed_envelope sample_ext [27] = Inr ([26], sg)"
    using legacy_sample_decodes [of 26 "identity_update 1 1 None" 27 1]
    by (simp add: identity_table_def identity_update_def)
  have d: "\<exists>d. sample_envelope u ps = PDict d \<and> keys_are d [1, 2, 3] \<and> \<not> keys_are d [1, 2]"
    "\<exists>d. legacy_sample_envelope u k = PDict d \<and> keys_are d [1, 2]" for u ps k
    using sample_envelope_keys by blast+
  show "value_metadata sample_ext sample_dht_key [13] = Inr (1, hash_of 12)"
    "value_metadata sample_ext sample_dht_key [15] = Inr (2, hash_of 14)"
    "value_metadata sample_ext sample_dht_key [27] = Inr (1, hash_of 26)"
    using d(1) [of 12 "[sig_a]"] d(1) [of 14 "[sig_a, sig_b]"] d(2) [of 26 1] l
    by (auto simp: value_metadata_def sample_loads e sample_decoded_updates check_metadata_key_def
        identity_update_def identity_fields_def owner_digest wire_constants)
qed

lemma select_picks_first_head_witness:
  "\<exists>n h. first_head sample_ext sample_dht_key [[13], [15]] 1 n h"
  by (rule select_picks_first_head) (simp add: select_value_def sample_metadata)

lemma select_depends_on_order_witness:
  "\<not> is_ok (select_value sample_ext sample_dht_key [[13], [27], [15]]) \<and>
   select_value sample_ext sample_dht_key [[15], [13], [27]] = Inr 0"
  by (rule select_depends_on_order [OF sample_metadata(2,1,3)]) simp_all

end
