(* ===== verification/Dht_Invariants.thy ===== *)
theory Dht_Invariants
  imports Dht_Safety
begin

text \<open>
  The invariant of the node's durable store and its preservation, operation by operation. \<open>safe\<close>
  relates the node before to the node after: the store's Identity entries stay validated ones,
  and no stored Identity Seq decreases. It is reflexive and transitive, so that an operation that
  is put together from safe parts is safe (\<open>state_order\<close>).
\<close>

subsection \<open>The contract of the backend\<close>

text \<open>
  What the adapter relies on: the conditional write installs an envelope with its history and
  Seq over something older or does nothing, and a plain write touches one kind of record only.
\<close>

definition backend_laws :: "'db backend \<Rightarrow> ('db \<Rightarrow> kind \<Rightarrow> bytes \<Rightarrow> int option) \<Rightarrow> bool" where
  "backend_laws B seq_of = (\<exists>pn gh. sb_put_if_newer B = Some pn \<and> sb_get_history B = Some gh \<and>
     (\<forall>db kind k v n h hist r db'. pn db kind k v n h hist = (r, db') \<longrightarrow>
        (if r = Inr True then
           sb_get B db' kind k = Inr (Some v) \<and> gh db' kind k = Inr hist \<and>
           seq_of db' kind k = Some n \<and> (\<forall>m. seq_of db kind k = Some m \<longrightarrow> m < n) \<and>
           (\<forall>kind' k'. (kind', k') \<noteq> (kind, k) \<longrightarrow> sb_get B db' kind' k' = sb_get B db kind' k' \<and>
              gh db' kind' k' = gh db kind' k' \<and> seq_of db' kind' k' = seq_of db kind' k')
         else db' = db)) \<and>
     (\<forall>db kind k v r db'. sb_put B db kind k v = (r, db') \<longrightarrow>
        (\<forall>kind' k'. kind' \<noteq> kind \<longrightarrow> sb_get B db' kind' k' = sb_get B db kind' k' \<and>
           gh db' kind' k' = gh db kind' k' \<and> seq_of db' kind' k' = seq_of db kind' k')))"

lemma lmdb_backend_laws:
  assumes "lmdb_laws L" and "store_codec X"
  shows "backend_laws (lmdb_backend X L) (stored_seq X L)"
proof -
  have newer: "if r = Inr True then
      store_get L db' kind k = Inr (Some v) \<and> store_get_history X L db' kind k = Inr hist \<and>
      stored_seq X L db' kind k = Some n \<and> (\<forall>m. stored_seq X L db kind k = Some m \<longrightarrow> m < n) \<and>
      (\<forall>kind' k'. (kind', k') \<noteq> (kind, k) \<longrightarrow> store_get L db' kind' k' = store_get L db kind' k' \<and>
         store_get_history X L db' kind' k' = store_get_history X L db kind' k' \<and>
         stored_seq X L db' kind' k' = stored_seq X L db kind' k')
    else db' = db"
    if put: "put_if_newer X L db kind k (PBytes v) (PInt n) (PBytes h)
      (map_option (\<lambda>bs. PList (map PBytes bs)) hist) = (r, db')"
    for db kind k v n h hist r db'
  proof (cases "r = Inr True")
    case True
    note eff = put_if_newer_True [OF assms put [unfolded True]]
    show ?thesis using True eff(1-5) eff(6) by simp
  next
    case False
    then show ?thesis using put_if_newer_not_True [OF put] by simp
  qed
  have plain: "store_get L db' kind' k' = store_get L db kind' k' \<and>
      store_get_history X L db' kind' k' = store_get_history X L db kind' k' \<and>
      stored_seq X L db' kind' k' = stored_seq X L db kind' k'"
    if "store_put L db kind k v = (r, db')" "kind' \<noteq> kind" for db kind k v r db' kind' k'
  proof (cases "txn_put L db (kind_db kind) k v")
    case (Inr db1)
    then have "db' = db1" using that(1) by (simp add: store_put_def)
    then show ?thesis
      using that(2) by (simp add: store_get_def store_get_history_def stored_seq_def
          put_law [OF assms(1) Inr])
  next
    case (Inl e)
    then show ?thesis using that by (simp add: store_put_def)
  qed
  show ?thesis
    unfolding backend_laws_def lmdb_backend_def backend.simps
    by (rule exI, rule exI, rule conjI [OF refl], rule conjI [OF refl])
      (use newer plain in blast)
qed

subsection \<open>The order\<close>

definition identity_store_ok :: "ext \<Rightarrow> 'db backend \<Rightarrow> 'db \<Rightarrow> bool" where
  "identity_store_ok X B db =
     (\<forall>gh rk v hist. sb_get_history B = Some gh \<longrightarrow> sb_get B db Identity_kind rk = Inr (Some v) \<longrightarrow>
        gh db Identity_kind rk = Inr hist \<longrightarrow> identity_entry_ok X rk v hist)"

definition safe ::
  "ext \<Rightarrow> 'db backend \<Rightarrow> ('db \<Rightarrow> kind \<Rightarrow> bytes \<Rightarrow> int option) \<Rightarrow>
   ('db, 'v, 'n) node \<Rightarrow> ('db, 'v, 'n) node \<Rightarrow> bool" where
  "safe X B seq_of d d' =
     ((identity_store_ok X B (nd_db d) \<longrightarrow> identity_store_ok X B (nd_db d')) \<and>
      (\<forall>rk m. seq_of (nd_db d) Identity_kind rk = Some m \<longrightarrow>
         (\<exists>m'. seq_of (nd_db d') Identity_kind rk = Some m' \<and> m \<le> m')))"

interpretation safety: state_order "safe X B seq_of" for X B seq_of
proof
  show "safe X B seq_of a c" if "safe X B seq_of a b" "safe X B seq_of b c" for a b c
    using that unfolding safe_def by (meson order_trans)
qed (auto simp: safe_def)

lemma keeps_on_values: "keeps (safe X B seq_of) (on_values m)"
  by (simp add: keeps_def on_values_def safe_def split: prod.split)

definition store_safe ::
  "('db, 'v, 'n) adapter \<Rightarrow> 'db backend \<Rightarrow> ('db \<Rightarrow> kind \<Rightarrow> bytes \<Rightarrow> int option) \<Rightarrow> bool" where
  "store_safe A B seq_of = (ad_store A = Some B \<and> backend_laws B seq_of)"

text \<open>The network calls keep the order: the tasks that run meanwhile do.\<close>

definition net_safe ::
  "ext \<Rightarrow> ('db, 'v, 'n) adapter \<Rightarrow> 'db backend \<Rightarrow> ('db \<Rightarrow> kind \<Rightarrow> bytes \<Rightarrow> int option) \<Rightarrow> bool" where
  "net_safe X A B seq_of =
     (store_safe A B seq_of \<and>
      (\<forall>k q. keeps (safe X B seq_of) (net_get_value A k q)) \<and>
      (\<forall>k v c. keeps (safe X B seq_of) (net_put_value A k v c)) \<and>
      (\<forall>p k. keeps (safe X B seq_of) (net_from_peer A p k)) \<and>
      (\<forall>p k. keeps (safe X B seq_of) (net_fresh_from_peer A p k)) \<and>
      (\<forall>reader k. net_reader A = Some reader \<longrightarrow> keeps (safe X B seq_of) (reader k)))"

subsection \<open>Writes\<close>

text \<open>What a conditional write that installed has done, and why that is safe.\<close>

lemma installed_safe:
  assumes gh: "sb_get_history B = Some gh"
    and entry: "sb_get B db' kind k = Inr (Some v)" "gh db' kind k = Inr hist" "seq_of db' kind k = Some n"
    and newer: "\<And>m. seq_of (nd_db d) kind k = Some m \<Longrightarrow> m < n"
    and others: "\<And>kind' k'. (kind', k') \<noteq> (kind, k) \<Longrightarrow>
      sb_get B db' kind' k' = sb_get B (nd_db d) kind' k' \<and> gh db' kind' k' = gh (nd_db d) kind' k' \<and>
      seq_of db' kind' k' = seq_of (nd_db d) kind' k'"
    and ok: "kind = Identity_kind \<Longrightarrow> identity_entry_ok X k v hist"
  shows "safe X B seq_of d (d\<lparr>nd_db := db'\<rparr>)"
proof -
  have "identity_entry_ok X rk w hi"
    if store: "identity_store_ok X B (nd_db d)" and w: "sb_get B db' Identity_kind rk = Inr (Some w)"
      "gh db' Identity_kind rk = Inr hi" for rk w hi
  proof (cases "(Identity_kind, rk) = (kind, k)")
    case True
    then show ?thesis using w entry ok by auto
  next
    case False
    then show ?thesis using w others [OF False] store gh by (auto simp: identity_store_ok_def)
  qed
  moreover have "\<exists>m'. seq_of db' Identity_kind rk = Some m' \<and> m \<le> m'"
    if m: "seq_of (nd_db d) Identity_kind rk = Some m" for rk m
  proof (cases "(Identity_kind, rk) = (kind, k)")
    case True
    then show ?thesis using m entry(3) newer by fastforce
  next
    case False
    then show ?thesis using m others [OF False] by simp
  qed
  ultimately show ?thesis by (auto simp: safe_def identity_store_ok_def gh)
qed

lemma keeps_conditional_write:
  assumes "backend_laws B seq_of" and "sb_put_if_newer B = Some pn"
    and "kind = Identity_kind \<Longrightarrow> identity_entry_ok X k v hist"
  shows "keeps (safe X B seq_of) (on_db (\<lambda>db. pn db kind k v n h hist))"
  unfolding keeps_def
proof
  fix d :: "('a, 'b, 'c) node"
  from assms(1,2) obtain gh where gh: "sb_get_history B = Some gh"
    and law: "\<And>r db'. pn (nd_db d) kind k v n h hist = (r, db') \<Longrightarrow>
      if r = Inr True then
        sb_get B db' kind k = Inr (Some v) \<and> gh db' kind k = Inr hist \<and>
        seq_of db' kind k = Some n \<and> (\<forall>m. seq_of (nd_db d) kind k = Some m \<longrightarrow> m < n) \<and>
        (\<forall>kind' k'. (kind', k') \<noteq> (kind, k) \<longrightarrow> sb_get B db' kind' k' = sb_get B (nd_db d) kind' k' \<and>
           gh db' kind' k' = gh (nd_db d) kind' k' \<and> seq_of db' kind' k' = seq_of (nd_db d) kind' k')
      else db' = nd_db d"
    unfolding backend_laws_def by fastforce
  obtain r db' where put: "pn (nd_db d) kind k v n h hist = (r, db')" by fastforce
  have "safe X B seq_of d (d\<lparr>nd_db := db'\<rparr>)"
  proof (cases "r = Inr True")
    case True
    note eff = law [OF put, unfolded True, simplified]
    show ?thesis by (rule installed_safe [OF gh]) (use eff assms(3) in blast)+
  next
    case False
    then show ?thesis using law [OF put] safety.same by simp
  qed
  then show "safe X B seq_of d (snd (on_db (\<lambda>db. pn db kind k v n h hist) d))"
    by (simp add: on_db_def put)
qed

lemma keeps_provider_put:
  assumes "backend_laws B seq_of"
  shows "keeps (safe X B seq_of) (on_db (\<lambda>db. sb_put B db Provider_kind k v))"
  unfolding keeps_def
proof
  fix d :: "('a, 'b, 'c) node"
  obtain r db' where put: "sb_put B (nd_db d) Provider_kind k v = (r, db')" by fastforce
  with assms have eff: "\<exists>gh. sb_get_history B = Some gh \<and> (\<forall>k'.
      sb_get B db' Identity_kind k' = sb_get B (nd_db d) Identity_kind k' \<and>
      gh db' Identity_kind k' = gh (nd_db d) Identity_kind k' \<and>
      seq_of db' Identity_kind k' = seq_of (nd_db d) Identity_kind k')"
    unfolding backend_laws_def by (metis kind.distinct(1))
  then show "safe X B seq_of d (snd (on_db (\<lambda>db. sb_put B db Provider_kind k v) d))"
    by (auto simp: on_db_def put safe_def identity_store_ok_def)
qed

lemma keeps_durable_get: "keeps (safe X B seq_of) (durable_get A kind k)"
  unfolding durable_get_def by (intro safety.keeps_intros)

lemma keeps_durable_history: "keeps (safe X B seq_of) (durable_history A kind k)"
  unfolding durable_history_def by (intro safety.keeps_intros)

lemmas keeps_reads = keeps_durable_get keeps_durable_history keeps_on_values safety.keeps_pureA
  safety.keeps_readA

lemma store_backend:
  assumes "store_safe A B seq_of"
  obtains pn gh where "ad_store A = Some B" "backend_laws B seq_of" "sb_put_if_newer B = Some pn"
    "sb_get_history B = Some gh"
  using assms by (auto simp: store_safe_def backend_laws_def)

lemma net_store: "net_safe X A B seq_of \<Longrightarrow> store_safe A B seq_of"
  by (simp add: net_safe_def)

lemma keeps_durable_install:
  assumes "store_safe A B seq_of"
    and "kind = Identity_kind \<Longrightarrow> identity_entry_ok X k v (rv_history r)"
  shows "keeps (safe X B seq_of) (durable_install X A kind k v r history)"
proof -
  obtain pn where B: "ad_store A = Some B" "backend_laws B seq_of" "sb_put_if_newer B = Some pn"
    using store_backend [OF assms(1)] by metis
  have step: "keeps (safe X B seq_of) (on_db (\<lambda>db. pn db kind k v n h
      (if kind = Identity_kind then rv_history r else history)))" for n h
    using B(2,3) assms(2) by (intro keeps_conditional_write) simp_all
  show ?thesis
    unfolding durable_install_def B(1,3) option.case split_beta
    by (intro safety.keeps_intros keeps_reads step)
qed

lemma keeps_durable_cache:
  assumes "store_safe A B seq_of"
    and "kind = Identity_kind \<Longrightarrow> identity_entry_ok X k v history"
  shows "keeps (safe X B seq_of) (durable_cache X A kind k v r history)"
proof -
  obtain pn where B: "ad_store A = Some B" "backend_laws B seq_of" "sb_put_if_newer B = Some pn"
    using store_backend [OF assms(1)] by metis
  have step: "keeps (safe X B seq_of) (on_db (\<lambda>db. pn db kind k v n h history))" for n h
    using B(2,3) assms(2) by (intro keeps_conditional_write) simp_all
  show ?thesis
    unfolding durable_cache_def B(1,3) option.case split_beta
    by (intro safety.keeps_intros keeps_reads step)
qed

text \<open>Any network call.\<close>

lemma keeps_net:
  assumes "net_safe X A B seq_of"
  shows "keeps (safe X B seq_of) (net_get_value A k q)"
    and "keeps (safe X B seq_of) (publish_dht_value A k v c)"
    and "keeps (safe X B seq_of) (net_from_peer A p b)"
    and "keeps (safe X B seq_of) (net_fresh_from_peer A p b)"
    and "net_reader A = Some reader \<Longrightarrow> keeps (safe X B seq_of) (reader k)"
  using assms by (auto simp: net_safe_def publish_dht_value_def)

subsection \<open>Every hook and every operation\<close>

lemma keeps_hooked_get: "keeps (safe X B seq_of) (hooked_get X A k)"
  unfolding hooked_get_def durable_envelope_by_hash_def serve_durable_def Let_def split_beta
  by (auto split: sum.split option.split prod.split kind.split
      intro!: safety.keeps_intros keeps_reads)

lemma keeps_validate_dht_record:
  "keeps (safe X B seq_of) (validate_dht_record X A pending k e)"
  unfolding validate_dht_record_def split_beta
  by (auto split: option.split prod.split kind.split
      intro!: safety.keeps_intros keeps_reads keeps_hooked_get)

text \<open>What validation has established about a value that is about to be committed.\<close>

fun accepted_ok :: "ext \<Rightarrow> kind \<Rightarrow> bytes \<Rightarrow> bytes \<Rightarrow> accepted_result \<Rightarrow> bool" where
  "accepted_ok X Identity_kind rk e (Accepted_identity r) =
     (\<exists>existing chain. validate_identity_overwrite X rk e existing chain = Inr r)"
| "accepted_ok X Provider_kind rk e (Accepted_provider r) =
     (\<exists>existing. validate_provider_overwrite X rk e existing = Inr r)"
| "accepted_ok X _ rk e _ = False"

lemma validate_dht_record_Inr:
  assumes "validate_dht_record X A pending k e d = (Inr (Some r), d')"
  obtains kind rk where "parse_key k = Inr (kind, rk)" "accepted_ok X kind rk e r"
proof -
  from assms obtain kind rk where key: "parse_key k = Inr (kind, rk)"
    by (cases "parse_key k") (auto simp: validate_dht_record_def)
  have "accepted_ok X kind rk e r"
    using assms
    by (cases kind)
      ((auto simp: validate_dht_record_def key bindA_Inr bindE_Inr
          split: if_splits option.splits; blast)+)
  with key show thesis by (rule that)
qed

lemma registry_key_parse: "registry_key k = Some (s, kind, rk) \<Longrightarrow> parse_key s = Inr (kind, rk)"
  by (auto simp: registry_key_def bindE_def split: sum.splits)

lemma prepare_Inr:
  assumes "prepare_durable_acceptance X A lw pending k e d = (Inr (Some (kind, rk, e', r)), d')"
  shows "e' = e \<and> accepted_ok X kind rk e r"
proof -
  from assms obtain s where s: "registry_key k = Some (s, kind, rk)"
    and e: "e' = e" and v: "validate_dht_record X A pending s e d = (Inr (Some r), d')"
    by (cases "registry_key k")
      (auto simp: prepare_durable_acceptance_def bindA_Inr split: if_splits)
  show ?thesis
    using v by (rule validate_dht_record_Inr) (use registry_key_parse [OF s] e in auto)
qed

lemma keeps_prepare:
  "keeps (safe X B seq_of) (prepare_durable_acceptance X A lw pending k e)"
  unfolding prepare_durable_acceptance_def
  by (auto split: option.split intro!: safety.keeps_intros keeps_reads keeps_validate_dht_record)

lemma keeps_commit:
  assumes "store_safe A B seq_of" and "accepted_ok X kind rk e r"
  shows "keeps (safe X B seq_of) (commit_durable_acceptance X A (Some (kind, rk, e, r)))"
proof -
  obtain pn where B: "ad_store A = Some B" "backend_laws B seq_of"
    using store_backend [OF assms(1)] by metis
  show ?thesis
  proof (cases r)
    case (Accepted_identity io)
    with assms(2) obtain existing chain where kind: "kind = Identity_kind"
      and v: "validate_identity_overwrite X rk e existing chain = Inr io" by (cases kind) auto
    have "identity_entry_ok X rk e (rv_history (view_accepted r))"
      using overwrite_entry_ok [OF v] Accepted_identity by simp
    then have "keeps (safe X B seq_of) (durable_install X A Identity_kind rk e (view_accepted r) None)"
      by (intro keeps_durable_install [OF assms(1)])
    then show ?thesis
      unfolding commit_durable_acceptance_def
      by (auto simp: B kind Accepted_identity intro!: safety.keeps_intros keeps_reads)
  next
    case (Accepted_provider p)
    with assms(2) have kind: "kind = Provider_kind" by (cases kind) auto
    have install: "keeps (safe X B seq_of) (durable_install X A Provider_kind rk e view hist)"
      for view hist by (intro keeps_durable_install [OF assms(1)]) simp
    have tomb: "keeps (safe X B seq_of) (tombstone_history A rk e w)" for w
      unfolding tombstone_history_def by (intro safety.keeps_intros keeps_reads)
    show ?thesis
      unfolding commit_durable_acceptance_def
      by (cases p)
        (auto simp: B kind Accepted_provider
          intro!: safety.keeps_intros keeps_reads install tomb keeps_provider_put [OF B(2)])
  qed
qed

lemma keeps_put_hook:
  assumes "store_safe A B seq_of"
  shows "keeps (safe X B seq_of)
    (bindA (prepare_durable_acceptance X A lw pending k e) (\<lambda>accepted.
     bindA (on_values m) (\<lambda>_. commit_durable_acceptance X A accepted)))"
proof -
  have commit: "keeps (safe X B seq_of) (commit_durable_acceptance X A accepted)"
    if "prepare_durable_acceptance X A lw pending k e d = (Inr accepted, d')" for accepted d d'
  proof (cases accepted)
    case None
    then show ?thesis by (simp add: commit_durable_acceptance_def safety.keeps_pureA)
  next
    case (Some t)
    obtain kind rk e' r where t: "t = (kind, rk, e', r)" by (cases t)
    with prepare_Inr [of X A lw pending k e d kind rk e' r d'] that Some
    show ?thesis by (auto intro!: keeps_commit [OF assms])
  qed
  show ?thesis
    by (rule safety.keeps_bindA_known [OF keeps_prepare])
      (intro safety.keeps_intros keeps_reads commit)
qed

lemma keeps_hooked_put:
  assumes "store_safe A B seq_of"
  shows "keeps (safe X B seq_of) (hooked_put X A lw pending k e)"
    and "keeps (safe X B seq_of) (hooked_put_record X A pr lw pending k e)"
  unfolding hooked_put_def hooked_put_record_def by (rule keeps_put_hook [OF assms])+

subsection \<open>The client operations\<close>

lemma keeps_peer_bytes: "keeps (safe X B seq_of) m \<Longrightarrow> keeps (safe X B seq_of) (peer_bytes m)"
  unfolding peer_bytes_def by (intro safety.keeps_intros)

lemma keeps_read_dht_value:
  "net_safe X A B seq_of \<Longrightarrow> keeps (safe X B seq_of) (read_dht_value A k q)"
  unfolding read_dht_value_def by (intro safety.keeps_intros keeps_net)

lemma keeps_fresh_peers:
  assumes "net_safe X A B seq_of"
  shows "keeps (safe X B seq_of) (fresh_peers_loop A k peers)"
  by (induction peers)
    (auto split: sum.split option.split
      intro!: safety.keeps_intros keeps_peer_bytes keeps_net(4) [OF assms])

lemma keeps_by_hash_loop:
  assumes "net_safe X A B seq_of"
  shows "keeps (safe X B seq_of) (by_hash_loop X A k sh peers)"
  by (induction peers)
    (auto split: sum.split option.split
      intro!: safety.keeps_intros keeps_peer_bytes keeps_net(3) [OF assms])

lemma keeps_read_remote:
  assumes "net_safe X A B seq_of"
  shows "keeps (safe X B seq_of) (read_remote_identity_envelope A k)"
    and "keeps (safe X B seq_of) (read_remote_identity_envelope_by_hash X A k sh)"
  unfolding read_remote_identity_envelope_def read_remote_identity_envelope_by_hash_def
  by (intro safety.keeps_intros keeps_peer_bytes keeps_net(5) [OF assms] keeps_fresh_peers [OF assms],
      assumption)
    (intro safety.keeps_intros keeps_by_hash_loop [OF assms])

lemma keeps_walk_chain:
  "net_safe X A B seq_of \<Longrightarrow> safe X B seq_of d (snd (walk_chain X A k chain seen n e d))"
proof (induction X A k chain seen n e d rule: walk_chain.induct)
  case (1 X A k chain seen n e d)
  let ?head = "bindE (envelope_update_bytes X e) (\<lambda>upd.
    bindE (identity_predecessor_hash X e) (\<lambda>p. Inr (sha256 X upd, p)))"
  have step: "safe X B seq_of d d'" if "read_remote_identity_envelope_by_hash X A k ph d = (r, d')"
    for ph r d' using keeps_read_remote(2) [OF "1.prems"] that by (rule keepsD)
  show ?case
  proof (cases ?head)
    case (Inr sp)
    obtain sh p where sp: "sp = (sh, p)" by (cases sp)
    have rest: "safe X B seq_of d (snd (walk_chain X A k (e # chain) (sh # seen)
        (n + length e) e' d'))"
      if "sh \<notin> set seen" "length chain < max_history_entries" "n + length e \<le> max_history_bytes"
        "p = Some ph" "Suc (length chain) < max_history_entries"
        "read_remote_identity_envelope_by_hash X A k ph d = (Inr (Some e'), d')" for ph e' d'
      using "1.IH" [OF Inr sp [symmetric] that(1) _ _ that(4) _ that(6) [symmetric] refl refl "1.prems"]
        that step [OF that(6)] safety.chain by simp
    show ?thesis
      by (subst walk_chain.simps)
        (auto simp: Inr sp safety.same step rest not_le not_less
          split: option.split prod.split sum.split)
  qed (simp add: walk_chain.simps safety.same)
qed

lemma keeps_predecessor_chain:
  "net_safe X A B seq_of \<Longrightarrow>
     keeps (safe X B seq_of) (read_remote_identity_predecessor_chain X A k e)"
  unfolding keeps_def read_remote_identity_predecessor_chain_def using keeps_walk_chain by blast

lemma keeps_put_identity:
  assumes "net_safe X A B seq_of"
  shows "keeps (safe X B seq_of) (put_identity_record X A cond k e)"
proof -
  have install: "keeps (safe X B seq_of) (durable_install X A Identity_kind rk e
      (view_identity_overwrite r) None)"
    if "validate_identity_overwrite X rk e existing chain = Inr r" for rk r existing chain
    using overwrite_entry_ok [OF that] by (intro keeps_durable_install [OF net_store [OF assms]])
  have deadline: "keeps (safe X B seq_of) (check_deadline A cond)"
    unfolding check_deadline_def by (rule safety.keeps_readA)
  have chain: "keeps (safe X B seq_of) (identity_predecessor_chain X A k rk ex)" for rk ex
    unfolding identity_predecessor_chain_def
    by (cases ex) (auto split: option.split intro!: safety.keeps_intros keeps_reads
        keeps_predecessor_chain [OF assms])
  have heads: "keeps (safe X B seq_of) (read_identity_heads X A cond k rk)" for rk
    unfolding read_identity_heads_def mapexcA_def
    by (intro safety.keeps_intros keeps_reads keeps_net [OF assms] keeps_read_dht_value [OF assms]
        keeps_read_remote [OF assms])
  have legacy: "keeps (safe X B seq_of) (put_legacy_identity X A cond k rk e ex)" for rk ex
    unfolding put_legacy_identity_def
    by (intro safety.keeps_intros keeps_net [OF assms] deadline install)
  have accepted: "keeps (safe X B seq_of) (put_accepted_identity X A cond k rk e ex)" for rk ex
    unfolding put_accepted_identity_def Let_def
    by (intro safety.keeps_intros keeps_net [OF assms] deadline install chain)
  show ?thesis
    unfolding put_identity_record_def split_beta
    by (intro safety.keeps_intros heads legacy accepted)
qed

lemma identity_head_valid:
  assumes "validate_identity_head X A k rk cur chain d = (Inr (Some (g, used)), d')"
  shows "validate_identity_get X rk cur used = Inr g"
proof (cases "validate_identity_get X rk cur chain")
  case (Inl e)
  with assms show ?thesis
    by (auto simp: validate_identity_head_def validate_with_remote_chain_def bindA_Inr
        split: option.splits sum.splits)
qed (use assms in \<open>simp add: validate_identity_head_def\<close>)

lemma keeps_identity_head:
  "net_safe X A B seq_of \<Longrightarrow> keeps (safe X B seq_of) (validate_identity_head X A k rk cur chain)"
  unfolding validate_identity_head_def validate_with_remote_chain_def
  by (auto split: option.split sum.split intro!: safety.keeps_intros keeps_predecessor_chain)

lemma keeps_finish_read:
  assumes "net_safe X A B seq_of"
  shows "keeps (safe X B seq_of) (finish_identity_read X A k rk raw_dht cur chain)"
  unfolding finish_identity_read_def split_beta
  by (rule safety.keeps_bindA_known [OF keeps_identity_head [OF assms]])
    (auto split: option.split intro!: safety.keeps_intros keeps_durable_cache [OF net_store [OF assms]]
      get_entry_ok dest: identity_head_valid)

lemma keeps_get_identity:
  assumes "net_safe X A B seq_of"
  shows "keeps (safe X B seq_of) (get_validated_identity_envelope X A k q)"
  unfolding get_validated_identity_envelope_def Let_def
  by (auto split: option.split sum.split
      intro!: safety.keeps_intros keeps_reads keeps_read_dht_value [OF assms]
        keeps_read_remote [OF assms] keeps_finish_read [OF assms])

lemma keeps_confirm_rotation:
  assumes "net_safe X A B seq_of"
  shows "keeps (safe X B seq_of) (dht_confirm_owner_key_rotation X A name e)"
  unfolding dht_confirm_owner_key_rotation_def Let_def
  by (auto split: option.split sum.split identity_get.split
      intro!: safety.keeps_intros keeps_reads keeps_read_remote [OF assms]
        keeps_durable_cache [OF net_store [OF assms]] get_entry_ok)

lemma keeps_put_provider:
  assumes "net_safe X A B seq_of"
  shows "keeps (safe X B seq_of) (dht_put_provider_record X A h e)"
proof -
  obtain pn where B: "ad_store A = Some B" "backend_laws B seq_of"
    using store_backend [OF net_store [OF assms]] by metis
  have install: "keeps (safe X B seq_of) (durable_install X A Provider_kind rk v view hist)"
    for rk v view hist by (intro keeps_durable_install [OF net_store [OF assms]]) simp
  have legacy: "keeps (safe X B seq_of) (put_legacy_provider X A k rk e raw_dht raw_local)"
    for k rk raw_dht raw_local
    unfolding put_legacy_provider_def B(1) option.case
    by (auto split: provider_overwrite.split
        intro!: safety.keeps_intros keeps_net [OF assms] install keeps_provider_put [OF B(2)])
  have accepted: "keeps (safe X B seq_of) (put_accepted_provider X A k rk e raw_dht raw_local)"
    for k rk raw_dht raw_local
    unfolding put_accepted_provider_def
    by (auto split: provider_overwrite.split option.split
        intro!: safety.keeps_intros keeps_reads keeps_net [OF assms] install)
  show ?thesis
    unfolding dht_put_provider_record_def Let_def
    by (intro safety.keeps_intros keeps_reads keeps_read_dht_value [OF assms] legacy accepted)
qed

lemma keeps_get_provider:
  assumes "net_safe X A B seq_of"
  shows "keeps (safe X B seq_of) (dht_get_provider_record X A h q)"
    and "keeps (safe X B seq_of) (dht_get_provider_envelope X A h q)"
proof -
  have cache: "keeps (safe X B seq_of) (durable_cache X A Provider_kind rk v view hist)"
    for rk v view hist by (intro keeps_durable_cache [OF net_store [OF assms]]) simp
  have "keeps (safe X B seq_of) (read_provider_result X A rk cur loc)" for rk cur loc
    unfolding read_provider_result_def tombstone_predecessor_def
    by (auto split: option.split intro!: safety.keeps_intros keeps_reads)
  with cache show "keeps (safe X B seq_of) (dht_get_provider_record X A h q)"
    unfolding dht_get_provider_record_def
    by (auto split: option.split provider_get.split
        intro!: safety.keeps_intros keeps_reads keeps_read_dht_value [OF assms])
  show "keeps (safe X B seq_of) (dht_get_provider_envelope X A h q)"
    unfolding dht_get_provider_envelope_def
    by (intro safety.keeps_intros keeps_reads keeps_read_dht_value [OF assms])
qed

end
