(* ===== verification/Dht_Registry.thy ===== *)
theory Dht_Registry
  imports Dht_Invariants Registry_Service
begin

text \<open>
  The adapter as the \<open>RegistryDHT\<close> of the service, and a node as a state machine: its steps are
  the client operations and the hooks the DHT calls, in any order and with any arguments.
\<close>

definition libp2p_dht :: "ext \<Rightarrow> ('db, 'v, 'n) adapter \<Rightarrow> (('db, 'v, 'n) node) registry_dht" where
  "libp2p_dht X A =
     \<lparr>get_signed_provider_envelope = dht_get_provider_envelope X A,
      put_signed_provider_record = dht_put_provider_record X A,
      get_signed_provider_record = dht_get_provider_record X A,
      put_signed_identity_record = dht_put_identity_record X A,
      put_signed_identity_record_if_current = (\<lambda>k e h t.
        dht_put_identity_if_current X A k e (PBytes h) (PInt t)),
      get_signed_identity_record = dht_get_identity_record X A,
      dht_identity_envelope = dht_get_identity_envelope X A,
      dht_identity_envelope_by_hash = dht_get_identity_by_hash X A,
      dht_confirm_rotation = (\<lambda>name e. dht_confirm_owner_key_rotation X A name (PBytes e))\<rparr>"

inductive node_step ::
  "ext \<Rightarrow> ('db, 'v, 'n) adapter \<Rightarrow> ('db, 'v, 'n) node \<Rightarrow> ('db, 'v, 'n) node \<Rightarrow> bool"
  for X A where
  put_provider: "dht_put_provider_record X A h e d = (r, d') \<Longrightarrow> node_step X A d d'"
| get_provider: "dht_get_provider_record X A h q d = (r1, d') \<Longrightarrow> node_step X A d d'"
| provider_envelope: "dht_get_provider_envelope X A h q d = (r2, d') \<Longrightarrow> node_step X A d d'"
| put_identity: "dht_put_identity_record X A k e d = (r, d') \<Longrightarrow> node_step X A d d'"
| put_if_current: "dht_put_identity_if_current X A k e h t d = (r, d') \<Longrightarrow> node_step X A d d'"
| get_identity: "dht_get_identity_record X A k q d = (r3, d') \<Longrightarrow> node_step X A d d'"
| identity_envelope: "dht_get_identity_envelope X A k q d = (r2, d') \<Longrightarrow> node_step X A d d'"
| by_hash: "dht_get_identity_by_hash X A k h d = (r2, d') \<Longrightarrow> node_step X A d d'"
| confirm: "dht_confirm_owner_key_rotation X A n v d = (r4, d') \<Longrightarrow> node_step X A d d'"
| hook_get: "hooked_get X A b d = (r2, d') \<Longrightarrow> node_step X A d d'"
| hook_put: "hooked_put X A lw pending b e d = (r, d') \<Longrightarrow> node_step X A d d'"
| hook_put_record:
    "vs_put_record A = Some pr \<Longrightarrow> hooked_put_record X A pr lw pending b e d = (r, d') \<Longrightarrow>
     node_step X A d d'"
| validate: "validate_value X A pending k e d = (r, d') \<Longrightarrow> node_step X A d d'"

inductive_cases node_stepE: "node_step X A d d'"

text \<open>A run: any number of steps.\<close>

definition node_run ::
  "ext \<Rightarrow> ('db, 'v, 'n) adapter \<Rightarrow> ('db, 'v, 'n) node \<Rightarrow> ('db, 'v, 'n) node \<Rightarrow> bool" where
  "node_run X A = (node_step X A)\<^sup>*\<^sup>*"

lemma keeps_by_hash:
  "keeps (safe X B seq_of) (dht_get_identity_by_hash X A k h)"
  unfolding dht_get_identity_by_hash_def durable_envelope_by_hash_def Let_def
  by (auto split: sum.split option.split intro!: safety.keeps_intros keeps_reads)

lemma node_step_safe:
  assumes "net_safe X A B seq_of" and "node_step X A d d'"
  shows "safe X B seq_of d d'"
proof -
  note pure = safety.keeps_pureA safety.keeps_Pair
  have get: "keeps (safe X B seq_of) (dht_get_identity_record X A k q)"
    "keeps (safe X B seq_of) (dht_get_identity_envelope X A k q)" for k q
    unfolding dht_get_identity_record_def dht_get_identity_envelope_def
    by (intro safety.keeps_intros keeps_get_identity [OF assms(1)])+
  have put: "keeps (safe X B seq_of) (dht_put_identity_record X A k e)"
    "keeps (safe X B seq_of) (dht_put_identity_if_current X A k e h t)" for k e h t
    using keeps_put_identity [OF assms(1)] pure
    by (auto simp: dht_put_identity_record_def dht_put_identity_if_current_def split: pyval.split)
  have val: "keeps (safe X B seq_of) (validate_value X A pending k e)" for pending k e
    unfolding validate_value_def by (intro safety.keeps_intros keeps_validate_dht_record)
  show ?thesis
    using assms(2)
    by (rule node_stepE)
      (blast intro: keepsD get put val keeps_by_hash keeps_hooked_get keeps_hooked_put [OF net_store [OF assms(1)]]
        keeps_put_provider [OF assms(1)] keeps_get_provider [OF assms(1)]
        keeps_confirm_rotation [OF assms(1)])+
qed

text \<open>
  What may happen while a network call is awaited: the hooks run, and the rest of the node
  changes in any way that leaves the durable store alone.
\<close>

inductive hook_step ::
  "ext \<Rightarrow> ('db, 'v, 'n) adapter \<Rightarrow> ('db, 'v, 'n) node \<Rightarrow> ('db, 'v, 'n) node \<Rightarrow> bool"
  for X A where
  read: "hooked_get X A b d = (r2, d') \<Longrightarrow> hook_step X A d d'"
| stored: "hooked_put X A lw pending b e d = (r, d') \<Longrightarrow> hook_step X A d d'"
| stored_record: "hooked_put_record X A pr lw pending b e d = (r, d') \<Longrightarrow> hook_step X A d d'"
| elsewhere: "nd_db d' = nd_db d \<Longrightarrow> hook_step X A d d'"

inductive_cases hook_stepE: "hook_step X A d d'"

definition through_hooks ::
  "ext \<Rightarrow> ('db, 'v, 'n) adapter \<Rightarrow> (('db, 'v, 'n) node, 'a) act \<Rightarrow> bool" where
  "through_hooks X A m = keeps (hook_step X A)\<^sup>*\<^sup>* m"

definition network_through_hooks :: "ext \<Rightarrow> ('db, 'v, 'n) adapter \<Rightarrow> bool" where
  "network_through_hooks X A =
     ((\<forall>k q. through_hooks X A (net_get_value A k q)) \<and>
      (\<forall>k v c. through_hooks X A (net_put_value A k v c)) \<and>
      (\<forall>p k. through_hooks X A (net_from_peer A p k)) \<and>
      (\<forall>p k. through_hooks X A (net_fresh_from_peer A p k)) \<and>
      (\<forall>reader k. net_reader A = Some reader \<longrightarrow> through_hooks X A (reader k)))"

lemma hook_step_safe:
  assumes "store_safe A B seq_of" and "hook_step X A d d'"
  shows "safe X B seq_of d d'"
  using assms(2)
  by (rule hook_stepE)
    (blast intro: keepsD keeps_hooked_get keeps_hooked_put [OF assms(1)],
      blast intro: keepsD keeps_hooked_put [OF assms(1)],
      blast intro: keepsD keeps_hooked_put [OF assms(1)], auto simp: safe_def)

lemma hook_steps_safe:
  assumes "store_safe A B seq_of" and "(hook_step X A)\<^sup>*\<^sup>* d d'"
  shows "safe X B seq_of d d'"
  using assms(2)
  by (induction rule: rtranclp_induct)
    (auto intro: safety.same safety.chain hook_step_safe [OF assms(1)])

lemma network_safe:
  assumes "store_safe A B seq_of" and "network_through_hooks X A"
  shows "net_safe X A B seq_of"
  using assms hook_steps_safe [OF assms(1)]
  by (auto simp: net_safe_def network_through_hooks_def through_hooks_def keeps_def)

lemma node_run_safe:
  assumes "net_safe X A B seq_of" and "node_run X A d d'"
  shows "safe X B seq_of d d'"
  using assms(2) unfolding node_run_def
  by (induction rule: rtranclp_induct)
    (auto intro: safety.same safety.chain node_step_safe [OF assms(1)])

end
