(* ===== verification/Dht_Walk.thy ===== *)
theory Dht_Walk
  imports Dht_Registry
begin

text \<open>
  The walk from a head back to its anchor over untrusted peers: what it returns, and that it ends.
\<close>

definition update_digest :: "ext \<Rightarrow> bytes \<Rightarrow> bytes option" where
  "update_digest X e =
     (case envelope_update_bytes X e of Inl _ \<Rightarrow> None | Inr upd \<Rightarrow> Some (sha256 X upd))"

text \<open>\<open>e'\<close> names the digest of \<open>e\<close>.\<close>

definition follows :: "ext \<Rightarrow> bytes \<Rightarrow> bytes \<Rightarrow> bool" where
  "follows X e e' =
     (\<exists>h. identity_predecessor_hash X e' = Inr (Some h) \<and> update_digest X e = Some h)"

lemma peer_bytes_Inr: "peer_bytes m d = (r, d') \<Longrightarrow> r \<noteq> Inr x \<or> (\<exists>v. m d = (v, d'))"
  by (auto simp: peer_bytes_def bindA_def tryA_def split: prod.splits sum.splits if_splits)

lemma by_hash_loop_Some:
  "by_hash_loop X A k sh peers d = (Inr (Some e), d') \<Longrightarrow> update_digest X e = Some sh"
proof (induction peers arbitrary: d)
  case (Cons p peers)
  show ?case
  proof (cases "net_same_peer A p")
    case (Inl x)
    with Cons show ?thesis by simp
  next
    case (Inr same)
    show ?thesis
    proof (cases same)
      case True
      with Cons Inr show ?thesis by simp
    next
      case False
      with Cons.prems Inr obtain c d1 where
        c: "(case c of None \<Rightarrow> by_hash_loop X A k sh peers
          | Some envelope \<Rightarrow> (case envelope_update_bytes X envelope of
              Inl _ \<Rightarrow> by_hash_loop X A k sh peers
            | Inr upd \<Rightarrow> if sha256 X upd = sh then pureA (Inr (Some envelope))
                else by_hash_loop X A k sh peers)) d1 = (Inr (Some e), d')"
        by (auto simp: bindA_Inr)
      then show ?thesis
        using Cons.IH [of d1]
        by (auto simp: update_digest_def split: option.splits sum.splits if_splits)
    qed
  qed
qed simp

lemma read_by_hash_Some:
  assumes "read_remote_identity_envelope_by_hash X A k sh d = (Inr (Some e), d')"
  shows "update_digest X e = Some sh"
proof -
  from assms obtain b peers d1 where "by_hash_loop X A b sh peers d1 = (Inr (Some e), d')"
    by (auto simp: read_remote_identity_envelope_by_hash_def bindA_Inr split: if_splits)
  then show ?thesis by (rule by_hash_loop_Some)
qed

subsection \<open>What the walk returns\<close>

definition walked :: "ext \<Rightarrow> bytes \<Rightarrow> bytes list \<Rightarrow> bool" where
  "walked X cur ch =
     (ch \<noteq> [] \<and> last ch = cur \<and> length ch \<le> max_history_entries \<and>
      sum_list (map length ch) \<le> max_history_bytes \<and> successively (follows X) ch \<and>
      distinct (map (update_digest X) ch))"

lemma walk_chain_Some:
  "walk_chain X A k chain seen n e d = (Inr (Some ch), d') \<Longrightarrow>
     last (e # chain) = cur \<Longrightarrow> n = sum_list (map length chain) \<Longrightarrow>
     map (update_digest X) chain = map Some seen \<Longrightarrow> distinct seen \<Longrightarrow>
     successively (follows X) (e # chain) \<Longrightarrow>
     walked X cur ch \<and> identity_predecessor_hash X (hd ch) = Inr None"
proof (induction X A k chain seen n e d rule: walk_chain.induct)
  case (1 X A k chain seen n e d)
  let ?head = "bindE (envelope_update_bytes X e) (\<lambda>upd.
    bindE (identity_predecessor_hash X e) (\<lambda>p. Inr (sha256 X upd, p)))"
  have run: "walk_chain X A k chain seen n e d = (Inr (Some ch), d')" by (rule "1.prems"(1))
  obtain sh p where head: "?head = Inr (sh, p)"
    using run by (cases ?head) (auto simp: walk_chain.simps)
  then have digest: "update_digest X e = Some sh" and pred: "identity_predecessor_hash X e = Inr p"
    by (auto simp: update_digest_def bindE_Inr)
  have ok: "sh \<notin> set seen" "length chain < max_history_entries" "n + length e \<le> max_history_bytes"
    using run by (auto simp: walk_chain.simps head split: if_splits)
  have fresh: "distinct (map (update_digest X) (e # chain))"
    using "1.prems"(4,5) ok(1) digest by (simp add: distinct_map image_iff)
  show ?case
  proof (cases p)
    case None
    then have "ch = e # chain"
      using run ok by (simp add: walk_chain.simps head)
    then show ?thesis
      using "1.prems" ok None pred fresh by (simp add: walked_def)
  next
    case (Some ph)
    with run ok have short: "Suc (length chain) < max_history_entries"
      by (auto simp: walk_chain.simps head split: if_splits)
    with run ok Some obtain e' d1 where
      rd: "read_remote_identity_envelope_by_hash X A k ph d = (Inr (Some e'), d1)"
      and rec: "walk_chain X A k (e # chain) (sh # seen) (n + length e) e' d1 = (Inr (Some ch), d')"
      by (auto simp: walk_chain.simps [of X A k chain] head
          split: if_splits prod.splits sum.splits option.splits)
    have "follows X e' e"
      using read_by_hash_Some [OF rd] pred Some by (simp add: follows_def)
    then show ?thesis
      using "1.IH" [OF head refl ok(1) _ _ Some _ rd [symmetric] refl refl rec]
        "1.prems"(2-6) ok short digest by simp
  qed
qed

text \<open>
  C22: the predecessor walk returns a hash chain. When it returns a chain, the chain ends in the
  head it started from, each entry names the digest of the one before, the first names none, no
  state occurs twice, and the chain has at most 256 entries and 4 MiB in all, whatever the peers
  answered.
\<close>
theorem walk_returns_hash_chain:
  assumes "read_remote_identity_predecessor_chain X A k cur d = (Inr (Some ch), d')"
  shows "ch \<noteq> [] \<and> last ch = cur \<and> successively (follows X) ch \<and>
    identity_predecessor_hash X (hd ch) = Inr None \<and> distinct (map (update_digest X) ch) \<and>
    length ch \<le> 256 \<and> sum_list (map length ch) \<le> 4194304"
proof -
  have "walked X cur ch \<and> identity_predecessor_hash X (hd ch) = Inr None"
    using assms unfolding read_remote_identity_predecessor_chain_def
    by (rule walk_chain_Some) simp_all
  then show ?thesis by (simp add: walked_def max_history_entries_def max_history_bytes_def)
qed

subsection \<open>That it ends\<close>

text \<open>One lookup of a predecessor, whatever comes of it.\<close>

definition lookup_step ::
  "ext \<Rightarrow> ('db, 'v, 'n) adapter \<Rightarrow> pstr \<Rightarrow> ('db, 'v, 'n) node \<Rightarrow> ('db, 'v, 'n) node \<Rightarrow> bool" where
  "lookup_step X A k d d' =
     (\<exists>ph r. read_remote_identity_envelope_by_hash X A k ph d = (r, d'))"

lemma walk_chain_lookups:
  "\<exists>m \<le> 255 - length chain. (lookup_step X A k ^^ m) d (snd (walk_chain X A k chain seen n e d))"
proof (induction X A k chain seen n e d rule: walk_chain.induct)
  case (1 X A k chain seen n e d)
  let ?head = "bindE (envelope_update_bytes X e) (\<lambda>upd.
    bindE (identity_predecessor_hash X e) (\<lambda>p. Inr (sha256 X upd, p)))"
  have stay: "\<exists>m \<le> 255 - length chain. (lookup_step X A k ^^ m) d d" by (intro exI [of _ 0]) simp
  show ?case
  proof (cases ?head)
    case (Inr sp)
    obtain sh p where sp: "sp = (sh, p)" by (cases sp)
    have one: "\<exists>m \<le> 255 - length chain. (lookup_step X A k ^^ m) d d'"
      if "Suc (length chain) < max_history_entries"
        "read_remote_identity_envelope_by_hash X A k ph d = (r, d')" for ph r d'
      using that by (intro exI [of _ 1]) (auto simp: lookup_step_def max_history_entries_def OO_def)
    have rest: "\<exists>m \<le> 255 - length chain. (lookup_step X A k ^^ m) d
        (snd (walk_chain X A k (e # chain) (sh # seen) (n + length e) e' d'))"
      if "sh \<notin> set seen" "length chain < max_history_entries" "n + length e \<le> max_history_bytes"
        "p = Some ph" "Suc (length chain) < max_history_entries"
        "read_remote_identity_envelope_by_hash X A k ph d = (Inr (Some e'), d')" for ph e' d'
    proof -
      note t = that
      obtain m where "m \<le> 255 - length (e # chain)" "(lookup_step X A k ^^ m) d'
          (snd (walk_chain X A k (e # chain) (sh # seen) (n + length e) e' d'))"
        using "1.IH" [OF Inr sp [symmetric] t(1) _ _ t(4) _ t(6) [symmetric] refl refl] t
        by auto
      moreover from this(2) t(6) have "(lookup_step X A k ^^ Suc m) d
          (snd (walk_chain X A k (e # chain) (sh # seen) (n + length e) e' d'))"
        by (intro relpowp_Suc_I2) (auto simp: lookup_step_def)
      ultimately show ?thesis
        using t(5) by (intro exI [of _ "Suc m"]) (simp add: max_history_entries_def del: relpowp.simps)
    qed
    show ?thesis
      by (subst walk_chain.simps)
        (auto simp: Inr sp rest not_le not_less one stay split: option.split prod.split sum.split)
  qed (use stay in \<open>simp add: walk_chain.simps\<close>)
qed

text \<open>
  C23: the predecessor walk terminates. Peers cannot make it go on by serving ever older
  envelopes: whatever they answer, and in whatever state the node is, the walk returns after at
  most 255 lookups.
\<close>
theorem walk_terminates:
  "\<exists>r d' m. read_remote_identity_predecessor_chain X A k cur d = (r, d') \<and> m \<le> 255 \<and>
     (lookup_step X A k ^^ m) d d'"
  using walk_chain_lookups [of "[]" X A k d "[]" 0 cur]
  by (cases "walk_chain X A k [] [] 0 cur d") (auto simp: read_remote_identity_predecessor_chain_def)

end
