(* ===== verification/Dht_Samples.thy ===== *)
theory Dht_Samples
  imports Dht_Walk Dht_Head_Properties Store_Properties
begin

text \<open>
  A small node for the witnesses: a durable store that is a function, an in-memory value store
  that is one, and a network that is the log of publications, a clock at 5 and a table of what the
  peers serve.
\<close>

type_synonym sample_node = "(map_db, bytes \<Rightarrow> bytes option, (pstr \<times> bytes) list \<times> (bytes \<Rightarrow> bytes option)) node"
type_synonym sample_adapter =
  "(map_db, bytes \<Rightarrow> bytes option, (pstr \<times> bytes) list \<times> (bytes \<Rightarrow> bytes option)) adapter"

definition served :: "sample_node \<Rightarrow> bytes \<Rightarrow> pyval" where
  "served d k = (case snd (nd_net d) k of None \<Rightarrow> PNone | Some b \<Rightarrow> PBytes b)"

definition sample_adapter :: sample_adapter where
  "sample_adapter =
     \<lparr>ad_store = Some (lmdb_backend sample_ext map_lmdb),
      vs_get = (\<lambda>k v. (Inr (v k), v)), vs_put = (\<lambda>k x v. (Inr (), v(k \<mapsto> x))),
      vs_put_record = None,
      net_get_value = (\<lambda>k q d. (Inr (snd (nd_net d) (utf8_key k)), d)),
      net_put_value = (\<lambda>k e c d. (Inr (), d\<lparr>nd_net := ((k, e) # fst (nd_net d), snd (nd_net d))\<rparr>)),
      net_same_peer = (\<lambda>p. Inr False),
      net_from_peer = (\<lambda>p k d. (Inr (served d k), d)),
      net_fresh_from_peer = (\<lambda>p k d. (Inr (served d k), d)),
      net_reader = None, net_time = (\<lambda>d. 5)\<rparr>"

definition sample_node :: "map_db \<Rightarrow> (bytes \<Rightarrow> bytes option) \<Rightarrow> sample_node" where
  "sample_node db peers =
     \<lparr>nd_db = db, nd_values = Map.empty, nd_server = True, nd_bootstrap = [[112]],
      nd_net = ([], peers)\<rparr>"

text \<open>The durable store after the legacy record, and after its upgrade, were accepted.\<close>

definition put_entry :: "map_db \<Rightarrow> bytes \<Rightarrow> bytes \<Rightarrow> bytes option \<Rightarrow> map_db" where
  "put_entry db v m h = (\<lambda>n k.
     if n = Identity_db \<and> k = identity_key then Some v
     else if n = Accepted_db \<and> k = metadata_key Identity_kind identity_key then Some m
     else if n = Accepted_db \<and> k = history_key Identity_kind identity_key then h
     else db n k)"

definition db_legacy :: map_db where "db_legacy = put_entry db0 [11] [50] None"
definition db_upgraded :: map_db where "db_upgraded = put_entry db0 [13] [51] (Some [53])"

lemma sample_store_safe:
  "store_safe sample_adapter (lmdb_backend sample_ext map_lmdb) (stored_seq sample_ext map_lmdb)"
proof -
  have "store_codec sample_ext"
    unfolding sample_ext_def by (rule toy_store_codec [OF sample_table_distinct(1)])
  then show ?thesis
    by (simp add: store_safe_def sample_adapter_def lmdb_backend_laws [OF map_lmdb_laws])
qed

lemma sample_through_hooks: "network_through_hooks sample_ext sample_adapter"
proof -
  have "(hook_step sample_ext sample_adapter)\<^sup>*\<^sup>* d d'" if "nd_db d' = nd_db d" for d d' :: sample_node
    using hook_step.elsewhere [of d' d sample_ext sample_adapter, OF that] by blast
  then show ?thesis
    by (simp add: network_through_hooks_def through_hooks_def keeps_def sample_adapter_def)
qed

lemma sample_get:
  "store_get map_lmdb (put_entry db v m h) Identity_kind identity_key = Inr (Some v)"
  "store_get_history sample_ext map_lmdb (put_entry db v m h) Identity_kind identity_key =
     Inr (Option.bind h (decode_history sample_ext))"
  by (simp_all add: store_get_def store_get_history_def map_lmdb_def put_entry_def kind_db_def)

lemma sample_decode_history: "decode_history sample_ext [53] = Some [[11], [13]]"
proof -
  have "cbor_roundtrips sample_ext (store_history [[11], [13]]) [53]"
    by (rule sample_roundtrip) (simp add: store_table_def)
  then show ?thesis
    by (simp add: cbor_roundtrips_def decode_history_def store_history_def)
qed

lemma sample_adapter_simps [simp]:
  "ad_store sample_adapter = Some (lmdb_backend sample_ext map_lmdb)"
  "net_get_value sample_adapter k q d = (Inr (snd (nd_net d) (utf8_key k)), d)"
  "net_same_peer sample_adapter p = Inr False"
  "net_from_peer sample_adapter p b d = (Inr (served d b), d)"
  "net_fresh_from_peer sample_adapter p b d = (Inr (served d b), d)"
  "net_put_value sample_adapter k e c d =
     (Inr (), d\<lparr>nd_net := ((k, e) # fst (nd_net d), snd (nd_net d))\<rparr>)"
  "net_reader sample_adapter = None" "net_time sample_adapter d = 5"
  by (simp_all add: sample_adapter_def)

lemma sample_durable_get [simp]:
  "durable_get sample_adapter Identity_kind k d = (store_get map_lmdb (nd_db d) Identity_kind k, d)"
  "durable_history sample_adapter Identity_kind k d =
     (store_get_history sample_ext map_lmdb (nd_db d) Identity_kind k, d)"
  by (simp_all add: durable_get_def durable_history_def lmdb_backend_def)

lemma sample_predecessors:
  "identity_predecessor_hash sample_ext [11] = Inr None"
  "identity_predecessor_hash sample_ext [13] = Inr (Some (hash_of 10))"
  "identity_predecessor_hash sample_ext [15] = Inr (Some (hash_of 12))"
  by (simp_all add: identity_predecessor_hash_def sample_heads sample_decoded_updates
      identity_update_def sample_auth_def wire_constants)

lemma sample_is_multi_head [simp]:
  "is_multisignature_head sample_ext (Some e) = is_multisignature_envelope sample_ext e"
  "is_multisignature_head sample_ext None = False"
  by (simp_all add: is_multisignature_head_def is_multisignature_envelope_def)

text \<open>Peers that serve the legacy envelope under its content address.\<close>

definition peer_table :: "bytes \<Rightarrow> bytes option" where
  "peer_table = [history_prefix @ identity_key @ hash_of 10 \<mapsto> [11]]"

lemma sample_read_by_hash:
  "read_remote_identity_envelope_by_hash sample_ext sample_adapter (bytes_hex identity_key) (hash_of 10)
     (sample_node db peer_table) = (Inr (Some [11]), sample_node db peer_table)"
  by (simp add: read_remote_identity_envelope_by_hash_def bindA_cases identity_history_kad_key_def
      fromhex_def sample_node_def peer_bytes_def tryA_cases served_def peer_table_def sample_heads)

lemma sample_walk:
  "read_remote_identity_predecessor_chain sample_ext sample_adapter (bytes_hex identity_key) [13]
     (sample_node db peer_table) = (Inr (Some [[11], [13]]), sample_node db peer_table)"
  by (simp add: read_remote_identity_predecessor_chain_def walk_chain.simps sample_heads
      sample_predecessors sample_read_by_hash max_history_entries_def max_history_bytes_def)

theorem walk_returns_hash_chain_witness:
  "successively (follows sample_ext) [[11], [13]] \<and> identity_predecessor_hash sample_ext [11] = Inr None"
  using walk_returns_hash_chain [OF sample_walk] by simp

end
