(* ===== verification/Dht_Conditional.thy ===== *)
theory Dht_Conditional
  imports Dht_Samples
begin

text \<open>
  The conditional publication \<open>put_signed_identity_record_if_current\<close>: everything before its one
  call of \<open>put_value\<close> is independent of that call, and what has been checked when it is reached.
\<close>

subsection \<open>What does not publish\<close>

text \<open>The same node with another \<open>put_value\<close>.\<close>

lemma put_value_irrelevant [simp]:
  "durable_get (A\<lparr>net_put_value := pv\<rparr>) kind k = durable_get A kind k"
  "durable_history (A\<lparr>net_put_value := pv\<rparr>) kind k = durable_history A kind k"
  "read_dht_value (A\<lparr>net_put_value := pv\<rparr>) k' q = read_dht_value A k' q"
  "check_deadline (A\<lparr>net_put_value := pv\<rparr>) cond = check_deadline A cond"
  "server_history_guard X (A\<lparr>net_put_value := pv\<rparr>) e = server_history_guard X A e"
  "require_durable_identity_history (A\<lparr>net_put_value := pv\<rparr>) r = require_durable_identity_history A r"
  by (simp_all add: durable_get_def durable_history_def read_dht_value_def check_deadline_def
      server_history_guard_def require_durable_identity_history_def fun_eq_iff
      cong del: if_weak_cong option.case_cong_weak sum.case_cong_weak prod.case_cong_weak)

lemma fresh_peers_irrelevant [simp]:
  "fresh_peers_loop (A\<lparr>net_put_value := pv\<rparr>) k peers = fresh_peers_loop A k peers"
  by (induction peers)
    (simp_all cong del: if_weak_cong option.case_cong_weak sum.case_cong_weak prod.case_cong_weak)

lemma by_hash_irrelevant [simp]:
  "by_hash_loop X (A\<lparr>net_put_value := pv\<rparr>) k sh peers = by_hash_loop X A k sh peers"
  by (induction peers)
    (simp_all cong del: if_weak_cong option.case_cong_weak sum.case_cong_weak prod.case_cong_weak)

lemma remote_irrelevant [simp]:
  "read_remote_identity_envelope (A\<lparr>net_put_value := pv\<rparr>) k = read_remote_identity_envelope A k"
  "read_remote_identity_envelope_by_hash X (A\<lparr>net_put_value := pv\<rparr>) k sh =
     read_remote_identity_envelope_by_hash X A k sh"
  by (simp_all add: read_remote_identity_envelope_def read_remote_identity_envelope_by_hash_def
      cong del: if_weak_cong option.case_cong_weak sum.case_cong_weak prod.case_cong_weak)

lemma walk_irrelevant [simp]:
  "walk_chain X (A\<lparr>net_put_value := pv\<rparr>) k chain seen n e d = walk_chain X A k chain seen n e d"
proof (induction X A k chain seen n e d rule: walk_chain.induct)
  case (1 X A k chain seen n e d)
  let ?head = "bindE (envelope_update_bytes X e) (\<lambda>upd.
    bindE (identity_predecessor_hash X e) (\<lambda>p. Inr (sha256 X upd, p)))"
  show ?case
  proof (cases ?head)
    case (Inr sp)
    obtain sh p where sp: "sp = (sh, p)" by (cases sp)
    have rest: "walk_chain X (A\<lparr>net_put_value := pv\<rparr>) k (e # chain) (sh # seen) (n + length e) e' d' =
        walk_chain X A k (e # chain) (sh # seen) (n + length e) e' d'"
      if "sh \<notin> set seen" "length chain < max_history_entries" "n + length e \<le> max_history_bytes"
        "p = Some ph" "Suc (length chain) < max_history_entries"
        "read_remote_identity_envelope_by_hash X A k ph d = (Inr (Some e'), d')" for ph e' d'
      using "1.IH" [OF Inr sp [symmetric] that(1) _ _ that(4) _ that(6) [symmetric] refl refl] that
      by simp
    show ?thesis
      unfolding walk_chain.simps [of X _ k chain] remote_irrelevant Inr sp
      using rest by (auto simp: not_le not_less split: option.split prod.split sum.split)
  qed (simp add: walk_chain.simps)
qed

lemma install_irrelevant [simp]:
  "durable_install X (A\<lparr>net_put_value := pv\<rparr>) kind k v r history = durable_install X A kind k v r history"
  by (simp add: durable_install_def cong del: if_weak_cong option.case_cong_weak sum.case_cong_weak
      prod.case_cong_weak)

lemma walk_irrelevant_fun [simp]:
  "walk_chain X (A\<lparr>net_put_value := pv\<rparr>) k chain seen n e = walk_chain X A k chain seen n e"
  by (rule ext) simp

lemma reads_irrelevant [simp]:
  "read_identity_heads X (A\<lparr>net_put_value := pv\<rparr>) cond k rk = read_identity_heads X A cond k rk"
  "identity_predecessor_chain X (A\<lparr>net_put_value := pv\<rparr>) k rk ex =
     identity_predecessor_chain X A k rk ex"
  by (simp_all add: read_identity_heads_def identity_predecessor_chain_def
      read_remote_identity_predecessor_chain_def fun_eq_iff
      cong del: if_weak_cong option.case_cong_weak sum.case_cong_weak prod.case_cong_weak)

subsection \<open>The head that is replaced\<close>

text \<open>
  \<open>e\<close> is the newest of some heads: every other one whose Seq can be read has a smaller Seq, or the same
  Seq and the same update.
\<close>

definition newest_head :: "ext \<Rightarrow> bytes set \<Rightarrow> bytes \<Rightarrow> bool" where
  "newest_head X heads e =
     (e \<in> heads \<and> (\<forall>b n. b \<in> heads \<longrightarrow> head_seq X b = Inr n \<longrightarrow> (\<exists>m. head_seq X e = Inr m \<and>
        (n < m \<or> n = m \<and> envelope_update_bytes X b = envelope_update_bytes X e))))"

lemma selected_newest:
  assumes "select_newest_envelope X a b = Inr (Some e)"
  shows "newest_head X (set_option a \<union> set_option b) e"
proof (cases a)
  case (Some x)
  show ?thesis
  proof (cases b)
    case (Some y)
    show ?thesis
    proof (cases "x = y")
      case False
      then show ?thesis
        using assms \<open>a = Some x\<close> \<open>b = Some y\<close>
        by (auto simp: select_newest_envelope_def newest_head_def bindE_Inr split: sum.splits if_splits)
    qed (use assms \<open>a = Some x\<close> \<open>b = Some y\<close> in
        \<open>auto simp: select_newest_envelope_def newest_head_def\<close>)
  qed (use assms Some in \<open>auto simp: select_newest_envelope_def newest_head_def\<close>)
qed (use assms in \<open>auto simp: select_newest_envelope_def newest_head_def\<close>)

text \<open>
  The heads that a conditional publication reads: the DHT's value under the record's key, and then the
  durable one.
\<close>

definition reads_head ::
  "ext \<Rightarrow> ('db, 'v, 'n) adapter \<Rightarrow> pstr \<Rightarrow> bytes \<Rightarrow> ('db, 'v, 'n) node \<Rightarrow> bytes \<Rightarrow> bool" where
  "reads_head X A k rk d e =
     (\<exists>raw_dht d1 raw_local d2. net_get_value A (kad_key Identity_kind k) 0 d = (Inr raw_dht, d1) \<and>
        durable_get A Identity_kind rk d1 = (Inr raw_local, d2) \<and>
        newest_head X (set_option raw_dht \<union> set_option raw_local) e)"

lemma read_heads_newest:
  assumes "read_identity_heads X A (Some c) k rk d = (Inr (raw_dht, raw_local, Some e), d')"
  shows "reads_head X A k rk d e"
proof -
  obtain d1 d2 where "mapexcA (net_get_value A (kad_key Identity_kind k) 0)
      (\<lambda>_. Identity_state_unavailable) d = (Inr raw_dht, d1)"
    and local: "durable_get A Identity_kind rk d1 = (Inr raw_local, d2)"
    and sel: "select_newest_envelope X raw_dht raw_local = Inr (Some e)"
    using assms by (auto simp: read_identity_heads_def bindA_Inr pureA_def wrapE_Inr)
  then have "net_get_value A (kad_key Identity_kind k) 0 d = (Inr raw_dht, d1)"
    by (auto simp: mapexcA_cases split: prod.splits sum.splits)
  with local selected_newest [OF sel] show ?thesis by (auto simp: reads_head_def)
qed

subsection \<open>What has been checked when it publishes\<close>

text \<open>
  An operation that fails without publishing: it ends the same way whatever \<open>put_value\<close> would do. And
  one that publishes \<open>e\<close> over \<open>ex\<close>: whatever \<open>put_value\<close> does, it is called, once, in a state in which
  the deadline had not passed and with the validated predecessor and history; what it returns
  decides the outcome, but for the update of the durable store that may follow.
\<close>

definition unpublished ::
  "(('db, 'v, 'n) adapter \<Rightarrow> (('db, 'v, 'n) node, unit) act) \<Rightarrow> ('db, 'v, 'n) adapter \<Rightarrow>
   ('db, 'v, 'n) node \<Rightarrow> bool" where
  "unpublished m A d = (\<exists>x d'. \<forall>pv. m (A\<lparr>net_put_value := pv\<rparr>) d = (Inl x, d'))"

definition published_over ::
  "ext \<Rightarrow> int \<Rightarrow> pstr \<Rightarrow> bytes \<Rightarrow> bytes \<Rightarrow> bytes option \<Rightarrow>
   (('db, 'v, 'n) adapter \<Rightarrow> (('db, 'v, 'n) node, unit) act) \<Rightarrow> ('db, 'v, 'n) adapter \<Rightarrow>
   ('db, 'v, 'n) node \<Rightarrow> bool" where
  "published_over X t k rk e ex m A d =
     (\<exists>chain res d1 rest. validate_identity_overwrite X rk e ex chain = Inr res \<and>
        net_time A d1 < t \<and>
        rest \<in> {pureA (Inr ()),
          durable_install X A Identity_kind rk e (view_identity_overwrite res) None} \<and>
        (\<forall>pv. m (A\<lparr>net_put_value := pv\<rparr>) d =
           bindA (pv (kad_key Identity_kind k) e (Some (rk, e, ex, chain))) (\<lambda>_. rest) d1))"

text \<open>
  A step that does not look at \<open>put_value\<close> either ends the operation or leaves the matter to what
  follows.
\<close>

lemma publish_step:
  assumes "\<And>pv. m (A\<lparr>net_put_value := pv\<rparr>) = m A"
    and "\<And>x d1. m A d = (Inr x, d1) \<Longrightarrow>
      unpublished (\<lambda>A. f A x) A d1 \<or> published_over X t k rk e ex (\<lambda>A. f A x) A d1"
  shows "unpublished (\<lambda>A. bindA (m A) (f A)) A d \<or>
    published_over X t k rk e ex (\<lambda>A. bindA (m A) (f A)) A d"
proof -
  obtain rm d1 where m: "m A d = (rm, d1)" by fastforce
  show ?thesis
  proof (cases rm)
    case (Inl x)
    then show ?thesis using m by (simp add: unpublished_def bindA_cases assms(1))
  next
    case (Inr x)
    then show ?thesis
      using m assms(2) [of x d1] unfolding unpublished_def published_over_def
      by (simp add: bindA_cases [of "m A"] assms(1))
  qed
qed

lemma publish_then:
  assumes "validate_identity_overwrite X rk e ex chain = Inr res" and "net_time A d < t"
    and "\<And>pv. f (A\<lparr>net_put_value := pv\<rparr>) = f A"
    and "f A () \<in> {pureA (Inr ()),
      durable_install X A Identity_kind rk e (view_identity_overwrite res) None}"
  shows "published_over X t k rk e ex
    (\<lambda>A. bindA (publish_dht_value A (kad_key Identity_kind k) e (Some (rk, e, ex, chain))) (f A)) A d"
  unfolding published_over_def
  using assms by (intro exI [of _ chain] exI [of _ res] exI [of _ d] exI [of _ "f A ()"])
    (simp add: publish_dht_value_def)

lemma deadline_met: "check_deadline A (Some (h, t)) d = (Inr x, d') \<Longrightarrow> d' = d \<and> net_time A d < t"
  by (auto simp: check_deadline_def readA_def split: if_splits)

lemma accepted_cases:
  "unpublished (\<lambda>A. put_accepted_identity X A (Some (h, t)) k rk e ex) A d \<or>
   published_over X t k rk e ex (\<lambda>A. put_accepted_identity X A (Some (h, t)) k rk e ex) A d"
  unfolding put_accepted_identity_def Let_def
proof (rule publish_step, simp, rule publish_step, simp, rule publish_step, simp, rule publish_step, simp,
    goal_cases)
  case (1 chain d1 res d2 u d3 v d4)
  then have "validate_identity_overwrite X rk e ex chain = Inr res" "net_time A d4 < t"
    using deadline_met [OF 1(4)] by (auto simp: pureA_def)
  from publish_then [OF this, where f = "\<lambda>A _. if is_multisignature_head X (Some e)
      then durable_install X A Identity_kind rk e (view_identity_overwrite res) None else pureA (Inr ())"]
  show ?case by simp
qed

lemma legacy_cases:
  "unpublished (\<lambda>A. put_legacy_identity X A (Some (h, t)) k rk e ex) A d \<or>
   published_over X t k rk e ex (\<lambda>A. put_legacy_identity X A (Some (h, t)) k rk e ex) A d"
  unfolding put_legacy_identity_def
proof (rule publish_step, simp, rule publish_step, simp, goal_cases)
  case (1 res d1 u d2)
  then have "validate_identity_overwrite X rk e ex None = Inr res" "net_time A d2 < t"
    using deadline_met [OF 1(2)] by (auto simp: pureA_def)
  from publish_then [OF this, where f = "\<lambda>A _. durable_install X A Identity_kind rk e
      (view_identity_overwrite res) None"]
  show ?case by simp
qed

lemma expected_state_digest:
  assumes "check_expected_state X (Some (h, t)) ex = Inr u"
  obtains e where "ex = Some e" and "update_digest X e = Some h"
  using assms that
  by (cases ex) (auto simp: check_expected_state_def bindE_Inr wrapE_Inr if_raise_Inr update_digest_def
      split: sum.splits)

lemma either_publishes:
  assumes "unpublished f A d \<or> published_over X t k rk e ex f A d"
    and "unpublished g A d \<or> published_over X t k rk e ex g A d"
  shows "unpublished (\<lambda>A. if c then f A else g A) A d \<or>
    published_over X t k rk e ex (\<lambda>A. if c then f A else g A) A d"
  using assms by (cases c) simp_all

text \<open>The state from which an operation publishes, and the head, are those of its last part.\<close>

lemma published_later:
  assumes "published_over X t k rk e ex m' A d'"
    and "\<And>pv. m (A\<lparr>net_put_value := pv\<rparr>) d = m' (A\<lparr>net_put_value := pv\<rparr>) d'"
  shows "published_over X t k rk e ex m A d"
  using assms unfolding published_over_def by simp

lemma unpublished_later:
  assumes "unpublished m' A d'"
    and "\<And>pv. m (A\<lparr>net_put_value := pv\<rparr>) d = m' (A\<lparr>net_put_value := pv\<rparr>) d'"
  shows "unpublished m A d"
  using assms unfolding unpublished_def by simp

lemma conditional_cases:
  "unpublished (\<lambda>A. put_identity_record X A (Some (h, t)) k e) A d \<or>
   (\<exists>rk ex. fromhex_opt k = Some rk \<and> reads_head X A k rk d ex \<and> update_digest X ex = Some h \<and>
      published_over X t k rk e (Some ex) (\<lambda>A. put_identity_record X A (Some (h, t)) k e) A d)"
    (is "?fails \<or> ?publishes")
proof (cases "fromhex k")
  case (Inl x)
  then show ?thesis by (simp add: unpublished_def put_identity_record_def pureA_def bindA_cases)
next
  case (Inr rk)
  obtain r1 d1 where heads: "read_identity_heads X A (Some (h, t)) k rk d = (r1, d1)" by fastforce
  show ?thesis
  proof (cases r1)
    case (Inl x)
    with Inr heads show ?thesis
      by (simp add: unpublished_def put_identity_record_def pureA_def bindA_cases)
  next
    fix hs
    assume r1: "r1 = Inr hs"
    obtain raw_dht raw_local ex where hs: "hs = (raw_dht, raw_local, ex)" by (cases hs)
    let ?last = "\<lambda>A. bindA (readA (server_history_guard X A e)) (\<lambda>_.
      if is_multisignature_head X (Some e) \<or> is_multisignature_head X raw_dht \<or>
         is_multisignature_head X raw_local
      then put_accepted_identity X A (Some (h, t)) k rk e ex
      else put_legacy_identity X A (Some (h, t)) k rk e ex)"
    have run: "put_identity_record X (A\<lparr>net_put_value := pv\<rparr>) (Some (h, t)) k e d =
        bindA (pureA (check_expected_state X (Some (h, t)) ex)) (\<lambda>_. ?last (A\<lparr>net_put_value := pv\<rparr>)) d1" for pv
      using Inr heads r1 hs by (simp add: put_identity_record_def bindA_cases pureA_def)
    show ?thesis
    proof (cases "check_expected_state X (Some (h, t)) ex")
      case (Inl x)
      then show ?thesis using run by (simp add: unpublished_def bindA_cases pureA_def)
    next
      fix u
      assume ok: "check_expected_state X (Some (h, t)) ex = Inr u"
      then obtain e0 where e0: "ex = Some e0" "update_digest X e0 = Some h" by (rule expected_state_digest)
      let ?put = "\<lambda>A. put_identity_record X A (Some (h, t)) k e"
      have last: "put_identity_record X (A\<lparr>net_put_value := pv\<rparr>) (Some (h, t)) k e d =
          ?last (A\<lparr>net_put_value := pv\<rparr>) d1" for pv
        using run ok by simp
      have "reads_head X A k rk d e0" using read_heads_newest heads r1 hs e0 by fastforce
      moreover have "fromhex_opt k = Some rk" using Inr by (simp add: fromhex_Inr)
      moreover have "unpublished ?last A d1 \<or> published_over X t k rk e ex ?last A d1"
        by (intro publish_step either_publishes accepted_cases legacy_cases) simp
      then have "?fails \<or> published_over X t k rk e ex
          ?put A d"
        using published_later [where m = ?put and m' = ?last, OF _ last]
          unpublished_later [where m = ?put and m' = ?last, OF _ last] by blast
      ultimately show ?thesis using e0 by blast
    qed
  qed
qed

text \<open>
  C16: a conditional publication publishes only over the expected state and before its deadline.
  Either it fails without publishing (it ends with the same exception whatever \<open>put_value\<close> would do); or
  it read the DHT's head and the durable one, the newest of the two has the expected state hash, the
  envelope is a valid overwrite of exactly that head, and \<open>put_value\<close> is called, once, with the
  envelope and that head, when the clock was before \<open>expires_at\<close>.
\<close>
theorem conditional_publish_checked:
  "(\<exists>x d'. \<forall>pv. dht_put_identity_if_current X (A\<lparr>net_put_value := pv\<rparr>) k e (PBytes h) (PInt t) d =
      (Inl x, d')) \<or>
   (\<exists>rk ex. fromhex_opt k = Some rk \<and> reads_head X A k rk d ex \<and> update_digest X ex = Some h \<and>
      published_over X t k rk e (Some ex)
        (\<lambda>A. dht_put_identity_if_current X A k e (PBytes h) (PInt t)) A d)"
proof (cases "length h = 32")
  case True
  then show ?thesis
    using conditional_cases [of X h t k e A d]
    by (simp add: dht_put_identity_if_current_def unpublished_def)
qed (auto simp: dht_put_identity_if_current_def pureA_def)

subsection \<open>A publication\<close>

text \<open>The upgrade of the sample record, published over the legacy envelope the node has stored.\<close>

definition sample_upgrade_result :: identity_overwrite_result where
  "sample_upgrade_result =
     \<lparr>io_record_key = identity_key, io_object_key_hex = bytes_hex identity_key, io_owner = key 1,
      io_owner_name_hex = bytes_hex [7], io_seq = 1,
      io_authorization = Some \<lparr>am_version = 1, am_operation = 4, am_epoch = 1, am_threshold = 2,
        am_signers = signers_abc, am_predecessor = hash_of 10, am_state_hash = hash_of 12\<rparr>,
      io_state = Some (identity_state 12 1 1 1 signers_abc [[11], [13]])\<rparr>"

lemma sample_not_multi: "\<not> is_multisignature_envelope sample_ext [11]"
  using sample_envelope_keys(2) [of 10 1]
  by (auto simp: is_multisignature_envelope_def sample_loads)

lemma sample_upgrade_overwrite:
  "validate_identity_overwrite sample_ext identity_key [13] (Some [11]) chain = Inr sample_upgrade_result"
proof -
  have u: "decode_multisignature_signed_update sample_ext [12] =
      Inr (identity_update 1 1 (Some (sample_auth 1 4 1 signers_abc (hash_of 10))),
        sample_auth 1 4 1 signers_abc (hash_of 10))"
    and e: "\<exists>ps. decode_multisignature_envelope sample_ext [13] =
      Inr \<lparr>env_version = 1, env_update = [12], env_proofs = ps\<rparr>"
    using candidate_Inr [OF sample_candidates(1)] by (simp_all add: sample_candidate_def)
  have "validate_multisignature_update sample_ext identity_key [13] None (Some [11]) =
      Inr (identity_state 12 1 1 1 signers_abc [[11], [13]])"
    by (simp add: validate_multisignature_update_def validate_non_rotation_update_def
        sample_candidates sample_upgrade sample_candidate_def sample_auth_def wire_constants)
  then have "validate_multisignature_transition sample_ext identity_key [13] (Some [11]) chain =
      Inr (identity_state 12 1 1 1 signers_abc [[11], [13]])"
    using e by (auto simp: validate_multisignature_transition_def u transition_context_def
        sample_not_multi sample_auth_def wire_constants)
  then show ?thesis
    by (simp add: validate_identity_overwrite_def sample_is_multisig identity_state_def u
        identity_update_def dsub_def metadata_from_state_def sample_upgrade_result_def
        identity_fields_def sample_auth_def)
qed

lemma sample_store_entries:
  "cbor_dumps sample_ext (accepted_metadata 1 (hash_of 12)) = Inr [51]"
  "cbor_dumps sample_ext (PList (map PBytes [[11], [13]])) = Inr [53]"
  "cbor_loads sample_ext [50] = Inr (store_meta 0 10)"
proof -
  have "cbor_roundtrips sample_ext v b" if "(b, v) \<in> set store_table" for b v
    using sample_roundtrip [of b v] that by simp
  note rt = this [unfolded cbor_roundtrips_def]
  show "cbor_dumps sample_ext (accepted_metadata 1 (hash_of 12)) = Inr [51]"
    using rt [of "[51]" "store_meta 1 12"]
    by (simp add: store_table_def accepted_metadata_def store_meta_def)
  show "cbor_dumps sample_ext (PList (map PBytes [[11], [13]])) = Inr [53]"
    using rt [of "[53]" "store_history [[11], [13]]"] by (simp add: store_table_def store_history_def)
  show "cbor_loads sample_ext [50] = Inr (store_meta 0 10)"
    using rt [of "[50]" "store_meta 0 10"] by (simp add: store_table_def)
qed

lemma sample_put_newer:
  "put_if_newer sample_ext map_lmdb db_legacy Identity_kind identity_key (PBytes [13]) (PInt 1)
     (PBytes (hash_of 12)) (Some (PList (map PBytes [[11], [13]]))) = (Inr True, db_upgraded)"
proof -
  have "may_install sample_ext 1 (Some [11]) (Some [50])"
    by (simp add: may_install_def current_seq_def metadata_seq_def sample_store_entries
        store_meta_def keys_are_def)
  moreover have "install map_lmdb db_legacy Identity_kind identity_key [13] [51] (Some [53]) =
      Inr db_upgraded"
    by (auto simp: install_def map_lmdb_def db_legacy_def db_upgraded_def put_entry_def kind_db_def
        fun_eq_iff)
  moreover have "txn_get map_lmdb db_legacy (kind_db Identity_kind) identity_key = Inr (Some [11])"
    "txn_get map_lmdb db_legacy Accepted_db (metadata_key Identity_kind identity_key) = Inr (Some [50])"
    by (simp_all add: map_lmdb_def db_legacy_def put_entry_def kind_db_def)
  ultimately show ?thesis
    using sample_store_entries(1,2)
    by (simp add: put_if_newer_def put_if_newer_txn_def check_put_arguments_def)
qed

lemma sample_install:
  "durable_install sample_ext sample_adapter Identity_kind identity_key [13]
     (view_identity_overwrite sample_upgrade_result) None (sample_node db_legacy t\<lparr>nd_net := n\<rparr>) =
   (Inr (), sample_node db_upgraded t\<lparr>nd_net := n\<rparr>)"
  using sample_put_newer
  by (simp add: durable_install_def bindA_cases require_durable_identity_history_def lmdb_backend_def
      view_identity_overwrite_def sample_upgrade_result_def result_seq_and_state_hash_def
      wire_constants on_db_def sample_node_def identity_state_def db_legacy_def sample_get)

lemma sample_node_net: "nd_net (sample_node db t) = ([], t)"
  by (simp add: sample_node_def)

lemma sample_requires_nothing:
  "require_durable_identity_history sample_adapter (view_identity_overwrite sample_upgrade_result) = Inr ()"
  by (simp add: require_durable_identity_history_def view_identity_overwrite_def
      sample_upgrade_result_def wire_constants)

lemma sample_conditional_put:
  "dht_put_identity_if_current sample_ext sample_adapter (bytes_hex identity_key) [13]
     (PBytes (hash_of 10)) (PInt 6) (sample_node db_legacy Map.empty) =
   (Inr (), sample_node db_upgraded Map.empty
      \<lparr>nd_net := ([(kad_key Identity_kind (bytes_hex identity_key), [13])], Map.empty)\<rparr>)"
proof -
  let ?d = "sample_node db_legacy Map.empty"
  have heads: "read_identity_heads sample_ext sample_adapter (Some (hash_of 10, 6))
      (bytes_hex identity_key) identity_key ?d = (Inr (None, Some [11], Some [11]), ?d)"
    by (simp add: read_identity_heads_def bindA_cases mapexcA_cases sample_node_def db_legacy_def
        sample_get select_newest_envelope_def)
  have chain: "identity_predecessor_chain sample_ext sample_adapter (bytes_hex identity_key)
      identity_key (Some [11]) ?d = (Inr (Some [[11]]), ?d)"
    by (simp add: identity_predecessor_chain_def bindA_cases sample_node_def db_legacy_def sample_get
        history_ending_at_def read_remote_identity_predecessor_chain_def walk_chain.simps
        sample_heads sample_predecessors max_history_entries_def max_history_bytes_def)
  have deadline: "check_deadline sample_adapter (Some (hash_of 10, 6)) ?d = (Inr (), ?d)"
    by (simp add: check_deadline_def)
  have "put_accepted_identity sample_ext sample_adapter (Some (hash_of 10, 6)) (bytes_hex identity_key)
      identity_key [13] (Some [11]) ?d = (Inr (), sample_node db_upgraded Map.empty
      \<lparr>nd_net := ([(kad_key Identity_kind (bytes_hex identity_key), [13])], Map.empty)\<rparr>)"
    using sample_install [where t = Map.empty] sample_requires_nothing
    by (simp add: put_accepted_identity_def Let_def bindA_cases chain deadline sample_is_multisig
        sample_upgrade_overwrite publish_dht_value_def sample_node_net)
  then show ?thesis
    by (simp add: dht_put_identity_if_current_def put_identity_record_def bindA_cases fromhex_def
        heads check_expected_state_def sample_heads server_history_guard_def sample_is_multisig)
qed

theorem conditional_publish_checked_witness:
  "\<exists>ex. reads_head sample_ext sample_adapter (bytes_hex identity_key) identity_key
       (sample_node db_legacy Map.empty) ex \<and> update_digest sample_ext ex = Some (hash_of 10) \<and>
     published_over sample_ext 6 (bytes_hex identity_key) identity_key [13] (Some ex)
       (\<lambda>A. dht_put_identity_if_current sample_ext A (bytes_hex identity_key) [13]
          (PBytes (hash_of 10)) (PInt 6)) sample_adapter (sample_node db_legacy Map.empty)"
  using conditional_publish_checked [of sample_ext sample_adapter "bytes_hex identity_key" "[13]"
    "hash_of 10" 6 "sample_node db_legacy Map.empty"]
proof (elim disjE exE conjE)
  fix x d'
  assume "\<forall>pv. dht_put_identity_if_current sample_ext (sample_adapter\<lparr>net_put_value := pv\<rparr>)
      (bytes_hex identity_key) [13] (PBytes (hash_of 10)) (PInt 6) (sample_node db_legacy Map.empty) = (Inl x, d')"
  from spec [OF this, of "net_put_value sample_adapter"] sample_conditional_put show ?thesis by simp
next
  fix rk ex
  assume "fromhex_opt (bytes_hex identity_key) = Some rk"
    and "reads_head sample_ext sample_adapter (bytes_hex identity_key) rk (sample_node db_legacy Map.empty) ex"
    and "update_digest sample_ext ex = Some (hash_of 10)"
    and "published_over sample_ext 6 (bytes_hex identity_key) rk [13] (Some ex)
       (\<lambda>A. dht_put_identity_if_current sample_ext A (bytes_hex identity_key) [13]
          (PBytes (hash_of 10)) (PInt 6)) sample_adapter (sample_node db_legacy Map.empty)"
  then show ?thesis by auto
qed

end
