(* ===== verification/Dht_Properties.thy ===== *)
theory Dht_Properties
  imports Dht_Conditional
begin

text \<open>
  The properties of the DHT adapter: the invariant of the durable store over every run of a node,
  what a conditional publication has checked, what reads and confirmations return, and that a
  refused value leaves the durable store alone.
\<close>

subsection \<open>The invariant over a run\<close>

text \<open>
  C13: whatever a node does, the Identity envelopes in its durable store stay validated ones. A
  run is any sequence of client operations and of values and reads that peers send; while an
  operation awaits the network, the hooks for peers run. Each stored multisignature envelope is
  the end of a history that was validated with it, and each stored legacy envelope is valid.
\<close>
theorem node_keeps_identity_store:
  assumes "store_safe A B seq_of" and "network_through_hooks X A" and "node_run X A d d'"
    and "identity_store_ok X B (nd_db d)"
  shows "identity_store_ok X B (nd_db d')"
  using node_run_safe [OF network_safe [OF assms(1,2)] assms(3)] assms(4) by (simp add: safe_def)

text \<open>
  C14: a node never goes back. Over every run the Seq stored for an Identity Record is at the end
  at least what it was at the beginning.
\<close>
theorem node_seq_monotone:
  assumes "store_safe A B seq_of" and "network_through_hooks X A" and "node_run X A d d'"
    and "seq_of (nd_db d) Identity_kind rk = Some m"
  shows "\<exists>m'. seq_of (nd_db d') Identity_kind rk = Some m' \<and> m \<le> m'"
  using node_run_safe [OF network_safe [OF assms(1,2)] assms(3)] assms(4) by (simp add: safe_def)

subsection \<open>Values that are refused\<close>

interpretation same_db: state_order "\<lambda>d d'. nd_db d' = nd_db d"
  by unfold_locales simp_all

lemma same_db_parts:
  "keeps (\<lambda>d d'. nd_db d' = nd_db d) (durable_get A kind k)"
  "keeps (\<lambda>d d'. nd_db d' = nd_db d) (durable_history A kind k)"
  "keeps (\<lambda>d d'. nd_db d' = nd_db d) (on_values m)"
  by (simp_all add: keeps_def durable_get_def durable_history_def on_values_def
      split: option.split prod.split)

lemma same_db_validate: "keeps (\<lambda>d d'. nd_db d' = nd_db d) (validate_dht_record X A pending k e)"
proof -
  have "keeps (\<lambda>d d'. nd_db d' = nd_db d) (hooked_get X A b)" for b
    unfolding hooked_get_def durable_envelope_by_hash_def serve_durable_def Let_def split_beta
    by (auto split: sum.split option.split prod.split kind.split
        intro!: same_db.keeps_intros same_db_parts)
  then show ?thesis
    unfolding validate_dht_record_def split_beta
    by (auto split: option.split prod.split kind.split intro!: same_db.keeps_intros same_db_parts)
qed

text \<open>
  A value that a peer stores and the validator refuses is refused by the write hook: it
  raises, the durable store is untouched, and the value has not reached the value store.
\<close>
lemma refused_value_not_stored:
  assumes "registry_key b = Some (k, kind, rk)" and "ad_store A \<noteq> None"
    and "validate_dht_record X A pending k e d = (Inl x, d1)"
  shows "hooked_put X A False pending b e d = (Inl x, d1) \<and> nd_db d1 = nd_db d"
  using assms keepsD [OF same_db_validate assms(3)]
  by (auto simp: hooked_put_def prepare_durable_acceptance_def bindA_cases)

subsection \<open>Reads\<close>

definition validated_head :: "ext \<Rightarrow> bytes \<Rightarrow> bytes \<Rightarrow> bool" where
  "validated_head X rk e =
     (if is_multisignature_envelope X e
      then \<exists>h s. accepted_history X rk h s \<and> last h = e else legacy_valid X rk e)"

lemma get_validated:
  assumes "validate_identity_get X rk e chain = Inr g"
  shows "validated_head X rk e"
proof (cases "is_multisignature_envelope X e")
  case False
  then show ?thesis using get_entry_ok [OF assms] by (simp add: identity_entry_ok_def validated_head_def)
next
  case True
  show ?thesis
  proof (cases chain)
    case None
    with assms True obtain s where "validate_multisignature_envelope X rk e = Inr s"
      "ms_record_kind s = record_kind_identity"
      by (auto simp: validate_identity_get_def bindE_Inr if_raise_Inr)
    then have "accepted_history X rk [e] s" using lone_wf(4) accepted_history.genesis by blast
    with True show ?thesis by (fastforce simp: validated_head_def)
  next
    case (Some h)
    with assms True show ?thesis
      by (auto simp: validated_head_def validate_identity_get_def bindE_Inr
          require_history_ending_at_def history_iff split: if_splits)
  qed
qed

lemma finish_returns:
  assumes "finish_identity_read X A k rk raw cur chain d = (Inr (Some (e, g)), d')"
  shows "\<exists>used. validate_identity_get X rk e used = Inr g"
proof -
  from assms obtain used d1 where "cur = e"
    "validate_identity_head X A k rk cur chain d = (Inr (Some (g, used)), d1)"
    by (auto simp: finish_identity_read_def bindA_Inr split: option.splits)
  then show ?thesis using identity_head_valid by blast
qed

text \<open>
  C15: a read returns only what has been validated. Whatever the DHT, the peers and the durable
  store hold, an Identity envelope that \<open>get_identity_envelope\<close> returns is the end of an accepted
  history of the record asked for, or a valid legacy envelope of it.
\<close>
theorem read_is_validated:
  assumes "dht_get_identity_envelope X A k q d = (Inr (Some e), d')"
  shows "\<exists>rk. fromhex_opt k = Some rk \<and> validated_head X rk e"
proof -
  from assms obtain g where "get_validated_identity_envelope X A k q d = (Inr (Some (e, g)), d')"
    by (auto simp: dht_get_identity_envelope_def bindA_Inr)
  then obtain rk raw loc d1 where rk: "fromhex k = Inr rk"
    and rest: "(case select_newest_envelope X raw loc of
       Inl _ \<Rightarrow> pureA (Inr None)
     | Inr None \<Rightarrow> pureA (Inr None)
     | Inr (Some cur) \<Rightarrow>
         bindA (durable_history A Identity_kind rk) (\<lambda>history.
         finish_identity_read X A k rk raw cur (history_to_current history loc (Some cur)))) d1 =
       (Inr (Some (e, g)), d')"
    by (auto simp: get_validated_identity_envelope_def bindA_Inr)
  then obtain cur chain d2 where "finish_identity_read X A k rk raw cur chain d2 = (Inr (Some (e, g)), d')"
    by (cases "select_newest_envelope X raw loc") (auto simp: bindA_Inr split: option.splits)
  then obtain used where "validate_identity_get X rk e used = Inr g"
    using finish_returns by blast
  then show ?thesis using rk get_validated by (auto simp: fromhex_Inr)
qed

text \<open>
  C17: an owner-key rotation is confirmed only by independent evidence. When
  \<open>confirm_identity_owner_key_rotation\<close> returns a record, the remote read returned exactly the
  expected envelope, that envelope is the end of an accepted history of the record, its operation
  is a rotation, and the record reports the owner key and Seq of the accepted state.
\<close>
theorem rotation_confirmed_by_peer:
  assumes "dht_confirm_owner_key_rotation X A name v d = (Inr (Some r), d')"
  shows "\<exists>owner_name e d1 h s. fromhex_opt name = Some owner_name \<and> v = PBytes e \<and>
    read_remote_identity_envelope A (bytes_hex (sha256 X owner_name)) d = (Inr (Some e), d1) \<and>
    accepted_history X (sha256 X owner_name) h s \<and> last h = e \<and>
    ir_owner r = ms_owner s \<and> ir_seq r = ms_seq s \<and>
    am_operation (ir_authorization r) = operation_owner_key_rotation"
proof -
  from assms obtain owner_name e d1 history loc chain d2 where
    "fromhex_opt name = Some owner_name" "v = PBytes e"
    "read_remote_identity_envelope A (bytes_hex (sha256 X owner_name)) d = (Inr (Some e), d1)"
    and rest: "(case validate_identity_get X (sha256 X owner_name) e (Some chain) of
        Inr (Got_identity result) \<Rightarrow>
          if ir_owner_name_hex result \<noteq> bytes_hex owner_name \<or>
             am_operation (ir_authorization result) \<noteq> operation_owner_key_rotation
          then pureA (Inr None)
          else bindA (durable_cache X A Identity_kind (sha256 X owner_name) e
                 (view_identity_get (Got_identity result)) (Some chain)) (\<lambda>_.
               pureA (Inr (Some result)))
      | _ \<Rightarrow> pureA (Inr None)) d2 = (Inr (Some r), d')"
    by (auto simp: dht_confirm_owner_key_rotation_def Let_def bindA_Inr wrapE_Inr want_Inr
        fromhex_Inr split: if_splits option.splits)
  moreover from rest have g: "validate_identity_get X (sha256 X owner_name) e (Some chain) =
      Inr (Got_identity r)"
    and "am_operation (ir_authorization r) = operation_owner_key_rotation"
    by (auto simp: bindA_Inr split: sum.splits identity_get.splits if_splits)
  moreover have "\<exists>s. accepted_history X (sha256 X owner_name) chain s \<and> last chain = e \<and>
      ir_owner r = ms_owner s \<and> ir_seq r = ms_seq s"
    using head_reported [OF g] by blast
  ultimately show ?thesis by blast
qed

subsection \<open>Witnesses\<close>

lemma sample_legacy_envelope: "\<exists>sg. decode_signed_envelope sample_ext [11] = Inr ([10], sg) \<and>
  verify_ed25519_signature sample_ext (key 1) [10] sg = Inr True"
  using legacy_sample_decodes [of 10 "identity_update 1 0 None" 11 1] sample_signature_valid [of 1 10 None]
  by (simp add: identity_table_def identity_update_def)

lemma sample_legacy_valid: "legacy_valid sample_ext identity_key [11]"
proof -
  obtain sg where "decode_signed_envelope sample_ext [11] = Inr ([10], sg)"
    "verify_ed25519_signature sample_ext (key 1) [10] sg = Inr True"
    using sample_legacy_envelope by blast
  moreover have "extract_identity_and_keys sample_ext (identity_fields 1) = Inr (identity_key, key 1)"
    by (simp add: extract_identity_and_keys_def identity_fields_def owner_digest)
  ultimately show ?thesis
    by (simp add: legacy_valid_def validate_signed_update_overwrite_def decode_signed_update_strict_def
        sample_decoded_updates identity_update_def validate_identity_update_def enforce_empty)
qed

lemma sample_store_ok: "identity_store_ok sample_ext (lmdb_backend sample_ext map_lmdb) db_legacy"
  unfolding identity_store_ok_def
proof (intro allI impI)
  fix gh rk v hist
  assume "sb_get (lmdb_backend sample_ext map_lmdb) db_legacy Identity_kind rk = Inr (Some v)"
  then have "rk = identity_key \<and> v = [11]"
    by (auto simp: lmdb_backend_def store_get_def map_lmdb_def db_legacy_def put_entry_def kind_db_def
        db0_def split: if_splits)
  then show "identity_entry_ok sample_ext rk v hist"
    using sample_legacy_valid sample_not_multi by (simp add: identity_entry_ok_def)
qed

lemma sample_run:
  "node_run sample_ext sample_adapter (sample_node db_legacy Map.empty)
     (sample_node db_upgraded Map.empty
        \<lparr>nd_net := ([(kad_key Identity_kind (bytes_hex identity_key), [13])], Map.empty)\<rparr>)"
  unfolding node_run_def
  by (rule r_into_rtranclp, rule node_step.put_if_current [OF sample_conditional_put])

theorem node_keeps_identity_store_witness:
  "identity_store_ok sample_ext (lmdb_backend sample_ext map_lmdb) db_upgraded"
  using node_keeps_identity_store [OF sample_store_safe sample_through_hooks sample_run] sample_store_ok
  by (simp add: sample_node_def)

theorem node_seq_monotone_witness:
  "\<exists>m'. stored_seq sample_ext map_lmdb db_upgraded Identity_kind identity_key = Some m' \<and> 0 \<le> m'"
proof -
  have "stored_seq sample_ext map_lmdb db_legacy Identity_kind identity_key = Some 0"
    by (simp add: stored_seq_def map_lmdb_def db_legacy_def put_entry_def kind_db_def current_seq_def
        metadata_seq_def sample_store_entries store_meta_def keys_are_def)
  then show ?thesis
    using node_seq_monotone [OF sample_store_safe sample_through_hooks sample_run,
        where rk = identity_key and m = 0]
    by (simp add: sample_node_def)
qed

lemma sample_key_ascii: "utf8_opt sample_dht_key = Some (map b8 sample_dht_key)"
  by (rule utf8_ascii) code_simp

lemma sample_registry_key: "registry_key (map b8 sample_dht_key) = Some (sample_dht_key, Identity_kind, identity_key)"
  by (simp add: registry_key_def utf8_text_def utf8_string_complete [OF sample_key_ascii])

lemma sample_not_history_key: "\<exists>x. parse_identity_history_key (map b8 sample_dht_key) = Inl x"
  by (simp add: parse_identity_history_key_def Let_def sample_dht_key_def kad_key_def kind_text_def
      lit_def history_prefix_def ascii_bytes_def)

lemma sample_unknown_refused:
  "\<exists>x. validate_dht_record sample_ext sample_adapter None sample_dht_key [99] (sample_node db0 Map.empty) =
     (Inl x, sample_node db0 Map.empty)"
proof -
  let ?d = "sample_node db0 Map.empty"
  have loads: "cbor_loads sample_ext [99] = Inl (Library_error ''CBORDecodeError'')"
    by (simp add: sample_ext_def toy_ext_def identity_table_def provider_table_def store_table_def)
  then have shape: "\<not> is_multisignature_envelope sample_ext [99]"
    and legacy: "\<exists>x. decode_signed_envelope sample_ext [99] = Inl x"
    by (simp_all add: is_multisignature_envelope_def decode_signed_envelope_def)
  have empty: "store_get map_lmdb db0 Identity_kind identity_key = Inr None"
    "store_get_history sample_ext map_lmdb db0 Identity_kind identity_key = Inr None"
    by (simp_all add: store_get_def store_get_history_def map_lmdb_def db0_def)
  obtain y where "parse_identity_history_key (map b8 sample_dht_key) = Inl y"
    using sample_not_history_key by blast
  then have get: "hooked_get sample_ext sample_adapter (map b8 sample_dht_key) ?d = (Inr None, ?d)"
    by (simp add: hooked_get_def sample_registry_key bindA_cases empty sample_node_def on_values_def
        sample_adapter_def [THEN arg_cong [of _ _ vs_get]])
  have "utf8 sample_dht_key = Inr (map b8 sample_dht_key)"
    using sample_key_ascii by (simp add: utf8_def)
  with get legacy show ?thesis
    by (auto simp: validate_dht_record_def bindA_cases server_history_guard_def empty sample_node_def
        select_newest_envelope_def validate_identity_overwrite_def shape Let_def)
qed

lemma refused_value_not_stored_witness:
  "\<exists>x d1. hooked_put sample_ext sample_adapter False None (map b8 sample_dht_key) [99]
     (sample_node db0 Map.empty) = (Inl x, d1) \<and> nd_db d1 = db0"
proof -
  obtain x where "validate_dht_record sample_ext sample_adapter None sample_dht_key [99]
      (sample_node db0 Map.empty) = (Inl x, sample_node db0 Map.empty)"
    using sample_unknown_refused by blast
  with refused_value_not_stored [OF sample_registry_key _ this] show ?thesis
    by (auto simp: sample_node_def)
qed

lemma sample_identity_get:
  "\<exists>r. validate_identity_get sample_ext identity_key [13] (Some [[11], [13]]) = Inr (Got_identity r)"
  using accepted_history.upgrade [OF sample_anchor sample_upgrade]
  by (simp add: validate_identity_get_def sample_is_multisig require_history_ending_at_def history_iff
      [symmetric])
    (simp add: identity_state_def sample_updates_of_states field_bytes_def dsub_def
      identity_update_def metadata_from_state_def wire_constants history_iff [symmetric])

lemma sample_read:
  "\<exists>d'. dht_get_identity_envelope sample_ext sample_adapter (bytes_hex identity_key) 0
     (sample_node db_upgraded Map.empty) = (Inr (Some [13]), d')"
proof -
  let ?d = "sample_node db_upgraded Map.empty"
  obtain r where r: "validate_identity_get sample_ext identity_key [13] (Some [[11], [13]]) =
      Inr (Got_identity r)"
    using sample_identity_get by blast
  have "read_remote_identity_envelope sample_adapter (bytes_hex identity_key) ?d = (Inr None, ?d)"
    by (simp add: read_remote_identity_envelope_def fromhex_def bindA_cases sample_node_def
        peer_bytes_def tryA_cases served_def)
  moreover have "finish_identity_read sample_ext sample_adapter (bytes_hex identity_key) identity_key
      None [13] (Some [[11], [13]]) ?d = (Inr (Some ([13], Got_identity r)), ?d)"
    by (simp add: finish_identity_read_def validate_identity_head_def r)
  ultimately show ?thesis
    by (simp add: dht_get_identity_envelope_def get_validated_identity_envelope_def bindA_cases
        fromhex_def read_dht_value_def tryA_cases sample_node_def db_upgraded_def sample_get
        select_newest_envelope_def sample_decode_history history_to_current_def
        history_ending_at_def)
qed

theorem read_is_validated_witness:
  "\<exists>rk. fromhex_opt (bytes_hex identity_key) = Some rk \<and> validated_head sample_ext rk [13]"
proof -
  obtain d' where "dht_get_identity_envelope sample_ext sample_adapter (bytes_hex identity_key) 0
      (sample_node db_upgraded Map.empty) = (Inr (Some [13]), d')"
    using sample_read by blast
  then show ?thesis by (rule read_is_validated)
qed

text \<open>A rotation that a peer serves back, over the legacy envelope the node has stored.\<close>

definition rotated_peers :: "bytes \<Rightarrow> bytes option" where
  "rotated_peers = [utf8_key (kad_key Identity_kind (bytes_hex identity_key)) \<mapsto> [21]]"

lemma sample_rotation_get:
  "\<exists>r. validate_identity_get sample_ext identity_key [21] (Some [[11], [21]]) = Inr (Got_identity r) \<and>
     ir_owner_name_hex r = bytes_hex [7] \<and> ir_seq r = 1 \<and>
     am_operation (ir_authorization r) = operation_owner_key_rotation \<and>
     am_state_hash (ir_authorization r) = hash_of 20"
proof -
  have u: "decode_multisignature_signed_update sample_ext [20] =
      Inr (identity_update 2 1 (Some (sample_auth 1 5 1 signers_abc (hash_of 10))),
        sample_auth 1 5 1 signers_abc (hash_of 10))"
    using candidate_Inr(3) [OF sample_candidates(5)] by (simp add: sample_candidate_def)
  have "is_multisignature_envelope sample_ext [21]"
    by (rule decoded_is_multisig [OF candidate_Inr(1) [OF sample_candidates(5)]])
  moreover have "validate_multisignature_history sample_ext identity_key [[11], [21]] =
      Inr (identity_state 20 2 1 1 signers_abc [[11], [21]])"
    using accepted_history.rotation [OF sample_anchor sample_rotation_from_legacy]
    by (simp add: history_iff)
  ultimately show ?thesis
    by (simp add: validate_identity_get_def require_history_ending_at_def)
      (simp add: identity_state_def u field_bytes_def dsub_def identity_update_def identity_fields_def
        metadata_from_state_def wire_constants sample_auth_def)
qed

lemma sample_rotation_entries:
  "\<exists>b. cbor_dumps sample_ext (accepted_metadata 1 (hash_of 20)) = Inr b"
  "\<exists>b. cbor_dumps sample_ext (PList (map PBytes [[11], [21]])) = Inr b"
  using sample_roundtrip [of "[55]" "store_meta 1 20"]
    sample_roundtrip [of "[56]" "store_history [[11], [21]]"]
  by (simp_all add: store_table_def cbor_roundtrips_def accepted_metadata_def store_meta_def
      store_history_def)

lemma sample_confirmation:
  "\<exists>r d'. dht_confirm_owner_key_rotation sample_ext sample_adapter [48, 55] (PBytes [21])
     (sample_node db_legacy rotated_peers) = (Inr (Some r), d') \<and> ir_seq r = 1"
proof -
  let ?d = "sample_node db_legacy rotated_peers"
  have name: "fromhex_opt [48, 55] = Some [7]" by code_simp
  have digest: "sha256 sample_ext [7] = identity_key" by (simp add: owner_digest)
  obtain r where r: "validate_identity_get sample_ext identity_key [21] (Some [[11], [21]]) =
      Inr (Got_identity r)" "ir_owner_name_hex r = bytes_hex [7]" "ir_seq r = 1"
    "am_operation (ir_authorization r) = operation_owner_key_rotation"
    "am_state_hash (ir_authorization r) = hash_of 20"
    using sample_rotation_get by blast
  have remote: "read_remote_identity_envelope sample_adapter (bytes_hex identity_key) ?d =
      (Inr (Some [21]), ?d)"
    by (simp add: read_remote_identity_envelope_def fromhex_def bindA_cases sample_node_def
        peer_bytes_def tryA_cases served_def rotated_peers_def)
  have cache: "\<exists>d'. durable_cache sample_ext sample_adapter Identity_kind identity_key [21]
      (view_identity_get (Got_identity r)) (Some [[11], [21]]) ?d = (Inr (), d')"
    using sample_rotation_entries
    by (auto simp: durable_cache_def result_seq_and_state_hash_def r bindA_cases lmdb_backend_def
        on_db_def put_if_newer_def put_if_newer_txn_def check_put_arguments_def
        sample_node_def map_lmdb_def install_def)
  then obtain d' where cache: "durable_cache sample_ext sample_adapter Identity_kind identity_key [21]
      (view_identity_get (Got_identity r)) (Some [[11], [21]]) ?d = (Inr (), d')"
    by blast
  have stored: "store_get map_lmdb (nd_db ?d) Identity_kind identity_key = Inr (Some [11])"
    "store_get_history sample_ext map_lmdb (nd_db ?d) Identity_kind identity_key = Inr None"
    by (simp_all add: sample_node_def db_legacy_def sample_get)
  have chain: "history_to_current None (Some [11]) (Some [21]) = Some [[11], [21]]"
    by (simp add: history_to_current_def history_ending_at_def)
  have "dht_confirm_owner_key_rotation sample_ext sample_adapter [48, 55] (PBytes [21]) ?d =
      (Inr (Some r), d')"
    by (simp add: dht_confirm_owner_key_rotation_def Let_def bindA_cases fromhex_def name digest
        remote stored chain r cache
        cong del: if_weak_cong option.case_cong_weak sum.case_cong_weak prod.case_cong_weak
        del: fromhex_opt.simps sample_digest_numeral view_identity_get.simps)
  with r(3) show ?thesis by blast
qed

theorem rotation_confirmed_by_peer_witness:
  "\<exists>h s. accepted_history sample_ext identity_key h s \<and> last h = [21] \<and> ms_seq s = 1"
proof -
  obtain r d' where "dht_confirm_owner_key_rotation sample_ext sample_adapter [48, 55] (PBytes [21])
      (sample_node db_legacy rotated_peers) = (Inr (Some r), d')" "ir_seq r = 1"
    using sample_confirmation by blast
  moreover have "fromhex_opt [48, 55] = Some [7]" by code_simp
  moreover have "sha256 sample_ext [7] = identity_key" by (simp add: owner_digest)
  ultimately show ?thesis
    using rotation_confirmed_by_peer by (fastforce simp del: fromhex_opt.simps)
qed

end
