(* ===== verification/Dht_Frames.thy ===== *)
theory Dht_Frames
  imports Prelude
begin

text \<open>
  The wire format that \<open>dht/serving_eligibility.py\<close> enforces on Kademlia streams: the varint
  prefix of a frame, the decoder of a whole frame, the scan of a protobuf payload for its type
  field, and the check of a response against its request.

  Third-party code is the parameter \<open>L\<close>: \<open>varint.encode\<close>, the message classes that protobuf
  generates (the fields the code reads are those of \<open>dht_message\<close>), and the decoders of peer ids
  and addresses. All numbers here are non-negative Python integers.
\<close>

subsection \<open>Varint prefixes\<close>

fun varint_prefix_loop :: "bytes \<Rightarrow> nat \<Rightarrow> nat \<Rightarrow> nat \<Rightarrow> (nat \<times> nat) option" where
  "varint_prefix_loop [] index shift value = None"
| "varint_prefix_loop (byte # data) index shift value =
     (let value' = or value (push_bit shift (and (unat byte) 127)) in
      if unat byte < 128 then Some (value', index + 1)
      else varint_prefix_loop data (index + 1) (shift + 7) value')"

definition decode_varint_prefix :: "bytes \<Rightarrow> (nat \<times> nat) option res" where
  "decode_varint_prefix data =
     (case varint_prefix_loop (take 10 data) 0 0 0 of
        Some r \<Rightarrow> Inr (Some r)
      | None \<Rightarrow>
          if length data \<ge> 10 then Inl (Value_error ''malformed DHT varint length'') else Inr None)"

subsection \<open>Messages and the third-party code\<close>

datatype message_type = Put_value | Get_value | Add_provider | Get_providers | Find_node | Ping

text \<open>
  The fields of a parsed \<open>Message\<close> that the code reads: the encoded size, the number of the type,
  the key, the key of the record if there is one, and the ids and addresses of the peers.
\<close>

record dht_message =
  msg_size :: nat
  msg_type :: nat
  msg_key :: bytes
  msg_record :: "bytes option"
  closer_peers :: "(bytes \<times> bytes list) list"
  provider_peers :: "(bytes \<times> bytes list) list"

text \<open>
  \<open>parse_message\<close> is \<open>None\<close> where \<open>ParseFromString\<close> raises \<open>DecodeError\<close>; \<open>decode_peer_id\<close> and
  \<open>parse_multiaddr\<close> are the calls of \<open>multihash.decode\<close> and \<open>Multiaddr\<close>, which are made for their
  exceptions.
\<close>

record dht_lib =
  varint_encode :: "nat \<Rightarrow> bytes"
  type_number :: "message_type \<Rightarrow> nat"
  parse_message :: "bytes \<Rightarrow> dht_message option"
  decode_peer_id :: "bytes \<Rightarrow> unit res"
  parse_multiaddr :: "bytes \<Rightarrow> unit res"

definition valid_types :: "dht_lib \<Rightarrow> nat list" where
  "valid_types L =
     map (type_number L) [Put_value, Get_value, Add_provider, Get_providers, Find_node, Ping]"

subsection \<open>Whole frames\<close>

definition max_dht_message_size :: nat where "max_dht_message_size = 1024 * 1024"

definition read_bounded_dht_frame :: "dht_lib \<Rightarrow> bytes \<Rightarrow> nat \<Rightarrow> bytes res" where
  "read_bounded_dht_frame L frame max_bytes =
     bindE (decode_varint_prefix frame) (\<lambda>decoded.
     case decoded of
       None \<Rightarrow> Inl (Value_error ''truncated DHT frame length'')
     | Some (len, prefix_size) \<Rightarrow>
         if varint_encode L len \<noteq> take prefix_size frame
         then Inl (Value_error ''non-canonical DHT frame length'')
         else if len > max_bytes then Inl (Value_error ''oversize DHT frame'')
         else let payload = drop prefix_size frame in
           if length payload < len then Inl (Value_error ''truncated DHT frame payload'')
           else if length payload \<noteq> len then Inl (Value_error ''trailing bytes after DHT frame'')
           else Inr payload)"

subsection \<open>Responses\<close>

fun check_addresses :: "dht_lib \<Rightarrow> bytes list \<Rightarrow> unit res" where
  "check_addresses L [] = Inr ()"
| "check_addresses L (a # as) = bindE (parse_multiaddr L a) (\<lambda>_. check_addresses L as)"

fun check_peers :: "dht_lib \<Rightarrow> (bytes \<times> bytes list) list \<Rightarrow> unit res" where
  "check_peers L [] = Inr ()"
| "check_peers L ((peer, addrs) # peers) =
     bindE (decode_peer_id L peer) (\<lambda>_.
     bindE (check_addresses L addrs) (\<lambda>_. check_peers L peers))"

definition check_response_key :: "dht_lib \<Rightarrow> dht_message \<Rightarrow> dht_message \<Rightarrow> unit res" where
  "check_response_key L request response =
     (if msg_type request = type_number L Put_value then
        (if msg_record request = None \<or> Some (msg_key response) \<noteq> msg_record request
         then Inl (Value_error ''DHT PUT_VALUE response did not acknowledge the record key'')
         else Inr ())
      else if msg_type request \<in> type_number L ` {Get_value, Add_provider, Get_providers} \<and>
              msg_key response \<noteq> msg_key request
      then Inl (Value_error ''DHT response key does not match request key'')
      else Inr ())"

definition validate_dht_response :: "dht_lib \<Rightarrow> dht_message \<Rightarrow> dht_message \<Rightarrow> unit res" where
  "validate_dht_response L request response =
     (if msg_size response = 0 then Inl (Value_error ''DHT response type is missing'')
      else if msg_type request \<noteq> msg_type response
      then Inl (Value_error ''DHT response type does not match request type'')
      else if msg_type request = type_number L Ping
      then Inl (Value_error ''DHT PING is not serving proof for this implementation'')
      else bindE (check_response_key L request response) (\<lambda>_.
        if msg_type request = type_number L Get_value \<and> msg_record response \<noteq> None \<and>
           msg_record response \<noteq> Some (msg_key request)
        then Inl (Value_error ''DHT value record key does not match request key'')
        else bindE (check_peers L (closer_peers response)) (\<lambda>_.
          check_peers L (provider_peers response))))"

subsection \<open>The scan for the type field\<close>

text \<open>The step over a field that is not the type, from the offset after its key.\<close>

definition skip_field :: "bytes \<Rightarrow> nat \<Rightarrow> nat \<Rightarrow> nat option res" where
  "skip_field payload wire_type offset =
     (if wire_type = 0 then
        bindE (decode_varint_prefix (drop offset payload)) (\<lambda>value.
          Inr (map_option (\<lambda>(_, size). offset + size) value))
      else if wire_type = 1 then Inr (Some (offset + 8))
      else if wire_type = 2 then
        bindE (decode_varint_prefix (drop offset payload)) (\<lambda>len.
          Inr (map_option (\<lambda>(n, size). offset + (size + n)) len))
      else if wire_type = 5 then Inr (Some (offset + 4))
      else Inr None)"

text \<open>What the prefix decoder returns: between one and ten bytes of the data.\<close>

lemma varint_prefix_loop_size:
  "varint_prefix_loop data index shift v0 = Some (v, k) \<Longrightarrow>
     index < k \<and> k \<le> index + length data"
  by (induction data index shift v0 rule: varint_prefix_loop.induct)
    (auto simp: Let_def split: if_splits)

lemma decode_varint_prefix_Some:
  assumes "decode_varint_prefix data = Inr (Some (v, k))"
  shows "0 < k" and "k \<le> 10" and "k \<le> length data"
  using varint_prefix_loop_size [of "take 10 data" 0 0 0 v k] assms
  by (auto simp: decode_varint_prefix_def split: option.splits if_splits)

lemma skip_field_grows: "skip_field payload w offset = Inr (Some n) \<Longrightarrow> offset \<le> n"
  by (auto simp: skip_field_def res_simps split: if_splits)

function scan_fields :: "dht_lib \<Rightarrow> bytes \<Rightarrow> nat \<Rightarrow> bool res" where
  "scan_fields L payload offset =
     (if offset \<ge> length payload then Inr False
      else case decode_varint_prefix (drop offset payload) of
        Inl e \<Rightarrow> Inl e
      | Inr None \<Rightarrow> Inr False
      | Inr (Some (key, key_size)) \<Rightarrow>
          let field_number = drop_bit 3 key; wire_type = and key 7; offset' = offset + key_size in
          if field_number = 1 \<and> wire_type = 0 then
            bindE (decode_varint_prefix (drop offset' payload)) (\<lambda>value.
              Inr (case value of None \<Rightarrow> False | Some (v, _) \<Rightarrow> v \<in> set (valid_types L)))
          else (case skip_field payload wire_type offset' of
              Inl e \<Rightarrow> Inl e
            | Inr None \<Rightarrow> Inr False
            | Inr (Some next_offset) \<Rightarrow>
                if next_offset > length payload then Inr False
                else scan_fields L payload next_offset))"
  by pat_completeness auto
termination
  by (relation "measure (\<lambda>(L, payload, offset). length payload - offset)")
    (auto dest!: skip_field_grows decode_varint_prefix_Some(1))

definition contains_type_field :: "dht_lib \<Rightarrow> bytes \<Rightarrow> bool res" where
  "contains_type_field L payload = scan_fields L payload 0"

declare scan_fields.simps [simp del]

end
