(* ===== verification/Dht_Streams.thy ===== *)
theory Dht_Streams
  imports Complex_Main Dht_Frames Actions
begin

text \<open>
  The stream proxies of \<open>dht/serving_eligibility.py\<close>. \<open>BoundedDHTStream\<close> wraps the client's side of
  a Kademlia exchange: it bounds what is sent and received, and reports a proof when the peer has
  answered a typed request with one complete, valid frame. \<open>BoundedInboundDHTStream\<close> wraps the
  server's side and refuses a frame before its body is read.

  The stream of \<open>libp2p\<close>, the clock and the callbacks act on the rest of the program, a state of
  type \<open>'w\<close>; a method of a proxy is an action on the proxy's fields and that state. Clock readings
  are reals, so the rounding of float sums is not modelled.
\<close>

subsection \<open>Deadlines\<close>

text \<open>
  \<open>io_now\<close> is \<open>trio.current_time()\<close>; \<open>io_read n s\<close> and \<open>io_write data s\<close> are the stream's \<open>read\<close>
  and \<open>write\<close> inside \<open>trio.fail_after(s)\<close>; \<open>io_close\<close> is \<open>close\<close> in a shielded scope.
\<close>

record 'w stream_io =
  io_now :: "'w \<Rightarrow> real \<times> 'w"
  io_read :: "nat \<Rightarrow> real \<Rightarrow> ('w, bytes) act"
  io_write :: "bytes \<Rightarrow> real \<Rightarrow> ('w, unit) act"
  io_close :: "('w, unit) act"

definition max_dht_frame_time :: real where "max_dht_frame_time = 15"

text \<open>The deadline is set at the first operation and bounds the following ones together.\<close>

definition start_deadline :: "'w stream_io \<Rightarrow> real \<Rightarrow> real option \<Rightarrow> 'w \<Rightarrow> real \<times> 'w" where
  "start_deadline io timeout deadline w =
     (case deadline of
        None \<Rightarrow> (case io_now io w of (t, w') \<Rightarrow> (t + timeout, w'))
      | Some t \<Rightarrow> (t, w))"

definition with_deadline ::
  "'w stream_io \<Rightarrow> real \<Rightarrow> string \<Rightarrow> (real \<Rightarrow> ('w, 'a) act) \<Rightarrow> (real option \<times> 'w, 'a) act" where
  "with_deadline io timeout message op = (\<lambda>(deadline, w).
     case start_deadline io timeout deadline w of (t, w1) \<Rightarrow>
     case io_now io w1 of (now, w2) \<Rightarrow>
       if t - now \<le> 0 then (Inl (Timeout_error message), (Some t, w2))
       else case op (t - now) w2 of (r, w3) \<Rightarrow> (r, (Some t, w3)))"

text \<open>\<open>_FrameDeadline.run\<close>: an operation of any kind under a frame's deadline.\<close>

definition frame_deadline_run ::
  "'w stream_io \<Rightarrow> real \<Rightarrow> string \<Rightarrow> (real \<Rightarrow> ('w, 'a) act) \<Rightarrow> (real option \<times> 'w, 'a) act" where
  "frame_deadline_run io timeout message operation = with_deadline io timeout message operation"

subsection \<open>The client's side\<close>

text \<open>
  The arguments of the constructor: the peer's callback \<open>on_valid_response(peer_id)\<close> and, if there
  is one, \<open>validate_response(peer_id, response)\<close>.
\<close>

record 'w stream_config =
  sc_max_bytes :: nat
  sc_timeout :: real
  sc_on_valid :: "('w, unit) act"
  sc_validate :: "(dht_message \<Rightarrow> ('w, bool) act) option"

record client_stream =
  cs_request :: bytes
  cs_message :: "dht_message option"
  cs_prefix :: bytes
  cs_length :: "nat option"
  cs_payload :: bytes
  cs_proof :: bool
  cs_tracking :: bool
  cs_read_deadline :: "real option"
  cs_write_deadline :: "real option"
  cs_written :: nat

definition new_client_stream :: client_stream where
  "new_client_stream =
     \<lparr>cs_request = [], cs_message = None, cs_prefix = [], cs_length = None, cs_payload = [],
      cs_proof = False, cs_tracking = True, cs_read_deadline = None, cs_write_deadline = None,
      cs_written = 0\<rparr>"

definition client_read_with_deadline ::
  "'w stream_io \<Rightarrow> 'w stream_config \<Rightarrow> nat \<Rightarrow> (client_stream \<times> 'w, bytes) act" where
  "client_read_with_deadline io cfg n = (\<lambda>(s, w).
     case with_deadline io (sc_timeout cfg) ''DHT response frame timed out'' (io_read io n)
       (cs_read_deadline s, w) of
     (r, deadline, w') \<Rightarrow> (r, (s\<lparr>cs_read_deadline := deadline\<rparr>, w')))"

definition client_write_with_deadline ::
  "'w stream_io \<Rightarrow> 'w stream_config \<Rightarrow> bytes \<Rightarrow> (client_stream \<times> 'w, unit) act" where
  "client_write_with_deadline io cfg data = (\<lambda>(s, w).
     case with_deadline io (sc_timeout cfg) ''DHT request frame write timed out'' (io_write io data)
       (cs_write_deadline s, w) of
     (r, deadline, w') \<Rightarrow> (r, (s\<lparr>cs_write_deadline := deadline\<rparr>, w')))"

text \<open>A complete request frame: \<open>payload\<close> is everything after its prefix.\<close>

definition observe_request_payload :: "dht_lib \<Rightarrow> bytes \<Rightarrow> (client_stream, unit) act" where
  "observe_request_payload L payload = (\<lambda>s.
     case parse_message L payload of
       None \<Rightarrow> (Inr (), s\<lparr>cs_tracking := False\<rparr>)
     | Some request \<Rightarrow>
         if msg_size request = 0 then (Inr (), s\<lparr>cs_tracking := False\<rparr>)
         else case contains_type_field L payload of
           Inl e \<Rightarrow> (Inl e, s)
         | Inr typed \<Rightarrow>
             (Inr (), if typed then s\<lparr>cs_message := Some request\<rparr> else s\<lparr>cs_tracking := False\<rparr>))"

definition observe_request ::
  "dht_lib \<Rightarrow> 'w stream_config \<Rightarrow> (client_stream, unit) act" where
  "observe_request L cfg = (\<lambda>s.
     case decode_varint_prefix (cs_request s) of
       Inl e \<Rightarrow> (Inl e, s)
     | Inr None \<Rightarrow> (Inr (), s)
     | Inr (Some (len, prefix_size)) \<Rightarrow>
         if varint_encode L len \<noteq> take prefix_size (cs_request s)
         then (Inl (Value_error ''non-canonical outbound DHT frame length''), s)
         else if len = 0 then (Inr (), s\<lparr>cs_tracking := False\<rparr>)
         else if len > sc_max_bytes cfg
         then (Inl (Value_error ''oversize outbound DHT frame''), s)
         else if length (cs_request s) < prefix_size + len then (Inr (), s)
         else if length (cs_request s) \<noteq> prefix_size + len
         then (Inr (), s\<lparr>cs_tracking := False\<rparr>)
         else observe_request_payload L (drop prefix_size (cs_request s)) s)"

definition client_write ::
  "dht_lib \<Rightarrow> 'w stream_io \<Rightarrow> 'w stream_config \<Rightarrow> bytes \<Rightarrow> (client_stream \<times> 'w, unit) act" where
  "client_write L io cfg data = (\<lambda>(s0, w).
     let s = s0\<lparr>cs_written := cs_written s0 + length data\<rparr> in
     if cs_written s > sc_max_bytes cfg + 10
     then (Inl (Value_error ''oversize outbound DHT frame''), (s, w))
     else if cs_tracking s then
       (if length (cs_request s) + length data > sc_max_bytes cfg + 10
        then (Inl (Value_error ''oversize outbound DHT frame''), (s, w))
        else case observe_request L cfg (s\<lparr>cs_request := cs_request s @ data\<rparr>) of
          (Inl e, s') \<Rightarrow> (Inl e, (s', w))
        | (Inr _, s') \<Rightarrow> client_write_with_deadline io cfg data (s', w))
     else client_write_with_deadline io cfg data (s, w))"

text \<open>
  The bytes of the response are collected, first into the prefix, then into the payload; the
  result says whether the length is known.
\<close>

definition collect_response ::
  "dht_lib \<Rightarrow> 'w stream_config \<Rightarrow> bytes \<Rightarrow> (client_stream, bool) act" where
  "collect_response L cfg chunk = (\<lambda>s0.
     case cs_length s0 of
       Some _ \<Rightarrow> (Inr True, s0\<lparr>cs_payload := cs_payload s0 @ chunk\<rparr>)
     | None \<Rightarrow>
         let s = s0\<lparr>cs_prefix := cs_prefix s0 @ chunk\<rparr> in
         case decode_varint_prefix (cs_prefix s) of
           Inl e \<Rightarrow> (Inl e, s)
         | Inr None \<Rightarrow>
             if length (cs_prefix s) > 10
             then (Inl (Value_error ''malformed DHT response length''), s)
             else (Inr False, s)
         | Inr (Some (len, prefix_size)) \<Rightarrow>
             if varint_encode L len \<noteq> take prefix_size (cs_prefix s)
             then (Inl (Value_error ''non-canonical DHT response length''), s)
             else if len > sc_max_bytes cfg
             then (Inl (Value_error ''oversize DHT response''), s)
             else (Inr True, s\<lparr>cs_length := Some len, cs_prefix := [],
                    cs_payload := cs_payload s @ drop prefix_size (cs_prefix s)\<rparr>))"

definition judge_response ::
  "dht_lib \<Rightarrow> 'w stream_config \<Rightarrow> dht_message option \<Rightarrow> bytes \<Rightarrow> ('w, unit) act" where
  "judge_response L cfg request payload =
     mapexcA
       (bindA (pureA (contains_type_field L payload)) (\<lambda>typed.
        if \<not> typed then pureA (Inl (Value_error ''DHT response omitted its message type''))
        else bindA (pureA (getE (Library_error ''DecodeError'') (parse_message L payload))) (\<lambda>response.
          bindA (pureA (getE (Library_error ''AssertionError'') request)) (\<lambda>req.
          bindA (pureA (validate_dht_response L req response)) (\<lambda>_.
          case sc_validate cfg of
            None \<Rightarrow> pureA (Inr ())
          | Some validate \<Rightarrow>
              bindA (validate response) (\<lambda>ok.
              pureA (if ok then Inr ()
                else Inl (Value_error ''DHT response failed signed-record validation''))))))))
       (\<lambda>_. Value_error ''invalid DHT response frame'')"

definition observe_response ::
  "dht_lib \<Rightarrow> 'w stream_config \<Rightarrow> bytes \<Rightarrow> (client_stream \<times> 'w, unit) act" where
  "observe_response L cfg chunk = (\<lambda>(s0, w).
     case collect_response L cfg chunk s0 of
       (Inl e, s) \<Rightarrow> (Inl e, (s, w))
     | (Inr False, s) \<Rightarrow> (Inr (), (s, w))
     | (Inr True, s) \<Rightarrow>
         if length (cs_payload s) > the (cs_length s)
         then (Inl (Value_error ''DHT response exceeds declared frame length''), (s, w))
         else if length (cs_payload s) \<noteq> the (cs_length s) \<or> cs_proof s then (Inr (), (s, w))
         else case judge_response L cfg (cs_message s) (cs_payload s) w of
           (Inl e, w') \<Rightarrow> (Inl e, (s, w'))
         | (Inr _, w') \<Rightarrow>
             (case sc_on_valid cfg w' of (r, w'') \<Rightarrow> (r, (s\<lparr>cs_proof := True\<rparr>, w''))))"

definition client_read ::
  "dht_lib \<Rightarrow> 'w stream_io \<Rightarrow> 'w stream_config \<Rightarrow> int option \<Rightarrow> (client_stream \<times> 'w, bytes) act" where
  "client_read L io cfg n =
     (if n \<noteq> None \<and> the n < 0
      then pureA (Inl (Value_error ''negative DHT stream read length''))
      else if n \<noteq> None \<and> the n > int (sc_max_bytes cfg)
      then pureA (Inl (Value_error ''oversize DHT frame read''))
      else
        let requested = (case n of None \<Rightarrow> sc_max_bytes cfg + 1 | Some m \<Rightarrow> nat m) in
        bindA (client_read_with_deadline io cfg requested) (\<lambda>chunk.
        if length chunk > sc_max_bytes cfg + 1
        then pureA (Inl (Value_error ''oversize DHT frame read''))
        else bindA (\<lambda>(s, w).
            if cs_tracking s \<and> cs_message s \<noteq> None \<and> chunk \<noteq> []
            then observe_response L cfg chunk (s, w) else (Inr (), (s, w))) (\<lambda>_.
          pureA (Inr chunk))))"

definition client_close :: "'w stream_io \<Rightarrow> (client_stream \<times> 'w, unit) act" where
  "client_close io = (\<lambda>(s, w). case io_close io w of (r, w') \<Rightarrow> (r, (s, w')))"

subsection \<open>The server's side\<close>

record server_stream =
  ss_prefix :: bytes
  ss_length :: "nat option"
  ss_payload_read :: nat
  ss_read_deadline :: "real option"
  ss_write_deadline :: "real option"
  ss_written :: nat

definition new_server_stream :: server_stream where
  "new_server_stream =
     \<lparr>ss_prefix = [], ss_length = None, ss_payload_read = 0, ss_read_deadline = None,
      ss_write_deadline = None, ss_written = 0\<rparr>"

definition server_read_with_deadline ::
  "'w stream_io \<Rightarrow> real \<Rightarrow> nat \<Rightarrow> (server_stream \<times> 'w, bytes) act" where
  "server_read_with_deadline io timeout n = (\<lambda>(s, w).
     case with_deadline io timeout ''inbound DHT request frame timed out'' (io_read io n)
       (ss_read_deadline s, w) of
     (r, deadline, w') \<Rightarrow> (r, (s\<lparr>ss_read_deadline := deadline\<rparr>, w')))"

definition server_write_with_deadline ::
  "'w stream_io \<Rightarrow> real \<Rightarrow> bytes \<Rightarrow> (server_stream \<times> 'w, unit) act" where
  "server_write_with_deadline io timeout data = (\<lambda>(s, w).
     case with_deadline io timeout ''inbound DHT response write timed out'' (io_write io data)
       (ss_write_deadline s, w) of
     (r, deadline, w') \<Rightarrow> (r, (s\<lparr>ss_write_deadline := deadline\<rparr>, w')))"

definition server_write ::
  "'w stream_io \<Rightarrow> nat \<Rightarrow> real \<Rightarrow> bytes \<Rightarrow> (server_stream \<times> 'w, unit) act" where
  "server_write io max_bytes timeout data = (\<lambda>(s0, w).
     let s = s0\<lparr>ss_written := ss_written s0 + length data\<rparr> in
     if ss_written s > max_bytes + 10
     then (Inl (Value_error ''oversize inbound DHT response''), (s, w))
     else server_write_with_deadline io timeout data (s, w))"

definition observe_inbound ::
  "dht_lib \<Rightarrow> nat \<Rightarrow> bytes \<Rightarrow> (server_stream, unit) act" where
  "observe_inbound L max_bytes chunk = (\<lambda>s0.
     let exceeds = (\<lambda>s len. if ss_payload_read s > len
       then (Inl (Value_error ''inbound DHT frame exceeds declared length''), s) else (Inr (), s)) in
     case ss_length s0 of
       Some len \<Rightarrow> exceeds (s0\<lparr>ss_payload_read := ss_payload_read s0 + length chunk\<rparr>) len
     | None \<Rightarrow>
         let s = s0\<lparr>ss_prefix := ss_prefix s0 @ chunk\<rparr> in
         case decode_varint_prefix (ss_prefix s) of
           Inl e \<Rightarrow> (Inl e, s)
         | Inr None \<Rightarrow>
             if length (ss_prefix s) \<ge> 10
             then (Inl (Value_error ''malformed inbound DHT frame length''), s)
             else (Inr (), s)
         | Inr (Some (len, prefix_size)) \<Rightarrow>
             if len > max_bytes then (Inl (Value_error ''oversize inbound DHT frame''), s)
             else if varint_encode L len \<noteq> take prefix_size (ss_prefix s)
             then (Inl (Value_error ''non-canonical inbound DHT frame length''), s)
             else exceeds (s\<lparr>ss_length := Some len,
                    ss_payload_read := length (ss_prefix s) - prefix_size\<rparr>) len)"

definition server_read ::
  "dht_lib \<Rightarrow> 'w stream_io \<Rightarrow> nat \<Rightarrow> real \<Rightarrow> int option \<Rightarrow> (server_stream \<times> 'w, bytes) act" where
  "server_read L io max_bytes timeout n =
     (if n \<noteq> None \<and> the n < 0
      then pureA (Inl (Value_error ''negative inbound DHT stream read length''))
      else if n \<noteq> None \<and> the n > int max_bytes
      then pureA (Inl (Value_error ''oversize inbound DHT frame''))
      else
        let requested = (case n of None \<Rightarrow> max_bytes + 11 | Some m \<Rightarrow> nat m) in
        bindA (server_read_with_deadline io timeout requested) (\<lambda>chunk.
        if length chunk > max_bytes + 10
        then pureA (Inl (Value_error ''oversize inbound DHT frame''))
        else bindA (\<lambda>(s, w). case observe_inbound L max_bytes chunk s of (r, s') \<Rightarrow> (r, (s', w)))
          (\<lambda>_. pureA (Inr chunk))))"

definition server_close :: "'w stream_io \<Rightarrow> (server_stream \<times> 'w, unit) act" where
  "server_close io = (\<lambda>(s, w). case io_close io w of (r, w') \<Rightarrow> (r, (s, w')))"

end
