(* ===== verification/Frame_Properties.thy ===== *)
theory Frame_Properties
  imports Dht_Frames
begin

text \<open>
  What the framing of Kademlia streams guarantees: a varint prefix decodes to the number it was
  made from, a frame is accepted exactly when it is the canonical frame of its payload within the
  size limit, and the scan for the type field agrees with the fields that were encoded.
\<close>

subsection \<open>Varints\<close>

text \<open>
  What the format of protobuf says of \<open>varint.encode\<close>: seven bits a byte, the least significant
  first, the top bit set on all bytes but the last.
\<close>

definition varint_law :: "dht_lib \<Rightarrow> bool" where
  "varint_law L = (\<forall>n. varint_encode L n =
     (if n < 128 then [of_nat n]
      else of_nat (n mod 128 + 128) # varint_encode L (n div 128)))"

lemma varint_small: "varint_law L \<Longrightarrow> n < 128 \<Longrightarrow> varint_encode L n = [of_nat n]"
  unfolding varint_law_def by metis

lemma varint_big:
  "varint_law L \<Longrightarrow> 128 \<le> n \<Longrightarrow>
     varint_encode L n = of_nat (n mod 128 + 128) # varint_encode L (n div 128)"
  unfolding varint_law_def by (metis linorder_not_less)

lemma and_127: "and n 127 = n mod 128" for n :: nat
  using take_bit_eq_mask [of 7 n] by (simp add: take_bit_eq_mod mask_eq_exp_minus_1)

lemma or_push_bit:
  fixes v :: nat
  assumes "v < 2 ^ shift"
  shows "or v (push_bit shift n) = v + n * 2 ^ shift"
proof -
  have "and v (push_bit shift n) = 0"
  proof (rule bit_eqI)
    fix i
    have "\<not> bit v i" if "shift \<le> i"
    proof -
      have "v < 2 ^ i" using assms that by (meson less_le_trans power_increasing one_le_numeral)
      then show ?thesis by (simp add: bit_iff_odd)
    qed
    then show "bit (and v (push_bit shift n)) i = bit 0 i"
      by (auto simp: bit_and_iff bit_push_bit_iff)
  qed
  then show ?thesis by (simp add: disjunctive_add_eq_or [symmetric] push_bit_eq_mult)
qed

lemma varint_prefix_encode:
  assumes "varint_law L" and "v < 2 ^ shift"
  shows "varint_prefix_loop (varint_encode L n @ rest) i shift v =
    Some (v + n * 2 ^ shift, i + length (varint_encode L n))"
  using assms(2)
proof (induction n arbitrary: i shift v rule: less_induct)
  case (less n)
  show ?case
  proof (cases "n < 128")
    case True
    then show ?thesis
      using less.prems
      by (simp add: varint_small [OF assms(1)] Let_def and_127 or_push_bit unat_of_nat)
  next
    case False
    define m where "m = n mod 128"
    have m: "m < 128" "n = m + n div 128 * 128" by (auto simp: m_def)
    have byte: "unat (of_nat (m + 128) :: 8 word) = m + 128"
      using m(1) by (simp add: unat_of_nat del: of_nat_add)
    have bound: "v + m * 2 ^ shift < 2 ^ (shift + 7)"
    proof -
      have "m * 2 ^ shift \<le> 127 * 2 ^ shift" using m(1) by (intro mult_le_mono1) simp
      moreover have "2 ^ (shift + 7) = 127 * 2 ^ shift + (2 ^ shift :: nat)"
        by (simp add: power_add)
      ultimately show ?thesis using less.prems by linarith
    qed
    have "varint_prefix_loop (varint_encode L n @ rest) i shift v =
        varint_prefix_loop (varint_encode L (n div 128) @ rest) (i + 1) (shift + 7)
          (v + m * 2 ^ shift)"
      using False less.prems
      by (simp add: varint_big [OF assms(1)] Let_def and_127 or_push_bit byte m_def [symmetric]
          del: of_nat_add)
        (simp add: m_def)
    also have "\<dots> = Some (v + m * 2 ^ shift + n div 128 * 2 ^ (shift + 7),
        i + 1 + length (varint_encode L (n div 128)))"
      using less.IH [OF _ bound] False by simp
    also have "v + m * 2 ^ shift + n div 128 * 2 ^ (shift + 7) = v + n * 2 ^ shift"
      by (subst (2) m(2)) (simp add: power_add algebra_simps)
    finally show ?thesis using False by (simp add: varint_big [OF assms(1)])
  qed
qed

lemma varint_length:
  assumes "varint_law L"
  shows "n < 128 ^ Suc k \<Longrightarrow> length (varint_encode L n) \<le> Suc k"
proof (induction k arbitrary: n)
  case 0
  then show ?case by (simp add: varint_small [OF assms])
next
  case (Suc k)
  show ?case
  proof (cases "n < 128")
    case False
    have "n div 128 < 128 ^ Suc k" using Suc.prems by (simp add: less_mult_imp_div_less)
    with Suc.IH False show ?thesis by (simp add: varint_big [OF assms])
  qed (simp add: varint_small [OF assms])
qed

lemma decode_varint_encode:
  assumes "varint_law L" and "n < 2 ^ 70"
  shows "decode_varint_prefix (varint_encode L n @ rest) =
    Inr (Some (n, length (varint_encode L n)))"
proof -
  have "length (varint_encode L n) \<le> 10"
    using varint_length [OF assms(1), of n 9] assms(2) by simp
  then have "take 10 (varint_encode L n @ rest) =
      varint_encode L n @ take (10 - length (varint_encode L n)) rest"
    by simp
  then show ?thesis
    using varint_prefix_encode [OF assms(1), of 0 0 n "take (10 - length (varint_encode L n)) rest" 0]
    by (simp only: decode_varint_prefix_def) simp
qed

text \<open>
  C29: a frame is accepted exactly when it is the canonical frame of its payload. The decoder
  returns a payload only for the varint of its length followed by the payload itself, nothing
  missing and nothing after it, and only up to the size limit; and it returns every such payload.
\<close>
theorem frame_roundtrip:
  assumes "varint_law L" and "max_bytes < 2 ^ 70"
  shows "(read_bounded_dht_frame L frame max_bytes = Inr payload) =
    (frame = varint_encode L (length payload) @ payload \<and> length payload \<le> max_bytes)"
proof
  assume "read_bounded_dht_frame L frame max_bytes = Inr payload"
  then obtain k where "decode_varint_prefix frame = Inr (Some (length payload, k))"
      "varint_encode L (length payload) = take k frame" "drop k frame = payload"
      "length payload \<le> max_bytes"
    by (auto simp: read_bounded_dht_frame_def res_simps Let_def split: option.splits)
  then show "frame = varint_encode L (length payload) @ payload \<and> length payload \<le> max_bytes"
    by (metis append_take_drop_id)
next
  assume "frame = varint_encode L (length payload) @ payload \<and> length payload \<le> max_bytes"
  then show "read_bounded_dht_frame L frame max_bytes = Inr payload"
    using assms by (simp add: read_bounded_dht_frame_def decode_varint_encode)
qed

subsection \<open>The type field\<close>

text \<open>
  The protobuf wire format as far as the scan reads it: a field is its number with the encoding
  of a value, of eight or four bytes, or of a length and that many bytes.
\<close>

datatype wire_field =
    Varint_field nat nat
  | Fixed64_field nat bytes
  | Bytes_field nat bytes
  | Fixed32_field nat bytes

fun field_bytes :: "dht_lib \<Rightarrow> wire_field \<Rightarrow> bytes" where
  "field_bytes L (Varint_field n v) = varint_encode L (8 * n) @ varint_encode L v"
| "field_bytes L (Fixed64_field n b) = varint_encode L (8 * n + 1) @ b"
| "field_bytes L (Bytes_field n b) =
     varint_encode L (8 * n + 2) @ varint_encode L (length b) @ b"
| "field_bytes L (Fixed32_field n b) = varint_encode L (8 * n + 5) @ b"

fun wf_field :: "wire_field \<Rightarrow> bool" where
  "wf_field (Varint_field n v) = (8 * n + 7 < 2 ^ 70 \<and> v < 2 ^ 70)"
| "wf_field (Fixed64_field n b) = (8 * n + 7 < 2 ^ 70 \<and> length b = 8)"
| "wf_field (Bytes_field n b) = (8 * n + 7 < 2 ^ 70 \<and> length b < 2 ^ 70)"
| "wf_field (Fixed32_field n b) = (8 * n + 7 < 2 ^ 70 \<and> length b = 4)"

fun type_value :: "wire_field list \<Rightarrow> nat option" where
  "type_value [] = None"
| "type_value (Varint_field n v # fs) = (if n = 1 then Some v else type_value fs)"
| "type_value (_ # fs) = type_value fs"

lemma and_7: "and n 7 = n mod 8" for n :: nat
  using take_bit_eq_mask [of 3 n] by (simp add: take_bit_eq_mod mask_eq_exp_minus_1)

lemma key_fields:
  fixes n w :: nat
  assumes "w < 8"
  shows "drop_bit 3 (8 * n + w) = n" and "and (8 * n + w) 7 = w"
  using assms by (simp_all add: drop_bit_eq_div and_7)

lemma key_fields_0 [simp]: "drop_bit 3 (8 * n) = n" "and (8 * n) 7 = 0" for n :: nat
  using key_fields [of 0 n] by simp_all

lemma varint_nonempty: "varint_law L \<Longrightarrow> varint_encode L n \<noteq> []"
  by (cases "n < 128") (simp_all add: varint_small varint_big)

lemma drop_after: "drop i xs = a @ b \<Longrightarrow> drop (i + length a) xs = b"
  by (metis add.commute append_eq_conv_conj drop_drop)

lemma scan_at_end [simp]: "length payload \<le> offset \<Longrightarrow> scan_fields L payload offset = Inr False"
  by (simp add: scan_fields.simps)

text \<open>One step of the scan at the key of a field.\<close>

lemma scan_key:
  assumes L: "varint_law L" and "w < 8" and "8 * n + 7 < 2 ^ 70"
    and at: "drop offset payload = varint_encode L (8 * n + w) @ rest"
  shows "scan_fields L payload offset =
    (let offset' = offset + length (varint_encode L (8 * n + w)) in
     if n = 1 \<and> w = 0 then
       bindE (decode_varint_prefix rest) (\<lambda>value.
         Inr (case value of None \<Rightarrow> False | Some (v, _) \<Rightarrow> v \<in> set (valid_types L)))
     else (case skip_field payload w offset' of
         Inl e \<Rightarrow> Inl e
       | Inr None \<Rightarrow> Inr False
       | Inr (Some next_offset) \<Rightarrow>
           if next_offset > length payload then Inr False
           else scan_fields L payload next_offset))"
proof -
  have "offset < length payload"
    using at varint_nonempty [OF L] by (metis append_is_Nil_conv drop_eq_Nil linorder_not_less)
  moreover have "decode_varint_prefix (drop offset payload) =
      Inr (Some (8 * n + w, length (varint_encode L (8 * n + w))))"
    unfolding at using assms(2,3) by (intro decode_varint_encode [OF L]) simp
  moreover have "drop (offset + length (varint_encode L (8 * n + w))) payload = rest"
    by (rule drop_after [OF at])
  ultimately show ?thesis
    by (subst scan_fields.simps) (auto simp: Let_def key_fields [OF assms(2)])
qed

lemma scan_field:
  assumes L: "varint_law L" and "wf_field f" and "drop offset payload = field_bytes L f @ rest"
    and "type_value [f] = None"
  shows "scan_fields L payload offset = scan_fields L payload (offset + length (field_bytes L f))"
proof -
  have "length (drop offset payload) = length (field_bytes L f @ rest)"
    using assms(3) by simp
  moreover have "field_bytes L f \<noteq> []"
    by (cases f) (simp_all add: varint_nonempty [OF L])
  then have "0 < length (field_bytes L f)" by simp
  ultimately have fit: "offset + length (field_bytes L f) \<le> length payload"
    unfolding length_drop length_append by linarith
  show ?thesis
  proof (cases f)
    case (Varint_field n v)
    let ?k = "varint_encode L (8 * n)"
    have at: "drop offset payload = varint_encode L (8 * n + 0) @ varint_encode L v @ rest"
      using assms(3) Varint_field by simp
    have "decode_varint_prefix (drop (offset + length ?k) payload) =
        Inr (Some (v, length (varint_encode L v)))"
      using drop_after [OF at] assms(2) Varint_field by (simp add: decode_varint_encode [OF L])
    then show ?thesis
      using scan_key [OF L _ _ at] assms(2,4) fit Varint_field
      by (simp add: skip_field_def Let_def add.assoc split: if_splits)
  next
    case (Fixed64_field n b)
    then show ?thesis
      using scan_key [OF L, of 1 n offset payload "b @ rest"] assms(2,3) fit
      by (simp add: skip_field_def Let_def add.assoc)
  next
    case (Bytes_field n b)
    let ?k = "varint_encode L (8 * n + 2)"
    have at: "drop offset payload = ?k @ varint_encode L (length b) @ b @ rest"
      using assms(3) Bytes_field by simp
    have "decode_varint_prefix (drop (offset + length ?k) payload) =
        Inr (Some (length b, length (varint_encode L (length b))))"
      using drop_after [OF at] assms(2) Bytes_field by (simp add: decode_varint_encode [OF L])
    then show ?thesis
      using scan_key [OF L _ _ at] assms(2) fit Bytes_field
      by (simp add: skip_field_def Let_def add.assoc)
  next
    case (Fixed32_field n b)
    then show ?thesis
      using scan_key [OF L, of 5 n offset payload "b @ rest"] assms(2,3) fit
      by (simp add: skip_field_def Let_def add.assoc)
  qed
qed

lemma scan_fields_concat:
  assumes L: "varint_law L"
  shows "list_all wf_field fs \<Longrightarrow> drop offset payload = concat (map (field_bytes L) fs) \<Longrightarrow>
    scan_fields L payload offset =
      Inr (case type_value fs of None \<Rightarrow> False | Some v \<Rightarrow> v \<in> set (valid_types L))"
proof (induction fs arbitrary: offset)
  case Nil
  then show ?case by simp
next
  case (Cons f fs)
  show ?case
  proof (cases "type_value [f]")
    case None
    have "drop (offset + length (field_bytes L f)) payload = concat (map (field_bytes L) fs)"
      using Cons.prems(2) by (simp add: drop_after)
    then have "scan_fields L payload (offset + length (field_bytes L f)) =
        Inr (case type_value fs of None \<Rightarrow> False | Some v \<Rightarrow> v \<in> set (valid_types L))"
      using Cons by simp
    moreover have "type_value (f # fs) = type_value fs"
      using None by (cases f) (auto split: if_splits)
    ultimately show ?thesis
      using scan_field [OF L, of f offset payload "concat (map (field_bytes L) fs)"] Cons.prems None
      by simp
  next
    case (Some v)
    then have f: "f = Varint_field 1 v" by (cases f) (auto split: if_splits)
    have at: "drop offset payload =
        varint_encode L (8 * 1 + 0) @ varint_encode L v @ concat (map (field_bytes L) fs)"
      using Cons.prems(2) f by simp
    show ?thesis
      using scan_key [OF L _ _ at] Cons.prems(1) f by (simp add: decode_varint_encode [OF L])
  qed
qed

text \<open>
  C30: the scan for the type field agrees with the fields of the message. On a payload that is the
  encoding of any list of protobuf fields, it answers whether the first varint field with number
  1 exists and holds one of the six message types; fields of other numbers and wire types before
  it are skipped over exactly.
\<close>
theorem scan_finds_type:
  assumes "varint_law L" and "list_all wf_field fs"
  shows "contains_type_field L (concat (map (field_bytes L) fs)) =
    Inr (case type_value fs of None \<Rightarrow> False | Some v \<Rightarrow> v \<in> set (valid_types L))"
  using scan_fields_concat [OF assms(1), of fs 0] assms(2) by (simp add: contains_type_field_def)

end
