(* ===== verification/Stream_Properties.thy ===== *)
theory Stream_Properties
  imports Dht_Streams Frame_Properties "HOL-Library.Sublist"
begin

text \<open>
  What the stream proxies guarantee over any sequence of reads and writes: a proof is reported
  only for a complete exchange of one request frame and one response frame, both of which the
  decoder of whole frames accepts; and the server's side never hands its handler more than one
  frame within the limit.
\<close>

subsection \<open>Prefixes of frames\<close>

lemma varint_prefix_loop_append:
  "varint_prefix_loop data i shift v0 = Some r \<Longrightarrow>
     varint_prefix_loop (data @ rest) i shift v0 = Some r"
  by (induction data i shift v0 rule: varint_prefix_loop.induct) (auto simp: Let_def)

lemma decode_varint_append:
  assumes "decode_varint_prefix data = Inr (Some r)"
  shows "decode_varint_prefix (data @ rest) = Inr (Some r)"
proof -
  have "varint_prefix_loop (take 10 data) 0 0 0 = Some r"
    using assms by (auto simp: decode_varint_prefix_def split: option.splits if_splits)
  then have "varint_prefix_loop (take 10 (data @ rest)) 0 0 0 = Some r"
    by (simp only: take_append varint_prefix_loop_append)
  then show ?thesis by (simp only: decode_varint_prefix_def option.case)
qed

lemma decode_varint_None_short:
  "decode_varint_prefix data = Inr None \<Longrightarrow> length data < 10"
  by (auto simp: decode_varint_prefix_def split: option.splits if_splits)

text \<open>
  \<open>begins L max data len k\<close>: the data begins with the canonical prefix of a frame, \<open>k\<close> bytes for
  the length \<open>len\<close>. The proxies read exactly what \<open>read_bounded_dht_frame\<close> reads.
\<close>

definition begins :: "dht_lib \<Rightarrow> nat \<Rightarrow> bytes \<Rightarrow> nat \<Rightarrow> nat \<Rightarrow> bool" where
  "begins L max_bytes data len k =
     (decode_varint_prefix data = Inr (Some (len, k)) \<and> varint_encode L len = take k data \<and>
      len \<le> max_bytes)"

lemma begins_append: "begins L m data len k \<Longrightarrow> begins L m (data @ rest) len k"
  by (auto simp: begins_def decode_varint_append dest: decode_varint_prefix_Some(3))

lemma begins_length: "begins L m data len k \<Longrightarrow> k \<le> length data"
  by (auto simp: begins_def dest: decode_varint_prefix_Some(3))

lemma begins_complete:
  "begins L m data len k \<Longrightarrow> length data = k + len \<Longrightarrow>
     read_bounded_dht_frame L data m = Inr (drop k data)"
  by (auto simp: begins_def read_bounded_dht_frame_def Let_def)

lemma begins_unique: "begins L m data len k \<Longrightarrow> begins L m data len' k' \<Longrightarrow> len' = len \<and> k' = k"
  by (auto simp: begins_def)

lemma decode_None_begins: "decode_varint_prefix data = Inr None \<Longrightarrow> \<not> begins L m data len k"
  by (simp add: begins_def)

subsection \<open>The client's side\<close>

text \<open>What makes a payload a request that can be proved, and a reply that proves it.\<close>

definition is_request :: "dht_lib \<Rightarrow> bytes \<Rightarrow> dht_message \<Rightarrow> bool" where
  "is_request L p request =
     (parse_message L p = Some request \<and> contains_type_field L p = Inr True)"

definition is_reply :: "dht_lib \<Rightarrow> 'w stream_config \<Rightarrow> dht_message \<Rightarrow> bytes \<Rightarrow> bool" where
  "is_reply L cfg request q =
     (contains_type_field L q = Inr True \<and>
      (\<exists>response. parse_message L q = Some response \<and>
        validate_dht_response L request response = Inr () \<and>
        (\<forall>v. sc_validate cfg = Some v \<longrightarrow> (\<exists>w w'. v response w = (Inr True, w')))))"

lemma judge_response_Inr:
  assumes "judge_response L cfg (Some request) q w = (Inr (), w')"
  shows "is_reply L cfg request q"
  using assms
  by (auto simp: judge_response_def mapexcA_cases is_reply_def bindA_Inr getE_Inr
      split: sum.splits prod.splits option.splits if_splits)

text \<open>
  The invariant: \<open>ws\<close> is what was written and \<open>rs\<close> what was read so far, \<open>obs\<close> the part of it in
  which the response is looked for.
\<close>

definition request_seen ::
  "dht_lib \<Rightarrow> 'w stream_config \<Rightarrow> client_stream \<Rightarrow> bytes \<Rightarrow> bool" where
  "request_seen L cfg s ws =
     ((cs_tracking s \<longrightarrow> cs_request s = ws) \<and>
      (\<forall>request. cs_message s = Some request \<longrightarrow>
         (\<exists>frame p. prefix frame ws \<and> read_bounded_dht_frame L frame (sc_max_bytes cfg) = Inr p \<and>
            is_request L p request \<and> (cs_tracking s \<longrightarrow> frame = ws))))"

definition response_part ::
  "dht_lib \<Rightarrow> 'w stream_config \<Rightarrow> dht_message option \<Rightarrow> nat option \<Rightarrow> bytes \<Rightarrow> bytes \<Rightarrow> bool \<Rightarrow>
   bytes \<Rightarrow> bool" where
  "response_part L cfg message len partial_prefix payload proof_recorded obs =
     (case len of
        None \<Rightarrow> partial_prefix = obs \<and> payload = [] \<and> \<not> proof_recorded
      | Some n \<Rightarrow> \<exists>k. begins L (sc_max_bytes cfg) obs n k \<and> drop k obs = payload \<and>
          (proof_recorded \<longrightarrow> length payload = n \<and>
             (\<exists>request. message = Some request \<and> is_reply L cfg request payload)))"

definition response_seen ::
  "dht_lib \<Rightarrow> 'w stream_config \<Rightarrow> client_stream \<Rightarrow> bytes \<Rightarrow> bool" where
  "response_seen L cfg s rs =
     (\<exists>before obs after. rs = before @ obs @ after \<and>
        (cs_message s = None \<longrightarrow> obs = [] \<and> after = []) \<and> (cs_tracking s \<longrightarrow> after = []) \<and>
        response_part L cfg (cs_message s) (cs_length s) (cs_prefix s) (cs_payload s)
          (cs_proof s) obs)"

lemma response_seenI:
  assumes "rs = before @ obs @ after" and "cs_message s = None \<Longrightarrow> obs = [] \<and> after = []"
    and "cs_tracking s \<Longrightarrow> after = []"
    and "response_part L cfg (cs_message s) (cs_length s) (cs_prefix s) (cs_payload s) (cs_proof s) obs"
  shows "response_seen L cfg s rs"
  unfolding response_seen_def
  by (intro exI [of _ before] exI [of _ obs] exI [of _ "after"] conjI impI) (use assms in simp_all)

lemma response_seenE:
  assumes "response_seen L cfg s rs"
  obtains before obs "after" where "rs = before @ obs @ after"
    and "cs_message s = None \<Longrightarrow> obs = [] \<and> after = []" and "cs_tracking s \<Longrightarrow> after = []"
    and "response_part L cfg (cs_message s) (cs_length s) (cs_prefix s) (cs_payload s) (cs_proof s) obs"
  using assms unfolding response_seen_def by (elim exE conjE) (rule that, simp_all)

inductive client_run ::
  "dht_lib \<Rightarrow> 'w stream_io \<Rightarrow> 'w stream_config \<Rightarrow> client_stream \<Rightarrow> bytes \<Rightarrow> bytes \<Rightarrow> bool"
  for L io cfg where
  fresh: "client_run L io cfg new_client_stream [] []"
| wrote: "client_run L io cfg s ws rs \<Longrightarrow> client_write L io cfg data (s, w) = (Inr (), (s', w')) \<Longrightarrow>
     client_run L io cfg s' (ws @ data) rs"
| got: "client_run L io cfg s ws rs \<Longrightarrow> client_read L io cfg n (s, w) = (Inr chunk, (s', w')) \<Longrightarrow>
     client_run L io cfg s' ws (rs @ chunk)"

inductive_cases client_runE: "client_run L io cfg s ws rs"

text \<open>The fields the deadlines and counters do not touch.\<close>

definition same_exchange :: "client_stream \<Rightarrow> client_stream \<Rightarrow> bool" where
  "same_exchange s s' =
     (cs_request s' = cs_request s \<and> cs_message s' = cs_message s \<and> cs_prefix s' = cs_prefix s \<and>
      cs_length s' = cs_length s \<and> cs_payload s' = cs_payload s \<and> cs_proof s' = cs_proof s \<and>
      cs_tracking s' = cs_tracking s)"

lemma same_exchange_seen:
  assumes "same_exchange s s'"
  shows "request_seen L cfg s' ws = request_seen L cfg s ws"
    and "response_seen L cfg s' rs = response_seen L cfg s rs"
  using assms
  by (simp_all add: same_exchange_def request_seen_def response_seen_def)

lemma deadlines_same_exchange:
  "client_write_with_deadline io cfg data (s, w) = (r, (s', w')) \<Longrightarrow> same_exchange s s'"
  "client_read_with_deadline io cfg n (s, w) = (r', (s', w')) \<Longrightarrow> same_exchange s s'"
  by (auto simp: client_write_with_deadline_def client_read_with_deadline_def same_exchange_def
      split: prod.splits)

lemma frame_begins:
  assumes "read_bounded_dht_frame L frame m = Inr p"
  obtains k where "begins L m frame (length p) k" and "length frame = k + length p"
    and "p = drop k frame"
proof -
  obtain k where k: "decode_varint_prefix frame = Inr (Some (length p, k))"
      "varint_encode L (length p) = take k frame" "drop k frame = p" "length p \<le> m"
    using assms
    by (auto simp: read_bounded_dht_frame_def res_simps Let_def split: option.splits)
  have "length frame = k + length p"
    using decode_varint_prefix_Some(3) [OF k(1)] arg_cong [OF k(3), of length] by simp
  moreover have "begins L m frame (length p) k" using k(1,2,4) by (simp only: begins_def)
  ultimately show ?thesis using k(3) [symmetric] by (intro that)
qed

lemma frame_prefix_unique:
  assumes "read_bounded_dht_frame L f m = Inr p" and "read_bounded_dht_frame L f' m = Inr p'"
    and "prefix f f'"
  shows "f' = f" and "p' = p"
proof -
  obtain k where k: "begins L m f (length p) k" "length f = k + length p"
    using assms(1) by (rule frame_begins)
  obtain k' where k': "begins L m f' (length p') k'" "length f' = k' + length p'"
    using assms(2) by (rule frame_begins)
  obtain g where g: "f' = f @ g" using assms(3) by (auto simp: prefix_def)
  have "length p' = length p \<and> k' = k"
    using begins_unique [OF begins_append [OF k(1)] k'(1) [unfolded g]] .
  with k(2) k'(2) g show "f' = f" by simp
  with assms(1,2) show "p' = p" by simp
qed

lemma no_frame_yet:
  assumes "decode_varint_prefix data = Inr None \<or>
      (\<exists>len k. begins L m data len k \<and> length data < k + len)"
    and "prefix f data"
  shows "read_bounded_dht_frame L f m \<noteq> Inr p"
proof
  assume "read_bounded_dht_frame L f m = Inr p"
  then obtain k where k: "begins L m f (length p) k" "length f = k + length p"
    by (rule frame_begins)
  obtain g where g: "data = f @ g" using assms(2) by (auto simp: prefix_def)
  have "begins L m data (length p) k" using begins_append [OF k(1)] g by simp
  then obtain len k' where "begins L m data len k'" "length data < k' + len"
    using assms(1) decode_None_begins by blast
  with begins_unique [OF \<open>begins L m data (length p) k\<close>] k(2) g show False by auto
qed

lemma observe_request_cases:
  assumes "observe_request L cfg s = (Inr (), s')"
  shows "s' = s\<lparr>cs_tracking := False\<rparr> \<or>
    s' = s \<and> (\<forall>f p. prefix f (cs_request s) \<longrightarrow>
      read_bounded_dht_frame L f (sc_max_bytes cfg) \<noteq> Inr p) \<or>
    (\<exists>p request. read_bounded_dht_frame L (cs_request s) (sc_max_bytes cfg) = Inr p \<and>
      is_request L p request \<and> s' = s\<lparr>cs_message := Some request\<rparr>)"
proof (cases "decode_varint_prefix (cs_request s) = Inr None")
  case True
  then show ?thesis
    using assms no_frame_yet [of "cs_request s" L "sc_max_bytes cfg"]
    by (auto simp: observe_request_def)
next
  case False
  then obtain len k where d: "decode_varint_prefix (cs_request s) = Inr (Some (len, k))"
    using assms by (auto simp: observe_request_def split: sum.splits option.splits)
  have canonical: "varint_encode L len = take k (cs_request s)"
    using assms d by (auto simp: observe_request_def split: if_splits)
  consider "s' = s\<lparr>cs_tracking := False\<rparr>"
    | "len \<le> sc_max_bytes cfg" "length (cs_request s) < k + len" "s' = s"
    | "len \<le> sc_max_bytes cfg" "length (cs_request s) = k + len"
      "observe_request_payload L (drop k (cs_request s)) s = (Inr (), s')"
    using assms d canonical
    by (simp add: observe_request_def split: if_splits)
  then show ?thesis
  proof cases
    case 2
    then show ?thesis
      using no_frame_yet [of "cs_request s" L "sc_max_bytes cfg"] d canonical
      by (auto simp: begins_def)
  next
    case 3
    then have "begins L (sc_max_bytes cfg) (cs_request s) len k"
      using d canonical by (simp add: begins_def)
    from begins_complete [OF this 3(2)] show ?thesis
      using 3(3)
      by (auto simp: observe_request_payload_def is_request_def
          split: option.splits sum.splits if_splits)
  qed simp
qed

lemma response_seen_untracked:
  "response_seen L cfg s rs \<Longrightarrow> response_seen L cfg (s\<lparr>cs_tracking := False\<rparr>) rs"
  by (erule response_seenE, rule response_seenI) auto

lemma response_seen_message:
  assumes "response_seen L cfg s rs" and "cs_message s = None \<or> cs_message s = Some request"
  shows "response_seen L cfg (s\<lparr>cs_message := Some request\<rparr>) rs"
proof -
  obtain before obs "after" where rs: "rs = before @ obs @ after" "cs_tracking s \<longrightarrow> after = []"
      and part: "response_part L cfg (cs_message s) (cs_length s) (cs_prefix s) (cs_payload s)
        (cs_proof s) obs"
    using assms(1) by (auto simp: response_seen_def)
  have "response_part L cfg (Some request) (cs_length s) (cs_prefix s) (cs_payload s)
      (cs_proof s) obs"
    using part assms(2) by (auto simp: response_part_def split: option.splits)
  with rs show ?thesis by (auto simp: response_seen_def)
qed

text \<open>A request that is already known is found again, whatever is written after it.\<close>

lemma request_known_again:
  assumes "request_seen L cfg s ws" and "cs_tracking s" and "cs_message s = Some request'"
    and "read_bounded_dht_frame L (ws @ data) (sc_max_bytes cfg) = Inr p" and "is_request L p request"
  shows "request' = request"
proof -
  obtain p' where p': "read_bounded_dht_frame L ws (sc_max_bytes cfg) = Inr p'" "is_request L p' request'"
    using assms(1-3) by (auto simp: request_seen_def)
  have "p = p'" using frame_prefix_unique(2) [OF p'(1) assms(4)] by simp
  with p'(2) assms(5) show ?thesis by (simp add: is_request_def)
qed

lemma observe_request_seen:
  assumes "request_seen L cfg s ws" and "response_seen L cfg s rs" and "cs_tracking s"
    and "observe_request L cfg (s\<lparr>cs_request := cs_request s @ data\<rparr>) = (Inr (), s')"
  shows "request_seen L cfg s' (ws @ data) \<and> response_seen L cfg s' rs"
proof -
  let ?s = "s\<lparr>cs_request := cs_request s @ data\<rparr>"
  have ws: "cs_request s = ws" using assms(1,3) by (simp add: request_seen_def)
  have known: "\<exists>p. read_bounded_dht_frame L ws (sc_max_bytes cfg) = Inr p \<and> is_request L p request"
    if "cs_message s = Some request" for request
    using assms(1,3) that by (auto simp: request_seen_def)
  have same: "response_seen L cfg ?s rs"
    using assms(2) by (simp add: response_seen_def)
  consider "s' = ?s\<lparr>cs_tracking := False\<rparr>"
    | "s' = ?s" "\<And>f p. prefix f (ws @ data) \<Longrightarrow>
        read_bounded_dht_frame L f (sc_max_bytes cfg) \<noteq> Inr p"
    | p request where "read_bounded_dht_frame L (ws @ data) (sc_max_bytes cfg) = Inr p"
      "is_request L p request" "s' = ?s\<lparr>cs_message := Some request\<rparr>"
    using observe_request_cases [OF assms(4)] ws by auto
  then show ?thesis
  proof cases
    case 1
    have "\<exists>frame p. prefix frame (ws @ data) \<and>
        read_bounded_dht_frame L frame (sc_max_bytes cfg) = Inr p \<and> is_request L p request"
      if "cs_message s = Some request" for request
      using known [OF that] by (meson prefixI)
    then have "request_seen L cfg s' (ws @ data)" using 1 by (simp add: request_seen_def)
    with response_seen_untracked [OF same] 1 show ?thesis by simp
  next
    case 2
    have "cs_message s = None"
      using known 2(2) by (metis not_Some_eq prefixI)
    with 2(1) ws same show ?thesis by (simp add: request_seen_def)
  next
    case 3
    have "cs_message s = None \<or> cs_message s = Some request"
      using request_known_again [OF assms(1,3) _ 3(1,2)] by (cases "cs_message s") auto
    then have "response_seen L cfg s' rs"
      using response_seen_message [OF same, of request] 3(3) by simp
    with 3 ws show ?thesis by (auto simp: request_seen_def)
  qed
qed

text \<open>Bytes that are read while no response is looked for.\<close>

lemma response_seen_ignored:
  assumes "response_seen L cfg s rs" and "\<not> (cs_tracking s \<and> cs_message s \<noteq> None \<and> chunk \<noteq> [])"
  shows "response_seen L cfg s (rs @ chunk)"
  using assms(1)
proof (rule response_seenE)
  fix before obs "after"
  assume rs: "rs = before @ obs @ after" "cs_message s = None \<Longrightarrow> obs = [] \<and> after = []"
      "cs_tracking s \<Longrightarrow> after = []"
    and part: "response_part L cfg (cs_message s) (cs_length s) (cs_prefix s) (cs_payload s)
      (cs_proof s) obs"
  show ?thesis
  proof (cases "cs_message s")
    case None
    with rs part show ?thesis
      by (intro response_seenI [of _ "rs @ chunk" "[]" "[]"]) simp_all
  next
    case (Some request)
    with rs part assms(2) show ?thesis
      by (intro response_seenI [of _ before obs "after @ chunk"]) auto
  qed
qed

lemma collect_response_part:
  assumes "response_part L cfg m (cs_length s) (cs_prefix s) (cs_payload s) p obs"
    and "collect_response L cfg chunk s = (Inr known, s')"
  shows "\<not> known \<Longrightarrow> response_part L cfg m (cs_length s') (cs_prefix s') (cs_payload s') p (obs @ chunk)"
    and "known \<Longrightarrow> \<exists>n k. cs_length s' = Some n \<and> begins L (sc_max_bytes cfg) (obs @ chunk) n k \<and>
      drop k (obs @ chunk) = cs_payload s' \<and> (p \<longrightarrow> cs_payload s' = cs_payload s @ chunk \<and>
        length (cs_payload s) = n)"
    and "cs_message s' = cs_message s \<and> cs_tracking s' = cs_tracking s \<and>
      cs_request s' = cs_request s \<and> cs_proof s' = cs_proof s"
proof -
  show "cs_message s' = cs_message s \<and> cs_tracking s' = cs_tracking s \<and>
      cs_request s' = cs_request s \<and> cs_proof s' = cs_proof s"
    using assms(2)
    by (auto simp: collect_response_def Let_def split: option.splits sum.splits if_splits)
  show "\<not> known \<Longrightarrow> response_part L cfg m (cs_length s') (cs_prefix s') (cs_payload s') p (obs @ chunk)"
    using assms
    by (auto simp: collect_response_def response_part_def Let_def
        split: option.splits sum.splits if_splits)
  assume known
  show "\<exists>n k. cs_length s' = Some n \<and> begins L (sc_max_bytes cfg) (obs @ chunk) n k \<and>
      drop k (obs @ chunk) = cs_payload s' \<and> (p \<longrightarrow> cs_payload s' = cs_payload s @ chunk \<and>
        length (cs_payload s) = n)"
  proof (cases "cs_length s")
    case None
    with assms \<open>known\<close> show ?thesis
      by (auto simp: collect_response_def response_part_def Let_def begins_def
          split: option.splits sum.splits if_splits)
  next
    case (Some n)
    then obtain k where k: "begins L (sc_max_bytes cfg) obs n k" "drop k obs = cs_payload s"
        "p \<Longrightarrow> length (cs_payload s) = n"
      using assms(1) by (auto simp: response_part_def)
    have s': "s' = s\<lparr>cs_payload := cs_payload s @ chunk\<rparr>"
      using assms(2) Some by (simp add: collect_response_def)
    have "drop k (obs @ chunk) = cs_payload s @ chunk"
      using k(2) begins_length [OF k(1)] by simp
    with s' Some k(3) begins_append [OF k(1)] show ?thesis
      by (intro exI [of _ n] exI [of _ k]) simp
  qed
qed

text \<open>While a response is looked for, what has been observed of it is the end of what has been read.\<close>

lemma response_observed:
  assumes "response_seen L cfg s rs" and "cs_tracking s" and "cs_message s = Some request"
  obtains before obs where "rs = before @ obs"
    and "response_part L cfg (Some request) (cs_length s) (cs_prefix s) (cs_payload s) (cs_proof s) obs"
proof (rule response_seenE [OF assms(1)])
  fix before obs "after"
  assume "rs = before @ obs @ after" "cs_tracking s \<Longrightarrow> after = []"
    "response_part L cfg (cs_message s) (cs_length s) (cs_prefix s) (cs_payload s) (cs_proof s) obs"
  then show thesis using assms(2,3) by (intro that [of before obs]) simp_all
qed

lemma observe_response_part:
  assumes "cs_message s = Some request" and "chunk \<noteq> []"
    and part: "response_part L cfg (Some request) (cs_length s) (cs_prefix s) (cs_payload s) (cs_proof s) obs"
    and run: "observe_response L cfg chunk (s, w) = (Inr (), (s', w'))"
  shows "response_part L cfg (Some request) (cs_length s') (cs_prefix s') (cs_payload s') (cs_proof s')
      (obs @ chunk) \<and> cs_message s' = cs_message s \<and> cs_tracking s' = cs_tracking s \<and>
    cs_request s' = cs_request s"
proof -
  obtain known s1 where c: "collect_response L cfg chunk s = (Inr known, s1)"
    using run by (auto simp: observe_response_def split: prod.splits sum.splits)
  note same = collect_response_part(3) [OF part c]
  show ?thesis
  proof (cases known)
    case False
    then have "s' = s1" using run c by (simp add: observe_response_def)
    with same collect_response_part(1) [OF part c False] show ?thesis by simp
  next
    case True
    obtain n k where n: "cs_length s1 = Some n" "begins L (sc_max_bytes cfg) (obs @ chunk) n k"
        "drop k (obs @ chunk) = cs_payload s1"
        "cs_proof s \<Longrightarrow> cs_payload s1 = cs_payload s @ chunk \<and> length (cs_payload s) = n"
      using collect_response_part(2) [OF part c True] by blast
    have len: "length (cs_payload s1) \<le> n"
      using run c True n(1) by (auto simp: observe_response_def split: if_splits)
    then have no_proof: "\<not> cs_proof s" using n(4) assms(2) by auto
    show ?thesis
    proof (cases "length (cs_payload s1) = n")
      case False
      then have "s' = s1" using run c True n(1) len by (simp add: observe_response_def)
      with same n no_proof show ?thesis by (auto simp: response_part_def)
    next
      case complete: True
      obtain w1 where j: "judge_response L cfg (Some request) (cs_payload s1) w = (Inr (), w1)"
          and s': "s' = s1\<lparr>cs_proof := True\<rparr>"
        using assms(1) run c True n(1) same no_proof complete
        by (auto simp: observe_response_def split: prod.splits sum.splits)
      show ?thesis using n complete judge_response_Inr [OF j] s' same by (auto simp: response_part_def)
    qed
  qed
qed

lemma observe_response_seen:
  assumes "request_seen L cfg s ws" and "response_seen L cfg s rs"
    and "cs_tracking s" and "cs_message s = Some request" and "chunk \<noteq> []"
    and "observe_response L cfg chunk (s, w) = (Inr (), (s', w'))"
  shows "request_seen L cfg s' ws \<and> response_seen L cfg s' (rs @ chunk)"
proof -
  obtain before obs where rs: "rs = before @ obs" and part: "response_part L cfg (Some request)
      (cs_length s) (cs_prefix s) (cs_payload s) (cs_proof s) obs"
    using assms(2-4) by (rule response_observed)
  note p = observe_response_part [OF assms(4,5) part assms(6)]
  then have "response_seen L cfg s' (rs @ chunk)"
    using rs assms(3,4) by (intro response_seenI [of _ before "obs @ chunk" "[]"]) simp_all
  with p assms(1) show ?thesis by (simp add: request_seen_def)
qed

lemma client_write_seen:
  assumes "request_seen L cfg s ws" and "response_seen L cfg s rs"
    and "client_write L io cfg data (s, w) = (Inr (), (s', w'))"
  shows "request_seen L cfg s' (ws @ data) \<and> response_seen L cfg s' rs"
proof (cases "cs_tracking s")
  case True
  let ?s = "s\<lparr>cs_written := cs_written s + length data\<rparr>"
  obtain s1 where s1: "observe_request L cfg (?s\<lparr>cs_request := cs_request ?s @ data\<rparr>) = (Inr (), s1)"
      and s': "client_write_with_deadline io cfg data (s1, w) = (Inr (), (s', w'))"
    using assms(3) True
    by (auto simp: client_write_def Let_def split: if_splits sum.splits prod.splits)
  have "same_exchange s ?s" by (simp add: same_exchange_def)
  from assms(1,2) have "request_seen L cfg ?s ws" "response_seen L cfg ?s rs"
    by (simp_all only: same_exchange_seen [OF \<open>same_exchange s ?s\<close>])
  from observe_request_seen [OF this _ s1] True
  show ?thesis by (simp add: same_exchange_seen [OF deadlines_same_exchange(1) [OF s']])
next
  case False
  let ?s = "s\<lparr>cs_written := cs_written s + length data\<rparr>"
  have "client_write_with_deadline io cfg data (?s, w) = (Inr (), (s', w'))"
    using assms(3) False by (auto simp: client_write_def Let_def split: if_splits)
  moreover have "same_exchange s ?s" by (simp add: same_exchange_def)
  ultimately have same: "request_seen L cfg s' v = request_seen L cfg s v"
      "response_seen L cfg s' v = response_seen L cfg s v" for v
    by (simp_all only: same_exchange_seen [OF deadlines_same_exchange(1)] same_exchange_seen)
  have "request_seen L cfg s (ws @ data)"
    using assms(1) False unfolding request_seen_def by (metis prefix_prefix)
  with assms(2) same show ?thesis by simp
qed

lemma client_read_seen:
  assumes "request_seen L cfg s ws" and "response_seen L cfg s rs"
    and "client_read L io cfg n (s, w) = (Inr chunk, (s', w'))"
  shows "request_seen L cfg s' ws \<and> response_seen L cfg s' (rs @ chunk)"
proof -
  obtain m s1 w1 where s1: "client_read_with_deadline io cfg m (s, w) = (Inr chunk, (s1, w1))"
      and o: "(if cs_tracking s1 \<and> cs_message s1 \<noteq> None \<and> chunk \<noteq> []
        then observe_response L cfg chunk (s1, w1) else (Inr (), (s1, w1))) = (Inr (), (s', w'))"
    using assms(3) by (auto simp: client_read_def Let_def bindA_Inr split: if_splits)
  have seen: "request_seen L cfg s1 ws" "response_seen L cfg s1 rs"
    using assms(1,2) by (simp_all only: same_exchange_seen [OF deadlines_same_exchange(2) [OF s1]])
  show ?thesis
  proof (cases "cs_tracking s1 \<and> cs_message s1 \<noteq> None \<and> chunk \<noteq> []")
    case True
    then obtain request where request: "cs_message s1 = Some request" by blast
    show ?thesis
      using observe_response_seen [OF seen _ request, of chunk w1 s' w'] o True by simp
  next
    case False
    then have "s' = s1" using o by (simp split: if_splits)
    with seen(1) response_seen_ignored [OF seen(2) False] show ?thesis by simp
  qed
qed

lemma client_run_seen:
  "client_run L io cfg s ws rs \<Longrightarrow> request_seen L cfg s ws \<and> response_seen L cfg s rs"
proof (induction rule: client_run.induct)
  case fresh
  then show ?case
    by (auto simp: new_client_stream_def request_seen_def response_seen_def response_part_def)
next
  case (wrote s ws rs data w s' w')
  from wrote.IH show ?case by (elim conjE) (rule client_write_seen [OF _ _ wrote.hyps(2)])
next
  case (got s ws rs n w chunk s' w')
  from got.IH show ?case by (elim conjE) (rule client_read_seen [OF _ _ got.hyps(2)])
qed

text \<open>
  C24: a peer is reported as serving only after a complete exchange. When a client stream has
  recorded the proof, what was written to it begins with one frame that carries a typed request,
  and what was read from it contains one whole frame, accepted by the frame decoder, whose
  payload is a typed response that validates against that request.
\<close>
theorem proof_needs_complete_exchange:
  assumes "client_run L io cfg s ws rs" and "cs_proof s"
  shows "\<exists>sent p request received q. prefix sent ws \<and> sublist received rs \<and>
    read_bounded_dht_frame L sent (sc_max_bytes cfg) = Inr p \<and> is_request L p request \<and>
    read_bounded_dht_frame L received (sc_max_bytes cfg) = Inr q \<and> is_reply L cfg request q"
proof -
  note seen = client_run_seen [OF assms(1)]
  obtain before obs "after" n k request where rs: "rs = before @ obs @ after"
      and n: "begins L (sc_max_bytes cfg) obs n k" "drop k obs = cs_payload s"
        "length (cs_payload s) = n"
      and reply: "cs_message s = Some request" "is_reply L cfg request (cs_payload s)"
  proof (rule response_seenE [of L cfg s rs])
    fix before obs "after"
    note t = that
    assume "rs = before @ obs @ after"
      "response_part L cfg (cs_message s) (cs_length s) (cs_prefix s) (cs_payload s) (cs_proof s) obs"
    then show ?thesis using assms(2) t [of before obs "after"]
      by (auto simp: response_part_def split: option.splits)
  qed (use seen in simp)
  obtain sent p where sent: "prefix sent ws" "read_bounded_dht_frame L sent (sc_max_bytes cfg) = Inr p"
      "is_request L p request"
    using seen reply(1) by (auto simp: request_seen_def)
  have "length obs = k + n"
    using begins_length [OF n(1)] arg_cong [OF n(2), of length] n(3) by simp
  from begins_complete [OF n(1) this] n(2)
  have "read_bounded_dht_frame L obs (sc_max_bytes cfg) = Inr (cs_payload s)" by simp
  moreover have "sublist obs rs" by (auto simp: rs sublist_def)
  ultimately show ?thesis using sent reply(2) by blast
qed

end
