(* ===== verification/Gate_Samples.thy ===== *)
theory Gate_Samples
  imports Stream_Properties
begin

text \<open>A concrete library and stream on which the witnesses for the serving gate evaluate.\<close>

fun leb128 :: "nat \<Rightarrow> bytes" where
  "leb128 n = (if n < 128 then [of_nat n] else of_nat (n mod 128 + 128) # leb128 (n div 128))"

declare leb128.simps [simp del]

lemma leb128_small [simp]: "n < 128 \<Longrightarrow> leb128 n = [of_nat n]"
  by (simp add: leb128.simps)

text \<open>The payload \<open>[8, 4]\<close> is the field \<open>type = FIND_NODE\<close>.\<close>

definition sample_message :: dht_message where
  "sample_message = \<lparr>msg_size = 2, msg_type = 4, msg_key = [], msg_record = None,
     closer_peers = [], provider_peers = []\<rparr>"

definition sample_lib :: dht_lib where
  "sample_lib =
     \<lparr>varint_encode = leb128,
      type_number = (\<lambda>t. case t of Put_value \<Rightarrow> 0 | Get_value \<Rightarrow> 1 | Add_provider \<Rightarrow> 2
        | Get_providers \<Rightarrow> 3 | Find_node \<Rightarrow> 4 | Ping \<Rightarrow> 5),
      parse_message = (\<lambda>b. if b = [8, 4] then Some sample_message else None),
      decode_peer_id = (\<lambda>_. Inr ()), parse_multiaddr = (\<lambda>_. Inr ())\<rparr>"

lemma sample_varint_law: "varint_law sample_lib"
proof -
  have "varint_encode sample_lib = leb128" by (simp add: sample_lib_def)
  then show ?thesis unfolding varint_law_def by (metis leb128.simps)
qed

text \<open>A stream that answers every read with the frame of that payload.\<close>

definition sample_frame :: bytes where "sample_frame = [2, 8, 4]"

definition sample_io :: "unit stream_io" where
  "sample_io = \<lparr>io_now = (\<lambda>w. (0, w)), io_read = (\<lambda>n t w. (Inr sample_frame, w)),
     io_write = (\<lambda>b t w. (Inr (), w)), io_close = (\<lambda>w. (Inr (), w))\<rparr>"

definition sample_config :: "unit stream_config" where
  "sample_config = \<lparr>sc_max_bytes = max_dht_message_size, sc_timeout = max_dht_frame_time,
     sc_on_valid = (\<lambda>w. (Inr (), w)), sc_validate = Some (\<lambda>_ w. (Inr True, w))\<rparr>"

lemma sample_gate [simp]:
  "varint_encode sample_lib = leb128" "parse_message sample_lib [8, 4] = Some sample_message"
  "type_number sample_lib Put_value = 0" "type_number sample_lib Get_value = 1"
  "type_number sample_lib Add_provider = 2" "type_number sample_lib Get_providers = 3"
  "type_number sample_lib Find_node = 4" "type_number sample_lib Ping = 5"
  "msg_size sample_message = 2" "msg_type sample_message = 4"
  "closer_peers sample_message = []" "provider_peers sample_message = []"
  "io_now sample_io = (\<lambda>w. (0, w))" "io_read sample_io n t w = (Inr sample_frame, w)"
  "io_write sample_io b t w = (Inr (), w)" "sc_max_bytes sample_config = 1048576"
  "sc_timeout sample_config = 15" "sc_on_valid sample_config w = (Inr (), w)"
  "sc_validate sample_config = Some (\<lambda>_ w. (Inr True, w))"
  by (simp_all add: sample_lib_def sample_message_def sample_io_def sample_config_def
      max_dht_message_size_def max_dht_frame_time_def)

lemma sample_prefix:
  "decode_varint_prefix [2, 8, 4] = Inr (Some (2, 1))"
  "decode_varint_prefix [8, 4] = Inr (Some (8, 1))"
  "decode_varint_prefix [4] = Inr (Some (4, 1))"
  by (simp_all add: decode_varint_prefix_def and_127)

lemma sample_typed: "contains_type_field sample_lib [8, 4] = Inr True"
  by (simp add: contains_type_field_def scan_fields.simps [of _ _ 0] sample_prefix Let_def and_7
      drop_bit_eq_div valid_types_def)

definition sample_asked :: client_stream where
  "sample_asked = new_client_stream
     \<lparr>cs_request := [2, 8, 4], cs_message := Some sample_message, cs_written := 3,
      cs_write_deadline := Some 15\<rparr>"

lemma sample_ask:
  "client_write sample_lib sample_io sample_config sample_frame (new_client_stream, ()) =
     (Inr (), (sample_asked, ()))"
  by (simp add: client_write_def Let_def observe_request_def observe_request_payload_def
      new_client_stream_def sample_asked_def client_write_with_deadline_def with_deadline_def
      start_deadline_def sample_prefix sample_typed sample_frame_def)

lemma sample_answer:
  "client_read sample_lib sample_io sample_config None (sample_asked, ()) =
     (Inr sample_frame, (sample_asked\<lparr>cs_length := Some 2, cs_payload := [8, 4], cs_proof := True,
        cs_read_deadline := Some 15\<rparr>, ()))"
proof -
  have "judge_response sample_lib sample_config (Some sample_message) [8, 4] () = (Inr (), ())"
    by (simp add: judge_response_def sample_typed mapexcA_cases bindA_cases validate_dht_response_def
        check_response_key_def)
  then show ?thesis
    by (simp add: client_read_def client_read_with_deadline_def with_deadline_def start_deadline_def
        bindA_cases observe_response_def collect_response_def Let_def sample_asked_def
        new_client_stream_def sample_prefix sample_frame_def)
qed

theorem frame_roundtrip_witness:
  "(read_bounded_dht_frame sample_lib [2, 8, 4] 3 = Inr [8, 4]) =
    ([2, 8, 4] = varint_encode sample_lib (length [8, 4 :: 8 word]) @ [8, 4] \<and>
     length [8, 4 :: 8 word] \<le> 3)"
  by (rule frame_roundtrip [OF sample_varint_law]) simp

theorem scan_finds_type_witness:
  "contains_type_field sample_lib (concat (map (field_bytes sample_lib)
     [Bytes_field 2 [65], Varint_field 1 4])) = Inr True"
  using scan_finds_type [OF sample_varint_law, of "[Bytes_field 2 [65], Varint_field 1 4]"]
  by (simp add: valid_types_def)

theorem proof_needs_complete_exchange_witness:
  "\<exists>sent p request received q. prefix sent sample_frame \<and> sublist received sample_frame \<and>
    read_bounded_dht_frame sample_lib sent max_dht_message_size = Inr p \<and>
    is_request sample_lib p request \<and>
    read_bounded_dht_frame sample_lib received max_dht_message_size = Inr q \<and>
    is_reply sample_lib sample_config request q"
proof -
  have "client_run sample_lib sample_io sample_config sample_asked ([] @ sample_frame) []"
    using client_run.fresh sample_ask by (rule client_run.wrote)
  from client_run.got [OF this sample_answer] show ?thesis
    using proof_needs_complete_exchange by (fastforce simp: max_dht_message_size_def)
qed

end
