(* ===== verification/Inbound_Properties.thy ===== *)
theory Inbound_Properties
  imports Gate_Samples
begin

text \<open>
  The server's side of a stream: over any sequence of reads and writes that return, the handler
  receives at most one canonical frame within the limit, and sends at most as much.
\<close>

inductive server_run ::
  "dht_lib \<Rightarrow> 'w stream_io \<Rightarrow> nat \<Rightarrow> real \<Rightarrow> server_stream \<Rightarrow> bytes \<Rightarrow> bytes \<Rightarrow> bool"
  for L io max_bytes timeout where
  fresh: "server_run L io max_bytes timeout new_server_stream [] []"
| got: "server_run L io max_bytes timeout s rs sent \<Longrightarrow>
     server_read L io max_bytes timeout n (s, w) = (Inr chunk, (s', w')) \<Longrightarrow>
     server_run L io max_bytes timeout s' (rs @ chunk) sent"
| wrote: "server_run L io max_bytes timeout s rs sent \<Longrightarrow>
     server_write io max_bytes timeout data (s, w) = (Inr (), (s', w')) \<Longrightarrow>
     server_run L io max_bytes timeout s' rs (sent @ data)"

text \<open>What the handler has received: an incomplete prefix, or a frame and at most its payload.\<close>

definition inbound_seen :: "dht_lib \<Rightarrow> nat \<Rightarrow> nat option \<Rightarrow> bytes \<Rightarrow> bytes \<Rightarrow> nat \<Rightarrow> bool" where
  "inbound_seen L max_bytes len partial_prefix rs payload_read =
     (case len of
        None \<Rightarrow> partial_prefix = rs \<and> decode_varint_prefix rs = Inr None
      | Some n \<Rightarrow> \<exists>k. begins L max_bytes rs n k \<and> length rs = k + payload_read \<and> payload_read \<le> n)"

lemma observe_inbound_seen:
  assumes "inbound_seen L m (ss_length s) (ss_prefix s) rs (ss_payload_read s)"
    and "observe_inbound L m chunk s = (Inr (), s')"
  shows "inbound_seen L m (ss_length s') (ss_prefix s') (rs @ chunk) (ss_payload_read s')"
    and "ss_written s' = ss_written s"
proof -
  show "ss_written s' = ss_written s"
    using assms(2)
    by (auto simp: observe_inbound_def Let_def split: option.splits sum.splits if_splits)
  show "inbound_seen L m (ss_length s') (ss_prefix s') (rs @ chunk) (ss_payload_read s')"
  proof (cases "ss_length s")
    case None
    then have prefix: "ss_prefix s = rs" using assms(1) by (simp add: inbound_seen_def)
    show ?thesis
    proof (cases "decode_varint_prefix (rs @ chunk) = Inr None")
      case True
      with None prefix assms(2) show ?thesis
        by (auto simp: observe_inbound_def Let_def inbound_seen_def split: if_splits)
    next
      case False
      then obtain n k where d: "decode_varint_prefix (rs @ chunk) = Inr (Some (n, k))"
        using None prefix assms(2)
        by (auto simp: observe_inbound_def Let_def split: sum.splits option.splits)
      have k: "k \<le> length (rs @ chunk)" by (rule decode_varint_prefix_Some(3) [OF d])
      have "begins L m (rs @ chunk) n k \<and> ss_length s' = Some n \<and>
          ss_payload_read s' = length (rs @ chunk) - k \<and> ss_payload_read s' \<le> n"
        using None prefix assms(2) d
        by (auto simp: observe_inbound_def Let_def begins_def split: if_splits)
      with k show ?thesis by (auto simp: inbound_seen_def)
    qed
  next
    case (Some n)
    then obtain k where "begins L m rs n k" "length rs = k + ss_payload_read s"
      using assms(1) by (auto simp: inbound_seen_def)
    with Some assms(2) begins_append show ?thesis
      by (auto simp: observe_inbound_def Let_def inbound_seen_def split: if_splits
          intro!: exI [of _ k])
  qed
qed

lemma server_run_seen:
  "server_run L io m timeout s rs sent \<Longrightarrow>
     inbound_seen L m (ss_length s) (ss_prefix s) rs (ss_payload_read s) \<and>
     ss_written s = length sent \<and> length sent \<le> m + 10"
proof (induction rule: server_run.induct)
  case fresh
  then show ?case
    by (simp add: inbound_seen_def new_server_stream_def decode_varint_prefix_def)
next
  case (got s rs sent n w chunk s' w')
  obtain r s1 w1 where s1: "server_read_with_deadline io timeout r (s, w) = (Inr chunk, (s1, w1))"
      and o: "(case observe_inbound L m chunk s1 of (r, s2) \<Rightarrow> (r, (s2, w1))) = (Inr (), (s', w'))"
    using got.hyps(2) by (auto simp: server_read_def Let_def bindA_Inr split: if_splits)
  then have o: "observe_inbound L m chunk s1 = (Inr (), s')"
    by (cases "observe_inbound L m chunk s1") simp
  have same: "ss_length s1 = ss_length s" "ss_prefix s1 = ss_prefix s" "ss_written s1 = ss_written s"
      "ss_payload_read s1 = ss_payload_read s"
    using s1 by (auto simp: server_read_with_deadline_def split: prod.splits)
  then have "inbound_seen L m (ss_length s1) (ss_prefix s1) rs (ss_payload_read s1)"
    using got.IH by simp
  from observe_inbound_seen [OF this o] same(3) got.IH show ?case by simp
next
  case (wrote s rs sent data w s' w')
  then show ?case
    by (auto simp: server_write_def server_write_with_deadline_def Let_def
        split: if_splits prod.splits)
qed

text \<open>
  C28: the handler of an inbound stream is given at most one frame. Before the length is known it
  has been handed fewer than ten bytes; afterwards what it has been handed is the canonical prefix
  of a frame no larger than the limit and at most that frame's payload; and neither what it is
  handed nor what it sends exceeds the limit by more than the ten bytes of a prefix.
\<close>
theorem inbound_frame_bounded:
  assumes "server_run L io max_bytes timeout s rs sent"
  shows "length rs \<le> max_bytes + 10 \<and> length sent \<le> max_bytes + 10 \<and>
    (case ss_length s of
       None \<Rightarrow> length rs < 10
     | Some n \<Rightarrow> n \<le> max_bytes \<and> (\<exists>payload. rs = varint_encode L n @ payload \<and> length payload \<le> n \<and>
         (length payload = n \<longrightarrow> read_bounded_dht_frame L rs max_bytes = Inr payload)))"
proof (cases "ss_length s")
  case None
  then have "decode_varint_prefix rs = Inr None"
    using server_run_seen [OF assms] by (simp add: inbound_seen_def)
  from decode_varint_None_short [OF this] None server_run_seen [OF assms] show ?thesis by simp
next
  case (Some n)
  then obtain k where k: "begins L max_bytes rs n k" "length rs = k + ss_payload_read s"
      "ss_payload_read s \<le> n"
    using server_run_seen [OF assms] by (auto simp: inbound_seen_def)
  have "k \<le> 10" and n: "n \<le> max_bytes" and "varint_encode L n = take k rs"
    using k(1) by (auto simp: begins_def dest: decode_varint_prefix_Some(2))
  then have rs: "rs = varint_encode L n @ drop k rs" by simp
  have "length (drop k rs) = ss_payload_read s" using k(2) by simp
  moreover have "read_bounded_dht_frame L rs max_bytes = Inr (drop k rs)"
    if "length (drop k rs) = n"
    using begins_complete [OF k(1)] k(2) that by simp
  ultimately show ?thesis
    using Some rs n k \<open>k \<le> 10\<close> server_run_seen [OF assms]
    by (simp del: length_drop) (intro exI [of _ "drop k rs"], simp)
qed

theorem inbound_frame_bounded_witness:
  "length sample_frame \<le> max_dht_message_size + 10 \<and>
    (\<exists>s. server_run sample_lib sample_io max_dht_message_size max_dht_frame_time s sample_frame [])"
proof -
  have "server_read sample_lib sample_io max_dht_message_size max_dht_frame_time None
      (new_server_stream, ()) =
      (Inr sample_frame, (new_server_stream\<lparr>ss_prefix := sample_frame, ss_length := Some 2,
        ss_payload_read := 2, ss_read_deadline := Some 15\<rparr>, ()))"
    by (simp add: server_read_def server_read_with_deadline_def with_deadline_def
        start_deadline_def bindA_cases observe_inbound_def Let_def new_server_stream_def
        sample_prefix sample_frame_def max_dht_message_size_def max_dht_frame_time_def)
  from server_run.got [OF server_run.fresh this]
  have run: "server_run sample_lib sample_io max_dht_message_size max_dht_frame_time
      (new_server_stream\<lparr>ss_prefix := sample_frame, ss_length := Some 2,
        ss_payload_read := 2, ss_read_deadline := Some 15\<rparr>) sample_frame []"
    by simp
  from inbound_frame_bounded [OF this] run show ?thesis by blast
qed

end
