(* ===== verification/Routing_Eligibility.thy ===== *)
theory Routing_Eligibility
  imports Dht_Streams "HOL-Library.AList"
begin

text \<open>
  The gate of \<open>dht/serving_eligibility.py\<close> on the routing table: only peers that have answered a
  request within the last five minutes are admitted and referred to others. The class
  \<open>RoutingEligibility\<close> replaces two methods of \<open>libp2p\<close>'s table; \<open>install_dht_serving_eligibility\<close>
  puts the gate and the bounded streams of \<open>Dht_Streams\<close> into a host.

  The routing table, the host and the DHT are third-party code and act on a state of type \<open>'w\<close>; a
  \<open>gate\<close> is the dictionary \<open>_expires\<close>, in insertion order, whether the host's handler of the
  protocol is \<open>inbound_handler\<close>, and that state. Each coroutine here awaits one call at most, before
  it first looks at the dictionary or after it has last changed it, so what it does to the
  dictionary is not interrupted.
\<close>

type_synonym time = real

datatype dht_mode = Client | Server

text \<open>An argument of \<open>add_peer\<close>: a peer id, or an object with an attribute \<open>peer_id\<close>.\<close>

datatype ('p, 'i) peer = Peer_id 'p | Peer_info 'p 'i

fun peer_id :: "('p, 'i) peer \<Rightarrow> 'p" where
  "peer_id (Peer_id p) = p"
| "peer_id (Peer_info p _) = p"

record ('p, 'w) gate =
  gt_expires :: "('p \<times> time) list"
  gt_handler :: bool
  gt_world :: 'w

text \<open>
  \<open>rt_now\<close>: the clock. \<open>rt_add peer skip\<close>: the table's \<open>add_peer\<close>, \<open>skip\<close> being the keyword
  argument. \<open>rt_find\<close>, \<open>rt_size\<close>, \<open>rt_remove\<close>: its other methods. \<open>kad_mode\<close>: the DHT's current
  mode, \<open>kad_switch\<close> its \<open>switch_mode\<close> before the replacement, \<open>kad_handle\<close> its \<open>handle_stream\<close>.
\<close>

record ('p, 'i, 'w) routing =
  rt_now :: "'w \<Rightarrow> time \<times> 'w"
  rt_add :: "('p, 'i) peer \<Rightarrow> bool \<Rightarrow> ('w, bool) act"
  rt_find :: "bytes \<Rightarrow> int \<Rightarrow> ('w, 'p list) act"
  rt_size :: "'w \<Rightarrow> nat"
  rt_remove :: "'p \<Rightarrow> ('w, unit) act"
  kad_mode :: "'w \<Rightarrow> dht_mode"
  kad_switch :: "dht_mode \<Rightarrow> ('w, dht_mode) act"
  kad_handle :: "(server_stream \<times> 'w, unit) act"

definition max_eligible_peers :: nat where "max_eligible_peers = 1024"

definition serving_proof_ttl :: time where "serving_proof_ttl = 5 * 60"

definition on_world :: "('w, 'a) act \<Rightarrow> (('p, 'w) gate, 'a) act" where
  "on_world m = (\<lambda>g. case m (gt_world g) of (r, w) \<Rightarrow> (r, g\<lparr>gt_world := w\<rparr>))"

subsection \<open>The dictionary of proofs\<close>

text \<open>\<open>min(d, key=d.__getitem__)\<close>: the first key with the least value.\<close>

fun oldest_loop :: "('p \<times> time) list \<Rightarrow> 'p \<Rightarrow> time \<Rightarrow> 'p" where
  "oldest_loop [] best t = best"
| "oldest_loop ((p, u) # ps) best t =
     (if u < t then oldest_loop ps p u else oldest_loop ps best t)"

fun oldest_peer :: "('p \<times> time) list \<Rightarrow> 'p option" where
  "oldest_peer [] = None"
| "oldest_peer ((p, t) # ps) = Some (oldest_loop ps p t)"

definition forget :: "'p \<Rightarrow> ('p, 'w) gate \<Rightarrow> ('p, 'w) gate" where
  "forget p g = g\<lparr>gt_expires := AList.delete p (gt_expires g)\<rparr>"

definition is_eligible :: "('p, 'i, 'w) routing \<Rightarrow> 'p \<Rightarrow> (('p, 'w) gate, bool) act" where
  "is_eligible R p = (\<lambda>g.
     case map_of (gt_expires g) p of
       None \<Rightarrow> (Inr False, g)
     | Some expiry \<Rightarrow>
         (case rt_now R (gt_world g) of (now, w) \<Rightarrow>
            let g1 = g\<lparr>gt_world := w\<rparr> in
            if now \<ge> expiry
            then bindA (on_world (rt_remove R p)) (\<lambda>_. pureA (Inr False)) (forget p g1)
            else (Inr True, g1)))"

text \<open>Before a proof of a new peer is entered in a full dictionary, the oldest entry goes.\<close>

definition make_room :: "('p, 'i, 'w) routing \<Rightarrow> 'p \<Rightarrow> (('p, 'w) gate, unit) act" where
  "make_room R p = (\<lambda>g.
     if map_of (gt_expires g) p = None \<and> length (gt_expires g) \<ge> max_eligible_peers then
       (case oldest_peer (gt_expires g) of
          None \<Rightarrow> (Inl (Value_error ''min() arg is an empty sequence''), g)
        | Some oldest \<Rightarrow> on_world (rt_remove R oldest) (forget oldest g))
     else (Inr (), g))"

definition enter_proof :: "('p, 'i, 'w) routing \<Rightarrow> 'p \<Rightarrow> (('p, 'w) gate, unit) act" where
  "enter_proof R p = (\<lambda>g.
     case rt_now R (gt_world g) of (now, w) \<Rightarrow>
       (Inr (), g\<lparr>gt_world := w,
          gt_expires := AList.update p (now + serving_proof_ttl) (gt_expires g)\<rparr>))"

definition record_valid_response ::
  "('p, 'i, 'w) routing \<Rightarrow> 'p \<Rightarrow> (('p, 'w) gate, unit) act" where
  "record_valid_response R p =
     bindA (make_room R p) (\<lambda>_.
     bindA (enter_proof R p) (\<lambda>_.
     bindA (on_world (rt_add R (Peer_id p) False)) (\<lambda>_. pureA (Inr ()))))"

fun remove_all :: "('p, 'i, 'w) routing \<Rightarrow> 'p list \<Rightarrow> (('p, 'w) gate, unit) act" where
  "remove_all R [] = pureA (Inr ())"
| "remove_all R (p # ps) = bindA (on_world (rt_remove R p)) (\<lambda>_. remove_all R ps)"

definition clear_proofs :: "('p, 'i, 'w) routing \<Rightarrow> (('p, 'w) gate, unit) act" where
  "clear_proofs R = (\<lambda>g.
     bindA (remove_all R (map fst (gt_expires g)))
       (\<lambda>_ g'. (Inr (), g'\<lparr>gt_expires := []\<rparr>)) g)"

subsection \<open>The guarded table\<close>

definition guarded_add ::
  "('p, 'i, 'w) routing \<Rightarrow> ('p, 'i) peer \<Rightarrow> bool \<Rightarrow> (('p, 'w) gate, bool) act" where
  "guarded_add R peer skip_server_mode_check =
     bindA (is_eligible R (peer_id peer)) (\<lambda>eligible.
     if \<not> eligible then pureA (Inr False)
     else on_world (rt_add R peer skip_server_mode_check))"

fun eligible_loop :: "('p, 'i, 'w) routing \<Rightarrow> 'p list \<Rightarrow> (('p, 'w) gate, 'p list) act" where
  "eligible_loop R [] = pureA (Inr [])"
| "eligible_loop R (p # ps) =
     bindA (is_eligible R p) (\<lambda>eligible.
     bindA (eligible_loop R ps) (\<lambda>rest.
     pureA (Inr (if eligible then p # rest else rest))))"

text \<open>Python's \<open>xs[:count]\<close>; a negative count leaves out that many at the end.\<close>

definition py_upto :: "int \<Rightarrow> 'a list \<Rightarrow> 'a list" where
  "py_upto count xs =
     (if count \<ge> 0 then take (nat count) xs else take (length xs - nat (- count)) xs)"

definition guarded_find ::
  "('p, 'i, 'w) routing \<Rightarrow> bytes \<Rightarrow> int \<Rightarrow> (('p, 'w) gate, 'p list) act" where
  "guarded_find R k count =
     bindA (\<lambda>g. on_world (rt_find R k (max count (int (rt_size R (gt_world g))))) g) (\<lambda>all_peers.
     bindA (eligible_loop R all_peers) (\<lambda>eligible.
     pureA (Inr (py_upto count eligible))))"

text \<open>The constructor empties the table, whose buckets hold the ids \<open>peers\<close>.\<close>

definition init_eligibility ::
  "('p, 'i, 'w) routing \<Rightarrow> 'p list \<Rightarrow> 'w \<Rightarrow> (unit res \<times> ('p, 'w) gate)" where
  "init_eligibility R peers w =
     remove_all R peers \<lparr>gt_expires = [], gt_handler = False, gt_world = w\<rparr>"

subsection \<open>Installation\<close>

definition register_handler :: "('p, 'i, 'w) routing \<Rightarrow> (('p, 'w) gate, unit) act" where
  "register_handler R = (\<lambda>g. (Inr (), g\<lparr>gt_handler := (kad_mode R (gt_world g) \<noteq> Client)\<rparr>))"

definition install_dht_serving_eligibility ::
  "('p, 'i, 'w) routing \<Rightarrow> dht_mode \<Rightarrow> 'p list \<Rightarrow> 'w \<Rightarrow> (unit res \<times> ('p, 'w) gate)" where
  "install_dht_serving_eligibility R mode peers w =
     (if kad_mode R w \<noteq> mode
      then (Inl (Value_error ''DHT mode changed before serving eligibility installation''),
        \<lparr>gt_expires = [], gt_handler = False, gt_world = w\<rparr>)
      else case init_eligibility R peers w of
        (Inl e, g) \<Rightarrow> (Inl e, g)
      | (Inr _, g) \<Rightarrow> register_handler R g)"

text \<open>\<open>on_mode_changed\<close> is the callback of the installation, if there is one.\<close>

definition switch_mode ::
  "('p, 'i, 'w) routing \<Rightarrow> (dht_mode \<Rightarrow> ('w, unit) act) option \<Rightarrow> dht_mode \<Rightarrow>
   (('p, 'w) gate, dht_mode) act" where
  "switch_mode R on_mode_changed new_mode =
     bindA (on_world (kad_switch R new_mode)) (\<lambda>result.
     bindA (clear_proofs R) (\<lambda>_.
     bindA (register_handler R) (\<lambda>_.
     bindA (case on_mode_changed of
         None \<Rightarrow> pureA (Inr ())
       | Some callback \<Rightarrow> on_world (callback result)) (\<lambda>_.
     pureA (Inr result)))))"

text \<open>
  A new outbound stream: opened by the host's own \<open>new_stream\<close>, within fifteen seconds when it is
  a Kademlia stream, which is then wrapped. \<open>open_raw\<close> and \<open>open_within\<close> are those two calls.
\<close>

definition bounded_new_stream ::
  "'proto \<Rightarrow> ('proto list \<Rightarrow> ('w, 's) act) \<Rightarrow> (real \<Rightarrow> 'proto list \<Rightarrow> ('w, 's) act) \<Rightarrow> 'proto list \<Rightarrow>
   ('w, 's \<times> client_stream option) act" where
  "bounded_new_stream protocol_id open_raw open_within protocol_ids =
     (if protocol_id \<notin> set protocol_ids
      then bindA (open_raw protocol_ids) (\<lambda>stream. pureA (Inr (stream, None)))
      else bindA (open_within max_dht_frame_time protocol_ids) (\<lambda>stream.
        pureA (Inr (stream, Some new_client_stream))))"

text \<open>
  An inbound stream: closed unread in client mode, otherwise handled through the bounded proxy and
  closed however the handler ends.
\<close>

definition inbound_handler ::
  "('p, 'i, 'w) routing \<Rightarrow> 'w stream_io \<Rightarrow> ('w, unit) act" where
  "inbound_handler R io = (\<lambda>w.
     if kad_mode R w = Client then io_close io w
     else case kad_handle R (new_server_stream, w) of
       (r, (s, w1)) \<Rightarrow>
         (case server_close io (s, w1) of
            (Inl e, (_, w2)) \<Rightarrow> (Inl e, w2)
          | (Inr _, (_, w2)) \<Rightarrow> (r, w2)))"

text \<open>
  The signed records of a response: those of the answering peer, then those of the peers it refers
  to, until one is refused. \<open>consume\<close> is \<open>maybe_consume_signed_record\<close>; \<open>None\<close> stands for the
  response itself.
\<close>

fun consume_loop :: "('q \<Rightarrow> ('w, bool) act) \<Rightarrow> 'q list \<Rightarrow> ('w, bool) act" where
  "consume_loop consume [] = pureA (Inr True)"
| "consume_loop consume (q # qs) =
     bindA (consume q) (\<lambda>ok. if ok then consume_loop consume qs else pureA (Inr False))"

definition validate_response ::
  "((bytes \<times> bytes list) option \<Rightarrow> ('w, bool) act) \<Rightarrow> dht_message \<Rightarrow> ('w, bool) act" where
  "validate_response consume response =
     consume_loop consume (None # map Some (closer_peers response @ provider_peers response))"

end
