(* ===== verification/Eligibility_Properties.thy ===== *)
theory Eligibility_Properties
  imports Routing_Eligibility "HOL-Library.Sublist"
begin

text \<open>
  The properties of the gate on the routing table. \<open>gate_step\<close> is any one operation of the gate, or
  time passing outside it; \<open>calm_step\<close> leaves out what revokes proofs before they expire: a mode
  switch, clearing, and an entry that displaces the oldest of a full dictionary.
\<close>

subsection \<open>Time\<close>

text \<open>
  \<open>time_of\<close> orders the states by the clock: a reading lies between the times of the states around
  it, and no call takes time back.
\<close>

definition clock_laws :: "('p, 'i, 'w) routing \<Rightarrow> ('w \<Rightarrow> time) \<Rightarrow> bool" where
  "clock_laws R time_of =
     ((\<forall>w t w'. rt_now R w = (t, w') \<longrightarrow> time_of w \<le> t \<and> t \<le> time_of w') \<and>
      (\<forall>p. keeps (\<lambda>w w'. time_of w \<le> time_of w') (rt_remove R p)) \<and>
      (\<forall>p skip. keeps (\<lambda>w w'. time_of w \<le> time_of w') (rt_add R p skip)) \<and>
      (\<forall>k n. keeps (\<lambda>w w'. time_of w \<le> time_of w') (rt_find R k n)))"

lemma clock_lawsD:
  assumes "clock_laws R time_of"
  shows "rt_now R w = (t, w') \<Longrightarrow> time_of w \<le> t \<and> t \<le> time_of w'"
    and "rt_remove R p w = (r, w') \<Longrightarrow> time_of w \<le> time_of w'"
    and "rt_add R peer skip w = (r', w') \<Longrightarrow> time_of w \<le> time_of w'"
    and "rt_find R k n w = (r'', w') \<Longrightarrow> time_of w \<le> time_of w'"
  using assms unfolding clock_laws_def keeps_def by (blast, (metis snd_conv)+)

subsection \<open>Steps\<close>

inductive calm_step ::
  "('p, 'i, 'w) routing \<Rightarrow> ('w \<Rightarrow> time) \<Rightarrow> ('p, 'w) gate \<Rightarrow> ('p, 'w) gate \<Rightarrow> bool"
  for R time_of where
  look: "is_eligible R p g = (r, g') \<Longrightarrow> calm_step R time_of g g'"
| record_proof: "record_valid_response R p g = (r', g') \<Longrightarrow>
     p \<in> fst ` set (gt_expires g) \<or> length (gt_expires g) < max_eligible_peers \<Longrightarrow>
     calm_step R time_of g g'"
| add: "guarded_add R peer skip g = (r, g') \<Longrightarrow> calm_step R time_of g g'"
| find: "guarded_find R k count g = (r'', g') \<Longrightarrow> calm_step R time_of g g'"
| elapse: "time_of (gt_world g) \<le> time_of w \<Longrightarrow> calm_step R time_of g (g\<lparr>gt_world := w\<rparr>)"

inductive gate_step ::
  "('p, 'i, 'w) routing \<Rightarrow> ('w \<Rightarrow> time) \<Rightarrow> ('p, 'w) gate \<Rightarrow> ('p, 'w) gate \<Rightarrow> bool"
  for R time_of where
  calm: "calm_step R time_of g g' \<Longrightarrow> gate_step R time_of g g'"
| displace: "record_valid_response R p g = (r, g') \<Longrightarrow> gate_step R time_of g g'"
| clear: "clear_proofs R g = (r, g') \<Longrightarrow> gate_step R time_of g g'"
| switch: "switch_mode R callback mode g = (r', g') \<Longrightarrow> gate_step R time_of g g'"

inductive_cases calm_stepE: "calm_step R time_of g g'"
inductive_cases gate_stepE: "gate_step R time_of g g'"

subsection \<open>The dictionary\<close>

lemma on_world_expires:
  "on_world m g = (r, g') \<Longrightarrow> gt_expires g' = gt_expires g"
  by (auto simp: on_world_def split: prod.splits)

lemma on_world_handler: "on_world m g = (r, g') \<Longrightarrow> gt_handler g' = gt_handler g"
  by (auto simp: on_world_def split: prod.splits)

lemma forget_expires [simp]:
  "gt_expires (forget p g) = AList.delete p (gt_expires g)"
  "gt_world (forget p g) = gt_world g"
  by (simp_all add: forget_def)

lemma remove_all_expires:
  "remove_all R ps g = (r, g') \<Longrightarrow> gt_expires g' = gt_expires g \<and> gt_handler g' = gt_handler g"
proof (induction R ps arbitrary: g rule: remove_all.induct)
  case (2 R p ps)
  then show ?case
    by (fastforce simp: bindA_def on_world_def split: prod.splits sum.splits)
qed simp

lemma clear_expires:
  "clear_proofs R g = (Inr (), g') \<Longrightarrow> gt_expires g' = []"
  "clear_proofs R g = (r, g') \<Longrightarrow> gt_expires g' = [] \<or> gt_expires g' = gt_expires g"
  by (auto simp: clear_proofs_def bindA_def split: prod.splits sum.splits dest!: remove_all_expires)

lemma is_eligible_expires:
  "is_eligible R p g = (r, g') \<Longrightarrow>
     gt_expires g' = gt_expires g \<or> gt_expires g' = AList.delete p (gt_expires g)"
  by (auto simp: is_eligible_def Let_def bindA_def on_world_def
      split: option.splits prod.splits if_splits sum.splits)

text \<open>
  The invariant: one entry for a peer, and no more than the limit. A relation between gates that
  every operation keeps.
\<close>

definition table_ok :: "('p, 'w) gate \<Rightarrow> bool" where
  "table_ok g = (distinct (map fst (gt_expires g)) \<and> length (gt_expires g) \<le> max_eligible_peers)"

definition stays_ok :: "('p, 'w) gate \<Rightarrow> ('p, 'w) gate \<Rightarrow> bool" where
  "stays_ok g g' = (table_ok g \<longrightarrow> table_ok g')"

interpretation ok: state_order stays_ok
  by unfold_locales (auto simp: stays_ok_def)

lemma table_ok_delete: "table_ok g \<Longrightarrow> gt_expires g' = AList.delete p (gt_expires g) \<Longrightarrow> table_ok g'"
  by (auto simp: table_ok_def distinct_delete intro: order_trans [OF length_delete_le])

lemma keeps_ok_world: "keeps stays_ok (on_world m)"
  by (auto simp: keeps_def stays_ok_def table_ok_def on_world_def split: prod.splits)

lemma keeps_ok_eligible: "keeps stays_ok (is_eligible R p)"
  unfolding keeps_def stays_ok_def
proof (intro allI impI)
  fix g :: "('a, 'b) gate"
  assume ok: "table_ok g"
  obtain r g' where "is_eligible R p g = (r, g')" by fastforce
  with is_eligible_expires [OF this] ok table_ok_delete [OF ok] show "table_ok (snd (is_eligible R p g))"
    by (auto simp: table_ok_def)
qed

lemma length_update:
  "length (AList.update k v al) = (if k \<in> fst ` set al then length al else Suc (length al))"
  by (induction al) auto

lemma oldest_loop_in:
  "oldest_loop ps p t = p \<or> oldest_loop ps p t \<in> fst ` set ps"
proof (induction ps arbitrary: p t)
  case (Cons a ps)
  show ?case using Cons.IH [of p t] Cons.IH [of "fst a" "snd a"] by (cases a) auto
qed simp

lemma oldest_peer_in: "oldest_peer ps = Some p \<Longrightarrow> p \<in> fst ` set ps"
proof (cases ps)
  case (Cons a ps')
  assume "oldest_peer ps = Some p"
  with Cons oldest_loop_in [of ps' "fst a" "snd a"] show ?thesis by (cases a) auto
qed simp

lemma length_delete_less: "p \<in> fst ` set al \<Longrightarrow> length (AList.delete p al) < length al"
proof (induction al)
  case (Cons a al)
  obtain k v where a: "a = (k, v)" by fastforce
  show ?case
  proof (cases "k = p")
    case True
    then show ?thesis by (simp add: a less_Suc_eq_le length_delete_le)
  next
    case False
    with Cons a have "length (AList.delete p al) < length al" by auto
    with False a show ?thesis by simp
  qed
qed simp

lemma make_room_room:
  assumes "make_room R p g = (Inr (), g')" and "table_ok g"
  shows "table_ok g'" and "p \<in> fst ` set (gt_expires g') \<or> length (gt_expires g') < max_eligible_peers"
proof -
  have "table_ok g' \<and> (p \<in> fst ` set (gt_expires g') \<or> length (gt_expires g') < max_eligible_peers)"
  proof (cases "map_of (gt_expires g) p = None \<and> length (gt_expires g) \<ge> max_eligible_peers")
    case True
    then obtain q where q: "oldest_peer (gt_expires g) = Some q"
        "on_world (rt_remove R q) (forget q g) = (Inr (), g')"
      using assms(1) by (auto simp: make_room_def split: option.splits)
    then have "gt_expires g' = AList.delete q (gt_expires g)" by (simp add: on_world_expires)
    with table_ok_delete [OF assms(2) this] length_delete_less [OF oldest_peer_in [OF q(1)]] assms(2)
    show ?thesis by (auto simp: table_ok_def)
  next
    case False
    then have "g' = g" using assms(1) by (simp add: make_room_def split: if_splits)
    with False assms(2) show ?thesis
      by (auto simp: map_of_eq_None_iff)
  qed
  then show "table_ok g'"
    and "p \<in> fst ` set (gt_expires g') \<or> length (gt_expires g') < max_eligible_peers" by simp_all
qed

lemma keeps_ok_room: "keeps stays_ok (make_room R p)"
  unfolding keeps_def stays_ok_def
  by (auto simp: make_room_def on_world_def split: prod.split option.split
      intro: table_ok_delete)

lemma table_ok_update:
  assumes "table_ok g" and "p \<in> fst ` set (gt_expires g) \<or> length (gt_expires g) < max_eligible_peers"
    and "gt_expires g' = AList.update p t (gt_expires g)"
  shows "table_ok g'"
  using assms
  by (cases "p \<in> fst ` set (gt_expires g)") (simp_all add: table_ok_def length_update distinct_update)

lemma keeps_ok_record: "keeps stays_ok (record_valid_response R p)"
  unfolding keeps_def stays_ok_def
proof (intro allI impI)
  fix g :: "('a, 'b) gate"
  assume ok: "table_ok g"
  obtain r g1 where m: "make_room R p g = (r, g1)" by fastforce
  show "table_ok (snd (record_valid_response R p g))"
  proof (cases r)
    case (Inl e)
    with keepsD [OF keeps_ok_room m] ok m show ?thesis
      by (simp add: record_valid_response_def bindA_cases stays_ok_def)
  next
    case (Inr u)
    obtain g2 where e: "enter_proof R p g1 = (Inr (), g2)"
      by (cases "rt_now R (gt_world g1)") (simp add: enter_proof_def)
    then obtain t where g2: "gt_expires g2 = AList.update p t (gt_expires g1)"
      by (auto simp: enter_proof_def split: prod.splits)
    have "make_room R p g = (Inr (), g1)" using m Inr by simp
    from make_room_room [OF this ok] g2 have "table_ok g2" by (rule table_ok_update)
    then have "table_ok (snd (on_world (rt_add R (Peer_id p) False) g2))"
      using keeps_ok_world by (auto simp: keeps_def stays_ok_def)
    then show ?thesis
      using m Inr e
      by (cases "on_world (rt_add R (Peer_id p) False) g2"; cases "fst (on_world (rt_add R (Peer_id p) False) g2)")
        (simp_all add: record_valid_response_def bindA_cases)
  qed
qed

lemma keeps_ok_clear: "keeps stays_ok (clear_proofs R)"
  unfolding keeps_def stays_ok_def
proof (intro allI impI)
  fix g :: "('a, 'b) gate"
  assume ok: "table_ok g"
  obtain r g' where "clear_proofs R g = (r, g')" by fastforce
  with clear_expires(2) [OF this] ok show "table_ok (snd (clear_proofs R g))"
    by (auto simp: table_ok_def)
qed

lemma keeps_ok_find_loop: "keeps stays_ok (eligible_loop R ps)"
  by (induction ps) (auto intro!: ok.keeps_intros keeps_ok_eligible)

lemma keeps_ok_handler: "keeps stays_ok (register_handler R)"
  by (simp add: keeps_def stays_ok_def table_ok_def register_handler_def)

lemma keeps_ok_switch: "keeps stays_ok (switch_mode R callback mode)"
  unfolding switch_mode_def
  by (intro ok.keeps_intros keeps_ok_world keeps_ok_clear keeps_ok_handler)

lemma keeps_ok_add: "keeps stays_ok (guarded_add R peer skip)"
  unfolding guarded_add_def by (intro ok.keeps_intros keeps_ok_world keeps_ok_eligible)

lemma keeps_ok_find: "keeps stays_ok (guarded_find R k count)"
proof -
  have "keeps stays_ok (\<lambda>g. on_world (rt_find R k (max count (int (rt_size R (gt_world g))))) g)"
    using keeps_ok_world by (auto simp: keeps_def)
  then show ?thesis
    unfolding guarded_find_def by (intro ok.keeps_intros keeps_ok_find_loop)
qed

lemma calm_step_ok: "calm_step R time_of g g' \<Longrightarrow> stays_ok g g'"
  by (elim calm_stepE)
    (auto simp: stays_ok_def table_ok_def
      dest: keepsD [OF keeps_ok_eligible] keepsD [OF keeps_ok_record] keepsD [OF keeps_ok_add]
        keepsD [OF keeps_ok_find])

lemma gate_step_ok: "gate_step R time_of g g' \<Longrightarrow> stays_ok g g'"
  by (elim gate_stepE)
    (blast intro: calm_step_ok keepsD [OF keeps_ok_record] keepsD [OF keeps_ok_clear]
      keepsD [OF keeps_ok_switch])+

text \<open>
  C27: the table of proofs is bounded. From the installation on, whatever responses peers send and
  whatever is asked of the table, it holds at most 1024 peers, each with one expiry.
\<close>
theorem eligible_table_bounded:
  assumes "install_dht_serving_eligibility R mode peers w = (Inr (), g0)"
    and "(gate_step R time_of)\<^sup>*\<^sup>* g0 g"
  shows "length (gt_expires g) \<le> 1024 \<and> distinct (map fst (gt_expires g))"
proof -
  have "gt_expires g0 = []"
    using assms(1)
    by (auto simp: install_dht_serving_eligibility_def init_eligibility_def register_handler_def
        split: if_splits prod.splits sum.splits dest!: remove_all_expires)
  then have "table_ok g0" by (simp add: table_ok_def)
  from assms(2) this have "table_ok g"
    by induction (auto simp: stays_ok_def dest: gate_step_ok)
  then show ?thesis by (simp add: table_ok_def max_eligible_peers_def)
qed

subsection \<open>Fresh proofs only\<close>

lemma is_eligible_True:
  assumes "is_eligible R p g = (Inr True, g')" and "clock_laws R time_of"
  obtains t where "map_of (gt_expires g) p = Some t" and "time_of (gt_world g) < t"
    and "gt_expires g' = gt_expires g" and "time_of (gt_world g) \<le> time_of (gt_world g')"
proof -
  obtain t now w where t: "map_of (gt_expires g) p = Some t" "rt_now R (gt_world g) = (now, w)"
      "\<not> now \<ge> t" "g' = g\<lparr>gt_world := w\<rparr>"
    using assms(1)
    by (auto simp: is_eligible_def Let_def bindA_def split: option.splits prod.splits if_splits sum.splits)
  with that [of t] clock_lawsD(1) [OF assms(2) t(2)] show ?thesis by simp
qed

text \<open>An operation that lets time pass and enters no proof: an entry it leaves was there before.\<close>

definition only_ages :: "('w \<Rightarrow> time) \<Rightarrow> ('p, 'w) gate \<Rightarrow> ('p, 'w) gate \<Rightarrow> bool" where
  "only_ages time_of g g' =
     (time_of (gt_world g) \<le> time_of (gt_world g') \<and>
      (\<forall>p t. map_of (gt_expires g') p = Some t \<longrightarrow> map_of (gt_expires g) p = Some t))"

interpretation ages: state_order "only_ages time_of" for time_of :: "'w \<Rightarrow> time"
  by unfold_locales (auto simp: only_ages_def)

lemma keeps_ages_world:
  "keeps (\<lambda>w w'. time_of w \<le> time_of w') m \<Longrightarrow> keeps (only_ages time_of) (on_world m)"
  unfolding keeps_def only_ages_def on_world_def
  by (auto split: prod.split) (metis snd_conv)

lemma keeps_ages_eligible:
  fixes R :: "('p, 'i, 'w) routing"
  assumes "clock_laws R time_of"
  shows "keeps (only_ages time_of) (is_eligible R p)"
  unfolding keeps_def
proof
  fix g :: "('p, 'w) gate"
  have remove: "keeps (only_ages time_of) (bindA (on_world (rt_remove R p)) (\<lambda>_. pureA (Inr False)))"
    using assms unfolding clock_laws_def by (intro ages.keeps_intros keeps_ages_world) blast
  show "only_ages time_of g (snd (is_eligible R p g))"
  proof (cases "map_of (gt_expires g) p")
    case None
    then show ?thesis by (simp add: is_eligible_def ages.same)
  next
    case (Some t)
    obtain now w where n: "rt_now R (gt_world g) = (now, w)" by fastforce
    have "only_ages time_of g (g\<lparr>gt_world := w\<rparr>)" "only_ages time_of g (forget p (g\<lparr>gt_world := w\<rparr>))"
      using clock_lawsD(1) [OF assms n]
      by (auto simp: only_ages_def delete_conv fun_upd_apply split: if_splits)
    with Some n remove show ?thesis
      by (auto simp: is_eligible_def Let_def keeps_def intro: ages.chain)
  qed
qed

lemma eligible_loop_fresh:
  assumes "clock_laws R time_of"
  shows "eligible_loop R ps g = (Inr es, g') \<Longrightarrow>
    subseq es ps \<and> only_ages time_of g g' \<and>
    (\<forall>p \<in> set es. \<exists>t. map_of (gt_expires g) p = Some t \<and> time_of (gt_world g) < t)"
proof (induction ps arbitrary: es g)
  case Nil
  then show ?case by (simp add: ages.same)
next
  case (Cons p ps)
  obtain eligible g1 rest where e: "is_eligible R p g = (Inr eligible, g1)"
      and rest: "eligible_loop R ps g1 = (Inr rest, g')"
      and es: "es = (if eligible then p # rest else rest)"
    using Cons.prems by (auto simp: bindA_Inr)
  have aged: "only_ages time_of g g1"
    using keeps_ages_eligible [OF assms] e by (rule keepsD)
  note IH = Cons.IH [OF rest]
  have later: "\<exists>t. map_of (gt_expires g) q = Some t \<and> time_of (gt_world g) < t" if "q \<in> set rest" for q
    using IH aged that by (fastforce simp: only_ages_def)
  have here: "\<exists>t. map_of (gt_expires g) p = Some t \<and> time_of (gt_world g) < t" if eligible
    using is_eligible_True [of R p g g1 time_of] e that assms by auto
  show ?case
    using es IH later here ages.chain [OF aged] by auto
qed

lemma py_upto_take: "\<exists>n. py_upto count xs = take n xs"
  by (auto simp: py_upto_def)

lemma py_upto_length: "0 \<le> count \<Longrightarrow> int (length (py_upto count xs)) \<le> count"
  by (simp add: py_upto_def)

text \<open>
  C25: only peers with a fresh proof are referred to. What \<open>find_local_closest_peers\<close> returns
  through the gate is, in order, a part of what the routing table found, at most as many as were
  asked for, each with an entry that had not expired when the lookup began.
\<close>
theorem referrals_are_fresh:
  assumes "clock_laws R time_of" and "guarded_find R k count g = (Inr ps, g')"
  shows "\<exists>found w. rt_find R k (max count (int (rt_size R (gt_world g)))) (gt_world g) = (Inr found, w) \<and>
    subseq ps found \<and> (0 \<le> count \<longrightarrow> int (length ps) \<le> count) \<and>
    (\<forall>p \<in> set ps. \<exists>t. map_of (gt_expires g) p = Some t \<and> time_of (gt_world g) < t)"
proof -
  obtain found g1 es where f: "on_world (rt_find R k (max count (int (rt_size R (gt_world g))))) g =
        (Inr found, g1)"
      and es: "eligible_loop R found g1 = (Inr es, g')" and ps: "ps = py_upto count es"
    using assms(2) by (auto simp: guarded_find_def bindA_Inr)
  obtain w where w: "rt_find R k (max count (int (rt_size R (gt_world g)))) (gt_world g) = (Inr found, w)"
      "g1 = g\<lparr>gt_world := w\<rparr>"
    using f by (auto simp: on_world_def split: prod.splits)
  have older: "time_of (gt_world g) \<le> time_of w" by (rule clock_lawsD(4) [OF assms(1) w(1)])
  note loop = eligible_loop_fresh [OF assms(1) es]
  obtain n where "ps = take n es" using py_upto_take ps by blast
  then have "subseq ps es" "set ps \<subseteq> set es"
    by (auto simp: prefix_imp_subseq take_is_prefix dest: in_set_takeD)
  moreover have "\<exists>t. map_of (gt_expires g) p = Some t \<and> time_of (gt_world g) < t"
    if "p \<in> set es" for p
    using loop that w(2) older by fastforce
  ultimately show ?thesis
    using w(1) loop py_upto_length [of count es] ps subseq_order.trans by blast
qed

subsection \<open>Proofs last\<close>

text \<open>
  \<open>lasting time_of p T\<close>: between the two gates time passes, and an entry of \<open>p\<close> that holds until
  \<open>T\<close>, at most five minutes ahead, is still there unless \<open>T\<close> has come.
\<close>

definition proved_until :: "time \<Rightarrow> 'p \<Rightarrow> ('p, 'w) gate \<Rightarrow> bool" where
  "proved_until T p g = (\<exists>t. map_of (gt_expires g) p = Some t \<and> T \<le> t)"

definition lasting :: "('w \<Rightarrow> time) \<Rightarrow> 'p \<Rightarrow> time \<Rightarrow> ('p, 'w) gate \<Rightarrow> ('p, 'w) gate \<Rightarrow> bool" where
  "lasting time_of p T g g' =
     (time_of (gt_world g) \<le> time_of (gt_world g') \<and>
      (T \<le> time_of (gt_world g) + serving_proof_ttl \<and> proved_until T p g \<and>
       time_of (gt_world g') < T \<longrightarrow> proved_until T p g'))"

interpretation lasts: state_order "lasting time_of p T"
  for time_of :: "'w \<Rightarrow> time" and p :: 'p and T :: time
  by unfold_locales (auto simp: lasting_def)

lemma keeps_lasting_world:
  "keeps (\<lambda>w w'. time_of w \<le> time_of w') m \<Longrightarrow> keeps (lasting time_of p T) (on_world m)"
  unfolding keeps_def lasting_def on_world_def proved_until_def
  by (auto split: prod.split) (metis snd_conv)

lemma keeps_lasting_eligible:
  fixes R :: "('p, 'i, 'w) routing"
  assumes "clock_laws R time_of"
  shows "keeps (lasting time_of p T) (is_eligible R q)"
  unfolding keeps_def
proof
  fix g :: "('p, 'w) gate"
  have remove: "keeps (lasting time_of p T) (bindA (on_world (rt_remove R q)) (\<lambda>_. pureA (Inr False)))"
    using assms unfolding clock_laws_def by (intro lasts.keeps_intros keeps_lasting_world) blast
  show "lasting time_of p T g (snd (is_eligible R q g))"
  proof (cases "map_of (gt_expires g) q")
    case None
    then show ?thesis by (simp add: is_eligible_def lasts.same)
  next
    case (Some t)
    obtain now w where n: "rt_now R (gt_world g) = (now, w)" by fastforce
    note time = clock_lawsD(1) [OF assms n]
    have "lasting time_of p T g (g\<lparr>gt_world := w\<rparr>)"
      using time by (auto simp: lasting_def proved_until_def)
    moreover have "lasting time_of p T g (forget q (g\<lparr>gt_world := w\<rparr>))" if "t \<le> now"
      using time Some that by (auto simp: lasting_def proved_until_def delete_conv fun_upd_apply)
    ultimately show ?thesis
      using Some n remove by (auto simp: is_eligible_def Let_def keeps_def intro: lasts.chain)
  qed
qed

lemma enter_proof_lasting:
  assumes "clock_laws R time_of" and "enter_proof R q g = (r, g')"
  shows "lasting time_of p T g g'"
    and "\<exists>now. time_of (gt_world g) \<le> now \<and> now \<le> time_of (gt_world g') \<and>
      map_of (gt_expires g') q = Some (now + serving_proof_ttl)"
proof -
  obtain now w where n: "rt_now R (gt_world g) = (now, w)" by fastforce
  have g': "g' = g\<lparr>gt_world := w,
      gt_expires := AList.update q (now + serving_proof_ttl) (gt_expires g)\<rparr>"
    using assms(2) n by (simp add: enter_proof_def)
  note time = clock_lawsD(1) [OF assms(1) n]
  show "lasting time_of p T g g'"
    using time g' by (auto simp: lasting_def proved_until_def update_conv')
  show "\<exists>now. time_of (gt_world g) \<le> now \<and> now \<le> time_of (gt_world g') \<and>
      map_of (gt_expires g') q = Some (now + serving_proof_ttl)"
    using time g' by (auto simp: update_conv')
qed

text \<open>What a recorded response leaves once there is room for it.\<close>

lemma record_cases:
  assumes "record_valid_response R q g = (r, g')" and "make_room R q g = (Inr (), g1)"
  obtains g2 r2 where "enter_proof R q g1 = (Inr (), g2)"
    and "on_world (rt_add R (Peer_id q) False) g2 = (r2, g')"
proof -
  obtain g2 where e: "enter_proof R q g1 = (Inr (), g2)"
    by (cases "rt_now R (gt_world g1)") (simp add: enter_proof_def)
  obtain r2 g3 where a: "on_world (rt_add R (Peer_id q) False) g2 = (r2, g3)" by fastforce
  have "g' = g3"
    using assms e a by (cases r2) (simp_all add: record_valid_response_def bindA_cases)
  with that e a show ?thesis by blast
qed

lemma record_lasting:
  assumes "clock_laws R time_of" and "record_valid_response R q g = (r, g')"
    and "q \<in> fst ` set (gt_expires g) \<or> length (gt_expires g) < max_eligible_peers"
  shows "lasting time_of p T g g'"
proof -
  have "make_room R q g = (Inr (), g)"
    using assms(3) by (auto simp: make_room_def map_of_eq_None_iff)
  from record_cases [OF assms(2) this] obtain g2 r2
    where e: "enter_proof R q g = (Inr (), g2)"
      and a: "on_world (rt_add R (Peer_id q) False) g2 = (r2, g')" .
  have "keeps (lasting time_of p T) (on_world (rt_add R (Peer_id q) False))"
    using assms(1) unfolding clock_laws_def by (intro keeps_lasting_world) blast
  from keepsD [OF this a] enter_proof_lasting(1) [OF assms(1) e] show ?thesis
    by (blast intro: lasts.chain)
qed

lemma calm_step_lasting:
  assumes "clock_laws R time_of" and "calm_step R time_of g g'"
  shows "lasting time_of p T g g'"
proof -
  note eligible = keeps_lasting_eligible [OF assms(1)]
  have "keeps (lasting time_of p T) (eligible_loop R ps)" for ps
    by (induction ps) (auto intro!: lasts.keeps_intros eligible)
  moreover have "keeps (lasting time_of p T) (\<lambda>g. on_world (rt_find R k (n g)) g)" for k n
    using assms(1) keeps_lasting_world unfolding clock_laws_def keeps_def by metis
  ultimately have find: "keeps (lasting time_of p T) (guarded_find R k count)" for k count
    unfolding guarded_find_def by (intro lasts.keeps_intros)
  have "keeps (lasting time_of p T) (on_world (rt_add R peer skip))" for peer skip
    using assms(1) unfolding clock_laws_def by (intro keeps_lasting_world) blast
  then have add: "keeps (lasting time_of p T) (guarded_add R peer skip)" for peer skip
    unfolding guarded_add_def by (intro lasts.keeps_intros eligible)
  from assms(2) show ?thesis
  proof cases
    case (record_proof q r)
    then show ?thesis by (intro record_lasting [OF assms(1)])
  next
    case (elapse w)
    then show ?thesis by (simp add: lasting_def proved_until_def)
  qed (blast intro: keepsD [OF eligible] keepsD [OF find] keepsD [OF add])+
qed

text \<open>
  C26: a peer that proves itself stays eligible for five minutes. After its response has been
  recorded, and through any number of lookups, admissions and responses of other peers that do not
  overfill the table, a query that reads the clock before the five minutes are over finds the peer
  eligible.
\<close>
theorem proof_lasts:
  assumes "clock_laws R time_of" and "record_valid_response R p g = (Inr (), g1)"
    and "(calm_step R time_of)\<^sup>*\<^sup>* g1 g2"
    and "rt_now R (gt_world g2) = (now, w)" and "now < time_of (gt_world g) + 300"
  shows "is_eligible R p g2 = (Inr True, g2\<lparr>gt_world := w\<rparr>)"
proof -
  obtain g0 where room: "make_room R p g = (Inr (), g0)"
    using assms(2) by (auto simp: record_valid_response_def bindA_Inr)
  obtain ga r where e: "enter_proof R p g0 = (Inr (), ga)"
      and a: "on_world (rt_add R (Peer_id p) False) ga = (r, g1)"
    using record_cases [OF assms(2) room] .
  have before: "time_of (gt_world g) \<le> time_of (gt_world g0)"
    using room clock_lawsD(2) [OF assms(1)]
    by (auto simp: make_room_def on_world_def split: if_splits option.splits prod.splits)
  obtain t where t: "time_of (gt_world g0) \<le> t" "t \<le> time_of (gt_world ga)"
      "map_of (gt_expires ga) p = Some (t + serving_proof_ttl)"
    using enter_proof_lasting(2) [OF assms(1) e] by blast
  define T where "T = t + serving_proof_ttl"
  have "keeps (lasting time_of p T) (on_world (rt_add R (Peer_id p) False))"
    using assms(1) unfolding clock_laws_def by (intro keeps_lasting_world) blast
  from keepsD [OF this a] have "lasting time_of p T ga g1" .
  moreover from assms(3) have "lasting time_of p T g1 g2"
    by induction (auto intro: lasts.same lasts.chain calm_step_lasting [OF assms(1)])
  ultimately have "lasting time_of p T ga g2" by (rule lasts.chain)
  moreover have "now < T"
    using assms(5) before t(1) by (simp add: T_def serving_proof_ttl_def)
  moreover have "time_of (gt_world g2) \<le> now" using clock_lawsD(1) [OF assms(1,4)] by simp
  ultimately have "proved_until T p g2"
    using t by (simp add: lasting_def proved_until_def T_def)
  with \<open>now < T\<close> assms(4) show ?thesis
    by (auto simp: is_eligible_def Let_def proved_until_def)
qed

text \<open>
  A mode switch revokes every proof. When it has returned, no peer is eligible until it proves
  itself again, a lookup refers to nobody, and the inbound handler is registered exactly when the
  DHT was not in client mode.
\<close>
lemma mode_switch_revokes:
  assumes "switch_mode R callback mode g = (Inr result, g')"
  shows "is_eligible R p g' = (Inr False, g') \<and>
    (\<forall>ps g2. guarded_find R k count g' = (Inr ps, g2) \<longrightarrow> ps = []) \<and>
    (\<exists>w. gt_handler g' = (kad_mode R w \<noteq> Client) \<and> (callback = None \<longrightarrow> w = gt_world g'))"
proof -
  obtain g1 g2 g3 where clear: "clear_proofs R g1 = (Inr (), g2)"
      and handler: "register_handler R g2 = (Inr (), g3)"
      and call: "(case callback of None \<Rightarrow> pureA (Inr ()) | Some c \<Rightarrow> on_world (c result)) g3 =
        (Inr (), g')"
    using assms by (auto simp: switch_mode_def bindA_Inr)
  have same: "gt_expires g' = gt_expires g3 \<and> gt_handler g' = gt_handler g3 \<and>
      (callback = None \<longrightarrow> g' = g3)"
  proof (cases callback)
    case (Some c)
    then have "on_world (c result) g3 = (Inr (), g')" using call by simp
    with on_world_expires on_world_handler Some show ?thesis by blast
  qed (use call in simp)
  have empty: "gt_expires g' = []"
    using same handler clear_expires(1) [OF clear] by (auto simp: register_handler_def)
  have none: "is_eligible R q (h :: ('a, 'b) gate) = (Inr False, h)" if "gt_expires h = []" for q h
    using that by (simp add: is_eligible_def)
  have "eligible_loop R qs h = (Inr [], h)" if "gt_expires h = []" for qs h
    using that by (induction qs) (simp_all add: bindA_cases none)
  then have "ps = []" if "guarded_find R k count g' = (Inr ps, h)" for ps h
    using that empty on_world_expires
    by (fastforce simp: guarded_find_def bindA_Inr py_upto_def)
  moreover have "gt_handler g' = (kad_mode R (gt_world g3) \<noteq> Client)"
    using same handler by (auto simp: register_handler_def)
  ultimately show ?thesis using none empty same by blast
qed

subsection \<open>A concrete table\<close>

text \<open>The state is the time; the table finds three peers.\<close>

definition sample_table :: "(nat, unit, time) routing" where
  "sample_table =
     \<lparr>rt_now = (\<lambda>w. (w, w)), rt_add = (\<lambda>p s w. (Inr True, w)),
      rt_find = (\<lambda>k n w. (Inr [1, 2, 3], w)), rt_size = (\<lambda>w. 3), rt_remove = (\<lambda>p w. (Inr (), w)),
      kad_mode = (\<lambda>w. Server), kad_switch = (\<lambda>m w. (Inr m, w)), kad_handle = (\<lambda>d. (Inr (), d))\<rparr>"

definition sample_gate_at :: "(nat \<times> time) list \<Rightarrow> time \<Rightarrow> (nat, time) gate" where
  "sample_gate_at ps w = \<lparr>gt_expires = ps, gt_handler = True, gt_world = w\<rparr>"

lemma sample_clock: "clock_laws sample_table (\<lambda>w. w)"
  by (simp add: clock_laws_def sample_table_def keeps_def)

lemma sample_record:
  "record_valid_response sample_table 2 (sample_gate_at [] 0) = (Inr (), sample_gate_at [(2, 300)] 0)"
  by (simp add: record_valid_response_def bindA_cases make_room_def enter_proof_def on_world_def
      sample_gate_at_def sample_table_def serving_proof_ttl_def max_eligible_peers_def)

lemma sample_gate_install:
  "install_dht_serving_eligibility sample_table Server [] 0 = (Inr (), sample_gate_at [] 0)"
  by (simp add: install_dht_serving_eligibility_def init_eligibility_def register_handler_def
      sample_table_def sample_gate_at_def)

lemma sample_find:
  "guarded_find sample_table [] 2 (sample_gate_at [(2, 300), (3, 50)] 100) =
     (Inr [2], sample_gate_at [(2, 300)] 100)"
  by (simp add: guarded_find_def bindA_cases is_eligible_def Let_def on_world_def forget_def
      py_upto_def sample_gate_at_def sample_table_def)

theorem eligible_table_bounded_witness:
  "length (gt_expires (sample_gate_at [(2, 300)] 0)) \<le> 1024 \<and>
   distinct (map fst (gt_expires (sample_gate_at [(2, 300)] 0)))"
proof -
  have "gate_step sample_table (\<lambda>w. w) (sample_gate_at [] 0) (sample_gate_at [(2, 300)] 0)"
    using sample_record by (rule gate_step.displace)
  then show ?thesis using eligible_table_bounded [OF sample_gate_install] by blast
qed

theorem referrals_are_fresh_witness:
  "\<exists>t. map_of (gt_expires (sample_gate_at [(2, 300), (3, 50)] 100)) 2 = Some t \<and> 100 < t"
proof -
  have "\<forall>p \<in> set [2]. \<exists>t. map_of (gt_expires (sample_gate_at [(2, 300), (3, 50)] 100)) p = Some t \<and>
      gt_world (sample_gate_at [(2, 300), (3, 50)] 100) < t"
    using referrals_are_fresh [OF sample_clock sample_find] by blast
  then show ?thesis by (simp add: sample_gate_at_def)
qed

theorem proof_lasts_witness:
  "is_eligible sample_table 2 (sample_gate_at [(2, 300)] 299) =
     (Inr True, sample_gate_at [(2, 300)] 299)"
proof -
  have "calm_step sample_table (\<lambda>w. w) (sample_gate_at [(2, 300)] 0)
      ((sample_gate_at [(2, 300)] 0)\<lparr>gt_world := 299\<rparr>)"
    by (rule calm_step.elapse) (simp add: sample_gate_at_def)
  moreover have "(sample_gate_at [(2, 300)] 0)\<lparr>gt_world := 299\<rparr> = sample_gate_at [(2, 300)] 299"
    by (simp add: sample_gate_at_def)
  ultimately have "(calm_step sample_table (\<lambda>w. w))\<^sup>*\<^sup>* (sample_gate_at [(2, 300)] 0)
      (sample_gate_at [(2, 300)] 299)"
    by simp
  moreover have "rt_now sample_table (gt_world (sample_gate_at [(2, 300)] 299)) = (299, 299)"
    by (simp add: sample_table_def sample_gate_at_def)
  ultimately have "is_eligible sample_table 2 (sample_gate_at [(2, 300)] 299) =
      (Inr True, (sample_gate_at [(2, 300)] 299)\<lparr>gt_world := 299\<rparr>)"
    by (rule proof_lasts [OF sample_clock sample_record]) (simp add: sample_gate_at_def)
  then show ?thesis by (simp add: sample_gate_at_def)
qed

lemma mode_switch_revokes_witness:
  "is_eligible sample_table 2 (sample_gate_at [] 0) = (Inr False, sample_gate_at [] 0)"
proof -
  have "switch_mode sample_table None Server (sample_gate_at [(2, 300)] 0) =
      (Inr Server, sample_gate_at [] 0)"
    by (simp add: switch_mode_def bindA_cases clear_proofs_def register_handler_def on_world_def
        sample_gate_at_def sample_table_def)
  from mode_switch_revokes [OF this] show ?thesis by blast
qed

end
