(* ===== verification/Key_Files.thy ===== *)
theory Key_Files
  imports Py_Values Actions "HOL-Library.Sublist"
begin

text \<open>
  \<open>crypto_utils.py\<close>: drawing the seed of an Ed25519 key, writing the key to a file that did not
  exist before, and reading one back.

  The file system is the map from paths to contents and modes, with the number of open
  descriptors. Any call to it may fail: \<open>kf_faults\<close> says of each call in turn whether it does, and
  for a failing \<open>write\<close> how many bytes had been written. The key classes of \<open>cryptography\<close> and
  \<open>libp2p\<close> are the parameter \<open>K\<close>, and the name that \<open>tempfile.mkstemp\<close> picks is \<open>fresh\<close>.
\<close>

subsection \<open>Randomness\<close>

text \<open>
  \<open>rng_bound\<close>, \<open>rng_public\<close> and \<open>rng_original\<close> are the identities of \<open>_OS_CSRNG_TOKEN_BYTES\<close>,
  \<open>secrets.token_bytes\<close> and \<open>_ORIGINAL_OS_CSRNG_TOKEN_BYTES\<close>, \<open>rng_bytes\<close> the first of them as a
  function; \<open>rng_approved\<close> is what \<open>_is_system_csrng_provider\<close> finds of the module's provider.
\<close>

record csrng =
  rng_bound :: nat
  rng_public :: nat
  rng_original :: nat
  rng_bytes :: "int \<Rightarrow> pyval res"
  rng_approved :: bool

definition ed25519_seed_length :: int where "ed25519_seed_length = 32"

definition system_token_bytes :: "csrng \<Rightarrow> int \<Rightarrow> pyval res" where
  "system_token_bytes G n =
     (if rng_bound G \<noteq> rng_original G \<or> rng_public G \<noteq> rng_original G
      then Inl (Key_generation_error ''secure randomness provider is unavailable'')
      else rng_bytes G n)"

text \<open>An explicit provider is its \<open>token_bytes\<close>, if that is callable; \<open>None\<close> the system's.\<close>

definition secure_ed25519_seed :: "csrng \<Rightarrow> (int \<Rightarrow> pyval res) option option \<Rightarrow> bytes res" where
  "secure_ed25519_seed G provider =
     (let unavailable = Inl (Key_generation_error ''secure randomness provider is unavailable'');
          draw = (\<lambda>token_bytes.
            bindE (wrapE (token_bytes ed25519_seed_length)
              (Key_generation_error ''secure randomness provider failed'')) (\<lambda>seed.
            case seed of
              PBytes b \<Rightarrow>
                if length b \<noteq> nat ed25519_seed_length
                then Inl (Key_generation_error ''secure randomness provider returned invalid entropy'')
                else Inr b
            | _ \<Rightarrow> Inl (Key_generation_error ''secure randomness provider returned invalid entropy'')))
      in case provider of
        None \<Rightarrow> if rng_approved G then draw (system_token_bytes G) else unavailable
      | Some None \<Rightarrow> unavailable
      | Some (Some token_bytes) \<Rightarrow> draw token_bytes)"

subsection \<open>Keys\<close>

text \<open>
  \<open>key_of_seed\<close>: \<open>Ed25519PrivateKey.from_private_bytes\<close>; \<open>key_pem\<close>: \<open>private_bytes\<close> as PKCS#8 PEM;
  \<open>key_load\<close>: \<open>load_pem_private_key\<close>, \<open>Some k\<close> for an Ed25519 key; \<open>key_raw\<close>: its raw bytes;
  \<open>key_pair\<close>: \<open>from_bytes\<close> of the class \<open>libp2p\<close> uses, with the bytes of the public key.
\<close>

record 'k keys =
  key_of_seed :: "bytes \<Rightarrow> 'k res"
  key_pem :: "'k \<Rightarrow> bytes res"
  key_load :: "bytes \<Rightarrow> 'k option res"
  key_raw :: "'k \<Rightarrow> bytes res"
  key_pair :: "bytes \<Rightarrow> (bytes \<times> bytes) res"

fun is_key_generation_error :: "exc \<Rightarrow> bool" where
  "is_key_generation_error (Key_generation_error _) = True"
| "is_key_generation_error _ = False"

text \<open>\<open>except KeyGenerationError: raise\<close>, then \<open>except Exception: raise KeyGenerationError(m)\<close>.\<close>

definition as_key_error :: "string \<Rightarrow> 'a res \<Rightarrow> 'a res" where
  "as_key_error m r =
     catchE r (\<lambda>e. Inl (if is_key_generation_error e then e else Key_generation_error m))"

definition generate_ed25519_private_key ::
  "csrng \<Rightarrow> 'k keys \<Rightarrow> (int \<Rightarrow> pyval res) option option \<Rightarrow> 'k res" where
  "generate_ed25519_private_key G K provider =
     as_key_error ''secure key generation failed''
       (bindE (secure_ed25519_seed G provider) (key_of_seed K))"

subsection \<open>The file system\<close>

type_synonym path = "pstr \<times> pstr"  \<comment> \<open>directory and name\<close>

record key_fs =
  kf_files :: "path \<Rightarrow> (bytes \<times> nat) option"
  kf_open :: nat
  kf_faults :: "nat option list"

type_synonym fresh_name = "(path \<Rightarrow> bool) \<Rightarrow> pstr \<Rightarrow> pstr \<Rightarrow> path"

text \<open>A call of the operating system; \<open>failing n\<close> is what it leaves when it fails.\<close>

definition os_call ::
  "(nat \<Rightarrow> key_fs \<Rightarrow> key_fs) \<Rightarrow> (key_fs, 'a) act \<Rightarrow> (key_fs, 'a) act" where
  "os_call failing m = (\<lambda>s.
     case kf_faults s of
       [] \<Rightarrow> m s
     | None # fs \<Rightarrow> m (s\<lparr>kf_faults := fs\<rparr>)
     | Some n # fs \<Rightarrow> (Inl Os_error, failing n (s\<lparr>kf_faults := fs\<rparr>)))"

definition set_file :: "path \<Rightarrow> (bytes \<times> nat) option \<Rightarrow> key_fs \<Rightarrow> key_fs" where
  "set_file p f s = s\<lparr>kf_files := (kf_files s)(p := f)\<rparr>"

definition os_mkstemp :: "fresh_name \<Rightarrow> pstr \<Rightarrow> pstr \<Rightarrow> (key_fs, path) act" where
  "os_mkstemp fresh name dir = os_call (\<lambda>_ s. s) (\<lambda>s.
     let p = fresh (\<lambda>q. kf_files s q \<noteq> None) name dir in
     (Inr p, (set_file p (Some ([], 384)) s)\<lparr>kf_open := kf_open s + 1\<rparr>))"

definition os_chmod :: "path \<Rightarrow> nat \<Rightarrow> (key_fs, unit) act" where
  "os_chmod p mode = os_call (\<lambda>_ s. s) (\<lambda>s.
     (Inr (), set_file p (map_option (\<lambda>(b, _). (b, mode)) (kf_files s p)) s))"

text \<open>A call that changes nothing the model sees: \<open>os.fdopen\<close>, \<open>flush\<close>, \<open>os.fsync\<close>.\<close>

definition os_quiet :: "(key_fs, unit) act" where
  "os_quiet = os_call (\<lambda>_ s. s) (\<lambda>s. (Inr (), s))"

definition append_file :: "path \<Rightarrow> bytes \<Rightarrow> key_fs \<Rightarrow> key_fs" where
  "append_file p data s = set_file p (map_option (\<lambda>(b, m). (b @ data, m)) (kf_files s p)) s"

definition os_write :: "path \<Rightarrow> bytes \<Rightarrow> (key_fs, unit) act" where
  "os_write p data = os_call (\<lambda>n. append_file p (take n data)) (\<lambda>s. (Inr (), append_file p data s))"

text \<open>A descriptor is gone even when closing it reports an error.\<close>

definition os_close :: "(key_fs, unit) act" where
  "os_close = os_call (\<lambda>_ s. s\<lparr>kf_open := kf_open s - 1\<rparr>)
     (\<lambda>s. (Inr (), s\<lparr>kf_open := kf_open s - 1\<rparr>))"

definition os_link :: "path \<Rightarrow> path \<Rightarrow> (key_fs, unit) act" where
  "os_link source target = os_call (\<lambda>_ s. s) (\<lambda>s.
     if kf_files s target \<noteq> None then (Inl Os_error, s)
     else (Inr (), set_file target (kf_files s source) s))"

definition os_unlink :: "path \<Rightarrow> (key_fs, unit) act" where
  "os_unlink p = os_call (\<lambda>_ s. s) (\<lambda>s.
     if kf_files s p = None then (Inl Os_error, s) else (Inr (), set_file p None s))"

definition os_read :: "path \<Rightarrow> (key_fs, bytes) act" where
  "os_read p = os_call (\<lambda>_ s. s) (\<lambda>s.
     (case kf_files s p of None \<Rightarrow> Inl Os_error | Some (b, _) \<Rightarrow> Inr b, s))"

subsection \<open>Writing a key\<close>

text \<open>The variables \<open>file_descriptor\<close> (whether it is set) and \<open>temporary_path\<close>.\<close>

record write_vars =
  wv_descriptor :: bool
  wv_temporary :: "path option"

type_synonym write_state = "key_fs \<times> write_vars"

definition on_fs :: "(key_fs, 'a) act \<Rightarrow> (write_state, 'a) act" where
  "on_fs m = (\<lambda>(s, v). case m s of (r, s') \<Rightarrow> (r, (s', v)))"

definition set_vars :: "(write_vars \<Rightarrow> write_vars) \<Rightarrow> (write_state, unit) act" where
  "set_vars f = (\<lambda>(s, v). (Inr (), (s, f v)))"

text \<open>\<open>with os.fdopen(...) as output\<close>: the file is closed however the body ends.\<close>

definition with_output :: "(write_state, unit) act \<Rightarrow> (write_state, unit) act" where
  "with_output body = finallyA body (on_fs os_close)"

definition write_steps :: "fresh_name \<Rightarrow> path \<Rightarrow> bytes \<Rightarrow> (write_state, unit) act" where
  "write_steps fresh path pem =
     bindA (on_fs (os_mkstemp fresh ([46] @ snd path @ [46]) (fst path))) (\<lambda>temporary.
     bindA (set_vars (\<lambda>v. v\<lparr>wv_descriptor := True, wv_temporary := Some temporary\<rparr>)) (\<lambda>_.
     bindA (on_fs (os_chmod temporary 384)) (\<lambda>_.
     bindA (on_fs os_quiet) (\<lambda>_.
     bindA (with_output
       (bindA (set_vars (\<lambda>v. v\<lparr>wv_descriptor := False\<rparr>)) (\<lambda>_.
        bindA (on_fs (os_write temporary pem)) (\<lambda>_.
        bindA (on_fs os_quiet) (\<lambda>_. on_fs os_quiet))))) (\<lambda>_.
     bindA (on_fs (os_link temporary path)) (\<lambda>_.
     bindA (on_fs (os_unlink temporary)) (\<lambda>_.
     set_vars (\<lambda>v. v\<lparr>wv_temporary := None\<rparr>))))))))"

definition write_cleanup :: "write_vars \<Rightarrow> key_fs \<Rightarrow> key_fs" where
  "write_cleanup v s =
     (let s1 = (if wv_descriptor v then snd (os_close s) else s) in
      case wv_temporary v of None \<Rightarrow> s1 | Some p \<Rightarrow> snd (os_unlink p s1))"

definition install_key_file :: "fresh_name \<Rightarrow> path \<Rightarrow> bytes \<Rightarrow> (key_fs, unit) act" where
  "install_key_file fresh path pem = (\<lambda>s0.
     case write_steps fresh path pem (s0, \<lparr>wv_descriptor = False, wv_temporary = None\<rparr>) of
       (r, (s, v)) \<Rightarrow>
         (case r of
            Inr _ \<Rightarrow> Inr ()
          | Inl _ \<Rightarrow>
              if kf_files s path \<noteq> None
              then Inl (Key_generation_error ''key file already exists'')
              else Inl (Key_generation_error ''cannot write key file''),
          write_cleanup v s))"

definition write_ed25519_private_key_pem ::
  "csrng \<Rightarrow> 'k keys \<Rightarrow> fresh_name \<Rightarrow> path \<Rightarrow> (int \<Rightarrow> pyval res) option option \<Rightarrow> (key_fs, unit) act" where
  "write_ed25519_private_key_pem G K fresh path provider =
     bindA (pureA (as_key_error ''key serialization failed''
       (bindE (generate_ed25519_private_key G K provider) (key_pem K)))) (\<lambda>pem.
     install_key_file fresh path pem)"

subsection \<open>Reading a key\<close>

text \<open>Every other failure than that of the file is reported with one message.\<close>

definition keypair_of_pem :: "'k keys \<Rightarrow> bytes \<Rightarrow> (bytes \<times> bytes) res" where
  "keypair_of_pem K pem =
     wrapE
       (bindE (key_load K pem) (\<lambda>loaded.
        bindE (getE (Value_error ''unsupported private key type'') loaded) (\<lambda>k.
        bindE (key_raw K k) (key_pair K))))
       (Value_error ''invalid owner private key file'')"

definition load_ed25519_keypair :: "'k keys \<Rightarrow> path \<Rightarrow> (key_fs, bytes \<times> bytes) act" where
  "load_ed25519_keypair K path =
     bindA (tryA (os_read path)
       (\<lambda>_. pureA (Inl (Value_error ''cannot read owner private key file'')))) (\<lambda>pem.
     pureA (keypair_of_pem K pem))"

end
