(* ===== verification/Key_Properties.thy ===== *)
theory Key_Properties
  imports Key_Files
begin

text \<open>
  Writing a key is all or nothing, whatever call to the operating system fails, and never touches
  a file that existed; a key that was written is the one that is read back.
\<close>

text \<open>
  What is documented of \<open>mkstemp\<close>, for the call that writes \<open>path\<close>: the name it picks is not taken,
  is in the directory, and starts with the prefix.
\<close>

definition temporary_path :: "fresh_name \<Rightarrow> path \<Rightarrow> key_fs \<Rightarrow> path" where
  "temporary_path fresh path s =
     fresh (\<lambda>q. kf_files s q \<noteq> None) ([46] @ snd path @ [46]) (fst path)"

definition mkstemp_law :: "fresh_name \<Rightarrow> path \<Rightarrow> key_fs \<Rightarrow> bool" where
  "mkstemp_law fresh path s =
     (let p = temporary_path fresh path s in
      kf_files s p = None \<and> fst p = fst path \<and> prefix ([46] @ snd path @ [46]) (snd p))"

lemma os_call_cases:
  assumes "os_call failing m s = (r, s')"
  obtains fs where "m (s\<lparr>kf_faults := fs\<rparr>) = (r, s')"
  | n fs where "r = Inl Os_error" and "s' = failing n (s\<lparr>kf_faults := fs\<rparr>)"
proof (cases "kf_faults s")
  case Nil
  then have "s\<lparr>kf_faults := []\<rparr> = s" by (metis key_fs.surjective key_fs.update_convs(3))
  with assms Nil that(1) [of "[]"] show ?thesis by (simp add: os_call_def)
next
  case (Cons f fs)
  with assms that show ?thesis by (cases f) (auto simp: os_call_def)
qed

text \<open>\<open>held s0 p c n s\<close>: since \<open>s0\<close> only \<open>p\<close> has changed, to the content \<open>c\<close>; \<open>n\<close> more descriptors.\<close>

definition held :: "key_fs \<Rightarrow> path \<Rightarrow> bytes \<Rightarrow> nat \<Rightarrow> key_fs \<Rightarrow> bool" where
  "held s0 p c n s =
     (kf_files s = (kf_files s0)(p \<mapsto> (c, 384)) \<and> kf_open s = kf_open s0 + n)"

lemma held_chmod: "os_chmod p 384 s = (r, s') \<Longrightarrow> held s0 p c n s \<Longrightarrow> held s0 p c n s'"
  unfolding os_chmod_def by (erule os_call_cases) (auto simp: held_def set_file_def)

lemma held_quiet: "os_quiet s = (r, s') \<Longrightarrow> held s0 p c n s \<Longrightarrow> held s0 p c n s'"
  unfolding os_quiet_def by (erule os_call_cases) (auto simp: held_def)

lemma held_write:
  assumes "os_write p data s = (r, s')" and "held s0 p c n s"
  shows "\<exists>c'. held s0 p c' n s'" and "r = Inr () \<Longrightarrow> held s0 p (c @ data) n s'"
  using assms unfolding os_write_def
  by (erule_tac os_call_cases, auto simp: held_def append_file_def set_file_def)+

lemma held_close: "os_close s = (r, s') \<Longrightarrow> held s0 p c (Suc n) s \<Longrightarrow> held s0 p c n s'"
  unfolding os_close_def by (erule os_call_cases) (auto simp: held_def)

lemma mkstemp_held:
  assumes "os_mkstemp fresh name dir s0 = (r, s)"
  shows "r = Inl Os_error \<and> kf_files s = kf_files s0 \<and> kf_open s = kf_open s0 \<or>
    (let p = fresh (\<lambda>q. kf_files s0 q \<noteq> None) name dir in r = Inr p \<and> held s0 p [] 1 s)"
  using assms unfolding os_mkstemp_def
  by (elim os_call_cases) (auto simp: held_def set_file_def Let_def)

text \<open>
  A state of the writing: the temporary file \<open>p\<close> holds the content, if that is known, with \<open>n\<close> more
  descriptors open, and \<open>d\<close> says whether the cleanup has one to close.
\<close>

definition writing ::
  "key_fs \<Rightarrow> path \<Rightarrow> bytes option \<Rightarrow> nat \<Rightarrow> bool \<Rightarrow> write_state \<Rightarrow> bool" where
  "writing s0 p content n d x =
     ((\<exists>c. (content \<noteq> None \<longrightarrow> content = Some c) \<and> held s0 p c n (fst x)) \<and>
      snd x = \<lparr>wv_descriptor = d, wv_temporary = Some p\<rparr>)"

text \<open>A state in which the cleanup closes exactly what is open.\<close>

definition left_over :: "key_fs \<Rightarrow> path \<Rightarrow> write_state \<Rightarrow> bool" where
  "left_over s0 p x = (\<exists>d. writing s0 p None (if d then 1 else 0) d x)"

lemma writing_unknown: "writing s0 p c n d x \<Longrightarrow> writing s0 p None n d x"
  by (auto simp: writing_def)

lemma writing_left_over:
  "writing s0 p c 1 True x \<Longrightarrow> left_over s0 p x" "writing s0 p c 0 False x \<Longrightarrow> left_over s0 p x"
  unfolding left_over_def by (auto dest: writing_unknown intro: exI [of _ True] exI [of _ False])

lemma ensures_on_fs:
  "(\<And>v. ensures (\<lambda>s. P (s, v)) m (\<lambda>r s. Q r (s, v))) \<Longrightarrow> ensures P (on_fs m) Q"
  by (auto simp: ensures_def on_fs_def split: prod.splits)

lemma ensures_set_vars: "(\<And>s v. P (s, v) \<Longrightarrow> Q (Inr ()) (s, f v)) \<Longrightarrow> ensures P (set_vars f) Q"
  by (auto simp: ensures_def set_vars_def)

lemma writing_steps:
  "ensures (writing s0 p c n d) (on_fs (os_chmod p 384)) (\<lambda>_. writing s0 p c n d)"
  "ensures (writing s0 p c n d) (on_fs os_quiet) (\<lambda>_. writing s0 p c n d)"
  "ensures (writing s0 p c (Suc n) d) (on_fs os_close) (\<lambda>_. writing s0 p c n d)"
  "ensures (writing s0 p (Some c0) n d) (on_fs (os_write p pem))
     (\<lambda>r. writing s0 p (if is_ok r then Some (c0 @ pem) else None) n d)"
proof -
  show "ensures (writing s0 p c n d) (on_fs (os_chmod p 384)) (\<lambda>_. writing s0 p c n d)"
    "ensures (writing s0 p c n d) (on_fs os_quiet) (\<lambda>_. writing s0 p c n d)"
    "ensures (writing s0 p c (Suc n) d) (on_fs os_close) (\<lambda>_. writing s0 p c n d)"
    by (rule ensures_on_fs, fastforce simp: ensures_def writing_def
        dest: held_chmod held_quiet held_close)+
  show "ensures (writing s0 p (Some c0) n d) (on_fs (os_write p pem))
     (\<lambda>r. writing s0 p (if is_ok r then Some (c0 @ pem) else None) n d)"
    by (rule ensures_on_fs) (auto simp: ensures_def writing_def is_ok_def dest: held_write
        split: sum.splits)
qed

text \<open>The steps before the file is linked to its name, in order.\<close>

definition fill :: "path \<Rightarrow> bytes \<Rightarrow> (write_state, unit) act" where
  "fill temporary pem =
     bindA (set_vars (\<lambda>v. v\<lparr>wv_descriptor := False\<rparr>)) (\<lambda>_.
     bindA (on_fs (os_write temporary pem)) (\<lambda>_.
     bindA (on_fs os_quiet) (\<lambda>_. on_fs os_quiet)))"

definition prepared :: "path \<Rightarrow> bytes \<Rightarrow> (write_state, unit) act" where
  "prepared temporary pem =
     bindA (set_vars (\<lambda>v. v\<lparr>wv_descriptor := True, wv_temporary := Some temporary\<rparr>)) (\<lambda>_.
     bindA (on_fs (os_chmod temporary 384)) (\<lambda>_.
     bindA (on_fs os_quiet) (\<lambda>_. with_output (fill temporary pem))))"

lemma with_output_ensures:
  "ensures (writing s0 p (Some []) 1 True) (with_output (fill p pem))
     (\<lambda>r. writing s0 p (if is_ok r then Some pem else None) 0 False)"
proof -
  let ?Q = "\<lambda>n r. writing s0 p (if is_ok r then Some pem else None) n False"
  have filled: "ensures (writing s0 p (Some []) 1 False) (on_fs (os_write p pem)) (?Q 1)"
    by (rule writing_steps(4) [where ?c0.0 = "[]", unfolded append_Nil])
  have quiet: "ensures (writing s0 p (Some pem) 1 False) (bindA (on_fs os_quiet) (\<lambda>_. on_fs os_quiet)) (?Q 1)"
    by (rule ensures_bindA [OF writing_steps(2)], rule ensures_weaken [OF writing_steps(2)])
      (auto dest: writing_unknown)
  have body: "ensures (writing s0 p (Some []) 1 False)
      (bindA (on_fs (os_write p pem)) (\<lambda>_. bindA (on_fs os_quiet) (\<lambda>_. on_fs os_quiet))) (?Q 1)"
    by (rule ensures_bindA [OF filled]) (use quiet in simp_all)
  have "ensures (writing s0 p (Some []) 1 True) (fill p pem) (?Q 1)"
    unfolding fill_def
    by (rule ensures_bindA [where R = "\<lambda>_. writing s0 p (Some []) 1 False", OF ensures_set_vars body])
      (auto simp: writing_def)
  then show ?thesis
    unfolding with_output_def
    by (rule ensures_finallyA)
      (rule ensures_weaken [OF writing_steps(3) [where n = 0]], auto dest: writing_unknown split: sum.split)
qed

lemma prepared_ensures:
  "ensures (\<lambda>x. held s0 p [] 1 (fst x)) (prepared p pem)
     (\<lambda>r x. if is_ok r then writing s0 p (Some pem) 0 False x else left_over s0 p x)"
proof -
  let ?W = "writing s0 p (Some []) 1 True"
  have "ensures ?W (with_output (fill p pem))
      (\<lambda>r x. if is_ok r then writing s0 p (Some pem) 0 False x else left_over s0 p x)"
    by (rule ensures_weaken [OF with_output_ensures]) (auto dest: writing_left_over split: if_splits)
  then show ?thesis
    unfolding prepared_def
    by (intro ensures_bindA [where R = "\<lambda>_. ?W"] ensures_set_vars writing_steps)
      (auto simp: writing_def left_over_def)
qed

lemma remove_new:
  "f p = None \<Longrightarrow> (f(p \<mapsto> x))(p := None) = f"
  "f p = None \<Longrightarrow> p \<noteq> q \<Longrightarrow> (f(p \<mapsto> x, q \<mapsto> y))(p := None) = f(q \<mapsto> y)"
  by (auto simp: fun_upd_twist fun_upd_idem)

subsection \<open>How writing ends\<close>

definition publish :: "path \<Rightarrow> path \<Rightarrow> (write_state, unit) act" where
  "publish temporary path =
     bindA (on_fs (os_link temporary path)) (\<lambda>_.
     bindA (on_fs (os_unlink temporary)) (\<lambda>_.
     set_vars (\<lambda>v. v\<lparr>wv_temporary := None\<rparr>)))"

lemma write_steps_split:
  "write_steps fresh path pem =
     bindA (on_fs (os_mkstemp fresh ([46] @ snd path @ [46]) (fst path))) (\<lambda>temporary.
     bindA (prepared temporary pem) (\<lambda>_. publish temporary path))"
  by (simp add: write_steps_def prepared_def fill_def publish_def bindA_assoc)

text \<open>The key has both names, or only the new one.\<close>

definition both_names :: "key_fs \<Rightarrow> path \<Rightarrow> path \<Rightarrow> bytes \<Rightarrow> key_fs \<Rightarrow> bool" where
  "both_names s0 p path pem s =
     (kf_files s0 path = None \<and> kf_open s = kf_open s0 \<and>
      kf_files s = (kf_files s0)(p \<mapsto> (pem, 384), path \<mapsto> (pem, 384)))"

definition new_name :: "key_fs \<Rightarrow> path \<Rightarrow> bytes \<Rightarrow> key_fs \<Rightarrow> bool" where
  "new_name s0 path pem s =
     (kf_files s0 path = None \<and> kf_open s = kf_open s0 \<and> kf_files s = (kf_files s0)(path \<mapsto> (pem, 384)))"

text \<open>The four ways the steps can end.\<close>

inductive write_ends :: "key_fs \<Rightarrow> path \<Rightarrow> bytes \<Rightarrow> unit res \<Rightarrow> write_state \<Rightarrow> bool"
  for s0 path pem where
  nothing: "kf_files s = kf_files s0 \<Longrightarrow> kf_open s = kf_open s0 \<Longrightarrow>
     write_ends s0 path pem (Inl Os_error) (s, \<lparr>wv_descriptor = False, wv_temporary = None\<rparr>)"
| temporary: "kf_files s0 p = None \<Longrightarrow> p \<noteq> path \<Longrightarrow> left_over s0 p x \<Longrightarrow>
     write_ends s0 path pem (Inl e) x"
| linked: "kf_files s0 p = None \<Longrightarrow> p \<noteq> path \<Longrightarrow> both_names s0 p path pem s \<Longrightarrow>
     write_ends s0 path pem (Inl e) (s, \<lparr>wv_descriptor = False, wv_temporary = Some p\<rparr>)"
| complete: "new_name s0 path pem s \<Longrightarrow>
     write_ends s0 path pem (Inr ()) (s, \<lparr>wv_descriptor = False, wv_temporary = None\<rparr>)"

inductive_cases write_endsE: "write_ends s0 path pem r (s, v)"

lemma publish_ends:
  assumes "kf_files s0 p = None" and "p \<noteq> path"
  shows "ensures (writing s0 p (Some pem) 0 False) (publish p path) (write_ends s0 path pem)"
proof -
  let ?v = "\<lparr>wv_descriptor = False, wv_temporary = Some p\<rparr>"
  have link: "ensures (writing s0 p (Some pem) 0 False) (on_fs (os_link p path))
      (\<lambda>r x. if is_ok r then both_names s0 p path pem (fst x) \<and> snd x = ?v
        else writing s0 p (Some pem) 0 False x)"
    using assms by (intro ensures_on_fs, cases "kf_files s0 path") (auto simp: ensures_def os_link_def writing_def held_def
        both_names_def set_file_def elim!: os_call_cases split: if_splits)
  have unlink: "ensures (\<lambda>x. both_names s0 p path pem (fst x) \<and> snd x = ?v) (on_fs (os_unlink p))
      (\<lambda>r x. (if is_ok r then new_name s0 path pem (fst x) else both_names s0 p path pem (fst x)) \<and> snd x = ?v)"
    using assms by (intro ensures_on_fs) (auto simp: ensures_def os_unlink_def new_name_def
        both_names_def set_file_def remove_new elim!: os_call_cases split: if_splits)
  have finish: "ensures (\<lambda>x. new_name s0 path pem (fst x) \<and> snd x = ?v)
      (set_vars (\<lambda>v. v\<lparr>wv_temporary := None\<rparr>)) (write_ends s0 path pem)"
    by (rule ensures_set_vars) (auto intro: complete)
  show ?thesis
    unfolding publish_def
    by (rule ensures_bindA [OF link], simp, rule ensures_bindA [OF unlink], simp add: finish)
      (use assms in \<open>auto intro: linked temporary writing_left_over\<close>)
qed

lemma write_steps_end:
  assumes "mkstemp_law fresh path s0"
  shows "ensures (\<lambda>x. x = (s0, \<lparr>wv_descriptor = False, wv_temporary = None\<rparr>)) (write_steps fresh path pem)
    (write_ends s0 path pem)"
proof -
  let ?p = "temporary_path fresh path s0"
  have new: "kf_files s0 ?p = None" "prefix ([46] @ snd path @ [46]) (snd ?p)"
    using assms by (simp_all add: mkstemp_law_def Let_def)
  then have other: "?p \<noteq> path" by (auto dest: prefix_length_le)
  have make: "ensures (\<lambda>x. x = (s0, \<lparr>wv_descriptor = False, wv_temporary = None\<rparr>))
      (on_fs (os_mkstemp fresh ([46] @ snd path @ [46]) (fst path)))
      (\<lambda>r x. if is_ok r then r = Inr ?p \<and> held s0 ?p [] 1 (fst x) else write_ends s0 path pem (Inl Os_error) x \<and> r = Inl Os_error)"
    by (rule ensures_on_fs)
      (auto simp: ensures_def temporary_path_def Let_def is_ok_def dest!: mkstemp_held intro!: write_ends.nothing)
  show ?thesis
    unfolding write_steps_split
  proof (rule ensures_bindA [OF make])
    fix p
    show "ensures (\<lambda>x. if is_ok (Inr p :: path res) then (Inr p :: path res) = Inr ?p \<and> held s0 ?p [] 1 (fst x)
        else write_ends s0 path pem (Inl Os_error) x \<and> (Inr p :: path res) = Inl Os_error)
        (bindA (prepared p pem) (\<lambda>_. publish p path)) (write_ends s0 path pem)"
    proof (cases "p = ?p")
      case True
      have "ensures (\<lambda>x. held s0 ?p [] 1 (fst x)) (bindA (prepared ?p pem) (\<lambda>_. publish ?p path))
          (write_ends s0 path pem)"
        by (rule ensures_bindA [OF prepared_ensures]) (auto intro: temporary [OF new(1) other] publish_ends [OF new(1) other])
      with True show ?thesis by simp
    qed (simp add: ensures_def)
  qed simp
qed

text \<open>Cleaning up: the temporary file is gone unless removing it failed, and so is its descriptor.\<close>

lemma unlink_files:
  "os_unlink p s = (r, s') \<Longrightarrow>
     (kf_files s' = kf_files s \<or> kf_files s' = (kf_files s)(p := None)) \<and> kf_open s' = kf_open s"
  unfolding os_unlink_def
  by (erule os_call_cases) (auto simp: set_file_def split: if_splits)

lemma cleanup_left_over:
  assumes "left_over s0 p (s, v)" and "kf_files s0 p = None"
  shows "kf_open (write_cleanup v s) = kf_open s0 \<and>
    (kf_files (write_cleanup v s) = kf_files s0 \<or>
     (\<exists>c. kf_files (write_cleanup v s) = (kf_files s0)(p \<mapsto> (c, 384))))"
proof -
  obtain d c where v: "v = \<lparr>wv_descriptor = d, wv_temporary = Some p\<rparr>"
    and s: "held s0 p c (if d then 1 else 0) s"
    using assms(1) by (auto simp: left_over_def writing_def)
  define s1 where "s1 = (if d then snd (os_close s) else s)"
  have s1: "held s0 p c 0 s1"
    using s held_close [of s "fst (os_close s)" "snd (os_close s)" s0 p c 0]
    by (auto simp: s1_def split: if_splits)
  obtain ru s2 where u: "os_unlink p s1 = (ru, s2)" by fastforce
  then have "write_cleanup v s = s2" by (simp add: v write_cleanup_def s1_def)
  then show ?thesis
    using unlink_files [OF u] s1 remove_new(1) [of "kf_files s0" p] assms(2) by (auto simp: held_def)
qed

lemma cleanup_linked:
  assumes "both_names s0 p path pem s" and "kf_files s0 p = None" and "p \<noteq> path"
  shows "kf_open (write_cleanup \<lparr>wv_descriptor = False, wv_temporary = Some p\<rparr> s) = kf_open s0 \<and>
    kf_files (write_cleanup \<lparr>wv_descriptor = False, wv_temporary = Some p\<rparr> s) \<in>
      {(kf_files s0)(p \<mapsto> (pem, 384), path \<mapsto> (pem, 384)), (kf_files s0)(path \<mapsto> (pem, 384))}"
proof -
  obtain ru s2 where u: "os_unlink p s = (ru, s2)" by fastforce
  then show ?thesis
    using unlink_files [OF u] remove_new(2) [of "kf_files s0" p path] assms
    by (auto simp: both_names_def write_cleanup_def)
qed

lemma install_facts:
  assumes "mkstemp_law fresh path s0" and "install_key_file fresh path pem s0 = (r, s')"
  shows "(kf_files s' path = kf_files s0 path \<or> kf_files s0 path = None \<and> kf_files s' path = Some (pem, 384)) \<and>
    (\<forall>q. kf_files s0 q \<noteq> None \<longrightarrow> kf_files s' q = kf_files s0 q) \<and> kf_open s' = kf_open s0 \<and>
    (r = Inr () \<longrightarrow> new_name s0 path pem s')"
proof -
  obtain rs s v where steps: "write_steps fresh path pem
      (s0, \<lparr>wv_descriptor = False, wv_temporary = None\<rparr>) = (rs, (s, v))"
    by (metis prod_cases3)
  have s': "s' = write_cleanup v s" and r: "r = Inr () \<longleftrightarrow> rs = Inr ()"
    using assms(2) steps by (auto simp: install_key_file_def split: sum.splits if_splits)
  have "write_ends s0 path pem rs (s, v)"
    by (rule ensuresD [OF write_steps_end [OF assms(1)] refl steps])
  then show ?thesis
  proof cases
    case nothing
    then show ?thesis using s' r by (simp add: write_cleanup_def)
  next
    case (temporary p e)
    with cleanup_left_over [of s0 p s v] s' r show ?thesis by auto
  next
    case (linked p e)
    with cleanup_linked [of s0 p path pem s] s' r show ?thesis by (auto simp: both_names_def)
  next
    case complete
    then show ?thesis using s' by (auto simp: write_cleanup_def new_name_def)
  qed
qed

lemma key_file_facts:
  assumes "mkstemp_law fresh path s0" and "write_ed25519_private_key_pem G K fresh path provider s0 = (r, s')"
  shows "(kf_files s' path = kf_files s0 path \<or> kf_files s0 path = None \<and>
      (\<exists>k pem. generate_ed25519_private_key G K provider = Inr k \<and> key_pem K k = Inr pem \<and>
        kf_files s' path = Some (pem, 384))) \<and>
    (\<forall>q. kf_files s0 q \<noteq> None \<longrightarrow> kf_files s' q = kf_files s0 q) \<and> kf_open s' = kf_open s0 \<and>
    (r = Inr () \<longrightarrow> kf_files s0 path = None \<and>
      (\<exists>k pem. generate_ed25519_private_key G K provider = Inr k \<and> key_pem K k = Inr pem \<and>
        kf_files s' = (kf_files s0)(path \<mapsto> (pem, 384))))"
proof (cases "bindE (generate_ed25519_private_key G K provider) (key_pem K)")
  case (Inl e)
  then have "s' = s0" and "r \<noteq> Inr ()"
    using assms(2) by (auto simp: write_ed25519_private_key_pem_def as_key_error_def)
  then show ?thesis by simp
next
  case (Inr pem)
  then obtain k where k: "generate_ed25519_private_key G K provider = Inr k" "key_pem K k = Inr pem"
    by (auto simp: bindE_Inr)
  have "install_key_file fresh path pem s0 = (r, s')"
    using assms(2) Inr by (simp add: write_ed25519_private_key_pem_def as_key_error_def)
  from install_facts [OF assms(1) this] k show ?thesis by (auto simp: new_name_def)
qed

text \<open>
  C39: writing a key file is all or nothing. Whichever calls to the operating system fail, the
  destination afterwards is as it was, or it did not exist and now holds the whole key with mode
  0600; no file that existed is changed, and no descriptor stays open. When it returns, the new
  key file is the only change.
\<close>
theorem key_file_all_or_nothing:
  assumes "mkstemp_law fresh path s0" and "write_ed25519_private_key_pem G K fresh path provider s0 = (r, s')"
  shows "(kf_files s' path = kf_files s0 path \<or> kf_files s0 path = None \<and>
      (\<exists>k pem. generate_ed25519_private_key G K provider = Inr k \<and> key_pem K k = Inr pem \<and>
        kf_files s' path = Some (pem, 384))) \<and>
    (\<forall>q. kf_files s0 q \<noteq> None \<longrightarrow> kf_files s' q = kf_files s0 q) \<and> kf_open s' = kf_open s0 \<and>
    (r = Inr () \<longrightarrow> kf_files s0 path = None \<and>
      (\<exists>k pem. generate_ed25519_private_key G K provider = Inr k \<and> key_pem K k = Inr pem \<and>
        kf_files s' = (kf_files s0)(path \<mapsto> (pem, 384))))"
  by (rule key_file_facts [OF assms])

text \<open>
  A key that was written is the one that is read. After a successful write, reading the file
  gives the pair of exactly the generated key, provided the key formats round-trip.
\<close>
lemma written_key_reads_back:
  assumes "mkstemp_law fresh path s0" and "write_ed25519_private_key_pem G K fresh path provider s0 = (Inr (), s)"
    and "generate_ed25519_private_key G K provider = Inr k"
    and "\<And>pem. key_pem K k = Inr pem \<Longrightarrow> key_load K pem = Inr (Some k)"
    and "key_raw K k = Inr raw" and "key_pair K raw = Inr pair" and "kf_faults s = []"
  shows "load_ed25519_keypair K path s = (Inr pair, s)"
proof -
  obtain pem where "key_pem K k = Inr pem" "kf_files s path = Some (pem, 384)"
    using key_file_facts [OF assms(1,2)] assms(3) by auto
  with assms(4-7) show ?thesis
    by (simp add: load_ed25519_keypair_def bindA_cases tryA_cases os_read_def os_call_def
        keypair_of_pem_def)
qed

subsection \<open>A concrete run\<close>

definition sample_rng :: csrng where
  "sample_rng = \<lparr>rng_bound = 0, rng_public = 0, rng_original = 0,
     rng_bytes = (\<lambda>n. Inr (PBytes (replicate (nat n) 7))), rng_approved = True\<rparr>"

definition sample_keys :: "bytes keys" where
  "sample_keys = \<lparr>key_of_seed = Inr, key_pem = (\<lambda>k. Inr (80 # k)),
     key_load = (\<lambda>pem. Inr (case pem of [] \<Rightarrow> None | _ # k \<Rightarrow> Some k)),
     key_raw = Inr, key_pair = (\<lambda>raw. Inr (raw, rev raw))\<rparr>"

text \<open>The prefix itself is free in the directories of the runs below.\<close>

definition sample_fresh :: fresh_name where
  "sample_fresh taken name dir = (dir, name)"

definition sample_dir :: "nat option list \<Rightarrow> key_fs" where
  "sample_dir faults = \<lparr>kf_files = Map.empty, kf_open = 0, kf_faults = faults\<rparr>"

lemma sample_mkstemp: "mkstemp_law sample_fresh ([], [107]) (sample_dir faults)"
  by (simp add: mkstemp_law_def temporary_path_def sample_fresh_def sample_dir_def Let_def)

text \<open>The disk fills up while the key is written, and the temporary file cannot be removed.\<close>

lemma sample_failing_write:
  "\<exists>s. write_ed25519_private_key_pem sample_rng sample_keys sample_fresh ([], [107]) None
     (sample_dir [None, None, None, Some 5, None, Some 0]) =
       (Inl (Key_generation_error ''cannot write key file''), s) \<and>
     kf_files s = [([], [46, 107, 46]) \<mapsto> (80 # replicate 4 7, 384)]"
  by (simp add: write_ed25519_private_key_pem_def as_key_error_def generate_ed25519_private_key_def
      secure_ed25519_seed_def Let_def sample_rng_def sample_keys_def system_token_bytes_def
      ed25519_seed_length_def install_key_file_def write_steps_def bindA_cases on_fs_def
      os_mkstemp_def os_call_def sample_dir_def set_vars_def os_chmod_def os_quiet_def
      with_output_def finallyA_def os_write_def append_file_def set_file_def os_close_def write_cleanup_def
      os_unlink_def sample_fresh_def fun_eq_iff)

text \<open>
  The key is installed, and only the removal of the temporary file fails: the destination exists by
  then, so the failure is reported as that of a key that had been there before.
\<close>

lemma failing_unlink_reported_as_existing:
  "\<exists>s. write_ed25519_private_key_pem sample_rng sample_keys sample_fresh ([], [107]) None
     (sample_dir (replicate 8 None @ [Some 0])) =
       (Inl (Key_generation_error ''key file already exists''), s) \<and>
     kf_files (sample_dir (replicate 8 None @ [Some 0])) ([], [107]) = None \<and>
     kf_files s ([], [107]) = Some (80 # replicate 32 7, 384)"
  by (simp add: write_ed25519_private_key_pem_def as_key_error_def generate_ed25519_private_key_def
      secure_ed25519_seed_def Let_def sample_rng_def sample_keys_def system_token_bytes_def
      ed25519_seed_length_def install_key_file_def write_steps_def bindA_cases on_fs_def
      os_mkstemp_def os_call_def sample_dir_def set_vars_def os_chmod_def os_quiet_def
      with_output_def finallyA_def os_write_def append_file_def set_file_def os_close_def write_cleanup_def
      os_unlink_def os_link_def sample_fresh_def numeral_eq_Suc)

theorem key_file_all_or_nothing_witness:
  "\<exists>r s. write_ed25519_private_key_pem sample_rng sample_keys sample_fresh ([], [107]) None
     (sample_dir [None, None, None, Some 5, None, Some 0]) = (r, s) \<and>
     kf_files s ([], [107]) = None \<and> kf_open s = 0"
proof -
  obtain s where s: "write_ed25519_private_key_pem sample_rng sample_keys sample_fresh ([], [107]) None
      (sample_dir [None, None, None, Some 5, None, Some 0]) =
        (Inl (Key_generation_error ''cannot write key file''), s)"
    and f: "kf_files s = [([], [46, 107, 46]) \<mapsto> (80 # replicate 4 7, 384)]"
    using sample_failing_write by blast
  have "kf_open s = kf_open (sample_dir [None, None, None, Some 5, None, Some 0])"
    using key_file_all_or_nothing [OF sample_mkstemp s] by blast
  with s f show ?thesis by (simp add: sample_dir_def)
qed

end
