(* ===== verification/Py_Numbers.thy ===== *)
theory Py_Numbers
  imports Py_Text Py_Net
begin

text \<open>
  How Python reads numbers: \<open>int\<close> and \<open>float\<close> of a text, and the texts that \<open>argparse\<close> takes for
  negative numbers. Digits of every script count, as of Unicode 14.
\<close>

subsection \<open>Characters\<close>

text \<open>\<open>str.isspace\<close> and \<open>str.strip\<close>.\<close>

definition py_space :: "nat \<Rightarrow> bool" where
  "py_space c =
     (ascii_space c \<or> 28 \<le> c \<and> c \<le> 31 \<or> 8192 \<le> c \<and> c \<le> 8202 \<or>
      c \<in> {133, 160, 5760, 8232, 8233, 8239, 8287, 12288})"

definition strip :: "pstr \<Rightarrow> pstr" where
  "strip s = rev (dropWhile py_space (rev (dropWhile py_space s)))"

definition strip_blanks :: "pstr \<Rightarrow> pstr" where
  "strip_blanks s = rev (dropWhile ascii_space (rev (dropWhile ascii_space s)))"

text \<open>The zeros of the scripts that write numbers in decimal; nine more digits follow each.\<close>

definition digit_zeros :: "nat list" where
  "digit_zeros =
     [48, 1632, 1776, 1984, 2406, 2534, 2662, 2790, 2918, 3046, 3174, 3302, 3430, 3558, 3664, 3792,
      3872, 4160, 4240, 6112, 6160, 6470, 6608, 6784, 6800, 6992, 7088, 7232, 7248, 42528, 43216,
      43264, 43472, 43504, 43600, 44016, 65296, 66720, 68912, 69734, 69872, 69942, 70096, 70384,
      70736, 70864, 71248, 71360, 71472, 71904, 72016, 72784, 73040, 73120, 92768, 92864, 93008,
      120782, 120792, 120802, 120812, 120822, 123200, 123632, 125264, 130032]"

definition decimal_value :: "nat \<Rightarrow> nat option" where
  "decimal_value c =
     map_option (\<lambda>z. c - z) (find (\<lambda>z. z \<le> c \<and> c < z + 10) digit_zeros)"

text \<open>The text in ASCII, as both conversions see it; \<open>?\<close> stands for what belongs to no number.\<close>

definition ascii_char :: "nat \<Rightarrow> nat" where
  "ascii_char c =
     (if c < 127 then c
      else if py_space c then 32
      else case decimal_value c of Some d \<Rightarrow> 48 + d | None \<Rightarrow> 63)"

subsection \<open>Integers\<close>

text \<open>Decimal digits with single underscores between them.\<close>

fun digits_val :: "pstr \<Rightarrow> bool \<Rightarrow> nat \<Rightarrow> nat option" where
  "digits_val [] after_digit n = (if after_digit then Some n else None)"
| "digits_val (c # s) after_digit n =
     (if is_digit c then digits_val s True (10 * n + (c - 48))
      else if c = 95 \<and> after_digit then digits_val s False n
      else None)"

definition max_str_digits :: nat where "max_str_digits = 4300"

definition natural :: "pstr \<Rightarrow> nat option" where
  "natural s =
     (if length (filter is_digit s) \<le> max_str_digits then digits_val s False 0 else None)"

definition int_of_ascii :: "pstr \<Rightarrow> int option" where
  "int_of_ascii s =
     (case strip_blanks s of
        [] \<Rightarrow> None
      | c # t \<Rightarrow>
          if c = 45 then map_option (\<lambda>n. - int n) (natural t)
          else if c = 43 then map_option int (natural t)
          else map_option int (natural (c # t)))"

definition int_of_text :: "pstr \<Rightarrow> int option" where
  "int_of_text s = int_of_ascii (map ascii_char s)"

subsection \<open>Floating-point numbers\<close>

text \<open>
  The value of a text is the fraction it denotes; that Python rounds it to the nearest double is not
  modelled.
\<close>

datatype py_float = Fraction int nat | Infinite bool | Not_a_number

fun drop_underscores :: "nat \<Rightarrow> pstr \<Rightarrow> pstr option" where
  "drop_underscores prev [] = (if prev = 95 then None else Some [])"
| "drop_underscores prev (c # s) =
     (if c = 95 then (if is_digit prev then drop_underscores c s else None)
      else if prev = 95 \<and> \<not> is_digit c then None
      else map_option ((#) c) (drop_underscores c s))"

text \<open>A sign, and what follows it.\<close>

fun signed :: "pstr \<Rightarrow> bool \<times> pstr" where
  "signed [] = (False, [])"
| "signed (c # s) = (if c = 45 then (True, s) else if c = 43 then (False, s) else (False, c # s))"

definition exponent :: "pstr \<Rightarrow> int option" where
  "exponent s =
     (case s of
        [] \<Rightarrow> Some 0
      | c # t \<Rightarrow>
          (case signed t of (negative, digits) \<Rightarrow>
            if lower c = 101 \<and> digits \<noteq> [] \<and> list_all is_digit digits
            then Some (if negative then - int (dec_val digits) else int (dec_val digits))
            else None))"

definition decimal_float :: "bool \<Rightarrow> pstr \<Rightarrow> py_float option" where
  "decimal_float negative s =
     (let whole = takeWhile is_digit s; r = dropWhile is_digit s;
          part = (case r of c # t \<Rightarrow> if c = 46 then takeWhile is_digit t else [] | [] \<Rightarrow> []);
          rest = (case r of c # t \<Rightarrow> if c = 46 then dropWhile is_digit t else r | [] \<Rightarrow> []) in
      if whole @ part = [] then None
      else case exponent rest of
        None \<Rightarrow> None
      | Some e \<Rightarrow>
          let m = (if negative then - int (dec_val (whole @ part)) else int (dec_val (whole @ part)));
              k = e - int (length part) in
          Some (if 0 \<le> k then Fraction (m * 10 ^ nat k) 1 else Fraction m (10 ^ nat (- k))))"

definition float_of_text :: "pstr \<Rightarrow> py_float option" where
  "float_of_text s =
     (case drop_underscores 0 (strip_blanks (map ascii_char s)) of
        None \<Rightarrow> None
      | Some t \<Rightarrow>
          (case signed t of (negative, u) \<Rightarrow>
            if map lower u \<in> {lit ''inf'', lit ''infinity''} then Some (Infinite negative)
            else if map lower u = lit ''nan'' then Some Not_a_number
            else decimal_float negative u))"

subsection \<open>Negative numbers on the command line\<close>

text \<open>The pattern \<open>^-\d+$|^-\d*\.\d+$\<close>, where \<open>$\<close> also matches before a final line break.\<close>

definition decimal_digit :: "nat \<Rightarrow> bool" where
  "decimal_digit c = (decimal_value c \<noteq> None)"

definition digits_to_end :: "pstr \<Rightarrow> bool" where
  "digits_to_end s =
     (takeWhile decimal_digit s \<noteq> [] \<and> dropWhile decimal_digit s \<in> {[], [10]})"

definition negative_number :: "pstr \<Rightarrow> bool" where
  "negative_number s =
     (case s of
        [] \<Rightarrow> False
      | c # t \<Rightarrow> c = 45 \<and>
          (digits_to_end t \<or>
           (case dropWhile decimal_digit t of [] \<Rightarrow> False | d # u \<Rightarrow> d = 46 \<and> digits_to_end u)))"

subsection \<open>Integers and their text\<close>

text \<open>\<open>str\<close> of an integer; \<open>int\<close> reads it back.\<close>

fun decimal_digits :: "nat \<Rightarrow> pstr" where
  "decimal_digits n = (if n < 10 then [48 + n] else decimal_digits (n div 10) @ [48 + n mod 10])"

declare decimal_digits.simps [simp del]

definition decimal :: "int \<Rightarrow> pstr" where
  "decimal i = (if i < 0 then 45 # decimal_digits (nat (- i)) else decimal_digits (nat i))"

lemma is_digit_plus: "n < 10 \<Longrightarrow> is_digit (48 + n)"
  by (simp add: is_digit_def)

lemma decimal_digits_digits: "list_all is_digit (decimal_digits n)"
proof (induction n rule: decimal_digits.induct)
  case (1 n)
  then show ?case
    by (subst decimal_digits.simps) (simp add: is_digit_plus)
qed

lemma decimal_digits_nonempty: "decimal_digits n \<noteq> []"
  by (subst decimal_digits.simps) simp

lemma digits_val_append:
  "digits_val s b k = Some n \<Longrightarrow> is_digit c \<Longrightarrow> digits_val (s @ [c]) b k = Some (10 * n + (c - 48))"
  by (induction s arbitrary: b k) (auto split: if_splits)

lemma digits_val_decimal: "digits_val (decimal_digits n) False 0 = Some n"
proof (induction n rule: decimal_digits.induct)
  case (1 n)
  show ?case
  proof (cases "n < 10")
    case True
    then show ?thesis by (subst decimal_digits.simps) (simp add: is_digit_plus)
  next
    case False
    with digits_val_append [OF 1, of "48 + n mod 10"] show ?thesis
      by (subst decimal_digits.simps) (simp add: is_digit_plus)
  qed
qed

lemma length_decimal_digits: "n < 10 ^ k \<Longrightarrow> 0 < k \<Longrightarrow> length (decimal_digits n) \<le> k"
proof (induction n arbitrary: k rule: decimal_digits.induct)
  case (1 n)
  show ?case
  proof (cases "n < 10")
    case True
    with 1 show ?thesis by (subst decimal_digits.simps) simp
  next
    case False
    with 1 obtain j where k: "k = Suc j" and j: "0 < j" by (cases k; cases "k - 1") auto
    then have "n div 10 < 10 ^ j" using 1 by (simp add: div_less_iff_less_mult mult.commute)
    with False 1 k j show ?thesis by (subst decimal_digits.simps) simp
  qed
qed

lemma dropWhile_hd: "s \<noteq> [] \<Longrightarrow> \<not> P (hd s) \<Longrightarrow> dropWhile P s = s"
  by (cases s) auto

lemma strip_blanks_plain:
  "s \<noteq> [] \<Longrightarrow> \<not> ascii_space (hd s) \<Longrightarrow> \<not> ascii_space (last s) \<Longrightarrow> strip_blanks s = s"
  by (simp add: strip_blanks_def dropWhile_hd hd_rev)

lemma digit_not_blank: "is_digit c \<Longrightarrow> \<not> ascii_space c \<and> ascii_char c = c \<and> c \<noteq> 45 \<and> c \<noteq> 43"
  by (auto simp: is_digit_def ascii_space_def ascii_char_def)

lemma map_ascii_digits: "list_all is_digit s \<Longrightarrow> map ascii_char s = s"
  by (induction s) (auto simp: digit_not_blank)

lemma natural_decimal:
  assumes "n < 10 ^ max_str_digits"
  shows "natural (decimal_digits n) = Some n"
proof -
  have "0 < max_str_digits" by (simp add: max_str_digits_def)
  with assms have "length (decimal_digits n) \<le> max_str_digits" by (rule length_decimal_digits)
  with length_filter_le have "length (filter is_digit (decimal_digits n)) \<le> max_str_digits"
    by (rule order_trans)
  then show ?thesis by (simp add: natural_def digits_val_decimal)
qed

lemma int_of_digits:
  assumes "natural t = Some n" and "list_all is_digit t" and "t \<noteq> []"
  shows "int_of_text t = Some (int n)" and "int_of_text (45 # t) = Some (- int n)"
proof -
  obtain c u where t: "t = c # u" using assms(3) by (cases t) auto
  have c: "is_digit c" and l: "is_digit (last t)" using assms(2,3) t by (auto simp: list_all_iff)
  have stripped: "strip_blanks t = t" "strip_blanks (45 # t) = 45 # t"
    using assms(3) digit_not_blank [OF c] digit_not_blank [OF l] t
    by (auto intro!: strip_blanks_plain simp: ascii_space_def)
  have "ascii_char 45 = 45" by (simp add: ascii_char_def)
  then show "int_of_text t = Some (int n)" and "int_of_text (45 # t) = Some (- int n)"
    unfolding int_of_text_def int_of_ascii_def list.map map_ascii_digits [OF assms(2)]
    using stripped digit_not_blank [OF c] t assms(1) by (simp_all split: list.split)
qed

theorem int_of_decimal:
  assumes "\<bar>i\<bar> < 10 ^ max_str_digits"
  shows "int_of_text (decimal i) = Some i"
proof -
  have "nat \<bar>i\<bar> < 10 ^ max_str_digits"
    using assms by (simp add: nat_less_iff)
  note n = int_of_digits [OF natural_decimal [OF this] decimal_digits_digits decimal_digits_nonempty]
  show ?thesis
    using n by (cases "i < 0") (simp_all add: decimal_def)
qed

end
