(* ===== verification/Config.thy ===== *)
theory Config
  imports Py_Values Py_Numbers
begin

text \<open>
  \<open>config.py\<close>: the settings of the server and of the client, read from a YAML file, overridden by
  the command line, and checked before use. The two halves of the module repeat each other line by
  line; what they share is one definition here, with the defaults as arguments.

  \<open>Y\<close> is the environment: \<open>yaml.safe_load\<close> on the file (\<open>None\<close> if there is no such file), the
  expansion of a path (\<open>str(Path(p).expanduser())\<close>), \<open>str\<close> on values that are not strings, and
  \<open>int\<close> on the numbers that are \<open>PObj\<close>.
\<close>

record yaml_env =
  ye_load :: "pstr \<Rightarrow> pyval res option"
  ye_expand :: "pstr \<Rightarrow> pstr res"
  ye_exists :: "pstr \<Rightarrow> bool"
  ye_str :: "pyval \<Rightarrow> pstr"
  ye_int :: "nat \<Rightarrow> int res"

record config =
  cf_host :: pstr
  cf_port :: "int option"
  cf_bootstrap :: "pstr list"
  cf_datastore :: pstr
  cf_mapsize :: "int option"
  cf_verbosity :: int

record client_config = config +
  cf_owner_key :: "pstr option"

definition default_host :: pstr where "default_host = lit ''127.0.0.1''"
definition default_server_datastore :: pstr where "default_server_datastore = lit ''~/.decent/registry''"
definition default_cli_datastore :: pstr where
  "default_cli_datastore = lit ''.scratch/decent-registry.lmdb''"

subsection \<open>Conversions\<close>

fun py_int :: "yaml_env \<Rightarrow> pyval \<Rightarrow> int res" where
  "py_int Y (PInt i) = Inr i"
| "py_int Y (PBool b) = Inr (if b then 1 else 0)"
| "py_int Y (PNum i _) = Inr i"
| "py_int Y (PStr s) = getE (Value_error ''invalid literal for int()'') (int_of_text s)"
| "py_int Y (PBytes b) =
     getE (Value_error ''invalid literal for int()'') (int_of_ascii (map unat b))"
| "py_int Y (PObj n) = ye_int Y n"
| "py_int Y _ = Inl (Type_error ''int() argument must be a string or a number'')"

definition coerce_int :: "yaml_env \<Rightarrow> pyval \<Rightarrow> string \<Rightarrow> int res" where
  "coerce_int Y v name =
     (case v of
        PBool _ \<Rightarrow> Inl (Value_error (name @ '' must be an integer''))
      | _ \<Rightarrow> wrapE (py_int Y v) (Value_error (name @ '' must be an integer'')))"

definition coerce_list_str :: "pyval \<Rightarrow> string \<Rightarrow> pstr list res" where
  "coerce_list_str v name =
     (case v of
        PNone \<Rightarrow> Inr []
      | PStr s \<Rightarrow> Inr [s]
      | PList vs \<Rightarrow> mapE (\<lambda>x. case x of PStr s \<Rightarrow> Inr s
          | _ \<Rightarrow> Inl (Value_error (name @ '' must be a list of strings''))) vs
      | _ \<Rightarrow> Inl (Value_error (name @ '' must be a list of strings'')))"

definition expand_path :: "yaml_env \<Rightarrow> pyval \<Rightarrow> pstr res" where
  "expand_path Y v =
     (case v of PStr s \<Rightarrow> ye_expand Y s | _ \<Rightarrow> Inl (Type_error ''expected str or os.PathLike''))"

subsection \<open>The file\<close>

definition load_yaml_file :: "yaml_env \<Rightarrow> pstr \<Rightarrow> pydict res" where
  "load_yaml_file Y path =
     (case ye_load Y path of
        None \<Rightarrow> Inr []
      | Some data \<Rightarrow>
          bindE data (\<lambda>v.
          case v of
            PNone \<Rightarrow> Inr []
          | PDict d \<Rightarrow> Inr d
          | _ \<Rightarrow> Inl (Value_error ''Config root must be a mapping'')))"

text \<open>\<open>d.get(key, default)\<close> on a dictionary with string keys, and on any value (a value that is not
  a dictionary has no attribute \<open>get\<close>).\<close>

fun get_text :: "pydict \<Rightarrow> string \<Rightarrow> pyval option" where
  "get_text [] k = None"
| "get_text ((key, v) # d) k = (if key = PStr (lit k) then Some v else get_text d k)"

definition get_or :: "pydict \<Rightarrow> string \<Rightarrow> pyval \<Rightarrow> pyval" where
  "get_or d k dflt = (case get_text d k of None \<Rightarrow> dflt | Some v \<Rightarrow> v)"

definition get_of :: "pyval \<Rightarrow> string \<Rightarrow> pyval \<Rightarrow> pyval res" where
  "get_of v k dflt = (case v of PDict d \<Rightarrow> Inr (get_or d k dflt) | _ \<Rightarrow> Inl Attribute_error)"

fun truthy :: "pyval \<Rightarrow> bool" where
  "truthy PNone = False"
| "truthy (PBool b) = b"
| "truthy (PInt i) = (i \<noteq> 0)"
| "truthy (PNum i _) = (i \<noteq> 0)"
| "truthy (PStr s) = (s \<noteq> [])"
| "truthy (PBytes b) = (b \<noteq> [])"
| "truthy (PList vs) = (vs \<noteq> [])"
| "truthy (PDict d) = (d \<noteq> [])"
| "truthy (PObj _) = True"

definition py_text :: "yaml_env \<Rightarrow> pyval \<Rightarrow> pstr" where
  "py_text Y v = (case v of PStr s \<Rightarrow> s | _ \<Rightarrow> ye_str Y v)"

text \<open>An optional integer of a section: absent or null is \<open>None\<close>.\<close>

definition optional_int :: "yaml_env \<Rightarrow> pyval \<Rightarrow> string \<Rightarrow> string \<Rightarrow> int option res" where
  "optional_int Y section k name =
     (case section of
        PDict d \<Rightarrow>
          (case get_text d k of
             None \<Rightarrow> Inr None
           | Some PNone \<Rightarrow> Inr None
           | Some v \<Rightarrow> bindE (coerce_int Y v name) (\<lambda>i. Inr (Some i)))
      | _ \<Rightarrow> Inr None)"

definition load_sections :: "yaml_env \<Rightarrow> pstr \<Rightarrow> pydict \<Rightarrow> config res" where
  "load_sections Y default_datastore raw =
     (let network = get_or raw ''network'' (PDict []);
          datastore = get_or raw ''datastore'' (PDict []);
          logging = get_or raw ''logging'' (PDict []) in
      bindE (if truthy network
        then bindE (get_of network ''host'' (PStr default_host)) (\<lambda>v. Inr (py_text Y v))
        else Inr default_host) (\<lambda>host.
      bindE (optional_int Y network ''port'' ''network.port'') (\<lambda>port.
      bindE (bindE (get_of network ''bootstrap'' (PList [])) (\<lambda>v.
        coerce_list_str v ''network.bootstrap'')) (\<lambda>bootstrap.
      bindE (bindE (get_of datastore ''path'' (PStr default_datastore)) (expand_path Y)) (\<lambda>path.
      bindE (optional_int Y datastore ''mapsize_bytes'' ''datastore.mapsize_bytes'') (\<lambda>mapsize.
      bindE (case logging of
          PDict d \<Rightarrow> coerce_int Y (get_or d ''verbosity'' (PInt 0)) ''logging.verbosity''
        | _ \<Rightarrow> Inr 0) (\<lambda>verbosity.
      Inr \<lparr>cf_host = host, cf_port = port, cf_bootstrap = bootstrap, cf_datastore = path,
           cf_mapsize = mapsize, cf_verbosity = verbosity\<rparr>)))))))"

definition load_server_config :: "yaml_env \<Rightarrow> pstr \<Rightarrow> config res" where
  "load_server_config Y config_path =
     bindE (load_yaml_file Y config_path) (load_sections Y default_server_datastore)"

definition load_client_config :: "yaml_env \<Rightarrow> pstr \<Rightarrow> client_config res" where
  "load_client_config Y config_path =
     bindE (load_yaml_file Y config_path) (\<lambda>raw.
     bindE (load_sections Y default_cli_datastore raw) (\<lambda>c.
     bindE (case get_or raw ''crypto'' (PDict []) of
         PDict d \<Rightarrow>
           (case get_or d ''owner_privkey_pem_path'' PNone of
              PNone \<Rightarrow> Inr None
            | v \<Rightarrow> bindE (expand_path Y v) (\<lambda>p. Inr (Some p)))
       | _ \<Rightarrow> Inr None) (\<lambda>owner_key.
     Inr (config.extend c \<lparr>cf_owner_key = owner_key\<rparr>))))"

subsection \<open>The command line\<close>

text \<open>The arguments that override a setting; \<open>None\<close> where the option was not given.\<close>

record overrides =
  ar_host :: "pstr option"
  ar_port :: "int option"
  ar_bootstrap :: "pstr list option"
  ar_datastore_path :: "pstr option"
  ar_mapsize :: "int option"
  ar_verbose :: "int option"
  ar_owner_privkey :: "pstr option"

definition override :: "'a option \<Rightarrow> 'a \<Rightarrow> 'a" where
  "override x y = (case x of None \<Rightarrow> y | Some v \<Rightarrow> v)"

definition override_path :: "yaml_env \<Rightarrow> pstr option \<Rightarrow> 'a \<Rightarrow> (pstr \<Rightarrow> 'a) \<Rightarrow> 'a res" where
  "override_path Y x y f =
     (case x of None \<Rightarrow> Inr y | Some p \<Rightarrow> bindE (expand_path Y (PStr p)) (\<lambda>q. Inr (f q)))"

definition apply_overrides :: "yaml_env \<Rightarrow> 'a config_scheme \<Rightarrow> overrides \<Rightarrow> 'a config_scheme res" where
  "apply_overrides Y c a =
     (let c = c\<lparr>cf_host := override (ar_host a) (cf_host c)\<rparr>;
          c = c\<lparr>cf_port := override (map_option Some (ar_port a)) (cf_port c)\<rparr>;
          c = c\<lparr>cf_bootstrap := override (ar_bootstrap a) (cf_bootstrap c)\<rparr> in
      bindE (override_path Y (ar_datastore_path a) c (\<lambda>p. c\<lparr>cf_datastore := p\<rparr>)) (\<lambda>c.
      Inr (c\<lparr>cf_mapsize := override (map_option Some (ar_mapsize a)) (cf_mapsize c),
             cf_verbosity := override (ar_verbose a) (cf_verbosity c)\<rparr>)))"

definition apply_cli_overrides_to_server :: "yaml_env \<Rightarrow> config \<Rightarrow> overrides \<Rightarrow> config res" where
  "apply_cli_overrides_to_server Y c a = apply_overrides Y c a"

definition apply_cli_overrides_to_client ::
  "yaml_env \<Rightarrow> client_config \<Rightarrow> overrides \<Rightarrow> client_config res" where
  "apply_cli_overrides_to_client Y c a =
     bindE (apply_overrides Y c a) (\<lambda>c.
     override_path Y (ar_owner_privkey a) c (\<lambda>p. c\<lparr>cf_owner_key := Some p\<rparr>))"

subsection \<open>The checks\<close>

fun check_bootstrap :: "pstr list \<Rightarrow> unit res" where
  "check_bootstrap [] = Inr ()"
| "check_bootstrap (s # ss) =
     (if starts_with [47] s then check_bootstrap ss
      else Inl (Value_error
        ''network.bootstrap entries must be multiaddr strings''))"

definition resolve_config :: "yaml_env \<Rightarrow> string \<Rightarrow> 'a config_scheme \<Rightarrow> 'a config_scheme res" where
  "resolve_config Y port_hint c =
     (case cf_port c of
        None \<Rightarrow> Inl (Value_error (''network.port is required '' @ port_hint))
      | Some port \<Rightarrow>
          if cf_host c = [] then Inl (Value_error ''network.host must be a non-empty string'')
          else if \<not> (1 \<le> port \<and> port \<le> 65535)
          then Inl (Value_error ''network.port must be in range 1..65535'')
          else if cf_verbosity c < 0 then Inl (Value_error ''logging.verbosity must be >= 0'')
          else bindE (check_bootstrap (cf_bootstrap c)) (\<lambda>_.
            bindE (expand_path Y (PStr (cf_datastore c))) (\<lambda>p. Inr (c\<lparr>cf_datastore := p\<rparr>))))"

definition resolve_server_config :: "yaml_env \<Rightarrow> config \<Rightarrow> config res" where
  "resolve_server_config Y c =
     resolve_config Y ''(put it in ~/.decent/registry.yaml or pass --port)'' c"

definition resolve_client_config :: "yaml_env \<Rightarrow> client_config \<Rightarrow> client_config res" where
  "resolve_client_config Y c =
     resolve_config Y ''(put it in the CLI config or pass --port)'' c"

definition resolve_required_owner_privkey_pem_path :: "yaml_env \<Rightarrow> client_config \<Rightarrow> pstr res" where
  "resolve_required_owner_privkey_pem_path Y c =
     (case cf_owner_key c of
        None \<Rightarrow> Inl (Value_error ''owner private key is required'')
      | Some p \<Rightarrow>
          bindE (ye_expand Y p) (\<lambda>q.
          if ye_exists Y q then Inr p
          else Inl (Value_error ''owner private key file does not exist'')))"

subsection \<open>What the settings are\<close>

text \<open>The settings that a command runs with.\<close>

definition server_settings :: "yaml_env \<Rightarrow> pstr \<Rightarrow> overrides \<Rightarrow> config res" where
  "server_settings Y path a =
     bindE (load_server_config Y path) (\<lambda>c.
     bindE (apply_cli_overrides_to_server Y c a) (resolve_server_config Y))"

definition client_settings :: "yaml_env \<Rightarrow> pstr \<Rightarrow> overrides \<Rightarrow> client_config res" where
  "client_settings Y path a =
     bindE (load_client_config Y path) (\<lambda>c.
     bindE (apply_cli_overrides_to_client Y c a) (resolve_client_config Y))"

end
