(* ===== verification/Config_Properties.thy ===== *)
theory Config_Properties
  imports Config
begin

text \<open>
  What holds of the settings a command runs with: they are in range, the command line takes
  precedence over the file, and the file over the defaults. An empty section of the file is not
  treated like a missing one.
\<close>

text \<open>A checked configuration that comes from \<open>c0\<close> and the arguments.\<close>

definition settings_from ::
  "yaml_env \<Rightarrow> 'a config_scheme \<Rightarrow> overrides \<Rightarrow> 'a config_scheme \<Rightarrow> bool" where
  "settings_from Y c0 a c =
     ((\<exists>port. cf_port c = Some port \<and> 1 \<le> port \<and> port \<le> 65535) \<and> cf_host c \<noteq> [] \<and>
      0 \<le> cf_verbosity c \<and> (\<forall>s \<in> set (cf_bootstrap c). starts_with [47] s) \<and>
      cf_host c = override (ar_host a) (cf_host c0) \<and>
      cf_port c = (if ar_port a = None then cf_port c0 else ar_port a) \<and>
      cf_bootstrap c = override (ar_bootstrap a) (cf_bootstrap c0) \<and>
      cf_mapsize c = (if ar_mapsize a = None then cf_mapsize c0 else ar_mapsize a) \<and>
      cf_verbosity c = override (ar_verbose a) (cf_verbosity c0) \<and>
      (\<exists>p. bindE (case ar_datastore_path a of None \<Rightarrow> Inr (cf_datastore c0) | Some q \<Rightarrow> ye_expand Y q)
             (ye_expand Y) = Inr p \<and> cf_datastore c = p))"

lemma override_Some: "override (map_option Some x) y = (if x = None then y else x)"
  by (cases x) (simp_all add: override_def)

lemma check_bootstrap_Inr: "(check_bootstrap ss = Inr ()) = (\<forall>s \<in> set ss. starts_with [47] s)"
  by (induction ss) auto

lemma resolve_config_Inr:
  assumes "resolve_config Y hint c = Inr c'"
  obtains port p where "cf_port c = Some port" and "1 \<le> port" and "port \<le> 65535"
    and "cf_host c \<noteq> []" and "0 \<le> cf_verbosity c" and "\<forall>s \<in> set (cf_bootstrap c). starts_with [47] s"
    and "ye_expand Y (cf_datastore c) = Inr p" and "c' = c\<lparr>cf_datastore := p\<rparr>"
  using assms
  by (auto simp: resolve_config_def res_simps check_bootstrap_Inr expand_path_def split: option.splits)

lemma apply_overrides_Inr:
  assumes "apply_overrides Y c0 a = Inr c"
  shows "cf_host c = override (ar_host a) (cf_host c0)"
    and "cf_port c = (if ar_port a = None then cf_port c0 else ar_port a)"
    and "cf_bootstrap c = override (ar_bootstrap a) (cf_bootstrap c0)"
    and "cf_mapsize c = (if ar_mapsize a = None then cf_mapsize c0 else ar_mapsize a)"
    and "cf_verbosity c = override (ar_verbose a) (cf_verbosity c0)"
    and "(case ar_datastore_path a of None \<Rightarrow> Inr (cf_datastore c0) | Some q \<Rightarrow> ye_expand Y q) =
      Inr (cf_datastore c)"
    and "config.more c = config.more c0"
  using assms
  by (auto simp: apply_overrides_def override_path_def expand_path_def override_Some res_simps Let_def
      split: option.splits)

lemma settings_from_resolved:
  assumes "apply_overrides Y c0 a = Inr c1" and "resolve_config Y hint c1 = Inr c"
  shows "settings_from Y c0 a c"
  using assms(2)
proof (rule resolve_config_Inr)
  fix port p
  assume "cf_port c1 = Some port" "1 \<le> port" "port \<le> 65535" "cf_host c1 \<noteq> []" "0 \<le> cf_verbosity c1"
    "\<forall>s \<in> set (cf_bootstrap c1). starts_with [47] s" "ye_expand Y (cf_datastore c1) = Inr p"
    "c = c1\<lparr>cf_datastore := p\<rparr>"
  then show ?thesis
    using apply_overrides_Inr [OF assms(1)] by (simp add: settings_from_def)
qed

lemma owner_key_override:
  assumes "override_path Y x c (\<lambda>p. c\<lparr>cf_owner_key := Some p\<rparr>) = Inr c'"
  shows "\<exists>k. c' = c\<lparr>cf_owner_key := k\<rparr> \<and>
    (case x of None \<Rightarrow> k = cf_owner_key c | Some q \<Rightarrow> \<exists>p. ye_expand Y q = Inr p \<and> k = Some p)"
  using assms
  by (cases x) (auto simp: override_path_def expand_path_def res_simps)

text \<open>
  A command runs with valid settings. When the settings of the server or of the client are
  returned, the port is in range, the host is not empty, the verbosity not negative and every
  bootstrap entry starts with a slash; and each setting is the one on the command line if it was
  given there, otherwise that of the loaded file.
\<close>
lemma settings_valid:
  "(server_settings Y path a = Inr c \<longrightarrow>
      (\<exists>c0. load_server_config Y path = Inr c0 \<and> settings_from Y c0 a c)) \<and>
   (client_settings Y path a = Inr d \<longrightarrow>
      (\<exists>d0 k. load_client_config Y path = Inr d0 \<and> settings_from Y (d0\<lparr>cf_owner_key := k\<rparr>) a d \<and>
        cf_owner_key d = k \<and> (case ar_owner_privkey a of None \<Rightarrow> k = cf_owner_key d0
          | Some q \<Rightarrow> \<exists>p. ye_expand Y q = Inr p \<and> k = Some p)))"
proof (intro conjI impI)
  assume "server_settings Y path a = Inr c"
  then show "\<exists>c0. load_server_config Y path = Inr c0 \<and> settings_from Y c0 a c"
    by (auto simp: server_settings_def apply_cli_overrides_to_server_def resolve_server_config_def
        bindE_Inr intro: settings_from_resolved)
next
  assume "client_settings Y path a = Inr d"
  then obtain d0 d1 d2 where d: "load_client_config Y path = Inr d0" "apply_overrides Y d0 a = Inr d1"
      "override_path Y (ar_owner_privkey a) d1 (\<lambda>p. d1\<lparr>cf_owner_key := Some p\<rparr>) = Inr d2"
      "resolve_config Y ''(put it in the CLI config or pass --port)'' d2 = Inr d"
    by (auto simp: client_settings_def apply_cli_overrides_to_client_def resolve_client_config_def
        bindE_Inr)
  obtain k where k: "d2 = d1\<lparr>cf_owner_key := k\<rparr>"
      "case ar_owner_privkey a of None \<Rightarrow> k = cf_owner_key d1
       | Some q \<Rightarrow> \<exists>p. ye_expand Y q = Inr p \<and> k = Some p"
    using owner_key_override [OF d(3)] by blast
  have same: "cf_owner_key d1 = cf_owner_key d0"
    using apply_overrides_Inr(7) [OF d(2)] by (cases d0; cases d1) simp
  have "apply_overrides Y (d0\<lparr>cf_owner_key := k\<rparr>) a = Inr d2"
    using d(2) k(1)
    by (auto simp: apply_overrides_def override_path_def res_simps Let_def expand_path_def
        split: option.splits)
  from settings_from_resolved [OF this d(4)] have "settings_from Y (d0\<lparr>cf_owner_key := k\<rparr>) a d" .
  moreover have "cf_owner_key d = k"
    using d(4) k(1) by (elim resolve_config_Inr) simp
  ultimately show "\<exists>d0 k. load_client_config Y path = Inr d0 \<and>
      settings_from Y (d0\<lparr>cf_owner_key := k\<rparr>) a d \<and> cf_owner_key d = k \<and>
      (case ar_owner_privkey a of None \<Rightarrow> k = cf_owner_key d0
       | Some q \<Rightarrow> \<exists>p. ye_expand Y q = Inr p \<and> k = Some p)"
    using d(1) k(2) same by (auto split: option.splits)
qed

text \<open>
  A section that is present but empty is \<open>null\<close> in YAML: the default for a missing section does not
  apply, and the attribute \<open>get\<close> is looked up on \<open>None\<close>.
\<close>

lemma empty_section_raises:
  assumes "load_yaml_file Y path = Inr raw" and "get_text raw ''network'' = Some PNone"
  shows "load_server_config Y path = Inl Attribute_error"
    and "load_client_config Y path = Inl Attribute_error"
  using assms
  by (simp_all add: load_server_config_def load_client_config_def load_sections_def get_or_def
      optional_int_def get_of_def)

subsection \<open>A concrete file\<close>

text \<open>The file has a port and a verbosity; the command line overrides the port.\<close>

definition sample_env :: yaml_env where
  "sample_env = \<lparr>ye_load = (\<lambda>p. Some (Inr (PDict
       [(PStr (lit ''network''), PDict [(PStr (lit ''port''), PStr (lit ''8000''))]),
        (PStr (lit ''logging''), PDict [(PStr (lit ''verbosity''), PInt 1)])]))),
     ye_expand = Inr, ye_exists = (\<lambda>_. True), ye_str = (\<lambda>_. []), ye_int = (\<lambda>n. Inr (int n))\<rparr>"

definition sample_args :: overrides where
  "sample_args = \<lparr>ar_host = None, ar_port = Some 8001, ar_bootstrap = Some [[47, 112]],
     ar_datastore_path = None, ar_mapsize = None, ar_verbose = None, ar_owner_privkey = None\<rparr>"

lemma sample_int: "int_of_text [56, 48, 48, 48] = Some 8000"
  by code_simp

lemma settings_valid_witness:
  "\<exists>c d c0 d0 k. server_settings sample_env [] sample_args = Inr c \<and>
     client_settings sample_env [] sample_args = Inr d \<and> cf_port c = Some 8001 \<and>
     settings_from sample_env c0 sample_args c \<and>
     settings_from sample_env (d0\<lparr>cf_owner_key := k\<rparr>) sample_args d"
proof -
  have "\<exists>c. server_settings sample_env [] sample_args = Inr c \<and> cf_port c = Some 8001"
    by (simp add: server_settings_def load_server_config_def load_yaml_file_def load_sections_def
        get_or_def get_of_def optional_int_def coerce_int_def coerce_list_str_def expand_path_def
        apply_cli_overrides_to_server_def apply_overrides_def override_def override_path_def
        resolve_server_config_def resolve_config_def py_text_def sample_env_def sample_args_def sample_int
        default_host_def starts_with_def Let_def lit_def)
  moreover have "\<exists>d. client_settings sample_env [] sample_args = Inr d"
    by (simp add: client_settings_def load_client_config_def load_yaml_file_def load_sections_def
        get_or_def get_of_def optional_int_def coerce_int_def coerce_list_str_def expand_path_def
        apply_cli_overrides_to_client_def apply_overrides_def override_def override_path_def
        resolve_client_config_def resolve_config_def py_text_def sample_env_def sample_args_def sample_int
        default_host_def starts_with_def Let_def lit_def config.defs)
  ultimately show ?thesis using settings_valid by blast
qed

end
