(* ===== verification/Dht_Lifecycle.thy ===== *)
theory Dht_Lifecycle
  imports Dht_Adapter Routing_Eligibility
begin

text \<open>
  The life of a node in \<open>dht/libp2p_dht.py\<close>: \<open>Libp2pKadDHT\<close> as an asynchronous context manager
  (\<open>__aenter__\<close>, \<open>__aexit__\<close>), with the opening and closing of the store in \<open>durable_store.py\<close>,
  the installation of the routing gate, and \<open>bootstrap\<close> and \<open>get_listen_multiaddr\<close>.

  A \<open>session\<close> is what the two objects hold: whether the store's \<open>_env\<close> is set, whether
  \<open>_host_ctx\<close>, \<open>_dht_ctx\<close> and \<open>_dht\<close> are, and the routing gate, whose world is the \<open>node\<close> of
  \<open>Dht_Acceptance\<close>. Whatever \<open>libp2p\<close> and LMDB do is a field of \<open>session_env\<close>.
\<close>

record ('db, 'v, 'n, 'p) session =
  se_env :: bool
  se_host_ctx :: bool
  se_dht_ctx :: bool
  se_dht :: bool
  se_gate :: "('p, ('db, 'v, 'n) node) gate"

text \<open>
  \<open>sv_durable\<close>: whether a durable store is configured. \<open>sv_mkdir subdir\<close> makes the store's
  directory, or the parent of its file; \<open>sv_lmdb_open subdir\<close>, \<open>sv_open_db\<close>, \<open>sv_lmdb_close\<close> are
  LMDB's calls. \<open>sv_host_enter\<close>, \<open>sv_host_exit\<close>, \<open>sv_dht_enter\<close>, \<open>sv_dht_exit\<close> enter and leave
  the contexts of the host and of the DHT service; \<open>sv_kad_new\<close> constructs the \<open>KadDHT\<close>,
  \<open>sv_register\<close> registers the value validator, \<open>sv_table\<close> are the peers in its buckets.
  \<open>sv_peer_info\<close> parses a peer's address, \<open>sv_connect\<close> connects to it, and \<open>sv_find_self\<close> is the
  lookup of the node's own id, given up after ten seconds.
\<close>

record ('db, 'v, 'n, 'p, 'i, 'a) session_env =
  sv_routing :: "('p, 'i, ('db, 'v, 'n) node) routing"
  sv_table :: "('db, 'v, 'n) node \<Rightarrow> 'p list"
  sv_durable :: bool
  sv_path_exists :: "('db, 'v, 'n) node \<Rightarrow> bool"
  sv_path_is_dir :: "('db, 'v, 'n) node \<Rightarrow> bool"
  sv_path_suffix :: string
  sv_mkdir :: "bool \<Rightarrow> (('db, 'v, 'n) node, unit) act"
  sv_lmdb_open :: "bool \<Rightarrow> (('db, 'v, 'n) node, unit) act"
  sv_open_db :: "string \<Rightarrow> (('db, 'v, 'n) node, unit) act"
  sv_lmdb_close :: "(('db, 'v, 'n) node, unit) act"
  sv_host_enter :: "(('db, 'v, 'n) node, unit) act"
  sv_host_exit :: "(('db, 'v, 'n) node, unit) act"
  sv_kad_new :: "(('db, 'v, 'n) node, unit) act"
  sv_register :: "(('db, 'v, 'n) node, unit) act"
  sv_dht_enter :: "(('db, 'v, 'n) node, unit) act"
  sv_dht_exit :: "(('db, 'v, 'n) node, unit) act"
  sv_peer_info :: "pstr \<Rightarrow> 'a res"
  sv_connect :: "'a \<Rightarrow> (('db, 'v, 'n) node, unit) act"
  sv_find_self :: "(('db, 'v, 'n) node, unit) act"
  sv_addrs :: "('db, 'v, 'n) node \<Rightarrow> pstr list"

abbreviation se_node :: "('db, 'v, 'n, 'p) session \<Rightarrow> ('db, 'v, 'n) node" where
  "se_node s \<equiv> gt_world (se_gate s)"

definition on_node :: "(('db, 'v, 'n) node, 'a) act \<Rightarrow> (('db, 'v, 'n, 'p) session, 'a) act" where
  "on_node m = (\<lambda>s. case on_world m (se_gate s) of (r, g) \<Rightarrow> (r, s\<lparr>se_gate := g\<rparr>))"

definition set_session ::
  "(('db, 'v, 'n, 'p) session \<Rightarrow> ('db, 'v, 'n, 'p) session) \<Rightarrow> (('db, 'v, 'n, 'p) session, unit) act" where
  "set_session f = (\<lambda>s. (Inr (), f s))"

subsection \<open>The store's environment\<close>

definition store_open :: "('db, 'v, 'n, 'p, 'i, 'a) session_env \<Rightarrow> (('db, 'v, 'n, 'p) session, unit) act" where
  "store_open V = (\<lambda>s.
     if se_env s then (Inr (), s)
     else
       let subdir = open_subdir (sv_path_exists V (se_node s)) (sv_path_is_dir V (se_node s))
             (sv_path_suffix V) in
       bindA (on_node (sv_mkdir V subdir)) (\<lambda>_.
       bindA (on_node (sv_lmdb_open V subdir)) (\<lambda>_.
       bindA (on_node (sv_open_db V ''provider'')) (\<lambda>_.
       bindA (on_node (sv_open_db V ''identity'')) (\<lambda>_.
       bindA (on_node (sv_open_db V ''accepted'')) (\<lambda>_.
       set_session (\<lambda>s. s\<lparr>se_env := True\<rparr>)))))) s)"

definition store_close :: "('db, 'v, 'n, 'p, 'i, 'a) session_env \<Rightarrow> (('db, 'v, 'n, 'p) session, unit) act" where
  "store_close V = (\<lambda>s.
     if \<not> se_env s then (Inr (), s)
     else bindA (on_node (sv_lmdb_close V)) (\<lambda>_. set_session (\<lambda>s. s\<lparr>se_env := False\<rparr>)) s)"

text \<open>\<open>if self._durable_store is not None: self._durable_store.close()\<close>.\<close>

definition close_durable :: "('db, 'v, 'n, 'p, 'i, 'a) session_env \<Rightarrow> (('db, 'v, 'n, 'p) session, unit) act" where
  "close_durable V = (if sv_durable V then store_close V else pureA (Inr ()))"

subsection \<open>Starting and stopping\<close>

definition node_mode :: "('db, 'v, 'n) node \<Rightarrow> dht_mode" where
  "node_mode d = (if nd_server d then Server else Client)"

text \<open>The gate is installed on the DHT just constructed, in the mode the adapter was made for.\<close>

definition install_gate :: "('db, 'v, 'n, 'p, 'i, 'a) session_env \<Rightarrow> (('db, 'v, 'n, 'p) session, unit) act" where
  "install_gate V = (\<lambda>s.
     case install_dht_serving_eligibility (sv_routing V) (node_mode (se_node s))
       (sv_table V (se_node s)) (se_node s) of (r, g) \<Rightarrow> (r, s\<lparr>se_gate := g\<rparr>))"

text \<open>Afterwards a mode switch of the DHT reaches the adapter through \<open>on_mode_changed\<close>.\<close>

definition session_switch_mode ::
  "('db, 'v, 'n, 'p, 'i, 'a) session_env \<Rightarrow> dht_mode \<Rightarrow> (('db, 'v, 'n, 'p) session, dht_mode) act" where
  "session_switch_mode V new_mode = (\<lambda>s.
     case switch_mode (sv_routing V) (Some (\<lambda>m d. (Inr (), d\<lparr>nd_server := (m = Server)\<rparr>))) new_mode
       (se_gate s) of (r, g) \<Rightarrow> (r, s\<lparr>se_gate := g\<rparr>))"

definition start_host :: "('db, 'v, 'n, 'p, 'i, 'a) session_env \<Rightarrow> (('db, 'v, 'n, 'p) session, unit) act" where
  "start_host V =
     bindA (set_session (\<lambda>s. s\<lparr>se_host_ctx := True\<rparr>)) (\<lambda>_.
     tryA (on_node (sv_host_enter V)) (\<lambda>e.
       bindA (set_session (\<lambda>s. s\<lparr>se_host_ctx := False\<rparr>)) (\<lambda>_.
       bindA (close_durable V) (\<lambda>_. pureA (Inl e)))))"

definition set_up_dht :: "('db, 'v, 'n, 'p, 'i, 'a) session_env \<Rightarrow> (('db, 'v, 'n, 'p) session, unit) act" where
  "set_up_dht V =
     bindA (on_node (sv_kad_new V)) (\<lambda>_.
     bindA (set_session (\<lambda>s. s\<lparr>se_dht := True\<rparr>)) (\<lambda>_.
     bindA (install_gate V) (\<lambda>_. on_node (sv_register V))))"

definition start_dht :: "('db, 'v, 'n, 'p, 'i, 'a) session_env \<Rightarrow> (('db, 'v, 'n, 'p) session, unit) act" where
  "start_dht V =
     bindA (set_session (\<lambda>s. s\<lparr>se_dht_ctx := True\<rparr>)) (\<lambda>_.
     tryA (on_node (sv_dht_enter V)) (\<lambda>e.
       bindA (\<lambda>s. if se_host_ctx s then on_node (sv_host_exit V) s else (Inr (), s)) (\<lambda>_.
       bindA (set_session (\<lambda>s. s\<lparr>se_dht_ctx := False, se_host_ctx := False\<rparr>)) (\<lambda>_.
       bindA (close_durable V) (\<lambda>_. pureA (Inl e))))))"

definition start_adapter :: "('db, 'v, 'n, 'p, 'i, 'a) session_env \<Rightarrow> (('db, 'v, 'n, 'p) session, unit) act" where
  "start_adapter V =
     bindA (if sv_durable V then store_open V else pureA (Inr ())) (\<lambda>_.
     bindA (start_host V) (\<lambda>_.
     bindA (set_up_dht V) (\<lambda>_. start_dht V)))"

text \<open>Leaving a context whose failure is suppressed.\<close>

definition leave_context ::
  "bool \<Rightarrow> (('db, 'v, 'n) node, unit) act \<Rightarrow> (('db, 'v, 'n, 'p) session, unit) act" where
  "leave_context entered exit =
     (if entered then tryA (on_node exit) (\<lambda>_. pureA (Inr ())) else pureA (Inr ()))"

definition stop_adapter :: "('db, 'v, 'n, 'p, 'i, 'a) session_env \<Rightarrow> (('db, 'v, 'n, 'p) session, unit) act" where
  "stop_adapter V =
     bindA (\<lambda>s. leave_context (se_dht_ctx s) (sv_dht_exit V) s) (\<lambda>_.
     bindA (\<lambda>s. leave_context (se_host_ctx s) (sv_host_exit V) s) (\<lambda>_.
     close_durable V))"

text \<open>\<open>async with Libp2pKadDHT(...) as dht\<close>.\<close>

definition with_adapter ::
  "('db, 'v, 'n, 'p, 'i, 'a) session_env \<Rightarrow> (('db, 'v, 'n, 'p) session, 'r) act \<Rightarrow>
   (('db, 'v, 'n, 'p) session, 'r) act" where
  "with_adapter V body = bindA (start_adapter V) (\<lambda>_. finallyA body (stop_adapter V))"

text \<open>The objects as they are constructed, around a node.\<close>

definition new_session :: "('db, 'v, 'n) node \<Rightarrow> ('db, 'v, 'n, 'p) session" where
  "new_session d = \<lparr>se_env = False, se_host_ctx = False, se_dht_ctx = False, se_dht = False,
     se_gate = \<lparr>gt_expires = [], gt_handler = False, gt_world = d\<rparr>\<rparr>"

subsection \<open>Addresses\<close>

definition contains :: "pstr \<Rightarrow> pstr \<Rightarrow> bool" where
  "contains part s = fst (snd (partition_str part s))"

definition get_listen_multiaddr ::
  "('db, 'v, 'n, 'p, 'i, 'a) session_env \<Rightarrow> ('db, 'v, 'n, 'p) session \<Rightarrow> pstr res" where
  "get_listen_multiaddr V s =
     getE (Runtime_error ''no tcp addr'') (find (contains (lit ''/tcp/'')) (sv_addrs V (se_node s)))"

definition bootstrap ::
  "('db, 'v, 'n, 'p, 'i, 'a) session_env \<Rightarrow> pstr \<Rightarrow> (('db, 'v, 'n, 'p) session, unit) act" where
  "bootstrap V address =
     (if \<not> contains (lit ''/p2p/'') address
      then pureA (Inl (Value_error ''bootstrap requires destination with /p2p/<peerid>''))
      else bindA (pureA (sv_peer_info V address)) (\<lambda>peer_info.
        bindA (on_node (sv_connect V peer_info)) (\<lambda>_.
        bindA (on_node (\<lambda>d. (Inr (), if address \<in> set (nd_bootstrap d) then d
          else d\<lparr>nd_bootstrap := nd_bootstrap d @ [address]\<rparr>))) (\<lambda>_ s.
        if se_dht s then on_node (sv_find_self V) s else (Inr (), s)))))"

end
