(* ===== verification/Lifecycle_Properties.thy ===== *)
theory Lifecycle_Properties
  imports Dht_Lifecycle
begin

text \<open>
  What a session leaves behind. The resources a node holds outside Python's heap are LMDB's
  environment, the listening host and the DHT service; \<open>up\<close> says which of them a state of the node
  holds. \<open>resource_laws\<close> is the documented behaviour of the contexts: entering one acquires it or
  raises and acquires nothing, leaving one releases it.
\<close>

datatype resource = Store_env | Host | Dht_service

definition gains :: "('d \<Rightarrow> resource set) \<Rightarrow> ('d, unit) act \<Rightarrow> resource \<Rightarrow> bool" where
  "gains up m x = (\<forall>d r d'. m d = (r, d') \<longrightarrow> up d' = (if is_ok r then insert x (up d) else up d))"

definition frees :: "('d \<Rightarrow> resource set) \<Rightarrow> ('d, unit) act \<Rightarrow> resource \<Rightarrow> bool" where
  "frees up m x = (\<forall>d r d'. m d = (r, d') \<longrightarrow> up d' = up d - {x})"

definition holds_on :: "('d \<Rightarrow> resource set) \<Rightarrow> ('d, 'a) act \<Rightarrow> bool" where
  "holds_on up m = (\<forall>d r d'. m d = (r, d') \<longrightarrow> up d' = up d)"

definition resource_laws ::
  "('db, 'v, 'n, 'p, 'i, 'a) session_env \<Rightarrow> (('db, 'v, 'n) node \<Rightarrow> resource set) \<Rightarrow> bool" where
  "resource_laws V up =
     ((\<forall>b. holds_on up (sv_mkdir V b)) \<and> (\<forall>b. gains up (sv_lmdb_open V b) Store_env) \<and>
      (\<forall>n. holds_on up (sv_open_db V n)) \<and> frees up (sv_lmdb_close V) Store_env \<and>
      gains up (sv_host_enter V) Host \<and> frees up (sv_host_exit V) Host \<and>
      holds_on up (sv_kad_new V) \<and> holds_on up (sv_register V) \<and>
      (\<forall>p. holds_on up (rt_remove (sv_routing V) p)) \<and>
      gains up (sv_dht_enter V) Dht_service \<and> frees up (sv_dht_exit V) Dht_service)"

text \<open>
  What the start of a session does not guard against. \<open>undisturbed\<close>: opening LMDB's databases returns, and
  so do the calls between the start of the host and that of the DHT service; the host, when it is left
  because the DHT service did not start, is left without an exception; and nobody cancels the task
  while the context of the host or of the DHT service is entered. \<open>exits_uncancelled\<close>: nobody cancels it
  while one of them is left.
\<close>

definition undisturbed :: "('db, 'v, 'n, 'p, 'i, 'a) session_env \<Rightarrow> bool" where
  "undisturbed V =
     (\<forall>d. (\<forall>n. is_ok (fst (sv_open_db V n d))) \<and> is_ok (fst (sv_kad_new V d)) \<and>
       is_ok (fst (sv_register V d)) \<and> (\<forall>p. is_ok (fst (rt_remove (sv_routing V) p d))) \<and>
       kad_mode (sv_routing V) (snd (sv_kad_new V d)) = node_mode (snd (sv_kad_new V d)) \<and>
       is_ok (fst (sv_host_exit V d)) \<and> fst (sv_host_enter V d) \<noteq> Inl Cancelled \<and>
       fst (sv_dht_enter V d) \<noteq> Inl Cancelled)"

definition exits_uncancelled :: "('db, 'v, 'n, 'p, 'i, 'a) session_env \<Rightarrow> bool" where
  "exits_uncancelled V =
     (\<forall>d. fst (sv_dht_exit V d) \<noteq> Inl Cancelled \<and> fst (sv_host_exit V d) \<noteq> Inl Cancelled)"

abbreviation flags :: "('db, 'v, 'n, 'p) session \<Rightarrow> bool \<times> bool \<times> bool" where
  "flags s \<equiv> (se_env s, se_host_ctx s, se_dht_ctx s)"

lemma on_node_cases:
  assumes "on_node m s = (r, s')"
  obtains d where "m (se_node s) = (r, d)" "s' = s\<lparr>se_gate := (se_gate s)\<lparr>gt_world := d\<rparr>\<rparr>"
  using assms by (auto simp: on_node_def on_world_def split: prod.splits)

subsection \<open>Steps\<close>

lemma ensures_session: "(\<And>d. P d \<Longrightarrow> Q (Inr ()) (f d)) \<Longrightarrow> ensures P (set_session f) Q"
  by (simp add: ensures_def set_session_def)

lemma ensures_bind_set:
  assumes "\<And>d. P d \<Longrightarrow> P' (f d)" and "ensures P' (g ()) Q"
  shows "ensures P (bindA (set_session f) g) Q"
  using assms by (auto simp: ensures_def bindA_def set_session_def)

text \<open>The flags of a session and the resources it holds.\<close>

definition holding ::
  "(('db, 'v, 'n) node \<Rightarrow> resource set) \<Rightarrow> bool \<Rightarrow> bool \<Rightarrow> bool \<Rightarrow> resource set \<Rightarrow>
   ('db, 'v, 'n, 'p) session \<Rightarrow> bool" where
  "holding up e h k U s = (se_env s = e \<and> se_host_ctx s = h \<and> se_dht_ctx s = k \<and> up (se_node s) = U)"

lemma on_node_ensures:
  shows "gains up m x \<Longrightarrow> ensures (holding up e h k U) (on_node m)
      (\<lambda>r. holding up e h k (if is_ok r then insert x U else U))"
    and "frees up m x \<Longrightarrow> ensures (holding up e h k U) (on_node m) (\<lambda>_. holding up e h k (U - {x}))"
    and "holds_on up m \<Longrightarrow> ensures (holding up e h k U) (on_node m) (\<lambda>_. holding up e h k U)"
  by (auto simp: ensures_def holding_def gains_def frees_def holds_on_def elim!: on_node_cases)

text \<open>A call that returns, or is not cancelled, where \<open>C\<close> holds.\<close>

lemma on_node_returns:
  assumes "ensures P (on_node m) Q" and "\<And>d. C \<Longrightarrow> is_ok (fst (m d))"
  shows "ensures P (on_node m) (\<lambda>r s. (C \<longrightarrow> is_ok r) \<and> Q r s)"
  unfolding ensures_def
proof (intro allI impI conjI)
  fix s r s'
  assume P: "P s" and run: "on_node m s = (r, s')"
  show "Q r s'" by (rule ensuresD [OF assms(1) P run])
  from run obtain d where "m (se_node s) = (r, d)" by (rule on_node_cases)
  then show "is_ok r" if C using assms(2) [OF that, of "se_node s"] by simp
qed

lemma on_node_uncancelled:
  assumes "ensures P (on_node m) Q" and "\<And>d. C \<Longrightarrow> fst (m d) \<noteq> Inl Cancelled"
  shows "ensures P (on_node m) (\<lambda>r s. (C \<longrightarrow> r \<noteq> Inl Cancelled) \<and> Q r s)"
  unfolding ensures_def
proof (intro allI impI conjI)
  fix s r s'
  assume P: "P s" and run: "on_node m s = (r, s')"
  show "Q r s'" by (rule ensuresD [OF assms(1) P run])
  from run obtain d where "m (se_node s) = (r, d)" by (rule on_node_cases)
  then show "r \<noteq> Inl Cancelled" if C using assms(2) [OF that, of "se_node s"] by simp
qed

text \<open>
  What a start that was given up may still hold: the store and the host at most, and nothing if it was
  undisturbed.
\<close>

definition store_of :: "bool \<Rightarrow> resource set" where
  "store_of e = (if e then {Store_env} else {})"

lemma store_of_simps [simp]:
  "store_of True = {Store_env}" "store_of False = {}" "Host \<notin> store_of e" "Dht_service \<notin> store_of e"
  by (simp_all add: store_of_def)

definition given_up ::
  "('db, 'v, 'n, 'p, 'i, 'a) session_env \<Rightarrow> (('db, 'v, 'n) node \<Rightarrow> resource set) \<Rightarrow>
   ('db, 'v, 'n, 'p) session \<Rightarrow> bool" where
  "given_up V up s =
     (up (se_node s) \<subseteq> {Host} \<union> store_of (sv_durable V) \<and> (undisturbed V \<longrightarrow> up (se_node s) = {}))"

lemma given_up_disturbed:
  "holding up e h k U s \<Longrightarrow> \<not> undisturbed V \<Longrightarrow> U \<subseteq> {Host} \<union> store_of (sv_durable V) \<Longrightarrow> given_up V up s"
  by (simp add: holding_def given_up_def)

lemma given_up_empty: "holding up e h k {} s \<Longrightarrow> given_up V up s"
  by (simp add: holding_def given_up_def)

subsection \<open>The start\<close>

lemma open_dbs_ensures:
  assumes laws: "resource_laws V up" and "sv_durable V"
  shows "ensures (holding up False False False {Store_env})
    (bindA (on_node (sv_open_db V ''provider'')) (\<lambda>_.
     bindA (on_node (sv_open_db V ''identity'')) (\<lambda>_.
     bindA (on_node (sv_open_db V ''accepted'')) (\<lambda>_.
     set_session (\<lambda>s. s\<lparr>se_env := True\<rparr>)))))
    (\<lambda>r. if is_ok r then holding up True False False {Store_env} else given_up V up)"
proof -
  have db: "ensures (holding up False False False {Store_env}) (on_node (sv_open_db V n))
      (\<lambda>r s. (undisturbed V \<longrightarrow> is_ok r) \<and> holding up False False False {Store_env} s)" for n
    using laws by (intro on_node_returns on_node_ensures) (simp_all add: resource_laws_def undisturbed_def)
  have failed: "given_up V up s" if "(undisturbed V \<longrightarrow> is_ok (Inl x :: unit res)) \<and>
      holding up False False False {Store_env} s" for x s
    using that assms(2) by (intro given_up_disturbed [of up False False False "{Store_env}"]) auto
  have step: "ensures (holding up False False False {Store_env}) (bindA (on_node (sv_open_db V n)) (\<lambda>_. f))
      (\<lambda>r. if is_ok r then holding up True False False {Store_env} else given_up V up)"
    if "ensures (holding up False False False {Store_env}) f
      (\<lambda>r. if is_ok r then holding up True False False {Store_env} else given_up V up)" for n f
    by (rule ensures_bindA [OF db], rule ensures_weaken [OF that]) (simp_all add: failed)
  show ?thesis
    by (intro step ensures_session) (simp add: holding_def)
qed

lemma store_open_ensures:
  assumes laws: "resource_laws V up" and durable: "sv_durable V"
  shows "ensures (holding up False False False {}) (store_open V)
    (\<lambda>r. if is_ok r then holding up True False False {Store_env} else given_up V up)"
proof -
  let ?P = "holding up False False False {}"
  have mk: "ensures ?P (on_node (sv_mkdir V b)) (\<lambda>_. ?P)" for b
    using laws by (intro on_node_ensures) (simp add: resource_laws_def)
  have lmdb: "ensures ?P (on_node (sv_lmdb_open V b))
      (\<lambda>r. holding up False False False (if is_ok r then {Store_env} else {}))" for b
    using laws by (intro on_node_ensures) (simp add: resource_laws_def)
  have body: "ensures ?P (bindA (on_node (sv_mkdir V b)) (\<lambda>_. bindA (on_node (sv_lmdb_open V b)) (\<lambda>_.
       bindA (on_node (sv_open_db V ''provider'')) (\<lambda>_.
       bindA (on_node (sv_open_db V ''identity'')) (\<lambda>_.
       bindA (on_node (sv_open_db V ''accepted'')) (\<lambda>_.
       set_session (\<lambda>s. s\<lparr>se_env := True\<rparr>)))))))
      (\<lambda>r. if is_ok r then holding up True False False {Store_env} else given_up V up)" for b
    using open_dbs_ensures [OF laws durable]
    by (intro ensures_bindA [OF mk] ensures_bindA [OF lmdb]) (simp_all add: given_up_empty)
  show ?thesis
    unfolding ensures_def
  proof (intro allI impI)
    fix s r s'
    assume P: "?P s" and run: "store_open V s = (r, s')"
    from P have "\<not> se_env s" by (simp add: holding_def)
    with run show "(if is_ok r then holding up True False False {Store_env} else given_up V up) s'"
      by (intro ensuresD [OF body P]) (simp add: store_open_def Let_def)
  qed
qed

text \<open>Only what is held is left to say once the session is over.\<close>

definition left_with ::
  "(('db, 'v, 'n) node \<Rightarrow> resource set) \<Rightarrow> resource set \<Rightarrow> ('db, 'v, 'n, 'p) session \<Rightarrow> bool" where
  "left_with up U s = (up (se_node s) = U)"

lemma left_empty: "left_with up {} s \<Longrightarrow> given_up V up s"
  by (simp add: left_with_def given_up_def)

lemma close_durable_ensures:
  assumes laws: "resource_laws V up"
  shows "ensures (holding up (sv_durable V) h k U) (close_durable V)
    (\<lambda>_. left_with up (U - store_of (sv_durable V)))"
proof (cases "sv_durable V")
  case True
  have "ensures (holding up True h k U) (on_node (sv_lmdb_close V)) (\<lambda>_. holding up True h k (U - {Store_env}))"
    using laws by (intro on_node_ensures) (simp add: resource_laws_def)
  then have body: "ensures (holding up True h k U)
      (bindA (on_node (sv_lmdb_close V)) (\<lambda>_. set_session (\<lambda>s. s\<lparr>se_env := False\<rparr>)))
      (\<lambda>_. left_with up (U - {Store_env}))"
    by (rule ensures_bindA) (auto intro!: ensures_session simp: holding_def left_with_def)
  have "left_with up (U - {Store_env}) s'"
    if P: "holding up True h k U s" and run: "store_close V s = (r, s')" for s r s'
  proof -
    from P have "se_env s" by (simp add: holding_def)
    with run show ?thesis by (intro ensuresD [OF body P]) (simp add: store_close_def)
  qed
  with True show ?thesis by (simp add: ensures_def close_durable_def)
next
  case False
  then show ?thesis
    by (auto intro!: ensures_pureA simp: close_durable_def holding_def left_with_def)
qed

lemma start_host_ensures:
  assumes laws: "resource_laws V up"
  shows "ensures (holding up (sv_durable V) False False (store_of (sv_durable V))) (start_host V)
    (\<lambda>r. if is_ok r then holding up (sv_durable V) True False (insert Host (store_of (sv_durable V)))
         else given_up V up)"
    (is "ensures _ _ ?Q")
proof -
  let ?e = "sv_durable V"
  let ?P = "\<lambda>h. holding up ?e h False (store_of ?e)"
  have enter: "ensures (?P True) (on_node (sv_host_enter V))
      (\<lambda>r s. (undisturbed V \<longrightarrow> r \<noteq> Inl Cancelled) \<and>
        holding up ?e True False (if is_ok r then insert Host (store_of ?e) else store_of ?e) s)"
    using laws by (intro on_node_uncancelled on_node_ensures) (simp_all add: resource_laws_def undisturbed_def)
  have undo: "ensures (?P True)
      (bindA (set_session (\<lambda>s. s\<lparr>se_host_ctx := False\<rparr>)) (\<lambda>_.
       bindA (close_durable V) (\<lambda>_. pureA (Inl e)))) ?Q" for e
    by (rule ensures_bind_set [where P' = "?P False"], simp add: holding_def)
      (rule ensures_reraise [OF close_durable_ensures [OF laws]], simp add: left_empty)
  show ?thesis
    unfolding start_host_def
  proof (rule ensures_bind_set [where P' = "?P True"], simp add: holding_def, rule ensures_tryA [OF enter])
    show "ensures ((\<lambda>s. (undisturbed V \<longrightarrow> Inl e \<noteq> Inl Cancelled) \<and> holding up ?e True False
        (if is_ok (Inl e) then insert Host (store_of ?e) else store_of ?e) s))
        (bindA (set_session (\<lambda>s. s\<lparr>se_host_ctx := False\<rparr>)) (\<lambda>_.
         bindA (close_durable V) (\<lambda>_. pureA (Inl e)))) ?Q" for e
      by (rule ensures_weaken [OF undo]) simp_all
  qed (auto intro: given_up_disturbed)
qed

lemma remove_all_keeps:
  assumes "\<And>p. holds_on up (rt_remove R p)" and "\<And>p d. C \<Longrightarrow> is_ok (fst (rt_remove R p d))"
    and "remove_all R ps g = (r, g')"
  shows "up (gt_world g') = up (gt_world g) \<and> (C \<longrightarrow> is_ok r)"
  using assms(3)
proof (induction ps arbitrary: g)
  case (Cons p ps)
  obtain q d where m: "rt_remove R p (gt_world g) = (q, d)" by fastforce
  with assms(1) [of p] have up: "up d = up (gt_world g)" by (simp add: holds_on_def)
  show ?case
  proof (cases q)
    case (Inl x)
    then have "r = Inl x" "g' = g\<lparr>gt_world := d\<rparr>"
      using Cons.prems m by (simp_all add: bindA_cases on_world_def)
    moreover have "\<not> C" using assms(2) [of p "gt_world g"] m Inl by auto
    ultimately show ?thesis using up by simp
  next
    case (Inr u)
    then have "remove_all R ps (g\<lparr>gt_world := d\<rparr>) = (r, g')"
      using Cons.prems m by (simp add: bindA_cases on_world_def)
    from Cons.IH [OF this] up show ?thesis by simp
  qed
qed auto

lemma install_gate_ensures:
  assumes laws: "resource_laws V up"
  shows "ensures (\<lambda>s. holding up e h k U s \<and>
      (undisturbed V \<longrightarrow> kad_mode (sv_routing V) (se_node s) = node_mode (se_node s)))
    (install_gate V) (\<lambda>r s. (undisturbed V \<longrightarrow> is_ok r) \<and> holding up e h k U s)"
  unfolding ensures_def
proof (intro allI impI)
  fix s r s'
  assume P: "holding up e h k U s \<and>
      (undisturbed V \<longrightarrow> kad_mode (sv_routing V) (se_node s) = node_mode (se_node s))"
    and run: "install_gate V s = (r, s')"
  let ?g = "\<lparr>gt_expires = [], gt_handler = False, gt_world = se_node s\<rparr>"
  obtain q g where g: "remove_all (sv_routing V) (sv_table V (se_node s)) ?g = (q, g)" by fastforce
  have "holds_on up (rt_remove (sv_routing V) p)" "undisturbed V \<Longrightarrow> is_ok (fst (rt_remove (sv_routing V) p d))"
    for p d
    using laws by (simp_all add: resource_laws_def undisturbed_def)
  from remove_all_keeps [OF this g] have up: "up (gt_world g) = up (se_node s)"
    and ok: "undisturbed V \<Longrightarrow> is_ok q" by simp_all
  show "(undisturbed V \<longrightarrow> is_ok r) \<and> holding up e h k U s'"
  proof (cases "kad_mode (sv_routing V) (se_node s) = node_mode (se_node s)")
    case True
    have "r = q" "se_env s' = se_env s" "se_host_ctx s' = se_host_ctx s" "se_dht_ctx s' = se_dht_ctx s"
      "se_node s' = gt_world g"
      using run g True
      by (cases q; auto simp: install_gate_def install_dht_serving_eligibility_def init_eligibility_def
          register_handler_def)+
    with P up ok show ?thesis by (simp add: holding_def)
  next
    case False
    with P run show ?thesis
      by (auto simp: install_gate_def install_dht_serving_eligibility_def holding_def)
  qed
qed

lemma set_up_dht_ensures:
  assumes laws: "resource_laws V up"
  shows "ensures (holding up e h k U) (set_up_dht V)
    (\<lambda>r s. (undisturbed V \<longrightarrow> is_ok r) \<and> holding up e h k U s)"
proof -
  let ?agree = "\<lambda>s. undisturbed V \<longrightarrow> kad_mode (sv_routing V) (se_node s) = node_mode (se_node s)"
  have "ensures (holding up e h k U) (on_node (sv_kad_new V)) (\<lambda>_ s. holding up e h k U s \<and> ?agree s)"
    unfolding ensures_def
  proof (intro allI impI)
    fix s r s'
    assume P: "holding up e h k U s" and run: "on_node (sv_kad_new V) s = (r, s')"
    obtain d where d: "sv_kad_new V (se_node s) = (r, d)" "s' = s\<lparr>se_gate := (se_gate s)\<lparr>gt_world := d\<rparr>\<rparr>"
      using run by (rule on_node_cases)
    have "kad_mode (sv_routing V) (snd (sv_kad_new V (se_node s))) =
        node_mode (snd (sv_kad_new V (se_node s)))" if "undisturbed V"
      using that unfolding undisturbed_def by blast
    moreover have "up d = up (se_node s)" using d laws by (auto simp: resource_laws_def holds_on_def)
    ultimately show "holding up e h k U s' \<and> ?agree s'" using P d by (simp add: holding_def)
  qed
  then have new: "ensures (holding up e h k U) (on_node (sv_kad_new V))
      (\<lambda>r s. (undisturbed V \<longrightarrow> is_ok r) \<and> holding up e h k U s \<and> ?agree s)"
    by (intro on_node_returns) (simp_all add: undisturbed_def)
  have "ensures (holding up e h k U) (on_node (sv_register V))
      (\<lambda>r s. (undisturbed V \<longrightarrow> is_ok r) \<and> holding up e h k U s)"
    using laws by (intro on_node_returns on_node_ensures) (simp_all add: resource_laws_def undisturbed_def)
  then have "ensures (\<lambda>s. holding up e h k U s \<and> ?agree s) (bindA (install_gate V) (\<lambda>_. on_node (sv_register V)))
      (\<lambda>r s. (undisturbed V \<longrightarrow> is_ok r) \<and> holding up e h k U s)"
    by (intro ensures_bindA [OF install_gate_ensures [OF laws]]) (auto intro: ensures_weaken)
  then have "ensures (\<lambda>s. holding up e h k U s \<and> ?agree s)
      (bindA (set_session (\<lambda>s. s\<lparr>se_dht := True\<rparr>)) (\<lambda>_. bindA (install_gate V) (\<lambda>_. on_node (sv_register V))))
      (\<lambda>r s. (undisturbed V \<longrightarrow> is_ok r) \<and> holding up e h k U s)"
    by (rule ensures_bind_set [rotated]) (simp add: holding_def)
  then show ?thesis
    unfolding set_up_dht_def by (intro ensures_bindA [OF new]) (auto intro: ensures_weaken)
qed

lemma start_dht_ensures:
  assumes laws: "resource_laws V up"
  shows "ensures (holding up (sv_durable V) True False (insert Host (store_of (sv_durable V)))) (start_dht V)
    (\<lambda>r. if is_ok r then holding up (sv_durable V) True True ({Host, Dht_service} \<union> store_of (sv_durable V))
         else given_up V up)"
    (is "ensures _ _ ?Q")
proof -
  let ?e = "sv_durable V"
  let ?S = "store_of ?e"
  let ?P = "\<lambda>k. holding up ?e True k (insert Host ?S)"
  have enter: "ensures (?P True) (on_node (sv_dht_enter V))
      (\<lambda>r s. (undisturbed V \<longrightarrow> r \<noteq> Inl Cancelled) \<and> holding up ?e True True
        (if is_ok r then insert Dht_service (insert Host ?S) else insert Host ?S) s)"
    using laws by (intro on_node_uncancelled on_node_ensures) (simp_all add: resource_laws_def undisturbed_def)
  have "ensures (?P True) (on_node (sv_host_exit V))
      (\<lambda>r s. (undisturbed V \<longrightarrow> is_ok r) \<and> holding up ?e True True (insert Host ?S - {Host}) s)"
    using laws by (intro on_node_returns on_node_ensures) (simp_all add: resource_laws_def undisturbed_def)
  then have leave: "ensures (?P True) (\<lambda>s. if se_host_ctx s then on_node (sv_host_exit V) s else (Inr (), s))
      (\<lambda>r s. (undisturbed V \<longrightarrow> is_ok r) \<and> holding up ?e True True ?S s)"
    by (auto simp: ensures_def holding_def)
  have close: "ensures (holding up ?e True True ?S)
      (bindA (set_session (\<lambda>s. s\<lparr>se_dht_ctx := False, se_host_ctx := False\<rparr>)) (\<lambda>_.
       bindA (close_durable V) (\<lambda>_. pureA (Inl e)))) ?Q" for e
    by (rule ensures_bind_set [where P' = "holding up ?e False False ?S"], simp add: holding_def)
      (rule ensures_reraise [OF close_durable_ensures [OF laws]], simp add: left_empty)
  have undo: "ensures (?P True)
      (bindA (\<lambda>s. if se_host_ctx s then on_node (sv_host_exit V) s else (Inr (), s)) (\<lambda>_.
       bindA (set_session (\<lambda>s. s\<lparr>se_dht_ctx := False, se_host_ctx := False\<rparr>)) (\<lambda>_.
       bindA (close_durable V) (\<lambda>_. pureA (Inl e))))) ?Q" for e
    by (rule ensures_bindA [OF leave], rule ensures_weaken [OF close])
      (auto intro: given_up_disturbed)
  show ?thesis
    unfolding start_dht_def
  proof (rule ensures_bind_set [where P' = "?P True"], simp add: holding_def, rule ensures_tryA [OF enter])
    show "ensures ((\<lambda>s. (undisturbed V \<longrightarrow> Inl e \<noteq> Inl Cancelled) \<and> holding up ?e True True
        (if is_ok (Inl e) then insert Dht_service (insert Host ?S) else insert Host ?S) s))
        (bindA (\<lambda>s. if se_host_ctx s then on_node (sv_host_exit V) s else (Inr (), s)) (\<lambda>_.
         bindA (set_session (\<lambda>s. s\<lparr>se_dht_ctx := False, se_host_ctx := False\<rparr>)) (\<lambda>_.
         bindA (close_durable V) (\<lambda>_. pureA (Inl e))))) ?Q" for e
      by (rule ensures_weaken [OF undo]) simp_all
  qed (auto simp: insert_commute intro: given_up_disturbed)
qed

lemma start_adapter_ensures:
  assumes laws: "resource_laws V up"
  shows "ensures (holding up False False False {}) (start_adapter V)
    (\<lambda>r. if is_ok r then holding up (sv_durable V) True True
           ({Host, Dht_service} \<union> store_of (sv_durable V)) else given_up V up)"
    (is "ensures _ _ ?Q")
proof -
  let ?e = "sv_durable V"
  let ?S = "store_of ?e"
  have opened: "ensures (holding up False False False {}) (if ?e then store_open V else pureA (Inr ()))
      (\<lambda>r. if is_ok r then holding up ?e False False ?S else given_up V up)"
  proof (cases ?e)
    case True
    with store_open_ensures [OF laws True] show ?thesis by (simp only: if_True store_of_simps)
  qed (simp add: ensures_pureA)
  have "ensures (holding up ?e True False (insert Host ?S)) (bindA (set_up_dht V) (\<lambda>_. start_dht V)) ?Q"
    by (rule ensures_bindA [OF set_up_dht_ensures [OF laws]], rule ensures_weaken [OF start_dht_ensures [OF laws]])
      (auto intro: given_up_disturbed)
  then have "ensures (holding up ?e False False ?S) (bindA (start_host V) (\<lambda>_.
      bindA (set_up_dht V) (\<lambda>_. start_dht V))) ?Q"
    by (intro ensures_bindA [OF start_host_ensures [OF laws]]) simp_all
  then show ?thesis
    unfolding start_adapter_def by (intro ensures_bindA [OF opened]) simp_all
qed

subsection \<open>The end\<close>

lemma leave_context_ensures:
  assumes "ensures P (on_node m) (\<lambda>_. P')" and "\<And>d. fst (m d) \<noteq> Inl Cancelled"
  shows "ensures P (leave_context True m) (\<lambda>r s. is_ok r \<and> P' s)"
proof -
  have "ensures P (on_node m) (\<lambda>r s. (True \<longrightarrow> r \<noteq> Inl Cancelled) \<and> P' s)"
    using assms by (rule on_node_uncancelled)
  then show ?thesis
    unfolding leave_context_def if_True by (rule ensures_tryA) (auto intro: ensures_pureA)
qed

lemma stop_adapter_ensures:
  assumes laws: "resource_laws V up" and quiet: "exits_uncancelled V"
  shows "ensures (holding up (sv_durable V) True True U) (stop_adapter V)
    (\<lambda>_. left_with up (U - {Dht_service} - {Host} - store_of (sv_durable V)))"
proof -
  let ?e = "sv_durable V"
  let ?W = "U - {Dht_service}"
  have exits: "ensures (holding up ?e True True U) (on_node (sv_dht_exit V)) (\<lambda>_. holding up ?e True True ?W)"
    "ensures (holding up ?e True True ?W) (on_node (sv_host_exit V)) (\<lambda>_. holding up ?e True True (?W - {Host}))"
    using laws by (intro on_node_ensures; simp add: resource_laws_def)+
  have dht: "ensures (holding up ?e True True U) (\<lambda>s. leave_context (se_dht_ctx s) (sv_dht_exit V) s)
      (\<lambda>r s. is_ok r \<and> holding up ?e True True ?W s)"
    and host: "ensures (holding up ?e True True ?W) (\<lambda>s. leave_context (se_host_ctx s) (sv_host_exit V) s)
      (\<lambda>r s. is_ok r \<and> holding up ?e True True (?W - {Host}) s)"
    using leave_context_ensures [OF exits(1)] leave_context_ensures [OF exits(2)] quiet
    by (simp_all add: exits_uncancelled_def ensures_def holding_def)
  show ?thesis
    unfolding stop_adapter_def
    by (rule ensures_bindA [OF dht], rule ensures_bindA [where R = "\<lambda>r s. is_ok r \<and> holding up ?e True True (?W - {Host}) s"])
      (auto intro: ensures_weaken [OF host] ensures_weaken [OF close_durable_ensures [OF laws]])
qed

lemma body_and_stop_ensures:
  assumes laws: "resource_laws V up" and quiet: "exits_uncancelled V"
    and "\<And>s r s'. body s = (r, s') \<Longrightarrow> up (se_node s') = up (se_node s) \<and> flags s' = flags s"
  shows "ensures (holding up (sv_durable V) True True ({Host, Dht_service} \<union> store_of (sv_durable V)))
    (finallyA body (stop_adapter V)) (\<lambda>_. left_with up {})"
proof -
  let ?P = "holding up (sv_durable V) True True ({Host, Dht_service} \<union> store_of (sv_durable V))"
  have "ensures ?P body (\<lambda>_. ?P)"
    using assms(3) unfolding ensures_def holding_def by (metis prod.inject)
  then show ?thesis
    by (rule ensures_finallyA)
      (rule ensures_weaken [OF stop_adapter_ensures [OF laws quiet]],
        auto simp: left_with_def split: sum.split)
qed

subsection \<open>A session\<close>

text \<open>
  C35: what a session holds and leaves, with a body that does not itself open or close the node's
  resources. Once \<open>async with Libp2pKadDHT(...)\<close> has been entered, the store's environment (if there is
  a store), the host and the DHT service are held, and all of them are released at its end, whether
  the body returned or raised and whatever leaving the contexts raises, provided the task is not
  cancelled while one of them is left. If entering raises, the DHT service is not held, and nothing is
  if the start was undisturbed: the databases could be opened, the calls between the starts of the
  host and of the DHT service returned, nobody cancelled the task while a context was entered, and the
  host could be left without an exception. (Each of these does leak: \<open>failed_setup_leaks\<close>,
  \<open>failed_databases_leak\<close>, \<open>cancelled_start_leaks\<close>, \<open>failed_undo_leaks\<close>, \<open>cancelled_exit_leaks\<close>.)
\<close>
theorem session_releases_resources:
  assumes "resource_laws V up" and "up d = {}"
    and "\<And>s r s'. body s = (r, s') \<Longrightarrow> up (se_node s') = up (se_node s) \<and> flags s' = flags s"
    and "with_adapter V body (new_session d) = (r, s')"
  shows "case start_adapter V (new_session d) of
      (Inr _, s) \<Rightarrow>
        up (se_node s) = {Host, Dht_service} \<union> (if sv_durable V then {Store_env} else {}) \<and>
        (exits_uncancelled V \<longrightarrow> up (se_node s') = {})
    | (Inl _, _) \<Rightarrow>
        up (se_node s') \<subseteq> {Host} \<union> (if sv_durable V then {Store_env} else {}) \<and>
        (undisturbed V \<longrightarrow> up (se_node s') = {})"
proof -
  have init: "holding up False False False {} (new_session d)"
    using assms(2) by (simp add: holding_def new_session_def)
  obtain q s where start: "start_adapter V (new_session d) = (q, s)" by fastforce
  note started = ensuresD [OF start_adapter_ensures [OF assms(1)] init start]
  show ?thesis
  proof (cases q)
    case (Inl x)
    then show ?thesis
      using started start assms(4) by (auto simp: with_adapter_def bindA_cases given_up_def store_of_def)
  next
    case (Inr u)
    then have "finallyA body (stop_adapter V) s = (r, s')"
      using start assms(4) by (simp add: with_adapter_def bindA_cases)
    moreover have "holding up (sv_durable V) True True ({Host, Dht_service} \<union> store_of (sv_durable V)) s"
      using started Inr by simp
    ultimately show ?thesis
      using ensuresD [OF body_and_stop_ensures [OF assms(1) _ assms(3), of body]] start Inr
      by (simp add: holding_def left_with_def store_of_def)
  qed
qed

subsection \<open>A concrete session\<close>

text \<open>The node's network state is the set of resources it holds; \<open>registered\<close> is what registering
  the validator returns.\<close>

type_synonym small_node = "(unit, unit, resource set) node"

definition acquire :: "resource \<Rightarrow> (small_node, unit) act" where
  "acquire x d = (Inr (), d\<lparr>nd_net := insert x (nd_net d)\<rparr>)"

definition release :: "resource \<Rightarrow> (small_node, unit) act" where
  "release x d = (Inr (), d\<lparr>nd_net := nd_net d - {x}\<rparr>)"

definition small_routing :: "(nat, unit, small_node) routing" where
  "small_routing = \<lparr>rt_now = (\<lambda>d. (0, d)), rt_add = (\<lambda>_ _. pureA (Inr True)),
     rt_find = (\<lambda>_ _. pureA (Inr [])), rt_size = (\<lambda>_. 0), rt_remove = (\<lambda>_. pureA (Inr ())),
     kad_mode = node_mode, kad_switch = (\<lambda>m. pureA (Inr m)),
     kad_handle = (\<lambda>sw. (Inr (), sw))\<rparr>"

definition small_env :: "unit res \<Rightarrow> (unit, unit, resource set, nat, unit, pstr) session_env" where
  "small_env registered =
     \<lparr>sv_routing = small_routing, sv_table = (\<lambda>_. [1]), sv_durable = True,
      sv_path_exists = (\<lambda>_. False), sv_path_is_dir = (\<lambda>_. False), sv_path_suffix = ''.lmdb'',
      sv_mkdir = (\<lambda>_. pureA (Inr ())), sv_lmdb_open = (\<lambda>_. acquire Store_env),
      sv_open_db = (\<lambda>_. pureA (Inr ())), sv_lmdb_close = release Store_env,
      sv_host_enter = acquire Host, sv_host_exit = release Host, sv_kad_new = pureA (Inr ()),
      sv_register = pureA registered, sv_dht_enter = acquire Dht_service,
      sv_dht_exit = release Dht_service, sv_peer_info = Inr, sv_connect = (\<lambda>_. pureA (Inr ())),
      sv_find_self = pureA (Inr ()), sv_addrs = (\<lambda>_. [lit ''/ip4/127.0.0.1/tcp/8000''])\<rparr>"

definition idle_node :: small_node where
  "idle_node = \<lparr>nd_db = (), nd_values = (), nd_server = True, nd_bootstrap = [], nd_net = {}\<rparr>"

lemmas small_simps = small_env_def small_routing_def acquire_def release_def idle_node_def

lemma small_laws: "resource_laws (small_env registered) nd_net" "undisturbed (small_env (Inr ()))"
  by (simp_all add: resource_laws_def undisturbed_def small_simps gains_def frees_def holds_on_def)

lemma exits_uncancelled_small: "exits_uncancelled (small_env registered)"
  by (simp add: exits_uncancelled_def small_simps)

lemma small_listens: "get_listen_multiaddr (small_env r) s = Inr (lit ''/ip4/127.0.0.1/tcp/8000'')"
  by (simp add: get_listen_multiaddr_def small_simps contains_def lit_def starts_with_def)

text \<open>
  What is left open where the start is disturbed: the context manager was not entered, so \<open>__aexit__\<close>
  does not run, and \<open>except Exception\<close> does not catch a cancellation.
\<close>

lemmas session_runs = with_adapter_def start_adapter_def start_host_def set_up_dht_def start_dht_def
  stop_adapter_def leave_context_def close_durable_def store_open_def store_close_def
  bindA_cases tryA_cases finallyA_cases set_session_def on_node_def on_world_def install_gate_def
  install_dht_serving_eligibility_def init_eligibility_def register_handler_def new_session_def

text \<open>A step between the start of the host and that of the DHT service raises.\<close>

lemma failed_setup_leaks:
  "\<exists>s. with_adapter (small_env (Inl (Value_error m))) body (new_session idle_node) =
     (Inl (Value_error m), s) \<and> nd_net (se_node s) = {Store_env, Host}"
  by (auto simp: session_runs small_simps)

text \<open>A database of the store cannot be opened.\<close>

lemma failed_databases_leak:
  "\<exists>s. with_adapter (small_env (Inr ())\<lparr>sv_open_db := \<lambda>_. pureA (Inl Os_error)\<rparr>) body
       (new_session idle_node) = (Inl Os_error, s) \<and> nd_net (se_node s) = {Store_env}"
  by (auto simp: session_runs small_simps)

text \<open>The task is cancelled while the host starts.\<close>

lemma cancelled_start_leaks:
  "\<exists>s. with_adapter (small_env (Inr ())\<lparr>sv_host_enter := pureA (Inl Cancelled)\<rparr>) body
       (new_session idle_node) = (Inl Cancelled, s) \<and> nd_net (se_node s) = {Store_env}"
  by (auto simp: session_runs small_simps)

text \<open>The DHT service does not start, and leaving the host raises.\<close>

lemma failed_undo_leaks:
  "\<exists>s. with_adapter (small_env (Inr ())\<lparr>sv_dht_enter := pureA (Inl (Value_error m)),
       sv_host_exit := (\<lambda>d. (Inl Os_error, d\<lparr>nd_net := nd_net d - {Host}\<rparr>))\<rparr>) body
       (new_session idle_node) = (Inl Os_error, s) \<and> nd_net (se_node s) = {Store_env}"
  by (auto simp: session_runs small_simps)

text \<open>The task is cancelled while the DHT service is left.\<close>

lemma cancelled_exit_leaks:
  "\<exists>r s. with_adapter (small_env (Inr ())\<lparr>sv_dht_exit :=
       (\<lambda>d. (Inl Cancelled, d\<lparr>nd_net := nd_net d - {Dht_service}\<rparr>))\<rparr>) (pureA (Inr ()))
       (new_session idle_node) = (r, s) \<and> nd_net (se_node s) = {Store_env, Host}"
  by (auto simp: session_runs small_simps)

theorem session_releases_resources_witness:
  "\<exists>r s. with_adapter (small_env (Inr ())) (pureA (Inl Key_error :: int res)) (new_session idle_node) = (r, s) \<and>
     nd_net (se_node s) = {}"
proof -
  obtain r s where run:
      "with_adapter (small_env (Inr ())) (pureA (Inl Key_error :: int res)) (new_session idle_node) = (r, s)"
    by fastforce
  have "nd_net idle_node = {}" by (simp add: idle_node_def)
  note released = session_releases_resources [OF small_laws(1) this _ run]
  show ?thesis using released run
    by (auto simp: pureA_def exits_uncancelled_small small_laws(2) split: prod.splits sum.splits)
qed

end
