(* ===== verification/Cli_Bundles.thy ===== *)
theory Cli_Bundles
  imports Key_Files Multisig_Bundle Py_Numbers
begin

text \<open>
  The offline half of \<open>cli.py\<close>: reading the arguments of a command and the \<open>bundle\<close> commands, by
  which signers draft, sign, merge and finalise a multisignature bundle that travels as a file.
  The files are those of \<open>Key_Files\<close>, where any call to the operating system may fail; an argument
  that names a file is the path it stands for. A command ends with the exit status and what it has
  printed, or with the exception that ends the process.
\<close>

subsection \<open>Arguments\<close>

fun parse_endpoints :: "pstr list \<Rightarrow> pstr list" where
  "parse_endpoints [] = []"
| "parse_endpoints (v # vs) =
     (if v = [] then [] else filter (\<lambda>p. p \<noteq> []) (map strip (split_on 44 v))) @ parse_endpoints vs"

definition normalize_provider_uris :: "pstr list option \<Rightarrow> pstr list" where
  "normalize_provider_uris values = (case values of None \<Rightarrow> [] | Some vs \<Rightarrow> vs)"

definition operation_names :: "(pstr \<times> int) list" where
  "operation_names =
     [(lit ''genesis'', operation_genesis), (lit ''ordinary-update'', operation_ordinary_update),
      (lit ''replace-signers'', operation_replace_signers), (lit ''upgrade'', operation_upgrade)]"

definition parse_hex_value :: "pstr \<Rightarrow> string \<Rightarrow> nat option \<Rightarrow> bytes res" where
  "parse_hex_value v name len =
     bindE (wrapE (fromhex v) (Value_error (name @ '' must be hexadecimal''))) (\<lambda>decoded.
     if len \<noteq> None \<and> len \<noteq> Some (length decoded)
     then Inl (Value_error (name @ '' has the wrong length'')) else Inr decoded)"

text \<open>The members in the order of the arguments, then sorted by the encoded identifier.\<close>

fun signer_set_loop :: "pstr list \<Rightarrow> signers \<Rightarrow> signers res" where
  "signer_set_loop [] entries = Inr entries"
| "signer_set_loop (v # vs) entries =
     (case partition1 61 v of (signer_id, separator, public_key_hex) \<Rightarrow>
       if \<not> separator \<or> signer_id = [] then Inl (Value_error ''--signer must use ID=PUBLIC_KEY_HEX'')
       else if signer_id \<in> set (map fst entries) then Inl (Value_error ''duplicate signer identifier'')
       else bindE (parse_hex_value public_key_hex ''public key for signer'' (Some 32)) (\<lambda>public_key.
         if public_key \<in> set (map snd entries) then Inl (Value_error ''duplicate signer public key'')
         else signer_set_loop vs (entries @ [(signer_id, public_key)])))"

definition parse_signer_set :: "pstr list \<Rightarrow> pyval list res" where
  "parse_signer_set values =
     (if values = [] then Inl (Value_error ''at least one --signer is required'')
      else bindE (signer_set_loop values []) (\<lambda>entries.
        bindE (mapE (\<lambda>e. utf8 (fst e)) entries) (\<lambda>_.
        Inr (map signer_entry_py
          (sort_key (\<lambda>e. utf8_key (fst e)) entries)))))"

subsection \<open>Files\<close>

definition read_cli_bytes :: "path \<Rightarrow> string \<Rightarrow> (key_fs, bytes) act" where
  "read_cli_bytes p description =
     mapexcA (os_read p)
       (\<lambda>e. if e = Os_error then Value_error (''cannot read '' @ description @ '' file'') else e)"

text \<open>
  \<open>open(path, "wb")\<close> empties the file, or makes one with the permissions \<open>mode\<close> that the process
  gives new files; \<open>Path.write_bytes\<close> then writes and closes it.
\<close>

definition os_open_write :: "nat \<Rightarrow> path \<Rightarrow> (key_fs, unit) act" where
  "os_open_write mode p = os_call (\<lambda>_ s. s) (\<lambda>s.
     (Inr (), (set_file p (Some ([], case kf_files s p of None \<Rightarrow> mode | Some (_, m) \<Rightarrow> m)) s)
        \<lparr>kf_open := kf_open s + 1\<rparr>))"

definition write_cli_bytes :: "nat \<Rightarrow> path \<Rightarrow> bytes \<Rightarrow> string \<Rightarrow> (key_fs, unit) act" where
  "write_cli_bytes mode p v description =
     mapexcA (bindA (os_open_write mode p) (\<lambda>_. finallyA (os_write p v) os_close))
       (\<lambda>e. if e = Os_error then Value_error (''cannot write '' @ description @ '' file'') else e)"

subsection \<open>The bundle commands\<close>

record draft_args =
  da_record_type :: pstr
  da_signers :: "pstr list"
  da_owner_public_key :: pstr
  da_predecessor :: pstr
  da_operation :: pstr
  da_owner_name :: pstr
  da_object_hash :: pstr
  da_seq :: int
  da_threshold :: int
  da_epoch :: int
  da_withdrawal :: bool
  da_replacement :: "pstr option"
  da_alg :: pstr
  da_urls :: "pstr list option"
  da_endpoints :: "pstr list"
  da_output :: path

text \<open>
  What \<open>draft\<close> computes. Lower-casing maps the ASCII letters only: any other letter that it would
  change is no hexadecimal digit before or after, so the next line rejects the text either way.
\<close>

definition draft_result :: "ext \<Rightarrow> draft_args \<Rightarrow> msig_bundle res" where
  "draft_result X a =
     bindE (parse_signer_set (da_signers a)) (\<lambda>members.
     bindE (parse_hex_value (da_owner_public_key a) ''owner public key'' (Some 32)) (\<lambda>owner.
     bindE (parse_hex_value (da_predecessor a) ''predecessor state hash'' (Some 32)) (\<lambda>pre.
     bindE (getE Key_error (map_of operation_names (da_operation a))) (\<lambda>oper.
     if da_record_type a = lit ''identity'' then
       bindE (parse_hex_value (da_owner_name a) ''owner name'' None) (\<lambda>owner_name.
       draft_identity_bundle X (PBytes owner_name) (PBytes owner) (PInt (da_seq a)) members
         (da_threshold a) (da_epoch a) pre oper)
     else
       let object_hash = map lower (da_object_hash a) in
       bindE (parse_hex_value object_hash ''object hash'' (Some 32)) (\<lambda>_.
       if da_withdrawal a then
         draft_provider_withdrawal_bundle X (PStr object_hash) (PBytes owner) (PInt (da_seq a)) members
           (map_option PStr (da_replacement a)) (da_threshold a) (da_epoch a) pre (PStr (da_alg a))
       else if normalize_provider_uris (da_urls a) = [] then
         Inl (Value_error ''Provider draft requires at least one --provider-url unless --withdrawal is set'')
       else
         draft_provider_bundle X (PStr object_hash) (map PStr (normalize_provider_uris (da_urls a)))
           (map PStr (parse_endpoints (da_endpoints a))) (PBytes owner) (PInt (da_seq a)) members
           (da_threshold a) (da_epoch a) pre oper (PStr (da_alg a)))))))"

definition bundle_draft_command :: "ext \<Rightarrow> nat \<Rightarrow> draft_args \<Rightarrow> (key_fs, int) act" where
  "bundle_draft_command X mode a =
     bindA (pureA (bindE (draft_result X a) (bundle_to_cbor X))) (\<lambda>cbor.
     bindA (write_cli_bytes mode (da_output a) cbor ''bundle output'') (\<lambda>_. pureA (Inr 0)))"

definition read_bundle :: "ext \<Rightarrow> path \<Rightarrow> string \<Rightarrow> (key_fs, msig_bundle) act" where
  "read_bundle X p description =
     bindA (read_cli_bytes p description) (\<lambda>cbor. pureA (bundle_from_cbor X cbor))"

definition bundle_sign_command ::
  "ext \<Rightarrow> 'k keys \<Rightarrow> nat \<Rightarrow> path \<Rightarrow> path \<Rightarrow> path \<Rightarrow> (key_fs, int) act" where
  "bundle_sign_command X K mode input signer_privkey output =
     bindA (read_bundle X input ''bundle input'') (\<lambda>b.
     if b_proofs b \<noteq> []
     then pureA (Inl (Value_error ''bundle sign requires an unsigned bundle; use merge for existing proofs''))
     else bindA (load_ed25519_keypair K signer_privkey) (\<lambda>(signer_private_key, _).
       bindA (pureA (bindE (sign_bundle X b signer_private_key) (\<lambda>p.
         bindE (make_bundle X (b_update b) [p]) (bundle_to_cbor X)))) (\<lambda>cbor.
       bindA (write_cli_bytes mode output cbor ''proof output'') (\<lambda>_. pureA (Inr 0)))))"

fun merge_files :: "ext \<Rightarrow> msig_bundle \<Rightarrow> path list \<Rightarrow> (key_fs, msig_bundle) act" where
  "merge_files X b [] = pureA (Inr b)"
| "merge_files X b (p # ps) =
     bindA (read_bundle X p ''proof input'') (\<lambda>proof_bundle.
     if b_proofs proof_bundle = [] then pureA (Inl (Value_error ''proof input contains no proofs''))
     else bindA (pureA (merge_proofs X b (b_proofs proof_bundle))) (\<lambda>b'. merge_files X b' ps))"

definition bundle_merge_command ::
  "ext \<Rightarrow> nat \<Rightarrow> path \<Rightarrow> path list \<Rightarrow> path \<Rightarrow> (key_fs, int) act" where
  "bundle_merge_command X mode input proofs output =
     bindA (read_bundle X input ''bundle input'') (\<lambda>b.
     bindA (merge_files X b proofs) (\<lambda>b'.
     bindA (pureA (bundle_to_cbor X b')) (\<lambda>cbor.
     bindA (write_cli_bytes mode output cbor ''merged bundle output'') (\<lambda>_. pureA (Inr 0)))))"

definition bundle_finalize_command :: "ext \<Rightarrow> nat \<Rightarrow> path \<Rightarrow> path \<Rightarrow> (key_fs, int) act" where
  "bundle_finalize_command X mode input output =
     bindA (read_bundle X input ''bundle input'') (\<lambda>b.
     bindA (pureA (finalize_bundle X b)) (\<lambda>finalized.
     bindA (write_cli_bytes mode output finalized ''SignedEnvelope output'') (\<lambda>_. pureA (Inr 0))))"

datatype bundle_action =
    Draft draft_args
  | Sign path path path
  | Merge path "path list" path
  | Finalize path path
  | Other_action

fun bundle_dispatch :: "ext \<Rightarrow> 'k keys \<Rightarrow> nat \<Rightarrow> bundle_action \<Rightarrow> (key_fs, int) act" where
  "bundle_dispatch X K mode (Draft a) = bundle_draft_command X mode a"
| "bundle_dispatch X K mode (Sign input privkey output) =
     bundle_sign_command X K mode input privkey output"
| "bundle_dispatch X K mode (Merge input proofs output) =
     bundle_merge_command X mode input proofs output"
| "bundle_dispatch X K mode (Finalize input output) = bundle_finalize_command X mode input output"
| "bundle_dispatch X K mode Other_action =
     pureA (Inl (Value_error ''unknown bundle operation''))"

text \<open>Which exceptions \<open>except (OSError, TypeError, ValueError)\<close> catches.\<close>

definition is_bundle_failure :: "exc \<Rightarrow> bool" where
  "is_bundle_failure e =
     (e = Os_error \<or> (case e of Timeout_error _ \<Rightarrow> True | Type_error _ \<Rightarrow> True | _ \<Rightarrow> is_value_error e))"

datatype printed = Line pstr | Json pyval

definition bundle_command ::
  "ext \<Rightarrow> 'k keys \<Rightarrow> nat \<Rightarrow> bundle_action \<Rightarrow> (key_fs, int \<times> printed list) act" where
  "bundle_command X K mode action =
     tryA (bindA (bundle_dispatch X K mode action) (\<lambda>status. pureA (Inr (status, []))))
       (\<lambda>e. pureA (if is_bundle_failure e then Inr (1, [Line (lit ''bundle operation failed'')])
         else Inl e))"

end
