(* ===== verification/Cli_Bundle_Properties.thy ===== *)
theory Cli_Bundle_Properties
  imports Cli_Bundles Key_Properties Bundle_Finalization
begin

text \<open>
  The \<open>bundle\<close> commands against a specification without calls to the operating system:
  \<open>bundle_content\<close> is what an action makes of the files it finds, as the file it is to leave.
\<close>

subsection \<open>The specification\<close>

type_synonym files = "path \<Rightarrow> (bytes \<times> nat) option"

definition file_bytes :: "files \<Rightarrow> path \<Rightarrow> string \<Rightarrow> bytes res" where
  "file_bytes files p description =
     getE (Value_error (''cannot read '' @ description @ '' file'')) (map_option fst (files p))"

definition file_bundle :: "ext \<Rightarrow> files \<Rightarrow> path \<Rightarrow> string \<Rightarrow> msig_bundle res" where
  "file_bundle X files p description = bindE (file_bytes files p description) (bundle_from_cbor X)"

fun merge_content :: "ext \<Rightarrow> files \<Rightarrow> msig_bundle \<Rightarrow> path list \<Rightarrow> msig_bundle res" where
  "merge_content X files b [] = Inr b"
| "merge_content X files b (p # ps) =
     bindE (file_bundle X files p ''proof input'') (\<lambda>proof_bundle.
     if b_proofs proof_bundle = [] then Inl (Value_error ''proof input contains no proofs'')
     else bindE (merge_proofs X b (b_proofs proof_bundle)) (\<lambda>b'. merge_content X files b' ps))"

definition sign_content :: "ext \<Rightarrow> 'k keys \<Rightarrow> files \<Rightarrow> path \<Rightarrow> path \<Rightarrow> bytes res" where
  "sign_content X K files input privkey =
     bindE (file_bundle X files input ''bundle input'') (\<lambda>b.
     if b_proofs b \<noteq> []
     then Inl (Value_error ''bundle sign requires an unsigned bundle; use merge for existing proofs'')
     else bindE (file_bytes files privkey ''owner private key'') (\<lambda>pem.
       bindE (keypair_of_pem K pem) (\<lambda>(private_key, _).
       bindE (sign_bundle X b private_key) (\<lambda>p.
       bindE (make_bundle X (b_update b) [p]) (bundle_to_cbor X)))))"

fun bundle_content :: "ext \<Rightarrow> 'k keys \<Rightarrow> files \<Rightarrow> bundle_action \<Rightarrow> bytes res" where
  "bundle_content X K files (Draft a) = bindE (draft_result X a) (bundle_to_cbor X)"
| "bundle_content X K files (Sign input privkey target) = sign_content X K files input privkey"
| "bundle_content X K files (Merge input proofs target) =
     bindE (file_bundle X files input ''bundle input'') (\<lambda>b.
     bindE (merge_content X files b proofs) (bundle_to_cbor X))"
| "bundle_content X K files (Finalize input target) =
     bindE (file_bundle X files input ''bundle input'') (finalize_bundle X)"
| "bundle_content X K files Other_action = Inl (Value_error ''unknown bundle operation'')"

fun bundle_target :: "bundle_action \<Rightarrow> path option" where
  "bundle_target (Draft a) = Some (da_output a)"
| "bundle_target (Sign _ _ target) = Some target"
| "bundle_target (Merge _ _ target) = Some target"
| "bundle_target (Finalize _ target) = Some target"
| "bundle_target Other_action = None"

subsection \<open>Reading and writing\<close>

definition unchanged :: "key_fs \<Rightarrow> key_fs \<Rightarrow> bool" where
  "unchanged fs s = (kf_files s = kf_files fs \<and> kf_open s = kf_open fs)"

text \<open>An operation that only reads: what it returns is what the specification finds in the files.\<close>

definition reads :: "key_fs \<Rightarrow> (key_fs, 'a) act \<Rightarrow> 'a res \<Rightarrow> bool" where
  "reads fs m spec =
     (ensures (unchanged fs) m (\<lambda>r s. unchanged fs s \<and> (\<forall>x. r = Inr x \<longrightarrow> spec = Inr x)) \<and>
      (\<forall>s. unchanged fs s \<longrightarrow> kf_faults s = [] \<longrightarrow> m s = (spec, s)))"

lemma reads_pure: "reads fs (pureA r) r"
  by (auto simp: reads_def intro: ensures_pureA)

lemma reads_bind:
  assumes m: "reads fs m spec" and f: "\<And>x. spec = Inr x \<Longrightarrow> reads fs (f x) (g x)"
  shows "reads fs (bindA m f) (bindE spec g)"
  unfolding reads_def
proof
  show "ensures (unchanged fs) (bindA m f)
      (\<lambda>r s. unchanged fs s \<and> (\<forall>x. r = Inr x \<longrightarrow> bindE spec g = Inr x))"
  proof (rule ensures_bindA)
    show "ensures (unchanged fs) m (\<lambda>r s. unchanged fs s \<and> (\<forall>x. r = Inr x \<longrightarrow> spec = Inr x))"
      using m by (simp add: reads_def)
    fix x
    show "ensures (\<lambda>s. unchanged fs s \<and> (\<forall>y. Inr x = Inr y \<longrightarrow> spec = Inr y)) (f x)
        (\<lambda>r s. unchanged fs s \<and> (\<forall>x. r = Inr x \<longrightarrow> bindE spec g = Inr x))"
    proof (cases "spec = Inr x")
      case True
      with f [OF True] show ?thesis by (simp add: reads_def)
    qed (simp add: ensures_def)
  qed simp
  show "\<forall>s. unchanged fs s \<longrightarrow> kf_faults s = [] \<longrightarrow> bindA m f s = (bindE spec g, s)"
  proof (cases spec)
    case (Inl e)
    with m show ?thesis by (simp add: reads_def bindA_cases)
  next
    case (Inr x)
    with m f [OF Inr] show ?thesis by (simp add: reads_def bindA_cases)
  qed
qed

lemma reads_if: "(c \<Longrightarrow> reads fs m r) \<Longrightarrow> (\<not> c \<Longrightarrow> reads fs m' r') \<Longrightarrow>
    reads fs (if c then m else m') (if c then r else r')"
  by simp

lemma reads_file:
  assumes "\<And>e. e = Os_error \<Longrightarrow> h e = Value_error (''cannot read '' @ description @ '' file'')"
    and "\<And>r s. unchanged fs s \<Longrightarrow> m s = (case os_read p s of
      (Inl e, s') \<Rightarrow> (Inl (h e), s') | (Inr x, s') \<Rightarrow> (Inr x, s'))"
  shows "reads fs m (file_bytes (kf_files fs) p description)"
  using assms unfolding reads_def
  by (auto simp: ensures_def unchanged_def os_read_def os_call_def file_bytes_def getE_def
      split: option.splits list.splits sum.splits)

lemma reads_cli_bytes: "reads fs (read_cli_bytes p description) (file_bytes (kf_files fs) p description)"
  by (rule reads_file [where h = "\<lambda>e. if e = Os_error
        then Value_error (''cannot read '' @ description @ '' file'') else e"])
    (auto simp: read_cli_bytes_def mapexcA_cases os_read_def os_call_def
      split: option.splits list.splits sum.splits)

lemma reads_bundle: "reads fs (read_bundle X p description) (file_bundle X (kf_files fs) p description)"
  unfolding read_bundle_def file_bundle_def by (intro reads_bind reads_cli_bytes reads_pure)

lemma reads_merge: "reads fs (merge_files X b ps) (merge_content X (kf_files fs) b ps)"
  by (induction ps arbitrary: b) (auto intro!: reads_pure reads_bind reads_bundle reads_if)

lemma reads_keypair:
  "reads fs (load_ed25519_keypair K p)
     (bindE (file_bytes (kf_files fs) p ''owner private key'') (keypair_of_pem K))"
  unfolding load_ed25519_keypair_def
  by (intro reads_bind reads_pure reads_file [where h = "\<lambda>_. Value_error ''cannot read owner private key file''"])
    (auto simp: tryA_cases os_read_def os_call_def split: option.splits list.splits sum.splits)


definition mode_at :: "nat \<Rightarrow> files \<Rightarrow> path \<Rightarrow> nat" where
  "mode_at mode files p = (case files p of None \<Rightarrow> mode | Some (_, m) \<Rightarrow> m)"

lemma write_cli_bytes_faultless:
  assumes "kf_faults s = []"
  shows "write_cli_bytes mode p v d s = (Inr (), set_file p (Some (v, mode_at mode (kf_files s) p)) s)"
  using assms
  by (simp add: write_cli_bytes_def mapexcA_cases bindA_cases finallyA_cases os_open_write_def os_call_def
      os_write_def append_file_def os_close_def set_file_def mode_at_def split: option.split)

text \<open>Only the file itself changes, and a write that returns has written everything.\<close>

definition replaces :: "key_fs \<Rightarrow> path \<Rightarrow> nat \<Rightarrow> bytes option \<Rightarrow> nat \<Rightarrow> key_fs \<Rightarrow> bool" where
  "replaces fs p mode content opened s =
     ((\<forall>q. q \<noteq> p \<longrightarrow> kf_files s q = kf_files fs q) \<and> kf_open s = kf_open fs + opened \<and>
      (\<forall>b. content = Some b \<longrightarrow> kf_files s p = Some (b, mode_at mode (kf_files fs) p)))"

lemma replaces_None: "replaces fs p mode c n s \<Longrightarrow> replaces fs p mode None n s"
  by (simp add: replaces_def)

lemma unchanged_replaces: "unchanged fs s \<Longrightarrow> replaces fs p mode None 0 s"
  by (simp add: replaces_def unchanged_def)

lemma write_cli_bytes_replaces:
  "ensures (unchanged fs) (write_cli_bytes mode p v d)
    (\<lambda>r. replaces fs p mode (if is_ok r then Some v else None) 0)"
proof -
  let ?Q = "\<lambda>r. replaces fs p mode (if is_ok r then Some v else None) 0"
  have open_file: "ensures (unchanged fs) (os_open_write mode p)
      (\<lambda>r s. if is_ok r then replaces fs p mode (Some []) 1 s else unchanged fs s)"
    unfolding ensures_def os_open_write_def
    by (auto elim!: os_call_cases simp: unchanged_def replaces_def set_file_def mode_at_def split: option.split)
  have close: "ensures (replaces fs p mode c 1) os_close (\<lambda>_. replaces fs p mode c 0)" for c
    unfolding ensures_def os_close_def
    by (auto elim!: os_call_cases simp: replaces_def)
  have "ensures (replaces fs p mode (Some []) 1) (os_write p v)
      (\<lambda>r. replaces fs p mode (if is_ok r then Some v else None) 1)"
    unfolding ensures_def os_write_def
    by (auto elim!: os_call_cases simp: replaces_def append_file_def set_file_def)
  then have "ensures (replaces fs p mode (Some []) 1) (finallyA (os_write p v) os_close) ?Q"
    by (rule ensures_finallyA) (rule ensures_weaken [OF close], auto intro: replaces_None split: sum.split)
  then have "ensures (unchanged fs) (bindA (os_open_write mode p) (\<lambda>_. finallyA (os_write p v) os_close)) ?Q"
    by (intro ensures_bindA [OF open_file]) (simp_all add: unchanged_replaces)
  then show ?thesis
    unfolding write_cli_bytes_def mapexcA_def
    by (rule ensures_tryA) (simp_all add: ensures_pureA)
qed

subsection \<open>The commands\<close>

lemma dispatch_form:
  assumes "bundle_target action = Some p"
  obtains m d where "reads fs m (bundle_content X K (kf_files fs) action)"
    and "bundle_dispatch X K mode action =
      bindA m (\<lambda>cbor. bindA (write_cli_bytes mode p cbor d) (\<lambda>_. pureA (Inr 0)))"
proof (cases action)
  case (Draft a)
  then show thesis
    using assms that [OF reads_pure] by (simp add: bundle_draft_command_def)
next
  case (Sign input privkey target)
  let ?m = "bindA (read_bundle X input ''bundle input'') (\<lambda>b.
     if b_proofs b \<noteq> []
     then pureA (Inl (Value_error ''bundle sign requires an unsigned bundle; use merge for existing proofs''))
     else bindA (load_ed25519_keypair K privkey) (\<lambda>(private_key, _).
       pureA (bindE (sign_bundle X b private_key) (\<lambda>p.
         bindE (make_bundle X (b_update b) [p]) (bundle_to_cbor X)))))"
  have "reads fs ?m (sign_content X K (kf_files fs) input privkey)"
    unfolding sign_content_def bindE_assoc [symmetric]
    by (intro reads_bind reads_bundle reads_if reads_pure reads_keypair) (auto split: prod.split intro: reads_pure)
  moreover have "bundle_dispatch X K mode action =
      bindA ?m (\<lambda>cbor. bindA (write_cli_bytes mode p cbor ''proof output'') (\<lambda>_. pureA (Inr 0)))"
    using assms Sign
    by (auto simp: bundle_sign_command_def bindA_assoc fun_eq_iff bindA_cases split: prod.split sum.split)
  ultimately show thesis using that Sign by simp
next
  case (Merge input proofs target)
  let ?m = "bindA (read_bundle X input ''bundle input'') (\<lambda>b.
     bindA (merge_files X b proofs) (\<lambda>b'. pureA (bundle_to_cbor X b')))"
  have "reads fs ?m (bundle_content X K (kf_files fs) action)"
    using Merge by (auto intro!: reads_bind reads_bundle reads_merge reads_pure)
  then show thesis using that assms Merge by (simp add: bundle_merge_command_def bindA_assoc)
next
  case (Finalize input target)
  let ?m = "bindA (read_bundle X input ''bundle input'') (\<lambda>b. pureA (finalize_bundle X b))"
  have "reads fs ?m (bundle_content X K (kf_files fs) action)"
    using Finalize by (auto intro!: reads_bind reads_bundle reads_pure)
  then show thesis using that assms Finalize by (simp add: bundle_finalize_command_def bindA_assoc)
qed (use assms in simp)


lemma bundle_failure_not_cancelled [simp]: "\<not> is_bundle_failure Cancelled"
  by (simp add: is_bundle_failure_def)

lemma bundle_command_cases:
  "bundle_command X K mode action fs =
    (case bundle_dispatch X K mode action fs of
       (Inr status, fs') \<Rightarrow> (Inr (status, []), fs')
     | (Inl e, fs') \<Rightarrow> (if is_bundle_failure e
         then Inr (1, [Line (lit ''bundle operation failed'')]) else Inl e, fs'))"
  by (auto simp: bundle_command_def tryA_cases bindA_cases split: prod.split sum.split)

lemma dispatch_faultless:
  assumes "kf_faults fs = []"
  shows "bundle_dispatch X K mode action fs =
    (case bundle_content X K (kf_files fs) action of
       Inl e \<Rightarrow> (Inl e, fs)
     | Inr b \<Rightarrow> (Inr 0, case bundle_target action of None \<Rightarrow> fs
         | Some p \<Rightarrow> set_file p (Some (b, mode_at mode (kf_files fs) p)) fs))"
proof (cases "bundle_target action")
  case None
  then show ?thesis by (cases action) simp_all
next
  case (Some p)
  obtain m d where m: "reads fs m (bundle_content X K (kf_files fs) action)"
    and form: "bundle_dispatch X K mode action =
      bindA m (\<lambda>cbor. bindA (write_cli_bytes mode p cbor d) (\<lambda>_. pureA (Inr 0)))"
    using Some by (rule dispatch_form)
  have "m fs = (bundle_content X K (kf_files fs) action, fs)"
    using m assms by (simp add: reads_def unchanged_def)
  then show ?thesis
    using Some write_cli_bytes_faultless [OF assms]
    by (simp add: form bindA_cases split: sum.split)
qed

lemma dispatch_replaces:
  assumes run: "bundle_dispatch X K mode action fs = (r, fs')"
  shows "kf_open fs' = kf_open fs" and "Some q \<noteq> bundle_target action \<Longrightarrow> kf_files fs' q = kf_files fs q"
    and "r = Inr st \<Longrightarrow> st = 0 \<and> (\<exists>b p. bundle_content X K (kf_files fs) action = Inr b \<and>
      bundle_target action = Some p \<and> kf_files fs' p = Some (b, mode_at mode (kf_files fs) p))"
proof -
  have "kf_open fs' = kf_open fs \<and> (\<forall>q. Some q \<noteq> bundle_target action \<longrightarrow> kf_files fs' q = kf_files fs q) \<and>
    (\<forall>st. r = Inr st \<longrightarrow> st = 0 \<and> (\<exists>b p. bundle_content X K (kf_files fs) action = Inr b \<and>
      bundle_target action = Some p \<and> kf_files fs' p = Some (b, mode_at mode (kf_files fs) p)))"
  proof (cases "bundle_target action")
    case None
    then show ?thesis using run by (cases action) auto
  next
    case (Some p)
    let ?Q = "\<lambda>r s. replaces fs p mode None 0 s \<and> (\<forall>st. r = Inr st \<longrightarrow> st = 0 \<and>
      (\<exists>b. bundle_content X K (kf_files fs) action = Inr b \<and> replaces fs p mode (Some b) 0 s))"
    obtain m d where m: "reads fs m (bundle_content X K (kf_files fs) action)"
      and form: "bundle_dispatch X K mode action =
        bindA m (\<lambda>cbor. bindA (write_cli_bytes mode p cbor d) (\<lambda>_. pureA (Inr 0)))"
      using Some by (rule dispatch_form)
    have put: "ensures (unchanged fs) (bindA (write_cli_bytes mode p b d) (\<lambda>_. pureA (Inr 0))) ?Q"
      if "bundle_content X K (kf_files fs) action = Inr b" for b
      by (rule ensures_bindA [OF write_cli_bytes_replaces])
        (auto intro!: ensures_pureA simp: that dest: replaces_None)
    have "ensures (unchanged fs) (bundle_dispatch X K mode action) ?Q"
      unfolding form
    proof (rule ensures_bindA)
      show "ensures (unchanged fs) m (\<lambda>r s. unchanged fs s \<and>
          (\<forall>x. r = Inr x \<longrightarrow> bundle_content X K (kf_files fs) action = Inr x))"
        using m by (simp add: reads_def)
      fix b
      show "ensures (\<lambda>s. unchanged fs s \<and> (\<forall>x. Inr b = Inr x \<longrightarrow>
          bundle_content X K (kf_files fs) action = Inr x))
        (bindA (write_cli_bytes mode p b d) (\<lambda>_. pureA (Inr 0))) ?Q"
        using put [of b] by (auto simp: ensures_def)
    qed (simp add: unchanged_replaces)
    from ensuresD [OF this _ run] show ?thesis
      using Some by (auto simp: unchanged_def replaces_def)
  qed
  then show "kf_open fs' = kf_open fs" "Some q \<noteq> bundle_target action \<Longrightarrow> kf_files fs' q = kf_files fs q"
    "r = Inr st \<Longrightarrow> st = 0 \<and> (\<exists>b p. bundle_content X K (kf_files fs) action = Inr b \<and>
      bundle_target action = Some p \<and> kf_files fs' p = Some (b, mode_at mode (kf_files fs) p))"
    by blast+
qed

lemma bundle_command_success:
  assumes "bundle_command X K mode action fs = (Inr (0, out), fs')"
  shows "\<exists>b p. bundle_content X K (kf_files fs) action = Inr b \<and> bundle_target action = Some p \<and>
    kf_files fs' p = Some (b, mode_at mode (kf_files fs) p)"
proof -
  from assms have run: "bundle_dispatch X K mode action fs = (Inr 0, fs')"
    by (auto simp: bundle_command_cases split: prod.splits sum.splits if_splits)
  from dispatch_replaces(3) [OF run refl] show ?thesis by blast
qed

lemma file_bundle_made:
  assumes "file_bundle X files p d = Inr b"
  obtains ps where "make_bundle X (b_update b) ps = Inr b"
proof -
  obtain cbor where "bundle_from_cbor X cbor = Inr b"
    using assms by (auto simp: file_bundle_def res_simps)
  then obtain upd ps where made: "make_bundle X upd ps = Inr b"
    by (auto simp: bundle_from_cbor_def res_simps)
  then have "b_update b = upd" by (auto simp: make_bundle_def res_simps)
  with made that show thesis by blast
qed

text \<open>
  C34: a bundle command does what its specification says. While the operating system does what it
  is asked, the command ends with status 0 and its one change is that the output file holds the
  specified content, or nothing changes and it ends with status 1 (for an exception it catches).
  Whatever calls fail, no other file changes, no descriptor stays open, and status 0 means that
  the output file holds the whole content.
\<close>
theorem bundle_command_refines:
  "(kf_faults fs = [] \<longrightarrow> bundle_command X K mode action fs =
      (case bundle_content X K (kf_files fs) action of
         Inl e \<Rightarrow> (if is_bundle_failure e
           then Inr (1, [Line (lit ''bundle operation failed'')]) else Inl e, fs)
       | Inr b \<Rightarrow> (Inr (0, []), case bundle_target action of None \<Rightarrow> fs
           | Some p \<Rightarrow> set_file p (Some (b, mode_at mode (kf_files fs) p)) fs))) \<and>
   (bundle_command X K mode action fs = (r, fs') \<longrightarrow> kf_open fs' = kf_open fs \<and>
      (\<forall>q. Some q \<noteq> bundle_target action \<longrightarrow> kf_files fs' q = kf_files fs q) \<and>
      (\<forall>out. r = Inr (0, out) \<longrightarrow> (\<exists>b p. bundle_content X K (kf_files fs) action = Inr b \<and>
        bundle_target action = Some p \<and> kf_files fs' p = Some (b, mode_at mode (kf_files fs) p))))"
proof (intro conjI impI)
  assume "kf_faults fs = []"
  then show "bundle_command X K mode action fs =
      (case bundle_content X K (kf_files fs) action of
         Inl e \<Rightarrow> (if is_bundle_failure e
           then Inr (1, [Line (lit ''bundle operation failed'')]) else Inl e, fs)
       | Inr b \<Rightarrow> (Inr (0, []), case bundle_target action of None \<Rightarrow> fs
           | Some p \<Rightarrow> set_file p (Some (b, mode_at mode (kf_files fs) p)) fs))"
    by (simp add: bundle_command_cases dispatch_faultless split: sum.split)
next
  assume "bundle_command X K mode action fs = (r, fs')"
  then obtain q where run: "bundle_dispatch X K mode action fs = (q, fs')"
    and q: "\<And>out. r = Inr (0, out) \<Longrightarrow> q = Inr 0"
    by (auto simp: bundle_command_cases split: prod.splits sum.splits if_splits)
  note facts = dispatch_replaces [OF run]
  show "kf_open fs' = kf_open fs" by (rule facts(1))
  show "\<forall>q. Some q \<noteq> bundle_target action \<longrightarrow> kf_files fs' q = kf_files fs q" using facts(2) by blast
  show "\<forall>out. r = Inr (0, out) \<longrightarrow> (\<exists>b p. bundle_content X K (kf_files fs) action = Inr b \<and>
      bundle_target action = Some p \<and> kf_files fs' p = Some (b, mode_at mode (kf_files fs) p))"
    using facts(3) q by blast
qed

text \<open>
  C33: the command line produces envelopes that the registry accepts. When \<open>bundle finalize\<close> exits
  with status 0 on a bundle file whose update is a 2-of-3 genesis, whatever the operating system
  did in between, the output file holds an envelope that passes genesis validation, for the update
  and the signers of the bundle.
\<close>
theorem cli_genesis_accepted:
  assumes "bundle_command X K mode (Finalize input target) fs = (Inr (0, out), fs')"
    and "\<And>cbor. cbor_decodes X cbor"
    and "file_bundle X (kf_files fs) input ''bundle input'' = Inr b"
    and "decode_multisignature_signed_update X (b_update b) = Inr (u, a)"
    and "operation a = operation_genesis" and "epoch a = 1" and "predecessor a = zero_bytes 32"
    and "threshold a = 2" and "length (signer_set a) = 3"
  shows "\<exists>cbor rk s. kf_files fs' target = Some (cbor, mode_at mode (kf_files fs) target) \<and>
    validate_multisignature_genesis X rk cbor = Inr s \<and> ms_update s = b_update b \<and>
    ms_signers s = signer_set a \<and> wf_state X s"
proof -
  obtain cbor where cbor: "finalize_bundle X b = Inr cbor"
    and stored: "kf_files fs' target = Some (cbor, mode_at mode (kf_files fs) target)"
    using bundle_command_success [OF assms(1)] assms(3) by auto
  obtain ps where made: "make_bundle X (b_update b) ps = Inr b"
    using assms(3) by (rule file_bundle_made)
  from finalize_genesis [OF made cbor assms(2,4-9)] stored show ?thesis by blast
qed

subsection \<open>A concrete directory\<close>

definition sample_files :: key_fs where
  "sample_files = \<lparr>kf_files = Map.empty(([], [105]) \<mapsto> ([23], 420)), kf_open = 0, kf_faults = []\<rparr>"

lemma sample_file_bundle:
  "file_bundle sample_ext (kf_files sample_files) ([], [105]) ''bundle input'' =
     Inr (sample_bundle 22 [([97], 1), ([98], 2)])"
  using bundle_roundtrip [OF sample_bundles_wf(2) sample_bundle_cbor(1) sample_codec_decodes]
  by (simp add: file_bundle_def file_bytes_def sample_files_def getE_def)

lemma sample_finalize_content:
  "bundle_content sample_ext sample_keys (kf_files sample_files) (Finalize ([], [105]) ([], [111])) =
     Inr [23]"
  by (simp only: bundle_content.simps sample_file_bundle bindE_simps sample_finalize(1))

lemma sample_mode_at: "mode_at 420 (kf_files sample_files) ([], [111]) = 420"
  by (simp add: mode_at_def sample_files_def)

lemma sample_files_faults: "kf_faults sample_files = []"
  by (simp add: sample_files_def)

theorem bundle_command_refines_witness:
  "bundle_command sample_ext sample_keys 420 (Finalize ([], [105]) ([], [111])) sample_files =
     (Inr (0, []), set_file ([], [111]) (Some ([23], 420)) sample_files)"
proof -
  have "bundle_command sample_ext sample_keys 420 (Finalize ([], [105]) ([], [111])) sample_files =
      (case bundle_content sample_ext sample_keys (kf_files sample_files) (Finalize ([], [105]) ([], [111])) of
         Inl e \<Rightarrow> (if is_bundle_failure e
           then Inr (1, [Line (lit ''bundle operation failed'')]) else Inl e, sample_files)
       | Inr b \<Rightarrow> (Inr (0, []), case bundle_target (Finalize ([], [105]) ([], [111])) of
           None \<Rightarrow> sample_files
         | Some p \<Rightarrow> set_file p (Some (b, mode_at 420 (kf_files sample_files) p)) sample_files))"
    by (rule bundle_command_refines [THEN conjunct1, THEN mp]) (rule sample_files_faults)
  then show ?thesis
    by (simp add: sample_finalize_content sample_mode_at del: bundle_content.simps)
qed

lemma sample_bundle_finalized:
  "bundle_command sample_ext sample_keys 420 (Finalize ([], [105]) ([], [111])) sample_files =
     (Inr (0, []), set_file ([], [111]) (Some ([23], 420)) sample_files)"
  by (simp add: bundle_command_cases dispatch_faultless [OF sample_files_faults] sample_finalize_content
      sample_mode_at del: bundle_content.simps bundle_dispatch.simps)

theorem cli_genesis_accepted_witness:
  "\<exists>rk s. validate_multisignature_genesis sample_ext rk [23] = Inr s \<and> ms_update s = [22] \<and>
     ms_signers s = signers_abc"
proof -
  have "\<exists>cbor rk s. kf_files (set_file ([], [111]) (Some ([23], 420)) sample_files) ([], [111]) =
        Some (cbor, mode_at 420 (kf_files sample_files) ([], [111])) \<and>
      validate_multisignature_genesis sample_ext rk cbor = Inr s \<and>
      ms_update s = b_update (sample_bundle 22 [([97], 1), ([98], 2)]) \<and>
      ms_signers s = signer_set (sample_auth 1 1 1 signers_abc (zero_bytes 32)) \<and> wf_state sample_ext s"
    by (rule cli_genesis_accepted [OF sample_bundle_finalized sample_codec_decodes sample_file_bundle])
      (simp_all add: sample_bundle_def sample_bundle_updates(1), simp_all add: sample_auth_def wire_constants)
  then show ?thesis
    by (auto simp: set_file_def sample_bundle_def sample_auth_def)
qed

end
