(* ===== verification/Cli_Commands.thy ===== *)
theory Cli_Commands
  imports Cli_Bundles Config Dht_Lifecycle Dht_Registry
begin

text \<open>
  The commands of \<open>cli.py\<close> that talk to the network, and \<open>keygen\<close>: what each does once its
  arguments are parsed. A command runs on the \<open>console\<close>: what has been printed, the logging level,
  the files, and the adapter with its node. It ends with the exit status, or with the exception that
  ends the process.
\<close>

subsection \<open>The surroundings of a command\<close>

record ('db, 'v, 'n, 'p) console =
  co_out :: "printed list"
  co_level :: nat
  co_files :: key_fs
  co_session :: "('db, 'v, 'n, 'p) session"

datatype wait = Seconds py_float | Until_signal

text \<open>
  What an adapter for given settings stands on: the calls of \<open>libp2p\<close> and LMDB, the network, the
  node with the store at the configured path, the text of the host's id, and what happens while the
  command waits.
\<close>

record ('db, 'v, 'n, 'p, 'i, 'a) deployment =
  dp_env :: "('db, 'v, 'n, 'p, 'i, 'a) session_env"
  dp_adapter :: "('db, 'v, 'n) adapter"
  dp_node :: "('db, 'v, 'n) node"
  dp_peer_id :: pstr
  dp_wait :: "wait \<Rightarrow> (('db, 'v, 'n) node, unit) act"

text \<open>
  \<open>ce_deploy listen path mapsize key\<close>: \<open>Multiaddr(listen)\<close> and \<open>new_host\<close>, which may raise, with
  a key of their own if none is given. \<open>ce_path\<close> reads a text as a path, with \<open>expanduser\<close>, and
  \<open>ce_directory\<close> as the directory it names. \<open>ce_new_key\<close> is the key pair that \<open>create_new_key_pair\<close>
  draws, \<open>ce_rival\<close> what other processes do to the files between the two looks at the node's key,
  and \<open>ce_mode\<close> the permissions of new files.
\<close>

record ('db, 'v, 'n, 'p, 'i, 'a) cli_env =
  ce_yaml :: yaml_env
  ce_deploy :: "pstr \<Rightarrow> pstr \<Rightarrow> int \<Rightarrow> bytes option \<Rightarrow> ('db, 'v, 'n, 'p, 'i, 'a) deployment res"
  ce_path :: "pstr \<Rightarrow> path"
  ce_directory :: "pstr \<Rightarrow> pstr"
  ce_new_key :: "bytes \<times> bytes"
  ce_rival :: "key_fs \<Rightarrow> key_fs"
  ce_mode :: nat
  ce_csrng :: csrng
  ce_fresh :: fresh_name

definition on_files :: "(key_fs, 'r) act \<Rightarrow> (('db, 'v, 'n, 'p) console, 'r) act" where
  "on_files m = (\<lambda>c. case m (co_files c) of (r, fs) \<Rightarrow> (r, c\<lparr>co_files := fs\<rparr>))"

definition on_session ::
  "(('db, 'v, 'n, 'p) session, 'r) act \<Rightarrow> (('db, 'v, 'n, 'p) console, 'r) act" where
  "on_session m = (\<lambda>c. case m (co_session c) of (r, s) \<Rightarrow> (r, c\<lparr>co_session := s\<rparr>))"

definition print_out :: "printed \<Rightarrow> (('db, 'v, 'n, 'p) console, unit) act" where
  "print_out p = (\<lambda>c. (Inr (), c\<lparr>co_out := co_out c @ [p]\<rparr>))"

fun print_all :: "printed list \<Rightarrow> (('db, 'v, 'n, 'p) console, unit) act" where
  "print_all [] = pureA (Inr ())"
| "print_all (p # ps) = bindA (print_out p) (\<lambda>_. print_all ps)"

subsection \<open>Settings\<close>

definition log_level :: "int option \<Rightarrow> nat" where
  "log_level verbosity =
     (let v = (case verbosity of None \<Rightarrow> 0 | Some n \<Rightarrow> n) in
      if v = 1 then 20 else if 2 \<le> v then 10 else 30)"

definition configure_logging :: "int option \<Rightarrow> (('db, 'v, 'n, 'p) console, unit) act" where
  "configure_logging verbosity = (\<lambda>c. (Inr (), c\<lparr>co_level := log_level verbosity\<rparr>))"

definition listen_address :: "'a config_scheme \<Rightarrow> pstr" where
  "listen_address s = lit ''/ip4/'' @ cf_host s @ lit ''/tcp/'' @
     (case cf_port s of None \<Rightarrow> lit ''None'' | Some port \<Rightarrow> decimal port)"

definition default_mapsize :: int where "default_mapsize = 2 ^ 40"

text \<open>\<open>_make_datastore_from_args\<close>: the path and size that the store is constructed with.\<close>

definition make_datastore :: "'a config_scheme \<Rightarrow> pstr \<times> int" where
  "make_datastore s = (cf_datastore s, case cf_mapsize s of None \<Rightarrow> default_mapsize | Some n \<Rightarrow> n)"

text \<open>
  \<open>Libp2pKadDHT(listen=..., durable_store=..., key_pair=...)\<close>: a server with no configured peers.
\<close>

definition construct_adapter ::
  "('db, 'v, 'n, 'p, 'i, 'a) cli_env \<Rightarrow> 'b config_scheme \<Rightarrow> bytes option \<Rightarrow>
   (('db, 'v, 'n, 'p) console, ('db, 'v, 'n, 'p, 'i, 'a) deployment) act" where
  "construct_adapter E s node_key =
     (case make_datastore s of (store_path, mapsize) \<Rightarrow>
     bindA (pureA (ce_deploy E (listen_address s) store_path mapsize node_key)) (\<lambda>D.
     bindA (\<lambda>c. (Inr (), c\<lparr>co_session :=
       new_session ((dp_node D)\<lparr>nd_server := True, nd_bootstrap := []\<rparr>)\<rparr>)) (\<lambda>_.
     pureA (Inr D))))"

text \<open>\<open>async with ... as dht\<close>, the body on the console.\<close>

definition in_adapter ::
  "('db, 'v, 'n, 'p, 'i, 'a) deployment \<Rightarrow> (('db, 'v, 'n, 'p) console, 'r) act \<Rightarrow>
   (('db, 'v, 'n, 'p) console, 'r) act" where
  "in_adapter D body =
     bindA (on_session (start_adapter (dp_env D))) (\<lambda>_.
     finallyA body (on_session (stop_adapter (dp_env D))))"

definition wait_for ::
  "('db, 'v, 'n, 'p, 'i, 'a) deployment \<Rightarrow> wait \<Rightarrow> (('db, 'v, 'n, 'p) console, unit) act" where
  "wait_for D w = on_session (on_node (dp_wait D w))"

subsection \<open>The node\<close>

definition node_identity_key_path :: "('db, 'v, 'n, 'p, 'i, 'a) cli_env \<Rightarrow> pstr \<Rightarrow> path" where
  "node_identity_key_path E datastore_path =
     (case ce_path E datastore_path of (parent, name) \<Rightarrow>
       if suffix (lit ''.lmdb'') name then (parent, lit ''node_privkey.bin'')
       else (ce_directory E datastore_path, lit ''node_privkey.bin''))"

definition os_exists :: "path \<Rightarrow> (key_fs, bool) act" where
  "os_exists p = os_call (\<lambda>_ s. s) (\<lambda>s. (Inr (kf_files s p \<noteq> None), s))"

text \<open>\<open>open(path, "xb")\<close>; \<open>False\<close> stands for \<open>FileExistsError\<close>.\<close>

definition os_create :: "nat \<Rightarrow> path \<Rightarrow> (key_fs, bool) act" where
  "os_create mode p = os_call (\<lambda>_ s. s) (\<lambda>s.
     if kf_files s p \<noteq> None then (Inr False, s)
     else (Inr True, (set_file p (Some ([], mode)) s)\<lparr>kf_open := kf_open s + 1\<rparr>))"

definition load_node_key :: "'k keys \<Rightarrow> path \<Rightarrow> (key_fs, bytes \<times> bytes) act" where
  "load_node_key K p = bindA (os_read p) (\<lambda>raw. pureA (key_pair K raw))"

text \<open>The second look: an atomic create, or the key that another process has made meanwhile.\<close>

definition create_node_key ::
  "('db, 'v, 'n, 'p, 'i, 'a) cli_env \<Rightarrow> 'k keys \<Rightarrow> path \<Rightarrow> (key_fs, bytes \<times> bytes) act" where
  "create_node_key E K p =
     bindA (os_create (ce_mode E) p) (\<lambda>created.
     if \<not> created then load_node_key K p
     else bindA (finallyA (os_write p (fst (ce_new_key E))) os_close) (\<lambda>_.
       bindA (os_chmod p 384) (\<lambda>_. pureA (Inr (ce_new_key E)))))"

definition load_or_create_node_identity_key ::
  "('db, 'v, 'n, 'p, 'i, 'a) cli_env \<Rightarrow> 'k keys \<Rightarrow> path \<Rightarrow> (key_fs, bytes \<times> bytes) act" where
  "load_or_create_node_identity_key E K p =
     bindA (os_exists p) (\<lambda>found.
     if found then load_node_key K p
     else bindA os_quiet (\<lambda>_.
       bindA (\<lambda>fs. (Inr (), ce_rival E fs)) (\<lambda>_. create_node_key E K p)))"

definition keygen_command ::
  "('db, 'v, 'n, 'p, 'i, 'a) cli_env \<Rightarrow> 'k keys \<Rightarrow> pstr \<Rightarrow> (('db, 'v, 'n, 'p) console, int) act" where
  "keygen_command E K target = (\<lambda>c.
     case on_files (write_ed25519_private_key_pem (ce_csrng E) K (ce_fresh E) (ce_path E target) None) c of
       (Inl e, c') \<Rightarrow> (if is_key_generation_error e then Inr 1 else Inl e, c')
     | (Inr _, c') \<Rightarrow>
         bindA (print_out (Line (lit ''wrote '' @ target @ lit '' with mode 0o600''))) (\<lambda>_.
         pureA (Inr 0)) c')"

fun bootstrap_any ::
  "('db, 'v, 'n, 'p, 'i, 'a) session_env \<Rightarrow> pstr list \<Rightarrow> bool \<Rightarrow>
   (('db, 'v, 'n, 'p) session, bool) act" where
  "bootstrap_any V [] ok_any = pureA (Inr ok_any)"
| "bootstrap_any V (seed # seeds) ok_any =
     bindA (tryA (bindA (bootstrap V seed) (\<lambda>_. pureA (Inr True))) (\<lambda>_. pureA (Inr ok_any)))
       (\<lambda>ok. bootstrap_any V seeds ok)"

record node_args =
  na_config :: pstr
  na_overrides :: overrides
  na_run_seconds :: "py_float option"

text \<open>The body of \<open>async with\<close> in \<open>_async_node\<close>.\<close>

definition run_node ::
  "('db, 'v, 'n, 'p, 'i, 'a) deployment \<Rightarrow> pstr list \<Rightarrow> py_float option \<Rightarrow>
   (('db, 'v, 'n, 'p) console, int) act" where
  "run_node D endpoints run_seconds =
     bindA (on_session (readA (get_listen_multiaddr (dp_env D)))) (\<lambda>listen_maddr.
     bindA (print_out (Line (lit ''[BOOTSTRAP] '' @ listen_maddr @ lit ''/p2p/'' @ dp_peer_id D))) (\<lambda>_.
     bindA (if endpoints = [] then pureA (Inr True)
            else on_session (bootstrap_any (dp_env D) endpoints False)) (\<lambda>ok.
     bindA (wait_for D (case run_seconds of None \<Rightarrow> Until_signal | Some t \<Rightarrow> Seconds t)) (\<lambda>_.
     pureA (Inr (if ok then 0 else 1))))))"

definition node_command ::
  "('db, 'v, 'n, 'p, 'i, 'a) cli_env \<Rightarrow> 'k keys \<Rightarrow> node_args \<Rightarrow>
   (('db, 'v, 'n, 'p) console, int) act" where
  "node_command E K a =
     bindA (pureA (server_settings (ce_yaml E) (na_config a) (na_overrides a))) (\<lambda>s.
     bindA (configure_logging (Some (cf_verbosity s))) (\<lambda>_.
     bindA (on_files (load_or_create_node_identity_key E K (node_identity_key_path E (cf_datastore s))))
       (\<lambda>node_key.
     bindA (construct_adapter E s (Some (fst node_key))) (\<lambda>D.
     in_adapter D (run_node D (parse_endpoints (cf_bootstrap s)) (na_run_seconds a))))))"

subsection \<open>Clients\<close>

fun bootstrap_all ::
  "('db, 'v, 'n, 'p, 'i, 'a) session_env \<Rightarrow> pstr list \<Rightarrow> (('db, 'v, 'n, 'p) session, unit) act" where
  "bootstrap_all V [] = pureA (Inr ())"
| "bootstrap_all V (seed # seeds) = bindA (bootstrap V seed) (\<lambda>_. bootstrap_all V seeds)"

text \<open>What every client command does around its call of the service.\<close>

definition client_session ::
  "('db, 'v, 'n, 'p, 'i, 'a) cli_env \<Rightarrow> client_config \<Rightarrow>
   (('db, 'v, 'n, 'p, 'i, 'a) deployment \<Rightarrow> (('db, 'v, 'n, 'p) console, 'r) act) \<Rightarrow>
   (('db, 'v, 'n, 'p) console, 'r) act" where
  "client_session E s body =
     bindA (construct_adapter E s None) (\<lambda>D.
     in_adapter D
       (bindA (on_session (bootstrap_all (dp_env D) (parse_endpoints (cf_bootstrap s)))) (\<lambda>_.
        bindA (wait_for D (Seconds (Fraction 1 1))) (\<lambda>_. body D))))"

definition service ::
  "(('db, 'v, 'n) node, 'r) act \<Rightarrow> (('db, 'v, 'n, 'p) console, 'r) act" where
  "service m = on_session (on_node m)"

text \<open>The key loader of the service, on the files as they are.\<close>

definition owner_keypair ::
  "('db, 'v, 'n, 'p, 'i, 'a) cli_env \<Rightarrow> 'k keys \<Rightarrow> key_fs \<Rightarrow> pstr \<Rightarrow> (bytes \<times> bytes) res" where
  "owner_keypair E K fs p = fst (load_ed25519_keypair K (ce_path E p) fs)"

record client_args =
  ca_config :: pstr
  ca_overrides :: overrides
  ca_name :: pstr  \<comment> \<open>\<open>object_hash\<close> or \<open>owner_name\<close>\<close>
  ca_urls :: "pstr list option"
  ca_endpoint :: "pstr list option"
  ca_seq :: "int option"
  ca_replacement :: "pstr option"
  ca_finalized :: "pstr option"

text \<open>
  The arguments of a submission: \<open>Some None\<close> for one that was finalised before, \<open>Some (Some p)\<close> for
  one that is to be signed with the key in \<open>p\<close>, \<open>None\<close> when the command ends with status 1.
\<close>

definition submission ::
  "yaml_env \<Rightarrow> client_config \<Rightarrow> client_args \<Rightarrow> bool \<Rightarrow> bool \<Rightarrow> pstr option option res" where
  "submission Y s a enough mixed =
     (if ca_finalized a = None then
        if \<not> enough then Inr None
        else bindE (resolve_required_owner_privkey_pem_path Y s) (\<lambda>p. Inr (Some (Some p)))
      else if mixed then Inr None
      else Inr (Some None))"

definition read_finalized ::
  "('db, 'v, 'n, 'p, 'i, 'a) cli_env \<Rightarrow> pstr \<Rightarrow> (('db, 'v, 'n, 'p) console, bytes) act" where
  "read_finalized E p = on_files (read_cli_bytes (ce_path E p) ''finalized SignedEnvelope'')"

definition submit ::
  "string \<Rightarrow> (('db, 'v, 'n, 'p) console, unit) act \<Rightarrow> (('db, 'v, 'n, 'p) console, int) act" where
  "submit failed m =
     tryA (bindA m (\<lambda>_. pureA (Inr 0)))
       (\<lambda>_. bindA (print_out (Line (lit failed))) (\<lambda>_. pureA (Inr 1)))"

text \<open>
  The submission itself: the finalised envelope is read first, if there is one; \<open>call\<close> is the call
  of the service with the files as they are and the envelope read.
\<close>

definition publish_envelope ::
  "('db, 'v, 'n, 'p, 'i, 'a) cli_env \<Rightarrow> pstr option \<Rightarrow>
   (('db, 'v, 'n, 'p, 'i, 'a) deployment \<Rightarrow> key_fs \<Rightarrow> bytes option \<Rightarrow> (('db, 'v, 'n) node, unit) act) \<Rightarrow>
   ('db, 'v, 'n, 'p, 'i, 'a) deployment \<Rightarrow> (('db, 'v, 'n, 'p) console, unit) act" where
  "publish_envelope E finalized call D =
     bindA (case finalized of
         None \<Rightarrow> pureA (Inr None)
       | Some p \<Rightarrow> bindA (read_finalized E p) (\<lambda>envelope_cbor. pureA (Inr (Some envelope_cbor))))
       (\<lambda>envelope.
     bindA (\<lambda>c. service (call D (co_files c) envelope) c) (\<lambda>_. print_out (Line (lit ''1''))))"

text \<open>
  \<open>enough\<close>: the arguments suffice to sign; \<open>mixed\<close>: arguments for signing are given beside a
  finalised envelope.
\<close>

definition submission_command ::
  "string \<Rightarrow> ('db, 'v, 'n, 'p, 'i, 'a) cli_env \<Rightarrow> client_args \<Rightarrow> bool \<Rightarrow> bool \<Rightarrow>
   (pstr option \<Rightarrow> ('db, 'v, 'n, 'p, 'i, 'a) deployment \<Rightarrow> key_fs \<Rightarrow> bytes option \<Rightarrow>
      (('db, 'v, 'n) node, unit) act) \<Rightarrow>
   (('db, 'v, 'n, 'p) console, int) act" where
  "submission_command failed E a enough mixed call =
     bindA (pureA (client_settings (ce_yaml E) (ca_config a) (ca_overrides a))) (\<lambda>s.
     bindA (pureA (submission (ce_yaml E) s a enough mixed)) (\<lambda>sub.
     case sub of
       None \<Rightarrow> pureA (Inr 1)
     | Some privkey \<Rightarrow>
         bindA (configure_logging (Some (cf_verbosity s))) (\<lambda>_.
         submit failed (client_session E s (publish_envelope E (ca_finalized a) (call privkey))))))"

definition put_provider_call ::
  "('db, 'v, 'n, 'p, 'i, 'a) cli_env \<Rightarrow> ext \<Rightarrow> 'k keys \<Rightarrow> client_args \<Rightarrow> pstr option \<Rightarrow>
   ('db, 'v, 'n, 'p, 'i, 'a) deployment \<Rightarrow> key_fs \<Rightarrow> bytes option \<Rightarrow> (('db, 'v, 'n) node, unit) act" where
  "put_provider_call E X K a privkey D fs envelope =
     (let put = put_provider X (owner_keypair E K fs) (libp2p_dht X (dp_adapter D)) (ca_name a) in
      case envelope of
        Some _ \<Rightarrow> put None None None None (PStr (lit ''Ed25519'')) envelope
      | None \<Rightarrow>
          put (Some (map PStr (normalize_provider_uris (ca_urls a)))) privkey
            (Some (case ca_seq a of None \<Rightarrow> 1 | Some n \<Rightarrow> n))
            (Some (map PStr (parse_endpoints (case ca_endpoint a of None \<Rightarrow> [] | Some es \<Rightarrow> es))))
            (PStr (lit ''Ed25519'')) None)"

definition put_provider_command ::
  "('db, 'v, 'n, 'p, 'i, 'a) cli_env \<Rightarrow> ext \<Rightarrow> 'k keys \<Rightarrow> client_args \<Rightarrow>
   (('db, 'v, 'n, 'p) console, int) act" where
  "put_provider_command E X K a =
     submission_command ''put failed'' E a
       (normalize_provider_uris (ca_urls a) \<noteq> [] \<and> ca_seq a \<noteq> None)
       (normalize_provider_uris (ca_urls a) \<noteq> [] \<or> ar_owner_privkey (ca_overrides a) \<noteq> None \<or>
        ca_endpoint a \<noteq> None \<and> ca_endpoint a \<noteq> Some [] \<or> ca_seq a \<noteq> None)
       (put_provider_call E X K a)"

definition withdraw_provider_call ::
  "('db, 'v, 'n, 'p, 'i, 'a) cli_env \<Rightarrow> ext \<Rightarrow> 'k keys \<Rightarrow> client_args \<Rightarrow> pstr option \<Rightarrow>
   ('db, 'v, 'n, 'p, 'i, 'a) deployment \<Rightarrow> key_fs \<Rightarrow> bytes option \<Rightarrow> (('db, 'v, 'n) node, unit) act" where
  "withdraw_provider_call E X K a privkey D fs envelope =
     (let finalized = (envelope \<noteq> None) in
      withdraw_provider X (owner_keypair E K fs) (libp2p_dht X (dp_adapter D)) (ca_name a)
        (if finalized then None else privkey) (if finalized then None else ca_seq a)
        (if finalized then None else ca_replacement a) envelope)"

definition withdraw_provider_command ::
  "('db, 'v, 'n, 'p, 'i, 'a) cli_env \<Rightarrow> ext \<Rightarrow> 'k keys \<Rightarrow> client_args \<Rightarrow>
   (('db, 'v, 'n, 'p) console, int) act" where
  "withdraw_provider_command E X K a =
     submission_command ''withdraw failed'' E a
       (ca_seq a \<noteq> None)
       (ar_owner_privkey (ca_overrides a) \<noteq> None \<or> ca_seq a \<noteq> None \<or> ca_replacement a \<noteq> None)
       (withdraw_provider_call E X K a)"

definition put_identity_call ::
  "('db, 'v, 'n, 'p, 'i, 'a) cli_env \<Rightarrow> ext \<Rightarrow> 'k keys \<Rightarrow> client_args \<Rightarrow> pstr option \<Rightarrow>
   ('db, 'v, 'n, 'p, 'i, 'a) deployment \<Rightarrow> key_fs \<Rightarrow> bytes option \<Rightarrow> (('db, 'v, 'n) node, unit) act" where
  "put_identity_call E X K a privkey D fs envelope =
     (let put = put_identity X (owner_keypair E K fs) (libp2p_dht X (dp_adapter D)) (ca_name a) in
      case envelope of
        Some _ \<Rightarrow> put None None envelope
      | None \<Rightarrow> put privkey (Some (case ca_seq a of None \<Rightarrow> 1 | Some n \<Rightarrow> n)) None)"

definition put_identity_command ::
  "('db, 'v, 'n, 'p, 'i, 'a) cli_env \<Rightarrow> ext \<Rightarrow> 'k keys \<Rightarrow> client_args \<Rightarrow>
   (('db, 'v, 'n, 'p) console, int) act" where
  "put_identity_command E X K a =
     submission_command ''put failed'' E a
       (ca_seq a \<noteq> None) (ar_owner_privkey (ca_overrides a) \<noteq> None \<or> ca_seq a \<noteq> None)
       (put_identity_call E X K a)"

text \<open>The value that \<open>get\<close> prints.\<close>

definition provider_json :: "pstr \<Rightarrow> provider_get \<Rightarrow> pyval" where
  "provider_json object_hash found =
     (case found of
        Got_withdrawn r \<Rightarrow> withdrawn_to_dict r
      | Got_record r \<Rightarrow> provider_record_to_dict r
      | Got_payload p \<Rightarrow> PDict
          [(PStr (lit ''object_key''), PStr object_hash),
           (PStr (lit ''provider_urls''), PList (map PStr (v3_provider_urls p))),
           (PStr (lit ''endpoints''), PList (map PStr (v3_endpoints p)))])"

text \<open>The adapter returns a dictionary for an Identity without an authorization.\<close>

definition identity_json :: "identity_get \<Rightarrow> pyval" where
  "identity_json found =
     (case found of
        Got_identity r \<Rightarrow> identity_record_to_dict r
      | Got_legacy_identity r \<Rightarrow> PDict
          [(PStr (lit ''object_key''), PStr (io_object_key_hex r)),
           (PStr (lit ''owner_name''), PStr (io_owner_name_hex r)),
           (PStr (lit ''owner_public_key''), PStr (bytes_hex (io_owner r))),
           (PStr (lit ''seq''), PInt (io_seq r))])"

definition show_result :: "('r \<Rightarrow> pyval) \<Rightarrow> 'r option \<Rightarrow> (('db, 'v, 'n, 'p) console, int) act" where
  "show_result json found =
     (case found of
        None \<Rightarrow> bindA (print_out (Line (lit ''not found''))) (\<lambda>_. pureA (Inr 1))
      | Some r \<Rightarrow> bindA (print_out (Json (json r))) (\<lambda>_. pureA (Inr 0)))"

definition get_provider_command ::
  "('db, 'v, 'n, 'p, 'i, 'a) cli_env \<Rightarrow> ext \<Rightarrow> client_args \<Rightarrow> (('db, 'v, 'n, 'p) console, int) act" where
  "get_provider_command E X a =
     bindA (pureA (client_settings (ce_yaml E) (ca_config a) (ca_overrides a))) (\<lambda>s.
     bindA (configure_logging (Some (cf_verbosity s))) (\<lambda>_.
     client_session E s (\<lambda>D.
       bindA (service (get_provider (libp2p_dht X (dp_adapter D)) (ca_name a) 0))
         (show_result (provider_json (ca_name a))))))"

definition get_identity_command ::
  "('db, 'v, 'n, 'p, 'i, 'a) cli_env \<Rightarrow> ext \<Rightarrow> client_args \<Rightarrow> (('db, 'v, 'n, 'p) console, int) act" where
  "get_identity_command E X a =
     bindA (pureA (client_settings (ce_yaml E) (ca_config a) (ca_overrides a))) (\<lambda>s.
     bindA (configure_logging (Some (cf_verbosity s))) (\<lambda>_.
     client_session E s (\<lambda>D.
       bindA (service (get_identity X (libp2p_dht X (dp_adapter D)) (ca_name a) 0))
         (show_result identity_json))))"

subsection \<open>Dispatch\<close>

datatype record_type = Provider_type | Identity_type | Other_type

datatype command =
    Node node_args
  | Keygen pstr
  | Bundle bundle_action
  | Put record_type client_args
  | Get record_type client_args
  | Withdraw record_type client_args
  | Other_command

text \<open>
  \<open>raise SystemExit(text)\<close> writes the text to the error stream and ends with status 1; so does it
  for a command the parser knows but the dispatch does not. \<open>verbose\<close> counts \<open>-v\<close>, and
  \<open>node_verbose\<close> those after \<open>node\<close>.
\<close>

definition total_verbosity :: "command \<Rightarrow> int option \<Rightarrow> int option \<Rightarrow> int option" where
  "total_verbosity cmd verbose node_verbose =
     (case (cmd, node_verbose) of
        (Node _, Some n) \<Rightarrow> Some ((case verbose of None \<Rightarrow> 0 | Some v \<Rightarrow> v) + n)
      | _ \<Rightarrow> verbose)"

fun dispatch ::
  "('db, 'v, 'n, 'p, 'i, 'a) cli_env \<Rightarrow> ext \<Rightarrow> 'k keys \<Rightarrow> int option \<Rightarrow> command \<Rightarrow>
   (('db, 'v, 'n, 'p) console, int) act" where
  "dispatch E X K verbose (Node a) =
     node_command E K (a\<lparr>na_overrides := (na_overrides a)\<lparr>ar_verbose := verbose\<rparr>\<rparr>)"
| "dispatch E X K verbose (Keygen target) = keygen_command E K target"
| "dispatch E X K verbose (Bundle action) =
     bindA (on_files (bundle_command X K (ce_mode E) action)) (\<lambda>ended.
     bindA (print_all (snd ended)) (\<lambda>_. pureA (Inr (fst ended))))"
| "dispatch E X K verbose (Put Provider_type a) =
     put_provider_command E X K (a\<lparr>ca_overrides := (ca_overrides a)\<lparr>ar_verbose := verbose\<rparr>\<rparr>)"
| "dispatch E X K verbose (Put Identity_type a) =
     put_identity_command E X K (a\<lparr>ca_overrides := (ca_overrides a)\<lparr>ar_verbose := verbose\<rparr>\<rparr>)"
| "dispatch E X K verbose (Get Provider_type a) =
     get_provider_command E X (a\<lparr>ca_overrides := (ca_overrides a)\<lparr>ar_verbose := verbose\<rparr>\<rparr>)"
| "dispatch E X K verbose (Get Identity_type a) =
     get_identity_command E X (a\<lparr>ca_overrides := (ca_overrides a)\<lparr>ar_verbose := verbose\<rparr>\<rparr>)"
| "dispatch E X K verbose (Withdraw Provider_type a) =
     withdraw_provider_command E X K (a\<lparr>ca_overrides := (ca_overrides a)\<lparr>ar_verbose := verbose\<rparr>\<rparr>)"
| "dispatch E X K verbose _ = pureA (Inr 1)"

definition main ::
  "('db, 'v, 'n, 'p, 'i, 'a) cli_env \<Rightarrow> ext \<Rightarrow> 'k keys \<Rightarrow> command \<Rightarrow> int option \<Rightarrow> int option \<Rightarrow>
   (('db, 'v, 'n, 'p) console, int) act" where
  "main E X K cmd verbose node_verbose =
     bindA (configure_logging (total_verbosity cmd verbose node_verbose)) (\<lambda>_.
     dispatch E X K (total_verbosity cmd verbose node_verbose) cmd)"

end
