(* ===== verification/Cli_Safety.thy ===== *)
theory Cli_Safety
  imports Cli_Commands
begin

text \<open>
  What every command keeps of its node. A relation between nodes that the steps of a node keep is
  kept by a session and by a command, if the calls of \<open>libp2p\<close> and LMDB around the session and the
  time it waits keep it.
\<close>

text \<open>The calls of a session's environment, and those of a deployment.\<close>

definition calls_keep ::
  "(('db, 'v, 'n) node \<Rightarrow> ('db, 'v, 'n) node \<Rightarrow> bool) \<Rightarrow> ('db, 'v, 'n, 'p, 'i, 'a) session_env \<Rightarrow> bool" where
  "calls_keep R V =
     ((\<forall>b. keeps R (sv_mkdir V b)) \<and> (\<forall>b. keeps R (sv_lmdb_open V b)) \<and>
      (\<forall>n. keeps R (sv_open_db V n)) \<and> keeps R (sv_lmdb_close V) \<and>
      keeps R (sv_host_enter V) \<and> keeps R (sv_host_exit V) \<and> keeps R (sv_kad_new V) \<and>
      keeps R (sv_register V) \<and> keeps R (sv_dht_enter V) \<and> keeps R (sv_dht_exit V) \<and>
      (\<forall>p. keeps R (rt_remove (sv_routing V) p)) \<and>
      (\<forall>i. keeps R (sv_connect V i)) \<and> keeps R (sv_find_self V))"

definition deployment_keeps ::
  "(('db, 'v, 'n) node \<Rightarrow> ('db, 'v, 'n) node \<Rightarrow> bool) \<Rightarrow> ('db, 'v, 'n, 'p, 'i, 'a) deployment \<Rightarrow> bool" where
  "deployment_keeps R D = (calls_keep R (dp_env D) \<and> (\<forall>w. keeps R (dp_wait D w)))"

abbreviation on_sessions ::
  "(('db, 'v, 'n) node \<Rightarrow> ('db, 'v, 'n) node \<Rightarrow> bool) \<Rightarrow>
   ('db, 'v, 'n, 'p) session \<Rightarrow> ('db, 'v, 'n, 'p) session \<Rightarrow> bool" where
  "on_sessions R s s' \<equiv> R (se_node s) (se_node s')"

abbreviation on_consoles ::
  "(('db, 'v, 'n) node \<Rightarrow> ('db, 'v, 'n) node \<Rightarrow> bool) \<Rightarrow>
   ('db, 'v, 'n, 'p) console \<Rightarrow> ('db, 'v, 'n, 'p) console \<Rightarrow> bool" where
  "on_consoles R c c' \<equiv> on_sessions R (co_session c) (co_session c')"

subsection \<open>Sessions\<close>

text \<open>A relation that does not see the mode and the list of configured peers.\<close>

locale node_order = state_order R
  for R :: "('db, 'v, 'n) node \<Rightarrow> ('db, 'v, 'n) node \<Rightarrow> bool" +
  assumes configured: "R d (d\<lparr>nd_server := server, nd_bootstrap := ps\<rparr>)"
begin

lemma peers: "R d (d\<lparr>nd_bootstrap := ps\<rparr>)"
  using configured [where server = "nd_server d" and d = d and ps = ps] by simp

sublocale on_session_order: state_order "on_sessions R"
  by unfold_locales (auto intro: same chain)

sublocale on_console_order: state_order "on_consoles R"
  by unfold_locales (auto intro: same chain)

lemma keeps_on_node: "keeps R m \<Longrightarrow> keeps (on_sessions R) (on_node m)"
  by (simp add: keeps_def on_node_def on_world_def split: prod.split) (metis snd_conv)

lemma keeps_set_session: "(\<And>s. se_gate (f s) = se_gate s) \<Longrightarrow> keeps (on_sessions R) (set_session f)"
  by (simp add: keeps_def set_session_def same)

lemma keeps_remove_all:
  assumes "\<And>p. keeps R (rt_remove Q p)"
  shows "keeps (\<lambda>g g'. R (gt_world g) (gt_world g')) (remove_all Q ps)"
proof -
  have gates: "state_order (\<lambda>g g'. R (gt_world g) (gt_world g'))"
    by unfold_locales (auto intro: same chain)
  have "keeps (\<lambda>g g'. R (gt_world g) (gt_world g')) (on_world (rt_remove Q p))" for p
    using assms [of p] by (simp add: keeps_def on_world_def split: prod.split) (metis snd_conv)
  then show ?thesis
    by (induction ps) (auto intro: state_order.keeps_pureA [OF gates] state_order.keeps_bindA [OF gates])
qed

lemma keeps_install_gate:
  assumes "calls_keep R V"
  shows "keeps (on_sessions R) (install_gate V)"
proof -
  have "keeps (\<lambda>g g'. R (gt_world g) (gt_world g')) (remove_all (sv_routing V) ps)" for ps
    by (rule keeps_remove_all) (use assms in \<open>simp add: calls_keep_def\<close>)
  then have "R w (gt_world (snd (init_eligibility (sv_routing V) ps w)))" for ps w
    unfolding keeps_def init_eligibility_def by (metis gate.select_convs(3))
  then show ?thesis
    by (simp add: keeps_def install_gate_def install_dht_serving_eligibility_def register_handler_def
        same split: prod.split sum.split) (metis snd_conv)
qed

lemmas keeps_session_intros = on_session_order.keeps_intros on_session_order.keeps_finallyA
  on_session_order.keeps_state_if keeps_on_node keeps_set_session

lemma keeps_store_open:
  assumes "calls_keep R V"
  shows "keeps (on_sessions R) (store_open V)"
  unfolding store_open_def Let_def
  by (rule on_session_order.keeps_state_if [OF on_session_order.keeps_Pair],
      rule on_session_order.keeps_state_arg [where g = "\<lambda>s. open_subdir (sv_path_exists V (se_node s))
        (sv_path_is_dir V (se_node s)) (sv_path_suffix V)"])
    (use assms in \<open>auto simp: calls_keep_def intro!: keeps_session_intros\<close>)

lemma keeps_close_durable: "calls_keep R V \<Longrightarrow> keeps (on_sessions R) (close_durable V)"
  unfolding close_durable_def store_close_def
  by (auto simp: calls_keep_def intro!: keeps_session_intros)

lemma keeps_start_adapter:
  assumes "calls_keep R V"
  shows "keeps (on_sessions R) (start_adapter V)"
proof -
  note calls = assms [unfolded calls_keep_def]
  have "keeps (on_sessions R) (start_host V)" "keeps (on_sessions R) (set_up_dht V)"
    "keeps (on_sessions R) (start_dht V)"
    unfolding start_host_def set_up_dht_def start_dht_def
    using calls keeps_close_durable [OF assms] keeps_install_gate [OF assms]
    by (auto intro!: keeps_session_intros)
  then show ?thesis
    unfolding start_adapter_def using keeps_store_open [OF assms]
    by (auto intro!: keeps_session_intros)
qed

lemma keeps_leave_context: "keeps R m \<Longrightarrow> keeps (on_sessions R) (leave_context b m)"
  unfolding leave_context_def by (auto intro!: keeps_session_intros)

lemma keeps_stop_adapter:
  assumes "calls_keep R V"
  shows "keeps (on_sessions R) (stop_adapter V)"
proof -
  have leave: "keeps R (sv_dht_exit V)" "keeps R (sv_host_exit V)"
    using assms by (simp_all add: calls_keep_def)
  show ?thesis
    unfolding stop_adapter_def
    by (rule on_session_order.keeps_bindA [OF
          on_session_order.keeps_state_arg [where f = "\<lambda>b. leave_context b (sv_dht_exit V)",
            OF keeps_leave_context [OF leave(1)]]],
        rule on_session_order.keeps_bindA [OF
          on_session_order.keeps_state_arg [where f = "\<lambda>b. leave_context b (sv_host_exit V)",
            OF keeps_leave_context [OF leave(2)]]],
        rule keeps_close_durable [OF assms])
qed

lemma keeps_bootstrap:
  assumes "calls_keep R V"
  shows "keeps (on_sessions R) (bootstrap V seed)"
proof -
  note calls = assms [unfolded calls_keep_def]
  have "keeps R (\<lambda>d. (Inr (), if seed \<in> set (nd_bootstrap d) then d
      else d\<lparr>nd_bootstrap := nd_bootstrap d @ [seed]\<rparr>))"
    by (simp add: keeps_def same peers)
  then show ?thesis
    unfolding bootstrap_def using calls by (auto intro!: keeps_session_intros)
qed

lemma keeps_bootstrap_loops:
  assumes "calls_keep R V"
  shows "keeps (on_sessions R) (bootstrap_all V seeds)" "keeps (on_sessions R) (bootstrap_any V seeds ok)"
  using keeps_bootstrap [OF assms]
  by (induction seeds arbitrary: ok) (auto intro!: keeps_session_intros)

subsection \<open>Commands\<close>

lemma keeps_on_session: "keeps (on_sessions R) m \<Longrightarrow> keeps (on_consoles R) (on_session m)"
  by (simp add: keeps_def on_session_def split: prod.split) (metis snd_conv)

lemma keeps_on_files: "keeps (on_consoles R) (on_files m)"
  by (simp add: keeps_def on_files_def same split: prod.split)

lemma keeps_print: "keeps (on_consoles R) (print_out p)"
  by (simp add: keeps_def print_out_def same)

lemma keeps_service: "keeps R m \<Longrightarrow> keeps (on_consoles R) (service m)"
  unfolding service_def by (intro keeps_on_session keeps_on_node)

lemma keeps_wait_for: "deployment_keeps R D \<Longrightarrow> keeps (on_consoles R) (wait_for D w)"
  unfolding wait_for_def deployment_keeps_def by (intro keeps_on_session keeps_on_node) simp

lemmas keeps_console_intros = on_console_order.keeps_intros on_console_order.keeps_finallyA
  keeps_on_session keeps_on_files keeps_print keeps_service keeps_wait_for

lemma keeps_in_adapter:
  assumes "deployment_keeps R D" and "keeps (on_consoles R) body"
  shows "keeps (on_consoles R) (in_adapter D body)"
  unfolding in_adapter_def
  using assms keeps_start_adapter keeps_stop_adapter
  by (auto simp: deployment_keeps_def intro!: keeps_console_intros)

text \<open>
  What a command may do: change the node it finds within \<open>R\<close>, or construct an adapter and change
  its node within \<open>R\<close>.
\<close>

definition commanded ::
  "('db, 'v, 'n, 'p, 'i, 'a) cli_env \<Rightarrow> ('db, 'v, 'n, 'p) console \<Rightarrow> ('db, 'v, 'n, 'p) console \<Rightarrow> bool" where
  "commanded E c c' =
     (on_consoles R c c' \<or>
      (\<exists>listen p n k D. ce_deploy E listen p n k = Inr D \<and> R (dp_node D) (se_node (co_session c'))))"

sublocale command_order: state_order "commanded E" for E
proof
  show "commanded E a c" if "commanded E a b" "commanded E b c" for a b c
    using that unfolding commanded_def by (blast intro: chain)
qed (simp add: commanded_def same)

lemma keeps_commanded: "keeps (on_consoles R) m \<Longrightarrow> keeps (commanded E) m"
  by (simp add: keeps_def commanded_def)

lemmas keeps_command_intros = command_order.keeps_intros
  keeps_commanded [OF keeps_print] keeps_commanded [OF keeps_on_files]

lemma keeps_configure_logging: "keeps (on_consoles R) (configure_logging v)"
  by (simp add: keeps_def configure_logging_def same)

lemma keeps_construct_adapter: "keeps (commanded E) (construct_adapter E s k)"
  unfolding keeps_def
proof
  fix c
  obtain p n where store: "make_datastore s = (p, n)" by fastforce
  show "commanded E c (snd (construct_adapter E s k c))"
  proof (cases "ce_deploy E (listen_address s) p n k")
    case (Inr D)
    have "R (dp_node D) ((dp_node D)\<lparr>nd_server := True, nd_bootstrap := []\<rparr>)" by (rule configured)
    with Inr have "commanded E c (c\<lparr>co_session :=
        new_session ((dp_node D)\<lparr>nd_server := True, nd_bootstrap := []\<rparr>)\<rparr>)"
      by (auto simp: commanded_def new_session_def)
    with Inr store show ?thesis by (simp add: construct_adapter_def bindA_cases)
  qed (simp add: construct_adapter_def store bindA_cases command_order.same)
qed

lemma keeps_client_session:
  fixes E :: "('db, 'v, 'n, 'p, 'i, 'a) cli_env"
  assumes "\<And>listen p n k D. ce_deploy E listen p n k = Inr D \<Longrightarrow>
      deployment_keeps R D \<and> keeps (on_consoles R) (body D)"
  shows "keeps (commanded E) (client_session E s body)"
  unfolding client_session_def
proof (rule command_order.keeps_bindA_known [OF keeps_construct_adapter])
  fix D and c c' :: "('db, 'v, 'n, 'p) console"
  assume "construct_adapter E s None c = (Inr D, c')"
  then obtain listen p n k where "ce_deploy E listen p n k = Inr D"
    by (auto simp: construct_adapter_def make_datastore_def res_simps)
  from assms [OF this] keeps_bootstrap_loops(1) [of "dp_env D"]
  show "keeps (commanded E) (in_adapter D
      (bindA (on_session (bootstrap_all (dp_env D) (parse_endpoints (cf_bootstrap s))))
        (\<lambda>_. bindA (wait_for D (Seconds (Fraction 1 1))) (\<lambda>_. body D))))"
    by (intro keeps_commanded keeps_in_adapter) (auto simp: deployment_keeps_def intro!: keeps_console_intros)
qed

end

interpretation node_safety: node_order "safe X B seq_of" for X B seq_of
  by unfold_locales (simp add: safe_def)

subsection \<open>The operations of the service\<close>

lemma adapter_keeps:
  assumes "net_safe X A B seq_of"
  shows "keeps (safe X B seq_of) (put_signed_provider_record (libp2p_dht X A) h e)"
    and "keeps (safe X B seq_of) (get_signed_provider_record (libp2p_dht X A) h q)"
    and "keeps (safe X B seq_of) (get_signed_provider_envelope (libp2p_dht X A) h q)"
    and "keeps (safe X B seq_of) (put_signed_identity_record (libp2p_dht X A) h e)"
    and "keeps (safe X B seq_of) (get_signed_identity_record (libp2p_dht X A) h q)"
  unfolding libp2p_dht_def keeps_def
  by (auto intro!: node_step_safe [OF assms]
      intro: node_step.put_provider [OF prod.collapse [symmetric]]
        node_step.get_provider [OF prod.collapse [symmetric]]
        node_step.provider_envelope [OF prod.collapse [symmetric]]
        node_step.put_identity [OF prod.collapse [symmetric]]
        node_step.get_identity [OF prod.collapse [symmetric]])

lemma service_keeps:
  assumes "net_safe X A B seq_of"
  shows "keeps (safe X B seq_of) (put_provider X ld (libp2p_dht X A) h us p n es alg env)"
    and "keeps (safe X B seq_of) (withdraw_provider X ld (libp2p_dht X A) h p n rep env)"
    and "keeps (safe X B seq_of) (put_identity X ld (libp2p_dht X A) h p n env)"
    and "keeps (safe X B seq_of) (get_provider (libp2p_dht X A) h q)"
    and "keeps (safe X B seq_of) (get_identity X (libp2p_dht X A) h q)"
  unfolding put_provider_def withdraw_provider_def put_identity_def get_provider_def get_identity_def
    put_provider_envelope_def put_identity_envelope_def mapexcA_def
  by (auto split: option.split intro!: safety.keeps_intros adapter_keeps [OF assms])

subsection \<open>All commands\<close>

text \<open>
  What is assumed of the surroundings: every adapter a command may construct keeps its node's
  steps, and the calls of its session do.
\<close>

definition cli_safe ::
  "ext \<Rightarrow> ('db, 'v, 'n, 'p, 'i, 'a) cli_env \<Rightarrow> 'db backend \<Rightarrow> ('db \<Rightarrow> kind \<Rightarrow> bytes \<Rightarrow> int option) \<Rightarrow> bool" where
  "cli_safe X E B seq_of =
     (\<forall>listen p n k D. ce_deploy E listen p n k = Inr D \<longrightarrow>
        net_safe X (dp_adapter D) B seq_of \<and> deployment_keeps (safe X B seq_of) D)"

lemma cli_safe_client:
  assumes "cli_safe X E B seq_of"
    and "\<And>D. net_safe X (dp_adapter D) B seq_of \<Longrightarrow> deployment_keeps (safe X B seq_of) D \<Longrightarrow>
      keeps (on_consoles (safe X B seq_of)) (body D)"
  shows "keeps (node_safety.commanded X B seq_of E) (client_session E s body)"
  by (rule node_safety.keeps_client_session) (use assms in \<open>auto simp: cli_safe_def\<close>)

lemma cli_safe_submission:
  fixes E :: "('db, 'v, 'n, 'p, 'i, 'a) cli_env"
  assumes "cli_safe X E B seq_of"
    and "\<And>k D fs env. net_safe X (dp_adapter D) B seq_of \<Longrightarrow> keeps (safe X B seq_of) (call k D fs env)"
  shows "keeps (node_safety.commanded X B seq_of E) (submission_command m E a enough mixed call)"
proof -
  have "keeps (on_consoles (safe X B seq_of)) (\<lambda>c. service (call k D (co_files c) env) c)"
    if "net_safe X (dp_adapter D) B seq_of" for k env and D :: "('db, 'v, 'n, 'p, 'i, 'a) deployment"
    by (rule node_safety.on_console_order.keeps_state_arg [where f = "\<lambda>fs. service (call k D fs env)"])
      (intro node_safety.keeps_service assms(2) that)
  then have "keeps (node_safety.commanded X B seq_of E)
      (client_session E s (publish_envelope E (ca_finalized a) (call k)))" for s k
    unfolding publish_envelope_def read_finalized_def
    by (intro cli_safe_client [OF assms(1)]) (auto intro!: node_safety.keeps_console_intros split: option.split)
  then show ?thesis
    unfolding submission_command_def submit_def
    by (auto intro!: node_safety.keeps_command_intros
        node_safety.keeps_commanded [OF node_safety.keeps_configure_logging])
qed

lemma cli_safe_commands:
  assumes "cli_safe X E B seq_of"
  shows "keeps (node_safety.commanded X B seq_of E) (put_provider_command E X K a)"
    and "keeps (node_safety.commanded X B seq_of E) (withdraw_provider_command E X K a)"
    and "keeps (node_safety.commanded X B seq_of E) (put_identity_command E X K a)"
    and "keeps (node_safety.commanded X B seq_of E) (get_provider_command E X a)"
    and "keeps (node_safety.commanded X B seq_of E) (get_identity_command E X a)"
proof -
  show "keeps (node_safety.commanded X B seq_of E) (put_provider_command E X K a)"
    "keeps (node_safety.commanded X B seq_of E) (withdraw_provider_command E X K a)"
    "keeps (node_safety.commanded X B seq_of E) (put_identity_command E X K a)"
    unfolding put_provider_command_def withdraw_provider_command_def put_identity_command_def
    by (rule cli_safe_submission [OF assms], simp add: put_provider_call_def withdraw_provider_call_def
        put_identity_call_def Let_def service_keeps split: option.split)+
  have show_result: "keeps (on_consoles (safe X B seq_of)) (show_result json found)" for json found
    unfolding show_result_def by (auto split: option.split intro!: node_safety.keeps_console_intros)
  show "keeps (node_safety.commanded X B seq_of E) (get_provider_command E X a)"
    "keeps (node_safety.commanded X B seq_of E) (get_identity_command E X a)"
    unfolding get_provider_command_def get_identity_command_def
    by (auto intro!: node_safety.keeps_command_intros cli_safe_client [OF assms] show_result
        node_safety.keeps_commanded [OF node_safety.keeps_configure_logging]
        node_safety.on_console_order.keeps_bindA node_safety.keeps_service service_keeps)
qed

lemma cli_safe_node:
  fixes E :: "('db, 'v, 'n, 'p, 'i, 'a) cli_env"
  assumes "cli_safe X E B seq_of"
  shows "keeps (node_safety.commanded X B seq_of E) (node_command E K a)"
proof -
  have run: "keeps (node_safety.commanded X B seq_of E)
      (bindA (construct_adapter E s k) (\<lambda>D. in_adapter D (run_node D endpoints t)))"
    for s :: config and k endpoints t
  proof (rule node_safety.command_order.keeps_bindA_known [OF node_safety.keeps_construct_adapter])
    fix D and c c' :: "('db, 'v, 'n, 'p) console"
    assume "construct_adapter E s k c = (Inr D, c')"
    then obtain listen p n where "ce_deploy E listen p n k = Inr D"
      by (auto simp: construct_adapter_def make_datastore_def res_simps)
    then have D: "deployment_keeps (safe X B seq_of) D" using assms by (auto simp: cli_safe_def)
    then have V: "calls_keep (safe X B seq_of) (dp_env D)" by (simp add: deployment_keeps_def)
    show "keeps (node_safety.commanded X B seq_of E) (in_adapter D (run_node D endpoints t))"
      unfolding run_node_def
      by (intro node_safety.keeps_commanded node_safety.keeps_in_adapter [OF D]
          node_safety.keeps_console_intros node_safety.keeps_bootstrap_loops [OF V] D
          node_safety.on_session_order.keeps_readA)
  qed
  show ?thesis
    unfolding node_command_def
    by (intro node_safety.keeps_command_intros run
        node_safety.keeps_commanded [OF node_safety.keeps_configure_logging])
qed

lemma cli_safe_main:
  assumes "cli_safe X E B seq_of"
  shows "keeps (node_safety.commanded X B seq_of E) (main E X K cmd verbose node_verbose)"
proof -
  have out: "keeps (node_safety.commanded X B seq_of E) (print_all ps)" for ps
    by (induction ps) (auto intro!: node_safety.keeps_command_intros)
  have keygen: "keeps (node_safety.commanded X B seq_of E) (keygen_command E K target)" for target
    by (simp add: keeps_def keygen_command_def on_files_def print_out_def bindA_cases
        node_safety.commanded_def safety.same split: prod.split sum.split)
  have "keeps (node_safety.commanded X B seq_of E) (dispatch E X K v cmd)" for v
    using cli_safe_commands [OF assms] cli_safe_node [OF assms] keygen
    by (cases "(E, X, K, v, cmd)" rule: dispatch.cases)
      (auto intro!: node_safety.keeps_command_intros out)
  then show ?thesis
    unfolding main_def
    by (auto intro!: node_safety.command_order.keeps_bindA
        node_safety.keeps_commanded [OF node_safety.keeps_configure_logging])
qed

lemma main_keeps_identity_store:
  assumes "\<And>listen p n k D. ce_deploy E listen p n k = Inr D \<Longrightarrow>
      store_safe (dp_adapter D) B seq_of \<and> network_through_hooks X (dp_adapter D) \<and>
      deployment_keeps (hook_step X (dp_adapter D))\<^sup>*\<^sup>* D \<and> identity_store_ok X B (nd_db (dp_node D))"
    and "identity_store_ok X B (nd_db (se_node (co_session c)))"
    and "main E X K cmd verbose node_verbose c = (r, c')"
  shows "identity_store_ok X B (nd_db (se_node (co_session c')))"
proof -
  have "cli_safe X E B seq_of"
    unfolding cli_safe_def
  proof (intro allI impI)
    fix listen p n k D
    assume "ce_deploy E listen p n k = Inr D"
    note D = assms(1) [OF this]
    then have "\<And>d d'. (hook_step X (dp_adapter D))\<^sup>*\<^sup>* d d' \<Longrightarrow> safe X B seq_of d d'"
      using hook_steps_safe by blast
    with D show "net_safe X (dp_adapter D) B seq_of \<and> deployment_keeps (safe X B seq_of) D"
      by (auto simp: deployment_keeps_def calls_keep_def keeps_def intro: network_safe)
  qed
  from keepsD [OF cli_safe_main [OF this] assms(3)] assms(1,2) show ?thesis
    by (auto simp: node_safety.commanded_def safe_def)
qed

end
