(* ===== verification/Cli_Properties.thy ===== *)
theory Cli_Properties
  imports Cli_Safety Cli_Bundle_Properties Config_Properties Dht_Properties Lifecycle_Properties
begin

text \<open>
  The properties of the commands: what an exit status says about the record that was to be
  published, what a finalised submission has to do with private keys, and the node's own key.
\<close>

subsection \<open>What a submission leaves\<close>

definition told :: "printed list \<Rightarrow> files \<Rightarrow> ('db, 'v, 'n, 'p) console \<Rightarrow> bool" where
  "told out files c = (co_out c = out \<and> kf_files (co_files c) = files)"

lemma on_session_told: "ensures (told out files) (on_session m) (\<lambda>_. told out files)"
  by (auto simp: ensures_def on_session_def told_def split: prod.splits)

lemma print_out_told: "ensures (told out files) (print_out p) (\<lambda>_. told (out @ [p]) files)"
  by (auto simp: ensures_def print_out_def told_def)

lemma configure_logging_told: "ensures (told out files) (configure_logging v) (\<lambda>_. told out files)"
  by (auto simp: ensures_def configure_logging_def told_def)

lemma construct_adapter_told:
  "ensures (told out files) (construct_adapter E s k)
     (\<lambda>r c. told out files c \<and> (\<forall>D. r = Inr D \<longrightarrow> (\<exists>listen p n. ce_deploy E listen p n k = Inr D)))"
  by (auto simp: ensures_def construct_adapter_def told_def bindA_cases make_datastore_def
      split: prod.splits sum.splits)

lemma in_adapter_told:
  assumes "ensures (told out files) body (\<lambda>r c. \<forall>x. r = Inr x \<longrightarrow> told out' files c \<and> Q x)"
  shows "ensures (told out files) (in_adapter D body) (\<lambda>r c. \<forall>x. r = Inr x \<longrightarrow> told out' files c \<and> Q x)"
  unfolding in_adapter_def
proof (rule ensures_bindA [OF on_session_told])
  show "ensures (told out files) (finallyA body (on_session (stop_adapter (dp_env D))))
      (\<lambda>r c. \<forall>x. r = Inr x \<longrightarrow> told out' files c \<and> Q x)"
    by (rule ensures_finallyA [OF assms])
      (auto simp: ensures_def on_session_def told_def split: prod.splits sum.splits)
qed simp

lemma client_session_told:
  assumes "\<And>D. ensures (told out files) (body D) (\<lambda>r c. \<forall>x. r = Inr x \<longrightarrow> told out' files c \<and> Q D x)"
  shows "ensures (told out files) (client_session E s body)
    (\<lambda>r c. \<forall>x. r = Inr x \<longrightarrow> told out' files c \<and>
      (\<exists>listen p n D. ce_deploy E listen p n None = Inr D \<and> Q D x))"
  unfolding client_session_def
proof (rule ensures_bindA [OF construct_adapter_told])
  fix D
  let ?run = "in_adapter D (bindA (on_session (bootstrap_all (dp_env D) (parse_endpoints (cf_bootstrap s))))
      (\<lambda>_. bindA (wait_for D (Seconds (Fraction 1 1))) (\<lambda>_. body D)))"
  have "ensures (told out files) ?run (\<lambda>r c. \<forall>x. r = Inr x \<longrightarrow> told out' files c \<and> Q D x)"
    unfolding wait_for_def
    by (rule in_adapter_told, rule ensures_bindA [OF on_session_told], rule ensures_bindA [OF on_session_told])
      (auto intro: assms)
  then show "ensures (\<lambda>c. told out files c \<and> (\<forall>D'. Inr D = Inr D' \<longrightarrow>
        (\<exists>listen p n. ce_deploy E listen p n None = Inr D'))) ?run
      (\<lambda>r c. \<forall>x. r = Inr x \<longrightarrow> told out' files c \<and>
        (\<exists>listen p n D. ce_deploy E listen p n None = Inr D \<and> Q D x))"
    unfolding ensures_def by blast
qed simp

text \<open>The service's call has returned, on the envelope that the file holds.\<close>

definition delivered ::
  "('db, 'v, 'n, 'p, 'i, 'a) cli_env \<Rightarrow> files \<Rightarrow> pstr option \<Rightarrow>
   (key_fs \<Rightarrow> bytes option \<Rightarrow> (('db, 'v, 'n) node, unit) act) \<Rightarrow> bool" where
  "delivered E files finalized call =
     (\<exists>envelope fs d d'. kf_files fs = files \<and> call fs envelope d = (Inr (), d') \<and>
        envelope = map_option (\<lambda>p. fst (the (files (ce_path E p)))) finalized \<and>
        (\<forall>p. finalized = Some p \<longrightarrow> files (ce_path E p) \<noteq> None))"

lemma read_finalized_told:
  "ensures (told out files) (read_finalized E p)
    (\<lambda>r c. told out files c \<and> (\<forall>b. r = Inr b \<longrightarrow> (\<exists>m. files (ce_path E p) = Some (b, m))))"
  unfolding ensures_def
proof (intro allI impI)
  fix c r c'
  assume c: "told out files c" and run: "read_finalized E p c = (r, c')"
  then obtain fs where fs: "read_cli_bytes (ce_path E p) ''finalized SignedEnvelope'' (co_files c) = (r, fs)"
    and c': "c' = c\<lparr>co_files := fs\<rparr>"
    by (auto simp: read_finalized_def on_files_def split: prod.splits)
  have "ensures (unchanged (co_files c)) (read_cli_bytes (ce_path E p) ''finalized SignedEnvelope'')
      (\<lambda>r s. unchanged (co_files c) s \<and> (\<forall>x. r = Inr x \<longrightarrow>
        file_bytes (kf_files (co_files c)) (ce_path E p) ''finalized SignedEnvelope'' = Inr x))"
    using reads_cli_bytes by (simp add: reads_def)
  from ensuresD [OF this _ fs] c show "told out files c' \<and> (\<forall>b. r = Inr b \<longrightarrow> (\<exists>m. files (ce_path E p) = Some (b, m)))"
    by (auto simp: c' told_def unchanged_def file_bytes_def getE_def split: option.splits)
qed

lemma publish_envelope_told:
  "ensures (told out files) (publish_envelope E finalized call D)
    (\<lambda>r c. \<forall>x. r = Inr x \<longrightarrow> told (out @ [Line (lit ''1'')]) files c \<and>
      delivered E files finalized (call D))"
  unfolding publish_envelope_def
proof (rule ensures_bindA)
  show "ensures (told out files) (case finalized of
        None \<Rightarrow> pureA (Inr None)
      | Some p \<Rightarrow> bindA (read_finalized E p) (\<lambda>b. pureA (Inr (Some b))))
    (\<lambda>r c. told out files c \<and> (\<forall>e. r = Inr e \<longrightarrow>
      e = map_option (\<lambda>p. fst (the (files (ce_path E p)))) finalized \<and>
      (\<forall>p. finalized = Some p \<longrightarrow> files (ce_path E p) \<noteq> None)))"
  proof (cases finalized)
    case (Some p)
    show ?thesis
      unfolding Some option.case
      by (rule ensures_bindA [OF read_finalized_told]) (auto simp: ensures_def)
  qed (simp add: ensures_def)
  fix e
  show "ensures (\<lambda>c. told out files c \<and> (\<forall>e'. Inr e = Inr e' \<longrightarrow>
        e' = map_option (\<lambda>p. fst (the (files (ce_path E p)))) finalized \<and>
        (\<forall>p. finalized = Some p \<longrightarrow> files (ce_path E p) \<noteq> None)))
      (bindA (\<lambda>c. service (call D (co_files c) e) c) (\<lambda>_. print_out (Line (lit ''1''))))
      (\<lambda>r c. \<forall>x. r = Inr x \<longrightarrow> told (out @ [Line (lit ''1'')]) files c \<and>
        delivered E files finalized (call D))"
    unfolding ensures_def
  proof (intro allI impI)
    fix c r c' x
    assume e: "told out files c \<and> (\<forall>e'. Inr e = Inr e' \<longrightarrow>
        e' = map_option (\<lambda>p. fst (the (files (ce_path E p)))) finalized \<and>
        (\<forall>p. finalized = Some p \<longrightarrow> files (ce_path E p) \<noteq> None))" and r: "r = Inr x"
      and run: "bindA (\<lambda>c. service (call D (co_files c) e) c) (\<lambda>_. print_out (Line (lit ''1''))) c = (r, c')"
    then obtain d where "call D (co_files c) e (se_node (co_session c)) = (Inr (), d)"
      and "told (out @ [Line (lit ''1'')]) files c'"
      by (auto simp: res_simps service_def on_session_def on_node_def on_world_def print_out_def told_def
          split: prod.splits)
    then show "told (out @ [Line (lit ''1'')]) files c' \<and> delivered E files finalized (call D)"
      using e unfolding delivered_def told_def by blast
  qed
qed simp

lemma submission_exit_zero:
  assumes "submission_command m E a enough mixed call c = (Inr 0, c')"
  shows "\<exists>privkey listen p n D. ce_deploy E listen p n None = Inr D \<and>
      delivered E (kf_files (co_files c)) (ca_finalized a) (call privkey D) \<and>
      told (co_out c @ [Line (lit ''1'')]) (kf_files (co_files c)) c'"
proof -
  let ?t = "told (co_out c) (kf_files (co_files c))"
  obtain s privkey c1 c2 u where log: "configure_logging (Some (cf_verbosity s)) c = (Inr u, c1)"
    and run: "client_session E s (publish_envelope E (ca_finalized a) (call privkey)) c1 = (Inr (), c2)"
    and "c' = c2"
    using assms
    by (auto simp: submission_command_def submit_def res_simps bindA_cases tryA_cases print_out_def
        split: option.splits prod.splits sum.splits if_splits)
  have "?t c" by (simp add: told_def)
  then have "?t c1" using ensuresD [OF configure_logging_told _ log] by blast
  from ensuresD [OF client_session_told [OF publish_envelope_told] this run] \<open>c' = c2\<close>
  show ?thesis by blast
qed

lemma mapexcA_Inr: "(mapexcA m h d = (Inr x, d')) = (m d = (Inr x, d'))"
  by (auto simp: mapexcA_cases split: prod.split sum.split)

lemma main_exit_zero:
  assumes "main E X K cmd v nv c = (Inr 0, c')"
  obtains verbose c1 where "dispatch E X K verbose cmd c1 = (Inr 0, c')"
    and "co_out c1 = co_out c" and "co_files c1 = co_files c"
proof -
  have "dispatch E X K (total_verbosity cmd v nv) cmd
      (c\<lparr>co_level := log_level (total_verbosity cmd v nv)\<rparr>) = (Inr 0, c')"
    using assms by (simp add: main_def configure_logging_def bindA_cases)
  then show thesis by (rule that) simp_all
qed

lemma submission_delivered:
  assumes "submission_command m E a enough mixed call c = (Inr 0, c')" and "ca_finalized a = Some p"
  obtains privkey listen q n D e k fs d d' where "ce_deploy E listen q n None = Inr D"
    and "kf_files (co_files c) (ce_path E p) = Some (e, k)"
    and "call privkey D fs (Some e) d = (Inr (), d')"
    and "co_out c' = co_out c @ [Line (lit ''1'')]" and "kf_files (co_files c') = kf_files (co_files c)"
  using submission_exit_zero [OF assms(1)]
  unfolding delivered_def assms(2) told_def by (auto simp: option.map)

text \<open>
  C18: status 0 means published. When the command line submits a finalised envelope and exits with
  status 0, then the bytes of the file went to the adapter's publication and it returned: for a
  withdrawal after they passed the checks against the record just read, and for an Identity Record
  under the hash of the name that was given. All the command has printed is \<open>1\<close>, and it
  has changed no file.
\<close>
theorem finalized_submission_published:
  assumes "ca_finalized a = Some p" and "main E X K cmd v nv c = (Inr 0, c')"
    and "cmd = Put Provider_type a \<or> cmd = Put Identity_type a \<or> cmd = Withdraw Provider_type a"
  shows "\<exists>listen q n D e m. ce_deploy E listen q n None = Inr D \<and>
    kf_files (co_files c) (ce_path E p) = Some (e, m) \<and>
    (cmd = Put Provider_type a \<longrightarrow>
       (\<exists>d d'. dht_put_provider_record X (dp_adapter D) (ca_name a) e d = (Inr (), d'))) \<and>
    (cmd = Put Identity_type a \<longrightarrow>
       (\<exists>h d d'. derive_identity_object_hash X (ca_name a) = Inr h \<and>
          dht_put_identity_record X (dp_adapter D) h e d = (Inr (), d'))) \<and>
    (cmd = Withdraw Provider_type a \<longrightarrow>
       (\<exists>current d0 d d'. dht_get_provider_envelope X (dp_adapter D) (ca_name a) 0 d0 = (Inr (Some current), d) \<and>
          check_withdrawal X (ca_name a) e current = Inr () \<and>
          dht_put_provider_record X (dp_adapter D) (ca_name a) e d = (Inr (), d'))) \<and>
    co_out c' = co_out c @ [Line (lit ''1'')] \<and> kf_files (co_files c') = kf_files (co_files c)"
proof -
  obtain v' c1 where run: "dispatch E X K v' cmd c1 = (Inr 0, c')"
    and same: "co_out c1 = co_out c" "co_files c1 = co_files c"
    using assms(2) by (rule main_exit_zero)
  let ?a = "a\<lparr>ca_overrides := (ca_overrides a)\<lparr>ar_verbose := v'\<rparr>\<rparr>"
  have fin: "ca_finalized ?a = Some p" using assms(1) by simp
  show ?thesis
    using assms(3)
  proof (elim disjE)
    assume cmd: "cmd = Put Provider_type a"
    note run = run [unfolded cmd dispatch.simps put_provider_command_def]
    show ?thesis
      by (rule submission_delivered [OF run fin])
        (simp add: cmd same put_provider_call_def put_provider_def put_provider_envelope_def libp2p_dht_def,
          blast)
  next
    assume cmd: "cmd = Put Identity_type a"
    note run = run [unfolded cmd dispatch.simps put_identity_command_def]
    show ?thesis
      by (rule submission_delivered [OF run fin])
        (simp add: cmd same put_identity_call_def put_identity_def put_identity_envelope_def
          libp2p_dht_def res_simps, blast)
  next
    assume cmd: "cmd = Withdraw Provider_type a"
    note run = run [unfolded cmd dispatch.simps withdraw_provider_command_def]
    show ?thesis
      by (rule submission_delivered [OF run fin])
        (simp add: cmd same withdraw_provider_call_def withdraw_provider_def withdrawal_candidate_def
          libp2p_dht_def res_simps mapexcA_Inr split: option.splits, blast)
  qed
qed

subsection \<open>Private keys\<close>

lemma submission_same:
  assumes "ca_finalized a = Some p" and "\<And>k D fs e. call k D fs (Some e) = call' k D fs (Some e)"
  shows "submission_command m E a enough mixed call = submission_command m E a enough mixed call'"
proof -
  have "publish_envelope E (Some p) (call k) = publish_envelope E (Some p) (call' k)" for k
    by (rule ext) (simp add: publish_envelope_def bindA_assoc assms(2))
  then show ?thesis unfolding submission_command_def assms(1) by simp
qed

lemma submission_mixed:
  assumes "ca_finalized a = Some p" and "mixed"
    and "client_settings (ce_yaml E) (ca_config a) (ca_overrides a) = Inr s"
  shows "submission_command m E a enough mixed call c = (Inr 1, c)"
  using assms by (simp add: submission_command_def submission_def)

text \<open>
  A finalised submission needs no private key. Whatever the key files hold, and whatever could
  be read from them, a command with a finalised envelope does the same; and when arguments for
  signing are given beside the envelope it ends with status 1 before it touches anything.
\<close>
lemma finalized_needs_no_key:
  assumes "ca_finalized a \<noteq> None"
    and "cmd = Put Provider_type a \<or> cmd = Put Identity_type a \<or> cmd = Withdraw Provider_type a"
  shows "main E X K cmd v nv = main E X K' cmd v nv \<and>
    (\<forall>s c. ar_owner_privkey (ca_overrides a) \<noteq> None \<or> ca_seq a \<noteq> None \<longrightarrow>
      client_settings (ce_yaml E) (ca_config a) ((ca_overrides a)\<lparr>ar_verbose := v\<rparr>) = Inr s \<longrightarrow>
      main E X K cmd v nv c = (Inr 1, c\<lparr>co_level := log_level v\<rparr>))"
proof -
  obtain p where p: "ca_finalized a = Some p" using assms(1) by auto
  have verbosity: "total_verbosity cmd v nv = v"
    using assms(2) by (auto simp: total_verbosity_def)
  have "dispatch E X K v cmd = dispatch E X K' v cmd"
    using assms(2) p
    by (auto simp: put_provider_command_def put_identity_command_def withdraw_provider_command_def
        put_provider_call_def put_identity_call_def withdraw_provider_call_def put_provider_def
        put_identity_def withdraw_provider_def withdrawal_candidate_def Let_def
        intro!: submission_same)
  moreover have "dispatch E X K v cmd c = (Inr 1, c)"
    if "ar_owner_privkey (ca_overrides a) \<noteq> None \<or> ca_seq a \<noteq> None"
      and "client_settings (ce_yaml E) (ca_config a) ((ca_overrides a)\<lparr>ar_verbose := v\<rparr>) = Inr s" for s c
    using assms(2) p that
    by (auto simp: put_provider_command_def put_identity_command_def withdraw_provider_command_def
        intro!: submission_mixed)
  ultimately show ?thesis
    by (simp add: main_def verbosity configure_logging_def bindA_cases)
qed

subsection \<open>The node's own key\<close>

definition stores_key :: "'k keys \<Rightarrow> path \<Rightarrow> (bytes \<times> bytes) res \<Rightarrow> key_fs \<Rightarrow> bool" where
  "stores_key K p r s =
     (\<forall>k. r = Inr k \<longrightarrow> (\<exists>raw m. kf_files s p = Some (raw, m) \<and> key_pair K raw = Inr k))"

lemma load_node_key_stores: "ensures P (load_node_key K p) (stores_key K p)"
  unfolding ensures_def load_node_key_def
  by (auto simp: stores_key_def bindA_cases os_read_def elim!: os_call_cases
      split: prod.splits sum.splits option.splits)

lemma create_node_key_stores:
  assumes "key_pair K (fst (ce_new_key E)) = Inr (ce_new_key E)"
  shows "ensures (\<lambda>_. True) (create_node_key E K p) (stores_key K p)"
proof -
  let ?raw = "fst (ce_new_key E)"
  let ?has = "\<lambda>b s. \<exists>m. kf_files s p = Some (b, m)"
  have make: "ensures (\<lambda>_. True) (os_create (ce_mode E) p) (\<lambda>r s. r = Inr True \<longrightarrow> ?has [] s)"
    unfolding ensures_def os_create_def
    by (auto elim!: os_call_cases simp: set_file_def split: if_splits)
  have fill: "ensures (?has []) (os_write p ?raw) (\<lambda>r s. is_ok r \<longrightarrow> ?has ?raw s)"
    unfolding ensures_def os_write_def
    by (auto elim!: os_call_cases simp: append_file_def set_file_def)
  have written: "ensures (?has []) (finallyA (os_write p ?raw) os_close) (\<lambda>r s. is_ok r \<longrightarrow> ?has ?raw s)"
    by (rule ensures_finallyA [OF fill])
      (auto simp: ensures_def os_close_def elim!: os_call_cases split: sum.splits)
  have chmod: "ensures (?has ?raw) (bindA (os_chmod p 384) (\<lambda>_. pureA (Inr (ce_new_key E)))) (stores_key K p)"
    using assms unfolding ensures_def os_chmod_def
    by (cases "ce_new_key E") (auto elim!: os_call_cases simp: bindA_cases stores_key_def set_file_def
        split: prod.splits sum.splits)
  have create: "ensures (?has []) (bindA (finallyA (os_write p ?raw) os_close)
      (\<lambda>_. bindA (os_chmod p 384) (\<lambda>_. pureA (Inr (ce_new_key E))))) (stores_key K p)"
    by (rule ensures_bindA [OF written], rule ensures_weaken [OF chmod]) (auto simp: stores_key_def)
  show ?thesis
    unfolding create_node_key_def
  proof (rule ensures_bindA [OF make])
    fix created
    show "ensures (\<lambda>s. Inr created = (Inr True :: bool res) \<longrightarrow> ?has [] s)
        (if \<not> created then load_node_key K p
         else bindA (finallyA (os_write p ?raw) os_close) (\<lambda>_. bindA (os_chmod p 384)
           (\<lambda>_. pureA (Inr (ce_new_key E))))) (stores_key K p)"
      using load_node_key_stores create by (cases created) simp_all
  qed (simp add: stores_key_def)
qed

lemma load_or_create_stores:
  assumes "key_pair K (fst (ce_new_key E)) = Inr (ce_new_key E)"
  shows "ensures (\<lambda>_. True) (load_or_create_node_identity_key E K p) (stores_key K p)"
proof -
  let ?any = "\<lambda>_ _. True"
  have "ensures (\<lambda>_. True) (bindA os_quiet (\<lambda>_. bindA (\<lambda>fs. (Inr (), ce_rival E fs))
      (\<lambda>_. create_node_key E K p))) (stores_key K p)"
    by (rule ensures_bindA [where R = ?any], simp add: ensures_def,
        rule ensures_bindA [where R = ?any], simp add: ensures_def)
      (simp_all add: create_node_key_stores [OF assms] stores_key_def)
  then show ?thesis
    unfolding load_or_create_node_identity_key_def
    by (intro ensures_bindA [where R = ?any]) (simp_all add: ensures_def [of _ "os_exists p"]
        load_node_key_stores stores_key_def)
qed

text \<open>
  C40: a node keeps its identity. The key that a start of the node returns is the one its key file
  holds afterwards, whether it was found, made, or made by another process in the meantime; every
  later start returns the same key and changes nothing; and a key file that exists is never
  changed, whatever calls of the operating system fail.
\<close>
theorem node_key_persistent:
  assumes "load_or_create_node_identity_key E K p fs = (r, fs')"
    and "key_pair K (fst (ce_new_key E)) = Inr (ce_new_key E)"
  shows "(\<forall>f. kf_files fs p = Some f \<longrightarrow> kf_files fs' = kf_files fs) \<and>
    (\<forall>k. r = Inr k \<longrightarrow> (\<exists>raw m. kf_files fs' p = Some (raw, m) \<and> key_pair K raw = Inr k)) \<and>
    (\<forall>k fs2. r = Inr k \<longrightarrow> kf_files fs2 p = kf_files fs' p \<longrightarrow> kf_faults fs2 = [] \<longrightarrow>
      load_or_create_node_identity_key E K p fs2 = (Inr k, fs2))"
proof -
  have kept: "kf_files fs' = kf_files fs" if "kf_files fs p = Some f" for f
    using assms(1) that
    by (cases f) (auto simp: load_or_create_node_identity_key_def os_exists_def os_call_def load_node_key_def
        os_read_def bindA_cases split: list.splits option.splits)
  have stored: "\<exists>raw m. kf_files fs' p = Some (raw, m) \<and> key_pair K raw = Inr k" if "r = Inr k" for k
    using ensuresD [OF load_or_create_stores [OF assms(2)] _ assms(1)] that by (simp add: stores_key_def)
  have later: "load_or_create_node_identity_key E K p fs2 = (key_pair K raw, fs2)"
    if "kf_files fs2 p = Some (raw, m)" "kf_faults fs2 = []" for fs2 raw m
    using that by (simp add: load_or_create_node_identity_key_def os_exists_def os_call_def load_node_key_def
        os_read_def bindA_cases)
  show ?thesis
    using kept stored later by fastforce
qed

text \<open>
  The file is made and filled by separate calls, so a write that fails leaves a truncated key
  behind, which every later start reads: if no key can be made of it, the node never starts again.
\<close>

lemma truncated_node_key:
  assumes "kf_files fs p = None" and "kf_faults fs = [None, None]"
    and "\<And>s. ce_rival E s = s\<lparr>kf_faults := [None, Some n]\<rparr>"
    and "load_or_create_node_identity_key E K p fs = (r, fs')"
  shows "r = Inl Os_error" and "kf_files fs' p = Some (take n (fst (ce_new_key E)), ce_mode E)"
    and "load_or_create_node_identity_key E' K p fs' = (key_pair K (take n (fst (ce_new_key E))), fs')"
proof -
  have "r = Inl Os_error \<and> fs' = (set_file p (Some (take n (fst (ce_new_key E)), ce_mode E)) fs)\<lparr>kf_faults := []\<rparr>"
    using assms
    by (auto simp: load_or_create_node_identity_key_def os_exists_def os_call_def bindA_cases os_quiet_def
        create_node_key_def os_create_def finallyA_cases os_write_def append_file_def set_file_def os_close_def)
  then show "r = Inl Os_error" "kf_files fs' p = Some (take n (fst (ce_new_key E)), ce_mode E)"
    "load_or_create_node_identity_key E' K p fs' = (key_pair K (take n (fst (ce_new_key E))), fs')"
    by (simp_all add: load_or_create_node_identity_key_def os_exists_def os_call_def load_node_key_def
        os_read_def bindA_cases set_file_def)
qed

end
