(* ===== verification/Arg_Parser.thy ===== *)
theory Arg_Parser
  imports Py_Numbers
begin

text \<open>
  The part of \<open>argparse\<close> that \<open>cli.py\<close> relies on, as in CPython 3.11: parsers with options and at
  most one positional argument, the name of a sub-command with a parser of its own. An option takes
  one argument (\<open>store\<close>, \<open>append\<close>) or none (\<open>store_true\<close>, \<open>count\<close>, \<open>help\<close>); options may be
  abbreviated to an unambiguous prefix, joined to their argument by \<open>=\<close>, and grouped behind one
  dash. A call either returns a namespace or ends the process with a status: 0 after \<open>--help\<close>, 2 after
  an error. The texts of the help and of the errors are not modelled.
\<close>

subsection \<open>Declarations\<close>

datatype arg_kind = Store | Append | Store_true | Count | Help

datatype arg_type = Text | Integer | Float

datatype arg_value =
    No_value
  | Text_value pstr
  | Integer_value int
  | Float_value py_float
  | Bool_value bool
  | List_value "pstr list"

text \<open>\<open>op_default\<close> is \<open>None\<close> for \<open>SUPPRESS\<close>: the option leaves no attribute.\<close>

record arg_option =
  op_names :: "pstr list"
  op_dest :: pstr
  op_kind :: arg_kind
  op_type :: arg_type
  op_default :: "arg_value option"
  op_required :: bool
  op_choices :: "pstr list option"

text \<open>Sub-commands are required throughout, and their name is stored under \<open>dest\<close>.\<close>

datatype arg_parser = Arg_Parser "arg_option list" "(pstr \<times> (pstr \<times> arg_parser) list) option"

type_synonym namespace = "pstr \<rightharpoonup> arg_value"

text \<open>Either the status with which the process ends, or a result.\<close>

type_synonym 'a parsed = "int + 'a"

definition bindP :: "'a parsed \<Rightarrow> ('a \<Rightarrow> 'b parsed) \<Rightarrow> 'b parsed" where
  "bindP m f = (case m of Inl status \<Rightarrow> Inl status | Inr x \<Rightarrow> f x)"

abbreviation usage_error :: "'a parsed" where "usage_error \<equiv> Inl 2"

lemma bindP_simps [simp]:
  "bindP (Inl n) f = Inl n"
  "bindP (Inr x) f = f x"
  by (simp_all add: bindP_def)

lemma bindP_Inr: "(bindP m f = Inr y) = (\<exists>x. m = Inr x \<and> f x = Inr y)"
  by (cases m) auto

lemma bindP_cong [fundef_cong]:
  "m = m' \<Longrightarrow> (\<And>x. m' = Inr x \<Longrightarrow> f x = f' x) \<Longrightarrow> bindP m f = bindP m' f'"
  by (cases m') auto

subsection \<open>Classification of the arguments\<close>

definition option_strings :: "arg_option list \<Rightarrow> (pstr \<times> arg_option) list" where
  "option_strings opts = concat (map (\<lambda>a. map (\<lambda>n. (n, a)) (op_names a)) opts)"

text \<open>
  What an argument is: an option with the string that named it and, if an argument is joined to
  it, whether by \<open>=\<close>; an option that this parser does not know; \<open>--\<close>; or an argument.
\<close>

datatype arg_class =
    Known arg_option pstr "(bool \<times> pstr) option"
  | Unknown
  | Dashes
  | Argument

fun is_option :: "arg_class \<Rightarrow> bool" where
  "is_option (Known _ _ _) = True"
| "is_option Unknown = True"
| "is_option _ = False"

definition joined :: "pstr \<Rightarrow> pstr \<times> (bool \<times> pstr) option" where
  "joined arg = (case partition1 61 arg of (name, found, v) \<Rightarrow> (name, if found then Some (True, v) else None))"

text \<open>\<open>_get_option_tuples\<close>\<close>

definition option_tuples :: "arg_option list \<Rightarrow> pstr \<Rightarrow> arg_class list" where
  "option_tuples opts arg =
     (if starts_with [45, 45] arg then
        case joined arg of (prefix, v) \<Rightarrow>
          map (\<lambda>(n, a). Known a n v) (filter (\<lambda>(n, a). starts_with prefix n) (option_strings opts))
      else
        concat (map (\<lambda>(n, a).
          if n = take 2 arg then [Known a n (Some (False, drop 2 arg))]
          else if starts_with arg n then [Known a n None] else []) (option_strings opts)))"

text \<open>\<open>_parse_optional\<close>\<close>

definition parse_optional :: "arg_option list \<Rightarrow> pstr \<Rightarrow> arg_class parsed" where
  "parse_optional opts arg =
     (if \<not> starts_with [45] arg then Inr Argument
      else case map_of (option_strings opts) arg of
        Some a \<Rightarrow> Inr (Known a arg None)
      | None \<Rightarrow>
          if length arg = 1 then Inr Argument
          else case joined arg of (name, v) \<Rightarrow>
            (case (v, map_of (option_strings opts) name) of
               (Some _, Some a) \<Rightarrow> Inr (Known a name v)
             | _ \<Rightarrow>
                 (case option_tuples opts arg of
                    [c] \<Rightarrow> Inr c
                  | _ # _ \<Rightarrow> usage_error
                  | [] \<Rightarrow>
                      if negative_number arg \<or> 32 \<in> set arg then Inr Argument else Inr Unknown)))"

fun classify :: "arg_option list \<Rightarrow> pstr list \<Rightarrow> (pstr \<times> arg_class) list parsed" where
  "classify opts [] = Inr []"
| "classify opts (arg # args) =
     (if arg = [45, 45] then Inr ((arg, Dashes) # map (\<lambda>s. (s, Argument)) args)
      else bindP (parse_optional opts arg) (\<lambda>c.
        bindP (classify opts args) (\<lambda>cs. Inr ((arg, c) # cs))))"

subsection \<open>Actions\<close>

fun converted :: "arg_type \<Rightarrow> pstr \<Rightarrow> arg_value option" where
  "converted Text s = Some (Text_value s)"
| "converted Integer s = map_option Integer_value (int_of_text s)"
| "converted Float s = map_option Float_value (float_of_text s)"

text \<open>\<open>_get_values\<close> of an option with one argument: the conversion and the check of the choices.\<close>

definition get_value :: "arg_option \<Rightarrow> pstr \<Rightarrow> arg_value parsed" where
  "get_value a s =
     (case converted (op_type a) s of
        None \<Rightarrow> usage_error
      | Some v \<Rightarrow>
          (case op_choices a of
             None \<Rightarrow> Inr v
           | Some cs \<Rightarrow> if v \<in> Text_value ` set cs then Inr v else usage_error))"

fun appended :: "arg_value option \<Rightarrow> arg_value \<Rightarrow> arg_value" where
  "appended (Some (List_value vs)) (Text_value s) = List_value (vs @ [s])"
| "appended _ (Text_value s) = List_value [s]"
| "appended _ v = v"

fun counted :: "arg_value option \<Rightarrow> arg_value" where
  "counted (Some (Integer_value n)) = Integer_value (n + 1)"
| "counted _ = Integer_value 1"

definition take_action :: "namespace \<Rightarrow> arg_option \<times> pstr list \<Rightarrow> namespace parsed" where
  "take_action ns = (\<lambda>(a, args).
     case (op_kind a, args) of
       (Store, s # _) \<Rightarrow> bindP (get_value a s) (\<lambda>v. Inr (ns(op_dest a \<mapsto> v)))
     | (Append, s # _) \<Rightarrow>
         bindP (get_value a s) (\<lambda>v. Inr (ns(op_dest a \<mapsto> appended (ns (op_dest a)) v)))
     | (Store_true, _) \<Rightarrow> Inr (ns(op_dest a \<mapsto> Bool_value True))
     | (Count, _) \<Rightarrow> Inr (ns(op_dest a \<mapsto> counted (ns (op_dest a))))
     | (Help, _) \<Rightarrow> Inl 0
     | _ \<Rightarrow> usage_error)"

fun take_actions :: "namespace \<Rightarrow> (arg_option \<times> pstr list) list \<Rightarrow> namespace parsed" where
  "take_actions ns [] = Inr ns"
| "take_actions ns (t # ts) = bindP (take_action ns t) (\<lambda>ns'. take_actions ns' ts)"

subsection \<open>The loop over the arguments\<close>

definition takes_argument :: "arg_option \<Rightarrow> bool" where
  "takes_argument a = (op_kind a \<in> {Store, Append})"

text \<open>
  \<open>consume_optional\<close> for an option to which text \<open>e\<close> is joined, by \<open>=\<close> if \<open>eq\<close>: the text is the
  argument, or more options of one letter (\<open>-vv\<close>). Returns the actions and what was not recognised.
\<close>

definition rest_joined :: "pstr \<Rightarrow> (bool \<times> pstr) option" where
  "rest_joined e = (case e of [] \<Rightarrow> None | c # e' \<Rightarrow> Some (if c = 61 then (True, e') else (False, e)))"

function joined_actions ::
  "arg_option list \<Rightarrow> arg_option \<Rightarrow> pstr \<Rightarrow> bool \<Rightarrow> pstr \<Rightarrow>
   ((arg_option \<times> pstr list) list \<times> pstr list \<times> arg_option option) parsed" where
  "joined_actions opts a name eq e =
     (if takes_argument a then Inr ([(a, [e])], [], None)
      else case e of
        [] \<Rightarrow> usage_error
      | c # e' \<Rightarrow>
          if take 1 (drop 1 name) = [45] \<or> eq \<or> c = 45 then usage_error
          else case map_of (option_strings opts) [45, c] of
            None \<Rightarrow> Inr ([(a, [])], [45 # e], None)
          | Some a' \<Rightarrow>
              (case rest_joined e' of
                 None \<Rightarrow> Inr ([(a, [])], [], Some a')
               | Some (eq', e'') \<Rightarrow>
                   bindP (joined_actions opts a' [45, c] eq' e'') (\<lambda>(ts, extras, next).
                   Inr ((a, []) # ts, extras, next))))"
  by pat_completeness auto
termination
  by (relation "measure (\<lambda>(opts, a, name, eq, e). length e)")
    (auto simp: rest_joined_def split: list.splits if_splits)

declare joined_actions.simps [simp del]

text \<open>
  An option with no joined text takes the next argument, if it takes any.
\<close>

definition separate_actions ::
  "arg_option \<Rightarrow> (pstr \<times> arg_class) list \<Rightarrow>
   ((arg_option \<times> pstr list) list \<times> (pstr \<times> arg_class) list) parsed" where
  "separate_actions a items =
     (if \<not> takes_argument a then Inr ([(a, [])], items)
      else case items of
        (s, Argument) # items' \<Rightarrow> Inr ([(a, [s])], items')
      | _ \<Rightarrow> usage_error)"

definition consume_optional ::
  "arg_option list \<Rightarrow> pstr \<Rightarrow> arg_class \<Rightarrow> (pstr \<times> arg_class) list \<Rightarrow>
   ((arg_option \<times> pstr list) list \<times> pstr list \<times> (pstr \<times> arg_class) list) parsed" where
  "consume_optional opts arg c items =
     (case c of
        Known a name None \<Rightarrow>
          bindP (separate_actions a items) (\<lambda>(ts, items'). Inr (ts, [], items'))
      | Known a name (Some (eq, e)) \<Rightarrow>
          bindP (joined_actions opts a name eq e) (\<lambda>(ts, extras, next).
          case next of
            None \<Rightarrow> Inr (ts, extras, items)
          | Some a' \<Rightarrow> bindP (separate_actions a' items) (\<lambda>(ts', items'). Inr (ts @ ts', extras, items')))
      | _ \<Rightarrow> Inr ([], [arg], items))"

lemma length_separate_actions:
  "separate_actions a items = Inr (ts, items') \<Longrightarrow> length items' \<le> length items"
  by (auto simp: separate_actions_def split: if_splits list.splits arg_class.splits)

lemma length_consume_optional:
  "consume_optional opts arg c items = Inr (ts, extras, items') \<Longrightarrow> length items' \<le> length items"
  by (auto simp: consume_optional_def bindP_Inr dest!: length_separate_actions
      split: arg_class.splits option.splits prod.splits)

record level =
  lv_namespace :: namespace
  lv_seen :: "pstr list"
  lv_extras :: "pstr list"

text \<open>\<open>_match_arguments_partial\<close> for the name of a sub-command: it takes all that follows, too.\<close>

definition positional :: "(pstr \<times> arg_class) list \<Rightarrow> bool" where
  "positional items =
     (case dropWhile (\<lambda>(_, c). c = Dashes) items of (_, c) # _ \<Rightarrow> c = Argument | [] \<Rightarrow> False)"

text \<open>
  \<open>_parse_known_args\<close> up to the sub-command. It ends with the arguments of the sub-command, if one
  was reached.
\<close>

function consume ::
  "arg_option list \<Rightarrow> bool \<Rightarrow> level \<Rightarrow> (pstr \<times> arg_class) list \<Rightarrow> (level \<times> pstr list option) parsed" where
  "consume opts has_sub lv items =
     (case dropWhile (\<lambda>(_, c). \<not> is_option c) items of
        [] \<Rightarrow>
          if has_sub \<and> positional items then Inr (lv, Some (map fst items))
          else Inr (lv\<lparr>lv_extras := lv_extras lv @ map fst items\<rparr>, None)
      | (arg, c) # rest \<Rightarrow>
          let before = takeWhile (\<lambda>(_, c). \<not> is_option c) items in
          if before \<noteq> [] \<and> has_sub \<and> positional items then Inr (lv, Some (map fst items))
          else
            bindP (consume_optional opts arg c rest) (\<lambda>(ts, extras, items').
            bindP (take_actions (lv_namespace lv) ts) (\<lambda>ns.
            consume opts has_sub
              (lv\<lparr>lv_namespace := ns, lv_seen := lv_seen lv @ map (\<lambda>(a, _). op_dest a) ts,
                  lv_extras := lv_extras lv @ map fst before @ extras\<rparr>) items')))"
  by pat_completeness auto
termination
proof (relation "measure (\<lambda>(opts, has_sub, lv, items). length items)", goal_cases)
  case (2 opts has_sub lv items first rest arg c before found ts found2 extras items' ns)
  have "length (first # rest) \<le> length items"
    unfolding 2(1) [symmetric] by (rule length_dropWhile_le)
  then show ?case
    using 2 by (auto dest!: length_consume_optional)
qed simp

declare consume.simps [simp del]

subsection \<open>Parsers\<close>

definition defaults :: "arg_option list \<Rightarrow> namespace" where
  "defaults opts =
     map_of (concat (map (\<lambda>a. case op_default a of None \<Rightarrow> [] | Some v \<Rightarrow> [(op_dest a, v)]) opts))"

definition parse_level :: "arg_option list \<Rightarrow> bool \<Rightarrow> pstr list \<Rightarrow> (level \<times> pstr list option) parsed" where
  "parse_level opts has_sub args =
     bindP (classify opts args)
       (consume opts has_sub \<lparr>lv_namespace = defaults opts, lv_seen = [], lv_extras = []\<rparr>)"

definition missing :: "arg_option list \<Rightarrow> pstr list \<Rightarrow> bool" where
  "missing opts seen = list_ex (\<lambda>a. op_required a \<and> op_dest a \<notin> set seen) opts"

text \<open>\<open>parse_known_args\<close>, with what was not recognised; and \<open>_SubParsersAction\<close>.\<close>

fun parse_known :: "arg_parser \<Rightarrow> pstr list \<Rightarrow> (namespace \<times> pstr list) parsed"
  and parse_sub :: "(pstr \<times> arg_parser) list \<Rightarrow> pstr list \<Rightarrow> (namespace \<times> pstr list) parsed" where
  "parse_known (Arg_Parser opts None) args =
     bindP (parse_level opts False args) (\<lambda>(lv, _).
     if missing opts (lv_seen lv) then usage_error else Inr (lv_namespace lv, lv_extras lv))"
| "parse_known (Arg_Parser opts (Some (dest, subs))) args =
     bindP (parse_level opts True args) (\<lambda>(lv, call).
     case call of
       None \<Rightarrow> usage_error
     | Some names \<Rightarrow>
         bindP (parse_sub subs names) (\<lambda>(sub_namespace, sub_extras).
         if missing opts (lv_seen lv) then usage_error
         else Inr ((lv_namespace lv)(dest \<mapsto> Text_value (hd names)) ++ sub_namespace,
                   lv_extras lv @ sub_extras)))"
| "parse_sub [] names = usage_error"
| "parse_sub ((name, p) # subs) names =
     (if hd names = name then parse_known p (tl names) else parse_sub subs names)"

definition parse_args :: "arg_parser \<Rightarrow> pstr list \<Rightarrow> namespace parsed" where
  "parse_args p args =
     bindP (parse_known p args) (\<lambda>(ns, extras). if extras = [] then Inr ns else usage_error)"

end
