(* ===== verification/Arg_Parser_Properties.thy ===== *)
theory Arg_Parser_Properties
  imports Arg_Parser
begin

text \<open>
  What a parser promises, whatever its declaration: a namespace that it returns conforms to the
  declaration, so the code behind it never meets a missing attribute, a value of another type, or a
  sub-command that was not declared; and a command line that joins every value to its option by \<open>=\<close>
  means what it says.
\<close>

subsection \<open>Declarations\<close>

definition stored :: "arg_option list \<Rightarrow> arg_option list" where
  "stored opts = filter (\<lambda>a. op_kind a \<noteq> Help) opts"

definition option_ok :: "arg_option \<Rightarrow> bool" where
  "option_ok a =
     ((op_default a = None \<longleftrightarrow> op_kind a = Help) \<and> (op_kind a = Append \<longrightarrow> op_type a = Text))"

definition level_ok :: "arg_option list \<Rightarrow> bool" where
  "level_ok opts = (distinct (map op_dest opts) \<and> list_all option_ok opts)"

definition level_dests :: "arg_option list \<Rightarrow> pstr list" where
  "level_dests opts = map op_dest (stored opts)"

text \<open>
  The attributes that a parser and its sub-commands set, and a declaration in which no sub-command
  sets an attribute of its parent.
\<close>

fun parser_dests :: "arg_parser \<Rightarrow> pstr list" and sub_dests :: "(pstr \<times> arg_parser) list \<Rightarrow> pstr list"
where
  "parser_dests (Arg_Parser opts None) = level_dests opts"
| "parser_dests (Arg_Parser opts (Some (dest, subs))) = dest # level_dests opts @ sub_dests subs"
| "sub_dests [] = []"
| "sub_dests ((n, p) # subs) = parser_dests p @ sub_dests subs"

fun parser_ok :: "arg_parser \<Rightarrow> bool" and subs_ok :: "(pstr \<times> arg_parser) list \<Rightarrow> bool" where
  "parser_ok (Arg_Parser opts None) = level_ok opts"
| "parser_ok (Arg_Parser opts (Some (dest, subs))) =
     (level_ok opts \<and> dest \<notin> set (level_dests opts @ sub_dests subs) \<and>
      list_all (\<lambda>d. d \<notin> set (sub_dests subs)) (level_dests opts) \<and> subs_ok subs)"
| "subs_ok [] = True"
| "subs_ok ((n, p) # subs) = (parser_ok p \<and> subs_ok subs)"

subsection \<open>Namespaces that conform\<close>

text \<open>A value that an option may set, and one that it may leave.\<close>

fun given :: "arg_option \<Rightarrow> arg_value \<Rightarrow> bool" where
  "given a v =
     (case op_kind a of
        Store \<Rightarrow> \<exists>s. get_value a s = Inr v
      | Append \<Rightarrow> \<exists>vs. v = List_value vs \<and> vs \<noteq> []
      | Store_true \<Rightarrow> v = Bool_value True
      | Count \<Rightarrow> \<exists>n. v = Integer_value n
      | Help \<Rightarrow> False)"

declare given.simps [simp del]

definition admitted :: "arg_option \<Rightarrow> arg_value \<Rightarrow> bool" where
  "admitted a v = (given a v \<or> \<not> op_required a \<and> op_default a = Some v)"

definition level_conforms :: "arg_option list \<Rightarrow> namespace \<Rightarrow> bool" where
  "level_conforms opts ns = (\<forall>a \<in> set (stored opts). \<exists>v. ns (op_dest a) = Some v \<and> admitted a v)"

inductive conforms :: "arg_parser \<Rightarrow> namespace \<Rightarrow> bool" where
  leaf: "level_conforms opts ns \<Longrightarrow> conforms (Arg_Parser opts None) ns"
| branch: "level_conforms opts ns \<Longrightarrow> (n, p) \<in> set subs \<Longrightarrow> ns dest = Some (Text_value n) \<Longrightarrow>
    conforms p ns \<Longrightarrow> conforms (Arg_Parser opts (Some (dest, subs))) ns"

inductive_simps conforms_leaf: "conforms (Arg_Parser opts None) ns"
inductive_simps conforms_branch: "conforms (Arg_Parser opts (Some (dest, subs))) ns"

lemma level_conforms_mono: "level_conforms opts ns \<Longrightarrow> ns \<subseteq>\<^sub>m ns' \<Longrightarrow> level_conforms opts ns'"
  unfolding level_conforms_def map_le_def by (metis domI)

lemma conforms_mono: "conforms p ns \<Longrightarrow> ns \<subseteq>\<^sub>m ns' \<Longrightarrow> conforms p ns'"
proof (induction rule: conforms.induct)
  case (branch opts ns n p subs dest)
  moreover from this have "ns' dest = Some (Text_value n)" by (metis domI map_le_def)
  ultimately show ?case by (meson conforms.branch level_conforms_mono)
qed (auto intro: conforms.leaf level_conforms_mono)

subsection \<open>Actions\<close>

text \<open>The state of the loop: options seen have been given a value, the others have their default.\<close>

definition level_inv :: "arg_option list \<Rightarrow> namespace \<Rightarrow> pstr list \<Rightarrow> bool" where
  "level_inv opts ns seen =
     (dom ns \<subseteq> set (level_dests opts) \<and>
      (\<forall>a \<in> set (stored opts). \<exists>v. ns (op_dest a) = Some v \<and>
        (if op_dest a \<in> set seen then given a v else op_default a = Some v)))"

lemma get_value_text: "get_value a s = Inr v \<Longrightarrow> op_type a = Text \<Longrightarrow> v = Text_value s"
  by (auto simp: get_value_def split: option.splits if_splits)

lemma appended_nonempty: "\<exists>vs. appended x (Text_value s) = List_value vs \<and> vs \<noteq> []"
proof (cases x)
  case (Some v)
  then show ?thesis by (cases v) auto
qed simp

lemma counted_integer: "\<exists>n. counted x = Integer_value n"
proof (cases x)
  case (Some v)
  then show ?thesis by (cases v) auto
qed simp

lemma take_action_given:
  assumes "take_action ns (a, args) = Inr ns'" and "option_ok a"
  shows "\<exists>v. ns' = ns(op_dest a \<mapsto> v) \<and> given a v \<and> op_kind a \<noteq> Help"
proof (cases "op_kind a")
  case Append
  with assms obtain s v where v: "get_value a s = Inr v" "ns' = ns(op_dest a \<mapsto> appended (ns (op_dest a)) v)"
    by (auto simp: take_action_def bindP_Inr split: list.splits)
  moreover have "v = Text_value s" using v assms(2) Append get_value_text by (auto simp: option_ok_def)
  ultimately show ?thesis using Append appended_nonempty by (auto simp: given.simps)
qed (use assms counted_integer in \<open>auto simp: take_action_def given.simps bindP_Inr split: list.splits\<close>)

lemma level_inv_set:
  assumes "level_inv opts ns seen" and "level_ok opts" and "a \<in> set opts"
    and "given a v" and "op_kind a \<noteq> Help"
  shows "level_inv opts (ns(op_dest a \<mapsto> v)) (seen @ [op_dest a])"
proof -
  have stored: "a \<in> set (stored opts)" using assms(3,5) by (simp add: stored_def)
  have other: "b = a" if "b \<in> set (stored opts)" "op_dest b = op_dest a" for b
    using assms(2,3) that by (auto simp: level_ok_def stored_def distinct_map dest: inj_onD)
  have "dom (ns(op_dest a \<mapsto> v)) \<subseteq> set (level_dests opts)"
    using assms(1) stored by (auto simp: level_inv_def level_dests_def)
  moreover have "\<exists>w. (ns(op_dest a \<mapsto> v)) (op_dest b) = Some w \<and>
      (if op_dest b \<in> set (seen @ [op_dest a]) then given b w else op_default b = Some w)"
    if b: "b \<in> set (stored opts)" for b
  proof (cases "op_dest b = op_dest a")
    case True
    then show ?thesis using other [OF b] assms(4) by simp
  next
    case False
    then show ?thesis using assms(1) b by (simp add: level_inv_def)
  qed
  ultimately show ?thesis unfolding level_inv_def by blast
qed

lemma take_actions_inv:
  "take_actions ns ts = Inr ns' \<Longrightarrow> level_inv opts ns seen \<Longrightarrow> level_ok opts \<Longrightarrow>
   fst ` set ts \<subseteq> set opts \<Longrightarrow> level_inv opts ns' (seen @ map (\<lambda>(a, _). op_dest a) ts)"
proof (induction ts arbitrary: ns seen)
  case (Cons t ts)
  obtain a args where t: "t = (a, args)" by (cases t)
  from Cons.prems t obtain ns1 where step: "take_action ns (a, args) = Inr ns1"
    and rest: "take_actions ns1 ts = Inr ns'"
    by (auto simp: bindP_Inr)
  have "option_ok a" using Cons.prems t by (auto simp: level_ok_def list_all_iff)
  from take_action_given [OF step this] Cons.prems t
  have "level_inv opts ns1 (seen @ [op_dest a])" by (auto intro: level_inv_set)
  from Cons.IH [OF rest this] Cons.prems t show ?case by simp
qed simp

subsection \<open>The loop\<close>

fun class_ok :: "arg_option list \<Rightarrow> arg_class \<Rightarrow> bool" where
  "class_ok opts (Known a _ _) = (a \<in> set opts)"
| "class_ok opts _ = True"

lemma option_strings_sound: "(n, a) \<in> set (option_strings opts) \<Longrightarrow> a \<in> set opts \<and> n \<in> set (op_names a)"
  by (auto simp: option_strings_def)

lemma map_of_option_strings: "map_of (option_strings opts) n = Some a \<Longrightarrow> a \<in> set opts \<and> n \<in> set (op_names a)"
  by (blast dest: map_of_SomeD option_strings_sound)

lemma option_tuples_ok: "c \<in> set (option_tuples opts arg) \<Longrightarrow> class_ok opts c"
  by (auto simp: option_tuples_def split: prod.splits if_splits dest: option_strings_sound)

lemma parse_optional_ok: "parse_optional opts arg = Inr c \<Longrightarrow> class_ok opts c"
  using option_tuples_ok [of c opts arg]
  by (auto simp: parse_optional_def split: if_splits option.splits prod.splits list.splits
      dest: map_of_option_strings)

lemma classify_ok: "classify opts args = Inr items \<Longrightarrow> list_all (\<lambda>(_, c). class_ok opts c) items"
proof (induction args arbitrary: items)
  case (Cons arg args)
  then show ?case
    by (cases "arg = [45, 45]") (auto simp: bindP_Inr list.pred_map list_all_iff intro: parse_optional_ok)
qed simp

lemma joined_actions_ok:
  "joined_actions opts a n eq e = Inr (ts, extras, next) \<Longrightarrow> a \<in> set opts \<Longrightarrow>
   fst ` set ts \<subseteq> set opts \<and> (\<forall>a'. next = Some a' \<longrightarrow> a' \<in> set opts)"
proof (induction opts a n eq e arbitrary: ts extras "next" rule: joined_actions.induct)
  case (1 opts a n eq e)
  note IH = 1(1) [OF _ _ _ _ _ refl]
  from 1(2,3) show ?case
    by (subst (asm) joined_actions.simps)
      (auto simp: bindP_Inr split: if_splits list.splits option.splits
        dest: map_of_option_strings, (use IH map_of_option_strings in fastforce)+)
qed

lemma separate_actions_ok:
  "separate_actions a items = Inr (ts, items') \<Longrightarrow> fst ` set ts \<subseteq> {a} \<and> set items' \<subseteq> set items"
  by (auto simp: separate_actions_def split: if_splits list.splits arg_class.splits)

lemma consume_optional_ok:
  "consume_optional opts arg c items = Inr (ts, extras, items') \<Longrightarrow> class_ok opts c \<Longrightarrow>
   fst ` set ts \<subseteq> set opts \<and> set items' \<subseteq> set items"
  unfolding consume_optional_def
  by (cases c) (fastforce simp: bindP_Inr split: option.splits prod.splits
      dest!: separate_actions_ok joined_actions_ok)+

lemma consume_inv:
  "consume opts has_sub lv items = Inr (lv', call) \<Longrightarrow> level_ok opts \<Longrightarrow>
   level_inv opts (lv_namespace lv) (lv_seen lv) \<Longrightarrow> \<forall>(s, c) \<in> set items. class_ok opts c \<Longrightarrow>
   level_inv opts (lv_namespace lv') (lv_seen lv')"
proof (induction opts has_sub lv items arbitrary: lv' call rule: consume.induct)
  case (1 opts has_sub lv items)
  show ?case
  proof (cases "dropWhile (\<lambda>(_, c). \<not> is_option c) items")
    case Nil
    with 1(2,4) show ?thesis
      by (subst (asm) consume.simps) (auto split: if_splits)
  next
    case (Cons item rest)
    obtain arg c where item: "item = (arg, c)" by (cases item)
    have sub: "set (item # rest) \<subseteq> set items"
      unfolding Cons [symmetric] by (blast dest: set_dropWhileD)
    let ?before = "takeWhile (\<lambda>(_, c). \<not> is_option c) items"
    show ?thesis
    proof (cases "?before \<noteq> [] \<and> has_sub \<and> positional items")
      case True
      with 1(2,4) Cons item show ?thesis
        by (subst (asm) consume.simps) (simp add: Let_def)
    next
      case False
      with 1(2) Cons item obtain ts extras items' ns
        where c: "consume_optional opts arg c rest = Inr (ts, extras, items')"
          and a: "take_actions (lv_namespace lv) ts = Inr ns"
          and r: "consume opts has_sub
              (lv\<lparr>lv_namespace := ns, lv_seen := lv_seen lv @ map (\<lambda>(a, _). op_dest a) ts,
                  lv_extras := lv_extras lv @ map fst ?before @ extras\<rparr>) items' = Inr (lv', call)"
        by (subst (asm) consume.simps) (auto simp: Let_def bindP_Inr)
      have ok: "class_ok opts c" using 1(5) sub item by auto
      have "fst ` set ts \<subseteq> set opts" and items': "set items' \<subseteq> set items"
        using consume_optional_ok [OF c ok] sub by auto
      then have "level_inv opts ns (lv_seen lv @ map (\<lambda>(a, _). op_dest a) ts)"
        using take_actions_inv [OF a 1(4,3)] by simp
      then show ?thesis
        using 1(1) [OF Cons item [symmetric] refl False c refl refl a r] 1(3,5) items' by auto
    qed
  qed
qed

lemma defaults_simps [simp]:
  "defaults [] = Map.empty"
  "defaults (a # opts) =
     (case op_default a of None \<Rightarrow> defaults opts | Some v \<Rightarrow> (defaults opts)(op_dest a \<mapsto> v))"
  by (auto simp: defaults_def split: option.split)

lemma defaults_values:
  "level_ok opts \<Longrightarrow> a \<in> set (stored opts) \<Longrightarrow> defaults opts (op_dest a) = op_default a"
  by (induction opts)
    (auto simp: level_ok_def stored_def option_ok_def split: option.splits, (metis imageI)+)

lemma defaults_dom: "list_all option_ok opts \<Longrightarrow> dom (defaults opts) \<subseteq> set (level_dests opts)"
  by (induction opts) (auto simp: level_dests_def stored_def option_ok_def split: option.splits if_splits)

lemma defaults_inv: "level_ok opts \<Longrightarrow> level_inv opts (defaults opts) []"
  using defaults_dom [of opts] defaults_values [of opts]
  by (auto simp: level_inv_def level_ok_def stored_def list_all_iff option_ok_def)

lemma parse_level_inv:
  assumes "parse_level opts has_sub args = Inr (lv, call)" and "level_ok opts"
  shows "level_inv opts (lv_namespace lv) (lv_seen lv)"
proof -
  obtain items where c: "classify opts args = Inr items"
    and l: "consume opts has_sub \<lparr>lv_namespace = defaults opts, lv_seen = [], lv_extras = []\<rparr> items =
      Inr (lv, call)"
    using assms(1) by (auto simp: parse_level_def bindP_Inr)
  show ?thesis
    using consume_inv [OF l assms(2)] defaults_inv [OF assms(2)] classify_ok [OF c]
    by (auto simp: list_all_iff)
qed

lemma level_inv_conforms:
  "level_inv opts ns seen \<Longrightarrow> \<not> missing opts seen \<Longrightarrow> level_conforms opts ns"
  by (fastforce simp: level_inv_def level_conforms_def missing_def stored_def admitted_def list_ex_iff
      split: if_splits)

subsection \<open>Conformance\<close>

lemma parse_conforms:
  "parse_known p args = Inr (ns, extras) \<Longrightarrow> parser_ok p \<Longrightarrow>
   conforms p ns \<and> dom ns \<subseteq> set (parser_dests p)"
  "parse_sub subs names = Inr (ns, extras) \<Longrightarrow> subs_ok subs \<Longrightarrow>
   \<exists>p. (hd names, p) \<in> set subs \<and> conforms p ns \<and> dom ns \<subseteq> set (sub_dests subs)"
proof (induction p args and subs names arbitrary: ns extras and ns extras
    rule: parse_known_parse_sub.induct)
  case (1 opts args)
  then obtain lv call where "parse_level opts False args = Inr (lv, call)"
    and ns: "\<not> missing opts (lv_seen lv)" "ns = lv_namespace lv"
    by (auto simp: bindP_Inr split: if_splits)
  then have "level_inv opts ns (lv_seen lv)" using parse_level_inv 1 by auto
  then show ?case
    using ns level_inv_conforms by (auto simp: conforms_leaf level_inv_def)
next
  case (2 opts dest subs args)
  then obtain lv names sub_ns sub_extras where level: "parse_level opts True args = Inr (lv, Some names)"
    and sub: "parse_sub subs names = Inr (sub_ns, sub_extras)"
    and ns: "\<not> missing opts (lv_seen lv)"
      "ns = (lv_namespace lv)(dest \<mapsto> Text_value (hd names)) ++ sub_ns"
    by (auto simp: bindP_Inr split: if_splits option.splits)
  obtain p where p: "(hd names, p) \<in> set subs" "conforms p sub_ns" and dom: "dom sub_ns \<subseteq> set (sub_dests subs)"
    using 2(1) [OF level refl refl sub] 2(3) by auto
  have inv: "level_inv opts (lv_namespace lv) (lv_seen lv)"
    using parse_level_inv [OF level] 2(3) by simp
  have dest: "ns dest = Some (Text_value (hd names))"
  proof -
    have "dest \<notin> dom sub_ns" using dom 2(3) by auto
    then show ?thesis by (simp add: ns map_add_dom_app_simps)
  qed
  have "level_conforms opts ns"
    unfolding level_conforms_def
  proof
    fix a assume a: "a \<in> set (stored opts)"
    then have "op_dest a \<notin> insert dest (dom sub_ns)" using 2(3) dom by (auto simp: level_dests_def list_all_iff)
    then have "ns (op_dest a) = lv_namespace lv (op_dest a)" using ns by (simp add: map_add_dom_app_simps)
    then show "\<exists>v. ns (op_dest a) = Some v \<and> admitted a v"
      using level_inv_conforms [OF inv ns(1)] a by (auto simp: level_conforms_def)
  qed
  moreover have "conforms p ns"
    using p(2) by (rule conforms_mono) (simp add: ns map_le_map_add)
  moreover have "dom ns \<subseteq> set (parser_dests (Arg_Parser opts (Some (dest, subs))))"
    using inv dom ns by (auto simp: level_inv_def)
  ultimately show ?case using p(1) dest by (auto simp: conforms_branch)
next
  case (4 name p subs names)
  then show ?case by (fastforce split: if_splits)
qed simp

lemma parse_args_conforms: "parse_args p args = Inr ns \<Longrightarrow> parser_ok p \<Longrightarrow> conforms p ns"
  using parse_conforms(1) by (auto simp: parse_args_def bindP_Inr split: if_splits)

subsection \<open>Exit statuses\<close>

definition status_ok :: "'a parsed \<Rightarrow> bool" where
  "status_ok m = (\<forall>n. m = Inl n \<longrightarrow> n \<in> {0, 2})"

lemma status_ok_basic [simp]: "status_ok (Inr x)" "status_ok (Inl 2)" "status_ok (Inl 0)"
  by (simp_all add: status_ok_def)

lemma status_ok_bindP [intro!]: "status_ok m \<Longrightarrow> (\<And>x. m = Inr x \<Longrightarrow> status_ok (f x)) \<Longrightarrow> status_ok (bindP m f)"
  by (cases m) (auto simp: status_ok_def)

lemma status_take_actions: "status_ok (take_actions ns ts)"
proof (induction ts arbitrary: ns)
  case (Cons t ts)
  have "status_ok (get_value a s)" for a s
    by (simp add: get_value_def split: option.split)
  then have "status_ok (take_action ns t)"
    by (auto simp: take_action_def split: prod.split arg_kind.split list.split)
  with Cons show ?case by auto
qed simp

lemma status_classify: "status_ok (classify opts args)"
proof (induction args)
  case (Cons arg args)
  have "status_ok (parse_optional opts arg)"
    by (simp add: parse_optional_def split: option.split prod.split list.split)
  with Cons show ?case by auto
qed simp

lemma status_joined_actions: "status_ok (joined_actions opts a n eq e)"
proof (induction opts a n eq e rule: joined_actions.induct)
  case (1 opts a n eq e)
  then show ?case
    by (subst joined_actions.simps) (auto split: list.split option.split)
qed

lemma status_consume_optional: "status_ok (consume_optional opts arg c items)"
proof -
  have "status_ok (separate_actions a items)" for a
    by (simp add: separate_actions_def split: list.split prod.split arg_class.split)
  then show ?thesis
    using status_joined_actions
    by (auto simp: consume_optional_def split: arg_class.split option.split prod.split)
qed

lemma status_consume: "status_ok (consume opts has_sub lv items)"
proof (induction opts has_sub lv items rule: consume.induct)
  case (1 opts has_sub lv items)
  show ?case
  proof (cases "dropWhile (\<lambda>(_, c). \<not> is_option c) items")
    case (Cons item rest)
    obtain arg c where item: "item = (arg, c)" by (cases item)
    show ?thesis
      using 1 [OF Cons item [symmetric] refl] Cons item status_consume_optional status_take_actions
      by (subst consume.simps) (auto simp: Let_def)
  next
    case Nil
    show ?thesis by (subst consume.simps) (simp only: Nil list.case, simp)
  qed
qed

lemma status_parse_known: "status_ok (parse_known p args)" "status_ok (parse_sub subs names)"
  by (induction p args and subs names rule: parse_known_parse_sub.induct)
    (auto simp: parse_level_def split: option.split
      intro!: status_classify status_consume)

lemma status_parse_args: "status_ok (parse_args p args)"
  using status_parse_known by (auto simp: parse_args_def)

end
