(* ===== verification/Arg_Assignments.thy ===== *)
theory Arg_Assignments
  imports Arg_Parser_Properties
begin

text \<open>
  Command lines in which every value is joined to its option by \<open>=\<close>: the parser takes them to mean
  what they say, whatever the values, though every argument is first classified by the parsers of
  all the levels above its own.
\<close>

subsection \<open>Assignments\<close>

definition long_name :: "arg_option \<Rightarrow> pstr" where
  "long_name a = last (op_names a)"

definition assignment :: "arg_option \<times> pstr \<Rightarrow> pstr" where
  "assignment = (\<lambda>(a, s). long_name a @ 61 # s)"

text \<open>What the names of a level must satisfy, and what a name must not do at a level above.\<close>

definition names_ok :: "arg_option list \<Rightarrow> bool" where
  "names_ok opts =
     (distinct (map fst (option_strings opts)) \<and>
      list_all (\<lambda>(n, _). 61 \<notin> set n) (option_strings opts) \<and>
      list_all (\<lambda>a. op_names a \<noteq> [] \<and> starts_with [45, 45] (long_name a)) opts)"

definition ambiguous :: "arg_option list \<Rightarrow> pstr \<Rightarrow> bool" where
  "ambiguous opts n = (1 < length (filter (\<lambda>(m, _). starts_with n m) (option_strings opts)))"

fun clear :: "arg_option list list \<Rightarrow> arg_parser \<Rightarrow> bool"
  and clear_subs :: "arg_option list list \<Rightarrow> (pstr \<times> arg_parser) list \<Rightarrow> bool" where
  "clear outer (Arg_Parser opts None) =
     (names_ok opts \<and> list_all (\<lambda>up. list_all (\<lambda>a. \<not> ambiguous up (long_name a)) opts) outer)"
| "clear outer (Arg_Parser opts (Some (dest, subs))) =
     (list_all (\<lambda>a. \<not> op_required a) opts \<and> clear_subs (opts # outer) subs)"
| "clear_subs outer [] = True"
| "clear_subs outer ((n, p) # subs) =
     (\<not> starts_with [45] n \<and> clear outer p \<and> clear_subs outer subs)"

text \<open>
  The way to a parser without sub-commands: the attributes and the names on it, its options, and the
  defaults of the parsers above it.
\<close>

inductive leaf_at :: "arg_parser \<Rightarrow> (pstr \<times> pstr) list \<Rightarrow> arg_option list \<Rightarrow> namespace \<Rightarrow> bool" where
  here: "leaf_at (Arg_Parser opts None) [] opts Map.empty"
| below: "map_of subs n = Some p \<Longrightarrow> leaf_at p way opts' base \<Longrightarrow>
    leaf_at (Arg_Parser opts (Some (dest, subs))) ((dest, n) # way) opts' (defaults opts ++ base)"

inductive_simps leaf_at_leaf: "leaf_at (Arg_Parser opts None) way opts' base"
inductive_simps leaf_at_branch: "leaf_at (Arg_Parser opts (Some (dest, subs))) way opts' base"

subsection \<open>Classification\<close>

lemma starts_with_append: "starts_with p s \<Longrightarrow> starts_with p (s @ t)"
  by (auto simp: starts_with_def min_def dest: arg_cong [of _ _ length] split: if_splits)

lemma long_name_in: "a \<in> set opts \<Longrightarrow> op_names a \<noteq> [] \<Longrightarrow> (long_name a, a) \<in> set (option_strings opts)"
  by (auto simp: option_strings_def long_name_def intro!: bexI [of _ a] imageI)

lemma names_okD:
  assumes "names_ok opts" and "a \<in> set opts"
  shows "map_of (option_strings opts) (long_name a) = Some a" and "61 \<notin> set (long_name a)"
    and "starts_with [45, 45] (long_name a)"
  using assms long_name_in [OF assms(2)] by (auto simp: names_ok_def list_all_iff)

lemma not_a_name: "names_ok opts \<Longrightarrow> 61 \<in> set s \<Longrightarrow> map_of (option_strings opts) s = None"
  by (fastforce simp: names_ok_def list_all_iff map_of_eq_None_iff)

lemma assignment_shape:
  assumes "61 \<notin> set n" and "starts_with [45, 45] n"
  shows "starts_with [45] (n @ 61 # s)" and "length (n @ 61 # s) \<noteq> 1"
    and "n @ 61 # s \<noteq> [45, 45]" and "starts_with [45, 45] (n @ 61 # s)"
    and "joined (n @ 61 # s) = (n, Some (True, s))"
proof -
  have "n = [45, 45] @ drop 2 n"
    using append_take_drop_id [of 2 n] assms(2) by (metis length_Cons list.size(3) numeral_2_eq_2 starts_with_def)
  then obtain m where n: "n = 45 # 45 # m" by simp
  show "starts_with [45] (n @ 61 # s)" and "length (n @ 61 # s) \<noteq> 1"
    and "n @ 61 # s \<noteq> [45, 45]" and "starts_with [45, 45] (n @ 61 # s)"
    by (simp_all add: n starts_with_def)
  show "joined (n @ 61 # s) = (n, Some (True, s))"
    using assms(1) by (simp add: joined_def partition1_at)
qed

lemma assignment_class:
  assumes "names_ok opts" and "a \<in> set opts"
  shows "parse_optional opts (assignment (a, s)) = Inr (Known a (long_name a) (Some (True, s)))"
  using assignment_shape [OF names_okD(2,3) [OF assms]] names_okD(1) [OF assms]
    not_a_name [OF assms(1), of "long_name a @ 61 # s"]
  by (simp add: assignment_def parse_optional_def)

lemma assignment_above:
  assumes "61 \<notin> set n" and "starts_with [45, 45] n" and "\<not> ambiguous opts n"
  shows "\<exists>c. parse_optional opts (n @ 61 # s) = Inr c"
proof -
  have "length (option_tuples opts (n @ 61 # s)) \<le> 1"
    using assms(3) assignment_shape(4,5) [OF assms(1,2)] by (simp add: option_tuples_def ambiguous_def)
  then have "option_tuples opts (n @ 61 # s) = [] \<or> (\<exists>c. option_tuples opts (n @ 61 # s) = [c])"
    by (cases "option_tuples opts (n @ 61 # s)") auto
  then show ?thesis
    using assignment_shape [OF assms(1,2)] by (auto simp: parse_optional_def split: option.split)
qed

definition harmless :: "arg_option list \<Rightarrow> pstr \<Rightarrow> bool" where
  "harmless opts s = (s \<noteq> [45, 45] \<and> (\<exists>c. parse_optional opts s = Inr c))"

lemma plain_argument: "\<not> starts_with [45] s \<Longrightarrow> parse_optional opts s = Inr Argument \<and> s \<noteq> [45, 45]"
  by (auto simp: parse_optional_def starts_with_def)

lemma harmless_classify:
  "\<forall>s \<in> set args. harmless opts s \<Longrightarrow> \<exists>items. classify opts args = Inr items \<and> map fst items = args"
  by (induction args) (auto simp: harmless_def)

text \<open>Everything behind the name of a sub-command is left to it.\<close>

lemma parse_level_call:
  assumes "\<not> starts_with [45] n" and "\<forall>s \<in> set args. harmless opts s"
  shows "\<exists>lv. parse_level opts True (n # args) = Inr (lv, Some (n # args)) \<and>
    lv_seen lv = [] \<and> lv_extras lv = [] \<and> lv_namespace lv = defaults opts"
proof -
  obtain items where items: "classify opts args = Inr items" "map fst items = args"
    using harmless_classify [OF assms(2)] by auto
  let ?items = "(n, Argument) # items"
  have "classify opts (n # args) = Inr ?items"
    using items plain_argument [OF assms(1)] by simp
  moreover have "consume opts True lv ?items = Inr (lv, Some (n # args))" for lv
    using items(2) by (subst consume.simps) (auto simp: positional_def Let_def split: list.split)
  ultimately show ?thesis by (simp add: parse_level_def)
qed

subsection \<open>Effect\<close>

definition texts_for :: "arg_option \<Rightarrow> (arg_option \<times> pstr) list \<Rightarrow> pstr list" where
  "texts_for a asg = map snd (filter (\<lambda>(b, _). b = a) asg)"

definition default_list :: "arg_option \<Rightarrow> pstr list" where
  "default_list a = (case op_default a of Some (List_value vs) \<Rightarrow> vs | _ \<Rightarrow> [])"

text \<open>The last value counts, or all of them where the option collects them.\<close>

definition assigned :: "arg_option \<Rightarrow> (arg_option \<times> pstr) list \<Rightarrow> arg_value option" where
  "assigned a asg =
     (let ss = texts_for a asg in
      if ss = [] then op_default a
      else if op_kind a = Append then Some (List_value (default_list a @ ss))
      else case get_value a (last ss) of Inr v \<Rightarrow> Some v | Inl _ \<Rightarrow> None)"

definition valid_assignment :: "arg_option list \<Rightarrow> arg_option \<times> pstr \<Rightarrow> bool" where
  "valid_assignment opts = (\<lambda>(a, s). a \<in> set opts \<and> takes_argument a \<and> (\<exists>v. get_value a s = Inr v))"

text \<open>An assignment to an option of the level; \<open>valid_assignment\<close> if the value can be converted.\<close>

definition known_assignment :: "arg_option list \<Rightarrow> arg_option \<times> pstr \<Rightarrow> bool" where
  "known_assignment opts = (\<lambda>(a, s). a \<in> set opts \<and> takes_argument a)"

lemma valid_known: "valid_assignment opts t \<Longrightarrow> known_assignment opts t"
  by (auto simp: valid_assignment_def known_assignment_def)

lemma consume_assignments:
  assumes "names_ok opts"
  shows "\<forall>t \<in> set asg. valid_assignment opts t \<Longrightarrow>
    take_actions (lv_namespace lv) (map (\<lambda>(a, s). (a, [s])) asg) = Inr ns \<Longrightarrow>
    \<exists>items. classify opts (map assignment asg) = Inr items \<and>
      consume opts has_sub lv items =
        Inr (lv\<lparr>lv_namespace := ns, lv_seen := lv_seen lv @ map (\<lambda>(a, _). op_dest a) asg\<rparr>, None)"
proof (induction asg arbitrary: lv)
  case Nil
  then show ?case by (simp add: consume.simps positional_def)
next
  case (Cons t asg)
  obtain a s where t: "t = (a, s)" by (cases t)
  then have a: "a \<in> set opts" "takes_argument a" using Cons.prems by (auto simp: valid_assignment_def)
  let ?s = "assignment (a, s)"
  from Cons.prems(2) t obtain ns1 where first: "take_action (lv_namespace lv) (a, [s]) = Inr ns1"
    and others: "take_actions ns1 (map (\<lambda>(a, s). (a, [s])) asg) = Inr ns"
    by (auto simp: bindP_Inr)
  let ?lv = "lv\<lparr>lv_namespace := ns1, lv_seen := lv_seen lv @ [op_dest a]\<rparr>"
  obtain items where items: "classify opts (map assignment asg) = Inr items"
    and rest: "consume opts has_sub ?lv items =
      Inr (?lv\<lparr>lv_namespace := ns, lv_seen := lv_seen ?lv @ map (\<lambda>(a, _). op_dest a) asg\<rparr>, None)"
    using Cons.IH [of ?lv] Cons.prems(1) others by auto
  let ?c = "Known a (long_name a) (Some (True, s))"
  have "?s \<noteq> [45, 45]"
    using assignment_shape(3) [OF names_okD(2,3) [OF assms a(1)]] by (simp add: assignment_def)
  then have "classify opts (map assignment (t # asg)) = Inr ((?s, ?c) # items)"
    using items t assignment_class [OF assms a(1)] by simp
  moreover have "consume opts has_sub lv ((?s, ?c) # items) = consume opts has_sub ?lv items"
    using first a(2) by (subst consume.simps) (simp add: consume_optional_def joined_actions.simps)
  ultimately show ?case using rest t by simp
qed

lemma take_actions_append:
  "take_actions ns (ts @ us) = bindP (take_actions ns ts) (\<lambda>ns'. take_actions ns' us)"
  by (induction ts arbitrary: ns) (auto simp: bindP_def split: sum.split)

lemma texts_for_snoc:
  "texts_for a (asg @ [(b, s)]) = texts_for a asg @ (if b = a then [s] else [])"
  by (simp add: texts_for_def)

text \<open>One more assignment, by the kind of the option.\<close>

lemma assign_step:
  assumes "ns (op_dest a) = Some v" and "assigned a asg = Some v" and "get_value a s = Inr w"
    and "takes_argument a" and "option_ok a"
  shows "\<exists>v'. take_action ns (a, [s]) = Inr (ns(op_dest a \<mapsto> v')) \<and> assigned a (asg @ [(a, s)]) = Some v'"
proof (cases "op_kind a = Append")
  case True
  then have w: "w = Text_value s"
    using assms(3,5) get_value_text by (auto simp: option_ok_def)
  have "appended (Some v) w = List_value (default_list a @ texts_for a asg @ [s])"
    using assms(2) True w
    by (cases v) (auto simp: assigned_def Let_def default_list_def split: if_splits)
  then show ?thesis
    using True assms(1,3) by (simp add: take_action_def assigned_def texts_for_snoc)
next
  case False
  then have "op_kind a = Store" using assms(4) by (simp add: takes_argument_def)
  then show ?thesis using assms(3) by (simp add: take_action_def assigned_def texts_for_snoc)
qed

lemma take_assignments:
  assumes "level_ok opts"
  shows "\<forall>t \<in> set asg. valid_assignment opts t \<Longrightarrow>
    \<exists>ns. take_actions (defaults opts) (map (\<lambda>(a, s). (a, [s])) asg) = Inr ns \<and>
      (\<forall>a \<in> set (stored opts). \<exists>v. ns (op_dest a) = Some v \<and> assigned a asg = Some v)"
proof (induction asg rule: rev_induct)
  case Nil
  have "\<exists>v. defaults opts (op_dest a) = Some v \<and> assigned a [] = Some v" if "a \<in> set (stored opts)" for a
    using defaults_values [OF assms that] that assms
    by (auto simp: assigned_def texts_for_def level_ok_def stored_def list_all_iff option_ok_def)
  then show ?case by simp
next
  case (snoc t asg)
  obtain b s where t: "t = (b, s)" by (cases t)
  with snoc.prems obtain w where b: "b \<in> set opts" "takes_argument b" "get_value b s = Inr w"
    by (auto simp: valid_assignment_def)
  then have b': "b \<in> set (stored opts)" "option_ok b"
    using assms by (auto simp: stored_def takes_argument_def level_ok_def list_all_iff)
  from snoc obtain ns where ns: "take_actions (defaults opts) (map (\<lambda>(a, s). (a, [s])) asg) = Inr ns"
    and all: "\<forall>a \<in> set (stored opts). \<exists>v. ns (op_dest a) = Some v \<and> assigned a asg = Some v" by auto
  obtain v' where step: "take_action ns (b, [s]) = Inr (ns(op_dest b \<mapsto> v'))"
    and v': "assigned b (asg @ [(b, s)]) = Some v'"
    using all b' b assign_step by blast
  have "\<exists>v. (ns(op_dest b \<mapsto> v')) (op_dest a) = Some v \<and> assigned a (asg @ [(b, s)]) = Some v"
    if a: "a \<in> set (stored opts)" for a
  proof (cases "a = b")
    case False
    then have "op_dest a \<noteq> op_dest b"
      using a b'(1) assms by (auto simp: level_ok_def stored_def distinct_map dest: inj_onD)
    then show ?thesis using all a False by (simp add: assigned_def texts_for_snoc)
  qed (use v' in simp)
  then show ?case using ns step t by (simp add: take_actions_append)
qed

subsection \<open>From the top\<close>

lemma clear_sub: "clear_subs outer subs \<Longrightarrow> map_of subs n = Some p \<Longrightarrow> \<not> starts_with [45] n \<and> clear outer p"
  by (induction subs) (auto split: if_splits)

lemma parser_ok_sub:
  "subs_ok subs \<Longrightarrow> map_of subs n = Some p \<Longrightarrow> parser_ok p \<and> set (parser_dests p) \<subseteq> set (sub_dests subs)"
  by (induction subs) (auto split: if_splits)

lemma parse_sub_map_of: "map_of subs n = Some p \<Longrightarrow> parse_sub subs (n # args) = parse_known p args"
  by (induction subs) (auto split: if_splits)

lemma clear_leaf:
  "leaf_at p way opts base \<Longrightarrow> clear outer p \<Longrightarrow>
   names_ok opts \<and> (\<forall>up \<in> set outer. \<forall>a \<in> set opts. \<not> ambiguous up (long_name a)) \<and>
   (\<forall>(d, n) \<in> set way. \<not> starts_with [45] n)"
proof (induction arbitrary: outer rule: leaf_at.induct)
  case (below subs n p way opts' base opts dest)
  then have "\<not> starts_with [45] n" and c: "clear (opts # outer) p" using clear_sub by auto
  with below.IH [OF c] show ?case by simp
qed (auto simp: list_all_iff)

lemma harmless_line:
  assumes "leaf_at p way opts base" and "clear outer p" and "up \<in> set outer"
    and "\<forall>t \<in> set asg. known_assignment opts t"
  shows "\<forall>s \<in> set (map snd way @ map assignment asg). harmless up s"
proof -
  note leaf = clear_leaf [OF assms(1,2)]
  have "harmless up (assignment (a, s))" if "(a, s) \<in> set asg" for a s
  proof -
    have a: "a \<in> set opts" using assms(4) that by (auto simp: known_assignment_def)
    note n = names_okD(2,3) [OF _ a]
    show ?thesis
      using assignment_above [of "long_name a" up s] assignment_shape(3) [of "long_name a" s] n leaf a assms(3)
      by (auto simp: harmless_def assignment_def)
  qed
  then show ?thesis
    using leaf plain_argument by (fastforce simp: harmless_def)
qed

text \<open>What was asked for: the values of the options, and the defaults everywhere else.\<close>

definition as_asked ::
  "(pstr \<times> pstr) list \<Rightarrow> arg_option list \<Rightarrow> (arg_option \<times> pstr) list \<Rightarrow> namespace \<Rightarrow> namespace \<Rightarrow> bool" where
  "as_asked way opts asg base ns =
     ((\<forall>(d, n) \<in> set way. ns d = Some (Text_value n)) \<and>
      (\<forall>a \<in> set (stored opts). \<exists>v. ns (op_dest a) = Some v \<and> assigned a asg = Some v) \<and>
      (\<forall>k. k \<notin> fst ` set way \<union> set (level_dests opts) \<longrightarrow> ns k = base k))"

lemma parse_leaf:
  assumes "level_ok opts" and "names_ok opts" and "\<forall>t \<in> set asg. valid_assignment opts t"
    and "\<forall>a \<in> set opts. op_required a \<longrightarrow> a \<in> fst ` set asg"
  shows "\<exists>ns. parse_known (Arg_Parser opts None) (map assignment asg) = Inr (ns, []) \<and>
    as_asked [] opts asg Map.empty ns"
proof -
  from take_assignments [OF assms(1,3)] obtain ns
    where ns: "take_actions (defaults opts) (map (\<lambda>(a, s). (a, [s])) asg) = Inr ns"
      and all: "\<forall>a \<in> set (stored opts). \<exists>v. ns (op_dest a) = Some v \<and> assigned a asg = Some v"
    by blast
  let ?lv = "\<lparr>lv_namespace = defaults opts, lv_seen = [], lv_extras = []\<rparr>"
  from consume_assignments [OF assms(2,3), of ?lv ns False]
  have "parse_level opts False (map assignment asg) =
      Inr (?lv\<lparr>lv_namespace := ns, lv_seen := map (\<lambda>(a, _). op_dest a) asg\<rparr>, None)"
    using ns by (auto simp: parse_level_def)
  moreover have "\<not> missing opts (map (\<lambda>(a, _). op_dest a) asg)"
    using assms(4) by (fastforce simp: missing_def list_ex_iff)
  ultimately have run: "parse_known (Arg_Parser opts None) (map assignment asg) = Inr (ns, [])" by simp
  then have "dom ns \<subseteq> set (level_dests opts)" using parse_conforms(1) assms(1) by fastforce
  then show ?thesis using all run by (auto simp: as_asked_def)
qed

lemma as_asked_below:
  assumes "as_asked way opts' asg base ns" and "dest \<notin> dom ns"
  shows "as_asked ((dest, n) # way) opts' asg (defaults opts ++ base)
    ((defaults opts)(dest \<mapsto> Text_value n) ++ ns)"
    (is "as_asked _ _ _ _ ?ns")
proof -
  have keep: "?ns k = Some v" if "ns k = Some v" for k v
    using that by (simp add: map_add_Some_iff)
  have "?ns dest = Some (Text_value n)"
    using assms(2) by (simp add: map_add_dom_app_simps)
  moreover have "?ns e = Some (Text_value m)" if "(e, m) \<in> set way" for e m
    using assms(1) that by (intro keep) (auto simp: as_asked_def)
  ultimately have "\<forall>(e, m) \<in> set ((dest, n) # way). ?ns e = Some (Text_value m)" by auto
  moreover have "\<forall>a \<in> set (stored opts'). \<exists>v. ?ns (op_dest a) = Some v \<and> assigned a asg = Some v"
    using assms(1) keep unfolding as_asked_def by blast
  moreover have "\<forall>k. k \<notin> fst ` set ((dest, n) # way) \<union> set (level_dests opts') \<longrightarrow>
      ?ns k = (defaults opts ++ base) k"
    using assms(1) by (auto simp: as_asked_def map_add_def split: option.split)
  ultimately show ?thesis unfolding as_asked_def by blast
qed

lemma parse_assignments:
  "leaf_at p way opts base \<Longrightarrow> parser_ok p \<Longrightarrow> clear outer p \<Longrightarrow>
    \<forall>t \<in> set asg. valid_assignment opts t \<Longrightarrow>
    \<forall>a \<in> set opts. op_required a \<longrightarrow> a \<in> fst ` set asg \<Longrightarrow>
    \<exists>ns. parse_known p (map snd way @ map assignment asg) = Inr (ns, []) \<and> as_asked way opts asg base ns"
proof (induction arbitrary: outer rule: leaf_at.induct)
  case (here opts)
  then show ?case using parse_leaf by simp
next
  case (below subs n p way opts' base opts dest)
  let ?args = "map snd way @ map assignment asg"
  have p: "\<not> starts_with [45] n" "clear (opts # outer) p" using below clear_sub by auto
  have ok: "parser_ok p" "set (parser_dests p) \<subseteq> set (sub_dests subs)"
    using below.prems below.hyps parser_ok_sub by auto
  obtain ns where ns: "parse_known p ?args = Inr (ns, [])" and asked: "as_asked way opts' asg base ns"
    using below.IH [OF ok(1) p(2)] below.prems by auto
  obtain lv where lv: "parse_level opts True (n # ?args) = Inr (lv, Some (n # ?args))"
    "lv_seen lv = []" "lv_extras lv = []" "lv_namespace lv = defaults opts"
    using parse_level_call [OF p(1) harmless_line [OF below.hyps(2) p(2), of opts]] below.prems(3)
    by (auto dest: valid_known)
  have "dom ns \<subseteq> set (sub_dests subs)" using parse_conforms(1) [OF ns ok(1)] ok(2) by auto
  then have "dest \<notin> dom ns" using below.prems by auto
  note result = as_asked_below [OF asked this, of n opts]
  have "\<not> missing opts (lv_seen lv)"
    using below.prems by (auto simp: missing_def list_ex_iff list_all_iff)
  then have "parse_known (Arg_Parser opts (Some (dest, subs)))
      (map snd ((dest, n) # way) @ map assignment asg) =
      Inr ((defaults opts)(dest \<mapsto> Text_value n) ++ ns, [])"
    using lv ns parse_sub_map_of [OF below.hyps(1)] by simp
  with result show ?case by blast
qed

subsection \<open>What is refused\<close>

lemma get_value_status: "get_value a s = Inl n \<Longrightarrow> n = 2"
  by (auto simp: get_value_def split: option.splits if_splits)

text \<open>A value that cannot be converted ends the loop.\<close>

lemma consume_refused:
  assumes "names_ok opts"
  shows "\<forall>t \<in> set asg. known_assignment opts t \<Longrightarrow> \<exists>t \<in> set asg. \<not> valid_assignment opts t \<Longrightarrow>
    \<exists>items. classify opts (map assignment asg) = Inr items \<and> consume opts has_sub lv items = usage_error"
proof (induction asg arbitrary: lv)
  case (Cons t asg)
  obtain a s where t: "t = (a, s)" by (cases t)
  then have a: "a \<in> set opts" "takes_argument a" using Cons.prems by (auto simp: known_assignment_def)
  let ?s = "assignment (a, s)"
  let ?c = "Known a (long_name a) (Some (True, s))"
  have "?s \<noteq> [45, 45]"
    using assignment_shape(3) [OF names_okD(2,3) [OF assms a(1)]] by (simp add: assignment_def)
  then have item: "classify opts (map assignment (t # asg)) =
      bindP (classify opts (map assignment asg)) (\<lambda>items. Inr ((?s, ?c) # items))"
    using t assignment_class [OF assms a(1)] by simp
  have "\<forall>t \<in> set (map assignment asg). harmless opts t"
  proof
    fix x
    assume "x \<in> set (map assignment asg)"
    then obtain b v where b: "x = assignment (b, v)" "b \<in> set opts"
      using Cons.prems(1) by (auto simp: known_assignment_def)
    show "harmless opts x"
      using assignment_class [OF assms b(2)] assignment_shape(3) [OF names_okD(2,3) [OF assms b(2)]]
      by (simp add: harmless_def b(1) assignment_def)
  qed
  from harmless_classify [OF this] obtain items
    where items: "classify opts (map assignment asg) = Inr items" by auto
  show ?case
  proof (cases "get_value a s")
    case (Inl n)
    then have "take_action (lv_namespace lv) (a, [s]) = usage_error"
      using a(2) get_value_status [OF Inl] by (auto simp: take_action_def takes_argument_def)
    then have "consume opts has_sub lv ((?s, ?c) # items) = usage_error"
      using a(2) by (subst consume.simps) (simp add: consume_optional_def joined_actions.simps)
    then show ?thesis using item items by simp
  next
    case (Inr v)
    then obtain ns1 where first: "take_action (lv_namespace lv) (a, [s]) = Inr ns1"
      using a(2) by (auto simp: take_action_def takes_argument_def)
    let ?lv = "lv\<lparr>lv_namespace := ns1, lv_seen := lv_seen lv @ [op_dest a]\<rparr>"
    have "valid_assignment opts t" using Inr a t by (simp add: valid_assignment_def)
    then have "consume opts has_sub ?lv items = usage_error"
      using Cons.IH [of ?lv] Cons.prems items by auto
    moreover have "consume opts has_sub lv ((?s, ?c) # items) = consume opts has_sub ?lv items"
      using first a(2) by (subst consume.simps) (simp add: consume_optional_def joined_actions.simps)
    ultimately show ?thesis using item items by simp
  qed
qed simp

lemma refuse_leaf:
  assumes "level_ok opts" and "names_ok opts" and "\<forall>t \<in> set asg. known_assignment opts t"
    and "\<not> ((\<forall>t \<in> set asg. valid_assignment opts t) \<and>
      (\<forall>a \<in> set opts. op_required a \<longrightarrow> a \<in> fst ` set asg))"
  shows "parse_known (Arg_Parser opts None) (map assignment asg) = usage_error"
proof (cases "\<forall>t \<in> set asg. valid_assignment opts t")
  case False
  with consume_refused [OF assms(2,3)] obtain items
    where "classify opts (map assignment asg) = Inr items"
      and "consume opts False \<lparr>lv_namespace = defaults opts, lv_seen = [], lv_extras = []\<rparr> items = usage_error"
    by blast
  then show ?thesis by (simp add: parse_level_def)
next
  case True
  then obtain a where a: "a \<in> set opts" "op_required a" "a \<notin> fst ` set asg" using assms(4) by blast
  let ?lv = "\<lparr>lv_namespace = defaults opts, lv_seen = [], lv_extras = []\<rparr>"
  obtain ns where "take_actions (defaults opts) (map (\<lambda>(a, s). (a, [s])) asg) = Inr ns"
    using take_assignments [OF assms(1) True] by blast
  with consume_assignments [OF assms(2) True, of ?lv ns False]
  have "parse_level opts False (map assignment asg) =
      Inr (?lv\<lparr>lv_namespace := ns, lv_seen := map (\<lambda>(a, _). op_dest a) asg\<rparr>, None)"
    by (auto simp: parse_level_def)
  moreover have "op_dest a \<notin> set (map (\<lambda>(a, _). op_dest a) asg)"
  proof
    assume "op_dest a \<in> set (map (\<lambda>(a, _). op_dest a) asg)"
    then obtain b s where b: "(b, s) \<in> set asg" "op_dest b = op_dest a" by auto
    then have "b \<in> set opts" using assms(3) by (auto simp: known_assignment_def)
    then have "b = a" using b(2) a(1) assms(1) by (auto simp: level_ok_def distinct_map dest: inj_onD)
    with a(3) b(1) show False by force
  qed
  ultimately show ?thesis using a(1,2) by (auto simp: missing_def list_ex_iff)
qed

lemma refuse_assignments:
  "leaf_at p way opts base \<Longrightarrow> parser_ok p \<Longrightarrow> clear outer p \<Longrightarrow>
    \<forall>t \<in> set asg. known_assignment opts t \<Longrightarrow>
    \<not> ((\<forall>t \<in> set asg. valid_assignment opts t) \<and>
      (\<forall>a \<in> set opts. op_required a \<longrightarrow> a \<in> fst ` set asg)) \<Longrightarrow>
    parse_known p (map snd way @ map assignment asg) = usage_error"
proof (induction arbitrary: outer rule: leaf_at.induct)
  case (here opts)
  then show ?case using refuse_leaf by simp
next
  case (below subs n p way opts' base opts dest)
  let ?args = "map snd way @ map assignment asg"
  have p: "\<not> starts_with [45] n" "clear (opts # outer) p" using below clear_sub by auto
  have ok: "parser_ok p" using below.prems below.hyps parser_ok_sub by auto
  obtain lv where "parse_level opts True (n # ?args) = Inr (lv, Some (n # ?args))"
    using parse_level_call [OF p(1) harmless_line [OF below.hyps(2) p(2) _ below.prems(3), of opts]] by auto
  moreover have "parse_known p ?args = usage_error"
    using below.IH [OF ok p(2) below.prems(3,4)] .
  ultimately show ?case using parse_sub_map_of [OF below.hyps(1)] by simp
qed

end
