(* ===== verification/Cli_Parser.thy ===== *)
theory Cli_Parser
  imports Arg_Parser Cli_Commands
begin

text \<open>
  The command line of \<open>cli.py\<close>: the parsers that \<open>main\<close> builds, and the command that a namespace
  stands for. Attributes of the namespace are read where the commands read them; one that the parser of
  a command does not set is never looked at by that command.
\<close>

subsection \<open>Options\<close>

text \<open>The attribute that an option sets unless \<open>dest\<close> is given: its name without the leading dashes.\<close>

definition dest_of :: "pstr \<Rightarrow> pstr" where
  "dest_of n = map (\<lambda>c. if c = 45 then 95 else c) (dropWhile (\<lambda>c. c = 45) n)"

definition option_of :: "arg_kind \<Rightarrow> string \<Rightarrow> arg_option" where
  "option_of kind n =
     \<lparr>op_names = [lit n], op_dest = dest_of (lit n), op_kind = kind, op_type = Text,
      op_default = Some No_value, op_required = False, op_choices = None\<rparr>"

definition required :: "arg_option \<Rightarrow> arg_option" where
  "required a = a\<lparr>op_required := True\<rparr>"

definition with_default :: "arg_value \<Rightarrow> arg_option \<Rightarrow> arg_option" where
  "with_default v a = a\<lparr>op_default := Some v\<rparr>"

definition of_type :: "arg_type \<Rightarrow> arg_option \<Rightarrow> arg_option" where
  "of_type t a = a\<lparr>op_type := t\<rparr>"

definition with_dest :: "string \<Rightarrow> arg_option \<Rightarrow> arg_option" where
  "with_dest d a = a\<lparr>op_dest := lit d\<rparr>"

definition help_option :: arg_option where
  "help_option = (option_of Help ''--help'')\<lparr>op_names := [lit ''-h'', lit ''--help''], op_default := None\<rparr>"

definition verbose_option :: arg_option where
  "verbose_option = (option_of Count ''--verbose'')\<lparr>op_names := [lit ''-v'', lit ''--verbose'']\<rparr>"

definition config_option :: "string \<Rightarrow> arg_option" where
  "config_option p = with_default (Text_value (lit p)) (option_of Store ''--config'')"

definition add_network_args :: "arg_option list" where
  "add_network_args =
     [option_of Store ''--host'', of_type Integer (option_of Store ''--port''),
      option_of Append ''--bootstrap'']"

definition add_datastore_args :: "arg_option list" where
  "add_datastore_args =
     [option_of Store ''--datastore-path'', of_type Integer (option_of Store ''--mapsize'')]"

definition provider_urls_option :: arg_option where
  "provider_urls_option = with_dest ''provider_urls'' (option_of Append ''--provider-url'')"

definition endpoint_option :: arg_option where
  "endpoint_option = with_default (List_value []) (option_of Append ''--endpoint'')"

subsection \<open>The parsers\<close>

definition node_options :: "arg_option list" where
  "node_options =
     [help_option, with_dest ''node_verbose'' verbose_option, config_option ''~/.decent/registry.yaml''] @
     add_network_args @ [of_type Float (option_of Store ''--run-seconds'')] @ add_datastore_args"

definition add_bundle_draft_common :: "arg_option list" where
  "add_bundle_draft_common =
     [required (option_of Store ''--owner-public-key''),
      required (of_type Integer (option_of Store ''--seq'')),
      with_default (Integer_value 2) (of_type Integer (option_of Store ''--threshold'')),
      with_default (Integer_value 1) (of_type Integer (option_of Store ''--epoch'')),
      with_default (Text_value (bytes_hex (zero_bytes 32))) (option_of Store ''--predecessor-state-hash''),
      with_default (Text_value (lit ''genesis''))
        ((option_of Store ''--operation'')\<lparr>op_choices := Some (sort (map fst operation_names))\<rparr>),
      required (option_of Append ''--signer''),
      required (option_of Store ''--output'')]"

definition draft_identity_options :: "arg_option list" where
  "draft_identity_options =
     [help_option, required (option_of Store ''--owner-name'')] @ add_bundle_draft_common"

definition draft_provider_options :: "arg_option list" where
  "draft_provider_options =
     [help_option, required (option_of Store ''--object-hash''), provider_urls_option,
      with_default (Bool_value False) (option_of Store_true ''--withdrawal''),
      option_of Store ''--replacement-object-hash'', endpoint_option,
      with_default (Text_value (lit ''Ed25519'')) (option_of Store ''--alg'')] @
     add_bundle_draft_common"

definition sign_options :: "arg_option list" where
  "sign_options =
     [help_option, required (option_of Store ''--input''), required (option_of Store ''--signer-privkey''),
      required (option_of Store ''--output'')]"

definition merge_options :: "arg_option list" where
  "merge_options =
     [help_option, required (option_of Store ''--input''), required (option_of Append ''--proof''),
      required (option_of Store ''--output'')]"

definition finalize_options :: "arg_option list" where
  "finalize_options =
     [help_option, required (option_of Store ''--input''), required (option_of Store ''--output'')]"

definition client_options :: "arg_option list" where
  "client_options =
     [help_option, config_option ''~/.decent/registry_cli.yaml''] @ add_network_args @ add_datastore_args"

definition put_provider_options :: "arg_option list" where
  "put_provider_options =
     client_options @
     [required (option_of Store ''--object-hash''), provider_urls_option,
      option_of Store ''--owner-privkey'', option_of Store ''--finalized-envelope'',
      of_type Integer (option_of Store ''--seq''), endpoint_option]"

definition put_identity_options :: "arg_option list" where
  "put_identity_options =
     client_options @
     [required (option_of Store ''--owner-name''), option_of Store ''--owner-privkey'',
      option_of Store ''--finalized-envelope'', of_type Integer (option_of Store ''--seq'')]"

definition get_provider_options :: "arg_option list" where
  "get_provider_options = client_options @ [required (option_of Store ''--object-hash'')]"

definition get_identity_options :: "arg_option list" where
  "get_identity_options = client_options @ [required (option_of Store ''--owner-name'')]"

definition withdraw_provider_options :: "arg_option list" where
  "withdraw_provider_options =
     client_options @
     [required (option_of Store ''--object-hash''), option_of Store ''--owner-privkey'',
      of_type Integer (option_of Store ''--seq''), option_of Store ''--replacement-object-hash'',
      option_of Store ''--finalized-envelope'']"

definition keygen_options :: "arg_option list" where
  "keygen_options =
     [help_option, with_default (Text_value (lit ''owner_privkey.pem'')) (option_of Store ''--output'')]"

definition leaf :: "string \<Rightarrow> arg_option list \<Rightarrow> pstr \<times> arg_parser" where
  "leaf n opts = (lit n, Arg_Parser opts None)"

definition branch :: "string \<Rightarrow> string \<Rightarrow> (pstr \<times> arg_parser) list \<Rightarrow> pstr \<times> arg_parser" where
  "branch n dest subs = (lit n, Arg_Parser [help_option] (Some (lit dest, subs)))"

definition bundle_parsers :: "(pstr \<times> arg_parser) list" where
  "bundle_parsers =
     [branch ''draft'' ''record_type''
        [leaf ''identity'' draft_identity_options, leaf ''provider'' draft_provider_options],
      leaf ''sign'' sign_options, leaf ''merge'' merge_options, leaf ''finalize'' finalize_options]"

definition command_parsers :: "(pstr \<times> arg_parser) list" where
  "command_parsers =
     [leaf ''node'' node_options,
      branch ''bundle'' ''bundle_action'' bundle_parsers,
      branch ''put'' ''record_type''
        [leaf ''provider'' put_provider_options, leaf ''identity'' put_identity_options],
      branch ''get'' ''record_type''
        [leaf ''provider'' get_provider_options, leaf ''identity'' get_identity_options],
      branch ''withdraw'' ''record_type'' [leaf ''provider'' withdraw_provider_options],
      leaf ''keygen'' keygen_options]"

definition cli_parser :: arg_parser where
  "cli_parser = Arg_Parser [help_option, verbose_option] (Some (lit ''cmd'', command_parsers))"

subsection \<open>From the namespace to the command\<close>

definition text_of :: "namespace \<Rightarrow> string \<Rightarrow> pstr option" where
  "text_of ns k = (case ns (lit k) of Some (Text_value s) \<Rightarrow> Some s | _ \<Rightarrow> None)"

definition the_text :: "namespace \<Rightarrow> string \<Rightarrow> pstr" where
  "the_text ns k = (case text_of ns k of Some s \<Rightarrow> s | None \<Rightarrow> [])"

definition integer_of :: "namespace \<Rightarrow> string \<Rightarrow> int option" where
  "integer_of ns k = (case ns (lit k) of Some (Integer_value i) \<Rightarrow> Some i | _ \<Rightarrow> None)"

definition the_integer :: "namespace \<Rightarrow> string \<Rightarrow> int" where
  "the_integer ns k = (case integer_of ns k of Some i \<Rightarrow> i | None \<Rightarrow> 0)"

definition float_of :: "namespace \<Rightarrow> string \<Rightarrow> py_float option" where
  "float_of ns k = (case ns (lit k) of Some (Float_value x) \<Rightarrow> Some x | _ \<Rightarrow> None)"

definition list_of :: "namespace \<Rightarrow> string \<Rightarrow> pstr list option" where
  "list_of ns k = (case ns (lit k) of Some (List_value vs) \<Rightarrow> Some vs | _ \<Rightarrow> None)"

definition the_list :: "namespace \<Rightarrow> string \<Rightarrow> pstr list" where
  "the_list ns k = (case list_of ns k of Some vs \<Rightarrow> vs | None \<Rightarrow> [])"

definition flag_of :: "namespace \<Rightarrow> string \<Rightarrow> bool" where
  "flag_of ns k = (ns (lit k) = Some (Bool_value True))"

definition overrides_of :: "namespace \<Rightarrow> overrides" where
  "overrides_of ns =
     \<lparr>ar_host = text_of ns ''host'', ar_port = integer_of ns ''port'',
      ar_bootstrap = list_of ns ''bootstrap'', ar_datastore_path = text_of ns ''datastore_path'',
      ar_mapsize = integer_of ns ''mapsize'', ar_verbose = integer_of ns ''verbose'',
      ar_owner_privkey = text_of ns ''owner_privkey''\<rparr>"

definition client_args_of :: "namespace \<Rightarrow> string \<Rightarrow> client_args" where
  "client_args_of ns name =
     \<lparr>ca_config = the_text ns ''config'', ca_overrides = overrides_of ns, ca_name = the_text ns name,
      ca_urls = list_of ns ''provider_urls'', ca_endpoint = list_of ns ''endpoint'',
      ca_seq = integer_of ns ''seq'', ca_replacement = text_of ns ''replacement_object_hash'',
      ca_finalized = text_of ns ''finalized_envelope''\<rparr>"

definition draft_args_of :: "(pstr \<Rightarrow> path) \<Rightarrow> namespace \<Rightarrow> draft_args" where
  "draft_args_of P ns =
     \<lparr>da_record_type = the_text ns ''record_type'', da_signers = the_list ns ''signer'',
      da_owner_public_key = the_text ns ''owner_public_key'',
      da_predecessor = the_text ns ''predecessor_state_hash'',
      da_operation = the_text ns ''operation'', da_owner_name = the_text ns ''owner_name'',
      da_object_hash = the_text ns ''object_hash'', da_seq = the_integer ns ''seq'',
      da_threshold = the_integer ns ''threshold'', da_epoch = the_integer ns ''epoch'',
      da_withdrawal = flag_of ns ''withdrawal'',
      da_replacement = text_of ns ''replacement_object_hash'', da_alg = the_text ns ''alg'',
      da_urls = list_of ns ''provider_urls'', da_endpoints = the_list ns ''endpoint'',
      da_output = P (the_text ns ''output'')\<rparr>"

definition bundle_action_of :: "(pstr \<Rightarrow> path) \<Rightarrow> namespace \<Rightarrow> bundle_action" where
  "bundle_action_of P ns =
     (let action = the_text ns ''bundle_action''; input = P (the_text ns ''input'');
          output = P (the_text ns ''output'') in
      if action = lit ''draft'' then Draft (draft_args_of P ns)
      else if action = lit ''sign'' then Sign input (P (the_text ns ''signer_privkey'')) output
      else if action = lit ''merge'' then Merge input (map P (the_list ns ''proof'')) output
      else if action = lit ''finalize'' then Finalize input output
      else Other_action)"

definition record_type_of :: "namespace \<Rightarrow> record_type" where
  "record_type_of ns =
     (let t = the_text ns ''record_type'' in
      if t = lit ''provider'' then Provider_type
      else if t = lit ''identity'' then Identity_type else Other_type)"

text \<open>The attribute with the name of the record.\<close>

definition record_args_of :: "namespace \<Rightarrow> client_args" where
  "record_args_of ns =
     client_args_of ns (if record_type_of ns = Identity_type then ''owner_name'' else ''object_hash'')"

definition command_of :: "(pstr \<Rightarrow> path) \<Rightarrow> namespace \<Rightarrow> command" where
  "command_of P ns =
     (let cmd = the_text ns ''cmd'' in
      if cmd = lit ''node'' then
        Node \<lparr>na_config = the_text ns ''config'', na_overrides = overrides_of ns,
              na_run_seconds = float_of ns ''run_seconds''\<rparr>
      else if cmd = lit ''keygen'' then Keygen (the_text ns ''output'')
      else if cmd = lit ''bundle'' then Bundle (bundle_action_of P ns)
      else if cmd = lit ''put'' then Put (record_type_of ns) (record_args_of ns)
      else if cmd = lit ''get'' then Get (record_type_of ns) (record_args_of ns)
      else if cmd = lit ''withdraw'' then Withdraw (record_type_of ns) (record_args_of ns)
      else Other_command)"

text \<open>\<open>main(argv)\<close>: the exit status of the process.\<close>

definition cli_main ::
  "('db, 'v, 'n, 'p, 'i, 'a) cli_env \<Rightarrow> ext \<Rightarrow> 'k keys \<Rightarrow> pstr list \<Rightarrow>
   (('db, 'v, 'n, 'p) console, int) act" where
  "cli_main E X K argv =
     (case parse_args cli_parser argv of
        Inl status \<Rightarrow> pureA (Inr status)
      | Inr ns \<Rightarrow>
          main E X K (command_of (ce_path E) ns) (integer_of ns ''verbose'') (integer_of ns ''node_verbose''))"

end
