(* ===== verification/Cli_Parser_Properties.thy ===== *)
theory Cli_Parser_Properties
  imports Arg_Assignments Cli_Parser Cli_Safety
begin

text \<open>
  What the command line guarantees to the commands behind it: only complete commands run, and
  nothing that can be typed corrupts the durable store.
\<close>

subsection \<open>The declaration is sound\<close>

text \<open>Texts given by literals are compared as literals.\<close>

lemma lit_eq: "(lit s = lit t) = (s = t)"
  by (simp add: lit_def inj_map_eq_map inj_on_def)

lemma char_45: "(of_char c = (45::nat)) = (c = CHR ''-'')" "(of_char c = (61::nat)) = (c = CHR ''='')"
  using of_char_eq_iff [where ?'a = nat, of c "CHR ''-''"] of_char_eq_iff [where ?'a = nat, of c "CHR ''=''"]
  by simp_all

lemma dest_of_lit:
  "dest_of (lit s) = lit (map (\<lambda>c. if c = CHR ''-'' then CHR ''_'' else c) (dropWhile (\<lambda>c. c = CHR ''-'') s))"
  by (simp add: dest_of_def lit_def dropWhile_map comp_def char_45 if_distrib [of of_char])

lemma starts_with_lit:
  "starts_with (lit p) (lit s) = (take (length p) s = p)"
  "starts_with [45] (lit s) = (take (length ''-'') s = ''-'')"
  "starts_with [45, 45] (lit s) = (take (length ''--'') s = ''--'')"
proof -
  show *: "starts_with (lit p) (lit s) = (take (length p) s = p)" for p
    by (simp add: starts_with_def lit_def take_map inj_map_eq_map inj_on_def)
  show "starts_with [45] (lit s) = (take (length ''-'') s = ''-'')"
    "starts_with [45, 45] (lit s) = (take (length ''--'') s = ''--'')"
    using * [of "''-''"] * [of "''--''"] by (simp_all add: lit_def)
qed

lemma equals_sign_lit: "(61 \<in> set (lit s)) = (CHR ''='' \<in> set s)"
  by (auto simp: lit_def char_45 image_iff)

lemmas option_builders = option_of_def required_def with_default_def of_type_def with_dest_def
  help_option_def verbose_option_def config_option_def provider_urls_option_def endpoint_option_def

lemmas option_lists = client_options_def add_network_args_def add_datastore_args_def
  add_bundle_draft_common_def node_options_def draft_identity_options_def draft_provider_options_def
  sign_options_def merge_options_def finalize_options_def put_provider_options_def
  put_identity_options_def get_provider_options_def get_identity_options_def
  withdraw_provider_options_def keygen_options_def

lemmas parsers = cli_parser_def command_parsers_def bundle_parsers_def leaf_def branch_def

lemmas literal = lit_eq dest_of_lit starts_with_lit equals_sign_lit

lemma cli_parser_ok: "parser_ok cli_parser"
  by (simp add: parsers option_lists option_builders literal level_ok_def option_ok_def level_dests_def
      stored_def)

lemma cli_parser_clear: "clear [] cli_parser"
  by (simp add: parsers option_lists option_builders literal names_ok_def ambiguous_def option_strings_def
      long_name_def)

subsection \<open>Complete commands\<close>

fun complete_command :: "command \<Rightarrow> bool" where
  "complete_command (Node _) = True"
| "complete_command (Keygen _) = True"
| "complete_command (Bundle (Draft a)) =
     (da_record_type a \<in> {lit ''identity'', lit ''provider''} \<and>
      map_of operation_names (da_operation a) \<noteq> None \<and> da_signers a \<noteq> [])"
| "complete_command (Bundle (Sign _ _ _)) = True"
| "complete_command (Bundle (Merge _ proofs _)) = (proofs \<noteq> [])"
| "complete_command (Bundle (Finalize _ _)) = True"
| "complete_command (Bundle Other_action) = False"
| "complete_command (Put t _) = (t \<noteq> Other_type)"
| "complete_command (Get t _) = (t \<noteq> Other_type)"
| "complete_command (Withdraw t _) = (t = Provider_type)"
| "complete_command Other_command = False"

lemma the_text_iff: "ns (lit k) = Some (Text_value s) \<Longrightarrow> the_text ns k = s"
  by (simp add: the_text_def text_of_def)

lemma admitted_list:
  "level_conforms opts ns \<Longrightarrow> a \<in> set opts \<Longrightarrow> op_kind a = Append \<Longrightarrow> op_required a \<Longrightarrow>
   op_dest a = lit k \<Longrightarrow> the_list ns k \<noteq> []"
  by (fastforce simp: level_conforms_def stored_def admitted_def given.simps the_list_def list_of_def)

lemma admitted_choice:
  assumes "level_conforms opts ns" and "a \<in> set opts" and "op_kind a = Store" and "op_dest a = lit k"
    and "op_choices a = Some cs" and "op_default a = Some (Text_value d)" and "d \<in> set cs"
  shows "the_text ns k \<in> set cs"
proof -
  obtain v where v: "ns (lit k) = Some v" "admitted a v"
    using assms(1-4) by (fastforce simp: level_conforms_def stored_def)
  then have "v \<in> Text_value ` set cs"
    using assms(3,5-7) by (auto simp: admitted_def given.simps get_value_def split: option.splits if_splits)
  then show ?thesis using v the_text_iff by fastforce
qed

definition signer_option :: arg_option where
  "signer_option = required (option_of Append ''--signer'')"

definition operation_option :: arg_option where
  "operation_option = with_default (Text_value (lit ''genesis''))
     ((option_of Store ''--operation'')\<lparr>op_choices := Some (sort (map fst operation_names))\<rparr>)"

definition proof_option :: arg_option where
  "proof_option = required (option_of Append ''--proof'')"

lemma draft_conforms:
  assumes "level_conforms opts ns" and "{signer_option, operation_option} \<subseteq> set opts"
  shows "the_list ns ''signer'' \<noteq> []" and "map_of operation_names (the_text ns ''operation'') \<noteq> None"
proof -
  show "the_list ns ''signer'' \<noteq> []"
    using assms by (intro admitted_list [of opts ns signer_option])
      (simp_all add: signer_option_def required_def option_of_def literal)
  have "lit ''genesis'' \<in> fst ` set operation_names" by code_simp
  then have "the_text ns ''operation'' \<in> set (sort (map fst operation_names))"
    using assms by (intro admitted_choice [of opts ns operation_option])
      (auto simp: operation_option_def with_default_def option_of_def literal)
  then show "map_of operation_names (the_text ns ''operation'') \<noteq> None"
    by (simp add: map_of_eq_None_iff)
qed

lemma draft_leaf:
  assumes "conforms (Arg_Parser [help_option] (Some (lit ''record_type'',
      [leaf ''identity'' draft_identity_options, leaf ''provider'' draft_provider_options]))) ns"
  shows "complete_command (Bundle (Draft (draft_args_of P ns)))"
proof -
  obtain n p where np: "(n, p) \<in> set [leaf ''identity'' draft_identity_options,
      leaf ''provider'' draft_provider_options]" "conforms p ns"
    and n: "ns (lit ''record_type'') = Some (Text_value n)"
    using assms unfolding conforms_branch by blast
  then have t: "the_text ns ''record_type'' \<in> {lit ''identity'', lit ''provider''}"
    by (auto simp: leaf_def the_text_iff)
  have "\<exists>opts \<in> {draft_identity_options, draft_provider_options}. level_conforms opts ns"
    using np by (auto simp: leaf_def conforms_leaf)
  then obtain opts where opts: "opts \<in> {draft_identity_options, draft_provider_options}"
    "level_conforms opts ns" by blast
  have "{signer_option, operation_option} \<subseteq> set opts"
    using opts(1) by (auto simp: draft_identity_options_def draft_provider_options_def add_bundle_draft_common_def
        signer_option_def operation_option_def)
  from draft_conforms [OF opts(2) this] t show ?thesis by (simp add: draft_args_of_def)
qed

lemma bundle_branch:
  assumes "conforms (Arg_Parser [help_option] (Some (lit ''bundle_action'', bundle_parsers))) ns"
  shows "complete_command (Bundle (bundle_action_of P ns))"
proof -
  have names: "lit ''sign'' \<noteq> lit ''draft''" "lit ''merge'' \<noteq> lit ''draft''" "lit ''merge'' \<noteq> lit ''sign''"
    "lit ''finalize'' \<noteq> lit ''draft''" "lit ''finalize'' \<noteq> lit ''sign''" "lit ''finalize'' \<noteq> lit ''merge''"
    by code_simp+
  obtain n p where np: "(n, p) \<in> set bundle_parsers" "conforms p ns" and n: "the_text ns ''bundle_action'' = n"
    using assms by (auto simp: conforms_branch dest: the_text_iff)
  from np(1) consider
      (draft) "n = lit ''draft''" "p = Arg_Parser [help_option] (Some (lit ''record_type'',
        [leaf ''identity'' draft_identity_options, leaf ''provider'' draft_provider_options]))"
    | (merge) "n = lit ''merge''" "p = Arg_Parser merge_options None"
    | (others) "n \<in> {lit ''sign'', lit ''finalize''}"
    by (auto simp: bundle_parsers_def leaf_def branch_def)
  then show ?thesis
  proof cases
    case draft
    then show ?thesis using draft_leaf np(2) n by (simp add: bundle_action_of_def)
  next
    case merge
    then have "the_list ns ''proof'' \<noteq> []"
      using np(2) by (intro admitted_list [of merge_options ns proof_option])
        (simp_all add: conforms_leaf merge_options_def proof_option_def required_def option_of_def literal)
    with merge n names show ?thesis by (simp add: bundle_action_of_def Let_def)
  next
    case others
    with n names show ?thesis by (auto simp: bundle_action_of_def Let_def)
  qed
qed

lemma record_type_of_name:
  "ns (lit ''record_type'') = Some (Text_value (lit ''provider'')) \<Longrightarrow> record_type_of ns = Provider_type"
  "ns (lit ''record_type'') = Some (Text_value (lit ''identity'')) \<Longrightarrow> record_type_of ns = Identity_type"
proof -
  have "lit ''identity'' \<noteq> lit ''provider''" by code_simp
  then show "ns (lit ''record_type'') = Some (Text_value (lit ''provider'')) \<Longrightarrow> record_type_of ns = Provider_type"
    "ns (lit ''record_type'') = Some (Text_value (lit ''identity'')) \<Longrightarrow> record_type_of ns = Identity_type"
    by (simp_all add: record_type_of_def the_text_iff Let_def)
qed

lemma conforms_complete:
  assumes "conforms cli_parser ns"
  shows "complete_command (command_of P ns)"
proof -
  have names: "lit ''keygen'' \<noteq> lit ''node''" "lit ''bundle'' \<noteq> lit ''node''" "lit ''bundle'' \<noteq> lit ''keygen''"
    "lit ''put'' \<notin> lit ` {''node'', ''keygen'', ''bundle''}" "lit ''get'' \<notin> lit ` {''node'', ''keygen'', ''bundle'', ''put''}"
    "lit ''withdraw'' \<notin> lit ` {''node'', ''keygen'', ''bundle'', ''put'', ''get''}"
    by code_simp+
  obtain n p where np: "(n, p) \<in> set command_parsers" "conforms p ns" and n: "the_text ns ''cmd'' = n"
    using assms by (auto simp: cli_parser_def conforms_branch dest: the_text_iff)
  from np(1) consider
      (plain) "n \<in> {lit ''node'', lit ''keygen''}"
    | (bundles) "n = lit ''bundle''" "p = Arg_Parser [help_option] (Some (lit ''bundle_action'', bundle_parsers))"
    | (client) "n \<in> {lit ''put'', lit ''get''}" "\<exists>os os'. p = Arg_Parser [help_option]
        (Some (lit ''record_type'', [leaf ''provider'' os, leaf ''identity'' os']))"
    | (withdraw) "n = lit ''withdraw''" "p = Arg_Parser [help_option]
        (Some (lit ''record_type'', [leaf ''provider'' withdraw_provider_options]))"
    by (auto simp: command_parsers_def leaf_def branch_def)
  then show ?thesis
  proof cases
    case plain
    with n names show ?thesis by (auto simp: command_of_def Let_def)
  next
    case bundles
    with n names np(2) show ?thesis by (simp add: command_of_def Let_def bundle_branch)
  next
    case client
    then have "record_type_of ns \<noteq> Other_type"
      using np(2) by (auto simp: conforms_branch leaf_def record_type_of_name)
    with client(1) n names show ?thesis by (auto simp: command_of_def Let_def)
  next
    case withdraw
    then have "record_type_of ns = Provider_type"
      using np(2) by (auto simp: conforms_branch leaf_def record_type_of_name)
    with withdraw(1) n names show ?thesis by (auto simp: command_of_def Let_def)
  qed
qed

subsection \<open>The process\<close>

text \<open>
  C20: only complete commands run. Whatever is typed, either the process ends with status 0 (after
  \<open>--help\<close>) or 2 (after an error) and nothing has been read, written or sent; or a command runs
  that the dispatch knows: with a known record type, and a bundle command with a known action, a
  known operation, at least one signer to draft for and at least one proof to merge.
\<close>
theorem only_complete_commands_run:
  "(\<exists>status \<in> {0, 2}. cli_main E X K argv = pureA (Inr status)) \<or>
   (\<exists>cmd verbose node_verbose. complete_command cmd \<and>
      cli_main E X K argv = main E X K cmd verbose node_verbose)"
proof (cases "parse_args cli_parser argv")
  case (Inr ns)
  then show ?thesis
    using conforms_complete [OF parse_args_conforms [OF Inr cli_parser_ok]] by (auto simp: cli_main_def)
next
  case (Inl status)
  then have "status \<in> {0, 2}"
    using status_parse_args [of cli_parser argv] by (auto simp: status_ok_def)
  then show ?thesis using Inl by (auto simp: cli_main_def)
qed

text \<open>
  C19: nothing that can be typed corrupts the durable store. If every adapter a command may construct
  works on a store of validated Identity envelopes, then so does the one the process leaves: whatever
  the arguments, whether the command succeeds, reports failure or ends with an exception, and whatever
  peers do to the node while it waits.
\<close>
theorem cli_keeps_identity_store:
  assumes "\<And>listen p n k D. ce_deploy E listen p n k = Inr D \<Longrightarrow>
      store_safe (dp_adapter D) B seq_of \<and> network_through_hooks X (dp_adapter D) \<and>
      deployment_keeps (hook_step X (dp_adapter D))\<^sup>*\<^sup>* D \<and> identity_store_ok X B (nd_db (dp_node D))"
    and "identity_store_ok X B (nd_db (se_node (co_session c)))"
    and "cli_main E X K argv c = (r, c')"
  shows "identity_store_ok X B (nd_db (se_node (co_session c')))"
proof (cases "parse_args cli_parser argv")
  case (Inl status)
  then show ?thesis using assms(2,3) by (simp add: cli_main_def)
next
  case (Inr ns)
  then show ?thesis
    using main_keeps_identity_store [OF assms(1,2)] assms(3) by (auto simp: cli_main_def)
qed

end
