(* ===== verification/Cli_Usage.thy ===== *)
theory Cli_Usage
  imports Cli_Parser_Properties
begin

text \<open>
  What a command line means, without reference to how \<open>cli.py\<close> declares its parsers: for each command,
  the options that take a value, with the form of the value and whether it must be given, and the
  command that a line of \<open>--name=value\<close> stands for. The parser and the dispatch agree with it.
\<close>

subsection \<open>Usage\<close>

datatype subcommand =
    Run_node | Make_key
  | Draft_identity | Draft_provider | Sign_bundle | Merge_bundles | Finalize_bundle
  | Put_provider | Put_identity | Get_provider | Get_identity | Withdraw_provider

primrec command_words :: "subcommand \<Rightarrow> string list" where
  "command_words Run_node = [''node'']"
| "command_words Make_key = [''keygen'']"
| "command_words Draft_identity = [''bundle'', ''draft'', ''identity'']"
| "command_words Draft_provider = [''bundle'', ''draft'', ''provider'']"
| "command_words Sign_bundle = [''bundle'', ''sign'']"
| "command_words Merge_bundles = [''bundle'', ''merge'']"
| "command_words Finalize_bundle = [''bundle'', ''finalize'']"
| "command_words Put_provider = [''put'', ''provider'']"
| "command_words Put_identity = [''put'', ''identity'']"
| "command_words Get_provider = [''get'', ''provider'']"
| "command_words Get_identity = [''get'', ''identity'']"
| "command_words Withdraw_provider = [''withdraw'', ''provider'']"

text \<open>The form of a value: any text, an integer, a number, or one of some words.\<close>

datatype form = Any | Whole | Real | One_of "string list"

primrec fits :: "form \<Rightarrow> pstr \<Rightarrow> bool" where
  "fits Any s = True"
| "fits Whole s = (int_of_text s \<noteq> None)"
| "fits Real s = (float_of_text s \<noteq> None)"
| "fits (One_of ws) s = (s \<in> lit ` set ws)"

definition settings_usage :: "(string \<times> form \<times> bool) list" where
  "settings_usage =
     [(''--config'', Any, False), (''--host'', Any, False), (''--port'', Whole, False),
      (''--bootstrap'', Any, False), (''--datastore-path'', Any, False), (''--mapsize'', Whole, False)]"

definition draft_usage :: "(string \<times> form \<times> bool) list" where
  "draft_usage =
     [(''--owner-public-key'', Any, True), (''--seq'', Whole, True), (''--threshold'', Whole, False),
      (''--epoch'', Whole, False), (''--predecessor-state-hash'', Any, False),
      (''--operation'', One_of [''genesis'', ''ordinary-update'', ''replace-signers'', ''upgrade''], False),
      (''--signer'', Any, True), (''--output'', Any, True)]"

definition submission_usage :: "(string \<times> form \<times> bool) list" where
  "submission_usage =
     [(''--owner-privkey'', Any, False), (''--finalized-envelope'', Any, False), (''--seq'', Whole, False)]"

primrec usage :: "subcommand \<Rightarrow> (string \<times> form \<times> bool) list" where
  "usage Run_node = (''--run-seconds'', Real, False) # settings_usage"
| "usage Make_key = [(''--output'', Any, False)]"
| "usage Draft_identity = (''--owner-name'', Any, True) # draft_usage"
| "usage Draft_provider =
     [(''--object-hash'', Any, True), (''--provider-url'', Any, False),
      (''--replacement-object-hash'', Any, False), (''--endpoint'', Any, False), (''--alg'', Any, False)] @
     draft_usage"
| "usage Sign_bundle = [(''--input'', Any, True), (''--signer-privkey'', Any, True), (''--output'', Any, True)]"
| "usage Merge_bundles = [(''--input'', Any, True), (''--proof'', Any, True), (''--output'', Any, True)]"
| "usage Finalize_bundle = [(''--input'', Any, True), (''--output'', Any, True)]"
| "usage Put_provider =
     [(''--object-hash'', Any, True), (''--provider-url'', Any, False), (''--endpoint'', Any, False)] @
     submission_usage @ settings_usage"
| "usage Put_identity = (''--owner-name'', Any, True) # submission_usage @ settings_usage"
| "usage Get_provider = (''--object-hash'', Any, True) # settings_usage"
| "usage Get_identity = (''--owner-name'', Any, True) # settings_usage"
| "usage Withdraw_provider =
     [(''--object-hash'', Any, True), (''--replacement-object-hash'', Any, False)] @
     submission_usage @ settings_usage"

type_synonym typed = "(string \<times> pstr) list"

definition command_line :: "subcommand \<Rightarrow> typed \<Rightarrow> pstr list" where
  "command_line c asg = map lit (command_words c) @ map (\<lambda>(n, s). lit n @ 61 # s) asg"

definition acceptable :: "subcommand \<Rightarrow> typed \<Rightarrow> bool" where
  "acceptable c asg =
     (list_all (\<lambda>(n, s). list_ex (\<lambda>(m, f, _). m = n \<and> fits f s) (usage c)) asg \<and>
      list_all (\<lambda>(m, _, must). must \<longrightarrow> m \<in> fst ` set asg) (usage c))"

subsection \<open>Meaning\<close>

text \<open>All the values given under a name, and the last of them.\<close>

definition every :: "string \<Rightarrow> typed \<Rightarrow> pstr list" where
  "every n asg = map snd (filter (\<lambda>(m, _). m = n) asg)"

definition latest :: "string \<Rightarrow> typed \<Rightarrow> pstr option" where
  "latest n asg = (case every n asg of [] \<Rightarrow> None | ss \<Rightarrow> Some (last ss))"

definition text_or :: "pstr \<Rightarrow> string \<Rightarrow> typed \<Rightarrow> pstr" where
  "text_or d n asg = (case latest n asg of None \<Rightarrow> d | Some s \<Rightarrow> s)"

definition whole :: "string \<Rightarrow> typed \<Rightarrow> int option" where
  "whole n asg = Option.bind (latest n asg) int_of_text"

text \<open>On an acceptable line the value is an integer.\<close>

definition whole_or :: "int \<Rightarrow> string \<Rightarrow> typed \<Rightarrow> int" where
  "whole_or d n asg =
     (case latest n asg of None \<Rightarrow> d
      | Some s \<Rightarrow> (case int_of_text s of None \<Rightarrow> 0 | Some i \<Rightarrow> i))"

definition listed :: "string \<Rightarrow> typed \<Rightarrow> pstr list option" where
  "listed n asg = (case every n asg of [] \<Rightarrow> None | ss \<Rightarrow> Some ss)"

definition settings_meant :: "typed \<Rightarrow> overrides" where
  "settings_meant asg =
     \<lparr>ar_host = latest ''--host'' asg, ar_port = whole ''--port'' asg,
      ar_bootstrap = listed ''--bootstrap'' asg, ar_datastore_path = latest ''--datastore-path'' asg,
      ar_mapsize = whole ''--mapsize'' asg, ar_verbose = None,
      ar_owner_privkey = latest ''--owner-privkey'' asg\<rparr>"

definition client_meant :: "string \<Rightarrow> pstr list option \<Rightarrow> typed \<Rightarrow> client_args" where
  "client_meant name endpoint asg =
     \<lparr>ca_config = text_or (lit ''~/.decent/registry_cli.yaml'') ''--config'' asg,
      ca_overrides = settings_meant asg, ca_name = text_or [] name asg,
      ca_urls = listed ''--provider-url'' asg, ca_endpoint = endpoint, ca_seq = whole ''--seq'' asg,
      ca_replacement = latest ''--replacement-object-hash'' asg,
      ca_finalized = latest ''--finalized-envelope'' asg\<rparr>"

definition draft_meant :: "(pstr \<Rightarrow> path) \<Rightarrow> string \<Rightarrow> pstr \<Rightarrow> typed \<Rightarrow> draft_args" where
  "draft_meant P record alg asg =
     \<lparr>da_record_type = lit record, da_signers = every ''--signer'' asg,
      da_owner_public_key = text_or [] ''--owner-public-key'' asg,
      da_predecessor = text_or (replicate 64 48) ''--predecessor-state-hash'' asg,
      da_operation = text_or (lit ''genesis'') ''--operation'' asg,
      da_owner_name = text_or [] ''--owner-name'' asg, da_object_hash = text_or [] ''--object-hash'' asg,
      da_seq = whole_or 0 ''--seq'' asg, da_threshold = whole_or 2 ''--threshold'' asg,
      da_epoch = whole_or 1 ''--epoch'' asg, da_withdrawal = False,
      da_replacement = latest ''--replacement-object-hash'' asg, da_alg = text_or alg ''--alg'' asg,
      da_urls = listed ''--provider-url'' asg, da_endpoints = every ''--endpoint'' asg,
      da_output = P (text_or [] ''--output'' asg)\<rparr>"

primrec meant :: "(pstr \<Rightarrow> path) \<Rightarrow> subcommand \<Rightarrow> typed \<Rightarrow> command" where
  "meant P Run_node asg =
     Node \<lparr>na_config = text_or (lit ''~/.decent/registry.yaml'') ''--config'' asg,
           na_overrides = settings_meant asg,
           na_run_seconds = Option.bind (latest ''--run-seconds'' asg) float_of_text\<rparr>"
| "meant P Make_key asg = Keygen (text_or (lit ''owner_privkey.pem'') ''--output'' asg)"
| "meant P Draft_identity asg = Bundle (Draft (draft_meant P ''identity'' [] asg))"
| "meant P Draft_provider asg = Bundle (Draft (draft_meant P ''provider'' (lit ''Ed25519'') asg))"
| "meant P Sign_bundle asg =
     Bundle (Sign (P (text_or [] ''--input'' asg)) (P (text_or [] ''--signer-privkey'' asg))
       (P (text_or [] ''--output'' asg)))"
| "meant P Merge_bundles asg =
     Bundle (Merge (P (text_or [] ''--input'' asg)) (map P (every ''--proof'' asg))
       (P (text_or [] ''--output'' asg)))"
| "meant P Finalize_bundle asg =
     Bundle (Finalize (P (text_or [] ''--input'' asg)) (P (text_or [] ''--output'' asg)))"
| "meant P Put_provider asg =
     Put Provider_type (client_meant ''--object-hash'' (Some (every ''--endpoint'' asg)) asg)"
| "meant P Put_identity asg = Put Identity_type (client_meant ''--owner-name'' None asg)"
| "meant P Get_provider asg = Get Provider_type (client_meant ''--object-hash'' None asg)"
| "meant P Get_identity asg = Get Identity_type (client_meant ''--owner-name'' None asg)"
| "meant P Withdraw_provider asg =
     Withdraw Provider_type (client_meant ''--object-hash'' None asg)"

end
