(* ===== verification/Cli_Usage_Properties.thy ===== *)
theory Cli_Usage_Properties
  imports Cli_Usage
begin

text \<open>The parsers and the dispatch of \<open>cli.py\<close> agree with the usage and the meaning of the commands.\<close>

subsection \<open>Where the commands are declared\<close>

primrec options_at :: "subcommand \<Rightarrow> arg_option list" where
  "options_at Run_node = node_options"
| "options_at Make_key = keygen_options"
| "options_at Draft_identity = draft_identity_options"
| "options_at Draft_provider = draft_provider_options"
| "options_at Sign_bundle = sign_options"
| "options_at Merge_bundles = merge_options"
| "options_at Finalize_bundle = finalize_options"
| "options_at Put_provider = put_provider_options"
| "options_at Put_identity = put_identity_options"
| "options_at Get_provider = get_provider_options"
| "options_at Get_identity = get_identity_options"
| "options_at Withdraw_provider = withdraw_provider_options"

definition way_to :: "subcommand \<Rightarrow> (string \<times> string) list" where
  "way_to c =
     zip (case command_words c of
          [w] \<Rightarrow> [''cmd'']
        | w # ws \<Rightarrow> ''cmd'' # (if w = ''bundle'' then [''bundle_action'', ''record_type''] else [''record_type'']))
       (command_words c)"

abbreviation lits :: "(string \<times> string) list \<Rightarrow> (pstr \<times> pstr) list" where
  "lits way \<equiv> map (\<lambda>(d, n). (lit d, lit n)) way"

definition blank :: "namespace \<Rightarrow> bool" where
  "blank base = (\<forall>k. base k = None \<or> base k = Some No_value)"

lemma blank_simps [simp]:
  "blank Map.empty"
  "blank m \<Longrightarrow> blank (m(k \<mapsto> No_value))"
  "blank m \<Longrightarrow> blank n \<Longrightarrow> blank (m ++ n)"
proof -
  assume "blank m" "blank n"
  then have "m k = None \<or> m k = Some No_value" "n k = None \<or> n k = Some No_value" for k
    by (simp_all add: blank_def)
  then show "blank (m ++ n)" unfolding blank_def map_add_def by (metis option.simps(4,5))
qed (simp_all add: blank_def)

lemma blank_defaults: "blank (defaults [help_option])" "blank (defaults [help_option, verbose_option])"
  by (simp_all add: defaults_def help_option_def verbose_option_def option_of_def)

lemma command_declared:
  "\<exists>base. leaf_at cli_parser (lits (way_to c)) (options_at c) base \<and> blank base"
  by (cases c) (simp_all add: way_to_def cli_parser_def command_parsers_def bundle_parsers_def leaf_def
      branch_def leaf_at_branch leaf_at_leaf lit_eq blank_defaults del: defaults_simps(2))

lemma way_to_words: "map snd (lits (way_to c)) = map lit (command_words c)"
  by (cases c) (simp_all add: way_to_def)

subsection \<open>The declarations agree with the usage\<close>

definition option_named :: "arg_option list \<Rightarrow> string \<Rightarrow> arg_option" where
  "option_named opts n = hd (filter (\<lambda>a. long_name a = lit n) opts)"

primrec of_form :: "form \<Rightarrow> arg_option \<Rightarrow> bool" where
  "of_form Any a = (op_type a = Text \<and> op_choices a = None)"
| "of_form Whole a = (op_type a = Integer \<and> op_choices a = None)"
| "of_form Real a = (op_type a = Float \<and> op_choices a = None)"
| "of_form (One_of ws) a =
     (op_type a = Text \<and> (case op_choices a of None \<Rightarrow> False | Some cs \<Rightarrow> set cs = set (map lit ws)))"

definition declares :: "arg_option list \<Rightarrow> (string \<times> form \<times> bool) list \<Rightarrow> bool" where
  "declares opts u =
     (list_all (\<lambda>(n, f, must). list_ex (\<lambda>a. long_name a = lit n) opts \<and>
        (let a = option_named opts n in takes_argument a \<and> op_required a = must \<and> of_form f a)) u \<and>
      list_all (\<lambda>a. op_required a \<longrightarrow> list_ex (\<lambda>(n, _). lit n = long_name a) u) opts)"

text \<open>The fields of the builders.\<close>

lemma long_names:
  "long_name (option_of kind n) = lit n" "long_name (required a) = long_name a"
  "long_name (with_default v a) = long_name a" "long_name (of_type ty a) = long_name a"
  "long_name (with_dest d a) = long_name a" "long_name (a\<lparr>op_choices := cs\<rparr>) = long_name a"
  "long_name help_option = lit ''--help''" "long_name verbose_option = lit ''--verbose''"
  by (simp_all add: long_name_def option_builders)

lemma dests:
  "op_dest (option_of kind n) = dest_of (lit n)" "op_dest (required a) = op_dest a"
  "op_dest (with_default v a) = op_dest a" "op_dest (of_type ty a) = op_dest a"
  "op_dest (with_dest d a) = lit d"
  by (simp_all add: option_builders)

lemma kinds:
  "op_kind (option_of kind n) = kind" "op_kind (required a) = op_kind a"
  "op_kind (with_default v a) = op_kind a" "op_kind (of_type ty a) = op_kind a"
  "op_kind (with_dest d a) = op_kind a" "op_kind help_option = Help" "op_kind verbose_option = Count"
  by (simp_all add: option_builders)

lemma types:
  "op_type (option_of kind n) = Text" "op_type (required a) = op_type a"
  "op_type (with_default v a) = op_type a" "op_type (of_type ty a) = ty" "op_type (with_dest d a) = op_type a"
  "op_type help_option = Text" "op_type verbose_option = Text"
  by (simp_all add: option_builders)

lemma demands:
  "op_required (option_of kind n) = False" "op_required (required a) = True"
  "op_required (with_default v a) = op_required a" "op_required (of_type ty a) = op_required a"
  "op_required (with_dest d a) = op_required a" "\<not> op_required help_option" "\<not> op_required verbose_option"
  by (simp_all add: option_builders)

lemma choices:
  "op_choices (option_of kind n) = None" "op_choices (required a) = op_choices a"
  "op_choices (with_default v a) = op_choices a" "op_choices (of_type ty a) = op_choices a"
  "op_choices (with_dest d a) = op_choices a"
  by (simp_all add: option_builders)

lemmas declared = option_lists config_option_def provider_urls_option_def endpoint_option_def stored_def
  long_names dests kinds

lemma operation_words: "fst ` set operation_names =
    {lit ''genesis'', lit ''ordinary-update'', lit ''replace-signers'', lit ''upgrade''}"
  by (simp add: operation_names_def)

lemma usage_declared: "declares (options_at c) (usage c)"
  by (induction c) (simp_all add: declares_def option_named_def settings_usage_def draft_usage_def
      submission_usage_def declared types demands choices literal takes_argument_def operation_words)

lemma fits_value: "of_form f a \<Longrightarrow> fits f s = (\<exists>v. get_value a s = Inr v)"
  by (cases f) (auto simp: get_value_def split: option.splits)

lemma option_named_in:
  assumes "list_ex (\<lambda>a. long_name a = lit n) opts"
  shows "option_named opts n \<in> set opts" and "long_name (option_named opts n) = lit n"
proof -
  have "filter (\<lambda>a. long_name a = lit n) opts \<noteq> []"
    using assms by (auto simp: list_ex_iff filter_empty_conv)
  from hd_in_set [OF this] show "option_named opts n \<in> set opts" and "long_name (option_named opts n) = lit n"
    by (simp_all add: option_named_def)
qed

text \<open>The typed values as assignments to the declared options.\<close>

definition to_options :: "arg_option list \<Rightarrow> typed \<Rightarrow> (arg_option \<times> pstr) list" where
  "to_options opts asg = map (\<lambda>(n, s). (option_named opts n, s)) asg"

definition known_names :: "subcommand \<Rightarrow> typed \<Rightarrow> bool" where
  "known_names c asg = (\<forall>(n, s) \<in> set asg. n \<in> fst ` set (usage c))"

lemma usage_option:
  assumes "(n, f, must) \<in> set (usage c)"
  shows "option_named (options_at c) n \<in> set (options_at c)"
    and "long_name (option_named (options_at c) n) = lit n"
    and "takes_argument (option_named (options_at c) n)"
    and "op_required (option_named (options_at c) n) = must"
    and "of_form f (option_named (options_at c) n)"
  using usage_declared [of c] assms option_named_in
  by (fastforce simp: declares_def list_all_iff Let_def)+

lemma known_usage: "known_names c asg \<Longrightarrow> (n, s) \<in> set asg \<Longrightarrow> \<exists>f must. (n, f, must) \<in> set (usage c)"
  by (force simp: known_names_def)

lemma typed_line: "known_names c asg \<Longrightarrow>
    map assignment (to_options (options_at c) asg) = map (\<lambda>(n, s). lit n @ 61 # s) asg"
  by (auto simp: to_options_def assignment_def usage_option(2) dest!: known_usage)

lemma typed_command: "known_names c asg \<Longrightarrow>
    map snd (lits (way_to c)) @ map assignment (to_options (options_at c) asg) = command_line c asg"
  by (simp only: way_to_words typed_line command_line_def)

lemma typed_known:
  "known_names c asg \<Longrightarrow> \<forall>t \<in> set (to_options (options_at c) asg). known_assignment (options_at c) t"
  by (auto simp: to_options_def known_assignment_def usage_option(1,3) dest!: known_usage)

lemma command_levels: "names_ok (options_at c)" "level_ok (options_at c)"
proof -
  obtain base where leaf: "leaf_at cli_parser (lits (way_to c)) (options_at c) base"
    using command_declared by blast
  then show "names_ok (options_at c)" using clear_leaf cli_parser_clear by blast
  have "leaf_at p way opts base \<Longrightarrow> parser_ok p \<Longrightarrow> level_ok opts" for p way opts base
    by (induction rule: leaf_at.induct) (auto dest: parser_ok_sub)
  with leaf cli_parser_ok show "level_ok (options_at c)" by blast
qed

lemma same_option:
  "a \<in> set (options_at c) \<Longrightarrow> b \<in> set (options_at c) \<Longrightarrow> long_name a = long_name b \<Longrightarrow> a = b"
  using names_okD(1) [OF command_levels(1)] by (metis option.inject)

lemma typed_texts:
  assumes "known_names c asg" and "a \<in> set (options_at c)"
  shows "texts_for a (to_options (options_at c) asg) = map snd (filter (\<lambda>(n, _). lit n = long_name a) asg)"
proof -
  have eq: "(option_named (options_at c) (fst x) = a) = (lit (fst x) = long_name a)" if "x \<in> set asg" for x
    using known_usage [OF assms(1), of "fst x" "snd x"] that usage_option(1,2) same_option [OF assms(2)]
    by (metis prod.collapse)
  have "filter (\<lambda>x. option_named (options_at c) (fst x) = a) asg =
      filter (\<lambda>x. lit (fst x) = long_name a) asg"
    by (rule filter_cong [OF refl eq])
  then show ?thesis
    by (simp add: texts_for_def to_options_def filter_map comp_def case_prod_beta')
qed

lemma acceptable_valid:
  assumes "known_names c asg"
  shows "acceptable c asg \<longleftrightarrow>
    (\<forall>t \<in> set (to_options (options_at c) asg). valid_assignment (options_at c) t) \<and>
    (\<forall>a \<in> set (options_at c). op_required a \<longrightarrow> a \<in> fst ` set (to_options (options_at c) asg))"
proof -
  let ?opt = "option_named (options_at c)"
  have "list_ex (\<lambda>(m, f, _). m = n \<and> fits f s) (usage c) \<longleftrightarrow> valid_assignment (options_at c) (?opt n, s)"
    if t: "(n, s) \<in> set asg" for n s
  proof -
    obtain f must where u: "(n, f, must) \<in> set (usage c)" using known_usage [OF assms t] by blast
    have "fits f' s \<longleftrightarrow> fits f s" if "(n, f', must') \<in> set (usage c)" for f' must'
      using fits_value [OF usage_option(5) [OF that]] fits_value [OF usage_option(5) [OF u]] by simp
    moreover have "list_ex (\<lambda>(m, f, _). m = n \<and> fits f s) (usage c) \<longleftrightarrow>
        (\<exists>f' must'. (n, f', must') \<in> set (usage c) \<and> fits f' s)"
      by (auto simp: list_ex_iff)
    ultimately have "list_ex (\<lambda>(m, f, _). m = n \<and> fits f s) (usage c) \<longleftrightarrow> fits f s"
      using u by blast
    then show ?thesis
      using fits_value [OF usage_option(5) [OF u]] usage_option(1,3) [OF u] by (simp add: valid_assignment_def)
  qed
  then have "list_all (\<lambda>(n, s). list_ex (\<lambda>(m, f, _). m = n \<and> fits f s) (usage c)) asg \<longleftrightarrow>
      (\<forall>t \<in> set (to_options (options_at c) asg). valid_assignment (options_at c) t)"
    by (auto simp: list_all_iff to_options_def)
  moreover have "list_all (\<lambda>(m, _, must). must \<longrightarrow> m \<in> fst ` set asg) (usage c) \<longleftrightarrow>
      (\<forall>a \<in> set (options_at c). op_required a \<longrightarrow> a \<in> fst ` set (to_options (options_at c) asg))"
  proof (intro iffI ballI impI)
    fix a
    assume all: "list_all (\<lambda>(m, _, must). must \<longrightarrow> m \<in> fst ` set asg) (usage c)"
      and a: "a \<in> set (options_at c)" "op_required a"
    then obtain n f must where n: "(n, f, must) \<in> set (usage c)" "lit n = long_name a"
      using usage_declared [of c] by (fastforce simp: declares_def list_all_iff list_ex_iff)
    then have "?opt n = a" using usage_option(1,2) [OF n(1)] same_option [OF _ a(1)] by simp
    with all n(1) a(2) usage_option(4) [OF n(1)] have "n \<in> fst ` set asg" by (auto simp: list_all_iff)
    with \<open>?opt n = a\<close> show "a \<in> fst ` set (to_options (options_at c) asg)"
      by (force simp: to_options_def)
  next
    assume all: "\<forall>a \<in> set (options_at c). op_required a \<longrightarrow> a \<in> fst ` set (to_options (options_at c) asg)"
    have "m \<in> fst ` set asg" if m: "(m, f, True) \<in> set (usage c)" for m f
    proof -
      obtain n s where n: "(n, s) \<in> set asg" "?opt n = ?opt m"
        using all usage_option(1,4) [OF m] by (fastforce simp: to_options_def)
      then obtain f' must where "(n, f', must) \<in> set (usage c)" using known_usage [OF assms] by blast
      then have "lit n = lit m" using usage_option(2) [OF m] usage_option(2) n(2) by metis
      then show ?thesis using n(1) by (force simp: lit_eq)
    qed
    then show "list_all (\<lambda>(m, _, must). must \<longrightarrow> m \<in> fst ` set asg) (usage c)"
      by (auto simp: list_all_iff)
  qed
  ultimately show ?thesis by (simp add: acceptable_def)
qed

subsection \<open>What a namespace tells\<close>

text \<open>The value of an option for which the texts \<open>ss\<close> were given.\<close>

definition value_read :: "arg_option \<Rightarrow> pstr list \<Rightarrow> arg_value option" where
  "value_read a ss =
     (if ss = [] then op_default a
      else if op_kind a = Append then Some (List_value (default_list a @ ss))
      else converted (op_type a) (last ss))"

definition texts_typed :: "pstr \<Rightarrow> typed \<Rightarrow> pstr list" where
  "texts_typed l asg = map snd (filter (\<lambda>(n, _). lit n = l) asg)"

lemma texts_typed_lit [simp]: "texts_typed (lit n) asg = every n asg"
  by (simp add: texts_typed_def every_def lit_eq)

lemma assigned_read: "assigned a asg = Some v \<Longrightarrow> Some v = value_read a (texts_for a asg)"
  by (auto simp: assigned_def value_read_def Let_def get_value_def split: if_splits option.splits sum.splits)

definition tells :: "subcommand \<Rightarrow> typed \<Rightarrow> namespace \<Rightarrow> bool" where
  "tells c asg ns =
     (list_all (\<lambda>(d, n). ns (lit d) = Some (Text_value (lit n))) (way_to c) \<and>
      list_all (\<lambda>a. ns (op_dest a) = value_read a (texts_typed (long_name a) asg)) (stored (options_at c)) \<and>
      (\<forall>k. k \<notin> fst ` set (lits (way_to c)) \<union> set (level_dests (options_at c)) \<longrightarrow>
        ns k = None \<or> ns k = Some No_value))"

lemma acceptable_parsed:
  assumes "known_names c asg" and "acceptable c asg"
  shows "\<exists>ns. parse_args cli_parser (command_line c asg) = Inr ns \<and> tells c asg ns"
proof -
  obtain base where leaf: "leaf_at cli_parser (lits (way_to c)) (options_at c) base" and "blank base"
    using command_declared by blast
  let ?asg = "to_options (options_at c) asg"
  from acceptable_valid [OF assms(1)] assms(2)
  have "\<forall>t \<in> set ?asg. valid_assignment (options_at c) t"
    and "\<forall>a \<in> set (options_at c). op_required a \<longrightarrow> a \<in> fst ` set ?asg" by blast+
  from parse_assignments [OF leaf cli_parser_ok cli_parser_clear this, unfolded typed_command [OF assms(1)]]
  obtain ns where ns: "parse_known cli_parser (command_line c asg) = Inr (ns, [])"
    and asked: "as_asked (lits (way_to c)) (options_at c) ?asg base ns" by blast
  have "ns (op_dest a) = value_read a (texts_typed (long_name a) asg)" if "a \<in> set (stored (options_at c))" for a
  proof -
    have "a \<in> set (options_at c)" using that by (simp add: stored_def)
    then show ?thesis
      using asked that typed_texts [OF assms(1)] assigned_read by (fastforce simp: as_asked_def texts_typed_def)
  qed
  moreover have "ns (lit d) = Some (Text_value (lit n))" if "(d, n) \<in> set (way_to c)" for d n
    using asked that by (force simp: as_asked_def)
  moreover have "ns k = None \<or> ns k = Some No_value"
    if "k \<notin> fst ` set (lits (way_to c)) \<union> set (level_dests (options_at c))" for k
    using asked that \<open>blank base\<close> by (simp add: as_asked_def blank_def)
  ultimately have "tells c asg ns" by (auto simp: tells_def list_all_iff)
  with ns show ?thesis by (simp add: parse_args_def)
qed

lemma unacceptable_refused:
  assumes "known_names c asg" and "\<not> acceptable c asg"
  shows "parse_args cli_parser (command_line c asg) = usage_error"
proof -
  obtain base where leaf: "leaf_at cli_parser (lits (way_to c)) (options_at c) base"
    using command_declared by blast
  note refused = refuse_assignments [OF leaf cli_parser_ok cli_parser_clear typed_known [OF assms(1)],
    unfolded typed_command [OF assms(1)]]
  have "parse_known cli_parser (command_line c asg) = usage_error"
    using assms(2) acceptable_valid [OF assms(1)] by (intro refused) blast
  then show ?thesis by (simp add: parse_args_def)
qed

subsection \<open>Reading the namespace\<close>

definition as_text :: "arg_value option \<Rightarrow> pstr option" where
  "as_text v = (case v of Some (Text_value s) \<Rightarrow> Some s | _ \<Rightarrow> None)"

definition as_integer :: "arg_value option \<Rightarrow> int option" where
  "as_integer v = (case v of Some (Integer_value i) \<Rightarrow> Some i | _ \<Rightarrow> None)"

definition as_float :: "arg_value option \<Rightarrow> py_float option" where
  "as_float v = (case v of Some (Float_value x) \<Rightarrow> Some x | _ \<Rightarrow> None)"

definition as_list :: "arg_value option \<Rightarrow> pstr list option" where
  "as_list v = (case v of Some (List_value vs) \<Rightarrow> Some vs | _ \<Rightarrow> None)"

lemma readers:
  "text_of ns k = as_text (ns (lit k))" "integer_of ns k = as_integer (ns (lit k))"
  "float_of ns k = as_float (ns (lit k))" "list_of ns k = as_list (ns (lit k))"
  by (simp_all add: text_of_def integer_of_def float_of_def list_of_def as_text_def as_integer_def
      as_float_def as_list_def)

lemma read_nothing:
  assumes "v = None \<or> v = Some No_value"
  shows "as_text v = None" and "as_integer v = None" and "as_float v = None" and "as_list v = None"
    and "v \<noteq> Some (Bool_value b)"
  using assms by (auto simp: as_text_def as_integer_def as_float_def as_list_def)

definition last_of :: "pstr list \<Rightarrow> pstr option" where
  "last_of ss = (case ss of [] \<Rightarrow> None | _ \<Rightarrow> Some (last ss))"

definition list_of_all :: "pstr list \<Rightarrow> pstr list option" where
  "list_of_all ss = (case ss of [] \<Rightarrow> None | _ \<Rightarrow> Some ss)"

lemma last_of_simps [simp]: "last_of [] = None" "ss \<noteq> [] \<Longrightarrow> last_of ss = Some (last ss)"
  by (simp_all add: last_of_def split: list.split)

text \<open>What is read of each of the kinds of option that \<open>cli.py\<close> declares.\<close>

lemma read_text:
  "as_text (value_read (option_of Store n) ss) = last_of ss"
  "as_text (value_read (required (option_of Store n)) ss) = last_of ss"
  "as_text (value_read (with_default (Text_value d) (option_of Store n)) ss) =
     Some (case last_of ss of None \<Rightarrow> d | Some s \<Rightarrow> s)"
  "as_text (value_read (with_default (Text_value d) ((option_of Store n)\<lparr>op_choices := cs\<rparr>)) ss) =
     Some (case last_of ss of None \<Rightarrow> d | Some s \<Rightarrow> s)"
  by (simp_all add: value_read_def as_text_def option_builders)

lemma read_integer:
  "as_integer (value_read (of_type Integer (option_of Store n)) ss) = Option.bind (last_of ss) int_of_text"
  "as_integer (value_read (required (of_type Integer (option_of Store n))) ss) =
     Option.bind (last_of ss) int_of_text"
  "as_integer (value_read (with_default (Integer_value i) (of_type Integer (option_of Store n))) ss) =
     (case last_of ss of None \<Rightarrow> Some i | Some s \<Rightarrow> int_of_text s)"
  by (simp_all add: value_read_def as_integer_def option_builders split: option.split)

lemma read_float:
  "as_float (value_read (of_type Float (option_of Store n)) ss) = Option.bind (last_of ss) float_of_text"
  by (simp add: value_read_def as_float_def option_builders split: option.split)

lemma read_list:
  "as_list (value_read (option_of Append n) ss) = list_of_all ss"
  "as_list (value_read (required (option_of Append n)) ss) = list_of_all ss"
  "as_list (value_read (with_dest d (option_of Append n)) ss) = list_of_all ss"
  "as_list (value_read (with_default (List_value []) (option_of Append n)) ss) = Some ss"
  by (simp_all add: value_read_def as_list_def option_builders default_list_def list_of_all_def
      split: list.split)

lemma read_flags:
  "value_read (with_default (Bool_value b) (option_of Store_true n)) [] = Some (Bool_value b)"
  "as_integer (value_read (with_dest d verbose_option) []) = None"
  by (simp_all add: value_read_def as_integer_def option_builders)

lemmas reads = read_text read_integer read_float read_list read_flags

lemma typed_values:
  "last_of (every n asg) = latest n asg" "list_of_all (every n asg) = listed n asg"
  "(case latest n asg of None \<Rightarrow> d | Some s \<Rightarrow> s) = text_or d n asg"
  "Option.bind (latest n asg) int_of_text = whole n asg"
  "(case listed n asg of None \<Rightarrow> [] | Some ss \<Rightarrow> ss) = every n asg"
  "(case whole n asg of None \<Rightarrow> 0 | Some i \<Rightarrow> i) = whole_or 0 n asg"
  "(case (case latest n asg of None \<Rightarrow> Some i | Some s \<Rightarrow> int_of_text s) of None \<Rightarrow> 0 | Some i \<Rightarrow> i) =
     whole_or i n asg"
  by (simp_all add: last_of_def latest_def list_of_all_def listed_def text_or_def whole_def whole_or_def
      split: list.split option.split)

lemma not_typed: "known_names c asg \<Longrightarrow> n \<notin> fst ` set (usage c) \<Longrightarrow> every n asg = []"
  by (force simp: known_names_def every_def filter_empty_conv)

lemma not_typed_values:
  "every n asg = [] \<Longrightarrow> latest n asg = None" "every n asg = [] \<Longrightarrow> whole n asg = None"
  "every n asg = [] \<Longrightarrow> listed n asg = None" "every n asg = [] \<Longrightarrow> text_or d n asg = d"
  by (simp_all add: latest_def whole_def listed_def text_or_def)

text \<open>Attributes and options of other commands, which the dispatch or the meaning looks at.\<close>

primrec unset :: "subcommand \<Rightarrow> string list" where
  "unset Run_node = [''verbose'', ''owner_privkey'']"
| "unset Make_key = [''verbose'', ''node_verbose'']"
| "unset Draft_identity = [''verbose'', ''node_verbose'', ''object_hash'', ''withdrawal'',
     ''replacement_object_hash'', ''alg'', ''provider_urls'', ''endpoint'']"
| "unset Draft_provider = [''verbose'', ''node_verbose'', ''owner_name'']"
| "unset Sign_bundle = [''verbose'', ''node_verbose'']"
| "unset Merge_bundles = [''verbose'', ''node_verbose'']"
| "unset Finalize_bundle = [''verbose'', ''node_verbose'']"
| "unset Put_provider = [''verbose'', ''node_verbose'', ''replacement_object_hash'']"
| "unset Put_identity =
     [''verbose'', ''node_verbose'', ''replacement_object_hash'', ''provider_urls'', ''endpoint'']"
| "unset Get_provider = [''verbose'', ''node_verbose'', ''replacement_object_hash'', ''provider_urls'',
     ''endpoint'', ''owner_privkey'', ''seq'', ''finalized_envelope'']"
| "unset Get_identity = [''verbose'', ''node_verbose'', ''replacement_object_hash'', ''provider_urls'',
     ''endpoint'', ''owner_privkey'', ''seq'', ''finalized_envelope'']"
| "unset Withdraw_provider = [''verbose'', ''node_verbose'', ''provider_urls'', ''endpoint'']"

primrec unused :: "subcommand \<Rightarrow> string list" where
  "unused Run_node = [''--verbose'', ''--owner-privkey'']"
| "unused Make_key = []"
| "unused Draft_identity =
     [''--object-hash'', ''--replacement-object-hash'', ''--alg'', ''--provider-url'', ''--endpoint'']"
| "unused Draft_provider = [''--owner-name'', ''--withdrawal'']"
| "unused Sign_bundle = []"
| "unused Merge_bundles = []"
| "unused Finalize_bundle = []"
| "unused Put_provider = [''--replacement-object-hash'']"
| "unused Put_identity = [''--provider-url'', ''--replacement-object-hash'']"
| "unused Get_provider = [''--provider-url'', ''--replacement-object-hash'', ''--owner-privkey'', ''--seq'',
     ''--finalized-envelope'']"
| "unused Get_identity = [''--provider-url'', ''--replacement-object-hash'', ''--owner-privkey'', ''--seq'',
     ''--finalized-envelope'']"
| "unused Withdraw_provider = [''--provider-url'']"

lemma unset_elsewhere:
  "list_all (\<lambda>k. lit k \<notin> fst ` set (lits (way_to c)) \<union> set (level_dests (options_at c))) (unset c)"
  by (induction c) (simp_all add: way_to_def declared literal level_dests_def)

lemma unused_elsewhere: "list_all (\<lambda>n. n \<notin> fst ` set (usage c)) (unused c)"
  by (induction c) (simp_all add: settings_usage_def draft_usage_def submission_usage_def)

lemma not_set:
  assumes "tells c asg ns"
  shows "list_all (\<lambda>k. as_text (ns (lit k)) = None \<and> as_integer (ns (lit k)) = None \<and>
    as_list (ns (lit k)) = None \<and> ns (lit k) \<noteq> Some (Bool_value True)) (unset c)"
  unfolding list_all_iff
proof
  fix k
  assume "k \<in> set (unset c)"
  then have "ns (lit k) = None \<or> ns (lit k) = Some No_value"
    using unset_elsewhere [of c] assms unfolding tells_def list_all_iff by blast
  from read_nothing [OF this] show "as_text (ns (lit k)) = None \<and> as_integer (ns (lit k)) = None \<and>
    as_list (ns (lit k)) = None \<and> ns (lit k) \<noteq> Some (Bool_value True)" by blast
qed

lemma not_used: "known_names c asg \<Longrightarrow> list_all (\<lambda>n. every n asg = []) (unused c)"
  using unused_elsewhere [of c] not_typed by (auto simp: list_all_iff)

lemma told_values:
  "tells c asg ns \<Longrightarrow> list_all (\<lambda>a. ns (op_dest a) = value_read a (texts_typed (long_name a) asg))
    (stored (options_at c))"
  "tells c asg ns \<Longrightarrow> list_all (\<lambda>(d, n). ns (lit d) = Some (Text_value (lit n))) (way_to c)"
  by (simp_all add: tells_def)

lemmas commands = command_of_def record_args_of_def record_type_of_def client_args_of_def overrides_of_def
  bundle_action_of_def draft_args_of_def the_text_def the_list_def the_integer_def flag_of_def Let_def
  readers settings_meant_def client_meant_def draft_meant_def

lemma no_predecessor: "bytes_hex (zero_bytes 32) = replicate 64 48"
  by code_simp

lemmas meant_rules = declared literal way_to_def commands reads typed_values not_typed_values no_predecessor
  as_text_def [of "Some _"]

lemma meant_read:
  assumes "tells c asg ns" and "known_names c asg"
  shows "command_of P ns = meant P c asg \<and> integer_of ns ''verbose'' = None \<and>
    integer_of ns ''node_verbose'' = None"
proof -
  note told = told_values [OF assms(1)] not_set [OF assms(1)] not_used [OF assms(2)]
  show ?thesis
  proof (cases c)
    case Run_node
    with told show ?thesis by (simp add: meant_rules)
  next
    case Make_key
    with told show ?thesis by (simp add: meant_rules)
  next
    case Draft_identity
    with told show ?thesis by (simp add: meant_rules)
  next
    case Draft_provider
    with told show ?thesis by (simp add: meant_rules)
  next
    case Sign_bundle
    with told show ?thesis by (simp add: meant_rules)
  next
    case Merge_bundles
    with told show ?thesis by (simp add: meant_rules)
  next
    case Finalize_bundle
    with told show ?thesis by (simp add: meant_rules)
  next
    case Put_provider
    with told show ?thesis by (simp add: meant_rules)
  next
    case Put_identity
    with told show ?thesis by (simp add: meant_rules)
  next
    case Get_provider
    with told show ?thesis by (simp add: meant_rules)
  next
    case Get_identity
    with told show ?thesis by (simp add: meant_rules)
  next
    case Withdraw_provider
    with told show ?thesis by (simp add: meant_rules)
  qed
qed

subsection \<open>The process\<close>

text \<open>
  C21: every option that takes a value can be given as \<open>--name=value\<close> and means what it says, whatever the
  value looks like. Where every value has the form its option asks for and the required options are
  given, the process runs the command that the line stands for, with the last value given for an option
  or all of them where it collects them, with integers and numbers read as such, and with the
  documented defaults for the rest; otherwise it ends with status 2 and has done nothing.
\<close>
theorem assignments_mean_what_they_say:
  assumes "\<forall>(n, s) \<in> set asg. n \<in> fst ` set (usage c)"
  shows "cli_main E X K (command_line c asg) =
    (if acceptable c asg then main E X K (meant (ce_path E) c asg) None None else pureA (Inr 2))"
proof (cases "acceptable c asg")
  case True
  have known: "known_names c asg" using assms by (simp add: known_names_def)
  from acceptable_parsed [OF this True] obtain ns
    where "parse_args cli_parser (command_line c asg) = Inr ns" and "tells c asg ns" by blast
  with meant_read [OF this(2) known] True show ?thesis by (simp add: cli_main_def)
next
  case False
  then show ?thesis
    using unacceptable_refused [of c asg] assms by (simp add: cli_main_def known_names_def)
qed

end
