(* ===== verification/Cli_Samples.thy ===== *)
theory Cli_Samples
  imports Cli_Properties Cli_Usage_Properties
begin

text \<open>
  A concrete command line for the witnesses: the configuration of \<open>Config_Properties\<close>, a calm network,
  the node of \<open>Dht_Samples\<close>, and a directory with the finalised upgrade of the sample record.
\<close>

definition calm_routing :: "(nat, unit, ('db, 'v, 'n) node) routing" where
  "calm_routing = \<lparr>rt_now = (\<lambda>d. (0, d)), rt_add = (\<lambda>_ _. pureA (Inr True)),
     rt_find = (\<lambda>_ _. pureA (Inr [])), rt_size = (\<lambda>_. 0), rt_remove = (\<lambda>_. pureA (Inr ())),
     kad_mode = node_mode, kad_switch = (\<lambda>m. pureA (Inr m)),
     kad_handle = (\<lambda>sw. (Inr (), sw))\<rparr>"

definition calm_env :: "('db, 'v, 'n, nat, unit, pstr) session_env" where
  "calm_env =
     \<lparr>sv_routing = calm_routing, sv_table = (\<lambda>_. []), sv_durable = True,
      sv_path_exists = (\<lambda>_. False), sv_path_is_dir = (\<lambda>_. False), sv_path_suffix = ''.lmdb'',
      sv_mkdir = (\<lambda>_. pureA (Inr ())), sv_lmdb_open = (\<lambda>_. pureA (Inr ())),
      sv_open_db = (\<lambda>_. pureA (Inr ())), sv_lmdb_close = pureA (Inr ()),
      sv_host_enter = pureA (Inr ()), sv_host_exit = pureA (Inr ()), sv_kad_new = pureA (Inr ()),
      sv_register = pureA (Inr ()), sv_dht_enter = pureA (Inr ()), sv_dht_exit = pureA (Inr ()),
      sv_peer_info = Inr, sv_connect = (\<lambda>_. pureA (Inr ())), sv_find_self = pureA (Inr ()),
      sv_addrs = (\<lambda>_. [lit ''/ip4/127.0.0.1/tcp/8000''])\<rparr>"

type_synonym sample_net = "(pstr \<times> bytes) list \<times> (bytes \<Rightarrow> bytes option)"

definition sample_deployment ::
  "(map_db, bytes \<Rightarrow> bytes option, sample_net, nat, unit, pstr) deployment" where
  "sample_deployment =
     \<lparr>dp_env = calm_env, dp_adapter = sample_adapter, dp_node = sample_node db_legacy Map.empty,
      dp_peer_id = [81], dp_wait = (\<lambda>_. pureA (Inr ()))\<rparr>"

definition sample_cli :: "(map_db, bytes \<Rightarrow> bytes option, sample_net, nat, unit, pstr) cli_env" where
  "sample_cli =
     \<lparr>ce_yaml = sample_env, ce_deploy = (\<lambda>_ _ _ _. Inr sample_deployment), ce_path = Pair [],
      ce_directory = id, ce_new_key = ([7], [7]), ce_rival = id, ce_mode = 420,
      ce_csrng = sample_rng, ce_fresh = sample_fresh\<rparr>"

definition sample_console :: "(map_db, bytes \<Rightarrow> bytes option, sample_net, nat) console" where
  "sample_console =
     \<lparr>co_out = [], co_level = 30,
      co_files = \<lparr>kf_files = Map.empty(([], [102]) \<mapsto> ([13], 420)), kf_open = 0, kf_faults = []\<rparr>,
      co_session = new_session (sample_node db_legacy Map.empty)\<rparr>"

text \<open>\<open>put identity --owner-name 07 --finalized-envelope f\<close>.\<close>

definition sample_submission :: client_args where
  "sample_submission =
     \<lparr>ca_config = [], ca_overrides = sample_args\<lparr>ar_bootstrap := None\<rparr>, ca_name = [48, 55],
      ca_urls = None, ca_endpoint = None, ca_seq = None, ca_replacement = None,
      ca_finalized = Some [102]\<rparr>"

lemma sample_cli_parts [simp]:
  "ce_yaml sample_cli = sample_env" "ce_deploy sample_cli listen p n k = Inr sample_deployment"
  "ce_path sample_cli t = ([], t)" "ce_new_key sample_cli = ([7], [7])" "ce_rival sample_cli = id"
  "dp_env sample_deployment = calm_env" "dp_adapter sample_deployment = sample_adapter"
  "dp_node sample_deployment = sample_node db_legacy Map.empty"
  "dp_wait sample_deployment w = pureA (Inr ())"
  by (simp_all add: sample_cli_def sample_deployment_def)

lemma sample_submission_parts:
  "ca_config sample_submission = []" "ca_overrides sample_submission = sample_args\<lparr>ar_bootstrap := None\<rparr>"
  "ca_seq sample_submission = None" "ca_finalized sample_submission = Some [102]"
  "ar_owner_privkey sample_args = None"
  by (simp_all add: sample_submission_def sample_args_def)

abbreviation served_node :: "bool \<Rightarrow> sample_node" where
  "served_node b \<equiv> (sample_node db_legacy Map.empty)\<lparr>nd_server := b, nd_bootstrap := []\<rparr>"

lemma sample_unconditional_put:
  "dht_put_identity_record sample_ext sample_adapter (bytes_hex identity_key) [13] (served_node True) =
     (Inr (), (served_node True)\<lparr>nd_db := db_upgraded,
       nd_net := ([(kad_key Identity_kind (bytes_hex identity_key), [13])], Map.empty)\<rparr>)"
proof -
  let ?d = "served_node True"
  have heads: "read_identity_heads sample_ext sample_adapter None
      (bytes_hex identity_key) identity_key ?d = (Inr (None, Some [11], Some [11]), ?d)"
    by (simp add: read_identity_heads_def bindA_cases mapexcA_cases sample_node_def db_legacy_def
        sample_get select_newest_envelope_def read_dht_value_def tryA_cases)
  have chain: "identity_predecessor_chain sample_ext sample_adapter (bytes_hex identity_key)
      identity_key (Some [11]) ?d = (Inr (Some [[11]]), ?d)"
    by (simp add: identity_predecessor_chain_def bindA_cases sample_node_def db_legacy_def sample_get
        history_ending_at_def read_remote_identity_predecessor_chain_def walk_chain.simps
        sample_heads sample_predecessors max_history_entries_def max_history_bytes_def)
  have install: "durable_install sample_ext sample_adapter Identity_kind identity_key [13]
      (view_identity_overwrite sample_upgrade_result) None ?d = (Inr (), ?d\<lparr>nd_db := db_upgraded\<rparr>)"
    using sample_put_newer
    by (simp add: durable_install_def bindA_cases require_durable_identity_history_def lmdb_backend_def
        view_identity_overwrite_def sample_upgrade_result_def result_seq_and_state_hash_def
        wire_constants on_db_def sample_node_def identity_state_def db_legacy_def sample_get)
  have "put_accepted_identity sample_ext sample_adapter None (bytes_hex identity_key)
      identity_key [13] (Some [11]) ?d = (Inr (), ?d\<lparr>nd_db := db_upgraded,
       nd_net := ([(kad_key Identity_kind (bytes_hex identity_key), [13])], Map.empty)\<rparr>)"
    using install
    by (simp add: put_accepted_identity_def Let_def bindA_cases chain check_deadline_def sample_is_multisig
        sample_upgrade_overwrite publish_dht_value_def)
      (simp add: sample_node_def)
  then show ?thesis
    by (simp add: dht_put_identity_record_def put_identity_record_def bindA_cases fromhex_def
        heads check_expected_state_def sample_heads server_history_guard_def sample_is_multisig)
qed

lemma sample_settings:
  "\<exists>s. client_settings sample_env [] (sample_args\<lparr>ar_bootstrap := None\<rparr>) = Inr s \<and> cf_bootstrap s = []"
  by (simp add: client_settings_def load_client_config_def load_yaml_file_def load_sections_def
      get_or_def get_of_def optional_int_def coerce_int_def coerce_list_str_def expand_path_def
      apply_cli_overrides_to_client_def apply_overrides_def override_def override_path_def
      resolve_client_config_def resolve_config_def py_text_def sample_env_def sample_args_def sample_int
      default_host_def starts_with_def Let_def lit_def config.defs)

lemma sample_name: "derive_identity_object_hash sample_ext [48, 55] = Inr (bytes_hex identity_key)"
proof -
  have "fromhex [48, 55] = Inr [7]" by code_simp
  then show ?thesis
    by (simp add: derive_identity_object_hash_def parse_hex_bytes_def sample_ext_def toy_ext_def
        identity_key_def wrapE_def)
qed

lemma calm_start:
  "start_adapter calm_env (new_session d) = (Inr (), \<lparr>se_env = True, se_host_ctx = True,
     se_dht_ctx = True, se_dht = True,
     se_gate = \<lparr>gt_expires = [], gt_handler = nd_server d, gt_world = d\<rparr>\<rparr>)"
  by (simp add: start_adapter_def start_host_def set_up_dht_def start_dht_def store_open_def
      bindA_cases tryA_cases set_session_def on_node_def on_world_def install_gate_def
      install_dht_serving_eligibility_def init_eligibility_def register_handler_def
      new_session_def calm_env_def calm_routing_def node_mode_def)

lemma calm_stop:
  "stop_adapter calm_env \<lparr>se_env = True, se_host_ctx = True, se_dht_ctx = True, se_dht = x, se_gate = g\<rparr> =
     (Inr (), \<lparr>se_env = False, se_host_ctx = True, se_dht_ctx = True, se_dht = x, se_gate = g\<rparr>)"
  by (simp add: stop_adapter_def leave_context_def close_durable_def store_close_def
      bindA_cases tryA_cases set_session_def on_node_def on_world_def calm_env_def)

lemma sample_published:
  "\<exists>c'. main sample_cli sample_ext sample_keys (Put Identity_type sample_submission) None None
     sample_console = (Inr 0, c')"
proof -
  obtain s where s: "client_settings sample_env [] (sample_args\<lparr>ar_bootstrap := None\<rparr>) = Inr s"
    "cf_bootstrap s = []"
    using sample_settings by blast
  let ?a = "sample_submission\<lparr>ca_overrides := (ca_overrides sample_submission)\<lparr>ar_verbose := None\<rparr>\<rparr>"
  have a: "?a = sample_submission" by (simp add: sample_submission_def sample_args_def)
  have sub: "submission sample_env s sample_submission b m = Inr (if m then None else Some None)" for b m
    by (simp add: submission_def sample_submission_def)
  have call: "put_identity_call sample_cli sample_ext sample_keys sample_submission k sample_deployment fs
      (Some [13]) (served_node True) = (Inr (), (served_node True)\<lparr>nd_db := db_upgraded,
       nd_net := ([(kad_key Identity_kind (bytes_hex identity_key), [13])], Map.empty)\<rparr>)" for k fs
    using sample_unconditional_put
    by (simp add: put_identity_call_def put_identity_def put_identity_envelope_def sample_submission_def
        sample_name libp2p_dht_def)
  have "\<exists>c'. client_session sample_cli s (publish_envelope sample_cli (Some [102])
      (put_identity_call sample_cli sample_ext sample_keys sample_submission k))
      (sample_console\<lparr>co_level := l\<rparr>) = (Inr (), c')" for k l
    using s(2) call
    by (simp add: client_session_def construct_adapter_def make_datastore_def bindA_cases in_adapter_def
        on_session_def finallyA_cases publish_envelope_def read_finalized_def on_files_def read_cli_bytes_def
        os_read_def os_call_def mapexcA_cases service_def on_node_def on_world_def print_out_def wait_for_def
        sample_console_def calm_start calm_stop)
  note published = this
  have submit: "\<exists>c'. submit m (client_session sample_cli s (publish_envelope sample_cli (Some [102])
      (put_identity_call sample_cli sample_ext sample_keys sample_submission k)))
      (sample_console\<lparr>co_level := l\<rparr>) = (Inr 0, c')" for m k l
    using published [of k l] by (auto simp: submit_def tryA_cases bindA_cases)
  have "main sample_cli sample_ext sample_keys (Put Identity_type sample_submission) None None sample_console =
      submit ''put failed'' (client_session sample_cli s (publish_envelope sample_cli (Some [102])
        (put_identity_call sample_cli sample_ext sample_keys sample_submission None)))
        (sample_console\<lparr>co_level := log_level (Some (cf_verbosity s))\<rparr>)"
    by (simp add: main_def total_verbosity_def configure_logging_def put_identity_command_def
        submission_command_def a bindA_cases)
      (simp add: sample_submission_parts sub s bindA_cases)
  with submit show ?thesis by simp
qed

subsection \<open>Witnesses\<close>

theorem finalized_submission_published_witness:
  "\<exists>e m h d d'. kf_files (co_files sample_console) ([], [102]) = Some (e, m) \<and>
     derive_identity_object_hash sample_ext [48, 55] = Inr h \<and>
     dht_put_identity_record sample_ext sample_adapter h e d = (Inr (), d')"
proof -
  obtain c' where run: "main sample_cli sample_ext sample_keys (Put Identity_type sample_submission) None None
      sample_console = (Inr 0, c')"
    using sample_published by blast
  have "ca_name sample_submission = [48, 55]" by (simp add: sample_submission_def)
  with finalized_submission_published [OF sample_submission_parts(4) run] show ?thesis by fastforce
qed

theorem finalized_needs_no_key_witness:
  "main sample_cli sample_ext sample_keys (Put Identity_type sample_submission) None None =
   main sample_cli sample_ext (sample_keys\<lparr>key_load := \<lambda>_. Inl Os_error\<rparr>)
     (Put Identity_type sample_submission) None None"
  using finalized_needs_no_key [of sample_submission "Put Identity_type sample_submission"]
  by (simp add: sample_submission_parts)

lemma sample_deployment_hooks:
  "deployment_keeps (hook_step sample_ext (dp_adapter sample_deployment))\<^sup>*\<^sup>* sample_deployment"
  by (simp add: deployment_keeps_def calls_keep_def keeps_def) (simp add: calm_env_def calm_routing_def)

text \<open>\<open>put identity --config= --port=8001 --owner-name=07 --finalized-envelope=f\<close>.\<close>

definition sample_typed :: typed where
  "sample_typed =
     [(''--config'', []), (''--port'', lit ''8001''), (''--owner-name'', lit ''07''),
      (''--finalized-envelope'', lit ''f'')]"

definition sample_argv :: "pstr list" where
  "sample_argv = command_line Put_identity sample_typed"

lemma sample_typed_ok:
  "known_names Put_identity sample_typed" "acceptable Put_identity sample_typed"
proof -
  show "known_names Put_identity sample_typed"
    by (simp add: known_names_def sample_typed_def settings_usage_def submission_usage_def)
  have "int_of_text (lit ''8001'') = Some 8001" by code_simp
  then show "acceptable Put_identity sample_typed"
    by (simp add: acceptable_def sample_typed_def settings_usage_def submission_usage_def)
qed

lemma sample_meant: "meant P Put_identity sample_typed = Put Identity_type sample_submission"
proof -
  have "int_of_text (lit ''8001'') = Some 8001" "lit ''07'' = [48, 55]" "lit ''f'' = [102]" by code_simp+
  then show ?thesis
    by (simp add: client_meant_def settings_meant_def sample_typed_def every_def latest_def text_or_def
        whole_def listed_def sample_submission_def sample_args_def)
qed

lemma sample_cli_main:
  "cli_main sample_cli sample_ext sample_keys sample_argv =
   main sample_cli sample_ext sample_keys (Put Identity_type sample_submission) None None"
proof -
  obtain ns where "parse_args cli_parser sample_argv = Inr ns" and "tells Put_identity sample_typed ns"
    using acceptable_parsed [OF sample_typed_ok] by (auto simp: sample_argv_def)
  with meant_read [OF this(2) sample_typed_ok(1)] show ?thesis by (simp add: cli_main_def sample_meant [simplified])
qed

theorem cli_keeps_identity_store_witness:
  "\<exists>c'. cli_main sample_cli sample_ext sample_keys sample_argv sample_console = (Inr 0, c') \<and>
     identity_store_ok sample_ext (lmdb_backend sample_ext map_lmdb) (nd_db (se_node (co_session c')))"
proof -
  let ?B = "lmdb_backend sample_ext map_lmdb"
  obtain c' where run: "cli_main sample_cli sample_ext sample_keys sample_argv sample_console = (Inr 0, c')"
    using sample_published sample_cli_main by metis
  have ok: "identity_store_ok sample_ext ?B (nd_db (sample_node db_legacy Map.empty))"
    using sample_store_ok by (simp add: sample_node_def)
  have "identity_store_ok sample_ext ?B (nd_db (se_node (co_session c')))"
  proof (rule cli_keeps_identity_store [OF _ _ run])
    show "identity_store_ok sample_ext ?B (nd_db (se_node (co_session sample_console)))"
      using ok by (simp add: sample_console_def new_session_def)
    fix listen p n k D
    assume "ce_deploy sample_cli listen p n k = Inr D"
    then have "D = sample_deployment" by simp
    then show "store_safe (dp_adapter D) ?B (stored_seq sample_ext map_lmdb) \<and>
        network_through_hooks sample_ext (dp_adapter D) \<and>
        deployment_keeps (hook_step sample_ext (dp_adapter D))\<^sup>*\<^sup>* D \<and>
        identity_store_ok sample_ext ?B (nd_db (dp_node D))"
      using sample_store_safe sample_through_hooks sample_deployment_hooks ok by simp
  qed
  with run show ?thesis by blast
qed

text \<open>
  \<open>put identity --seq=4 --seq=-5 --owner-name=--\<close>: values that look like options, and a later one
  instead of an earlier one. With \<open>--seq=x\<close> behind them the line is refused.
\<close>

definition odd_typed :: typed where
  "odd_typed = [(''--seq'', lit ''4''), (''--seq'', lit ''-5''), (''--owner-name'', lit ''--'')]"

theorem assignments_mean_what_they_say_witness:
  "cli_main sample_cli sample_ext sample_keys (map lit [''put'', ''identity'', ''--seq=4'', ''--seq=-5'', ''--owner-name=--'']) =
     main sample_cli sample_ext sample_keys (Put Identity_type (client_meant ''--owner-name'' None odd_typed)) None None \<and>
   ca_seq (client_meant ''--owner-name'' None odd_typed) = Some (-5) \<and>
   ca_name (client_meant ''--owner-name'' None odd_typed) = lit ''--'' \<and>
   cli_main sample_cli sample_ext sample_keys (map lit [''put'', ''identity'', ''--seq=4'', ''--seq=-5'', ''--owner-name=--'', ''--seq=x'']) =
     pureA (Inr 2)"
proof -
  have ints: "int_of_text (lit ''4'') = Some 4" "int_of_text (lit ''-5'') = Some (-5)"
      "int_of_text (lit ''x'') = None"
    and line: "command_line Put_identity odd_typed =
      map lit [''put'', ''identity'', ''--seq=4'', ''--seq=-5'', ''--owner-name=--'']"
      "command_line Put_identity (odd_typed @ [(''--seq'', lit ''x'')]) =
      map lit [''put'', ''identity'', ''--seq=4'', ''--seq=-5'', ''--owner-name=--'', ''--seq=x'']"
    by code_simp+
  have accepted: "acceptable Put_identity odd_typed"
      "\<not> acceptable Put_identity (odd_typed @ [(''--seq'', lit ''x'')])"
    using ints by (simp_all add: acceptable_def odd_typed_def settings_usage_def submission_usage_def)
  have known: "\<forall>(n, s) \<in> set odd_typed. n \<in> fst ` set (usage Put_identity)"
      "\<forall>(n, s) \<in> set (odd_typed @ [(''--seq'', lit ''x'')]). n \<in> fst ` set (usage Put_identity)"
    by (simp_all add: odd_typed_def settings_usage_def submission_usage_def)
  have "ca_seq (client_meant ''--owner-name'' None odd_typed) = Some (-5)"
      "ca_name (client_meant ''--owner-name'' None odd_typed) = lit ''--''"
    using ints by (simp_all add: client_meant_def odd_typed_def whole_def latest_def every_def text_or_def)
  moreover note assignments_mean_what_they_say [OF known(1), of sample_cli sample_ext sample_keys]
    assignments_mean_what_they_say [OF known(2), of sample_cli sample_ext sample_keys]
  ultimately show ?thesis using accepted by (simp add: line)
qed

theorem node_key_persistent_witness:
  "\<exists>fs'. load_or_create_node_identity_key sample_cli sample_keys ([], [110]) (sample_dir []) =
       (Inr ([7], [7]), fs') \<and>
     load_or_create_node_identity_key sample_cli sample_keys ([], [110]) fs' = (Inr ([7], [7]), fs')"
proof -
  have law: "key_pair sample_keys (fst (ce_new_key sample_cli)) = Inr (ce_new_key sample_cli)"
    by (simp add: sample_keys_def)
  obtain fs' where run: "load_or_create_node_identity_key sample_cli sample_keys ([], [110]) (sample_dir []) =
      (Inr ([7], [7]), fs')" and "kf_faults fs' = []"
    by (simp add: load_or_create_node_identity_key_def os_exists_def os_call_def bindA_cases os_quiet_def
        create_node_key_def os_create_def finallyA_cases os_write_def append_file_def set_file_def
        os_close_def os_chmod_def sample_dir_def)
  with node_key_persistent [OF run law] run show ?thesis by blast
qed

end
