(* ===== verification/Spec2Isabelle.thy ===== *)
theory Spec2Isabelle
  imports Codec_Properties Legacy_Updates Record_Properties Validator_Properties Store_Properties
    Bundle_Finalization Builder_Properties Service_Properties Upgrade_Gap Dht_Head_Properties Dht_Properties
    Gate_Samples Inbound_Properties Eligibility_Properties Key_Properties Config_Properties
    Lifecycle_Properties Cli_Bundle_Properties Cli_Samples
begin

text \<open>
  A verification library for the \<open>decent_registry\<close> Python package (\<open>src/src/decent_registry\<close>):
  a registry of signed records that peers exchange over a Kademlia DHT. A record is an Identity
  Record (an owner name and the owner's Ed25519 key, stored under the SHA-256 digest of the
  name) or a Provider Record (where a stored object can be fetched, stored under the object's
  hash). A record is changed by publishing a signed envelope: a \<^emph>\<open>legacy\<close> envelope carries one
  signature by the owner's key, a \<^emph>\<open>multisignature\<close> envelope carries proofs by members of a
  Signer Set, and its update names the digest of the state it replaces.

  \<^bold>\<open>The parts and how they interact.\<close> An update is encoded canonically (\<open>encoding.py\<close>) and
  wrapped with its signatures (\<open>signed_envelope.py\<close>); the payload of a Provider Record follows
  \<open>provider_schema.py\<close>. \<open>verification.py\<close> decides whether an update may follow the current state
  of its record. \<open>record_validator.py\<close> picks the legacy or the multisignature rules from the
  shape of the envelope and rebuilds the current state from the stored envelope or its history.
  \<open>durable_store.py\<close> keeps the accepted envelopes. The adapter \<open>dht/libp2p_dht.py\<close> publishes to and
  reads from the DHT, validates what peers store, and makes it durable; \<open>dht/serving_eligibility.py\<close>
  lets only peers into its routing table that have shown that they serve. Signers assemble a
  multisignature envelope offline with \<open>multisig_bundle.py\<close>; \<open>envelope_builder.py\<close> makes legacy
  envelopes with a key that \<open>crypto_utils.py\<close> keeps in a file. \<open>registry_service.py\<close> is what
  applications call; \<open>cli.py\<close> is one, with the settings of \<open>config.py\<close>.

  \<^bold>\<open>Theories: the vocabulary.\<close>
  \<^item> \<open>Prelude\<close>: byte and text strings, the exception classes, results as sums with their
    inversion rules \<open>res_simps\<close>. \<open>Py_Values\<close>, \<open>Py_Text\<close>, \<open>Py_Utf8\<close>, \<open>Py_Net\<close>: the Python values,
    string operations (hexadecimal, UTF-8) and the parts of \<open>urllib\<close> and \<open>ipaddress\<close> the code uses.
    \<open>Py_Numbers\<close>: \<open>int\<close> and \<open>float\<close> of a text.
  \<^item> \<open>Actions\<close>: asynchronous code as functions of the state, with two ways to reason about it: the
    locale \<open>state_order\<close> (what every operation keeps) and the triples \<open>ensures\<close>.
  \<^item> \<open>Ext_Lib\<close>: the code outside the repository (the CBOR codec, SHA-256, Ed25519) as one record
    parameter \<open>X\<close>, with the documented behaviour that single theorems name as hypotheses.

  \<^bold>\<open>Theories: records and their rules.\<close>
  \<^item> \<open>Provider_Uri\<close>, \<open>Provider_Schema\<close>: \<open>provider_schema.py\<close>. \<open>Canonical_Cbor\<close>, \<open>Encoding\<close>:
    \<open>encoding.py\<close>. \<open>Signed_Envelope\<close>: \<open>signed_envelope.py\<close>. Each holds the definitions with the
    well-formedness predicates of what the decoders return. \<open>Wire_Codecs\<close> is the interface the
    wire formats share, a locale with its interpretations; \<open>Codec_Properties\<close> has the properties.
  \<^item> \<open>Verification\<close>: all of \<open>verification.py\<close>. \<open>seq_state\<close> is the dictionary of the legacy
    validators, \<open>multisig_state\<close> the dataclass \<open>MultisignatureState\<close>, \<open>candidate\<close> the tuple of a
    decoded envelope; each validator is one definition with the guards in the code's order.
  \<^item> \<open>Transitions\<close>: the abstract state machine. \<open>msig_step\<close> is the step relation (ordinary
    update, signer replacement, owner-key rotation), \<open>accepted_history\<close> the runs from a genesis
    or a legacy anchor, \<open>wf_state\<close> the invariant; lemmas show the validators to be exactly these
    steps. \<open>Histories\<close>: histories as hash chains. \<open>Record_Properties\<close> and \<open>Legacy_Updates\<close>: the
    properties of the two families of records.
  \<^item> \<open>Record_Validator\<close>: \<open>record_validator.py\<close>. \<open>Validator_Properties\<close>: an accepted overwrite is
    a step from the state the existing envelope stands for. \<open>Upgrade_Gap\<close>: an upgrade that is
    accepted and can never be read again.
  \<^item> \<open>Multisig_Bundle\<close>, \<open>Bundle_Properties\<close>, \<open>Bundle_Finalization\<close>: \<open>multisig_bundle.py\<close>;
    merging, serialising, and what the registry does with a finalised bundle.
  \<^item> \<open>Envelope_Builder\<close>, \<open>Builder_Properties\<close>: \<open>envelope_builder.py\<close>; what is built is accepted.

  \<^bold>\<open>Theories: nodes.\<close>
  \<^item> \<open>Storage_Backend\<close>: the contract of the conditional write, a locale over any store, with the
    monotonicity of its runs. \<open>Durable_Store\<close>: \<open>durable_store.py\<close> over a parameter for LMDB, and
    the interpretation. \<open>Store_Properties\<close>: the properties.
  \<^item> \<open>Dht_Heads\<close>: heads, keys and \<open>select\<close>; \<open>Dht_Acceptance\<close>: the \<open>node\<close>, the durable accesses, the
    value validator and the hooks on the value store; \<open>Dht_Adapter\<close>: the operations of
    \<open>Libp2pKadDHT\<close>. The value store, the backend and the network are the record \<open>adapter\<close>.
  \<^item> \<open>Dht_Head_Properties\<close>; \<open>Dht_Walk\<close>: the walk along predecessors ends and returns a hash chain;
    \<open>Dht_Invariants\<close>, \<open>Dht_Safety\<close>: what is written to the store has been validated;
    \<open>Dht_Registry\<close>: the node as a state machine, whose steps are the client operations and the
    hooks in any order; \<open>Dht_Conditional\<close>, \<open>Dht_Properties\<close>: the properties.
  \<^item> \<open>Dht_Frames\<close>, \<open>Dht_Streams\<close>: the bounded frames and the two stream proxies;
    \<open>Routing_Eligibility\<close>: the gate, over parameters for the routing table, the clock and the host.
    \<open>Frame_Properties\<close>, \<open>Stream_Properties\<close>, \<open>Inbound_Properties\<close>, \<open>Eligibility_Properties\<close>.
  \<^item> \<open>Dht_Lifecycle\<close>: a session, from \<open>__aenter__\<close> to \<open>__aexit__\<close>, with the opening and closing of
    the store. \<open>Lifecycle_Properties\<close>: what it holds and what it leaves behind, with the events that
    make it leak (a cancellation among them), each shown on a concrete session.

  \<^bold>\<open>Theories: applications.\<close>
  \<^item> \<open>Registry_Service\<close>, \<open>Service_Properties\<close>: \<open>registry_service.py\<close>; the \<open>RegistryDHT\<close> protocol
    is a record of state-passing operations, and \<open>Dht_Registry\<close> gives the adapter as one.
  \<^item> \<open>Key_Files\<close>, \<open>Key_Properties\<close>: \<open>crypto_utils.py\<close> over a file system in which every call may
    fail. \<open>Config\<close>, \<open>Config_Properties\<close>: \<open>config.py\<close>.
  \<^item> \<open>Arg_Parser\<close>: what \<open>argparse\<close> does with a declaration, as in CPython 3.11: an \<open>arg_parser\<close> is
    a tree of options and sub-commands, a call returns a \<open>namespace\<close> or an exit status. Its loop recurs
    on the remaining arguments. \<open>Arg_Parser_Properties\<close>: a namespace conforms to the declaration;
    \<open>Arg_Assignments\<close>: what \<open>--name=value\<close> means. \<open>Cli_Parser\<close>: the parsers that \<open>main\<close> builds and
    the command of a namespace; \<open>Cli_Parser_Properties\<close>: the process from its arguments to its end.
    \<open>Cli_Usage\<close>: the usage of every command and the meaning of a command line, written over the typed
    names and values alone; \<open>Cli_Usage_Properties\<close>: the parsers and the dispatch implement it.
  \<^item> \<open>Cli_Bundles\<close>, \<open>Cli_Commands\<close>: the commands of \<open>cli.py\<close>, over the \<open>console\<close>
    (output, logging level, files, session). \<open>Cli_Bundle_Properties\<close>: the \<open>bundle\<close> commands refine a
    specification on the contents of files; \<open>Cli_Safety\<close>: every command keeps the durable store;
    \<open>Cli_Properties\<close>: exit status, private keys, the node's own key.
  \<^item> \<open>Samples\<close>, \<open>Dht_Samples\<close>, \<open>Gate_Samples\<close>, \<open>Cli_Samples\<close>: a concrete \<open>X\<close>, small records, a
    node and a command line, on which the witnesses evaluate.

  \<^bold>\<open>Conventions.\<close> A Python \<open>bytes\<close> is a list of 8-bit words, a \<open>str\<close> a list of code points, an
  \<open>int\<close> an \<open>int\<close>. A value that arrives from outside the package is a \<open>pyval\<close>, and the code's
  \<open>isinstance\<close> tests are cases on it; Python's equality of \<open>1\<close>, \<open>True\<close> and \<open>1.0\<close> as dictionary
  keys is kept. An operation that can raise returns a sum: \<open>Inl\<close> the exception, \<open>Inr\<close> the value.
  Mutable state (the sequence state, the store's content, the node, the files) is passed and
  returned; an awaited call is a parameter that may change the state, which is how other tasks run
  meanwhile. Loops over lists are structural recursions. The scan of a frame, the decoding of UTF-8
  and the walk along predecessors recur on what is left of the input or of the walk's budget, with a
  proof of termination (\<open>scan_fields\<close>, \<open>utf8_string\<close>, \<open>walk_chain\<close>). Every definition is total
  and no fuel is used; the bounds that occur (a walk's number of envelopes and bytes, the size of a
  frame, the number of eligible peers) are those of the code.

  \<^bold>\<open>What is not modelled.\<close> The texts of the help and of the error messages of \<open>argparse\<close>, logging
  and the error stream, and how \<open>json.dumps\<close> renders a value; the experiments under \<open>scripts\<close>, which
  start nodes as processes. The concrete algorithms behind \<open>X\<close>, \<open>libp2p\<close>, \<open>trio\<close>, LMDB and YAML are
  third-party code and parameters. Deadlines are real numbers and \<open>float\<close> of a text is the
  fraction it denotes, without rounding to a double. Message texts keep the constant part that tells the errors
  apart; values formatted into them are dropped.
\<close>

end
